(* ===== verification/Rigor_Prelude.thy ===== *)
theory Rigor_Prelude imports Main "HOL-Library.Multiset" begin

text \<open>
  Shared vocabulary of the development: Python exceptions as values, results as sums,
  database tables as lists of records, and the lemmas about them that every component uses.

  Strings are lists of \<open>char\<close>; a \<open>char\<close> stands for one Python code point below 256.
  Times are integers, counted in microseconds (the resolution of a PostgreSQL \<open>timestamptz\<close>).
  A table is a list of rows in storage order: \<open>find\<close> is a lookup by primary key, \<open>filter\<close>
  a \<open>WHERE\<close>, \<open>sort_key\<close> an \<open>ORDER BY\<close>, \<open>take\<close> a \<open>LIMIT\<close>, \<open>update_where\<close> an
  \<open>UPDATE ... WHERE\<close>.
\<close>

named_theorems table_simps "lookups in updated tables"
named_theorems step_defs "definitions of the operations that a step relation lists"

section \<open>Exceptions and results\<close>

datatype exn_class =
    ValueErr | TypeErr | OverflowErr | RuntimeErr | KeyErr | AttributeErr
  | JSONDecodeErr | ValidationErr
  | ExecutionTransitionErr | ExecutionNotFoundErr | IdempotencyConflictErr
  | TrustedResultErr | IntegrityErr | TransportErr
  | ReviewWorkflowErr nat | PracticeNotFoundErr | PracticeTransitionErr | HttpErr nat
  | RunnerInputErr | RunnerInfrastructureErr | DatabaseErr | VercelSandboxErr

datatype exn = Exn (exn_class: exn_class) (exn_message: string)

type_synonym 'a result = "exn + 'a"

text \<open>
  The classes an \<open>except ValueError\<close> clause catches: in Python a \<open>JSONDecodeError\<close>, a
  pydantic \<open>ValidationError\<close> and the domain errors derived from \<open>ValueError\<close> are
  \<open>ValueError\<close>s too.
\<close>

fun is_value_error :: "exn_class \<Rightarrow> bool" where
  "is_value_error ValueErr = True"
| "is_value_error JSONDecodeErr = True"
| "is_value_error ValidationErr = True"
| "is_value_error ExecutionTransitionErr = True"
| "is_value_error IdempotencyConflictErr = True"
| "is_value_error TrustedResultErr = True"
| "is_value_error RunnerInputErr = True"
| "is_value_error _ = False"

definition res_bind :: "'a result \<Rightarrow> ('a \<Rightarrow> 'b result) \<Rightarrow> 'b result" where
  "res_bind r f = (case r of Inl e \<Rightarrow> Inl e | Inr x \<Rightarrow> f x)"

lemma res_bind_simps [simp]:
  "res_bind (Inl e) f = Inl e"
  "res_bind (Inr x) f = f x"
  by (simp_all add: res_bind_def)

lemma res_bind_Inr_iff: "res_bind r f = Inr y \<longleftrightarrow> (\<exists>x. r = Inr x \<and> f x = Inr y)"
  by (cases r) auto

lemma res_bind_InrE:
  assumes "res_bind r f = Inr y"
  obtains x where "r = Inr x" "f x = Inr y"
  using assms by (cases r) auto

fun res_map :: "('a \<Rightarrow> 'b result) \<Rightarrow> 'a list \<Rightarrow> 'b list result" where
  "res_map f [] = Inr []"
| "res_map f (x # xs) = res_bind (f x) (\<lambda>y. res_bind (res_map f xs) (\<lambda>ys. Inr (y # ys)))"

lemma res_map_Inr_length: "res_map f xs = Inr ys \<Longrightarrow> length ys = length xs"
  by (induction xs arbitrary: ys) (auto simp: res_bind_Inr_iff)

lemma res_map_Inr_set: "res_map f xs = Inr ys \<Longrightarrow> y \<in> set ys \<Longrightarrow> \<exists>x\<in>set xs. f x = Inr y"
  by (induction xs arbitrary: ys) (auto simp: res_bind_Inr_iff)

section \<open>Tables\<close>

type_synonym timestamp = int

definition update_where :: "('r \<Rightarrow> bool) \<Rightarrow> ('r \<Rightarrow> 'r) \<Rightarrow> 'r list \<Rightarrow> 'r list" where
  "update_where P f = map (\<lambda>r. if P r then f r else r)"

definition row_with :: "('r \<Rightarrow> 'k) \<Rightarrow> 'k \<Rightarrow> 'r list \<Rightarrow> 'r option" where
  "row_with key k = find (\<lambda>r. key r = k)"

lemma update_where_Nil [simp]: "update_where P f [] = []"
  by (simp add: update_where_def)

lemma update_where_Cons [simp]:
  "update_where P f (r # t) = (if P r then f r else r) # update_where P f t"
  by (simp add: update_where_def)

lemma length_update_where [simp]: "length (update_where P f t) = length t"
  by (simp add: update_where_def)

lemma set_update_where: "set (update_where P f t) = (\<lambda>r. if P r then f r else r) ` set t"
  by (simp add: update_where_def)

lemma in_update_whereE:
  assumes "r \<in> set (update_where P f t)"
  obtains s where "s \<in> set t" "r = (if P s then f s else s)"
  using assms by (auto simp: set_update_where)

lemma map_update_where_same:
  assumes "\<And>r. P r \<Longrightarrow> g (f r) = g r"
  shows "map g (update_where P f t) = map g t"
  using assms by (induction t) auto

lemma update_where_none: "(\<And>r. r \<in> set t \<Longrightarrow> \<not> P r) \<Longrightarrow> update_where P f t = t"
  by (induction t) auto

lemma keys_update_where:
  assumes "\<And>r. key (f r) = key r"
  shows "key ` {r \<in> set (update_where P f t). Q r} =
    key ` {r \<in> set t. if P r then Q (f r) else Q r}"
proof (induction t)
  case (Cons r t)
  have split: "{x \<in> set (y # u). R x} = (if R y then {y} else {}) \<union> {x \<in> set u. R x}"
    for y u and R :: "'a \<Rightarrow> bool"
    by auto
  show ?case unfolding update_where_Cons split image_Un Cons.IH by (simp add: assms)
qed simp

lemma keys_update_where_same:
  assumes "\<And>r. key (f r) = key r" "\<And>r. P r \<Longrightarrow> Q (f r) = Q r"
  shows "key ` {r \<in> set (update_where P f t). Q r} = key ` {r \<in> set t. Q r}"
  using assms by (subst keys_update_where) (auto intro!: arg_cong [where f = "\<lambda>A. key ` A"])

lemma row_with_Nil [simp]: "row_with key k [] = None"
  by (simp add: row_with_def)

lemma row_with_Cons [simp]:
  "row_with key k (r # t) = (if key r = k then Some r else row_with key k t)"
  by (simp add: row_with_def)

lemma row_with_append:
  "row_with key k (t @ u) = (case row_with key k t of Some r \<Rightarrow> Some r | None \<Rightarrow> row_with key k u)"
  by (induction t) auto

lemma row_with_SomeD: "row_with key k t = Some r \<Longrightarrow> key r = k \<and> r \<in> set t"
  by (induction t) (auto split: if_splits)

lemma row_with_None_iff: "row_with key k t = None \<longleftrightarrow> k \<notin> key ` set t"
  by (induction t) auto

lemma row_with_distinct:
  "distinct (map key t) \<Longrightarrow> r \<in> set t \<Longrightarrow> row_with key (key r) t = Some r"
  by (induction t) (auto simp: rev_image_eqI)

lemma row_with_update_where [table_simps]:
  assumes "\<And>r. key (f r) = key r"
  shows "row_with key k (update_where P f t) =
    map_option (\<lambda>r. if P r then f r else r) (row_with key k t)"
  using assms by (induction t) auto

lemma row_with_update_key:
  assumes "\<And>r. key (f r) = key r"
  shows "row_with key k (update_where (\<lambda>r. key r = j \<and> P r) f t) =
    (if k = j then map_option (\<lambda>r. if P r then f r else r) (row_with key k t)
     else row_with key k t)"
  using assms by (induction t) auto

lemma row_with_update_at:
  assumes "\<And>r. key (f r) = key r"
  shows "row_with key k (update_where (\<lambda>r. key r = j) f t) =
    (if k = j then map_option f (row_with key k t) else row_with key k t)"
  using assms by (induction t) auto

text \<open>A \<open>WHERE\<close> that fixes the primary key selects at most the row with that key.\<close>

lemma find_guard:
  assumes "distinct (map key t)" "\<And>r. G r \<Longrightarrow> key r = k"
  shows "find G t = (case row_with key k t of None \<Rightarrow> None | Some r \<Rightarrow> if G r then Some r else None)"
  using assms
proof (induction t)
  case (Cons r t)
  show ?case
  proof (cases "key r = k")
    case True
    then have "k \<notin> key ` set t" using Cons.prems(1) by auto
    then have "row_with key k t = None" by (simp only: row_with_None_iff) simp
    then show ?thesis using True Cons by simp
  next
    case False
    then show ?thesis using Cons by auto
  qed
qed simp

section \<open>Options\<close>

text \<open>SQL's two-argument \<open>COALESCE\<close> on nullable columns.\<close>

definition coalesce :: "'a option \<Rightarrow> 'a option \<Rightarrow> 'a option" where
  "coalesce x y = (case x of None \<Rightarrow> y | Some v \<Rightarrow> Some v)"

lemma coalesce_simps [simp]:
  "coalesce None y = y"
  "coalesce (Some v) y = Some v"
  by (simp_all add: coalesce_def)

text \<open>
  A SQL comparison with \<open>NULL\<close> is not true: \<open>sql_lt\<close> and \<open>sql_eq\<close> are what a \<open>WHERE\<close>
  makes of \<open>column < value\<close> and \<open>column = value\<close>.
\<close>

definition sql_lt :: "timestamp option \<Rightarrow> timestamp \<Rightarrow> bool" where
  "sql_lt c t = (case c of None \<Rightarrow> False | Some x \<Rightarrow> x < t)"

definition sql_gt :: "timestamp option \<Rightarrow> timestamp \<Rightarrow> bool" where
  "sql_gt c t = (case c of None \<Rightarrow> False | Some x \<Rightarrow> t < x)"

lemma sql_lt_simps [simp]: "\<not> sql_lt None t" "sql_lt (Some x) t \<longleftrightarrow> x < t"
  by (simp_all add: sql_lt_def)

lemma sql_gt_simps [simp]: "\<not> sql_gt None t" "sql_gt (Some x) t \<longleftrightarrow> t < x"
  by (simp_all add: sql_gt_def)

lemma sql_gt_not_lt: "sql_gt c t \<Longrightarrow> \<not> sql_lt c t"
  by (cases c) auto

text \<open>Python truthiness of an optional string: \<open>None\<close> and \<open>""\<close> are false.\<close>

definition truthy_str :: "string option \<Rightarrow> string option" where
  "truthy_str s = (case s of None \<Rightarrow> None | Some [] \<Rightarrow> None | Some (c # cs) \<Rightarrow> Some (c # cs))"

lemma truthy_str_None [simp]: "truthy_str None = None"
  by (simp add: truthy_str_def)

section \<open>Multisets of equal sorted lists\<close>

text \<open>Python's \<open>sorted(xs) == sorted(ys)\<close> on a totally ordered key is multiset equality.\<close>

lemma sort_eq_iff_mset:
  fixes xs ys :: "'a::linorder list"
  shows "sort xs = sort ys \<longleftrightarrow> mset xs = mset ys"
  by (metis mset_sort properties_for_sort sorted_sort)

lemma sum_list_map_filter_bool:
  "sum_list (map (\<lambda>x. if P x then 1 else (0::nat)) xs) = length (filter P xs)"
  by (induction xs) auto

end
