(* ===== verification/Py_Float.thy ===== *)
theory Py_Float imports Rigor_Prelude Complex_Main "HOL-Library.Log_Nat" begin

text \<open>
  Python's \<open>float\<close> arithmetic on finite values. A finite binary64 value is a rational number;
  \<open>fl\<close> rounds a rational to 53 significant bits, ties to even, which is what every
  \<open>+\<close>, \<open>-\<close>, \<open>*\<close>, \<open>/\<close> of the code does to the exact result. Overflow to infinity and
  subnormal results are left out: every component that uses \<open>fl\<close> states a bound that keeps
  its values far from both. \<open>round_half_even\<close> is Python's \<open>round(x)\<close>, \<open>py_round_nd\<close> its
  \<open>round(x, n)\<close>, which rounds the exact value of the float to \<open>n\<close> decimals and converts back.

  The locale \<open>rounding\<close> states the laws of a correctly rounded operation that the score
  computations rely on; it is interpreted on \<open>fl\<close>.
\<close>

section \<open>Rounding a rational to an integer, ties to even\<close>

definition round_half_even :: "rat \<Rightarrow> int" where
  "round_half_even x =
     (let n = \<lfloor>x\<rfloor>; f = x - of_int n in
      if f < 1 / 2 then n else if f > 1 / 2 then n + 1 else if even n then n else n + 1)"

lemma round_half_even_of_int [simp]: "round_half_even (of_int n) = n"
  by (simp add: round_half_even_def)

lemma round_half_even_numeral [simp]: "round_half_even (numeral k) = numeral k"
  using round_half_even_of_int [of "numeral k"] by simp

lemma round_half_even_zero [simp]: "round_half_even 0 = 0"
  using round_half_even_of_int [of 0] by simp

lemma round_half_even_one [simp]: "round_half_even 1 = 1"
  using round_half_even_of_int [of 1] by simp

lemma round_half_even_floor_ceiling:
  "\<lfloor>x\<rfloor> \<le> round_half_even x \<and> round_half_even x \<le> \<lfloor>x\<rfloor> + 1"
  by (simp add: round_half_even_def Let_def)

lemma round_half_even_mono:
  assumes "x \<le> y"
  shows "round_half_even x \<le> round_half_even y"
proof (cases "\<lfloor>x\<rfloor> = \<lfloor>y\<rfloor>")
  case True
  with assms show ?thesis by (auto simp: round_half_even_def Let_def)
next
  case False
  with assms have "\<lfloor>x\<rfloor> + 1 \<le> \<lfloor>y\<rfloor>"
    using floor_mono [OF assms] by linarith
  then show ?thesis
    using round_half_even_floor_ceiling [of x] round_half_even_floor_ceiling [of y] by linarith
qed

lemma round_half_even_error: "\<bar>of_int (round_half_even x) - x\<bar> \<le> 1 / 2"
  unfolding round_half_even_def Let_def
  by (auto simp: abs_if) (linarith | (use floor_correct [of x] in linarith))+

lemma round_half_even_le_of_int: "x \<le> of_int n \<Longrightarrow> round_half_even x \<le> n"
  using round_half_even_mono [of x "of_int n"] by simp

lemma round_half_even_ge_of_int: "of_int n \<le> x \<Longrightarrow> n \<le> round_half_even x"
  using round_half_even_mono [of "of_int n" x] by simp

section \<open>The binary exponent of a positive rational\<close>

definition binexp :: "rat \<Rightarrow> int" where
  "binexp x = (if 1 \<le> x then bitlen \<lfloor>x\<rfloor> - 1 else - bitlen (\<lceil>1 / x\<rceil> - 1))"

lemma power_int_nat: "0 \<le> k \<Longrightarrow> (2::rat) powi k = of_int (2 ^ nat k)"
  by (simp add: power_int_def)

lemma binexp_bounds_ge1:
  assumes "1 \<le> x"
  shows "(2::rat) powi binexp x \<le> x \<and> x < 2 powi (binexp x + 1)"
proof -
  let ?n = "\<lfloor>x\<rfloor>"
  have n: "1 \<le> ?n" using assms by linarith
  then have b: "2 ^ nat (bitlen ?n - 1) \<le> ?n" "?n < 2 ^ nat (bitlen ?n)"
    using bitlen_bounds [of ?n] by auto
  have pos: "1 \<le> bitlen ?n" using n bitlen_eq_zero_iff [of ?n] bitlen_nonneg [of ?n] by linarith
  have "of_int (2 ^ nat (bitlen ?n - 1)) \<le> x" using b(1) by linarith
  moreover have "x < of_int (2 ^ nat (bitlen ?n))"
    using b(2) by (metis floor_less_iff)
  ultimately show ?thesis
    using assms pos by (simp add: binexp_def power_int_nat del: of_int_power)
qed

lemma binexp_bounds_lt1:
  assumes "0 < x" "x < 1"
  shows "(2::rat) powi binexp x \<le> x \<and> x < 2 powi (binexp x + 1)"
proof -
  let ?m = "\<lceil>1 / x\<rceil> - 1"
  let ?k = "bitlen ?m"
  have gt: "1 < 1 / x" using assms by simp
  then have m: "1 \<le> ?m" by linarith
  have k: "1 \<le> ?k" using m bitlen_eq_zero_iff [of ?m] bitlen_nonneg [of ?m] by linarith
  have b: "2 ^ nat (?k - 1) \<le> ?m" "?m < 2 ^ nat ?k"
    using m bitlen_bounds [of ?m] by auto
  have "1 / x \<le> of_int (2 ^ nat ?k)" using b(2) by linarith
  then have up: "1 / x \<le> 2 powi ?k" using k by (simp add: power_int_nat)
  have "of_int (2 ^ nat (?k - 1)) < 1 / x" using b(1) by linarith
  then have lo: "2 powi (?k - 1) < 1 / x" using k by (simp add: power_int_nat)
  have "2 powi (- ?k) \<le> x"
    using up assms(1) by (simp add: power_int_minus field_simps)
  moreover have "x < 2 powi (1 - ?k)"
  proof -
    have "2 powi (1 - ?k) * 2 powi (?k - 1) = (1::rat)"
      by (simp flip: power_int_add)
    moreover have "0 < (2::rat) powi (?k - 1)" by simp
    moreover have "x * 2 powi (?k - 1) < 1" using lo assms(1) by (simp add: field_simps)
    ultimately show ?thesis by (metis mult_less_cancel_right_pos)
  qed
  ultimately show ?thesis using assms by (simp add: binexp_def add.commute)
qed

lemma binexp_bounds: "0 < x \<Longrightarrow> (2::rat) powi binexp x \<le> x \<and> x < 2 powi (binexp x + 1)"
  using binexp_bounds_ge1 [of x] binexp_bounds_lt1 [of x] by (cases "1 \<le> x") auto

lemma binexp_mono:
  assumes "0 < x" "x \<le> y"
  shows "binexp x \<le> binexp y"
proof (rule ccontr)
  assume "\<not> binexp x \<le> binexp y"
  then have "(2::rat) powi (binexp y + 1) \<le> 2 powi binexp x"
    by (intro power_int_increasing) auto
  then show False using binexp_bounds [of x] binexp_bounds [of y] assms by linarith
qed

section \<open>Rounding to 53 bits\<close>

definition fl_pos :: "rat \<Rightarrow> rat" where
  "fl_pos x = of_int (round_half_even (x * 2 powi (52 - binexp x))) * 2 powi (binexp x - 52)"

definition fl :: "rat \<Rightarrow> rat" where
  "fl x = (if x = 0 then 0 else if 0 < x then fl_pos x else - fl_pos (- x))"

lemma fl_zero [simp]: "fl 0 = 0"
  by (simp add: fl_def)

lemma powi_cancel: "(2::rat) powi (52 - e) * 2 powi (e - 52) = 1"
  by (simp flip: power_int_add)

lemma fl_pos_bounds:
  assumes "0 < x"
  shows "2 powi binexp x \<le> fl_pos x \<and> fl_pos x \<le> 2 powi (binexp x + 1)"
proof -
  let ?e = "binexp x"
  let ?s = "x * 2 powi (52 - ?e)"
  have "(2::rat) powi ?e * 2 powi (52 - ?e) \<le> ?s" "?s \<le> 2 powi (?e + 1) * 2 powi (52 - ?e)"
    using binexp_bounds [OF assms] by (simp_all add: mult_right_mono)
  then have "of_int (2 ^ 52) \<le> ?s" "?s \<le> of_int (2 ^ 53)"
    by (simp_all flip: power_int_add)
  then have "2 ^ 52 \<le> round_half_even ?s" "round_half_even ?s \<le> 2 ^ 53"
    by (blast intro: round_half_even_ge_of_int round_half_even_le_of_int)+
  then have r: "(2::rat) ^ 52 \<le> of_int (round_half_even ?s)" "of_int (round_half_even ?s) \<le> (2::rat) ^ 53"
    by (metis of_int_le_iff of_int_numeral of_int_power)+
  have "(2::rat) ^ 52 * 2 powi (?e - 52) = 2 powi ?e"
    using power_int_add [of "2::rat" 52 "?e - 52"] by (simp only: power_int_numeral) simp
  moreover have "(2::rat) ^ 53 * 2 powi (?e - 52) = 2 powi (?e + 1)"
    using power_int_add [of "2::rat" 53 "?e - 52"] by (simp only: power_int_numeral) (simp add: add.commute)
  ultimately show ?thesis
    using mult_right_mono [OF r(1), of "2 powi (?e - 52)"] mult_right_mono [OF r(2), of "2 powi (?e - 52)"]
    by (simp add: fl_pos_def)
qed

lemma fl_pos_mono:
  assumes "0 < x" "x \<le> y"
  shows "fl_pos x \<le> fl_pos y"
proof (cases "binexp x = binexp y")
  case True
  have "x * 2 powi (52 - binexp y) \<le> y * 2 powi (52 - binexp y)"
    using assms(2) by (simp add: mult_right_mono)
  then show ?thesis
    using True by (simp add: fl_pos_def round_half_even_mono mult_right_mono)
next
  case False
  with assms have "binexp x + 1 \<le> binexp y" using binexp_mono by fastforce
  then have "(2::rat) powi (binexp x + 1) \<le> 2 powi binexp y"
    by (intro power_int_increasing) auto
  then show ?thesis using fl_pos_bounds [of x] fl_pos_bounds [of y] assms by linarith
qed

lemma fl_pos_positive: "0 < x \<Longrightarrow> 0 < fl_pos x"
  using fl_pos_bounds [of x] by (meson less_le_trans zero_less_power_int zero_less_numeral)

lemma fl_mono: "x \<le> y \<Longrightarrow> fl x \<le> fl y"
  using fl_pos_mono [of x y] fl_pos_mono [of "- y" "- x"] fl_pos_positive [of y]
    fl_pos_positive [of "- x"]
  by (auto simp: fl_def)

text \<open>Every integer below \<open>2 ^ 53\<close> is a float, so rounding leaves it alone.\<close>

lemma fl_pos_of_int:
  assumes "0 < n" "n < 2 ^ 53"
  shows "fl_pos (of_int n) = of_int n"
proof -
  let ?e = "binexp (of_int n)"
  have "(2::rat) powi ?e \<le> of_int n" using binexp_bounds [of "of_int n"] assms by auto
  also have "(of_int n :: rat) < of_int (2 ^ 53)" using assms(2) by (simp only: of_int_less_iff)
  also have "(of_int (2 ^ 53) :: rat) = 2 powi 53" using power_int_nat [of 53] by simp
  finally have "\<not> 53 \<le> ?e" using power_int_increasing [of 53 ?e "2::rat"] by linarith
  then have e: "0 \<le> 52 - ?e" by linarith
  have "(of_int n :: rat) * 2 powi (52 - ?e) = of_int (n * 2 ^ nat (52 - ?e))"
    using e by (simp add: power_int_nat)
  then have "fl_pos (of_int n) = of_int n * 2 powi (52 - ?e) * 2 powi (?e - 52)"
    unfolding fl_pos_def by (simp only: round_half_even_of_int)
  then show ?thesis using powi_cancel [of ?e] by (simp add: mult.assoc)
qed

lemma fl_of_int: "\<bar>n\<bar> < 2 ^ 53 \<Longrightarrow> fl (of_int n) = of_int n"
  using fl_pos_of_int [of n] fl_pos_of_int [of "- n"] by (auto simp: fl_def)

text \<open>Halving is exact: it only moves the exponent.\<close>

lemma binexp_unique:
  assumes "0 < x" "(2::rat) powi e \<le> x" "x < 2 powi (e + 1)"
  shows "binexp x = e"
proof (rule ccontr)
  note b = binexp_bounds [OF assms(1)]
  assume "binexp x \<noteq> e"
  then have "binexp x + 1 \<le> e \<or> e + 1 \<le> binexp x" by linarith
  then show False
    using b assms(2,3) power_int_increasing [of "binexp x + 1" e "2::rat"]
      power_int_increasing [of "e + 1" "binexp x" "2::rat"] by linarith
qed

lemma powi_pred: "(2::rat) powi (k - 1) = 2 powi k / 2"
  by (simp add: power_int_diff)

lemma binexp_half: "0 < x \<Longrightarrow> binexp (x / 2) = binexp x - 1"
  using binexp_bounds [of x] powi_pred [of "binexp x"] powi_pred [of "binexp x + 1"]
  by (intro binexp_unique) auto

lemma fl_pos_half:
  assumes "0 < x"
  shows "fl_pos (x / 2) = fl_pos x / 2"
proof -
  have "(2::rat) powi (52 - binexp (x / 2)) = 2 powi (52 - binexp x) * 2"
    using powi_pred [of "53 - binexp x"] by (simp add: binexp_half [OF assms])
  then have s: "x / 2 * 2 powi (52 - binexp (x / 2)) = x * 2 powi (52 - binexp x)" by simp
  have "(2::rat) powi (binexp (x / 2) - 52) = 2 powi (binexp x - 52) / 2"
    using powi_pred [of "binexp x - 52"] by (simp add: binexp_half [OF assms] algebra_simps)
  then show ?thesis unfolding fl_pos_def s by simp
qed

lemma fl_half: "fl (x / 2) = fl x / 2"
  using fl_pos_half [of x] fl_pos_half [of "- x"] by (auto simp: fl_def)

text \<open>A rounded value is a float: rounding it again leaves it alone.\<close>

lemma fl_pos_grid:
  assumes "0 < y" "binexp y = e" "y * 2 powi (52 - e) = of_int n"
  shows "fl_pos y = y"
  using assms powi_cancel [of e] by (simp add: fl_pos_def) (metis mult.assoc mult.right_neutral)

lemma fl_pos_idem:
  assumes "0 < x"
  shows "fl_pos (fl_pos x) = fl_pos x"
proof -
  let ?e = "binexp x" and ?y = "fl_pos x"
  note b = fl_pos_bounds [OF assms]
  have pos: "0 < ?y" by (rule fl_pos_positive [OF assms])
  show ?thesis
  proof (cases "?y = 2 powi (?e + 1)")
    case True
    have "binexp ?y = ?e + 1"
      by (rule binexp_unique [OF pos]) (simp_all add: True power_int_add)
    moreover have "?y * 2 powi (52 - (?e + 1)) = of_int (2 ^ 52)"
      unfolding True by (simp flip: power_int_add)
    ultimately show ?thesis by (rule fl_pos_grid [OF pos])
  next
    case False
    then have "binexp ?y = ?e" using b by (intro binexp_unique [OF pos]) auto
    moreover have "?y * 2 powi (52 - ?e) = of_int (round_half_even (x * 2 powi (52 - ?e)))"
      using powi_cancel [of ?e] by (simp add: fl_pos_def mult.assoc mult.commute [of "2 powi (52 - ?e)"])
    ultimately show ?thesis by (rule fl_pos_grid [OF pos])
  qed
qed

lemma fl_idem [simp]: "fl (fl x) = fl x"
  using fl_pos_idem [of x] fl_pos_idem [of "- x"] fl_pos_positive [of x] fl_pos_positive [of "- x"]
  by (auto simp: fl_def)

section \<open>The laws of a correctly rounded operation\<close>

locale rounding =
  fixes rnd :: "rat \<Rightarrow> rat"
  assumes rnd_mono: "x \<le> y \<Longrightarrow> rnd x \<le> rnd y"
    and rnd_int: "\<bar>n\<bar> < 2 ^ 53 \<Longrightarrow> rnd (of_int n) = of_int n"
begin

lemma rnd_0: "rnd 0 = 0"
  using rnd_int [of 0] by simp

lemma rnd_1: "rnd 1 = 1"
  using rnd_int [of 1] by simp

lemma rnd_nonneg: "0 \<le> x \<Longrightarrow> 0 \<le> rnd x"
  using rnd_mono [of 0 x] rnd_0 by simp

lemma rnd_le_of_int: "x \<le> of_int n \<Longrightarrow> \<bar>n\<bar> < 2 ^ 53 \<Longrightarrow> rnd x \<le> of_int n"
  using rnd_mono [of x "of_int n"] rnd_int [of n] by simp

lemma rnd_ge_of_int: "of_int n \<le> x \<Longrightarrow> \<bar>n\<bar> < 2 ^ 53 \<Longrightarrow> of_int n \<le> rnd x"
  using rnd_mono [of "of_int n" x] rnd_int [of n] by simp

lemma rnd_le_1: "x \<le> 1 \<Longrightarrow> rnd x \<le> 1"
  using rnd_le_of_int [of x 1] by simp

text \<open>A quotient of two naturals, the smaller above, lies in the unit interval after rounding.\<close>

lemma rnd_share:
  assumes "0 \<le> p" "p \<le> t" "0 < t"
  shows "0 \<le> rnd (of_int p / of_int t) \<and> rnd (of_int p / of_int t) \<le> 1"
proof -
  have "of_int p / of_int t \<le> (1::rat)" using assms by (simp add: divide_le_eq)
  then show ?thesis using assms rnd_nonneg [of "of_int p / of_int t"] rnd_le_1 by simp
qed

lemma rnd_share_mono:
  assumes "p \<le> q" "0 < t"
  shows "rnd (of_int p / of_int t) \<le> rnd (of_int q / of_int t)"
  using assms by (intro rnd_mono) (simp add: divide_right_mono)

text \<open>Scaling a unit share by a small positive integer and rounding to an integer stays in range.\<close>

lemma scaled_share_bounds:
  assumes "0 \<le> s" "s \<le> 1" "0 \<le> k" "k < 2 ^ 53"
  shows "0 \<le> round_half_even (rnd (s * of_int k)) \<and> round_half_even (rnd (s * of_int k)) \<le> k"
proof -
  have "s * of_int k \<le> of_int k" using assms by (simp add: mult_left_le_one_le)
  then have "rnd (s * of_int k) \<le> of_int k" using assms by (intro rnd_le_of_int) auto
  moreover have "of_int 0 \<le> rnd (s * of_int k)" using assms rnd_nonneg [of "s * of_int k"] by simp
  ultimately show ?thesis
    using round_half_even_le_of_int round_half_even_ge_of_int by blast
qed

lemma scaled_share_mono:
  assumes "s \<le> u" "0 \<le> k"
  shows "round_half_even (rnd (s * of_int k)) \<le> round_half_even (rnd (u * of_int k))"
  using assms by (intro round_half_even_mono rnd_mono) (simp add: mult_right_mono)

end

interpretation binary64: rounding fl
  by unfold_locales (auto intro: fl_mono fl_of_int)

section \<open>Python's float operators on finite values\<close>

definition fadd :: "rat \<Rightarrow> rat \<Rightarrow> rat" where
  "fadd x y = fl (x + y)"

definition fmul :: "rat \<Rightarrow> rat \<Rightarrow> rat" where
  "fmul x y = fl (x * y)"

definition fdiv :: "rat \<Rightarrow> rat \<Rightarrow> rat" where
  "fdiv x y = fl (x / y)"

text \<open>Python's \<open>int / int\<close> is correctly rounded: one rounding of the exact quotient.\<close>

definition int_div :: "int \<Rightarrow> int \<Rightarrow> rat" where
  "int_div p t = fl (of_int p / of_int t)"

text \<open>A decimal literal of the source, such as \<open>0.55\<close>, is the nearest float.\<close>

definition lit :: "int \<Rightarrow> int \<Rightarrow> rat" where
  "lit p q = fl (of_int p / of_int q)"

lemma fmul_lit_1 [simp]: "fmul (lit p q) 1 = lit p q"
  by (simp add: fmul_def lit_def)

definition py_round_nd :: "nat \<Rightarrow> rat \<Rightarrow> rat" where
  "py_round_nd n x = fl (of_int (round_half_even (x * 10 ^ n)) / 10 ^ n)"

lemma py_round_nd_mono: "x \<le> y \<Longrightarrow> py_round_nd n x \<le> py_round_nd n y"
  unfolding py_round_nd_def
  by (intro fl_mono divide_right_mono) (auto intro!: round_half_even_mono mult_right_mono)

lemma py_round_nd_int:
  assumes "\<bar>k\<bar> < 2 ^ 53"
  shows "py_round_nd n (of_int k) = of_int k"
proof -
  have "(of_int k :: rat) * 10 ^ n = of_int (k * 10 ^ n)" by simp
  then show ?thesis using assms by (simp only: py_round_nd_def round_half_even_of_int) (simp add: fl_of_int)
qed

lemma py_round_nd_unit: "0 \<le> x \<Longrightarrow> x \<le> 1 \<Longrightarrow> 0 \<le> py_round_nd n x \<and> py_round_nd n x \<le> 1"
  using py_round_nd_mono [of 0 x n] py_round_nd_mono [of x 1 n]
    py_round_nd_int [of 0 n] py_round_nd_int [of 1 n] by simp

end
