(* ===== verification/Py_Json.thy ===== *)
theory Py_Json imports Py_Float "HOL-Library.List_Lexorder" "HOL-Library.Char_ord" begin

text \<open>
  Python values that come from JSON, and the built-in operations the code applies to them:
  equality, truthiness, \<open>isinstance\<close>, \<open>dict.get\<close>, \<open>str\<close>, \<open>json.dumps\<close>, \<open>len\<close> of an
  encoded string, \<open>str.split\<close>, \<open>str.splitlines\<close>, \<open>str.strip\<close>, \<open>str.casefold\<close>.

  A decoded \<open>dict\<close> is an association list with distinct keys in insertion order. The shortest
  decimal text of a float, the text of a container, the quoted text of a string, \<open>json.loads\<close>, SHA-256 and the ISO text of
  a time are fields of \<open>pylib\<close>, the library functions the model takes as a parameter.
\<close>

section \<open>JSON values\<close>

datatype pyfloat = Fin rat | PosInf | NegInf | NotANumber

datatype json =
    JNull
  | JBool bool
  | JInt int
  | JFloat pyfloat
  | JStr string
  | JList "json list"
  | JObj "(string \<times> json) list"

type_synonym jobj = "(string \<times> json) list"

record pylib =
  float_repr :: "pyfloat \<Rightarrow> string"
  container_str :: "json \<Rightarrow> string"
  str_repr :: "string \<Rightarrow> string"
  sha256_hex :: "string \<Rightarrow> string"
  json_loads :: "string \<Rightarrow> json option"
  iso_utc :: "timestamp \<Rightarrow> string"

text \<open>
  \<open>dict.get(key)\<close>: a missing key and a JSON \<open>null\<close> both read as \<open>None\<close>.
  \<open>has_key\<close> is \<open>key in d\<close>. \<open>jput\<close> is \<open>{**d, key: v}\<close>: the key keeps its place.
\<close>

definition jget :: "jobj \<Rightarrow> string \<Rightarrow> json" where
  "jget d k = (case map_of d k of None \<Rightarrow> JNull | Some v \<Rightarrow> v)"

definition jget_default :: "jobj \<Rightarrow> string \<Rightarrow> json \<Rightarrow> json" where
  "jget_default d k v0 = (case map_of d k of None \<Rightarrow> v0 | Some v \<Rightarrow> v)"

definition has_key :: "jobj \<Rightarrow> string \<Rightarrow> bool" where
  "has_key d k = (k \<in> set (map fst d))"

fun jput :: "jobj \<Rightarrow> string \<Rightarrow> json \<Rightarrow> jobj" where
  "jput [] k v = [(k, v)]"
| "jput ((k', v') # d) k v = (if k' = k then (k, v) # d else (k', v') # jput d k v)"

lemma map_of_jput: "map_of (jput d k v) k' = (if k' = k then Some v else map_of d k')"
  by (induction d k v rule: jput.induct) auto

lemma jget_jput: "jget (jput d k v) k' = (if k' = k then v else jget d k')"
  by (simp add: jget_def map_of_jput)

lemma jget_Cons: "jget ((k, v) # d) k' = (if k' = k then v else jget d k')"
  by (simp add: jget_def)

fun as_int :: "json \<Rightarrow> int option" where
  "as_int (JInt i) = Some i"
| "as_int _ = None"

fun as_str :: "json \<Rightarrow> string option" where
  "as_str (JStr s) = Some s"
| "as_str _ = None"

fun as_list :: "json \<Rightarrow> json list option" where
  "as_list (JList xs) = Some xs"
| "as_list _ = None"

fun as_obj :: "json \<Rightarrow> jobj option" where
  "as_obj (JObj d) = Some d"
| "as_obj _ = None"

text \<open>
  \<open>isinstance(v, (int, float)) and not isinstance(v, bool)\<close>, and \<open>float(v)\<close> of such a value: an
  integer that rounds to \<open>2 ** 1024\<close> or more has no float.
\<close>

fun is_number :: "json \<Rightarrow> bool" where
  "is_number (JInt i) = True"
| "is_number (JFloat f) = True"
| "is_number _ = False"

fun to_float :: "json \<Rightarrow> pyfloat result" where
  "to_float (JInt i) = (if 2 ^ 1024 - 2 ^ 970 \<le> \<bar>i\<bar>
     then Inl (Exn OverflowErr ''int too large to convert to float'') else Inr (Fin (fl (of_int i))))"
| "to_float (JFloat f) = Inr f"
| "to_float _ = Inl (Exn TypeErr ''float() argument must be a string or a real number'')"

text \<open>
  \<open>math.isclose(a, b, rel_tol=0.0, abs_tol=t)\<close> for a finite \<open>t\<close>: equal values are close, an
  infinity is close to nothing else, and a NaN to nothing.
\<close>

definition isclose_abs :: "rat \<Rightarrow> pyfloat \<Rightarrow> pyfloat \<Rightarrow> bool" where
  "isclose_abs t a b = (case (a, b) of
     (Fin x, Fin y) \<Rightarrow> x = y \<or> \<bar>fl (y - x)\<bar> \<le> t
   | (PosInf, PosInf) \<Rightarrow> True
   | (NegInf, NegInf) \<Rightarrow> True
   | _ \<Rightarrow> False)"

text \<open>\<open>bool(v)\<close>.\<close>

fun truthy :: "json \<Rightarrow> bool" where
  "truthy JNull = False"
| "truthy (JBool b) = b"
| "truthy (JInt i) = (i \<noteq> 0)"
| "truthy (JFloat f) = (f \<noteq> Fin 0)"
| "truthy (JStr s) = (s \<noteq> [])"
| "truthy (JList xs) = (xs \<noteq> [])"
| "truthy (JObj d) = (d \<noteq> [])"

text \<open>\<open>a or b\<close>.\<close>

definition py_or :: "json \<Rightarrow> json \<Rightarrow> json" where
  "py_or a b = (if truthy a then a else b)"

section \<open>Equality\<close>

text \<open>
  \<open>a == b\<close> on decoded values. Booleans are integers in Python, and an integer equals a float
  of the same value, so \<open>True == 1 == 1.0\<close>. A NaN equals nothing. Dictionaries compare as
  maps, lists element by element.
\<close>

fun exact_number :: "json \<Rightarrow> pyfloat option" where
  "exact_number (JBool b) = Some (Fin (if b then 1 else 0))"
| "exact_number (JInt i) = Some (Fin (of_int i))"
| "exact_number (JFloat f) = Some f"
| "exact_number _ = None"

definition number_eq :: "pyfloat \<Rightarrow> json \<Rightarrow> bool" where
  "number_eq x b = (exact_number b = Some x \<and> x \<noteq> NotANumber)"

primrec py_eq :: "json \<Rightarrow> json \<Rightarrow> bool" where
  "py_eq JNull = (\<lambda>b. b = JNull)"
| "py_eq (JBool x) = number_eq (Fin (if x then 1 else 0))"
| "py_eq (JInt i) = number_eq (Fin (of_int i))"
| "py_eq (JFloat f) = number_eq f"
| "py_eq (JStr s) = (\<lambda>b. b = JStr s)"
| "py_eq (JList xs) = (\<lambda>b. case b of JList ys \<Rightarrow> list_all2 (\<lambda>p y. p y) (map py_eq xs) ys | _ \<Rightarrow> False)"
| "py_eq (JObj d) = (\<lambda>b. case b of JObj e \<Rightarrow> length d = length e \<and>
     list_all (\<lambda>(k, p). case map_of e k of None \<Rightarrow> False | Some w \<Rightarrow> p w)
       (map (map_prod id py_eq) d) | _ \<Rightarrow> False)"

lemma py_eq_list: "py_eq (JList xs) (JList ys) = list_all2 py_eq xs ys"
  by (simp add: list_all2_map1)

text \<open>\<open>xs == ys\<close> on two lists of values.\<close>

definition rows_eq :: "json list \<Rightarrow> json list \<Rightarrow> bool" where
  "rows_eq = list_all2 py_eq"

section \<open>Text of a value\<close>

definition digit_char :: "nat \<Rightarrow> char" where
  "digit_char n = ''0123456789abcdef'' ! (n mod 16)"

fun nat_str :: "nat \<Rightarrow> string" where
  "nat_str n = (if n < 10 then [digit_char n] else nat_str (n div 10) @ [digit_char (n mod 10)])"

declare nat_str.simps [simp del]

definition int_str :: "int \<Rightarrow> string" where
  "int_str i = (if i < 0 then ''-'' @ nat_str (nat (- i)) else nat_str (nat i))"

definition hex4 :: "nat \<Rightarrow> string" where
  "hex4 n = map (\<lambda>i. digit_char (n div 16 ^ i)) [3, 2, 1, 0]"

definition esc_char :: "bool \<Rightarrow> char \<Rightarrow> string" where
  "esc_char ascii c =
     (if c = CHR 0x22 then [CHR 0x5C, CHR 0x22]
      else if c = CHR 0x5C then [CHR 0x5C, CHR 0x5C]
      else if c = CHR 0x0A then [CHR 0x5C, CHR ''n'']
      else if c = CHR 0x0D then [CHR 0x5C, CHR ''r'']
      else if c = CHR 0x09 then [CHR 0x5C, CHR ''t'']
      else if c = CHR 0x0C then [CHR 0x5C, CHR ''f'']
      else if c = CHR 0x08 then [CHR 0x5C, CHR ''b'']
      else if of_char c < (0x20::nat) \<or> ascii \<and> (0x7F::nat) \<le> of_char c
        then [CHR 0x5C, CHR ''u''] @ hex4 (of_char c)
      else [c])"

definition json_str :: "bool \<Rightarrow> string \<Rightarrow> string" where
  "json_str ascii s = [CHR 0x22] @ concat (map (esc_char ascii) s) @ [CHR 0x22]"

definition join :: "string \<Rightarrow> string list \<Rightarrow> string" where
  "join sep xs = (case xs of [] \<Rightarrow> [] | y # ys \<Rightarrow> y @ concat (map (\<lambda>z. sep @ z) ys))"

text \<open>
  \<open>json.dumps(v, sort_keys=..., separators=(",", ":"), ensure_ascii=...)\<close>.
\<close>

primrec json_dumps :: "pylib \<Rightarrow> bool \<Rightarrow> bool \<Rightarrow> json \<Rightarrow> string" where
  "json_dumps lib ascii srt JNull = ''null''"
| "json_dumps lib ascii srt (JBool b) = (if b then ''true'' else ''false'')"
| "json_dumps lib ascii srt (JInt i) = int_str i"
| "json_dumps lib ascii srt (JFloat f) = (case f of Fin r \<Rightarrow> float_repr lib (Fin r)
     | PosInf \<Rightarrow> ''Infinity'' | NegInf \<Rightarrow> ''-Infinity'' | NotANumber \<Rightarrow> ''NaN'')"
| "json_dumps lib ascii srt (JStr s) = json_str ascii s"
| "json_dumps lib ascii srt (JList xs) =
     ''['' @ join '','' (map (json_dumps lib ascii srt) xs) @ '']''"
| "json_dumps lib ascii srt (JObj d) =
     (let items = map (map_prod id (json_dumps lib ascii srt)) d;
          items' = (if srt then sort_key fst items else items)
      in ''{'' @ join '','' (map (\<lambda>(k, t). json_str ascii k @ '':'' @ t) items') @ ''}'')"

text \<open>\<open>str(v)\<close>.\<close>

definition py_str :: "pylib \<Rightarrow> json \<Rightarrow> string" where
  "py_str lib v = (case v of
     JNull \<Rightarrow> ''None''
   | JBool b \<Rightarrow> (if b then ''True'' else ''False'')
   | JInt i \<Rightarrow> int_str i
   | JFloat f \<Rightarrow> float_repr lib f
   | JStr s \<Rightarrow> s
   | JList xs \<Rightarrow> container_str lib v
   | JObj d \<Rightarrow> container_str lib v)"

lemma py_str_JStr [simp]: "py_str lib (JStr s) = s"
  by (simp add: py_str_def)

section \<open>String methods\<close>

definition is_space :: "char \<Rightarrow> bool" where
  "is_space c = ((of_char c :: nat) \<in> {9, 10, 11, 12, 13, 28, 29, 30, 31, 32, 133, 160})"

definition strip :: "string \<Rightarrow> string" where
  "strip s = rev (dropWhile is_space (rev (dropWhile is_space s)))"

text \<open>\<open>s.split()\<close>: the maximal runs of non-space characters.\<close>

fun split_acc :: "string \<Rightarrow> string \<Rightarrow> string list" where
  "split_acc acc [] = (if acc = [] then [] else [rev acc])"
| "split_acc acc (c # cs) =
     (if is_space c then (if acc = [] then split_acc [] cs else rev acc # split_acc [] cs)
      else split_acc (c # acc) cs)"

definition split_words :: "string \<Rightarrow> string list" where
  "split_words s = split_acc [] s"

text \<open>\<open>" ".join(s.split())\<close>.\<close>

definition normalize_spaces :: "string \<Rightarrow> string" where
  "normalize_spaces s = join '' '' (split_words s)"

text \<open>
  \<open>int(s)\<close>: surrounding space, an optional sign, decimal digits with single underscores between
  them; \<open>None\<close> where it raises \<open>ValueError\<close>.
\<close>

definition is_digit :: "char \<Rightarrow> bool" where
  "is_digit c = (48 \<le> (of_char c :: nat) \<and> (of_char c :: nat) \<le> 57)"

fun digits_value :: "bool \<Rightarrow> nat \<Rightarrow> string \<Rightarrow> nat option" where
  "digits_value after_digit acc [] = (if after_digit then Some acc else None)"
| "digits_value after_digit acc (c # cs) =
     (if is_digit c then digits_value True (acc * 10 + (of_char c - 48)) cs
      else if c = CHR ''_'' \<and> after_digit \<and> cs \<noteq> [] then digits_value False acc cs
      else None)"

definition py_int_of_str :: "string \<Rightarrow> int option" where
  "py_int_of_str s = (case strip s of
     [] \<Rightarrow> None
   | c # cs \<Rightarrow> if c = CHR ''-'' then map_option (\<lambda>n. - int n) (digits_value False 0 cs)
       else if c = CHR ''+'' then map_option int (digits_value False 0 cs)
       else map_option int (digits_value False 0 (c # cs)))"

definition is_line_break :: "char \<Rightarrow> bool" where
  "is_line_break c = ((of_char c :: nat) \<in> {10, 11, 12, 13, 28, 29, 30, 133})"

text \<open>\<open>s.splitlines()\<close>: a carriage return followed by a line feed is one break.\<close>

fun lines_acc :: "string \<Rightarrow> string \<Rightarrow> string list" where
  "lines_acc acc [] = (if acc = [] then [] else [rev acc])"
| "lines_acc acc (c # cs) =
     (if c = CHR 0x0D \<and> cs \<noteq> [] \<and> hd cs = CHR 0x0A then rev acc # lines_acc [] (tl cs)
      else if is_line_break c then rev acc # lines_acc [] cs
      else lines_acc (c # acc) cs)"

definition splitlines :: "string \<Rightarrow> string list" where
  "splitlines s = lines_acc [] s"

definition starts_with :: "string \<Rightarrow> string \<Rightarrow> bool" where
  "starts_with p s = (take (length p) s = p)"

definition ends_with :: "string \<Rightarrow> string \<Rightarrow> bool" where
  "ends_with p s = (length p \<le> length s \<and> drop (length s - length p) s = p)"

text \<open>\<open>p in s\<close> for strings.\<close>

fun contains :: "string \<Rightarrow> string \<Rightarrow> bool" where
  "contains p [] = (p = [])"
| "contains p (c # cs) = (starts_with p (c # cs) \<or> contains p cs)"

definition casefold_char :: "char \<Rightarrow> string" where
  "casefold_char c =
     (let n = (of_char c :: nat) in
      if 65 \<le> n \<and> n \<le> 90 \<or> 192 \<le> n \<and> n \<le> 222 \<and> n \<noteq> 215 then [char_of (n + 32)]
      else if n = 223 then ''ss'' else [c])"

definition casefold :: "string \<Rightarrow> string" where
  "casefold s = concat (map casefold_char s)"

text \<open>\<open>len(s.encode("utf-8"))\<close>: two bytes above the ASCII range.\<close>

definition utf8_len :: "string \<Rightarrow> nat" where
  "utf8_len s = sum_list (map (\<lambda>c. if (of_char c :: nat) < 128 then 1 else 2) s)"

lemma utf8_len_Cons: "utf8_len (c # s) = (if (of_char c :: nat) < 128 then 1 else 2) + utf8_len s"
  unfolding utf8_len_def list.map sum_list.Cons by (rule refl)

lemma length_le_utf8_len: "length s \<le> utf8_len s"
proof (induction s)
  case Nil
  show ?case by simp
next
  case (Cons c s)
  then show ?case unfolding utf8_len_Cons list.size by presburger
qed

definition is_word :: "string \<Rightarrow> bool" where
  "is_word w = (w \<noteq> [] \<and> list_all (\<lambda>c. \<not> is_space c) w)"

lemma split_acc_words:
  "list_all (\<lambda>c. \<not> is_space c) acc \<Longrightarrow> list_all is_word (split_acc acc s)"
proof (induction s arbitrary: acc)
  case Nil
  then show ?case by (simp add: is_word_def)
next
  case (Cons c cs)
  then show ?case by (cases "is_space c") (simp_all add: is_word_def)
qed

lemma split_words_nonspace: "list_all is_word (split_words s)"
  using split_acc_words [of "[]" s] by (simp add: split_words_def)

end
