(* ===== verification/Execution_State.thy ===== *)
theory Execution_State imports Py_Json "HOL-Library.Word" begin

text \<open>
  The tables of the execution plane (\<open>database/migrations/versions\<close>): one record per row,
  one field per column the code reads or writes, and the record \<open>db\<close> of all the tables. A
  nullable column is an \<open>option\<close>. The environment of an operation (\<open>env\<close>) holds what the
  code reads from outside: the two clocks (\<open>datetime.now(UTC)\<close> of the process and
  \<open>CURRENT_TIMESTAMP\<close> of the transaction), the principal of the database session, and the
  library functions.
\<close>

section \<open>Identifiers\<close>

type_synonym uuid = "128 word"

text \<open>\<open>str(uuid)\<close>: thirty-two hexadecimal digits, most significant first, in groups.\<close>

definition uuid_hex :: "uuid \<Rightarrow> string" where
  "uuid_hex u = map (\<lambda>i. digit_char (unat u div 16 ^ i)) (rev [0..<32])"

definition uuid_str :: "uuid \<Rightarrow> string" where
  "uuid_str u =
     (let h = uuid_hex u in
      take 8 h @ ''-'' @ take 4 (drop 8 h) @ ''-'' @ take 4 (drop 12 h) @ ''-'' @
      take 4 (drop 16 h) @ ''-'' @ drop 20 h)"

section \<open>States\<close>

text \<open>The PostgreSQL enum \<open>execution_state\<close>: the values of migration 0006 and those 0009 adds.\<close>

datatype execution_state =
    PG_QUEUED | PG_RUNNING | PG_PASSED | PG_FAILED | PG_ERROR | PG_CANCELLED | PG_TIMED_OUT
  | PG_DISPATCHING | PG_COMPLETED | PG_TIMEOUT

fun state_text :: "execution_state \<Rightarrow> string" where
  "state_text PG_QUEUED = ''QUEUED''"
| "state_text PG_RUNNING = ''RUNNING''"
| "state_text PG_PASSED = ''PASSED''"
| "state_text PG_FAILED = ''FAILED''"
| "state_text PG_ERROR = ''ERROR''"
| "state_text PG_CANCELLED = ''CANCELLED''"
| "state_text PG_TIMED_OUT = ''TIMED_OUT''"
| "state_text PG_DISPATCHING = ''DISPATCHING''"
| "state_text PG_COMPLETED = ''COMPLETED''"
| "state_text PG_TIMEOUT = ''TIMEOUT''"

datatype practice_state =
    CREATED | IN_PROGRESS | PAUSED | SUBMITTED | EVALUATING | COMPLETED | ABANDONED

section \<open>Rows\<close>

record request_row =
  rq_id :: uuid
  rq_organization :: "uuid option"
  rq_candidate :: uuid
  rq_practice_session :: "uuid option"
  rq_submission :: "uuid option"
  rq_question_version :: uuid
  rq_runtime :: string
  rq_adapter :: string
  rq_state :: execution_state
  rq_idempotency_key :: string
  rq_source_hash :: string
  rq_request_hash :: string
  rq_limits :: json
  rq_queued_at :: timestamp
  rq_started_at :: "timestamp option"
  rq_completed_at :: "timestamp option"
  rq_created_at :: timestamp
  rq_execution_type :: string
  rq_language :: string
  rq_code_reference :: "string option"
  rq_input_reference :: "string option"
  rq_dispatch_started_at :: "timestamp option"
  rq_running_at :: "timestamp option"
  rq_attempt_count :: int
  rq_lease_owner :: "string option"
  rq_lease_expires_at :: "timestamp option"
  rq_runtime_ms :: "int option"
  rq_exit_code :: "int option"
  rq_result_reference :: "string option"
  rq_error_category :: "string option"
  rq_trace_id :: string
  rq_k8s_namespace :: "string option"
  rq_k8s_job_name :: "string option"

record payload_row =
  pl_execution :: uuid
  pl_source_code :: string
  pl_input_payload :: json

record event_row =
  ev_execution :: uuid
  ev_sequence :: int
  ev_state :: execution_state
  ev_details :: json

record outbox_row =
  ob_id :: uuid
  ob_aggregate_type :: string
  ob_aggregate_id :: uuid
  ob_event_type :: string
  ob_dedupe_key :: string
  ob_payload :: json
  ob_created_at :: timestamp
  ob_published_at :: "timestamp option"
  ob_attempt_count :: int
  ob_next_attempt_at :: timestamp
  ob_last_error :: "string option"

record public_result_row =
  pr_execution :: uuid
  pr_public_results :: "json list"
  pr_hidden_total :: int
  pr_hidden_passed :: int
  pr_stdout :: string
  pr_stderr :: string
  pr_candidate_message :: string

record submission_row =
  sb_id :: uuid
  sb_organization :: "uuid option"
  sb_candidate :: uuid
  sb_practice_session :: "uuid option"
  sb_question_version :: uuid
  sb_runtime :: string
  sb_submitted_source :: string
  sb_idempotency_key :: "string option"
  sb_status :: string
  sb_public_test_results :: "json list"
  sb_hidden_test_summary :: json
  sb_error_category :: "string option"
  sb_execution_duration_ms :: "int option"
  sb_started_at :: "timestamp option"
  sb_completed_at :: "timestamp option"

record submission_result_row =
  sr_submission :: uuid
  sr_status :: execution_state
  sr_public_results :: "json list"
  sr_hidden_total :: int
  sr_hidden_passed :: int
  sr_runtime_ms :: int
  sr_error_category :: "string option"
  sr_candidate_message :: string
  sr_quality_signals :: json

record submission_evaluation_row =
  se_submission :: uuid
  se_correctness :: rat
  se_complexity :: rat
  se_code_quality :: rat
  se_testing :: rat
  se_robustness :: rat
  se_overall :: rat
  se_evaluator_version :: string
  se_deterministic_signals :: json
  se_heuristic_signals :: json

text \<open>Questions and their versions; \<open>content_state\<close> is the PostgreSQL enum of migration 0001.\<close>

datatype content_state =
    Draft | Generated | Automated_Validation_Failed | Awaiting_Technical_Review
  | Awaiting_Editorial_Review | Approved | Published | Deprecated | Archived

record question_row =
  qs_id :: uuid
  qs_external_id :: string
  qs_slug :: string
  qs_primary_track :: uuid
  qs_current_published_version :: "uuid option"
  qs_archived_at :: "timestamp option"
  qs_updated_at :: timestamp

record version_row =
  qv_id :: uuid
  qv_question :: uuid
  qv_version :: string
  qv_title :: string
  qv_problem_statement :: string
  qv_expected_seniority :: string
  qv_difficulty :: string
  qv_conceptual_difficulty :: int
  qv_implementation_difficulty :: int
  qv_scale :: int
  qv_ambiguity :: int
  qv_prerequisite_depth :: int
  qv_duration_minutes :: int
  qv_state :: content_state
  qv_structured_content :: json
  qv_source_revision :: string
  qv_content_hash :: string
  qv_updated_at :: timestamp

record practice_session_row =
  ps_id :: uuid
  ps_organization :: "uuid option"
  ps_candidate :: uuid
  ps_question_version :: "uuid option"
  ps_session_type :: string
  ps_runtime :: "string option"
  ps_state :: practice_state
  ps_draft_code :: "string option"
  ps_notes :: "string option"
  ps_elapsed_seconds :: int
  ps_hint_count :: int
  ps_run_count :: int
  ps_submission_count :: int
  ps_started_at :: "timestamp option"
  ps_paused_at :: "timestamp option"
  ps_submitted_at :: "timestamp option"
  ps_completed_at :: "timestamp option"
  ps_last_activity_at :: timestamp
  ps_created_at :: timestamp
  ps_updated_at :: timestamp

record session_event_row =
  pse_session :: uuid
  pse_sequence :: int
  pse_event_type :: string
  pse_payload :: json

record db =
  requests :: "request_row list"
  payloads :: "payload_row list"
  exec_events :: "event_row list"
  outbox :: "outbox_row list"
  public_results :: "public_result_row list"
  questions :: "question_row list"
  question_versions :: "version_row list"
  submissions :: "submission_row list"
  submission_results :: "submission_result_row list"
  submission_evaluations :: "submission_evaluation_row list"
  practice_sessions :: "practice_session_row list"
  session_events :: "session_event_row list"

definition empty_db :: db where
  "empty_db = \<lparr>requests = [], payloads = [], exec_events = [], outbox = [], public_results = [],
     questions = [], question_versions = [], submissions = [], submission_results = [],
     submission_evaluations = [], practice_sessions = [], session_events = []\<rparr>"

record env =
  app_now :: timestamp
  db_now :: timestamp
  user_id :: "uuid option"
  organization_id :: "uuid option"
  lib :: pylib

abbreviation request_of :: "uuid \<Rightarrow> db \<Rightarrow> request_row option" where
  "request_of eid d \<equiv> row_with rq_id eid (requests d)"

text \<open>\<open>COALESCE(max(sequence_number), base) + 1\<close>.\<close>

definition next_sequence :: "int \<Rightarrow> int list \<Rightarrow> int" where
  "next_sequence base xs = (if xs = [] then base else Max (set xs)) + 1"

section \<open>Identifier text is injective\<close>

lemma digit_char_eq_iff: "digit_char m = digit_char n \<longleftrightarrow> m mod 16 = n mod 16"
proof -
  have all: "\<forall>i<16. \<forall>j<16. ''0123456789abcdef'' ! i = ''0123456789abcdef'' ! j \<longrightarrow> i = j"
    by (simp add: numeral_eq_Suc All_less_Suc)
  have "m mod 16 < 16" "n mod 16 < 16" by simp_all
  then show ?thesis using all unfolding digit_char_def by metis
qed

lemma digits_determine:
  assumes "\<forall>i<k. (m::nat) div 16 ^ i mod 16 = n div 16 ^ i mod 16"
  shows "m mod 16 ^ k = n mod 16 ^ k"
  using assms
proof (induction k)
  case 0
  show ?case by simp
next
  case (Suc k)
  have "m mod (16 ^ k * 16) = n mod (16 ^ k * 16)"
    using Suc.IH Suc.prems by (simp add: mod_mult2_eq)
  then show ?case by (simp add: mult.commute)
qed

lemma uuid_hex_inject: "uuid_hex u = uuid_hex v \<longleftrightarrow> u = v"
proof
  assume "uuid_hex u = uuid_hex v"
  then have "\<forall>i<32. unat u div 16 ^ i mod 16 = unat v div 16 ^ i mod 16"
    by (auto simp: uuid_hex_def digit_char_eq_iff)
  then have "unat u mod 16 ^ 32 = unat v mod 16 ^ 32" by (rule digits_determine)
  moreover have "unat u < 16 ^ 32" "unat v < 16 ^ 32"
    using unsigned_less [of u, where 'a = nat] unsigned_less [of v, where 'a = nat] by simp_all
  ultimately have "unat u = unat v" by simp
  then show "u = v" by (rule word_unat_eq_iff [THEN iffD2])
qed simp

lemma length_uuid_hex: "length (uuid_hex u) = 32"
  by (simp add: uuid_hex_def)

lemma grouped_split:
  "w = take 8 w @ take 4 (drop 8 w) @ take 4 (drop 12 w) @ take 4 (drop 16 w) @ drop 20 w"
  using append_take_drop_id [of 8 w] append_take_drop_id [of 4 "drop 8 w"]
    append_take_drop_id [of 4 "drop 12 w"] append_take_drop_id [of 4 "drop 16 w"]
  by simp

lemma append_same_length: "xs @ ys = us @ vs \<Longrightarrow> length xs = length us \<Longrightarrow> xs = us \<and> ys = vs"
  by simp

lemma uuid_str_inject [simp]: "uuid_str u = uuid_str v \<longleftrightarrow> u = v"
proof
  let ?h = "uuid_hex u" and ?g = "uuid_hex v"
  assume "uuid_str u = uuid_str v"
  note eq = this [unfolded uuid_str_def Let_def]
  note len = length_uuid_hex [of u] length_uuid_hex [of v]
  note s1 = append_same_length [OF eq]
  have 1: "take 8 ?h = take 8 ?g" using s1 len by simp
  have 2: "take 4 (drop 8 ?h) = take 4 (drop 8 ?g) \<and> take 4 (drop 12 ?h) = take 4 (drop 12 ?g) \<and>
      take 4 (drop 16 ?h) = take 4 (drop 16 ?g) \<and> drop 20 ?h = drop 20 ?g"
    using conjunct2 [OF s1] len by (simp add: append_eq_append_conv)
  show "u = v"
    using grouped_split [of ?h] grouped_split [of ?g] 1 2 uuid_hex_inject [of u v] by metis
qed simp

lemma next_sequence_greater: "x \<in> set xs \<Longrightarrow> x < next_sequence base xs"
  using Max_ge [of "set xs" x] by (auto simp: next_sequence_def)

lemma next_sequence_upt: "next_sequence (-1) (map int [0..<n]) = int n"
proof (cases n)
  case (Suc k)
  have "Max (set (map int [0..<n])) = int k"
    by (rule Max_eqI) (auto simp: Suc)
  then show ?thesis by (simp add: next_sequence_def Suc del: set_map upt_Suc)
qed (simp add: next_sequence_def)

lemma next_sequence_upt_from_1: "next_sequence 0 (map int [1..<Suc n]) = int n + 1"
proof (cases n)
  case (Suc k)
  have "Max (set (map int [1..<Suc n])) = int n"
    by (rule Max_eqI) (auto simp: Suc image_iff intro: bexI [of _ n])
  then show ?thesis by (simp add: next_sequence_def Suc del: set_map upt_Suc)
qed (simp add: next_sequence_def)

end
