(* ===== verification/Execution_Domain.thy ===== *)
theory Execution_Domain imports Execution_State begin

text \<open>
  The durable execution aggregate (\<open>execution_domain.py\<close>): the status machine, the request
  fingerprint, and the repository operations \<open>create_queued\<close>, \<open>get\<close>, \<open>transition\<close>,
  \<open>cancel\<close>. Each operation runs inside the caller's transaction: it takes the environment and
  the tables and returns an exception or its result with the new tables. An exception leaves
  the transaction to be rolled back, so it carries no tables.
\<close>

section \<open>The status machine\<close>

datatype execution_status =
    Queued | Dispatching | Running | Completed | Failed | Timeout | Cancelled

datatype execution_type = Run | Submit

fun status_value :: "execution_status \<Rightarrow> string" where
  "status_value Queued = ''QUEUED''"
| "status_value Dispatching = ''DISPATCHING''"
| "status_value Running = ''RUNNING''"
| "status_value Completed = ''COMPLETED''"
| "status_value Failed = ''FAILED''"
| "status_value Timeout = ''TIMEOUT''"
| "status_value Cancelled = ''CANCELLED''"

fun type_value :: "execution_type \<Rightarrow> string" where
  "type_value Run = ''RUN''"
| "type_value Submit = ''SUBMIT''"

definition terminal_execution_statuses :: "execution_status list" where
  "terminal_execution_statuses = [Completed, Failed, Timeout, Cancelled]"

abbreviation is_terminal :: "execution_status \<Rightarrow> bool" where
  "is_terminal s \<equiv> s \<in> set terminal_execution_statuses"

fun legal_execution_transitions :: "execution_status \<Rightarrow> execution_status list" where
  "legal_execution_transitions Queued = [Dispatching, Cancelled]"
| "legal_execution_transitions Dispatching = [Running, Failed, Cancelled]"
| "legal_execution_transitions Running = [Completed, Failed, Timeout, Cancelled]"
| "legal_execution_transitions Completed = []"
| "legal_execution_transitions Failed = []"
| "legal_execution_transitions Timeout = []"
| "legal_execution_transitions Cancelled = []"

definition legacy_status_map :: "(string \<times> execution_status) list" where
  "legacy_status_map = [(''PASSED'', Completed), (''ERROR'', Failed), (''TIMED_OUT'', Timeout)]"

definition all_statuses :: "execution_status list" where
  "all_statuses = [Queued, Dispatching, Running, Completed, Failed, Timeout, Cancelled]"

text \<open>\<open>ExecutionStatus(value)\<close>: the member with that value, or \<open>ValueError\<close>.\<close>

definition parse_status :: "string \<Rightarrow> execution_status result" where
  "parse_status v = (case find (\<lambda>s. status_value s = v) all_statuses of
     Some s \<Rightarrow> Inr s | None \<Rightarrow> Inl (Exn ValueErr (v @ '' is not a valid ExecutionStatus'')))"

definition parse_type :: "string \<Rightarrow> execution_type result" where
  "parse_type v = (if v = ''RUN'' then Inr Run else if v = ''SUBMIT'' then Inr Submit
     else Inl (Exn ValueErr (v @ '' is not a valid ExecutionType'')))"

definition normalize_execution_status :: "string \<Rightarrow> execution_status result" where
  "normalize_execution_status v = (case map_of legacy_status_map v of
     Some s \<Rightarrow> Inr s | None \<Rightarrow> parse_status v)"

definition validate_execution_transition ::
  "execution_status \<Rightarrow> execution_status \<Rightarrow> unit result" where
  "validate_execution_transition current target =
     (if target \<notin> set (legal_execution_transitions current)
      then Inl (Exn ExecutionTransitionErr
        (''Illegal execution transition: '' @ status_value current @ '' -> '' @ status_value target))
      else Inr ())"

text \<open>\<open>CAST(:target AS execution_state)\<close>.\<close>

fun pg_state :: "execution_status \<Rightarrow> execution_state" where
  "pg_state Queued = PG_QUEUED"
| "pg_state Dispatching = PG_DISPATCHING"
| "pg_state Running = PG_RUNNING"
| "pg_state Completed = PG_COMPLETED"
| "pg_state Failed = PG_FAILED"
| "pg_state Timeout = PG_TIMEOUT"
| "pg_state Cancelled = PG_CANCELLED"

section \<open>Request fingerprints and events\<close>

definition execution_request_canonical ::
  "pylib \<Rightarrow> execution_type \<Rightarrow> uuid \<Rightarrow> uuid \<Rightarrow> string \<Rightarrow> string \<Rightarrow> string" where
  "execution_request_canonical l typ session version runtime source =
     json_dumps l True True (JObj
       [(''execution_type'', JStr (type_value typ)),
        (''practice_session_id'', JStr (uuid_str session)),
        (''question_version_id'', JStr (uuid_str version)),
        (''runtime'', JStr runtime),
        (''source_code'', JStr source)])"

definition execution_request_hash ::
  "pylib \<Rightarrow> execution_type \<Rightarrow> uuid \<Rightarrow> uuid \<Rightarrow> string \<Rightarrow> string \<Rightarrow> string" where
  "execution_request_hash l typ session version runtime source =
     sha256_hex l (execution_request_canonical l typ session version runtime source)"

definition execution_requested_event :: "pylib \<Rightarrow> uuid \<Rightarrow> timestamp \<Rightarrow> string \<Rightarrow> int \<Rightarrow> json" where
  "execution_requested_event l eid requested_at trace attempt = JObj
     [(''schema_version'', JInt 1),
      (''event_type'', JStr ''execution.requested''),
      (''execution_id'', JStr (uuid_str eid)),
      (''attempt'', JInt attempt),
      (''requested_at'', JStr (iso_utc l requested_at)),
      (''trace_id'', JStr trace)]"

section \<open>Results of the operations\<close>

record queued_execution =
  qe_execution_id :: uuid
  qe_submission_id :: "uuid option"
  qe_status :: execution_status
  qe_execution_type :: execution_type
  qe_runtime :: string
  qe_created_at :: timestamp
  qe_trace_id :: string
  qe_duplicate :: bool

record execution_snapshot =
  es_execution_id :: uuid
  es_submission_id :: "uuid option"
  es_status :: execution_status
  es_execution_type :: execution_type
  es_runtime :: string
  es_created_at :: timestamp
  es_queued_at :: timestamp
  es_dispatch_started_at :: "timestamp option"
  es_running_at :: "timestamp option"
  es_completed_at :: "timestamp option"
  es_runtime_ms :: "int option"
  es_error_category :: "string option"
  es_trace_id :: string

record create_request =
  cr_execution_type :: execution_type
  cr_practice_session :: uuid
  cr_submission :: "uuid option"
  cr_question_version :: uuid
  cr_runtime :: string
  cr_language :: string
  cr_source_code :: string
  cr_idempotency_key :: string
  cr_trace_id :: string
  cr_limits :: json
  cr_input_payload :: "json option"

section \<open>The repository\<close>

definition find_by_idempotency :: "env \<Rightarrow> string \<Rightarrow> db \<Rightarrow> request_row option" where
  "find_by_idempotency e key d = (case user_id e of None \<Rightarrow> None
     | Some u \<Rightarrow> find (\<lambda>r. rq_candidate r = u \<and> rq_idempotency_key r = key) (requests d))"

definition queued_from_row :: "request_row \<Rightarrow> bool \<Rightarrow> queued_execution result" where
  "queued_from_row r dup =
     res_bind (normalize_execution_status (state_text (rq_state r))) (\<lambda>s.
     res_bind (parse_type (rq_execution_type r)) (\<lambda>t.
     Inr \<lparr>qe_execution_id = rq_id r, qe_submission_id = rq_submission r, qe_status = s,
       qe_execution_type = t, qe_runtime = rq_runtime r, qe_created_at = rq_created_at r,
       qe_trace_id = rq_trace_id r, qe_duplicate = dup\<rparr>))"

definition events_of :: "uuid \<Rightarrow> db \<Rightarrow> event_row list" where
  "events_of eid d = filter (\<lambda>ev. ev_execution ev = eid) (exec_events d)"

definition append_event :: "uuid \<Rightarrow> execution_status \<Rightarrow> json \<Rightarrow> db \<Rightarrow> db" where
  "append_event eid status details d = d\<lparr>exec_events := exec_events d @
     [\<lparr>ev_execution = eid,
       ev_sequence = next_sequence (-1) (map ev_sequence (events_of eid d)),
       ev_state = pg_state status, ev_details = details\<rparr>]\<rparr>"

text \<open>\<open>INSERT INTO execution_outbox ... ON CONFLICT (dedupe_key) DO NOTHING\<close>.\<close>

definition insert_outbox ::
  "uuid \<Rightarrow> uuid \<Rightarrow> string \<Rightarrow> string \<Rightarrow> json \<Rightarrow> timestamp \<Rightarrow> db \<Rightarrow> db" where
  "insert_outbox oid aggregate event_type dedupe payload created d =
     (if dedupe \<in> ob_dedupe_key ` set (outbox d) then d
      else d\<lparr>outbox := outbox d @
        [\<lparr>ob_id = oid, ob_aggregate_type = ''execution'', ob_aggregate_id = aggregate,
          ob_event_type = event_type, ob_dedupe_key = dedupe, ob_payload = payload,
          ob_created_at = created, ob_published_at = None, ob_attempt_count = 0,
          ob_next_attempt_at = created, ob_last_error = None\<rparr>]\<rparr>)"

definition new_request_row :: "env \<Rightarrow> uuid \<Rightarrow> uuid \<Rightarrow> create_request \<Rightarrow> request_row" where
  "new_request_row e u eid c =
     \<lparr>rq_id = eid, rq_organization = organization_id e, rq_candidate = u,
      rq_practice_session = Some (cr_practice_session c), rq_submission = cr_submission c,
      rq_question_version = cr_question_version c, rq_runtime = cr_runtime c,
      rq_adapter = ''KUBERNETES_JOB'', rq_state = PG_QUEUED,
      rq_idempotency_key = cr_idempotency_key c,
      rq_source_hash = sha256_hex (lib e) (cr_source_code c),
      rq_request_hash = execution_request_hash (lib e) (cr_execution_type c)
        (cr_practice_session c) (cr_question_version c) (cr_runtime c) (cr_source_code c),
      rq_limits = cr_limits c, rq_queued_at = app_now e, rq_started_at = None,
      rq_completed_at = None, rq_created_at = db_now e,
      rq_execution_type = type_value (cr_execution_type c), rq_language = cr_language c,
      rq_code_reference = Some (''db://execution-payloads/'' @ uuid_str eid),
      rq_input_reference = None, rq_dispatch_started_at = None, rq_running_at = None,
      rq_attempt_count = 0, rq_lease_owner = None, rq_lease_expires_at = None,
      rq_runtime_ms = None, rq_exit_code = None, rq_result_reference = None,
      rq_error_category = None, rq_trace_id = cr_trace_id c, rq_k8s_namespace = None,
      rq_k8s_job_name = None\<rparr>"

text \<open>
  \<open>create_queued\<close> reads the idempotency key twice under \<open>READ COMMITTED\<close>: once before the
  insert, in the tables \<open>seen\<close>, and, when the insert meets a conflicting row that another
  transaction committed in between, once more in the tables \<open>d\<close>. With \<open>seen = d\<close> the
  operation runs alone. \<open>eid\<close> and \<open>oid\<close> are the fresh identifiers of \<open>uuid4()\<close> and
  \<open>gen_random_uuid()\<close>; a collision violates the primary key.
\<close>

definition reuse_queued :: "request_row \<Rightarrow> string \<Rightarrow> db \<Rightarrow> (queued_execution \<times> db) result" where
  "reuse_queued r hash d =
     (if rq_request_hash r \<noteq> hash
      then Inl (Exn IdempotencyConflictErr
        ''The Idempotency-Key was already used for a different execution request.'')
      else res_bind (queued_from_row r True) (\<lambda>q. Inr (q, d)))"

definition store_queued :: "env \<Rightarrow> uuid \<Rightarrow> uuid \<Rightarrow> create_request \<Rightarrow> request_row \<Rightarrow> db \<Rightarrow> db" where
  "store_queued e eid oid c row d =
     insert_outbox oid eid ''execution.requested'' (''execution.requested:'' @ uuid_str eid)
       (execution_requested_event (lib e) eid (app_now e) (cr_trace_id c) 1) (app_now e)
      (append_event eid Queued (JObj [(''attempt'', JInt 0), (''trace_id'', JStr (cr_trace_id c))])
        (d\<lparr>requests := requests d @ [row],
           payloads := payloads d @
             [\<lparr>pl_execution = eid, pl_source_code = cr_source_code c,
               pl_input_payload = (case cr_input_payload c of None \<Rightarrow> JObj [] | Some p \<Rightarrow>
                 py_or p (JObj []))\<rparr>]\<rparr>))"

definition create_queued ::
  "env \<Rightarrow> uuid \<Rightarrow> uuid \<Rightarrow> create_request \<Rightarrow> db \<Rightarrow> db \<Rightarrow> (queued_execution \<times> db) result" where
  "create_queued e eid oid c seen d =
     (let hash = execution_request_hash (lib e) (cr_execution_type c) (cr_practice_session c)
                   (cr_question_version c) (cr_runtime c) (cr_source_code c)
      in case find_by_idempotency e (cr_idempotency_key c) seen of
        Some r \<Rightarrow> reuse_queued r hash d
      | None \<Rightarrow> (case user_id e of
          None \<Rightarrow> Inl (Exn IntegrityErr ''candidate_id'')
        | Some u \<Rightarrow>
          (case find_by_idempotency e (cr_idempotency_key c) d of
            Some r \<Rightarrow> reuse_queued r hash d
          | None \<Rightarrow>
            if eid \<in> rq_id ` set (requests d) then Inl (Exn IntegrityErr ''execution_requests_pkey'')
            else (let row = new_request_row e u eid c in
             res_bind (queued_from_row row False) (\<lambda>q. Inr (q, store_queued e eid oid c row d))))))"

definition snapshot_of_row :: "request_row \<Rightarrow> execution_snapshot result" where
  "snapshot_of_row r =
     res_bind (normalize_execution_status (state_text (rq_state r))) (\<lambda>s.
     res_bind (parse_type (rq_execution_type r)) (\<lambda>t.
     Inr \<lparr>es_execution_id = rq_id r, es_submission_id = rq_submission r, es_status = s,
       es_execution_type = t, es_runtime = rq_runtime r, es_created_at = rq_created_at r,
       es_queued_at = rq_queued_at r, es_dispatch_started_at = rq_dispatch_started_at r,
       es_running_at = rq_running_at r, es_completed_at = rq_completed_at r,
       es_runtime_ms = rq_runtime_ms r, es_error_category = truthy_str (rq_error_category r),
       es_trace_id = rq_trace_id r\<rparr>))"

definition get_execution :: "uuid \<Rightarrow> db \<Rightarrow> execution_snapshot result" where
  "get_execution eid d = (case request_of eid d of
     None \<Rightarrow> Inl (Exn ExecutionNotFoundErr (uuid_str eid))
   | Some r \<Rightarrow> snapshot_of_row r)"

definition transition_row ::
  "env \<Rightarrow> execution_status \<Rightarrow> string option \<Rightarrow> timestamp option \<Rightarrow> request_row \<Rightarrow> request_row" where
  "transition_row e target owner expires r =
     r\<lparr>rq_state := pg_state target,
       rq_dispatch_started_at := (if target = Dispatching
         then coalesce (rq_dispatch_started_at r) (Some (db_now e)) else rq_dispatch_started_at r),
       rq_running_at := (if target = Running
         then coalesce (rq_running_at r) (Some (db_now e)) else rq_running_at r),
       rq_started_at := (if target = Running
         then coalesce (rq_started_at r) (Some (db_now e)) else rq_started_at r),
       rq_completed_at := coalesce (if is_terminal target then Some (app_now e) else None)
         (rq_completed_at r),
       rq_lease_owner := owner,
       rq_lease_expires_at := expires\<rparr>"

definition transition ::
  "env \<Rightarrow> uuid \<Rightarrow> execution_status \<Rightarrow> jobj \<Rightarrow> string option \<Rightarrow> timestamp option \<Rightarrow> db \<Rightarrow>
     (execution_snapshot \<times> db) result" where
  "transition e eid target details owner expires d =
     (case request_of eid d of
        None \<Rightarrow> Inl (Exn ExecutionNotFoundErr (uuid_str eid))
      | Some r \<Rightarrow>
        res_bind (normalize_execution_status (state_text (rq_state r))) (\<lambda>current.
        res_bind (validate_execution_transition current target) (\<lambda>_.
        let d1 = d\<lparr>requests := update_where (\<lambda>x. rq_id x = eid)
                    (transition_row e target owner expires) (requests d)\<rparr>;
            d2 = append_event eid target (JObj
                   (foldl (\<lambda>acc (k, v). jput acc k v)
                     [(''from'', JStr (status_value current)), (''to'', JStr (status_value target))]
                     details)) d1
        in res_bind (get_execution eid d2) (\<lambda>s. Inr (s, d2)))))"

definition cancel :: "env \<Rightarrow> uuid \<Rightarrow> uuid \<Rightarrow> string \<Rightarrow> db \<Rightarrow> (execution_snapshot \<times> db) result" where
  "cancel e oid eid trace d =
     res_bind (get_execution eid d) (\<lambda>current.
      if es_status current = Cancelled then Inr (current, d)
      else if is_terminal (es_status current)
        then Inl (Exn ExecutionTransitionErr
          (''Cannot cancel terminal execution '' @ status_value (es_status current) @ ''.''))
      else res_bind (transition e eid Cancelled
            [(''reason'', JStr ''candidate_requested''), (''trace_id'', JStr trace)] None None d)
        (\<lambda>(cancelled, d1).
          Inr (cancelled,
            insert_outbox oid eid ''execution.cancel_requested''
              (''execution.cancel_requested:'' @ uuid_str eid)
              (JObj [(''schema_version'', JInt 1),
                (''event_type'', JStr ''execution.cancel_requested''),
                (''execution_id'', JStr (uuid_str eid)),
                (''requested_at'', JStr (iso_utc (lib e) (app_now e))),
                (''trace_id'', JStr trace)]) (app_now e) d1)))"

end
