(* ===== verification/Execution_Log.thy ===== *)
theory Execution_Log imports Execution_Domain begin

text \<open>
  The invariant of the execution tables and the two lemmas every operation's preservation
  proof goes through: an operation either advances one request by one logged step
  (\<open>exec_inv_advance\<close>) or rewrites columns of requests without touching their state
  (\<open>exec_inv_touch\<close>). Then the operations of \<open>ExecutionRepository\<close> themselves.
\<close>

section \<open>The invariant\<close>

definition history :: "uuid \<Rightarrow> db \<Rightarrow> execution_state list" where
  "history eid d = map ev_state (events_of eid d)"

text \<open>
  The steps a request's log may show: a legal transition of the status machine, or a fresh
  infrastructure attempt that sends an active request back to dispatching.
\<close>

inductive log_step :: "execution_state \<Rightarrow> execution_state \<Rightarrow> bool" where
  legal_step: "t \<in> set (legal_execution_transitions s) \<Longrightarrow> log_step (pg_state s) (pg_state t)"
| retry_step: "s \<in> {PG_DISPATCHING, PG_RUNNING} \<Longrightarrow> log_step s PG_DISPATCHING"

inductive_cases log_step_from_queued: "log_step PG_QUEUED t"
inductive_simps log_step_iff: "log_step s t"

abbreviation active_state :: "execution_state \<Rightarrow> bool" where
  "active_state s \<equiv> s = PG_DISPATCHING \<or> s = PG_RUNNING"

abbreviation terminal_state :: "execution_state \<Rightarrow> bool" where
  "terminal_state s \<equiv> s \<in> pg_state ` set terminal_execution_statuses"

definition log_ok :: "db \<Rightarrow> request_row \<Rightarrow> bool" where
  "log_ok d r \<longleftrightarrow>
     history (rq_id r) d \<noteq> [] \<and> hd (history (rq_id r) d) = PG_QUEUED \<and>
     last (history (rq_id r) d) = rq_state r \<and> successively log_step (history (rq_id r) d) \<and>
     map ev_sequence (events_of (rq_id r) d) = map int [0..<length (history (rq_id r) d)]"

text \<open>
  The columns of one request agree with its state: a queued request has never been claimed;
  an active one is leased, has been claimed at least once and knows when.
\<close>

definition row_ok :: "request_row \<Rightarrow> bool" where
  "row_ok r \<longleftrightarrow>
     0 \<le> rq_attempt_count r \<and>
     rq_execution_type r \<in> type_value ` {Run, Submit} \<and>
     rq_state r \<in> range pg_state \<and>
     (rq_state r = PG_QUEUED \<longrightarrow> rq_attempt_count r = 0 \<and> rq_lease_owner r = None \<and>
        rq_k8s_job_name r = None \<and> rq_completed_at r = None) \<and>
     (active_state (rq_state r) \<longrightarrow> 1 \<le> rq_attempt_count r \<and> rq_lease_owner r \<noteq> None \<and>
        rq_lease_expires_at r \<noteq> None \<and> rq_dispatch_started_at r \<noteq> None \<and>
        rq_completed_at r = None) \<and>
     (terminal_state (rq_state r) \<longrightarrow> rq_completed_at r \<noteq> None)"

definition request_key :: "request_row \<Rightarrow> uuid \<times> string" where
  "request_key r = (rq_candidate r, rq_idempotency_key r)"

definition exec_inv :: "db \<Rightarrow> bool" where
  "exec_inv d \<longleftrightarrow>
     distinct (map rq_id (requests d)) \<and>
     distinct (map request_key (requests d)) \<and>
     distinct (map ob_dedupe_key (outbox d)) \<and>
     map pl_execution (payloads d) = map rq_id (requests d) \<and>
     list_all (\<lambda>r. log_ok d r \<and> row_ok r) (requests d) \<and>
     list_all (\<lambda>ev. ev_execution ev \<in> rq_id ` set (requests d)) (exec_events d)"

lemma exec_inv_empty: "exec_inv empty_db"
  by (simp add: exec_inv_def empty_db_def)

section \<open>Status text\<close>

lemma pg_state_inject [simp]: "pg_state s = pg_state t \<longleftrightarrow> s = t"
  by (cases s; cases t) simp_all

lemma normalize_pg_state [simp]: "normalize_execution_status (state_text (pg_state s)) = Inr s"
  by (cases s) (simp_all add: normalize_execution_status_def legacy_status_map_def
      parse_status_def all_statuses_def)

lemma parse_type_value [simp]: "parse_type (type_value t) = Inr t"
  by (cases t) (simp_all add: parse_type_def)

lemma is_terminal_iff: "is_terminal s \<longleftrightarrow> s \<noteq> Queued \<and> s \<noteq> Dispatching \<and> s \<noteq> Running"
  by (cases s) (simp_all add: terminal_execution_statuses_def)

lemma is_terminal_iff_no_transition: "is_terminal s \<longleftrightarrow> legal_execution_transitions s = []"
  by (cases s) (simp_all add: terminal_execution_statuses_def)

lemma terminal_state_pg [simp]: "terminal_state (pg_state s) \<longleftrightarrow> is_terminal s"
  by (simp add: inj_image_mem_iff inj_def)

lemma active_not_terminal: "active_state s \<Longrightarrow> \<not> terminal_state s"
  by (auto simp: terminal_execution_statuses_def)

lemma validate_Inr_iff [simp]:
  "validate_execution_transition s t = Inr u \<longleftrightarrow> t \<in> set (legal_execution_transitions s)"
  by (simp add: validate_execution_transition_def)

lemma validate_legal [simp]:
  "t \<in> set (legal_execution_transitions s) \<Longrightarrow> validate_execution_transition s t = Inr ()"
  by (simp add: validate_execution_transition_def)

lemma log_step_terminal:
  assumes "log_step s t"
  shows "\<not> terminal_state s"
  using assms
proof cases
  case (legal_step t' s')
  then have "\<not> is_terminal s'" by (auto simp: is_terminal_iff_no_transition)
  then show ?thesis using legal_step(1) by simp
next
  case retry_step
  then show ?thesis using active_not_terminal by simp
qed

section \<open>Events\<close>

lemma events_of_append_event:
  "events_of x (append_event eid s det d) =
     (if x = eid then events_of eid d @
       [\<lparr>ev_execution = eid, ev_sequence = next_sequence (-1) (map ev_sequence (events_of eid d)),
         ev_state = pg_state s, ev_details = det\<rparr>]
      else events_of x d)"
  by (simp add: events_of_def append_event_def)

lemma events_of_cong: "exec_events d' = exec_events d \<Longrightarrow> events_of x d' = events_of x d"
  by (simp add: events_of_def)

lemma history_append_event:
  "history x (append_event eid s det d) =
     (if x = eid then history eid d @ [pg_state s] else history x d)"
  by (simp add: history_def events_of_append_event)

lemma append_event_tables [simp]:
  "requests (append_event eid s det d) = requests d"
  "payloads (append_event eid s det d) = payloads d"
  "outbox (append_event eid s det d) = outbox d"
  "public_results (append_event eid s det d) = public_results d"
  "questions (append_event eid s det d) = questions d"
  "question_versions (append_event eid s det d) = question_versions d"
  by (simp_all add: append_event_def)

lemma log_ok_advance:
  assumes "log_ok d r" "log_step (rq_state r) (pg_state s)" "exec_events d' = exec_events d"
    "rq_id r' = rq_id r" "rq_state r' = pg_state s"
  shows "log_ok (append_event (rq_id r) s det d') r'"
proof -
  note ev = events_of_cong [OF assms(3)]
  have h: "history (rq_id r) d' = history (rq_id r) d" by (simp add: history_def ev)
  have seq: "map ev_sequence (events_of (rq_id r) d) = map int [0..<length (history (rq_id r) d)]"
    using assms(1) by (simp add: log_ok_def)
  show ?thesis
    using assms(1,2,4,5) seq next_sequence_upt [of "length (history (rq_id r) d)"]
    by (simp add: log_ok_def history_append_event h events_of_append_event ev hd_append
        successively_append_iff)
qed

lemma log_ok_other:
  assumes "log_ok d r" "exec_events d' = exec_events d" "rq_id r \<noteq> eid"
    "rq_id r' = rq_id r" "rq_state r' = rq_state r"
  shows "log_ok (append_event eid s det d') r'"
  using assms by (simp add: log_ok_def history_append_event events_of_append_event)
    (simp add: history_def events_of_cong [OF assms(2)])

lemma log_ok_cong:
  assumes "log_ok d r" "exec_events d' = exec_events d" "rq_id r' = rq_id r" "rq_state r' = rq_state r"
  shows "log_ok d' r'"
  using assms by (simp add: log_ok_def history_def events_of_cong [OF assms(2)])

section \<open>The two ways an operation changes requests\<close>

lemma exec_inv_request:
  assumes "exec_inv d" "request_of eid d = Some r"
  shows "log_ok d r" "row_ok r" "rq_id r = eid" "r \<in> set (requests d)"
  using assms row_with_SomeD [OF assms(2)] by (auto simp: exec_inv_def list_all_iff)

lemma row_ok_type:
  assumes "row_ok r"
  obtains ty where "rq_execution_type r = type_value ty"
  using assms unfolding row_ok_def by blast

lemma row_ok_state:
  assumes "row_ok r"
  obtains s where "rq_state r = pg_state s"
  using assms unfolding row_ok_def by blast

lemma exec_inv_touch:
  assumes inv: "exec_inv d"
    and row: "\<And>r. r \<in> set (requests d) \<Longrightarrow> P r \<Longrightarrow> row_ok r \<Longrightarrow> row_ok (f r) \<and> rq_state (f r) = rq_state r"
    and keep: "\<And>r. rq_id (f r) = rq_id r" "\<And>r. request_key (f r) = request_key r"
    and same: "exec_events d' = exec_events d" "payloads d' = payloads d"
      "map ob_dedupe_key (outbox d') = map ob_dedupe_key (outbox d)"
      "requests d' = update_where P f (requests d)"
  shows "exec_inv d'"
proof -
  have ids: "map rq_id (requests d') = map rq_id (requests d)"
    and keys: "map request_key (requests d') = map request_key (requests d)"
    by (simp_all add: same map_update_where_same keep)
  have "list_all (\<lambda>r. log_ok d' r \<and> row_ok r) (requests d')"
    using inv row log_ok_cong [OF _ same(1)] keep(1)
    by (auto simp: exec_inv_def list_all_iff same(4) set_update_where)
  moreover have "rq_id ` set (requests d') = rq_id ` set (requests d)"
    using ids by (metis list.set_map)
  ultimately show ?thesis
    using inv ids keys same(1,2,3) by (simp add: exec_inv_def)
qed

lemma exec_inv_advance:
  assumes inv: "exec_inv d"
    and at: "request_of eid d = Some r"
    and step: "log_step (rq_state r) (pg_state s)"
    and row: "row_ok (f r)" "rq_state (f r) = pg_state s"
    and keep: "\<And>r. rq_id (f r) = rq_id r" "\<And>r. request_key (f r) = request_key r"
    and only: "P r" "\<And>x. x \<in> set (requests d) \<Longrightarrow> P x \<Longrightarrow> rq_id x = eid"
  shows "exec_inv (append_event eid s det (d\<lparr>requests := update_where P f (requests d)\<rparr>))"
proof -
  let ?d1 = "d\<lparr>requests := update_where P f (requests d)\<rparr>"
  let ?d2 = "append_event eid s det ?d1"
  have ids: "map rq_id (requests ?d2) = map rq_id (requests d)"
    and keys: "map request_key (requests ?d2) = map request_key (requests d)"
    by (simp_all add: map_update_where_same keep)
  note r = exec_inv_request [OF inv at]
  have unique: "x = r" if "x \<in> set (requests d)" "rq_id x = eid" for x
    using inv at that row_with_distinct [of rq_id "requests d" x] by (auto simp: exec_inv_def)
  have "log_ok ?d2 (if P x then f x else x) \<and> row_ok (if P x then f x else x)"
    if x: "x \<in> set (requests d)" for x
  proof (cases "rq_id x = eid")
    case True
    then have "x = r" using unique x by simp
    then show ?thesis using r row only(1) keep(1) log_ok_advance [OF r(1) step, of ?d1 "f r" det] by simp
  next
    case False
    then have "\<not> P x" using only(2) x by blast
    then show ?thesis using inv x False log_ok_other [of d x ?d1 eid x] by (simp add: exec_inv_def list_all_iff)
  qed
  then have all: "list_all (\<lambda>r. log_ok ?d2 r \<and> row_ok r) (requests ?d2)"
    unfolding list_all_iff by (auto elim!: in_update_whereE split del: if_split)
  have "rq_id ` set (requests ?d2) = rq_id ` set (requests d)"
    using ids by (metis list.set_map)
  then have "list_all (\<lambda>ev. ev_execution ev \<in> rq_id ` set (requests ?d2)) (exec_events ?d2)"
    using inv r(3,4) by (auto simp: exec_inv_def append_event_def)
  then show ?thesis using inv ids keys all by (simp add: exec_inv_def)
qed

lemma exec_inv_insert_outbox: "exec_inv d \<Longrightarrow> exec_inv (insert_outbox oid a t k p c d)"
  using log_ok_cong [of d _ "insert_outbox oid a t k p c d"]
  by (auto simp: exec_inv_def insert_outbox_def list_all_iff)

lemma insert_outbox_tables [simp]:
  "requests (insert_outbox oid a t k p c d) = requests d"
  "exec_events (insert_outbox oid a t k p c d) = exec_events d"
  "payloads (insert_outbox oid a t k p c d) = payloads d"
  by (simp_all add: insert_outbox_def)

end
