(* ===== verification/Execution_Repository.thy ===== *)
theory Execution_Repository imports Execution_Log begin

text \<open>
  Correctness of \<open>ExecutionRepository\<close>: creation is idempotent under its key even when two
  transactions race, a transition succeeds exactly when the status machine allows it, and
  every operation keeps the invariant of the execution tables.
\<close>

section \<open>Creation\<close>

lemma find_by_idempotency_None:
  assumes "find_by_idempotency e key d = None" "user_id e = Some u"
  shows "(u, key) \<notin> request_key ` set (requests d)"
  using assms by (auto simp: find_by_idempotency_def find_None_iff request_key_def)

lemma find_by_idempotency_Some:
  assumes "find_by_idempotency e key d = Some r"
  shows "r \<in> set (requests d) \<and> user_id e = Some (rq_candidate r) \<and> rq_idempotency_key r = key"
proof -
  from assms obtain u where u: "user_id e = Some u"
    "find (\<lambda>r. rq_candidate r = u \<and> rq_idempotency_key r = key) (requests d) = Some r"
    by (auto simp: find_by_idempotency_def split: option.splits)
  from u(2) obtain i where "i < length (requests d)" "rq_candidate (requests d ! i) = u"
    "rq_idempotency_key (requests d ! i) = key" "r = requests d ! i"
    by (auto simp: find_Some_iff)
  then show ?thesis using u(1) by auto
qed

lemma find_by_idempotency_unique:
  assumes "distinct (map request_key (requests d))" "r \<in> set (requests d)"
    "user_id e = Some (rq_candidate r)" "rq_idempotency_key r = key"
  shows "find_by_idempotency e key d = Some r"
proof (cases "find_by_idempotency e key d")
  case None
  then show ?thesis
    using find_by_idempotency_None [OF None assms(3)] assms(2,4) by (auto simp: request_key_def)
next
  case (Some r')
  note f = find_by_idempotency_Some [OF Some]
  have "request_key r' = request_key r" using f assms(3,4) by (simp add: request_key_def)
  then have "r' = r" using assms(1,2) f(1) by (meson distinct_map inj_onD)
  then show ?thesis using Some by simp
qed

lemma new_request_row_simps [simp]:
  "rq_id (new_request_row e u eid c) = eid"
  "rq_candidate (new_request_row e u eid c) = u"
  "rq_idempotency_key (new_request_row e u eid c) = cr_idempotency_key c"
  "rq_state (new_request_row e u eid c) = PG_QUEUED"
  "rq_request_hash (new_request_row e u eid c) = execution_request_hash (lib e)
     (cr_execution_type c) (cr_practice_session c) (cr_question_version c) (cr_runtime c)
     (cr_source_code c)"
  by (simp_all add: new_request_row_def)

lemma row_ok_new_request_row: "row_ok (new_request_row e u eid c)"
  using rangeI [of pg_state Queued]
  by (cases "cr_execution_type c")
    (auto simp: row_ok_def new_request_row_def terminal_execution_statuses_def)

lemma events_of_absent:
  assumes "exec_inv d" "eid \<notin> rq_id ` set (requests d)"
  shows "events_of eid d = []"
  using assms by (auto simp: exec_inv_def events_of_def list_all_iff filter_empty_conv)

lemma queued_from_new_row:
  "queued_from_row (new_request_row e u eid c) b =
     Inr \<lparr>qe_execution_id = eid, qe_submission_id = cr_submission c, qe_status = Queued,
       qe_execution_type = cr_execution_type c, qe_runtime = cr_runtime c,
       qe_created_at = db_now e, qe_trace_id = cr_trace_id c, qe_duplicate = b\<rparr>"
  using normalize_pg_state [of Queued] by (simp add: queued_from_row_def new_request_row_def)

lemma store_queued_requests [simp]:
  "requests (store_queued e eid oid c row d) = requests d @ [row]"
  by (simp add: store_queued_def)

lemma store_queued_inv:
  assumes inv: "exec_inv d" and u: "user_id e = Some u"
    and new: "eid \<notin> rq_id ` set (requests d)" "find_by_idempotency e (cr_idempotency_key c) d = None"
  shows "exec_inv (store_queued e eid oid c (new_request_row e u eid c) d)"
proof -
  let ?row = "new_request_row e u eid c"
  let ?pl = "\<lparr>pl_execution = eid, pl_source_code = cr_source_code c,
     pl_input_payload = (case cr_input_payload c of None \<Rightarrow> JObj [] | Some p \<Rightarrow> py_or p (JObj []))\<rparr>"
  let ?d1 = "d\<lparr>requests := requests d @ [?row], payloads := payloads d @ [?pl]\<rparr>"
  let ?det = "JObj [(''attempt'', JInt 0), (''trace_id'', JStr (cr_trace_id c))]"
  let ?d2 = "append_event eid Queued ?det ?d1"
  have ev1: "exec_events ?d1 = exec_events d" by simp
  have none: "events_of eid d = []" using inv new(1) by (rule events_of_absent)
  have "(u, cr_idempotency_key c) \<notin> request_key ` set (requests d)"
    using find_by_idempotency_None [OF new(2) u] .
  then have keys: "distinct (map request_key (requests ?d2))"
    using inv by (auto simp: exec_inv_def request_key_def)
  have old: "log_ok ?d2 r" if "r \<in> set (requests d)" for r
    using inv that new(1) log_ok_other [of d r ?d1 eid r] by (auto simp: exec_inv_def list_all_iff)
  have fresh: "log_ok ?d2 ?row"
    using none next_sequence_upt [of 0] events_of_cong [OF ev1, of eid]
    by (simp add: log_ok_def history_append_event events_of_append_event history_def)
  have "exec_inv ?d2"
    using inv new(1) keys old fresh row_ok_new_request_row
    by (auto simp: exec_inv_def list_all_iff) (auto simp: append_event_def)
  then show ?thesis by (simp add: store_queued_def exec_inv_insert_outbox)
qed

text \<open>The outcomes of \<open>create_queued\<close>, as one case rule.\<close>

lemma create_queued_cases:
  assumes "create_queued e eid oid c seen d = Inr (q, d')"
  obtains (reused) r where "rq_request_hash r = execution_request_hash (lib e)
      (cr_execution_type c) (cr_practice_session c) (cr_question_version c) (cr_runtime c)
      (cr_source_code c)" "queued_from_row r True = Inr q" "d' = d"
      "r \<in> set (requests seen) \<union> set (requests d)" "user_id e = Some (rq_candidate r)"
      "rq_idempotency_key r = cr_idempotency_key c"
  | (stored) u where "user_id e = Some u" "eid \<notin> rq_id ` set (requests d)"
      "find_by_idempotency e (cr_idempotency_key c) seen = None"
      "find_by_idempotency e (cr_idempotency_key c) d = None"
      "queued_from_row (new_request_row e u eid c) False = Inr q"
      "d' = store_queued e eid oid c (new_request_row e u eid c) d"
  using assms
  by (auto simp: create_queued_def reuse_queued_def Let_def res_bind_Inr_iff
      dest: find_by_idempotency_Some split: option.splits if_splits)

lemma create_queued_inv:
  assumes "exec_inv d" "create_queued e eid oid c seen d = Inr (q, d')"
  shows "exec_inv d'"
  using assms(2) by (cases rule: create_queued_cases) (auto simp: assms(1) intro: store_queued_inv)

text \<open>
  After a creation the key is taken by the row the answer names, and its fingerprint is the
  request's.
\<close>

lemma create_queued_owner:
  assumes "exec_inv d" "create_queued e eid oid c d d = Inr (q, d')"
  obtains r where "find_by_idempotency e (cr_idempotency_key c) d' = Some r"
    "queued_from_row r True = Inr (q\<lparr>qe_duplicate := True\<rparr>)"
    "rq_request_hash r = execution_request_hash (lib e) (cr_execution_type c)
       (cr_practice_session c) (cr_question_version c) (cr_runtime c) (cr_source_code c)"
proof -
  have keys: "distinct (map request_key (requests d'))"
    using create_queued_inv [OF assms] by (simp add: exec_inv_def)
  from assms(2) show thesis
  proof (cases rule: create_queued_cases)
    case (reused r)
    moreover have "find_by_idempotency e (cr_idempotency_key c) d' = Some r"
      using reused keys by (intro find_by_idempotency_unique) auto
    moreover have "q\<lparr>qe_duplicate := True\<rparr> = q"
      using reused(2) by (auto simp: queued_from_row_def res_bind_Inr_iff)
    ultimately show thesis using that by simp
  next
    case (stored u)
    let ?row = "new_request_row e u eid c"
    have "find_by_idempotency e (cr_idempotency_key c) d' = Some ?row"
      using stored keys by (intro find_by_idempotency_unique) auto
    moreover have "queued_from_row ?row True = Inr (q\<lparr>qe_duplicate := True\<rparr>)"
      using stored(5) by (simp add: queued_from_new_row) (auto simp: queued_execution.defs)
    ultimately show thesis using that by simp
  qed
qed

section \<open>Transitions\<close>

lemma transition_row_keep [simp]:
  "rq_id (transition_row e t o1 x r) = rq_id r"
  "request_key (transition_row e t o1 x r) = request_key r"
  "rq_state (transition_row e t o1 x r) = pg_state t"
  "rq_execution_type (transition_row e t o1 x r) = rq_execution_type r"
  "rq_attempt_count (transition_row e t o1 x r) = rq_attempt_count r"
  "rq_completed_at (transition_row e t o1 x r) =
     coalesce (if is_terminal t then Some (app_now e) else None) (rq_completed_at r)"
  by (simp_all add: transition_row_def request_key_def)

text \<open>
  What a terminal transition, the only kind the code asks of \<open>transition\<close>, does to a row that
  satisfies the invariant.
\<close>

lemma terminal_pg_state:
  "is_terminal t \<Longrightarrow> pg_state t \<noteq> PG_QUEUED \<and> pg_state t \<noteq> PG_DISPATCHING \<and> pg_state t \<noteq> PG_RUNNING"
  by (cases t; simp add: terminal_execution_statuses_def)

lemma row_ok_terminal_transition:
  assumes "row_ok r" "is_terminal t"
  shows "row_ok (transition_row e t o1 x r)"
proof -
  have a: "0 \<le> rq_attempt_count r" using assms(1) unfolding row_ok_def by blast
  have b: "rq_execution_type r \<in> type_value ` {Run, Submit}" using assms(1) unfolding row_ok_def by blast
  show ?thesis
    using terminal_pg_state [OF assms(2)] a b assms(2) unfolding row_ok_def transition_row_keep by simp
qed

lemma get_execution_Inr:
  assumes "request_of eid d = Some r" "rq_state r = pg_state s" "rq_execution_type r = type_value t"
  obtains snap where "get_execution eid d = Inr snap" "es_status snap = s" "es_execution_id snap = rq_id r"
  using assms by (simp add: get_execution_def snapshot_of_row_def)

lemma transition_InrD:
  assumes "transition e eid t det o1 x d = Inr (snap, d')"
  obtains r s det' where "request_of eid d = Some r"
    "normalize_execution_status (state_text (rq_state r)) = Inr s"
    "t \<in> set (legal_execution_transitions s)"
    "d' = append_event eid t det'
       (d\<lparr>requests := update_where (\<lambda>y. rq_id y = eid) (transition_row e t o1 x) (requests d)\<rparr>)"
  using assms by (auto simp: transition_def Let_def res_bind_Inr_iff split: option.splits)

lemma transition_request_of:
  assumes "request_of eid d = Some r"
    "d' = append_event eid t det
       (d\<lparr>requests := update_where (\<lambda>y. rq_id y = eid) (transition_row e t o1 x) (requests d)\<rparr>)"
  shows "request_of y d' = (if y = eid then Some (transition_row e t o1 x r) else request_of y d)"
  using assms by (simp add: row_with_update_at)

lemma exec_inv_pg_state:
  assumes "exec_inv d" "request_of eid d = Some r"
  obtains s where "rq_state r = pg_state s"
  using exec_inv_request(2) [OF assms] row_ok_state by blast

lemma transition_inv:
  assumes "exec_inv d" "is_terminal t" "transition e eid t det o1 x d = Inr (snap, d')"
  shows "exec_inv d'"
  using assms(3)
proof (rule transition_InrD)
  fix r s det'
  assume r: "request_of eid d = Some r"
    and s: "normalize_execution_status (state_text (rq_state r)) = Inr s"
    and t: "t \<in> set (legal_execution_transitions s)"
    and d': "d' = append_event eid t det'
       (d\<lparr>requests := update_where (\<lambda>y. rq_id y = eid) (transition_row e t o1 x) (requests d)\<rparr>)"
  obtain s' where s': "rq_state r = pg_state s'" using exec_inv_pg_state [OF assms(1) r] .
  with s t have "log_step (rq_state r) (pg_state t)" by (auto intro: legal_step)
  then show "exec_inv d'"
    unfolding d' using assms(1,2) r exec_inv_request [OF assms(1) r]
    by (intro exec_inv_advance) (auto intro: row_ok_terminal_transition)
qed

text \<open>A transition succeeds exactly when the request exists and the status machine allows it.\<close>

lemma transition_succeeds_iff:
  assumes "exec_inv d"
  shows "(\<exists>snap d'. transition e eid t det o1 x d = Inr (snap, d')) \<longleftrightarrow>
    (\<exists>r s. request_of eid d = Some r \<and> rq_state r = pg_state s \<and>
       t \<in> set (legal_execution_transitions s))"
proof
  assume "\<exists>snap d'. transition e eid t det o1 x d = Inr (snap, d')"
  then obtain snap d' where "transition e eid t det o1 x d = Inr (snap, d')" by blast
  then show "\<exists>r s. request_of eid d = Some r \<and> rq_state r = pg_state s \<and>
       t \<in> set (legal_execution_transitions s)"
  proof (rule transition_InrD)
    fix r s det'
    assume r: "request_of eid d = Some r"
      and "normalize_execution_status (state_text (rq_state r)) = Inr s"
        "t \<in> set (legal_execution_transitions s)"
    moreover obtain s' where "rq_state r = pg_state s'" using exec_inv_pg_state [OF assms r] .
    ultimately show ?thesis by auto
  qed
next
  assume "\<exists>r s. request_of eid d = Some r \<and> rq_state r = pg_state s \<and>
       t \<in> set (legal_execution_transitions s)"
  then obtain r s where r: "request_of eid d = Some r" "rq_state r = pg_state s"
    "t \<in> set (legal_execution_transitions s)" by blast
  obtain ty where "rq_execution_type r = type_value ty"
    using row_ok_type [OF exec_inv_request(2) [OF assms r(1)]] .
  then show "\<exists>snap d'. transition e eid t det o1 x d = Inr (snap, d')"
    using r by (simp add: transition_def Let_def get_execution_def transition_request_of
        snapshot_of_row_def row_with_update_at)
qed

section \<open>Cancellation\<close>

lemma cancel_inv:
  assumes "exec_inv d" "cancel e oid eid tr d = Inr (snap, d')"
  shows "exec_inv d'"
  using assms transition_inv [OF assms(1), of Cancelled]
  by (auto simp: cancel_def res_bind_Inr_iff is_terminal_iff intro!: exec_inv_insert_outbox
      split: if_splits)

end
