(* ===== verification/Execution_Outbox.thy ===== *)
theory Execution_Outbox imports Execution_Repository "HOL-Library.Product_Lexorder" begin

text \<open>
  The transactional outbox (\<open>outbox.py\<close>) and its publisher (\<open>execution_publisher.py\<close>).
  The publisher is written against a protocol, \<open>ExecutionOutboxStore\<close>; the locale
  \<open>outbox_store\<close> is that protocol with the laws the publisher relies on, and it is
  interpreted on the repository's own operations.
\<close>

section \<open>Retry delays\<close>

text \<open>
  \<open>2 ** attempt_count\<close> is an unbounded integer; multiplying it with a float converts it, which
  raises \<open>OverflowError\<close> from \<open>2 ** 1024\<close> on.
\<close>

definition retry_delay_seconds :: "int \<Rightarrow> rat \<Rightarrow> rat \<Rightarrow> rat \<Rightarrow> rat result" where
  "retry_delay_seconds attempt_count base cap jitter =
     (if attempt_count < 0 then Inl (Exn ValueErr ''attempt_count must be non-negative'')
      else if \<not> (0 \<le> jitter \<and> jitter \<le> 1)
        then Inl (Exn ValueErr ''jitter_ratio must be between 0 and 1'')
      else if 1024 \<le> attempt_count
        then Inl (Exn OverflowErr ''int too large to convert to float'')
      else let exponential = min cap (fmul base (2 ^ nat attempt_count))
           in Inr (min cap (fmul exponential (fadd (1 / 2) (fmul (1 / 2) jitter)))))"

text \<open>\<open>timedelta(seconds=s)\<close> in microseconds.\<close>

definition timedelta_us :: "rat \<Rightarrow> timestamp" where
  "timedelta_us s = \<lfloor>s\<rfloor> * 10 ^ 6 + round_half_even (fmul (s - of_int \<lfloor>s\<rfloor>) (10 ^ 6))"

section \<open>The repository\<close>

record outbox_message =
  om_id :: uuid
  om_aggregate_type :: string
  om_aggregate_id :: uuid
  om_event_type :: string
  om_payload :: jobj
  om_created_at :: timestamp
  om_attempt_count :: int

definition message_of_row :: "outbox_row \<Rightarrow> outbox_message" where
  "message_of_row r =
     \<lparr>om_id = ob_id r, om_aggregate_type = ob_aggregate_type r,
      om_aggregate_id = ob_aggregate_id r, om_event_type = ob_event_type r,
      om_payload = (case ob_payload r of JObj p \<Rightarrow> p | _ \<Rightarrow> []),
      om_created_at = ob_created_at r, om_attempt_count = ob_attempt_count r\<rparr>"

text \<open>\<open>locked\<close> holds the rows other transactions have locked: \<open>SKIP LOCKED\<close> passes over them.\<close>

definition claimable :: "env \<Rightarrow> uuid list \<Rightarrow> db \<Rightarrow> outbox_row list" where
  "claimable e locked d = sort_key (\<lambda>r. (ob_created_at r, ob_id r))
     (filter (\<lambda>r. ob_published_at r = None \<and> ob_next_attempt_at r \<le> db_now e \<and>
        ob_id r \<notin> set locked) (outbox d))"

definition claim_batch :: "env \<Rightarrow> uuid list \<Rightarrow> int \<Rightarrow> db \<Rightarrow> outbox_message list result" where
  "claim_batch e locked limit d =
     (if \<not> (1 \<le> limit \<and> limit \<le> 100) then Inl (Exn ValueErr ''limit must be between 1 and 100'')
      else Inr (map message_of_row (take (nat limit) (claimable e locked d))))"

definition mark_published :: "env \<Rightarrow> uuid \<Rightarrow> db \<Rightarrow> db" where
  "mark_published e mid d = d\<lparr>outbox := update_where
     (\<lambda>r. ob_id r = mid \<and> ob_published_at r = None)
     (\<lambda>r. r\<lparr>ob_published_at := Some (db_now e), ob_last_error := None\<rparr>) (outbox d)\<rparr>"

definition mark_failed ::
  "env \<Rightarrow> uuid \<Rightarrow> int \<Rightarrow> string \<Rightarrow> rat \<Rightarrow> db \<Rightarrow> (timestamp \<times> db) result" where
  "mark_failed e mid attempt_count err jitter d =
     res_bind (retry_delay_seconds attempt_count 1 300 jitter) (\<lambda>delay.
       let next_attempt_at = app_now e + timedelta_us delay
       in Inr (next_attempt_at, d\<lparr>outbox := update_where
            (\<lambda>r. ob_id r = mid \<and> ob_published_at r = None)
            (\<lambda>r. r\<lparr>ob_attempt_count := ob_attempt_count r + 1,
                   ob_next_attempt_at := next_attempt_at,
                   ob_last_error := Some (take 4000 err)\<rparr>) (outbox d)\<rparr>))"

section \<open>The publisher\<close>

record publish_batch_result =
  pb_claimed :: nat
  pb_published :: nat
  pb_failed :: nat

text \<open>
  \<open>publish\<close> is the transport: it may deliver and still raise, so it returns an optional
  exception and the transport's new state. An exception of \<open>mark_failed\<close> leaves the loop.
\<close>

fun exn_name :: "exn_class \<Rightarrow> string" where
  "exn_name ValueErr = ''ValueError''"
| "exn_name TypeErr = ''TypeError''"
| "exn_name OverflowErr = ''OverflowError''"
| "exn_name RuntimeErr = ''RuntimeError''"
| "exn_name KeyErr = ''KeyError''"
| "exn_name AttributeErr = ''AttributeError''"
| "exn_name JSONDecodeErr = ''JSONDecodeError''"
| "exn_name ValidationErr = ''ValidationError''"
| "exn_name ExecutionTransitionErr = ''ExecutionTransitionError''"
| "exn_name ExecutionNotFoundErr = ''ExecutionNotFoundError''"
| "exn_name IdempotencyConflictErr = ''IdempotencyConflictError''"
| "exn_name TrustedResultErr = ''TrustedResultError''"
| "exn_name IntegrityErr = ''IntegrityError''"
| "exn_name TransportErr = ''SqsTransportError''"
| "exn_name (ReviewWorkflowErr n) = ''ReviewWorkflowError''"
| "exn_name PracticeNotFoundErr = ''PracticeSessionNotFoundError''"
| "exn_name PracticeTransitionErr = ''PracticeStateTransitionError''"
| "exn_name (HttpErr n) = ''HTTPException''"
| "exn_name RunnerInputErr = ''RunnerInputError''"
| "exn_name RunnerInfrastructureErr = ''RunnerInfrastructureError''"
| "exn_name DatabaseErr = ''Error''"
| "exn_name VercelSandboxErr = ''VercelSandboxError''"

fun publish_loop ::
  "('m \<Rightarrow> 's \<Rightarrow> 's) \<Rightarrow> ('m \<Rightarrow> string \<Rightarrow> 's \<Rightarrow> 's result) \<Rightarrow> ('m \<Rightarrow> 'q \<Rightarrow> exn option \<times> 'q) \<Rightarrow>
     'm list \<Rightarrow> nat \<Rightarrow> nat \<Rightarrow> 's \<Rightarrow> 'q \<Rightarrow> (nat \<times> nat \<times> 's) result \<times> 'q" where
  "publish_loop mark_pub mark_fail publish [] published failed s q = (Inr (published, failed, s), q)"
| "publish_loop mark_pub mark_fail publish (m # ms) published failed s q =
     (case publish m q of
        (Some exc, q') \<Rightarrow> (case mark_fail m (exn_name (exn_class exc)) s of
            Inl x \<Rightarrow> (Inl x, q')
          | Inr s' \<Rightarrow> publish_loop mark_pub mark_fail publish ms published (failed + 1) s' q')
      | (None, q') \<Rightarrow>
          publish_loop mark_pub mark_fail publish ms (published + 1) failed (mark_pub m s) q')"

definition publish_claimed_messages ::
  "(int \<Rightarrow> 's \<Rightarrow> 'm list result) \<Rightarrow> ('m \<Rightarrow> 's \<Rightarrow> 's) \<Rightarrow> ('m \<Rightarrow> string \<Rightarrow> 's \<Rightarrow> 's result) \<Rightarrow>
     ('m \<Rightarrow> 'q \<Rightarrow> exn option \<times> 'q) \<Rightarrow> int \<Rightarrow> 's \<Rightarrow> 'q \<Rightarrow> (publish_batch_result \<times> 's) result \<times> 'q" where
  "publish_claimed_messages claim mark_pub mark_fail publish limit s q =
     (case claim limit s of
        Inl x \<Rightarrow> (Inl x, q)
      | Inr ms \<Rightarrow> (case publish_loop mark_pub mark_fail publish ms 0 0 s q of
            (Inl x, q') \<Rightarrow> (Inl x, q')
          | (Inr (p, f, s'), q') \<Rightarrow>
              (Inr (\<lparr>pb_claimed = length ms, pb_published = p, pb_failed = f\<rparr>, s'), q')))"

text \<open>\<open>jit\<close> is the value \<open>random.random()\<close> draws for a message.\<close>

definition publish_outbox_batch ::
  "env \<Rightarrow> uuid list \<Rightarrow> (uuid \<Rightarrow> rat) \<Rightarrow> (outbox_message \<Rightarrow> 'q \<Rightarrow> exn option \<times> 'q) \<Rightarrow> int \<Rightarrow>
     db \<Rightarrow> 'q \<Rightarrow> (publish_batch_result \<times> db) result \<times> 'q" where
  "publish_outbox_batch e locked jit publish =
     publish_claimed_messages (claim_batch e locked) (\<lambda>m. mark_published e (om_id m))
       (\<lambda>m err s. res_bind (mark_failed e (om_id m) (om_attempt_count m) err (jit (om_id m)) s)
          (\<lambda>(_, s'). Inr s')) publish"

section \<open>The protocol\<close>

text \<open>The messages of a batch the transport accepts, in order.\<close>

fun accepted :: "('m \<Rightarrow> 'q \<Rightarrow> exn option \<times> 'q) \<Rightarrow> 'm list \<Rightarrow> 'q \<Rightarrow> 'm list" where
  "accepted publish [] q = []"
| "accepted publish (m # ms) q =
     (if fst (publish m q) = None then m # accepted publish ms (snd (publish m q))
      else accepted publish ms (snd (publish m q)))"

locale outbox_store =
  fixes claim :: "int \<Rightarrow> 's \<Rightarrow> 'm list result"
    and mark_pub :: "'m \<Rightarrow> 's \<Rightarrow> 's"
    and mark_fail :: "'m \<Rightarrow> string \<Rightarrow> 's \<Rightarrow> 's result"
    and key :: "'m \<Rightarrow> 'k"
    and unpublished :: "'s \<Rightarrow> 'k set"
  assumes claim_unpublished: "claim l s = Inr ms \<Longrightarrow> key ` set ms \<subseteq> unpublished s"
    and pub_removes: "unpublished (mark_pub m s) = unpublished s - {key m}"
    and fail_keeps: "mark_fail m x s = Inr s' \<Longrightarrow> unpublished s' = unpublished s"
begin

lemma loop_counts:
  "publish_loop mark_pub mark_fail publish ms p f s q = (Inr (p', f', s'), q') \<Longrightarrow>
    p' = p + length (accepted publish ms q) \<and> p' + f' = p + f + length ms \<and>
    unpublished s' = unpublished s - key ` set (accepted publish ms q)"
proof (induction ms arbitrary: p f s q)
  case Nil
  then show ?case by simp
next
  case (Cons m ms)
  show ?case
  proof (cases "publish m q")
    case (Pair exc q1)
    show ?thesis
    proof (cases exc)
      case None
      with Pair Cons.prems
      have "publish_loop mark_pub mark_fail publish ms (p + 1) f (mark_pub m s) q1 = (Inr (p', f', s'), q')"
        by simp
      from Cons.IH [OF this] show ?thesis by (auto simp: Pair None pub_removes)
    next
      case (Some x)
      with Pair Cons.prems obtain s1 where s1: "mark_fail m (exn_name (exn_class x)) s = Inr s1"
        "publish_loop mark_pub mark_fail publish ms p (f + 1) s1 q1 = (Inr (p', f', s'), q')"
        by (auto split: sum.splits)
      from Cons.IH [OF s1(2)] fail_keeps [OF s1(1)] show ?thesis by (simp add: Pair Some)
    qed
  qed
qed

lemma batch_counts:
  assumes "publish_claimed_messages claim mark_pub mark_fail publish l s q = (Inr (res, s'), q')"
  obtains ms where "claim l s = Inr ms" "pb_claimed res = length ms"
    "pb_published res = length (accepted publish ms q)"
    "pb_claimed res = pb_published res + pb_failed res"
    "unpublished s' = unpublished s - key ` set (accepted publish ms q)"
  using assms
  by (auto simp: publish_claimed_messages_def split: sum.splits prod.splits dest: loop_counts)

end

text \<open>The identifiers of the rows still to publish.\<close>

definition unpublished_ids :: "db \<Rightarrow> uuid set" where
  "unpublished_ids d = ob_id ` {r \<in> set (outbox d). ob_published_at r = None}"

lemma unpublished_ids_mark_published: "unpublished_ids (mark_published e m d) = unpublished_ids d - {m}"
  unfolding unpublished_ids_def mark_published_def
  by (simp add: keys_update_where) auto

lemma mark_failed_InrE:
  assumes "mark_failed e m a x j d = Inr (t, d')"
  obtains delay where "retry_delay_seconds a 1 300 j = Inr delay"
    "t = app_now e + timedelta_us delay"
    "d' = d\<lparr>outbox := update_where (\<lambda>r. ob_id r = m \<and> ob_published_at r = None)
       (\<lambda>r. r\<lparr>ob_attempt_count := ob_attempt_count r + 1, ob_next_attempt_at := t,
              ob_last_error := Some (take 4000 x)\<rparr>) (outbox d)\<rparr>"
  using assms by (auto simp: mark_failed_def Let_def res_bind_Inr_iff)

lemma unpublished_ids_mark_failed:
  assumes "mark_failed e m a x j d = Inr (t, d')"
  shows "unpublished_ids d' = unpublished_ids d"
  using assms
proof (rule mark_failed_InrE)
  fix delay
  assume d': "d' = d\<lparr>outbox := update_where (\<lambda>r. ob_id r = m \<and> ob_published_at r = None)
       (\<lambda>r. r\<lparr>ob_attempt_count := ob_attempt_count r + 1, ob_next_attempt_at := t,
              ob_last_error := Some (take 4000 x)\<rparr>) (outbox d)\<rparr>"
  show ?thesis unfolding unpublished_ids_def d' by (simp add: keys_update_where_same)
qed

lemma claim_batch_unpublished:
  "claim_batch e locked l d = Inr ms \<Longrightarrow> om_id ` set ms \<subseteq> unpublished_ids d"
  by (auto simp: claim_batch_def claimable_def unpublished_ids_def message_of_row_def
      split: if_splits dest!: in_set_takeD)

interpretation db_outbox: outbox_store "claim_batch e locked" "\<lambda>m. mark_published e (om_id m)"
  "\<lambda>m err s. res_bind (mark_failed e (om_id m) (om_attempt_count m) err (jit (om_id m)) s)
     (\<lambda>(_, s'). Inr s')" om_id unpublished_ids for e locked jit
  by unfold_locales
    (auto simp: unpublished_ids_mark_published unpublished_ids_mark_failed res_bind_Inr_iff
      dest: claim_batch_unpublished)

section \<open>Invariant\<close>

lemma mark_published_inv: "exec_inv d \<Longrightarrow> exec_inv (mark_published e m d)"
  by (rule exec_inv_touch [where P = "\<lambda>_. False" and f = id and d = d])
    (auto simp: mark_published_def update_where_none map_update_where_same)

lemma mark_failed_inv:
  assumes "exec_inv d" "mark_failed e m a x j d = Inr (t, d')"
  shows "exec_inv d'"
  using assms(2)
  by (auto simp: mark_failed_def res_bind_Inr_iff Let_def update_where_none map_update_where_same
      intro!: exec_inv_touch [where P = "\<lambda>_. False" and f = id, OF assms(1)])

end
