(* ===== verification/Execution_Claims.thy ===== *)
theory Execution_Claims imports Execution_Outbox "HOL-Library.Option_ord" begin

text \<open>
  Compare-and-set ownership of executions (\<open>execution_claims.py\<close>): claiming a queued request,
  starting a fresh attempt after a lost sandbox, marking it running, renewing and checking a
  lease, listing expired leases. Deadlines are timezone-aware times, as every caller makes them
  from \<open>datetime.now(UTC)\<close>.
\<close>

section \<open>Operations\<close>

record execution_claim =
  ec_execution_id :: uuid
  ec_runtime :: string
  ec_execution_type :: string
  ec_language :: string
  ec_code_reference :: "string option"
  ec_input_reference :: "string option"
  ec_attempt_count :: int
  ec_lease_owner :: string
  ec_lease_expires_at :: timestamp
  ec_trace_id :: string

record expired_lease =
  xl_execution_id :: uuid
  xl_status :: execution_status
  xl_lease_owner :: "string option"
  xl_lease_expires_at :: "timestamp option"
  xl_k8s_namespace :: "string option"
  xl_k8s_job_name :: "string option"
  xl_attempt_count :: int

definition validate_lease_deadline :: "env \<Rightarrow> timestamp \<Rightarrow> unit result" where
  "validate_lease_deadline e v =
     (if v \<le> app_now e then Inl (Exn ValueErr ''Lease deadline must be in the future.'') else Inr ())"

definition claim_guard :: "uuid \<Rightarrow> request_row \<Rightarrow> bool" where
  "claim_guard eid r \<longleftrightarrow> rq_id r = eid \<and> rq_state r = PG_QUEUED"

definition claim_row :: "env \<Rightarrow> string \<Rightarrow> timestamp \<Rightarrow> request_row \<Rightarrow> request_row" where
  "claim_row e worker expires r =
     r\<lparr>rq_state := PG_DISPATCHING, rq_lease_owner := Some worker,
       rq_lease_expires_at := Some expires, rq_attempt_count := rq_attempt_count r + 1,
       rq_dispatch_started_at := coalesce (rq_dispatch_started_at r) (Some (db_now e))\<rparr>"

definition attempt_details :: "env \<Rightarrow> int \<Rightarrow> string \<Rightarrow> timestamp \<Rightarrow> jobj" where
  "attempt_details e attempt worker expires =
     [(''attempt'', JInt attempt), (''lease_owner'', JStr worker),
      (''lease_expires_at'', JStr (iso_utc (lib e) expires))]"

definition claim_for_dispatch ::
  "env \<Rightarrow> uuid \<Rightarrow> string \<Rightarrow> timestamp \<Rightarrow> db \<Rightarrow> (execution_claim option \<times> db) result" where
  "claim_for_dispatch e eid worker expires d =
     res_bind (validate_lease_deadline e expires) (\<lambda>_.
       let d1 = d\<lparr>requests := update_where (claim_guard eid) (claim_row e worker expires) (requests d)\<rparr>
       in case find (claim_guard eid) (requests d) of
         None \<Rightarrow> Inr (None, d1)
       | Some r0 \<Rightarrow>
         (let r = claim_row e worker expires r0 in
          Inr (Some \<lparr>ec_execution_id = rq_id r, ec_runtime = rq_runtime r,
                ec_execution_type = rq_execution_type r, ec_language = rq_language r,
                ec_code_reference = truthy_str (rq_code_reference r),
                ec_input_reference = truthy_str (rq_input_reference r),
                ec_attempt_count = rq_attempt_count r, ec_lease_owner = worker,
                ec_lease_expires_at = expires, ec_trace_id = rq_trace_id r\<rparr>,
            append_event eid Dispatching
              (JObj (attempt_details e (rq_attempt_count r) worker expires)) d1)))"

definition retry_guard :: "env \<Rightarrow> uuid \<Rightarrow> int \<Rightarrow> int \<Rightarrow> request_row \<Rightarrow> bool" where
  "retry_guard e eid expected_attempt max_attempts r \<longleftrightarrow>
     rq_id r = eid \<and> (rq_state r = PG_DISPATCHING \<or> rq_state r = PG_RUNNING) \<and>
     rq_attempt_count r = expected_attempt \<and> rq_attempt_count r < max_attempts \<and>
     sql_lt (rq_lease_expires_at r) (db_now e)"

definition retry_row :: "string \<Rightarrow> timestamp \<Rightarrow> request_row \<Rightarrow> request_row" where
  "retry_row worker expires r =
     r\<lparr>rq_state := PG_DISPATCHING, rq_lease_owner := Some worker,
       rq_lease_expires_at := Some expires, rq_attempt_count := rq_attempt_count r + 1,
       rq_k8s_namespace := None, rq_k8s_job_name := None\<rparr>"

definition retry_missing_sandbox ::
  "env \<Rightarrow> uuid \<Rightarrow> int \<Rightarrow> string \<Rightarrow> timestamp \<Rightarrow> int \<Rightarrow> db \<Rightarrow> (int option \<times> db) result" where
  "retry_missing_sandbox e eid expected_attempt worker expires max_attempts d =
     res_bind (validate_lease_deadline e expires) (\<lambda>_.
       if expected_attempt < 1 \<or> max_attempts < 1 then Inr (None, d)
       else let d1 = d\<lparr>requests := update_where (retry_guard e eid expected_attempt max_attempts)
                        (retry_row worker expires) (requests d)\<rparr>
         in case find (retry_guard e eid expected_attempt max_attempts) (requests d) of
           None \<Rightarrow> Inr (None, d1)
         | Some r0 \<Rightarrow>
           (let attempt = rq_attempt_count (retry_row worker expires r0) in
            Inr (Some attempt,
              append_event eid Dispatching
                (JObj (attempt_details e attempt worker expires @
                   [(''reason'', JStr ''infrastructure_retry'')])) d1)))"

definition running_guard :: "env \<Rightarrow> uuid \<Rightarrow> string \<Rightarrow> request_row \<Rightarrow> bool" where
  "running_guard e eid worker r \<longleftrightarrow>
     rq_id r = eid \<and> rq_state r = PG_DISPATCHING \<and> rq_lease_owner r = Some worker \<and>
     sql_gt (rq_lease_expires_at r) (db_now e)"

definition running_row :: "env \<Rightarrow> string \<Rightarrow> string \<Rightarrow> request_row \<Rightarrow> request_row" where
  "running_row e namespace job r =
     r\<lparr>rq_state := PG_RUNNING, rq_running_at := coalesce (rq_running_at r) (Some (db_now e)),
       rq_started_at := coalesce (rq_started_at r) (Some (db_now e)),
       rq_k8s_namespace := Some namespace, rq_k8s_job_name := Some job\<rparr>"

definition mark_running ::
  "env \<Rightarrow> uuid \<Rightarrow> string \<Rightarrow> string \<Rightarrow> string \<Rightarrow> db \<Rightarrow> bool \<times> db" where
  "mark_running e eid worker namespace job d =
     (let d1 = d\<lparr>requests := update_where (running_guard e eid worker)
                 (running_row e namespace job) (requests d)\<rparr>
      in case find (running_guard e eid worker) (requests d) of
        None \<Rightarrow> (False, d1)
      | Some r \<Rightarrow> (True, append_event eid Running
          (JObj [(''attempt'', JInt (rq_attempt_count r)),
            (''kubernetes_namespace'', JStr namespace), (''kubernetes_job_name'', JStr job)]) d1))"

definition owned_guard :: "env \<Rightarrow> uuid \<Rightarrow> string \<Rightarrow> request_row \<Rightarrow> bool" where
  "owned_guard e eid worker r \<longleftrightarrow>
     rq_id r = eid \<and> rq_lease_owner r = Some worker \<and>
     sql_gt (rq_lease_expires_at r) (db_now e) \<and>
     (rq_state r = PG_DISPATCHING \<or> rq_state r = PG_RUNNING)"

definition renew_lease :: "env \<Rightarrow> uuid \<Rightarrow> string \<Rightarrow> timestamp \<Rightarrow> db \<Rightarrow> (bool \<times> db) result" where
  "renew_lease e eid worker expires d =
     res_bind (validate_lease_deadline e expires) (\<lambda>_.
       Inr (find (owned_guard e eid worker) (requests d) \<noteq> None,
         d\<lparr>requests := update_where (owned_guard e eid worker)
             (\<lambda>r. r\<lparr>rq_lease_expires_at := Some expires\<rparr>) (requests d)\<rparr>))"

definition lock_owned_attempt :: "env \<Rightarrow> uuid \<Rightarrow> string \<Rightarrow> int \<Rightarrow> db \<Rightarrow> bool" where
  "lock_owned_attempt e eid worker attempt_count d =
     (if attempt_count < 1 then False
      else find (\<lambda>r. owned_guard e eid worker r \<and> rq_attempt_count r = attempt_count) (requests d)
             \<noteq> None)"

definition lease_of_row :: "request_row \<Rightarrow> expired_lease result" where
  "lease_of_row r =
     res_bind (parse_status (state_text (rq_state r))) (\<lambda>s.
       Inr \<lparr>xl_execution_id = rq_id r, xl_status = s,
           xl_lease_owner = truthy_str (rq_lease_owner r),
           xl_lease_expires_at = rq_lease_expires_at r,
           xl_k8s_namespace = truthy_str (rq_k8s_namespace r),
           xl_k8s_job_name = truthy_str (rq_k8s_job_name r),
           xl_attempt_count = rq_attempt_count r\<rparr>)"

definition expired_rows :: "env \<Rightarrow> uuid list \<Rightarrow> db \<Rightarrow> request_row list" where
  "expired_rows e locked d = sort_key (\<lambda>r. (rq_lease_expires_at r, rq_id r))
     (filter (\<lambda>r. (rq_state r = PG_DISPATCHING \<or> rq_state r = PG_RUNNING) \<and>
        sql_lt (rq_lease_expires_at r) (db_now e) \<and> rq_id r \<notin> set locked) (requests d))"

definition expired_leases :: "env \<Rightarrow> uuid list \<Rightarrow> int \<Rightarrow> db \<Rightarrow> expired_lease list result" where
  "expired_leases e locked limit d =
     (if \<not> (1 \<le> limit \<and> limit \<le> 500) then Inl (Exn ValueErr ''limit must be between 1 and 500'')
      else res_map lease_of_row (take (nat limit) (expired_rows e locked d)))"

section \<open>What each operation does\<close>

lemma guards_fix_key:
  "claim_guard eid r \<Longrightarrow> rq_id r = eid"
  "retry_guard e eid x m r \<Longrightarrow> rq_id r = eid"
  "running_guard e eid w r \<Longrightarrow> rq_id r = eid"
  "owned_guard e eid w r \<Longrightarrow> rq_id r = eid"
  by (simp_all add: claim_guard_def retry_guard_def running_guard_def owned_guard_def)

lemma exec_inv_distinct: "exec_inv d \<Longrightarrow> distinct (map rq_id (requests d))"
  by (simp add: exec_inv_def)

lemma find_guarded_request:
  assumes "exec_inv d" "\<And>r. G r \<Longrightarrow> rq_id r = eid"
  shows "find G (requests d) = Some r \<longleftrightarrow> request_of eid d = Some r \<and> G r"
  using find_guard [OF exec_inv_distinct [OF assms(1)], of G eid] assms(2)
  by (auto split: option.splits if_splits)

lemma update_none:
  assumes "find G t = None"
  shows "update_where G f t = t"
  using assms by (intro update_where_none) (auto simp: find_None_iff)

lemma requests_update_id: "d\<lparr>requests := requests d\<rparr> = d"
  by simp

lemma claim_row_keep [simp]:
  "rq_id (claim_row e w x r) = rq_id r" "request_key (claim_row e w x r) = request_key r"
  "rq_state (claim_row e w x r) = PG_DISPATCHING"
  "rq_attempt_count (claim_row e w x r) = rq_attempt_count r + 1"
  "rq_lease_owner (claim_row e w x r) = Some w" "rq_lease_expires_at (claim_row e w x r) = Some x"
  "rq_execution_type (claim_row e w x r) = rq_execution_type r"
  "rq_completed_at (claim_row e w x r) = rq_completed_at r"
  "rq_dispatch_started_at (claim_row e w x r) = coalesce (rq_dispatch_started_at r) (Some (db_now e))"
  by (simp_all add: claim_row_def request_key_def)

lemma retry_row_keep [simp]:
  "rq_id (retry_row w x r) = rq_id r" "request_key (retry_row w x r) = request_key r"
  "rq_state (retry_row w x r) = PG_DISPATCHING"
  "rq_attempt_count (retry_row w x r) = rq_attempt_count r + 1"
  "rq_lease_owner (retry_row w x r) = Some w" "rq_lease_expires_at (retry_row w x r) = Some x"
  "rq_execution_type (retry_row w x r) = rq_execution_type r"
  "rq_completed_at (retry_row w x r) = rq_completed_at r"
  "rq_dispatch_started_at (retry_row w x r) = rq_dispatch_started_at r"
  by (simp_all add: retry_row_def request_key_def)

lemma running_row_keep [simp]:
  "rq_id (running_row e n j r) = rq_id r" "request_key (running_row e n j r) = request_key r"
  "rq_state (running_row e n j r) = PG_RUNNING"
  "rq_attempt_count (running_row e n j r) = rq_attempt_count r"
  "rq_lease_owner (running_row e n j r) = rq_lease_owner r"
  "rq_lease_expires_at (running_row e n j r) = rq_lease_expires_at r"
  "rq_execution_type (running_row e n j r) = rq_execution_type r"
  "rq_completed_at (running_row e n j r) = rq_completed_at r"
  "rq_dispatch_started_at (running_row e n j r) = rq_dispatch_started_at r"
  by (simp_all add: running_row_def request_key_def)

text \<open>
  Each compare-and-set has two outcomes: the guard fails and nothing changes, or it holds for
  the request and the request advances by one logged step.
\<close>

lemma claim_cases:
  assumes "exec_inv d" "claim_for_dispatch e eid w x d = Inr (res, d')"
  obtains (lost) "res = None" "d' = d" "\<And>r. request_of eid d = Some r \<Longrightarrow> rq_state r \<noteq> PG_QUEUED"
  | (claimed) r c det where "res = Some c" "app_now e < x" "request_of eid d = Some r"
      "rq_state r = PG_QUEUED" "ec_execution_id c = eid" "ec_attempt_count c = rq_attempt_count r + 1"
      "d' = append_event eid Dispatching det
         (d\<lparr>requests := update_where (claim_guard eid) (claim_row e w x) (requests d)\<rparr>)"
proof (cases "find (claim_guard eid) (requests d)")
  case None
  then have "res = None" "d' = d"
    using assms(2) by (auto simp: claim_for_dispatch_def Let_def res_bind_Inr_iff update_none)
  moreover have "rq_state r \<noteq> PG_QUEUED" if "request_of eid d = Some r" for r
    using None row_with_SomeD [OF that] by (auto simp: find_None_iff claim_guard_def)
  ultimately show thesis using lost by blast
next
  case (Some r)
  then have "request_of eid d = Some r" "claim_guard eid r"
    using find_guarded_request [OF assms(1), of "claim_guard eid" eid r] by (auto simp: claim_guard_def)
  then show thesis
    using assms(2) Some claimed [of _ r]
    by (auto simp: claim_for_dispatch_def Let_def res_bind_Inr_iff validate_lease_deadline_def
        claim_guard_def split: if_splits)
qed

lemma retry_cases:
  assumes "exec_inv d" "retry_missing_sandbox e eid x w t m d = Inr (res, d')"
  obtains (lost) "res = None" "d' = d"
  | (retried) r det where "res = Some (x + 1)" "app_now e < t" "request_of eid d = Some r"
      "retry_guard e eid x m r"
      "d' = append_event eid Dispatching det
         (d\<lparr>requests := update_where (retry_guard e eid x m) (retry_row w t) (requests d)\<rparr>)"
proof (cases "x < 1 \<or> m < 1 \<or> find (retry_guard e eid x m) (requests d) = None")
  case True
  then have "res = None" "d' = d"
    using assms(2)
    by (auto simp: retry_missing_sandbox_def Let_def res_bind_Inr_iff update_none split: if_splits)
  then show thesis by (rule lost)
next
  case False
  then obtain r where r: "find (retry_guard e eid x m) (requests d) = Some r" by blast
  then have "request_of eid d = Some r" "retry_guard e eid x m r"
    using find_guarded_request [OF assms(1), of "retry_guard e eid x m" eid r]
    by (auto simp: retry_guard_def)
  moreover from this have "rq_attempt_count r = x" by (simp add: retry_guard_def)
  ultimately show thesis
    using assms(2) False r retried [of r]
    by (auto simp: retry_missing_sandbox_def Let_def res_bind_Inr_iff validate_lease_deadline_def
        split: if_splits)
qed

lemma mark_running_cases:
  assumes "exec_inv d" "mark_running e eid w n j d = (res, d')"
  obtains (lost) "\<not> res" "d' = d"
  | (running) r det where "res" "request_of eid d = Some r" "running_guard e eid w r"
      "d' = append_event eid Running det
         (d\<lparr>requests := update_where (running_guard e eid w) (running_row e n j) (requests d)\<rparr>)"
proof (cases "find (running_guard e eid w) (requests d)")
  case None
  then show thesis using assms(2) lost by (auto simp: mark_running_def Let_def update_none)
next
  case (Some r)
  then have "request_of eid d = Some r" "running_guard e eid w r"
    using find_guarded_request [OF assms(1), of "running_guard e eid w" eid r]
    by (auto simp: running_guard_def)
  then show thesis using assms(2) Some running [of r] by (auto simp: mark_running_def Let_def)
qed

section \<open>Invariant\<close>

lemma row_ok_queued: "row_ok r \<Longrightarrow> rq_state r = PG_QUEUED \<Longrightarrow>
    rq_attempt_count r = 0 \<and> rq_completed_at r = None"
  unfolding row_ok_def by blast

lemma row_ok_active: "row_ok r \<Longrightarrow> active_state (rq_state r) \<Longrightarrow>
    1 \<le> rq_attempt_count r \<and> rq_lease_owner r \<noteq> None \<and> rq_lease_expires_at r \<noteq> None \<and>
    rq_dispatch_started_at r \<noteq> None \<and> rq_completed_at r = None"
  unfolding row_ok_def by blast

lemma row_ok_activeI:
  assumes "active_state (rq_state r)" "1 \<le> rq_attempt_count r" "rq_lease_owner r \<noteq> None"
    "rq_lease_expires_at r \<noteq> None" "rq_dispatch_started_at r \<noteq> None" "rq_completed_at r = None"
    "rq_execution_type r = type_value ty"
  shows "row_ok r"
proof -
  have "rq_state r \<in> range pg_state"
    using assms(1) rangeI [of pg_state Dispatching] rangeI [of pg_state Running] by auto
  moreover have "type_value ty \<in> type_value ` {Run, Submit}" by (cases ty) auto
  ultimately show ?thesis
    unfolding row_ok_def using assms active_not_terminal [OF assms(1)] by auto
qed

lemma row_ok_claim:
  assumes "row_ok r" "rq_state r = PG_QUEUED"
  shows "row_ok (claim_row e w x r)"
proof -
  obtain ty where "rq_execution_type r = type_value ty" using row_ok_type [OF assms(1)] .
  then show ?thesis
    using row_ok_queued [OF assms]
    by (intro row_ok_activeI [of _ ty]) (auto simp: coalesce_def split: option.split)
qed

lemma row_ok_retry:
  assumes "row_ok r" "active_state (rq_state r)"
  shows "row_ok (retry_row w x r)"
proof -
  obtain ty where "rq_execution_type r = type_value ty" using row_ok_type [OF assms(1)] .
  then show ?thesis
    using row_ok_active [OF assms] by (intro row_ok_activeI [of _ ty]) simp_all
qed

lemma row_ok_running:
  assumes "row_ok r" "rq_state r = PG_DISPATCHING"
  shows "row_ok (running_row e n j r)"
proof -
  obtain ty where "rq_execution_type r = type_value ty" using row_ok_type [OF assms(1)] .
  then show ?thesis
    using row_ok_active [of r] assms by (intro row_ok_activeI [of _ ty]) simp_all
qed

lemma log_step_claim: "log_step PG_QUEUED (pg_state Dispatching)"
  using legal_step [of Dispatching Queued] by simp

lemma log_step_running: "log_step PG_DISPATCHING (pg_state Running)"
  using legal_step [of Running Dispatching] by simp

lemma log_step_retry: "active_state s \<Longrightarrow> log_step s (pg_state Dispatching)"
  using retry_step [of s] by auto

lemma claim_inv:
  assumes "exec_inv d" "claim_for_dispatch e eid w x d = Inr (res, d')"
  shows "exec_inv d'"
  using assms
proof (cases rule: claim_cases)
  case (claimed r c det)
  note r = exec_inv_request [OF assms(1) claimed(3)]
  show ?thesis unfolding claimed(7)
    using claimed(4) r(2,3) log_step_claim
    by (intro exec_inv_advance [OF assms(1) claimed(3)])
      (auto simp: claim_guard_def intro: row_ok_claim)
qed (use assms in simp)

lemma retry_inv:
  assumes "exec_inv d" "retry_missing_sandbox e eid x w t m d = Inr (res, d')"
  shows "exec_inv d'"
  using assms
proof (cases rule: retry_cases)
  case (retried r det)
  note r = exec_inv_request [OF assms(1) retried(3)]
  have "active_state (rq_state r)" using retried(4) by (auto simp: retry_guard_def)
  then show ?thesis unfolding retried(5)
    using retried(4) r(2,3) log_step_retry row_ok_retry
    by (intro exec_inv_advance [OF assms(1) retried(3)]) (auto dest: guards_fix_key)
qed (use assms in simp)

lemma mark_running_inv:
  assumes "exec_inv d" "mark_running e eid w n j d = (res, d')"
  shows "exec_inv d'"
  using assms
proof (cases rule: mark_running_cases)
  case (running r det)
  note r = exec_inv_request [OF assms(1) running(2)]
  have "rq_state r = PG_DISPATCHING" using running(3) by (simp add: running_guard_def)
  then show ?thesis unfolding running(4)
    using running(3) r(2,3) log_step_running row_ok_running
    by (intro exec_inv_advance [OF assms(1) running(2)]) (auto dest: guards_fix_key)
qed (use assms in simp)

text \<open>A new lease deadline on an owned request touches no other column.\<close>

lemma row_ok_new_deadline:
  assumes "row_ok r" "active_state (rq_state r)"
  shows "row_ok (r\<lparr>rq_lease_expires_at := Some x\<rparr>)"
proof -
  obtain ty where "rq_execution_type r = type_value ty" using row_ok_type [OF assms(1)] .
  then show ?thesis
    using row_ok_active [OF assms] assms by (intro row_ok_activeI [of _ ty]) simp_all
qed

lemma renew_lease_inv:
  assumes "exec_inv d" "renew_lease e eid w x d = Inr (res, d')"
  shows "exec_inv d'"
proof -
  have d': "d' = d\<lparr>requests := update_where (owned_guard e eid w)
      (\<lambda>r. r\<lparr>rq_lease_expires_at := Some x\<rparr>) (requests d)\<rparr>"
    using assms(2) by (auto simp: renew_lease_def res_bind_Inr_iff)
  show ?thesis
    by (rule exec_inv_touch [OF assms(1), where P = "owned_guard e eid w"
          and f = "\<lambda>r. r\<lparr>rq_lease_expires_at := Some x\<rparr>"])
      (auto simp: d' owned_guard_def request_key_def intro: row_ok_new_deadline)
qed

section \<open>Ownership\<close>

lemma lock_owned_attempt_iff:
  assumes "exec_inv d"
  shows "lock_owned_attempt e eid w a d \<longleftrightarrow>
    1 \<le> a \<and> (\<exists>r. request_of eid d = Some r \<and> owned_guard e eid w r \<and> rq_attempt_count r = a)"
proof -
  let ?G = "\<lambda>r. owned_guard e eid w r \<and> rq_attempt_count r = a"
  have "\<And>r. ?G r \<Longrightarrow> rq_id r = eid" using guards_fix_key(4) by blast
  from find_guarded_request [OF assms this]
  have "find ?G (requests d) \<noteq> None \<longleftrightarrow> (\<exists>r. request_of eid d = Some r \<and> ?G r)"
    unfolding not_None_eq by simp
  then show ?thesis unfolding lock_owned_attempt_def by simp
qed

end
