(* ===== verification/Execution_Results.thy ===== *)
theory Execution_Results imports Execution_Claims begin

text \<open>
  The trust boundary of an execution (\<open>execution_results.py\<close>): what is sent into the candidate
  sandbox, how the log that comes back is parsed, how the returned values are compared with the
  answers that never left the database, and how the outcome is stored.

  Decoded JSON dictionaries stay dictionaries (\<open>jobj\<close>) where the code keeps them as such; the
  dataclasses are records. A log line is decoded by the parameter \<open>json_loads\<close>, which returns
  \<open>None\<close> where the decoder raises \<open>JSONDecodeError\<close>.
\<close>

section \<open>Constants and data\<close>

definition result_prefix :: string where
  "result_prefix = ''RIGOR_EXECUTION_RESULT:''"

definition max_result_log_bytes :: nat where "max_result_log_bytes = 256 * 1024"
definition max_result_tests :: nat where "max_result_tests = 200"
definition max_public_stream_bytes :: nat where "max_public_stream_bytes = 64 * 1024"

definition supported_comparisons :: "string list" where
  "supported_comparisons = [''exact'', ''normalized_text'', ''numeric_tolerance'', ''json'',
     ''unordered'', ''sql_ordered'', ''sql_unordered'']"

record dispatch_package =
  dp_execution_id :: uuid
  dp_organization_id :: "uuid option"
  dp_candidate_id :: uuid
  dp_practice_session_id :: uuid
  dp_submission_id :: "uuid option"
  dp_question_version_id :: uuid
  dp_execution_type :: string
  dp_runtime :: string
  dp_language :: string
  dp_source_code :: string
  dp_input_payload :: jobj
  dp_limits :: jobj
  dp_trace_id :: string
  dp_attempt_count :: int

record sandbox_result =
  sx_execution_id :: uuid
  sx_attempt :: int
  sx_status :: string
  sx_runtime_ms :: int
  sx_exit_code :: int
  sx_tests :: "jobj list"
  sx_stdout :: string
  sx_stderr :: string
  sx_error_category :: "string option"

record projection =
  tp_execution_status :: execution_status
  tp_runtime_ms :: int
  tp_exit_code :: int
  tp_error_category :: "string option"
  tp_public_results :: "jobj list"
  tp_hidden_total :: nat
  tp_hidden_passed :: nat
  tp_stdout :: string
  tp_stderr :: string
  tp_candidate_message :: string

definition count_passed :: "jobj list \<Rightarrow> nat" where
  "count_passed items = sum_list (map (\<lambda>item. if truthy (jget item ''passed'') then 1 else 0) items)"

definition total_tests :: "projection \<Rightarrow> nat" where
  "total_tests p = length (tp_public_results p) + tp_hidden_total p"

definition passed_tests :: "projection \<Rightarrow> nat" where
  "passed_tests p = count_passed (tp_public_results p) + tp_hidden_passed p"

definition all_tests_passed :: "projection \<Rightarrow> bool" where
  "all_tests_passed p \<longleftrightarrow> total_tests p > 0 \<and> passed_tests p = total_tests p"

section \<open>Checked access to decoded values\<close>

abbreviation trust_err :: "string \<Rightarrow> 'a result" where
  "trust_err m \<equiv> Inl (Exn TrustedResultErr m)"

definition object_dict :: "json \<Rightarrow> string \<Rightarrow> jobj result" where
  "object_dict v label = (case v of JObj d \<Rightarrow> Inr d | _ \<Rightarrow> trust_err (label @ '' must be a JSON object.''))"

definition optional_object_dict :: "json \<Rightarrow> jobj" where
  "optional_object_dict v = (case v of JObj d \<Rightarrow> d | _ \<Rightarrow> [])"

definition object_list :: "json \<Rightarrow> string \<Rightarrow> json list result" where
  "object_list v label = (case v of JList xs \<Rightarrow> Inr xs | _ \<Rightarrow> trust_err (label @ '' must be a JSON array.''))"

definition required_string :: "json \<Rightarrow> string \<Rightarrow> string result" where
  "required_string v label = (case v of
     JStr s \<Rightarrow> if s = [] then trust_err (label @ '' is missing or invalid.'') else Inr s
   | _ \<Rightarrow> trust_err (label @ '' is missing or invalid.''))"

definition optional_string :: "json \<Rightarrow> string option" where
  "optional_string v = (case v of JStr s \<Rightarrow> if s = [] then None else Some s | _ \<Rightarrow> None)"

definition nonnegative_int :: "json \<Rightarrow> string \<Rightarrow> int result" where
  "nonnegative_int v label = (case v of
     JInt i \<Rightarrow> if i < 0 then trust_err (label @ '' is invalid.'') else Inr i
   | _ \<Rightarrow> trust_err (label @ '' is invalid.''))"

definition positive_int :: "json \<Rightarrow> string \<Rightarrow> int result" where
  "positive_int v label = res_bind (nonnegative_int v label) (\<lambda>i.
     if i < 1 then trust_err (label @ '' must be positive.'') else Inr i)"

definition string_json :: "string option \<Rightarrow> json" where
  "string_json s = (case s of None \<Rightarrow> JNull | Some t \<Rightarrow> JStr t)"

section \<open>Into the sandbox\<close>

text \<open>
  The join of a request with its payload. \<open>candidate_id\<close> is never null in the model's rows, so
  the last guard of the code has no branch here.
\<close>

definition load_dispatch_package :: "uuid \<Rightarrow> db \<Rightarrow> dispatch_package result" where
  "load_dispatch_package eid d =
     (case request_of eid d of None \<Rightarrow> trust_err ''Execution payload is unavailable.''
      | Some r \<Rightarrow> (case row_with pl_execution eid (payloads d) of
          None \<Rightarrow> trust_err ''Execution payload is unavailable.''
        | Some p \<Rightarrow> (case rq_practice_session r of
            None \<Rightarrow> trust_err ''Candidate execution has no practice session.''
          | Some session \<Rightarrow> Inr
             \<lparr>dp_execution_id = rq_id r, dp_organization_id = rq_organization r,
              dp_candidate_id = rq_candidate r, dp_practice_session_id = session,
              dp_submission_id = rq_submission r, dp_question_version_id = rq_question_version r,
              dp_execution_type = rq_execution_type r, dp_runtime = rq_runtime r,
              dp_language = rq_language r, dp_source_code = pl_source_code p,
              dp_input_payload = optional_object_dict (pl_input_payload p),
              dp_limits = optional_object_dict (rq_limits r), dp_trace_id = rq_trace_id r,
              dp_attempt_count = rq_attempt_count r\<rparr>)))"

definition sanitize_test :: "json \<Rightarrow> json result" where
  "sanitize_test raw = res_bind (object_dict raw ''Execution test'') (\<lambda>test.
     if has_key test ''expected_output'' \<or> has_key test ''expected''
     then trust_err ''Expected answers must not enter the candidate sandbox.''
     else Inr (JObj test))"

definition sandbox_request :: "pylib \<Rightarrow> dispatch_package \<Rightarrow> jobj result" where
  "sandbox_request l p =
     res_bind (object_list (jget (dp_input_payload p) ''tests'') ''Execution test input'') (\<lambda>tests.
     res_bind (res_map sanitize_test tests) (\<lambda>sanitized.
     if dp_attempt_count p < 1
       then trust_err ''Execution must be claimed before sandbox dispatch.''
     else
       let request_payload =
         [(''schema_version'', JInt 1),
          (''execution_id'', JStr (uuid_str (dp_execution_id p))),
          (''attempt'', JInt (dp_attempt_count p)),
          (''source_code'', JStr (dp_source_code p)),
          (''tests'', JList sanitized)]
       in if dp_language p = ''python'' then
            Inr (request_payload @ [(''entrypoint'',
              JStr (py_str l (py_or (jget (dp_input_payload p) ''entrypoint'') (JStr ''solve''))))])
          else if dp_language p = ''sql'' then
            (case jget (dp_input_payload p) ''schema_sql'' of
               JStr schema_sql \<Rightarrow>
                 if strip schema_sql = []
                 then trust_err ''SQL dispatch payload is missing trusted schema SQL.''
                 else (case jget_default (dp_input_payload p) ''seed_sql'' (JStr []) of
                   JStr seed_sql \<Rightarrow> (case jget (dp_input_payload p) ''statement_timeout_ms'' of
                       JInt timeout_ms \<Rightarrow> Inr (request_payload @
                         [(''schema_sql'', JStr schema_sql), (''seed_sql'', JStr seed_sql),
                          (''statement_timeout_ms'', JInt timeout_ms)])
                     | _ \<Rightarrow> trust_err ''SQL dispatch statement timeout is invalid.'')
                 | _ \<Rightarrow> trust_err ''SQL dispatch seed SQL is invalid.'')
             | _ \<Rightarrow> trust_err ''SQL dispatch payload is missing trusted schema SQL.'')
          else trust_err ''Execution language is unsupported by the sandbox protocol.''))"

section \<open>Out of the sandbox\<close>

text \<open>The last line of the log with the marker decides; a malformed one is not passed over.\<close>

definition find_result_payload :: "pylib \<Rightarrow> string \<Rightarrow> jobj result" where
  "find_result_payload l log_text =
     (case find (starts_with result_prefix) (rev (splitlines log_text)) of
        None \<Rightarrow> trust_err ''Runner result marker was not found.''
      | Some line \<Rightarrow> (case json_loads l (drop (length result_prefix) line) of
          None \<Rightarrow> trust_err ''Runner emitted malformed result JSON.''
        | Some decoded \<Rightarrow> object_dict decoded ''Runner result''))"

fun parse_tests :: "json list \<Rightarrow> string list \<Rightarrow> jobj list result" where
  "parse_tests [] seen = Inr []"
| "parse_tests (raw_item # raws) seen =
     res_bind (object_dict raw_item ''Runner test result'') (\<lambda>item.
     res_bind (required_string (jget item ''id'') ''Runner test id'') (\<lambda>test_id.
     res_bind (required_string (jget item ''visibility'') ''Runner test visibility'') (\<lambda>visibility.
     if test_id \<in> set seen then trust_err ''Runner test identifiers must be unique.''
     else if visibility \<notin> set [''public'', ''hidden'']
       then trust_err ''Runner test visibility is invalid.''
     else res_bind (parse_tests raws (test_id # seen)) (\<lambda>tests.
       Inr ([(''id'', JStr test_id), (''visibility'', JStr visibility),
             (''ok'', JBool (truthy (jget item ''ok''))), (''actual'', jget item ''actual''),
             (''error_category'', string_json (optional_string (jget item ''error_category'')))]
            # tests)))))"

definition stream_text :: "pylib \<Rightarrow> json \<Rightarrow> string" where
  "stream_text l v = take max_public_stream_bytes (py_str l (py_or v (JStr [])))"

definition parse_runner_result ::
  "pylib \<Rightarrow> string \<Rightarrow> uuid \<Rightarrow> int option \<Rightarrow> sandbox_result result" where
  "parse_runner_result l log_text eid expected_attempt =
     (if utf8_len log_text > max_result_log_bytes
      then trust_err ''Runner result log exceeds the trusted transport limit.''
      else
     res_bind (find_result_payload l log_text) (\<lambda>payload.
     if \<not> py_eq (jget payload ''schema_version'') (JInt 1)
       then trust_err ''Unsupported runner result schema version.''
     else if \<not> py_eq (jget payload ''execution_id'') (JStr (uuid_str eid))
       then trust_err ''Runner result execution identifier mismatch.''
     else
     res_bind (positive_int (jget payload ''attempt'') ''Runner execution attempt'') (\<lambda>attempt.
     if expected_attempt \<noteq> None \<and> Some attempt \<noteq> expected_attempt
       then trust_err ''Runner result execution attempt mismatch.''
     else
     res_bind (required_string (jget payload ''status'') ''Runner status'') (\<lambda>status.
     if status \<notin> set [''COMPLETED'', ''FAILED'', ''TIMEOUT'']
       then trust_err ''Runner emitted an unsupported terminal status.''
     else
     res_bind (object_list (jget payload ''tests'') ''Runner test results'') (\<lambda>raw_tests.
     if length raw_tests > max_result_tests
       then trust_err ''Runner test result list exceeds the trusted limit.''
     else
     res_bind (parse_tests raw_tests []) (\<lambda>tests.
     res_bind (nonnegative_int (jget payload ''runtime_ms'') ''Runner runtime'') (\<lambda>runtime_ms.
     case jget payload ''exit_code'' of
       JInt exit_code \<Rightarrow> Inr
         \<lparr>sx_execution_id = eid, sx_attempt = attempt, sx_status = status,
          sx_runtime_ms = runtime_ms, sx_exit_code = exit_code, sx_tests = tests,
          sx_stdout = stream_text l (jget payload ''stdout''),
          sx_stderr = stream_text l (jget payload ''stderr''),
          sx_error_category = optional_string (jget payload ''error_category'')\<rparr>
     | _ \<Rightarrow> trust_err ''Runner exit code is invalid.'')))))))"

section \<open>Expected answers\<close>

definition question_mode_of :: "jobj \<Rightarrow> jobj result" where
  "question_mode_of structured =
     (case find (\<lambda>key. as_obj (jget structured key) \<noteq> None)
             [''mode_specification'', ''type_specification''] of
        None \<Rightarrow> trust_err ''Question execution mode is unavailable.''
      | Some key \<Rightarrow> (case jget structured key of JObj mode \<Rightarrow> Inr mode | _ \<Rightarrow> Inr []))"

text \<open>Membership in a Python set hashes the value: a list or a dictionary raises \<open>TypeError\<close>.\<close>

fun hashable :: "json \<Rightarrow> bool" where
  "hashable (JList xs) = False"
| "hashable (JObj d) = False"
| "hashable v = True"

definition is_sql_mode :: "jobj \<Rightarrow> jobj \<Rightarrow> bool result" where
  "is_sql_mode structured mode =
     (if py_eq (jget structured ''question_type'') (JStr ''sql_coding'') then Inr True
      else if \<not> hashable (jget mode ''dialect'') then Inl (Exn TypeErr ''unhashable type'')
      else Inr (jget mode ''dialect'' = JStr ''postgresql'' \<or>
                jget mode ''dialect'' = JStr ''postgresql18''))"

definition resolve_strategy :: "string \<Rightarrow> string \<Rightarrow> string" where
  "resolve_strategy default_strategy strategy =
     (if starts_with ''sql_'' default_strategy
      then if strategy = ''ordered'' then ''sql_ordered''
           else if strategy = ''unordered'' then ''sql_unordered'' else strategy
      else strategy)"

definition checked_policy :: "pylib \<Rightarrow> string \<Rightarrow> jobj \<Rightarrow> string \<Rightarrow> jobj result" where
  "checked_policy l default_strategy policy strategy0 =
     (let strategy = resolve_strategy default_strategy strategy0 in
      if strategy \<notin> set supported_comparisons
      then trust_err (''Unsupported trusted comparison strategy '' @ str_repr l strategy @ ''.'')
      else Inr (jput policy ''strategy'' (JStr strategy)))"

definition comparison_policy :: "pylib \<Rightarrow> jobj \<Rightarrow> string \<Rightarrow> jobj result" where
  "comparison_policy l item default_strategy =
     (case jget item ''comparison'' of
        JNull \<Rightarrow> Inr [(''strategy'', JStr default_strategy)]
      | JStr raw \<Rightarrow> checked_policy l default_strategy [(''strategy'', JStr raw)] raw
      | JObj policy \<Rightarrow> checked_policy l default_strategy policy
          (py_str l (py_or (jget policy ''strategy'') (JStr default_strategy)))
      | _ \<Rightarrow> trust_err ''Question comparison policy is invalid.'')"

definition expected_test ::
  "pylib \<Rightarrow> bool \<Rightarrow> string \<Rightarrow> json \<Rightarrow> json \<Rightarrow> jobj \<Rightarrow> string \<Rightarrow> jobj result" where
  "expected_test l sql_mode default_strategy top_level_expected expected_columns item test_id =
     (let expected_output = jget item ''expected_output'';
          expected_output' = (if sql_mode \<and> expected_output = JNull \<and> top_level_expected \<noteq> JNull
            then top_level_expected else expected_output)
      in res_bind (comparison_policy l item default_strategy) (\<lambda>policy.
        Inr [(''id'', JStr test_id),
             (''name'', case optional_string (jget item ''name'') of
                 Some name \<Rightarrow> JStr name | None \<Rightarrow> JStr test_id),
             (''visibility'', if py_eq (jget item ''visibility'') (JStr ''public'')
                 then JStr ''public'' else JStr ''hidden''),
             (''expected_output'', expected_output'),
             (''expected_columns'', expected_columns),
             (''comparison'', JObj policy)]))"

fun expected_tests_from ::
  "pylib \<Rightarrow> bool \<Rightarrow> string \<Rightarrow> json \<Rightarrow> json \<Rightarrow> nat \<Rightarrow> json list \<Rightarrow> (string \<times> jobj) list \<Rightarrow>
     (string \<times> jobj) list result" where
  "expected_tests_from l sql_mode ds top_level cols index [] expected = Inr expected"
| "expected_tests_from l sql_mode ds top_level cols index (raw_item # raws) expected =
     res_bind (object_dict raw_item ''Question expected test'') (\<lambda>item.
     let test_id = (case optional_string (jget item ''id'') of
           Some s \<Rightarrow> s | None \<Rightarrow> ''test-'' @ nat_str (index + 1))
     in if test_id \<in> fst ` set expected
        then trust_err ''Question expected test identifiers must be unique.''
        else res_bind (expected_test l sql_mode ds top_level cols item test_id) (\<lambda>entry.
          expected_tests_from l sql_mode ds top_level cols (index + 1) raws (expected @ [(test_id, entry)])))"

text \<open>\<open>scalar_one_or_none\<close> of a missing version is \<open>None\<close>, which is not a dictionary.\<close>

definition load_expected_tests :: "pylib \<Rightarrow> uuid \<Rightarrow> db \<Rightarrow> (string \<times> jobj) list result" where
  "load_expected_tests l version d =
     res_bind (object_dict (case row_with qv_id version (question_versions d) of
         None \<Rightarrow> JNull | Some v \<Rightarrow> qv_structured_content v) ''Question structured content'') (\<lambda>structured.
     res_bind (question_mode_of structured) (\<lambda>mode.
     res_bind (object_list (jget mode ''tests'') ''Question expected tests'') (\<lambda>tests.
     if tests = [] \<or> length tests > max_result_tests
       then trust_err ''Question expected test set is empty or too large.''
     else
     res_bind (is_sql_mode structured mode) (\<lambda>sql_mode.
       let default_strategy = (if sql_mode then ''sql_ordered'' else ''exact'');
           columns = (case jget mode ''expected_output_columns'' of
             JList cs \<Rightarrow> JList (map (\<lambda>c. JStr (py_str l c)) cs) | _ \<Rightarrow> JNull)
       in expected_tests_from l sql_mode default_strategy (jget mode ''expected_result'') columns
            0 tests []))))"

section \<open>Comparison\<close>

definition canonical_json :: "pylib \<Rightarrow> json \<Rightarrow> string" where
  "canonical_json l v = json_dumps l False True v"

definition row_values :: "string list \<Rightarrow> json \<Rightarrow> json option" where
  "row_values columns raw_row = (case raw_row of
     JObj row \<Rightarrow> Some (JList (map (jget row) columns))
   | JList xs \<Rightarrow> Some (JList xs)
   | _ \<Rightarrow> None)"

fun collect_rows :: "string list \<Rightarrow> json list \<Rightarrow> json list option" where
  "collect_rows columns [] = Some []"
| "collect_rows columns (r # rs) = (case row_values columns r of None \<Rightarrow> None
     | Some v \<Rightarrow> map_option (Cons v) (collect_rows columns rs))"

definition sql_result :: "pylib \<Rightarrow> json \<Rightarrow> json \<Rightarrow> (string list \<times> json list) option" where
  "sql_result l v expected_columns = (case v of
     JObj result \<Rightarrow> (case (jget result ''columns'', jget result ''rows'') of
         (JList columns, JList rows) \<Rightarrow> Some (map (py_str l) columns, rows)
       | _ \<Rightarrow> None)
   | JList raw_rows \<Rightarrow>
       (case (case expected_columns of
                JList columns \<Rightarrow> Some (map (py_str l) columns)
              | _ \<Rightarrow> (case raw_rows of JObj first_row # _ \<Rightarrow> Some (map fst first_row) | _ \<Rightarrow> None)) of
          None \<Rightarrow> None
        | Some columns \<Rightarrow> map_option (Pair columns) (collect_rows columns raw_rows))
   | _ \<Rightarrow> None)"

definition same_unordered :: "pylib \<Rightarrow> json list \<Rightarrow> json list \<Rightarrow> bool" where
  "same_unordered l xs ys \<longleftrightarrow> sort (map (canonical_json l) xs) = sort (map (canonical_json l) ys)"

definition compare_sql_result :: "pylib \<Rightarrow> json \<Rightarrow> json \<Rightarrow> json \<Rightarrow> bool \<Rightarrow> bool" where
  "compare_sql_result l actual expected expected_columns unordered =
     (case (sql_result l actual JNull, sql_result l expected expected_columns) of
        (Some (actual_columns, actual_rows), Some (columns, expected_rows)) \<Rightarrow>
          actual_columns = columns \<and>
          (if unordered then same_unordered l actual_rows expected_rows
           else rows_eq actual_rows expected_rows)
      | _ \<Rightarrow> False)"

definition numeric_tolerance :: "json \<Rightarrow> json \<Rightarrow> jobj \<Rightarrow> bool result" where
  "numeric_tolerance actual expected policy =
     (let tolerance_raw = jget_default policy ''tolerance'' (JFloat (Fin (lit 1 (10 ^ 9)))) in
      if \<not> is_number tolerance_raw
      then trust_err ''Numeric comparison tolerance must be numeric.''
      else res_bind (to_float tolerance_raw) (\<lambda>tolerance. case tolerance of
          Fin t \<Rightarrow>
            if t < 0 then trust_err ''Numeric comparison tolerance is invalid.''
            else if \<not> is_number actual \<or> \<not> is_number expected then Inr False
            else res_bind (to_float actual) (\<lambda>a. res_bind (to_float expected) (\<lambda>b.
              Inr (isclose_abs t a b)))
        | _ \<Rightarrow> trust_err ''Numeric comparison tolerance is invalid.''))"

definition compare_value :: "pylib \<Rightarrow> json \<Rightarrow> json \<Rightarrow> jobj \<Rightarrow> json \<Rightarrow> bool result" where
  "compare_value l actual expected policy expected_columns =
     (let strategy = py_str l (py_or (jget policy ''strategy'') (JStr ''exact'')) in
      if strategy = ''exact'' \<or> strategy = ''json'' then Inr (py_eq actual expected)
      else if strategy = ''normalized_text''
        then Inr (normalize_spaces (py_str l actual) = normalize_spaces (py_str l expected))
      else if strategy = ''numeric_tolerance'' then numeric_tolerance actual expected policy
      else if strategy = ''unordered''
        then Inr (case (actual, expected) of
            (JList xs, JList ys) \<Rightarrow> same_unordered l xs ys | _ \<Rightarrow> False)
      else if strategy = ''sql_ordered''
        then Inr (compare_sql_result l actual expected expected_columns False)
      else if strategy = ''sql_unordered''
        then Inr (compare_sql_result l actual expected expected_columns True)
      else trust_err (''Unsupported trusted comparison strategy '' @ str_repr l strategy @ ''.''))"

definition test_passed :: "pylib \<Rightarrow> jobj \<Rightarrow> jobj \<Rightarrow> bool result" where
  "test_passed l actual expected =
     (let by_value =
        (if \<not> truthy (jget actual ''ok'') then Inr False
         else res_bind (object_dict (jget expected ''comparison'') ''Trusted comparison policy'')
           (\<lambda>policy. compare_value l (jget actual ''actual'') (jget expected ''expected_output'')
              policy (jget expected ''expected_columns'')))
      in case jget expected ''expected_output'' of
           JStr s \<Rightarrow> if ends_with ''Error'' s
             then Inr (py_eq (jget actual ''error_category'') (JStr s)) else by_value
         | _ \<Rightarrow> by_value)"

section \<open>The trusted comparison\<close>

fun terminal_of_status :: "string \<Rightarrow> execution_status" where
  "terminal_of_status s = (if s = ''TIMEOUT'' then Timeout else if s = ''FAILED'' then Failed
     else Completed)"

definition visibility_of :: "pylib \<Rightarrow> jobj \<Rightarrow> string" where
  "visibility_of l entry = py_str l (py_or (jget entry ''visibility'') (JStr ''hidden''))"

definition test_key :: "pylib \<Rightarrow> jobj \<Rightarrow> string" where
  "test_key l item = py_str l (jget item ''id'')"

definition public_result :: "pylib \<Rightarrow> string \<Rightarrow> jobj \<Rightarrow> jobj \<Rightarrow> bool \<Rightarrow> jobj" where
  "public_result l test_id actual expected passed =
     [(''test_id'', JStr test_id),
      (''name'', JStr (py_str l (py_or (jget expected ''name'') (JStr test_id)))),
      (''passed'', JBool passed),
      (''expected'', jget expected ''expected_output''),
      (''actual'', jget actual ''actual''),
      (''error_category'', jget actual ''error_category'')]"

text \<open>The loop over the returned tests; \<open>expected_tests[test_id]\<close> raises \<open>KeyError\<close>.\<close>

fun compare_tests ::
  "pylib \<Rightarrow> (string \<times> jobj) list \<Rightarrow> jobj list \<Rightarrow> jobj list \<Rightarrow> nat \<Rightarrow> (jobj list \<times> nat) result" where
  "compare_tests l expected_tests [] shown hidden_passed = Inr (shown, hidden_passed)"
| "compare_tests l expected_tests (actual # tests) shown hidden_passed =
     (let test_id = test_key l actual in
      case map_of expected_tests test_id of
        None \<Rightarrow> Inl (Exn KeyErr test_id)
      | Some expected \<Rightarrow>
          if \<not> py_eq (jget actual ''visibility'') (JStr (visibility_of l expected))
          then trust_err (''Runner changed visibility for test '' @ str_repr l test_id @ ''.'')
          else res_bind (test_passed l actual expected) (\<lambda>passed.
            if visibility_of l expected = ''public''
            then compare_tests l expected_tests tests
                   (shown @ [public_result l test_id actual expected passed]) hidden_passed
            else compare_tests l expected_tests tests shown
                   (hidden_passed + (if passed then 1 else 0))))"

definition hidden_count :: "pylib \<Rightarrow> (string \<times> jobj) list \<Rightarrow> nat" where
  "hidden_count l expected_tests =
     length (filter (\<lambda>(k, entry). visibility_of l entry = ''hidden'') expected_tests)"

definition outcome_message :: "execution_status \<Rightarrow> nat \<Rightarrow> nat \<Rightarrow> string" where
  "outcome_message terminal passed_count total_count =
     (if terminal = Completed
      then if total_count \<noteq> 0 \<and> passed_count = total_count then ''All evaluated tests passed.''
           else if total_count \<noteq> 0
             then nat_str passed_count @ '' of '' @ nat_str total_count @ '' evaluated tests passed.''
           else ''Execution completed.''
      else if terminal = Timeout then ''Execution exceeded the configured time limit.''
      else ''Execution failed inside the isolated runner.'')"

definition trusted_compare ::
  "pylib \<Rightarrow> sandbox_result \<Rightarrow> (string \<times> jobj) list \<Rightarrow> projection result" where
  "trusted_compare l sandbox expected_tests =
     (let terminal = terminal_of_status (sx_status sandbox);
          returned_ids = map (test_key l) (sx_tests sandbox)
      in if \<not> set returned_ids \<subseteq> fst ` set expected_tests
         then trust_err ''Runner returned unknown test identifiers.''
         else if terminal = Completed \<and> set returned_ids \<noteq> fst ` set expected_tests
         then trust_err ''Completed runner result omitted one or more expected tests.''
         else res_bind (compare_tests l expected_tests (sx_tests sandbox) [] 0)
           (\<lambda>(shown, hidden_passed).
            let hidden_total = hidden_count l expected_tests;
                passed_count = count_passed shown + hidden_passed;
                total_count = length shown + hidden_total
            in Inr \<lparr>tp_execution_status = terminal, tp_runtime_ms = sx_runtime_ms sandbox,
                 tp_exit_code = sx_exit_code sandbox, tp_error_category = sx_error_category sandbox,
                 tp_public_results = shown, tp_hidden_total = hidden_total,
                 tp_hidden_passed = hidden_passed, tp_stdout = sx_stdout sandbox,
                 tp_stderr = sx_stderr sandbox,
                 tp_candidate_message = outcome_message terminal passed_count total_count\<rparr>))"

section \<open>The stored outcome\<close>

definition projection_details :: "projection \<Rightarrow> jobj" where
  "projection_details p =
     [(''runtime_ms'', JInt (tp_runtime_ms p)),
      (''error_category'', JStr (case tp_error_category p of None \<Rightarrow> [] | Some c \<Rightarrow> c))]"

definition result_row :: "uuid \<Rightarrow> projection \<Rightarrow> request_row \<Rightarrow> request_row" where
  "result_row eid p r =
     r\<lparr>rq_runtime_ms := Some (tp_runtime_ms p), rq_exit_code := Some (tp_exit_code p),
       rq_error_category := tp_error_category p,
       rq_result_reference := Some (''db://execution-public-results/'' @ uuid_str eid),
       rq_lease_owner := None, rq_lease_expires_at := None\<rparr>"

definition stored_result :: "uuid \<Rightarrow> projection \<Rightarrow> public_result_row" where
  "stored_result eid p =
     \<lparr>pr_execution = eid, pr_public_results = map JObj (tp_public_results p),
      pr_hidden_total = int (tp_hidden_total p), pr_hidden_passed = int (tp_hidden_passed p),
      pr_stdout = tp_stdout p, pr_stderr = tp_stderr p,
      pr_candidate_message = tp_candidate_message p\<rparr>"

text \<open>\<open>INSERT ... ON CONFLICT (execution_request_id) DO UPDATE\<close>.\<close>

definition upsert_result :: "public_result_row \<Rightarrow> public_result_row list \<Rightarrow> public_result_row list" where
  "upsert_result x t =
     (if pr_execution x \<in> pr_execution ` set t
      then update_where (\<lambda>r. pr_execution r = pr_execution x) (\<lambda>_. x) t else t @ [x])"

text \<open>
  The status is read without a lock first, in \<open>seen\<close>, and again under the row lock of
  \<open>transition\<close>, in \<open>d\<close>; with \<open>seen = d\<close> nothing commits in between.
\<close>

definition persist_terminal_result ::
  "env \<Rightarrow> uuid \<Rightarrow> projection \<Rightarrow> db \<Rightarrow> db \<Rightarrow> (execution_status \<times> db) result" where
  "persist_terminal_result e eid p seen d =
     res_bind (get_execution eid seen) (\<lambda>current.
     if is_terminal (es_status current) then Inr (es_status current, d)
     else (case transition e eid (tp_execution_status p) (projection_details p) None None d of
         Inl x \<Rightarrow>
           if exn_class x = ExecutionTransitionErr
           then res_bind (get_execution eid d) (\<lambda>again.
             if is_terminal (es_status again) then Inr (es_status again, d) else Inl x)
           else Inl x
       | Inr (_, d1) \<Rightarrow> Inr (tp_execution_status p,
           d1\<lparr>requests := update_where (\<lambda>r. rq_id r = eid) (result_row eid p) (requests d1),
              public_results := upsert_result (stored_result eid p) (public_results d1)\<rparr>)))"

end
