(* ===== verification/Execution_Trust.thy ===== *)
theory Execution_Trust imports Execution_Results begin

text \<open>
  Correctness of the trust boundary: what a parsed result satisfies, what the comparison counts
  and reveals, what the stored outcome is.
\<close>

section \<open>Parsed results\<close>

text \<open>What the code relies on of one returned test.\<close>

definition returned_test_ok :: "jobj \<Rightarrow> bool" where
  "returned_test_ok t \<longleftrightarrow>
     (\<exists>s. jget t ''id'' = JStr s \<and> s \<noteq> []) \<and>
     jget t ''visibility'' \<in> {JStr ''public'', JStr ''hidden''} \<and>
     jget t ''ok'' \<in> range JBool"

lemma object_dict_Inr [simp]: "object_dict v label = Inr d \<longleftrightarrow> v = JObj d"
  by (auto simp: object_dict_def split: json.split)

lemma object_list_Inr [simp]: "object_list v label = Inr xs \<longleftrightarrow> v = JList xs"
  by (auto simp: object_list_def split: json.split)

lemma required_string_Inr [simp]: "required_string v label = Inr s \<longleftrightarrow> v = JStr s \<and> s \<noteq> []"
  by (auto simp: required_string_def split: json.split)

lemma nonnegative_int_Inr [simp]: "nonnegative_int v label = Inr i \<longleftrightarrow> v = JInt i \<and> 0 \<le> i"
  by (auto simp: nonnegative_int_def split: json.split)

lemma positive_int_Inr [simp]: "positive_int v label = Inr i \<longleftrightarrow> v = JInt i \<and> 1 \<le> i"
  by (cases v) (auto simp: positive_int_def nonnegative_int_def)

lemma json_int_case [simp]:
  "(case v of JInt n \<Rightarrow> f n | _ \<Rightarrow> Inl x) = Inr y \<longleftrightarrow> (\<exists>n. v = JInt n \<and> f n = Inr y)"
  by (cases v) auto

lemma optional_string_not_empty: "optional_string v \<noteq> Some []"
  by (simp add: optional_string_def split: json.split)

lemma parse_tests_Inr:
  assumes "parse_tests raws seen = Inr ts"
  shows "length ts = length raws \<and> list_all returned_test_ok ts \<and>
    distinct (map (test_key l) ts) \<and> set (map (test_key l) ts) \<inter> set seen = {}"
  using assms
proof (induction raws seen arbitrary: ts rule: parse_tests.induct)
  case (1 seen)
  then show ?case by simp
next
  case (2 raw raws seen)
  from 2(2) obtain item i v ts' where
    item: "raw = JObj item" "jget item ''id'' = JStr i" "i \<noteq> []" "jget item ''visibility'' = JStr v"
    and new: "i \<notin> set seen" "v \<in> set [''public'', ''hidden'']"
    and rest: "parse_tests raws (i # seen) = Inr ts'"
    and ts: "ts = [(''id'', JStr i), (''visibility'', JStr v),
       (''ok'', JBool (truthy (jget item ''ok''))), (''actual'', jget item ''actual''),
       (''error_category'', string_json (optional_string (jget item ''error_category'')))] # ts'"
    by (auto simp: res_bind_Inr_iff split: if_splits)
  have "\<not> i \<in> set seen" "\<not> v \<notin> set [''public'', ''hidden'']" using new by simp_all
  from 2(1) [OF this rest] item new have "length ts' = length raws \<and>
    list_all returned_test_ok ts' \<and> distinct (map (test_key l) ts') \<and>
    set (map (test_key l) ts') \<inter> set (i # seen) = {}" by simp
  moreover have "returned_test_ok (hd ts)" "test_key l (hd ts) = i"
    using item new by (auto simp: ts returned_test_ok_def jget_Cons test_key_def)
  moreover have "ts = hd ts # ts'" by (simp add: ts)
  ultimately show ?case using new(1)
    by (metis (no_types, lifting) disjoint_insert(2) distinct.simps(2) inf_commute insert_disjoint(1)
        length_Cons list.pred_inject(2) list.simps(15,9))
qed

lemma stream_text_length: "length (stream_text l v) \<le> max_public_stream_bytes"
  by (simp add: stream_text_def)

lemma py_eq_JStr: "py_eq v (JStr s) \<longleftrightarrow> v = JStr s"
  by (cases v) (auto simp: number_eq_def)

lemma parse_runner_result_InrD:
  assumes "parse_runner_result l txt eid att = Inr s"
  shows "utf8_len txt \<le> max_result_log_bytes"
    "sx_execution_id s = eid" "1 \<le> sx_attempt s" "att \<noteq> None \<Longrightarrow> att = Some (sx_attempt s)"
    "sx_status s \<in> {''COMPLETED'', ''FAILED'', ''TIMEOUT''}" "0 \<le> sx_runtime_ms s"
    "length (sx_tests s) \<le> max_result_tests" "list_all returned_test_ok (sx_tests s)"
    "distinct (map (test_key l) (sx_tests s))"
    "length (sx_stdout s) \<le> max_public_stream_bytes" "length (sx_stderr s) \<le> max_public_stream_bytes"
proof -
  obtain payload status raws ts attempt runtime exit_code where
    "\<not> utf8_len txt > max_result_log_bytes" "1 \<le> attempt" "att = None \<or> att = Some attempt"
    "status \<in> set [''COMPLETED'', ''FAILED'', ''TIMEOUT'']" "\<not> length raws > max_result_tests"
    "0 \<le> runtime" and ts: "parse_tests raws [] = Inr ts" and
    "s = \<lparr>sx_execution_id = eid, sx_attempt = attempt, sx_status = status,
          sx_runtime_ms = runtime, sx_exit_code = exit_code, sx_tests = ts,
          sx_stdout = stream_text l (jget payload ''stdout''),
          sx_stderr = stream_text l (jget payload ''stderr''),
          sx_error_category = optional_string (jget payload ''error_category'')\<rparr>"
    using assms unfolding parse_runner_result_def
    by (auto simp: res_bind_Inr_iff split: if_splits)
  with parse_tests_Inr [OF ts, of l] show
    "utf8_len txt \<le> max_result_log_bytes"
    "sx_execution_id s = eid" "1 \<le> sx_attempt s" "att \<noteq> None \<Longrightarrow> att = Some (sx_attempt s)"
    "sx_status s \<in> {''COMPLETED'', ''FAILED'', ''TIMEOUT''}" "0 \<le> sx_runtime_ms s"
    "length (sx_tests s) \<le> max_result_tests" "list_all returned_test_ok (sx_tests s)"
    "distinct (map (test_key l) (sx_tests s))"
    "length (sx_stdout s) \<le> max_public_stream_bytes" "length (sx_stderr s) \<le> max_public_stream_bytes"
    by (auto simp: stream_text_length)
qed

section \<open>Into the sandbox\<close>

lemma sanitize_test_Inr: "sanitize_test raw = Inr t \<longleftrightarrow>
    t = raw \<and> (\<exists>d. raw = JObj d \<and> \<not> has_key d ''expected_output'' \<and> \<not> has_key d ''expected'')"
  by (auto simp: sanitize_test_def res_bind_Inr_iff split: if_splits)

lemma res_map_sanitize: "res_map sanitize_test tests = Inr ts \<Longrightarrow>
    ts = tests \<and> (\<forall>t\<in>set tests. \<exists>d. t = JObj d \<and> \<not> has_key d ''expected_output'' \<and> \<not> has_key d ''expected'')"
  by (induction tests arbitrary: ts) (auto simp: res_bind_Inr_iff sanitize_test_Inr)

lemma sandbox_request_InrD:
  assumes "sandbox_request l p = Inr req"
  obtains tests where "jget (dp_input_payload p) ''tests'' = JList tests"
    "jget req ''tests'' = JList tests" "jget req ''attempt'' = JInt (dp_attempt_count p)"
    "1 \<le> dp_attempt_count p" "dp_language p \<in> {''python'', ''sql''}"
    "\<forall>t\<in>set tests. \<exists>d. t = JObj d \<and> \<not> has_key d ''expected_output'' \<and> \<not> has_key d ''expected''"
proof -
  obtain tests ts ext where "jget (dp_input_payload p) ''tests'' = JList tests"
    "res_map sanitize_test tests = Inr ts" "\<not> dp_attempt_count p < 1"
    "dp_language p \<in> {''python'', ''sql''}"
    "req = [(''schema_version'', JInt 1), (''execution_id'', JStr (uuid_str (dp_execution_id p))),
       (''attempt'', JInt (dp_attempt_count p)), (''source_code'', JStr (dp_source_code p)),
       (''tests'', JList ts)] @ ext"
    using assms unfolding sandbox_request_def Let_def
    by (auto simp: res_bind_Inr_iff split: if_splits json.splits)
  then show thesis using res_map_sanitize [of tests ts] by (intro that) (auto simp: jget_Cons)
qed

section \<open>The loop over the returned tests\<close>

definition entry_of :: "pylib \<Rightarrow> (string \<times> jobj) list \<Rightarrow> jobj \<Rightarrow> jobj" where
  "entry_of l E t = (case map_of E (test_key l t) of None \<Rightarrow> [] | Some x \<Rightarrow> x)"

definition is_public :: "pylib \<Rightarrow> (string \<times> jobj) list \<Rightarrow> jobj \<Rightarrow> bool" where
  "is_public l E t \<longleftrightarrow> visibility_of l (entry_of l E t) = ''public''"

definition passes :: "pylib \<Rightarrow> (string \<times> jobj) list \<Rightarrow> jobj \<Rightarrow> bool" where
  "passes l E t \<longleftrightarrow> test_passed l t (entry_of l E t) = Inr True"

definition shown_result :: "pylib \<Rightarrow> (string \<times> jobj) list \<Rightarrow> jobj \<Rightarrow> jobj" where
  "shown_result l E t = public_result l (test_key l t) t (entry_of l E t) (passes l E t)"

lemma compare_tests_Inr:
  assumes "compare_tests l E ts shown h = Inr (ps, hp)"
  shows "ps = shown @ map (shown_result l E) (filter (is_public l E) ts)"
    "hp = h + length (filter (\<lambda>t. \<not> is_public l E t \<and> passes l E t) ts)"
    "list_all (\<lambda>t. map_of E (test_key l t) = Some (entry_of l E t) \<and>
       jget t ''visibility'' = JStr (visibility_of l (entry_of l E t))) ts"
  using assms
proof (induction ts arbitrary: shown h)
  case Nil
  { case 1 then show ?case by simp }
  { case 2 then show ?case by simp }
  { case 3 then show ?case by simp }
next
  case (Cons t ts)
  have step: "\<exists>b. map_of E (test_key l t) = Some (entry_of l E t) \<and>
       jget t ''visibility'' = JStr (visibility_of l (entry_of l E t)) \<and>
       test_passed l t (entry_of l E t) = Inr b \<and>
       compare_tests l E ts (if is_public l E t then shown @ [shown_result l E t] else shown)
         (if is_public l E t then h else h + (if b then 1 else 0)) = Inr (ps, hp)"
    if "compare_tests l E (t # ts) shown h = Inr (ps, hp)" for shown h
  proof (cases "map_of E (test_key l t)")
    case None
    then show ?thesis using that by (simp add: Let_def)
  next
    case (Some x)
    then have x: "entry_of l E t = x" by (simp add: entry_of_def)
    show ?thesis
      using that Some x
      by (auto simp: Let_def res_bind_Inr_iff py_eq_JStr is_public_def shown_result_def passes_def
          split: if_splits)
  qed
  { case 1
    from step [OF 1] Cons.IH(1) show ?case by fastforce }
  { case 2
    from step [OF 2] obtain b where b: "test_passed l t (entry_of l E t) = Inr b" and
      c: "compare_tests l E ts (if is_public l E t then shown @ [shown_result l E t] else shown)
         (if is_public l E t then h else h + (if b then 1 else 0)) = Inr (ps, hp)" by blast
    from Cons.IH(2) [OF c] b show ?case by (simp add: passes_def) }
  { case 3
    from step [OF 3] Cons.IH(3) show ?case by fastforce }
qed

text \<open>One rule for a comparison that succeeds.\<close>

lemma trusted_compare_InrD:
  assumes "trusted_compare l s E = Inr p"
  shows "tp_execution_status p = terminal_of_status (sx_status s)"
    "tp_public_results p = map (shown_result l E) (filter (is_public l E) (sx_tests s))"
    "tp_hidden_passed p = length (filter (\<lambda>t. \<not> is_public l E t \<and> passes l E t) (sx_tests s))"
    "tp_hidden_total p = hidden_count l E"
    "list_all (\<lambda>t. map_of E (test_key l t) = Some (entry_of l E t) \<and>
       jget t ''visibility'' = JStr (visibility_of l (entry_of l E t))) (sx_tests s)"
    "set (map (test_key l) (sx_tests s)) \<subseteq> fst ` set E"
    "terminal_of_status (sx_status s) = Completed \<Longrightarrow>
       set (map (test_key l) (sx_tests s)) = fst ` set E"
    "p = \<lparr>tp_execution_status = tp_execution_status p, tp_runtime_ms = sx_runtime_ms s,
       tp_exit_code = sx_exit_code s, tp_error_category = sx_error_category s,
       tp_public_results = tp_public_results p, tp_hidden_total = tp_hidden_total p,
       tp_hidden_passed = tp_hidden_passed p, tp_stdout = sx_stdout s, tp_stderr = sx_stderr s,
       tp_candidate_message = tp_candidate_message p\<rparr>"
proof -
  from assms have ids: "set (map (test_key l) (sx_tests s)) \<subseteq> fst ` set E"
    "terminal_of_status (sx_status s) = Completed \<Longrightarrow>
       set (map (test_key l) (sx_tests s)) = fst ` set E"
    unfolding trusted_compare_def Let_def by (auto split: if_splits simp del: terminal_of_status.simps)
  from assms obtain ps hp m where c: "compare_tests l E (sx_tests s) [] 0 = Inr (ps, hp)"
    and p: "p = \<lparr>tp_execution_status = terminal_of_status (sx_status s), tp_runtime_ms = sx_runtime_ms s,
       tp_exit_code = sx_exit_code s, tp_error_category = sx_error_category s,
       tp_public_results = ps, tp_hidden_total = hidden_count l E,
       tp_hidden_passed = hp, tp_stdout = sx_stdout s, tp_stderr = sx_stderr s,
       tp_candidate_message = m\<rparr>"
    unfolding trusted_compare_def Let_def
    by (auto simp: res_bind_Inr_iff split: if_splits simp del: terminal_of_status.simps)
  note c = compare_tests_Inr [OF c]
  show "tp_execution_status p = terminal_of_status (sx_status s)"
    "tp_hidden_total p = hidden_count l E"
    "p = \<lparr>tp_execution_status = tp_execution_status p, tp_runtime_ms = sx_runtime_ms s,
       tp_exit_code = sx_exit_code s, tp_error_category = sx_error_category s,
       tp_public_results = tp_public_results p, tp_hidden_total = tp_hidden_total p,
       tp_hidden_passed = tp_hidden_passed p, tp_stdout = sx_stdout s, tp_stderr = sx_stderr s,
       tp_candidate_message = tp_candidate_message p\<rparr>"
    by (simp_all add: p del: terminal_of_status.simps)
  show "tp_public_results p = map (shown_result l E) (filter (is_public l E) (sx_tests s))"
    using c(1) by (simp add: p)
  show "tp_hidden_passed p = length (filter (\<lambda>t. \<not> is_public l E t \<and> passes l E t) (sx_tests s))"
    using c(2) by (simp add: p)
  show "list_all (\<lambda>t. map_of E (test_key l t) = Some (entry_of l E t) \<and>
       jget t ''visibility'' = JStr (visibility_of l (entry_of l E t))) (sx_tests s)"
    using c(3) .
  show "set (map (test_key l) (sx_tests s)) \<subseteq> fst ` set E" by (rule ids(1))
  show "terminal_of_status (sx_status s) = Completed \<Longrightarrow>
       set (map (test_key l) (sx_tests s)) = fst ` set E" by (rule ids(2))
qed

section \<open>Counts\<close>

definition key_visible :: "pylib \<Rightarrow> (string \<times> jobj) list \<Rightarrow> string \<Rightarrow> bool" where
  "key_visible l E k \<longleftrightarrow> (case map_of E k of None \<Rightarrow> False | Some x \<Rightarrow> visibility_of l x = ''public'')"

lemma hidden_count_keys:
  assumes "distinct (map fst E)" "\<forall>(k, x)\<in>set E. visibility_of l x \<in> {''public'', ''hidden''}"
  shows "hidden_count l E = length (filter (\<lambda>k. \<not> key_visible l E k) (map fst E))"
proof -
  have "visibility_of l x = ''hidden'' \<longleftrightarrow> \<not> key_visible l E k" if "(k, x) \<in> set E" for k x
    using assms that by (auto simp: key_visible_def)
  then have "filter (\<lambda>(k, entry). visibility_of l entry = ''hidden'') E =
      filter (\<lambda>p. \<not> key_visible l E (fst p)) E"
    by (intro filter_cong) auto
  then show ?thesis by (simp add: hidden_count_def filter_map o_def)
qed

lemma length_filter_subset:
  assumes "distinct xs" "set xs \<subseteq> set ys"
  shows "length (filter P xs) \<le> length (filter P ys)"
proof -
  have "card (set (filter P xs)) \<le> card (set (filter P ys))"
    using assms(2) by (intro card_mono) auto
  moreover have "card (set (filter P ys)) \<le> length (filter P ys)" by (rule card_length)
  moreover have "card (set (filter P xs)) = length (filter P xs)"
    using assms(1) by (intro distinct_card) simp
  ultimately show ?thesis by linarith
qed

lemma length_filter_conj: "length (filter (\<lambda>x. P x \<and> Q x) xs) \<le> length (filter P xs)"
  by (induction xs) auto

lemma count_passed_le: "count_passed items \<le> length items"
  by (induction items) (auto simp: count_passed_def)

lemma outcome_counts:
  assumes c: "trusted_compare l s E = Inr p"
    and s: "distinct (map (test_key l) (sx_tests s))"
    and E: "distinct (map fst E)" "\<forall>(k, x)\<in>set E. visibility_of l x \<in> {''public'', ''hidden''}"
  shows "tp_hidden_passed p \<le> tp_hidden_total p" "total_tests p \<le> length E"
    "tp_execution_status p = Completed \<Longrightarrow> total_tests p = length E"
proof -
  note p = trusted_compare_InrD [OF c]
  let ?ids = "map (test_key l) (sx_tests s)" and ?keys = "map fst E"
  have pub: "is_public l E t = key_visible l E (test_key l t)" if "t \<in> set (sx_tests s)" for t
    using p(5) that by (auto simp: list_all_iff is_public_def key_visible_def split: option.splits)
  have ids: "set ?ids \<subseteq> set ?keys" using p(6) by simp
  have count: "length (filter (is_public l E) (sx_tests s)) = length (filter (key_visible l E) ?ids)"
    using pub by (simp add: filter_map o_def cong: filter_cong)
  have hid: "length (filter (\<lambda>t. \<not> is_public l E t) (sx_tests s)) =
      length (filter (\<lambda>k. \<not> key_visible l E k) ?ids)"
    using pub by (simp add: filter_map o_def cong: filter_cong)
  note h = hidden_count_keys [OF E]
  have "tp_hidden_passed p \<le> length (filter (\<lambda>t. \<not> is_public l E t) (sx_tests s))"
    unfolding p(3) by (rule length_filter_conj)
  then show "tp_hidden_passed p \<le> tp_hidden_total p"
    using length_filter_subset [OF s ids, of "\<lambda>k. \<not> key_visible l E k"] hid p(4) h by linarith
  have parts: "length (filter (key_visible l E) ?keys) +
      length (filter (\<lambda>k. \<not> key_visible l E k) ?keys) = length ?keys"
    by (rule sum_length_filter_compl)
  have total: "total_tests p = length (filter (key_visible l E) ?ids) +
      length (filter (\<lambda>k. \<not> key_visible l E k) ?keys)"
    by (simp only: total_tests_def p(2) p(4) h length_map count)
  show "total_tests p \<le> length E"
    using total length_filter_subset [OF s ids, of "key_visible l E"] parts by simp
  assume "tp_execution_status p = Completed"
  then have "set ?keys \<subseteq> set ?ids" using p(1,7) by simp
  from length_filter_subset [OF E(1) this, of "key_visible l E"]
    length_filter_subset [OF s ids, of "key_visible l E"] total parts
  show "total_tests p = length E" by simp
qed

lemma passed_le_total: "tp_hidden_passed p \<le> tp_hidden_total p \<Longrightarrow> passed_tests p \<le> total_tests p"
  using count_passed_le [of "tp_public_results p"] by (simp add: passed_tests_def total_tests_def)

section \<open>Expected answers\<close>

lemma expected_test_Inr:
  assumes "expected_test l m ds top_level cols item i = Inr x"
  shows "visibility_of l x \<in> {''public'', ''hidden''} \<and>
    (visibility_of l x = ''public'' \<longleftrightarrow> jget item ''visibility'' = JStr ''public'')"
  using assms
  by (auto simp: expected_test_def Let_def res_bind_Inr_iff visibility_of_def jget_Cons py_or_def py_eq_JStr
      split: if_splits)

lemma expected_tests_from_Inr:
  assumes "expected_tests_from l m ds top_level cols n raws E0 = Inr E" "distinct (map fst E0)"
    "\<forall>(k, x)\<in>set E0. visibility_of l x \<in> {''public'', ''hidden''}"
  shows "distinct (map fst E) \<and> (\<forall>(k, x)\<in>set E. visibility_of l x \<in> {''public'', ''hidden''}) \<and>
    length E = length E0 + length raws"
  using assms
proof (induction l m ds top_level cols n raws E0 arbitrary: E rule: expected_tests_from.induct)
  case (1 l sql_mode ds top_level cols index expected)
  then show ?case by simp
next
  case (2 l sql_mode ds top_level cols index raw_item raws expected)
  from 2(2) obtain item i x where item: "raw_item = JObj item"
    "i = (case optional_string (jget item ''id'') of Some s \<Rightarrow> s | None \<Rightarrow> ''test-'' @ nat_str (index + 1))"
    "i \<notin> fst ` set expected" "expected_test l sql_mode ds top_level cols item i = Inr x"
    and rest: "expected_tests_from l sql_mode ds top_level cols (index + 1) raws (expected @ [(i, x)]) = Inr E"
    by (auto simp: Let_def res_bind_Inr_iff split: if_splits)
  have "distinct (map fst (expected @ [(i, x)]))" using 2(3) item(3) by simp
  moreover have "\<forall>(k, y)\<in>set (expected @ [(i, x)]). visibility_of l y \<in> {''public'', ''hidden''}"
    using 2(4) expected_test_Inr [OF item(4)] by auto
  ultimately show ?case using 2(1) [OF item(2,3) rest] by simp
qed

lemma load_expected_tests_InrD:
  assumes "load_expected_tests l v d = Inr E"
  shows "distinct (map fst E)" "\<forall>(k, x)\<in>set E. visibility_of l x \<in> {''public'', ''hidden''}"
    "E \<noteq> []" "length E \<le> max_result_tests"
proof -
  from assms obtain m ds top_level cols tests where
    "tests \<noteq> []" "length tests \<le> max_result_tests"
    "expected_tests_from l m ds top_level cols 0 tests [] = Inr E"
    unfolding load_expected_tests_def Let_def by (auto simp: res_bind_Inr_iff split: if_splits)
  moreover from expected_tests_from_Inr [OF this(3)] have
    "distinct (map fst E) \<and> (\<forall>(k, x)\<in>set E. visibility_of l x \<in> {''public'', ''hidden''}) \<and>
     length E = length tests" by simp
  ultimately show "distinct (map fst E)"
    "\<forall>(k, x)\<in>set E. visibility_of l x \<in> {''public'', ''hidden''}"
    "E \<noteq> []" "length E \<le> max_result_tests" by auto
qed

section \<open>Unordered comparison\<close>

lemma same_unordered_iff:
  "same_unordered l xs ys \<longleftrightarrow>
     image_mset (canonical_json l) (mset xs) = image_mset (canonical_json l) (mset ys)"
  by (simp add: same_unordered_def sort_eq_iff_mset)

section \<open>The stored outcome\<close>

lemma result_row_keep [simp]:
  "rq_id (result_row eid p r) = rq_id r" "request_key (result_row eid p r) = request_key r"
  "rq_state (result_row eid p r) = rq_state r"
  "rq_execution_type (result_row eid p r) = rq_execution_type r"
  "rq_attempt_count (result_row eid p r) = rq_attempt_count r"
  "rq_completed_at (result_row eid p r) = rq_completed_at r"
  "rq_lease_owner (result_row eid p r) = None"
  by (simp_all add: result_row_def request_key_def)

lemma row_ok_result_row:
  assumes "row_ok r" "rq_state r = pg_state t" "is_terminal t"
  shows "row_ok (result_row eid p r)"
proof -
  have "0 \<le> rq_attempt_count r" "rq_execution_type r \<in> type_value ` {Run, Submit}"
    "terminal_state (rq_state r) \<Longrightarrow> rq_completed_at r \<noteq> None"
    using assms(1) unfolding row_ok_def by blast+
  then show ?thesis
    using assms(2,3) terminal_pg_state [OF assms(3)] unfolding row_ok_def result_row_keep by simp
qed

lemma get_execution_status:
  assumes "exec_inv d" "request_of eid d = Some r" "rq_state r = pg_state s"
  obtains snap where "get_execution eid d = Inr snap" "es_status snap = s"
proof -
  obtain ty where "rq_execution_type r = type_value ty"
    using row_ok_type [OF exec_inv_request(2) [OF assms(1,2)]] .
  from get_execution_Inr [OF assms(2,3) this] show thesis using that by blast
qed

lemma get_execution_InrD:
  assumes "exec_inv d" "get_execution eid d = Inr snap"
  obtains r where "request_of eid d = Some r" "rq_state r = pg_state (es_status snap)"
proof -
  from assms(2) obtain r where r: "request_of eid d = Some r" "snapshot_of_row r = Inr snap"
    by (auto simp: get_execution_def split: option.splits)
  obtain s where s: "rq_state r = pg_state s" using exec_inv_pg_state [OF assms(1) r(1)] .
  then have "es_status snap = s" using r(2) by (auto simp: snapshot_of_row_def res_bind_Inr_iff)
  then show thesis using that r(1) s by simp
qed

definition stored_db :: "uuid \<Rightarrow> projection \<Rightarrow> db \<Rightarrow> db" where
  "stored_db eid p d1 =
     d1\<lparr>requests := update_where (\<lambda>r. rq_id r = eid) (result_row eid p) (requests d1),
        public_results := upsert_result (stored_result eid p) (public_results d1)\<rparr>"

lemma persist_terminal_result_cases:
  assumes "persist_terminal_result e eid p seen d = Inr (st, d')"
  obtains (already) snap where "d' = d" "get_execution eid seen = Inr snap \<or> get_execution eid d = Inr snap"
      "es_status snap = st" "is_terminal st"
  | (stored) snap d1 where "transition e eid (tp_execution_status p) (projection_details p) None None d
        = Inr (snap, d1)" "st = tp_execution_status p" "d' = stored_db eid p d1"
proof (cases "get_execution eid seen")
  case (Inl x)
  then show thesis using assms by (simp add: persist_terminal_result_def)
next
  case (Inr current)
  show thesis
  proof (cases "is_terminal (es_status current)")
    case True
    then have "st = es_status current" "d' = d"
      using assms Inr by (simp_all add: persist_terminal_result_def)
    then show thesis using already [of current] True Inr by simp
  next
    case False
    show thesis
    proof (cases "transition e eid (tp_execution_status p) (projection_details p) None None d")
      case (Inl x)
      obtain again where a: "get_execution eid d = Inr again"
        using assms Inr False Inl
        by (cases "get_execution eid d") (auto simp: persist_terminal_result_def split: if_splits)
      then have "is_terminal (es_status again)" "st = es_status again" "d' = d"
        using assms Inr False Inl by (auto simp: persist_terminal_result_def split: if_splits)
      then show thesis using already [of again] a by simp
    next
      case (Inr y)
      obtain snap d1 where y: "y = (snap, d1)" by (cases y)
      have "st = tp_execution_status p" "d' = stored_db eid p d1"
        using assms Inr \<open>get_execution eid seen = Inr current\<close> False y
        by (simp_all add: persist_terminal_result_def stored_db_def)
      then show thesis using stored [of snap d1] Inr y by simp
    qed
  qed
qed

lemma persist_terminal_result_inv:
  assumes "exec_inv d" "is_terminal (tp_execution_status p)"
    "persist_terminal_result e eid p seen d = Inr (st, d')"
  shows "exec_inv d'"
  using assms(3)
proof (cases rule: persist_terminal_result_cases)
  case (stored snap d1)
  have inv: "exec_inv d1" using transition_inv [OF assms(1,2) stored(1)] .
  from stored(1) obtain r s det where r: "request_of eid d = Some r" and
    d1: "d1 = append_event eid (tp_execution_status p) det
       (d\<lparr>requests := update_where (\<lambda>y. rq_id y = eid)
           (transition_row e (tp_execution_status p) None None) (requests d)\<rparr>)"
    by (rule transition_InrD)
  have at: "request_of eid d1 = Some (transition_row e (tp_execution_status p) None None r)"
    using transition_request_of [OF r d1] by simp
  have unique: "rq_state x = pg_state (tp_execution_status p)"
    if "x \<in> set (requests d1)" "rq_id x = eid" for x
    using inv at that row_with_distinct [of rq_id "requests d1" x] by (auto simp: exec_inv_def)
  show ?thesis
    by (rule exec_inv_touch [OF inv, where P = "\<lambda>r. rq_id r = eid" and f = "result_row eid p"])
      (auto simp: stored(3) stored_db_def intro!: row_ok_result_row [OF _ unique assms(2)])
qed (use assms in simp)

lemma persist_terminal_result_state:
  assumes "exec_inv d" "is_terminal (tp_execution_status p)"
    "persist_terminal_result e eid p d d = Inr (st, d')"
  obtains r where "request_of eid d' = Some r" "rq_state r = pg_state st" "is_terminal st"
  using assms(3)
proof (cases rule: persist_terminal_result_cases)
  case (already snap)
  then have "get_execution eid d = Inr snap" by blast
  from get_execution_InrD [OF assms(1) this] show thesis using already that by blast
next
  case (stored snap d1)
  from stored(1) obtain r s det where r: "request_of eid d = Some r" and
    d1: "d1 = append_event eid (tp_execution_status p) det
       (d\<lparr>requests := update_where (\<lambda>y. rq_id y = eid)
           (transition_row e (tp_execution_status p) None None) (requests d)\<rparr>)"
    by (rule transition_InrD)
  have "request_of eid d1 = Some (transition_row e (tp_execution_status p) None None r)"
    using transition_request_of [OF r d1] by simp
  then have "request_of eid d' = Some (result_row eid p
      (transition_row e (tp_execution_status p) None None r))"
    by (simp add: stored(3) stored_db_def row_with_update_at)
  then show thesis using stored(2) assms(2) by (intro that) auto
qed

lemma persist_terminal_result_again:
  assumes "exec_inv d" "request_of eid d = Some r" "rq_state r = pg_state st" "is_terminal st"
  shows "persist_terminal_result e eid p d d2 = Inr (st, d2)"
proof -
  obtain snap where "get_execution eid d = Inr snap" "es_status snap = st"
    using get_execution_status [OF assms(1-3)] .
  then show ?thesis using assms(4) by (simp add: persist_terminal_result_def)
qed

end
