(* ===== verification/Execution_Submission.thy ===== *)
theory Execution_Submission imports Execution_Trust begin

text \<open>
  Finalisation of a submission (\<open>execution_submission.py\<close>) with the advisory source signals of
  \<open>execution.py\<close>: the scores, the stored result and evaluation, the completed practice session
  and its event. The Python parser is a parameter: \<open>ast_counts\<close> gives the numbers of function,
  class and loop nodes of a source text, or \<open>None\<close> where \<open>ast.parse\<close> raises \<open>SyntaxError\<close>.
\<close>

section \<open>Source signals\<close>

type_synonym ast_counts = "string \<Rightarrow> (nat \<times> nat \<times> nat) option"

definition upper_char :: "char \<Rightarrow> string" where
  "upper_char c =
     (let n = (of_char c :: nat) in
      if 97 \<le> n \<and> n \<le> 122 \<or> 224 \<le> n \<and> n \<le> 254 \<and> n \<noteq> 247 then [char_of (n - 32)]
      else if n = 223 then ''SS'' else [c])"

definition upper :: "string \<Rightarrow> string" where
  "upper s = concat (map upper_char s)"

text \<open>\<open>s.count(p)\<close>: occurrences that do not overlap, from the left.\<close>

fun count_sub :: "string \<Rightarrow> string \<Rightarrow> nat" where
  "count_sub p [] = 0"
| "count_sub p (c # cs) =
     (if starts_with p (c # cs) then 1 + count_sub p (drop (length p - 1) cs) else count_sub p cs)"

definition source_quality_signals :: "ast_counts \<Rightarrow> string \<Rightarrow> jobj" where
  "source_quality_signals ast source =
     [(''line_count'', JInt (int (length (splitlines source)))),
      (''contains_todo'', JBool (contains ''TODO'' (upper source) \<or> contains ''...'' source)),
      (''debug_print_count'', JInt (int (count_sub ''print('' source)))] @
     (case ast source of
        None \<Rightarrow> [(''syntax_valid'', JBool False)]
      | Some (functions, classes, loops) \<Rightarrow>
          [(''syntax_valid'', JBool True), (''function_count'', JInt (int functions)),
           (''class_count'', JInt (int classes)), (''loop_count'', JInt (int loops))])"

section \<open>Scores\<close>

definition legacy_status :: "projection \<Rightarrow> string \<times> execution_state" where
  "legacy_status p =
     (if tp_execution_status p = Completed
      then if all_tests_passed p then (''passed'', PG_PASSED) else (''failed'', PG_FAILED)
      else (''error'', PG_ERROR))"

definition float_of_bool :: "bool \<Rightarrow> rat" where
  "float_of_bool b = (if b then 1 else 0)"

text \<open>\<open>int(str(quality.get(key, 0)))\<close>: the signals under these keys are integers.\<close>

definition signal_int :: "jobj \<Rightarrow> string \<Rightarrow> int" where
  "signal_int quality key = (case jget_default quality key (JInt 0) of JInt i \<Rightarrow> i | _ \<Rightarrow> 0)"

definition code_quality_score :: "jobj \<Rightarrow> rat" where
  "code_quality_score quality =
     fadd (fadd (fadd
       (fmul (lit 55 100) (float_of_bool (truthy (jget quality ''syntax_valid''))))
       (fmul (lit 20 100) (float_of_bool (\<not> truthy (jget quality ''contains_todo'')))))
       (fmul (lit 15 100) (float_of_bool (signal_int quality ''debug_print_count'' \<le> 1))))
       (fmul (lit 10 100) (float_of_bool (signal_int quality ''function_count'' \<ge> 1)))"

definition overall_score :: "rat \<Rightarrow> rat \<Rightarrow> rat \<Rightarrow> rat \<Rightarrow> rat \<Rightarrow> rat" where
  "overall_score correctness code_quality complexity robustness testing =
     fadd (fadd (fadd (fadd
       (fmul (lit 60 100) correctness)
       (fmul (lit 15 100) code_quality))
       (fmul (lit 10 100) complexity))
       (fmul (lit 10 100) robustness))
       (fmul (lit 5 100) testing)"

record evaluation =
  ev_correctness_score :: rat
  ev_complexity_score :: rat
  ev_code_quality_score :: rat
  ev_testing_score :: rat
  ev_robustness_score :: rat
  ev_overall_score :: rat
  ev_deterministic_signals :: json
  ev_heuristic_signals :: json

definition share_or :: "nat \<Rightarrow> nat \<Rightarrow> rat \<Rightarrow> rat" where
  "share_or n_passed n_total other =
     (if n_total \<noteq> 0 then int_div (int n_passed) (int n_total) else other)"

definition evaluation_of :: "jobj \<Rightarrow> projection \<Rightarrow> evaluation" where
  "evaluation_of quality p =
     (let public_total = length (tp_public_results p);
          public_passed = count_passed (tp_public_results p);
          hidden_total = tp_hidden_total p;
          hidden_passed = tp_hidden_passed p;
          total_count = public_total + hidden_total;
          passed_count = public_passed + hidden_passed;
          correctness = share_or passed_count total_count 0;
          testing = share_or public_passed public_total correctness;
          robustness = share_or hidden_passed hidden_total correctness;
          code_quality = code_quality_score quality;
          submission_status = fst (legacy_status p);
          complexity = (if submission_status = ''passed'' then 1
            else if submission_status = ''failed'' then 1 / 2 else 0);
          overall = overall_score correctness code_quality complexity robustness testing
      in \<lparr>ev_correctness_score = py_round_nd 5 correctness,
          ev_complexity_score = py_round_nd 5 complexity,
          ev_code_quality_score = py_round_nd 5 code_quality,
          ev_testing_score = py_round_nd 5 testing,
          ev_robustness_score = py_round_nd 5 robustness,
          ev_overall_score = py_round_nd 5 overall,
          ev_deterministic_signals = JObj
            [(''public_total'', JInt (int public_total)), (''public_passed'', JInt (int public_passed)),
             (''hidden_total'', JInt (int hidden_total)), (''hidden_passed'', JInt (int hidden_passed)),
             (''execution_status'', JStr (status_value (tp_execution_status p)))],
          ev_heuristic_signals = JObj
            [(''source_quality'', JObj quality),
             (''disclaimer'', JStr ''Static source-quality signals are advisory and separately labeled.'')]\<rparr>)"

section \<open>Finalisation\<close>

definition legacy_result :: "pylib \<Rightarrow> jobj \<Rightarrow> json" where
  "legacy_result l item = JObj
     [(''id'', JStr (py_str l (jget item ''test_id''))),
      (''name'', JStr (py_str l (jget item ''name''))),
      (''passed'', JBool (truthy (jget item ''passed''))),
      (''expected_output'', jget item ''expected''),
      (''actual_output'', jget item ''actual''),
      (''error_category'', jget item ''error_category'')]"

definition submission_update ::
  "env \<Rightarrow> projection \<Rightarrow> submission_row \<Rightarrow> submission_row" where
  "submission_update e p r =
     r\<lparr>sb_status := fst (legacy_status p),
       sb_public_test_results := map (legacy_result (lib e)) (tp_public_results p),
       sb_hidden_test_summary := JObj [(''total'', JInt (int (tp_hidden_total p))),
         (''passed'', JInt (int (tp_hidden_passed p)))],
       sb_error_category := tp_error_category p,
       sb_execution_duration_ms := Some (tp_runtime_ms p),
       sb_started_at := coalesce (sb_started_at r) (Some (db_now e)),
       sb_completed_at := Some (db_now e)\<rparr>"

definition new_result_row :: "env \<Rightarrow> uuid \<Rightarrow> jobj \<Rightarrow> projection \<Rightarrow> submission_result_row" where
  "new_result_row e sid quality p =
     \<lparr>sr_submission = sid, sr_status = snd (legacy_status p),
      sr_public_results = map (legacy_result (lib e)) (tp_public_results p),
      sr_hidden_total = int (tp_hidden_total p), sr_hidden_passed = int (tp_hidden_passed p),
      sr_runtime_ms = tp_runtime_ms p, sr_error_category = tp_error_category p,
      sr_candidate_message = tp_candidate_message p, sr_quality_signals = JObj quality\<rparr>"

definition new_evaluation_row :: "uuid \<Rightarrow> evaluation \<Rightarrow> submission_evaluation_row" where
  "new_evaluation_row sid ev =
     \<lparr>se_submission = sid, se_correctness = ev_correctness_score ev,
      se_complexity = ev_complexity_score ev, se_code_quality = ev_code_quality_score ev,
      se_testing = ev_testing_score ev, se_robustness = ev_robustness_score ev,
      se_overall = ev_overall_score ev, se_evaluator_version = ''deterministic-python-async-v1'',
      se_deterministic_signals = ev_deterministic_signals ev,
      se_heuristic_signals = ev_heuristic_signals ev\<rparr>"

definition completable :: "uuid \<Rightarrow> practice_session_row \<Rightarrow> bool" where
  "completable session r \<longleftrightarrow> ps_id r = session \<and> (ps_state r = SUBMITTED \<or> ps_state r = EVALUATING)"

definition complete_session :: "env \<Rightarrow> practice_session_row \<Rightarrow> practice_session_row" where
  "complete_session e r =
     r\<lparr>ps_state := COMPLETED, ps_completed_at := Some (db_now e),
       ps_last_activity_at := db_now e, ps_updated_at := db_now e\<rparr>"

definition append_session_event :: "uuid \<Rightarrow> string \<Rightarrow> json \<Rightarrow> db \<Rightarrow> db" where
  "append_session_event session event_type payload d = d\<lparr>session_events := session_events d @
     [\<lparr>pse_session = session,
       pse_sequence = next_sequence 0 (map pse_sequence
         (filter (\<lambda>ev. pse_session ev = session) (session_events d))),
       pse_event_type = event_type, pse_payload = payload\<rparr>]\<rparr>"

definition finalize_submission ::
  "env \<Rightarrow> ast_counts \<Rightarrow> dispatch_package \<Rightarrow> projection \<Rightarrow> db \<Rightarrow> db" where
  "finalize_submission e ast pkg p d =
     (case dp_submission_id pkg of
        None \<Rightarrow> d
      | Some sid \<Rightarrow>
         if dp_execution_type pkg \<noteq> ''SUBMIT'' then d
         else if row_with sr_submission sid (submission_results d) \<noteq> None then d
         else
           let quality = source_quality_signals ast (dp_source_code pkg);
               ev = evaluation_of quality p;
               session = dp_practice_session_id pkg;
               updated = find (completable session) (practice_sessions d) \<noteq> None;
               d1 = d\<lparr>submissions := update_where (\<lambda>r. sb_id r = sid) (submission_update e p) (submissions d),
                      submission_results := submission_results d @ [new_result_row e sid quality p],
                      submission_evaluations := submission_evaluations d @ [new_evaluation_row sid ev],
                      practice_sessions := update_where (completable session) (complete_session e)
                        (practice_sessions d)\<rparr>
           in if updated
              then append_session_event session ''EVALUATION_COMPLETED''
                (JObj [(''submission_id'', JStr (uuid_str sid)),
                       (''execution_id'', JStr (uuid_str (dp_execution_id pkg))),
                       (''overall_score'', JFloat (Fin (ev_overall_score ev)))]) d1
              else d1)"

section \<open>Bounds of the scores\<close>

lemma fadd_mono: "x \<le> x' \<Longrightarrow> y \<le> y' \<Longrightarrow> fadd x y \<le> fadd x' y'"
  by (simp add: fadd_def fl_mono)

lemma fmul_mono: "0 \<le> w \<Longrightarrow> x \<le> y \<Longrightarrow> fmul w x \<le> fmul w y"
  by (simp add: fmul_def fl_mono mult_left_mono)

lemma fl_nonneg: "0 \<le> x \<Longrightarrow> 0 \<le> fl x"
  using binary64.rnd_nonneg .

lemma lit_nonneg: "0 \<le> p \<Longrightarrow> 0 \<le> q \<Longrightarrow> 0 \<le> lit p q"
  by (simp add: lit_def fl_nonneg)

lemma fadd_nonneg: "0 \<le> x \<Longrightarrow> 0 \<le> y \<Longrightarrow> 0 \<le> fadd x y"
  by (simp add: fadd_def fl_nonneg)

lemma fmul_nonneg: "0 \<le> x \<Longrightarrow> 0 \<le> y \<Longrightarrow> 0 \<le> fmul x y"
  by (simp add: fmul_def fl_nonneg)

lemmas score_bounds = fadd_mono fmul_mono fadd_nonneg fmul_nonneg lit_nonneg

lemma float_of_bool_bounds: "0 \<le> float_of_bool b" "float_of_bool b \<le> 1"
  by (simp_all add: float_of_bool_def)

text \<open>The weights of both sums add up to exactly one in binary64 arithmetic, in the code's order.\<close>

lemma code_quality_weights:
  "fadd (fadd (fadd (fmul (lit 55 100) 1) (fmul (lit 20 100) 1)) (fmul (lit 15 100) 1))
     (fmul (lit 10 100) 1) = 1"
  unfolding fmul_lit_1 by code_simp

lemma overall_weights: "overall_score 1 1 1 1 1 = 1"
  unfolding overall_score_def fmul_lit_1 by code_simp

lemma code_quality_score_bounds: "0 \<le> code_quality_score q \<and> code_quality_score q \<le> 1"
proof
  show "0 \<le> code_quality_score q"
    unfolding code_quality_score_def by (intro score_bounds float_of_bool_bounds) auto
  have "code_quality_score q \<le>
    fadd (fadd (fadd (fmul (lit 55 100) 1) (fmul (lit 20 100) 1)) (fmul (lit 15 100) 1))
     (fmul (lit 10 100) 1)"
    unfolding code_quality_score_def by (intro score_bounds float_of_bool_bounds) auto
  then show "code_quality_score q \<le> 1" unfolding code_quality_weights .
qed

lemma overall_score_mono:
  assumes "a \<le> a'" "b \<le> b'" "c \<le> c'" "r \<le> r'" "t \<le> t'"
  shows "overall_score a b c r t \<le> overall_score a' b' c' r' t'"
  unfolding overall_score_def by (intro fadd_mono fmul_mono lit_nonneg assms) auto

lemma overall_score_bounds:
  assumes "0 \<le> a" "a \<le> 1" "0 \<le> b" "b \<le> 1" "0 \<le> c" "c \<le> 1" "0 \<le> r" "r \<le> 1" "0 \<le> t" "t \<le> 1"
  shows "0 \<le> overall_score a b c r t \<and> overall_score a b c r t \<le> 1"
  using overall_score_mono [of a 1 b 1 c 1 r 1 t 1] assms overall_weights
  by (auto simp: overall_score_def intro!: score_bounds)

lemma share_or_bounds:
  assumes "m \<le> n" "0 \<le> x" "x \<le> 1"
  shows "0 \<le> share_or m n x \<and> share_or m n x \<le> 1"
  using assms binary64.rnd_share [of "int m" "int n"] by (simp add: share_or_def int_div_def)

definition unit_scores :: "evaluation \<Rightarrow> bool" where
  "unit_scores ev \<longleftrightarrow> list_all (\<lambda>x. 0 \<le> x \<and> x \<le> 1)
     [ev_correctness_score ev, ev_complexity_score ev, ev_code_quality_score ev,
      ev_testing_score ev, ev_robustness_score ev, ev_overall_score ev]"

lemma evaluation_unit_scores:
  assumes "tp_hidden_passed p \<le> tp_hidden_total p"
  shows "unit_scores (evaluation_of quality p)"
proof -
  let ?pp = "count_passed (tp_public_results p)" and ?pt = "length (tp_public_results p)"
  let ?c = "share_or (?pp + tp_hidden_passed p) (?pt + tp_hidden_total p) 0"
  let ?t = "share_or ?pp ?pt ?c" and ?r = "share_or (tp_hidden_passed p) (tp_hidden_total p) ?c"
  have c: "0 \<le> ?c \<and> ?c \<le> 1"
    using count_passed_le [of "tp_public_results p"] assms by (intro share_or_bounds) auto
  have t: "0 \<le> ?t \<and> ?t \<le> 1"
    using c count_passed_le [of "tp_public_results p"] by (intro share_or_bounds) auto
  have r: "0 \<le> ?r \<and> ?r \<le> 1"
    using c assms by (intro share_or_bounds) auto
  let ?x = "if fst (legacy_status p) = ''passed'' then 1 else if fst (legacy_status p) = ''failed''
     then 1 / 2 else (0::rat)"
  have x: "0 \<le> ?x \<and> ?x \<le> 1" by simp
  note q = code_quality_score_bounds [of quality]
  have o: "0 \<le> overall_score ?c (code_quality_score quality) ?x ?r ?t \<and>
      overall_score ?c (code_quality_score quality) ?x ?r ?t \<le> 1"
    using c q x r t by (intro overall_score_bounds) auto
  have unit: "0 \<le> py_round_nd 5 y \<and> py_round_nd 5 y \<le> 1" if "0 \<le> y \<and> y \<le> 1" for y
    using that py_round_nd_unit by blast
  show ?thesis
    using unit [OF c] unit [OF t] unit [OF r] unit [OF x] unit [OF q] unit [OF o]
    by (simp add: unit_scores_def evaluation_of_def Let_def)
qed

section \<open>Finalisation happens once\<close>

lemma finalize_submission_again:
  assumes "dp_submission_id pkg = dp_submission_id pkg'" "dp_execution_type pkg = dp_execution_type pkg'"
  shows "finalize_submission e ast pkg p (finalize_submission e' ast' pkg' p' d) =
    finalize_submission e' ast' pkg' p' d"
  using assms
  by (auto simp: finalize_submission_def Let_def append_session_event_def new_result_row_def
      row_with_append split: option.splits if_splits)

lemma finalize_submission_tables [simp]:
  "requests (finalize_submission e ast pkg p d) = requests d"
  "payloads (finalize_submission e ast pkg p d) = payloads d"
  "exec_events (finalize_submission e ast pkg p d) = exec_events d"
  "outbox (finalize_submission e ast pkg p d) = outbox d"
  "public_results (finalize_submission e ast pkg p d) = public_results d"
  "question_versions (finalize_submission e ast pkg p d) = question_versions d"
  by (simp_all add: finalize_submission_def Let_def append_session_event_def split: option.split)

text \<open>The invariant speaks of four tables only.\<close>

lemma exec_inv_cong:
  assumes "exec_inv d" "requests d' = requests d" "payloads d' = payloads d"
    "exec_events d' = exec_events d" "outbox d' = outbox d"
  shows "exec_inv d'"
  using assms log_ok_cong [of d _ d'] by (auto simp: exec_inv_def list_all_iff)

lemma finalize_submission_inv: "exec_inv d \<Longrightarrow> exec_inv (finalize_submission e ast pkg p d)"
  by (erule exec_inv_cong) simp_all

end
