(* ===== verification/Practice_Sessions.thy ===== *)
theory Practice_Sessions imports Execution_Submission begin

text \<open>
  Practice sessions (\<open>practice.py\<close>): what a published question says about its execution, the
  session repository (create, list, get, patch, transition, events, hints) and the routes over
  it. An operation runs in one transaction of the candidate's principal and returns an exception
  or its result with the new tables; a route turns the two practice errors into HTTP errors and
  lets every other exception through.
\<close>

section \<open>Published questions\<close>

datatype submission_runtime = Python313 | Postgresql18

fun runtime_value :: "submission_runtime \<Rightarrow> string" where
  "runtime_value Python313 = ''python3.13''"
| "runtime_value Postgresql18 = ''postgresql18''"

text \<open>\<open>SubmissionRuntime(value)\<close>.\<close>

definition parse_runtime :: "string \<Rightarrow> submission_runtime option" where
  "parse_runtime v = find (\<lambda>r. runtime_value r = v) [Python313, Postgresql18]"

lemma parse_runtime_value [simp]: "parse_runtime (runtime_value r) = Some r"
  by (cases r) (simp_all add: parse_runtime_def)

lemma parse_runtime_Some: "parse_runtime v = Some r \<longleftrightarrow> v = runtime_value r"
  by (cases r) (auto simp: parse_runtime_def)

record question_payload =
  qp_question_id :: uuid
  qp_slug :: string
  qp_question_version_id :: uuid
  qp_title :: string
  qp_publication_version :: string
  qp_difficulty :: string
  qp_structured_content :: json

text \<open>The slug of a question is unique, so the join has at most one row.\<close>

definition published_question_payload :: "string \<Rightarrow> db \<Rightarrow> question_payload result" where
  "published_question_payload slug d =
     (let missing = Inl (Exn PracticeNotFoundErr []) in
      case row_with qs_slug slug (questions d) of None \<Rightarrow> missing
      | Some q \<Rightarrow> (case qs_current_published_version q of None \<Rightarrow> missing
        | Some vid \<Rightarrow> (case row_with qv_id vid (question_versions d) of None \<Rightarrow> missing
          | Some v \<Rightarrow>
            if qs_archived_at q = None \<and> qv_state v = Published
            then Inr \<lparr>qp_question_id = qs_id q, qp_slug = qs_slug q, qp_question_version_id = qv_id v,
              qp_title = qv_title v, qp_publication_version = qv_version v,
              qp_difficulty = qv_difficulty v, qp_structured_content = qv_structured_content v\<rparr>
            else missing)))"

definition question_mode :: "question_payload \<Rightarrow> jobj" where
  "question_mode payload = (case qp_structured_content payload of
     JObj content \<Rightarrow>
       (case find (\<lambda>key. as_obj (jget content key) \<noteq> None)
               [''mode_specification'', ''type_specification''] of
          Some key \<Rightarrow> optional_object_dict (jget content key)
        | None \<Rightarrow> [])
   | _ \<Rightarrow> [])"

definition question_runtime :: "pylib \<Rightarrow> question_payload \<Rightarrow> submission_runtime result" where
  "question_runtime l payload =
     (let content = optional_object_dict (qp_structured_content payload);
          mode = question_mode payload;
          question_type = py_str l (py_or (jget content ''question_type'') (JStr []));
          dialect = py_str l (py_or (jget mode ''dialect'') (JStr []));
          runtime = py_str l (py_or (jget mode ''runtime'') (JStr []))
      in if question_type = ''sql_coding'' \<or> dialect \<in> {''postgresql'', ''postgresql18''}
         then Inr Postgresql18
         else if question_type = ''python_coding'' \<or> runtime \<in> {''3.13'', ''python3.13''}
         then Inr Python313
         else Inl (Exn PracticeTransitionErr ''Question does not define a supported executable runtime.''))"

text \<open>The dictionaries of a list: \<open>[item for item in xs if isinstance(item, dict)]\<close>.\<close>

definition objects_of :: "json \<Rightarrow> jobj list" where
  "objects_of v = (case v of JList xs \<Rightarrow> List.map_filter as_obj xs | _ \<Rightarrow> [])"

definition is_public_test :: "jobj \<Rightarrow> bool" where
  "is_public_test test = py_eq (jget test ''visibility'') (JStr ''public'')"

definition question_tests :: "question_payload \<Rightarrow> bool \<Rightarrow> jobj list" where
  "question_tests payload public_only =
     (let tests = objects_of (jget (question_mode payload) ''tests'')
      in if public_only then filter is_public_test tests else tests)"

definition question_hints :: "question_payload \<Rightarrow> jobj list" where
  "question_hints payload = (case qp_structured_content payload of
     JObj content \<Rightarrow> objects_of (jget content ''hints'') | _ \<Rightarrow> [])"

definition starter_source :: "pylib \<Rightarrow> question_payload \<Rightarrow> submission_runtime \<Rightarrow> string" where
  "starter_source l payload runtime =
     (let mode = question_mode payload in
      case runtime of
        Python313 \<Rightarrow> py_str l (py_or (jget mode ''starter_code'') (JStr []))
      | Postgresql18 \<Rightarrow>
          py_str l (py_or (py_or (jget mode ''starter_sql'') (jget mode ''starter_code''))
            (JStr (''-- Write your PostgreSQL 18 query here.'' @ [CHR 0x0A]))))"

section \<open>Session views\<close>

fun practice_text :: "practice_state \<Rightarrow> string" where
  "practice_text CREATED = ''CREATED''"
| "practice_text IN_PROGRESS = ''IN_PROGRESS''"
| "practice_text PAUSED = ''PAUSED''"
| "practice_text SUBMITTED = ''SUBMITTED''"
| "practice_text EVALUATING = ''EVALUATING''"
| "practice_text COMPLETED = ''COMPLETED''"
| "practice_text ABANDONED = ''ABANDONED''"

record practice_view =
  pv_id :: uuid
  pv_question_version :: uuid
  pv_question_slug :: string
  pv_question_title :: string
  pv_publication_version :: string
  pv_state :: practice_state
  pv_runtime :: submission_runtime
  pv_draft_code :: string
  pv_notes :: string
  pv_elapsed_seconds :: int
  pv_hint_count :: int
  pv_run_count :: int
  pv_submission_count :: int
  pv_started_at :: timestamp
  pv_last_activity_at :: timestamp
  pv_submitted_at :: "timestamp option"
  pv_completed_at :: "timestamp option"
  pv_created_at :: timestamp
  pv_updated_at :: timestamp

text \<open>The joins of \<open>_view_select\<close>: no row where the version or its question is missing.\<close>

definition joined_question :: "db \<Rightarrow> practice_session_row \<Rightarrow> (version_row \<times> question_row) option" where
  "joined_question d r = (case ps_question_version r of None \<Rightarrow> None
     | Some vid \<Rightarrow> (case row_with qv_id vid (question_versions d) of None \<Rightarrow> None
       | Some v \<Rightarrow> map_option (Pair v) (row_with qs_id (qv_question v) (questions d))))"

text \<open>\<open>PracticeSessionView.model_validate(row)\<close>: a missing start time or runtime is refused.\<close>

definition session_view :: "practice_session_row \<Rightarrow> version_row \<Rightarrow> question_row \<Rightarrow> practice_view result" where
  "session_view r v q =
     (case (ps_runtime r, ps_started_at r) of
        (Some runtime_text, Some started) \<Rightarrow>
          (case parse_runtime runtime_text of
             Some runtime \<Rightarrow>
               if ps_elapsed_seconds r < 0 \<or> ps_hint_count r < 0 \<or> ps_run_count r < 0 \<or>
                  ps_submission_count r < 0
               then Inl (Exn ValidationErr ''PracticeSessionView'')
               else Inr
                 \<lparr>pv_id = ps_id r, pv_question_version = qv_id v, pv_question_slug = qs_slug q,
                  pv_question_title = qv_title v, pv_publication_version = qv_version v,
                  pv_state = ps_state r, pv_runtime = runtime,
                  pv_draft_code = (case ps_draft_code r of None \<Rightarrow> [] | Some c \<Rightarrow> c),
                  pv_notes = (case ps_notes r of None \<Rightarrow> [] | Some n \<Rightarrow> n),
                  pv_elapsed_seconds = ps_elapsed_seconds r, pv_hint_count = ps_hint_count r,
                  pv_run_count = ps_run_count r, pv_submission_count = ps_submission_count r,
                  pv_started_at = started, pv_last_activity_at = ps_last_activity_at r,
                  pv_submitted_at = ps_submitted_at r, pv_completed_at = ps_completed_at r,
                  pv_created_at = ps_created_at r, pv_updated_at = ps_updated_at r\<rparr>
           | None \<Rightarrow> Inl (Exn ValidationErr ''PracticeSessionView''))
      | _ \<Rightarrow> Inl (Exn ValidationErr ''PracticeSessionView''))"

definition own_session :: "env \<Rightarrow> uuid \<Rightarrow> practice_session_row \<Rightarrow> bool" where
  "own_session e sid r \<longleftrightarrow> ps_id r = sid \<and> Some (ps_candidate r) = user_id e"

definition get_session :: "env \<Rightarrow> uuid \<Rightarrow> db \<Rightarrow> practice_view result" where
  "get_session e sid d =
     (case find (own_session e sid) (practice_sessions d) of
        None \<Rightarrow> Inl (Exn PracticeNotFoundErr [])
      | Some r \<Rightarrow> (case joined_question d r of
          None \<Rightarrow> Inl (Exn PracticeNotFoundErr [])
        | Some (v, q) \<Rightarrow> session_view r v q))"

definition list_sessions :: "env \<Rightarrow> nat \<Rightarrow> db \<Rightarrow> practice_view list result" where
  "list_sessions e limit d =
     res_map (\<lambda>(r, v, q). session_view r v q)
       (take limit (sort_key (\<lambda>(r, v, q). - ps_updated_at r)
         (List.map_filter (\<lambda>r. map_option (Pair r) (joined_question d r))
           (filter (\<lambda>r. Some (ps_candidate r) = user_id e) (practice_sessions d)))))"

section \<open>The session repository\<close>

definition open_states :: "practice_state list" where
  "open_states = [CREATED, IN_PROGRESS, PAUSED]"

definition append_practice_event :: "env \<Rightarrow> uuid \<Rightarrow> string \<Rightarrow> json \<Rightarrow> db \<Rightarrow> db result" where
  "append_practice_event e sid event_type payload d =
     res_bind (get_session e sid d) (\<lambda>_. Inr (append_session_event sid event_type payload d))"

text \<open>The open sessions of the candidate for this version and runtime, last updated first.\<close>

definition open_sessions :: "env \<Rightarrow> uuid \<Rightarrow> submission_runtime \<Rightarrow> db \<Rightarrow> practice_session_row list" where
  "open_sessions e version runtime d =
     sort_key (\<lambda>r. - ps_updated_at r)
       (filter (\<lambda>r. Some (ps_candidate r) = user_id e \<and> ps_question_version r = Some version \<and>
          ps_runtime r = Some (runtime_value runtime) \<and> ps_state r \<in> set open_states)
        (practice_sessions d))"

definition new_session_row ::
  "env \<Rightarrow> uuid \<Rightarrow> uuid \<Rightarrow> question_payload \<Rightarrow> submission_runtime \<Rightarrow> practice_session_row" where
  "new_session_row e u sid question runtime =
     \<lparr>ps_id = sid, ps_organization = organization_id e, ps_candidate = u,
      ps_question_version = Some (qp_question_version_id question),
      ps_session_type = ''HOSTED_QUESTION'', ps_runtime = Some (runtime_value runtime),
      ps_state = IN_PROGRESS, ps_draft_code = Some (starter_source (lib e) question runtime),
      ps_notes = None, ps_elapsed_seconds = 0, ps_hint_count = 0, ps_run_count = 0,
      ps_submission_count = 0, ps_started_at = Some (db_now e), ps_paused_at = None,
      ps_submitted_at = None, ps_completed_at = None, ps_last_activity_at = db_now e,
      ps_created_at = db_now e, ps_updated_at = db_now e\<rparr>"

text \<open>\<open>sid\<close> is the identifier \<open>gen_random_uuid()\<close> draws for the new row.\<close>

definition create_session ::
  "env \<Rightarrow> uuid \<Rightarrow> string \<Rightarrow> submission_runtime \<Rightarrow> db \<Rightarrow> (practice_view \<times> db) result" where
  "create_session e sid slug runtime d =
     res_bind (published_question_payload slug d) (\<lambda>question.
     res_bind (question_runtime (lib e) question) (\<lambda>required_runtime.
     if runtime \<noteq> required_runtime
     then Inl (Exn PracticeTransitionErr
       (''Requested runtime does not match the published question runtime ('' @
        runtime_value required_runtime @ '').''))
     else case open_sessions e (qp_question_version_id question) required_runtime d of
       existing # _ \<Rightarrow> res_bind (get_session e (ps_id existing) d) (\<lambda>v. Inr (v, d))
     | [] \<Rightarrow>
       (case user_id e of
          None \<Rightarrow> Inl (Exn IntegrityErr ''candidate_id'')
        | Some u \<Rightarrow>
          if sid \<in> ps_id ` set (practice_sessions d)
          then Inl (Exn IntegrityErr ''practice_sessions_pkey'')
          else
            let d1 = d\<lparr>practice_sessions := practice_sessions d @
                  [new_session_row e u sid question required_runtime]\<rparr>
            in res_bind (append_practice_event e sid ''SESSION_STARTED''
                 (JObj [(''question_slug'', JStr slug),
                        (''runtime'', JStr (runtime_value required_runtime))]) d1) (\<lambda>d2.
               res_bind (get_session e sid d2) (\<lambda>v. Inr (v, d2))))))"

text \<open>
  \<open>model_fields_set\<close> of a patch: a field the client left out is \<open>None\<close>, an explicit JSON
  \<open>null\<close> is \<open>Some None\<close>.
\<close>

record session_patch =
  sp_draft_code :: "string option option"
  sp_notes :: "string option option"
  sp_elapsed_seconds :: "int option option"

definition set_or_keep :: "'a option \<Rightarrow> 'a \<Rightarrow> 'a" where
  "set_or_keep new old = (case new of None \<Rightarrow> old | Some x \<Rightarrow> x)"

definition patch_row :: "env \<Rightarrow> session_patch \<Rightarrow> practice_session_row \<Rightarrow> practice_session_row" where
  "patch_row e p r =
     r\<lparr>ps_draft_code := set_or_keep (sp_draft_code p) (ps_draft_code r),
       ps_notes := set_or_keep (sp_notes p) (ps_notes r),
       ps_elapsed_seconds := (case sp_elapsed_seconds p of Some (Some n) \<Rightarrow> n
         | _ \<Rightarrow> ps_elapsed_seconds r),
       ps_last_activity_at := db_now e, ps_updated_at := db_now e\<rparr>"

text \<open>
  The column \<open>elapsed_seconds\<close> is not nullable: an explicit \<open>null\<close> is an integrity error. A
  read and the update that follows it are two statements: \<open>seen\<close> holds the tables the read
  saw, \<open>d\<close> the tables at the update; with \<open>seen = d\<close> the operation runs alone.
\<close>

definition patch_session ::
  "env \<Rightarrow> uuid \<Rightarrow> session_patch \<Rightarrow> db \<Rightarrow> db \<Rightarrow> (practice_view \<times> db) result" where
  "patch_session e sid p seen d =
     res_bind (get_session e sid seen) (\<lambda>current.
     if pv_state current \<notin> set open_states
     then Inl (Exn PracticeTransitionErr ''Completed practice sessions are immutable.'')
     else if sp_elapsed_seconds p = Some None
     then Inl (Exn IntegrityErr ''elapsed_seconds'')
     else
       let d1 = d\<lparr>practice_sessions :=
             update_where (own_session e sid) (patch_row e p) (practice_sessions d)\<rparr>
       in res_bind (get_session e sid d1) (\<lambda>v. Inr (v, d1)))"

definition practice_transition_row ::
  "env \<Rightarrow> practice_state \<Rightarrow> practice_session_row \<Rightarrow> practice_session_row" where
  "practice_transition_row e target r =
     r\<lparr>ps_state := target,
       ps_started_at := (if target = IN_PROGRESS
         then coalesce (ps_started_at r) (Some (db_now e)) else ps_started_at r),
       ps_paused_at := (if target = PAUSED then Some (db_now e) else ps_paused_at r),
       ps_submitted_at := (if target = SUBMITTED then Some (db_now e) else ps_submitted_at r),
       ps_completed_at := (if target = COMPLETED then Some (db_now e) else ps_completed_at r),
       ps_last_activity_at := db_now e, ps_updated_at := db_now e\<rparr>"

definition transition_session ::
  "env \<Rightarrow> uuid \<Rightarrow> practice_state \<Rightarrow> practice_state list \<Rightarrow> db \<Rightarrow> db \<Rightarrow> (practice_view \<times> db) result" where
  "transition_session e sid target allowed seen d =
     res_bind (get_session e sid seen) (\<lambda>current.
     if pv_state current \<notin> set allowed
     then Inl (Exn PracticeTransitionErr
       (''Cannot transition a '' @ practice_text (pv_state current) @ '' session to '' @
        practice_text target @ ''.''))
     else
       let d1 = d\<lparr>practice_sessions :=
             update_where (own_session e sid) (practice_transition_row e target) (practice_sessions d)\<rparr>
       in res_bind (append_practice_event e sid (''SESSION_'' @ practice_text target)
            (JObj [(''from'', JStr (practice_text (pv_state current))),
                   (''to'', JStr (practice_text target))]) d1) (\<lambda>d2.
          res_bind (get_session e sid d2) (\<lambda>v. Inr (v, d2))))"

text \<open>\<open>int(v)\<close> of a decoded value.\<close>

definition truncate_rat :: "rat \<Rightarrow> int" where
  "truncate_rat x = (if x < 0 then - \<lfloor>- x\<rfloor> else \<lfloor>x\<rfloor>)"

definition py_int :: "json \<Rightarrow> int result" where
  "py_int v = (case v of
     JBool b \<Rightarrow> Inr (if b then 1 else 0)
   | JInt i \<Rightarrow> Inr i
   | JFloat (Fin x) \<Rightarrow> Inr (truncate_rat x)
   | JFloat NotANumber \<Rightarrow> Inl (Exn ValueErr ''cannot convert float NaN to integer'')
   | JFloat _ \<Rightarrow> Inl (Exn OverflowErr ''cannot convert float infinity to integer'')
   | JStr s \<Rightarrow> (case py_int_of_str s of Some i \<Rightarrow> Inr i
       | None \<Rightarrow> Inl (Exn ValueErr ''invalid literal for int() with base 10''))
   | _ \<Rightarrow> Inl (Exn TypeErr ''int() argument must be a string or a real number''))"

record practice_hint =
  ph_session :: uuid
  ph_reveal_level :: int
  ph_text :: string
  ph_hint_count :: int

definition hint_row :: "env \<Rightarrow> int \<Rightarrow> practice_session_row \<Rightarrow> practice_session_row" where
  "hint_row e n r = r\<lparr>ps_hint_count := n, ps_last_activity_at := db_now e, ps_updated_at := db_now e\<rparr>"

definition next_hint :: "env \<Rightarrow> uuid \<Rightarrow> db \<Rightarrow> (practice_hint \<times> db) result" where
  "next_hint e sid d =
     res_bind (get_session e sid d) (\<lambda>session.
     res_bind (published_question_payload (pv_question_slug session) d) (\<lambda>question.
     let hints = question_hints question in
     if int (length hints) \<le> pv_hint_count session
     then Inl (Exn PracticeTransitionErr ''No additional hints are available.'')
     else
       let hint = hints ! nat (pv_hint_count session);
           new_count = pv_hint_count session + 1;
           d1 = d\<lparr>practice_sessions :=
             update_where (own_session e sid) (hint_row e new_count) (practice_sessions d)\<rparr>
       in res_bind (py_int (jget_default hint ''reveal_level'' (JInt new_count))) (\<lambda>level.
          res_bind (append_practice_event e sid ''HINT_REVEALED''
            (JObj [(''reveal_level'', JInt level)]) d1) (\<lambda>d2.
          if level < 1 \<or> new_count < 1 then Inl (Exn ValidationErr ''PracticeHint'')
          else Inr (\<lparr>ph_session = sid, ph_reveal_level = level,
              ph_text = py_str (lib e) (jget_default hint ''text'' (JStr [])),
              ph_hint_count = new_count\<rparr>, d2)))))"

section \<open>The routes\<close>

definition session_error :: "exn \<Rightarrow> exn" where
  "session_error x = (case exn_class x of
     PracticeNotFoundErr \<Rightarrow> Exn (HttpErr 404) ''Practice session or question not found.''
   | PracticeTransitionErr \<Rightarrow> Exn (HttpErr 409) (exn_message x)
   | _ \<Rightarrow> x)"

definition session_route :: "'a result \<Rightarrow> 'a result" where
  "session_route r = (case r of Inl x \<Rightarrow> Inl (session_error x) | Inr y \<Rightarrow> Inr y)"

definition create_practice_session ::
  "env \<Rightarrow> uuid \<Rightarrow> string \<Rightarrow> submission_runtime \<Rightarrow> db \<Rightarrow> (practice_view \<times> db) result" where
  "create_practice_session e sid slug runtime d = session_route (create_session e sid slug runtime d)"

definition list_practice_sessions :: "env \<Rightarrow> db \<Rightarrow> practice_view list result" where
  "list_practice_sessions e d = list_sessions e 50 d"

definition get_practice_session :: "env \<Rightarrow> uuid \<Rightarrow> db \<Rightarrow> practice_view result" where
  "get_practice_session e sid d = session_route (get_session e sid d)"

definition patch_practice_session ::
  "env \<Rightarrow> uuid \<Rightarrow> session_patch \<Rightarrow> db \<Rightarrow> db \<Rightarrow> (practice_view \<times> db) result" where
  "patch_practice_session e sid p seen d = session_route (patch_session e sid p seen d)"

definition start_practice_session :: "env \<Rightarrow> uuid \<Rightarrow> db \<Rightarrow> db \<Rightarrow> (practice_view \<times> db) result" where
  "start_practice_session e sid seen d =
     session_route (transition_session e sid IN_PROGRESS [CREATED] seen d)"

definition pause_practice_session :: "env \<Rightarrow> uuid \<Rightarrow> db \<Rightarrow> db \<Rightarrow> (practice_view \<times> db) result" where
  "pause_practice_session e sid seen d =
     session_route (transition_session e sid PAUSED [IN_PROGRESS] seen d)"

definition resume_practice_session :: "env \<Rightarrow> uuid \<Rightarrow> db \<Rightarrow> db \<Rightarrow> (practice_view \<times> db) result" where
  "resume_practice_session e sid seen d =
     session_route (transition_session e sid IN_PROGRESS [PAUSED] seen d)"

definition append_practice_event_route ::
  "env \<Rightarrow> uuid \<Rightarrow> string \<Rightarrow> json \<Rightarrow> db \<Rightarrow> db result" where
  "append_practice_event_route e sid event_type payload d =
     session_route (append_practice_event e sid event_type payload d)"

definition complete_practice_session :: "env \<Rightarrow> uuid \<Rightarrow> db \<Rightarrow> db \<Rightarrow> (practice_view \<times> db) result" where
  "complete_practice_session e sid seen d =
     session_route (transition_session e sid COMPLETED [SUBMITTED, EVALUATING] seen d)"

definition reveal_practice_hint :: "env \<Rightarrow> uuid \<Rightarrow> db \<Rightarrow> (practice_hint \<times> db) result" where
  "reveal_practice_hint e sid d = session_route (next_hint e sid d)"

end
