(* ===== verification/Content_Review.thy ===== *)
theory Content_Review imports Practice_Sessions begin

text \<open>
  The editorial workflow of a question version: identities and the audit trail
  (\<open>persistence.py\<close>), review assignment, decision, publication and withdrawal (\<open>reviews.py\<close>),
  and what the content synchroniser does to the reviewed rows (\<open>content_sync.py\<close>): a package
  sync with its provenance and validation rows, and the rollback to an earlier version.

  The tables extend those of the execution plane. An operation is one transaction; an \<open>INSERT\<close>
  that repeats a primary or unique key raises \<open>IntegrityErr\<close>. Identifiers the database generates
  are arguments.
\<close>

section \<open>Tables\<close>

datatype role =
  Candidate_Role | Content_Author | Technical_Reviewer | Editorial_Reviewer | Platform_Administrator

fun role_value :: "role \<Rightarrow> string" where
  "role_value Candidate_Role = ''candidate''"
| "role_value Content_Author = ''content-author''"
| "role_value Technical_Reviewer = ''technical-reviewer''"
| "role_value Editorial_Reviewer = ''editorial-reviewer''"
| "role_value Platform_Administrator = ''platform-administrator''"

datatype review_kind = Technical | Editorial

fun kind_value :: "review_kind \<Rightarrow> string" where
  "kind_value Technical = ''technical''"
| "kind_value Editorial = ''editorial''"

text \<open>\<open>kind.value.title()\<close>.\<close>

fun kind_title :: "review_kind \<Rightarrow> string" where
  "kind_title Technical = ''Technical''"
| "kind_title Editorial = ''Editorial''"

datatype review_outcome = Outcome_Approved | Outcome_Changes_Requested | Outcome_Rejected

fun outcome_value :: "review_outcome \<Rightarrow> string" where
  "outcome_value Outcome_Approved = ''approved''"
| "outcome_value Outcome_Changes_Requested = ''changes_requested''"
| "outcome_value Outcome_Rejected = ''rejected''"

fun content_state_value :: "content_state \<Rightarrow> string" where
  "content_state_value Draft = ''draft''"
| "content_state_value Generated = ''generated''"
| "content_state_value Automated_Validation_Failed = ''automated_validation_failed''"
| "content_state_value Awaiting_Technical_Review = ''awaiting_technical_review''"
| "content_state_value Awaiting_Editorial_Review = ''awaiting_editorial_review''"
| "content_state_value Approved = ''approved''"
| "content_state_value Published = ''published''"
| "content_state_value Deprecated = ''deprecated''"
| "content_state_value Archived = ''archived''"

record user_row =
  us_id :: uuid
  us_identity_subject :: string
  us_email :: string
  us_display_name :: string
  us_email_verified :: bool
  us_deleted_at :: "timestamp option"
  us_last_login_at :: "timestamp option"
  us_updated_at :: timestamp

record assignment_row =
  as_id :: uuid
  as_version :: uuid
  as_reviewer :: uuid
  as_kind :: review_kind
  as_assigned_at :: timestamp
  as_completed_at :: "timestamp option"

record decision_row =
  dc_assignment :: uuid
  dc_reviewer :: uuid
  dc_outcome :: review_outcome
  dc_reason :: string
  dc_created_at :: timestamp

record provenance_row =
  pv_version :: uuid
  pv_author :: uuid
  pv_originality :: string
  pv_authoring_method :: string
  pv_source_notes :: json
  pv_created_at :: timestamp

record validation_row =
  vr_version :: uuid
  vr_validator_version :: string
  vr_status :: string
  vr_findings :: json
  vr_started_at :: timestamp
  vr_completed_at :: "timestamp option"

record publication_row =
  pe_version :: uuid
  pe_published_by :: uuid
  pe_idempotency_key :: string
  pe_source_revision :: string
  pe_content_hash :: string
  pe_published_at :: timestamp

record audit_row =
  ae_actor :: uuid
  ae_action :: string
  ae_resource_type :: string
  ae_resource_id :: string
  ae_details :: json
  ae_correlation_id :: string

record content_db = db +
  users :: "user_row list"
  user_roles :: "(uuid \<times> string) list"
  review_assignments :: "assignment_row list"
  review_decisions :: "decision_row list"
  provenance_records :: "provenance_row list"
  validation_runs :: "validation_row list"
  publication_events :: "publication_row list"
  audit_events :: "audit_row list"
  question_tracks :: "(uuid \<times> string) list"
  competencies :: "(uuid \<times> string) list"
  question_competencies :: "(uuid \<times> uuid \<times> bool) list"

text \<open>The first row of \<open>ORDER BY key DESC\<close>; among equal keys the row stored last.\<close>

definition latest :: "('r \<Rightarrow> 'k::linorder) \<Rightarrow> 'r list \<Rightarrow> 'r option" where
  "latest key rows = (if rows = [] then None else Some (last (sort_key key rows)))"

text \<open>An \<open>INSERT\<close> into a table with a unique key.\<close>

definition insert_unique :: "('r \<Rightarrow> 'k) \<Rightarrow> 'r \<Rightarrow> 'r list \<Rightarrow> 'r list result" where
  "insert_unique key r t = (if key r \<in> key ` set t then Inl (Exn IntegrityErr []) else Inr (t @ [r]))"

section \<open>Identities and the audit trail\<close>

record principal =
  pc_subject_id :: string
  pc_email :: string
  pc_display_name :: string
  pc_roles :: "role list"
  pc_authentication_provider :: string
  pc_correlation_id :: string

text \<open>\<open>lower\<close> of PostgreSQL on the characters of the model.\<close>

definition lower_char :: "char \<Rightarrow> char" where
  "lower_char c = (let n = (of_char c :: nat) in
     if 65 \<le> n \<and> n \<le> 90 \<or> 192 \<le> n \<and> n \<le> 222 \<and> n \<noteq> 215 then char_of (n + 32) else c)"

text \<open>The unique index on the lower-case email of the users that are not deleted.\<close>

definition email_taken :: "string \<Rightarrow> string \<Rightarrow> content_db \<Rightarrow> bool" where
  "email_taken subject email d \<longleftrightarrow>
     (\<exists>u\<in>set (users d). us_deleted_at u = None \<and> us_identity_subject u \<noteq> subject \<and>
        map lower_char (us_email u) = map lower_char email)"

text \<open>\<open>INSERT INTO users ... ON CONFLICT (identity_subject) DO UPDATE ... RETURNING id\<close>.\<close>

definition upsert_user ::
  "user_row \<Rightarrow> (user_row \<Rightarrow> user_row) \<Rightarrow> content_db \<Rightarrow> (uuid \<times> content_db) result" where
  "upsert_user new refresh d =
     (case row_with us_identity_subject (us_identity_subject new) (users d) of
        None \<Rightarrow>
          if email_taken (us_identity_subject new) (us_email new) d then Inl (Exn IntegrityErr [])
          else res_bind (insert_unique us_id new (users d)) (\<lambda>t. Inr (us_id new, d\<lparr>users := t\<rparr>))
      | Some u \<Rightarrow>
          if us_deleted_at u = None \<and> us_email (refresh u) \<noteq> us_email u \<and>
             email_taken (us_identity_subject u) (us_email (refresh u)) d
          then Inl (Exn IntegrityErr [])
          else Inr (us_id u,
            d\<lparr>users := update_where (\<lambda>x. us_identity_subject x = us_identity_subject new) refresh (users d)\<rparr>))"

definition synchronize_local_user_roles ::
  "principal \<Rightarrow> uuid \<Rightarrow> content_db \<Rightarrow> content_db result" where
  "synchronize_local_user_roles p uid d =
     (if pc_authentication_provider p \<noteq> ''local-oidc''
      then Inl (Exn ValueErr ''Only the controlled local OIDC provider may synchronize request roles'')
      else if \<not> distinct (pc_roles p) then Inl (Exn IntegrityErr [])
      else Inr (d\<lparr>user_roles := filter (\<lambda>(u, r). u \<noteq> uid) (user_roles d) @
                    map (\<lambda>r. (uid, role_value r)) (pc_roles p)\<rparr>))"

definition ensure_user ::
  "env \<Rightarrow> uuid \<Rightarrow> principal \<Rightarrow> content_db \<Rightarrow> (uuid \<times> content_db) result" where
  "ensure_user e nid p d =
     res_bind
       (upsert_user
          \<lparr>us_id = nid, us_identity_subject = pc_subject_id p, us_email = pc_email p,
           us_display_name = pc_display_name p, us_email_verified = True, us_deleted_at = None,
           us_last_login_at = Some (db_now e), us_updated_at = db_now e\<rparr>
          (\<lambda>u. u\<lparr>us_email := pc_email p, us_display_name := pc_display_name p,
             us_email_verified := True, us_last_login_at := Some (db_now e), us_updated_at := db_now e\<rparr>) d)
       (\<lambda>(uid, d).
          if pc_authentication_provider p = ''local-oidc''
          then res_bind (synchronize_local_user_roles p uid d) (\<lambda>d. Inr (uid, d))
          else Inr (uid, d))"

definition audit_event ::
  "string \<Rightarrow> uuid \<Rightarrow> string \<Rightarrow> string \<Rightarrow> json \<Rightarrow> content_db \<Rightarrow> content_db" where
  "audit_event correlation actor action resource_id details d =
     d\<lparr>audit_events := audit_events d @
        [\<lparr>ae_actor = actor, ae_action = action, ae_resource_type = ''question_version'',
          ae_resource_id = resource_id, ae_details = details, ae_correlation_id = correlation\<rparr>]\<rparr>"

section \<open>The review repository\<close>

record action_result =
  ra_version :: uuid
  ra_state :: content_state
  ra_message :: string

definition workflow_error :: "nat \<Rightarrow> string \<Rightarrow> 'a result" where
  "workflow_error code msg = Inl (Exn (ReviewWorkflowErr code) msg)"

definition lock_version :: "uuid \<Rightarrow> content_db \<Rightarrow> version_row result" where
  "lock_version vid d = (case row_with qv_id vid (question_versions d) of
     None \<Rightarrow> workflow_error 404 ''Question version not found'' | Some v \<Rightarrow> Inr v)"

definition author_rows :: "uuid \<Rightarrow> content_db \<Rightarrow> (provenance_row \<times> user_row) list" where
  "author_rows vid d = List.map_filter
     (\<lambda>p. map_option (Pair p) (row_with us_id (pv_author p) (users d)))
     (filter (\<lambda>p. pv_version p = vid) (provenance_records d))"

definition author_subject :: "uuid \<Rightarrow> content_db \<Rightarrow> string result" where
  "author_subject vid d = (case latest (pv_created_at \<circ> fst) (author_rows vid d) of
     None \<Rightarrow> workflow_error 409 ''Question version lacks an author provenance record''
   | Some (p, u) \<Rightarrow> Inr (us_identity_subject u))"

definition assignment_for :: "uuid \<Rightarrow> review_kind \<Rightarrow> content_db \<Rightarrow> assignment_row option" where
  "assignment_for vid k d =
     find (\<lambda>a. as_version a = vid \<and> as_kind a = k) (review_assignments d)"

definition eligible_reviewer :: "string \<Rightarrow> review_kind \<Rightarrow> content_db \<Rightarrow> user_row option" where
  "eligible_reviewer subject k d = (case row_with us_identity_subject subject (users d) of
     None \<Rightarrow> None
   | Some u \<Rightarrow> if (us_id u, kind_value k @ ''-reviewer'') \<in> set (user_roles d) then Some u else None)"

definition other_kind :: "review_kind \<Rightarrow> review_kind" where
  "other_kind k = (if k = Technical then Editorial else Technical)"

text \<open>\<open>INSERT INTO review_assignments ... ON CONFLICT (question_version_id, kind) DO UPDATE\<close>.\<close>

definition upsert_assignment ::
  "env \<Rightarrow> uuid \<Rightarrow> uuid \<Rightarrow> uuid \<Rightarrow> review_kind \<Rightarrow> assignment_row list \<Rightarrow> assignment_row list result" where
  "upsert_assignment e aid vid reviewer k t =
     (if \<exists>a\<in>set t. as_version a = vid \<and> as_kind a = k
      then Inr (update_where (\<lambda>a. as_version a = vid \<and> as_kind a = k)
             (\<lambda>a. a\<lparr>as_reviewer := reviewer, as_assigned_at := db_now e, as_completed_at := None\<rparr>) t)
      else insert_unique as_id
             \<lparr>as_id = aid, as_version = vid, as_reviewer = reviewer, as_kind = k,
              as_assigned_at = db_now e, as_completed_at = None\<rparr> t)"

definition assign ::
  "env \<Rightarrow> uuid \<Rightarrow> uuid \<Rightarrow> principal \<Rightarrow> uuid \<Rightarrow> review_kind \<Rightarrow> string \<Rightarrow> content_db \<Rightarrow>
   (action_result \<times> content_db) result" where
  "assign e nid aid p vid k subject d =
     res_bind (ensure_user e nid p d) (\<lambda>(actor, d).
     res_bind (lock_version vid d) (\<lambda>version.
     case eligible_reviewer subject k d of
       None \<Rightarrow> workflow_error 422 ''Reviewer identity is not provisioned with the required role''
     | Some reviewer \<Rightarrow>
     res_bind (author_subject vid d) (\<lambda>author.
     if us_identity_subject reviewer = author
     then workflow_error 409 ''The author cannot review their own question version''
     else if (case assignment_for vid (other_kind k) d of None \<Rightarrow> False
        | Some a \<Rightarrow> (case row_with us_id (as_reviewer a) (users d) of None \<Rightarrow> False
          | Some u \<Rightarrow> us_identity_subject u = us_identity_subject reviewer))
     then workflow_error 409 ''Technical and editorial reviewers must be different''
     else
     res_bind (upsert_assignment e aid vid (us_id reviewer) k (review_assignments d)) (\<lambda>t.
     Inr (\<lparr>ra_version = vid, ra_state = qv_state version, ra_message = kind_title k @ '' reviewer assigned''\<rparr>,
          audit_event (pc_correlation_id p) actor ''review.assigned'' (uuid_str vid)
            (JObj [(''kind'', JStr (kind_value k)), (''reviewer_subject_id'', JStr subject)])
            (d\<lparr>review_assignments := t\<rparr>))))))"

definition set_version_state ::
  "env \<Rightarrow> uuid \<Rightarrow> content_state \<Rightarrow> version_row list \<Rightarrow> version_row list" where
  "set_version_state e vid s =
     update_where (\<lambda>v. qv_id v = vid) (\<lambda>v. v\<lparr>qv_state := s, qv_updated_at := db_now e\<rparr>)"

text \<open>The guards of \<open>decide\<close> that depend on the kind of the review.\<close>

definition decision_allowed ::
  "uuid \<Rightarrow> review_kind \<Rightarrow> version_row \<Rightarrow> uuid \<Rightarrow> content_db \<Rightarrow> unit result" where
  "decision_allowed vid k version reviewer d = (case k of
     Technical \<Rightarrow>
       if qv_state version \<noteq> Awaiting_Technical_Review
       then workflow_error 409 ''Question is not awaiting technical review''
       else if map_option vr_status (latest vr_started_at
                 (filter (\<lambda>r. vr_version r = vid) (validation_runs d))) \<noteq> Some ''passed''
       then workflow_error 409 ''Automated validation must pass before review''
       else Inr ()
   | Editorial \<Rightarrow>
       if qv_state version \<noteq> Awaiting_Editorial_Review
       then workflow_error 409 ''Question is not awaiting editorial review''
       else (case find (\<lambda>a. as_version a = vid \<and> as_kind a = Technical \<and> as_completed_at a \<noteq> None)
                    (review_assignments d) of
           None \<Rightarrow> workflow_error 409 ''Technical approval is required first''
         | Some a \<Rightarrow>
             if as_reviewer a = reviewer
             then workflow_error 409 ''Editorial approval requires a different reviewer''
             else Inr ()))"

definition decision_state :: "review_kind \<Rightarrow> review_outcome \<Rightarrow> content_state" where
  "decision_state k outcome =
     (if outcome = Outcome_Approved
      then (if k = Technical then Awaiting_Editorial_Review else Approved) else Draft)"

definition decide ::
  "env \<Rightarrow> uuid \<Rightarrow> principal \<Rightarrow> uuid \<Rightarrow> review_kind \<Rightarrow> review_outcome \<Rightarrow> string \<Rightarrow> content_db \<Rightarrow>
   (action_result \<times> content_db) result" where
  "decide e nid p vid k outcome reason d =
     res_bind (ensure_user e nid p d) (\<lambda>(reviewer, d).
     res_bind (lock_version vid d) (\<lambda>version.
     case assignment_for vid k d of
       None \<Rightarrow> workflow_error 403 ''Only the assigned reviewer can decide this review''
     | Some a \<Rightarrow>
     if as_reviewer a \<noteq> reviewer
     then workflow_error 403 ''Only the assigned reviewer can decide this review''
     else res_bind (author_subject vid d) (\<lambda>author.
     if author = pc_subject_id p
     then workflow_error 409 ''The author cannot approve their own question version''
     else res_bind (decision_allowed vid k version reviewer d) (\<lambda>u.
     Inr (\<lparr>ra_version = vid, ra_state = decision_state k outcome,
           ra_message = kind_title k @ '' review '' @ outcome_value outcome\<rparr>,
          audit_event (pc_correlation_id p) reviewer ''review.decided'' (uuid_str vid)
            (JObj [(''kind'', JStr (kind_value k)), (''outcome'', JStr (outcome_value outcome)),
               (''reason'', JStr reason)])
            (d\<lparr>review_decisions := review_decisions d @
                 [\<lparr>dc_assignment = as_id a, dc_reviewer = reviewer, dc_outcome = outcome,
                   dc_reason = reason, dc_created_at = db_now e\<rparr>],
               review_assignments := update_where (\<lambda>x. as_id x = as_id a)
                 (\<lambda>x. x\<lparr>as_completed_at := Some (db_now e)\<rparr>) (review_assignments d),
               question_versions := set_version_state e vid (decision_state k outcome) (question_versions d)\<rparr>))))))"

text \<open>
  The rows of \<open>publish\<close>'s join: each assignment of the version with the outcome of its latest
  decision; \<open>approved\<close> keeps the approved ones by kind, a later row replacing an earlier one.
\<close>

definition latest_decision :: "uuid \<Rightarrow> content_db \<Rightarrow> decision_row option" where
  "latest_decision aid d =
     latest dc_created_at (filter (\<lambda>c. dc_assignment c = aid) (review_decisions d))"

definition approvals :: "uuid \<Rightarrow> content_db \<Rightarrow> (review_kind \<times> uuid) list" where
  "approvals vid d = map (\<lambda>a. (as_kind a, as_reviewer a))
     (filter (\<lambda>a. as_version a = vid \<and>
                map_option dc_outcome (latest_decision (as_id a) d) = Some Outcome_Approved)
        (review_assignments d))"

definition publish ::
  "env \<Rightarrow> uuid \<Rightarrow> principal \<Rightarrow> uuid \<Rightarrow> string \<Rightarrow> content_db \<Rightarrow> (action_result \<times> content_db) result" where
  "publish e nid p vid key d =
     res_bind (ensure_user e nid p d) (\<lambda>(publisher, d).
     res_bind (lock_version vid d) (\<lambda>version.
     case row_with pe_idempotency_key key (publication_events d) of
       Some existing \<Rightarrow>
         if pe_version existing \<noteq> vid
         then workflow_error 409 ''Idempotency key was used for another version''
         else Inr (\<lparr>ra_version = vid, ra_state = Published,
                    ra_message = ''Question version was already published''\<rparr>, d)
     | None \<Rightarrow>
     if qv_state version \<noteq> Approved
     then workflow_error 409 ''Only an approved version can be published''
     else let approved = map_of (rev (approvals vid d)) in
     (case (approved Technical, approved Editorial) of
        (Some technical, Some editorial) \<Rightarrow>
          if technical = editorial then workflow_error 409 ''Review approvals must be independent''
          else Inr (\<lparr>ra_version = vid, ra_state = Published, ra_message = ''Question version published''\<rparr>,
            audit_event (pc_correlation_id p) publisher ''content.published'' (uuid_str vid)
              (JObj [(''idempotency_key'', JStr key)])
              (d\<lparr>publication_events := publication_events d @
                   [\<lparr>pe_version = vid, pe_published_by = publisher, pe_idempotency_key = key,
                     pe_source_revision = qv_source_revision version,
                     pe_content_hash = qv_content_hash version, pe_published_at = db_now e\<rparr>],
                 question_versions := update_where (\<lambda>v. qv_id v = vid) (\<lambda>v. v\<lparr>qv_state := Published\<rparr>)
                   (question_versions d),
                 questions := update_where (\<lambda>q. qs_id q = qv_question version)
                   (\<lambda>q. q\<lparr>qs_current_published_version := Some vid\<rparr>) (questions d)\<rparr>))
      | _ \<Rightarrow> workflow_error 409 ''Technical and editorial approvals are required'')))"

definition withdraw_question ::
  "env \<Rightarrow> content_state \<Rightarrow> question_row \<Rightarrow> question_row" where
  "withdraw_question e target q = q\<lparr>qs_current_published_version := None,
     qs_archived_at := (if target = Archived then Some (db_now e) else qs_archived_at q)\<rparr>"

definition transition_version ::
  "env \<Rightarrow> uuid \<Rightarrow> principal \<Rightarrow> uuid \<Rightarrow> content_state \<Rightarrow> content_db \<Rightarrow>
   (action_result \<times> content_db) result" where
  "transition_version e nid p vid target d =
     (if target \<notin> {Deprecated, Archived}
      then workflow_error 422 ''Only deprecation and archival are administrative transitions''
      else
      res_bind (ensure_user e nid p d) (\<lambda>(actor, d).
      res_bind (lock_version vid d) (\<lambda>version.
      if target = Deprecated \<and> qv_state version \<noteq> Published
      then workflow_error 409 ''Only published versions can be deprecated''
      else if target = Archived \<and> qv_state version = Published
      then workflow_error 409 ''Deprecate a published version before archiving it''
      else Inr (\<lparr>ra_version = vid, ra_state = target,
                 ra_message = ''Question version '' @ content_state_value target\<rparr>,
        audit_event (pc_correlation_id p) actor (''content.'' @ content_state_value target) (uuid_str vid)
          (JObj [(''from_state'', JStr (content_state_value (qv_state version)))])
          (d\<lparr>question_versions := set_version_state e vid target (question_versions d),
             questions := update_where
               (\<lambda>q. qs_id q = qv_question version \<and> qs_current_published_version q = Some vid)
               (withdraw_question e target) (questions d)\<rparr>)))))"

section \<open>The review queue\<close>

record assignment_summary =
  rs_kind :: review_kind
  rs_reviewer_subject_id :: string
  rs_reviewer_display_name :: string
  rs_completed_at :: "timestamp option"

record queue_item =
  qi_version :: uuid
  qi_external_id :: string
  qi_slug :: string
  qi_title :: string
  qi_version_number :: string
  qi_state :: content_state
  qi_author_subject_id :: string
  qi_validation_status :: "string option"
  qi_assignments :: "assignment_summary list"

definition assignment_summaries :: "uuid \<Rightarrow> content_db \<Rightarrow> assignment_summary list" where
  "assignment_summaries vid d = List.map_filter
     (\<lambda>a. map_option (\<lambda>u. \<lparr>rs_kind = as_kind a, rs_reviewer_subject_id = us_identity_subject u,
            rs_reviewer_display_name = us_display_name u, rs_completed_at = as_completed_at a\<rparr>)
        (row_with us_id (as_reviewer a) (users d)))
     (sort_key (\<lambda>a. kind_value (as_kind a))
        (filter (\<lambda>a. as_version a = vid) (review_assignments d)))"

text \<open>The lateral join takes the latest provenance record first, and joins its author to it.\<close>

definition queue_item_of :: "version_row \<Rightarrow> question_row \<Rightarrow> content_db \<Rightarrow> queue_item option" where
  "queue_item_of v q d =
     (case latest pv_created_at (filter (\<lambda>p. pv_version p = qv_id v) (provenance_records d)) of
        None \<Rightarrow> None
      | Some p \<Rightarrow> map_option
          (\<lambda>author. \<lparr>qi_version = qv_id v, qi_external_id = qs_external_id q, qi_slug = qs_slug q,
             qi_title = qv_title v, qi_version_number = qv_version v, qi_state = qv_state v,
             qi_author_subject_id = us_identity_subject author,
             qi_validation_status = map_option vr_status (latest vr_started_at
               (filter (\<lambda>r. vr_version r = qv_id v) (validation_runs d))),
             qi_assignments = assignment_summaries (qv_id v) d\<rparr>)
          (row_with us_id (pv_author p) (users d)))"

definition review_queue ::
  "env \<Rightarrow> uuid \<Rightarrow> principal \<Rightarrow> content_db \<Rightarrow> (queue_item list \<times> content_db) result" where
  "review_queue e nid p d =
     res_bind (ensure_user e nid p d) (\<lambda>(actor, d).
     Inr (List.map_filter (\<lambda>(v, q). queue_item_of v q d)
            (sort_key (\<lambda>(v, q). qv_updated_at v)
              (sort_key (\<lambda>(v, q). qs_external_id q)
                (List.map_filter (\<lambda>v. map_option (Pair v) (row_with qs_id (qv_question v) (questions d)))
                  (filter (\<lambda>v. qv_state v \<notin> {Archived, Deprecated}) (question_versions d))))), d))"

end
