(* ===== verification/Content_Sync.thy ===== *)
theory Content_Sync imports Content_Review begin

text \<open>
  The content synchroniser (\<open>content_sync.py\<close>) on the rows the review workflow reads: one
  package is written as a version awaiting technical review, with its competencies, provenance
  and validation run; a rollback publishes an earlier version again. Reading packages from the
  file system, their validation, and the other sidecar tables (skills, company tags, objectives,
  solutions, rubrics) are not modelled.
\<close>

section \<open>Packages\<close>

record content_package =
  pk_id :: string
  pk_slug :: string
  pk_version :: string
  pk_title :: string
  pk_problem_statement :: string
  pk_expected_seniority :: string
  pk_difficulty :: string
  pk_conceptual :: int
  pk_implementation :: int
  pk_scale :: int
  pk_ambiguity :: int
  pk_prerequisite_depth :: int
  pk_duration :: int
  pk_primary_track :: string
  pk_secondary_skills :: "string list"
  pk_author_id :: string
  pk_originality :: string
  pk_authoring_method :: string
  pk_source_notes :: json
  pk_structured :: json
  pk_content_hash :: string

record package_result =
  px_question_id :: string
  px_version :: string
  px_status :: string
  px_content_hash :: "string option"
  px_findings :: "string list"

text \<open>Fresh identifiers of one synchronisation.\<close>

record sync_ids =
  si_question :: uuid
  si_version :: uuid
  si_author :: uuid
  si_system :: uuid

section \<open>One package\<close>

definition upsert_question ::
  "env \<Rightarrow> uuid \<Rightarrow> uuid \<Rightarrow> content_package \<Rightarrow> content_db \<Rightarrow> (uuid \<times> content_db) result" where
  "upsert_question e nid track p d =
     (if \<exists>q\<in>set (questions d). qs_slug q = pk_slug p \<and> qs_external_id q \<noteq> pk_id p
      then Inl (Exn IntegrityErr [])
      else (case row_with qs_external_id (pk_id p) (questions d) of
        None \<Rightarrow> res_bind (insert_unique qs_id
            \<lparr>qs_id = nid, qs_external_id = pk_id p, qs_slug = pk_slug p, qs_primary_track = track,
             qs_current_published_version = None, qs_archived_at = None, qs_updated_at = db_now e\<rparr>
            (questions d)) (\<lambda>t. Inr (nid, d\<lparr>questions := t\<rparr>))
      | Some q \<Rightarrow> Inr (qs_id q, d\<lparr>questions := update_where (\<lambda>x. qs_external_id x = pk_id p)
            (\<lambda>x. x\<lparr>qs_slug := pk_slug p, qs_primary_track := track, qs_updated_at := db_now e\<rparr>)
            (questions d)\<rparr>)))"

text \<open>\<open>dict.fromkeys([primary, *secondary])\<close> keeps the first of equal slugs; the \<open>SELECT\<close> yields
  the known competencies among them in storage order.\<close>

definition replace_question_competencies ::
  "content_package \<Rightarrow> uuid \<Rightarrow> content_db \<Rightarrow> content_db" where
  "replace_question_competencies p qid d =
     (let slugs = pk_primary_track p # pk_secondary_skills p in
      d\<lparr>question_competencies := filter (\<lambda>(q, c, b). q \<noteq> qid) (question_competencies d) @
          map (\<lambda>(c, slug). (qid, c, slug = pk_primary_track p))
            (filter (\<lambda>(c, slug). slug \<in> set slugs) (competencies d))\<rparr>)"

definition package_row ::
  "env \<Rightarrow> string \<Rightarrow> content_package \<Rightarrow> uuid \<Rightarrow> uuid \<Rightarrow> version_row" where
  "package_row e revision p qid vid =
     \<lparr>qv_id = vid, qv_question = qid, qv_version = pk_version p, qv_title = pk_title p,
      qv_problem_statement = pk_problem_statement p, qv_expected_seniority = pk_expected_seniority p,
      qv_difficulty = pk_difficulty p, qv_conceptual_difficulty = pk_conceptual p,
      qv_implementation_difficulty = pk_implementation p, qv_scale = pk_scale p,
      qv_ambiguity = pk_ambiguity p, qv_prerequisite_depth = pk_prerequisite_depth p,
      qv_duration_minutes = pk_duration p, qv_state = Awaiting_Technical_Review,
      qv_structured_content = pk_structured p, qv_source_revision = revision,
      qv_content_hash = pk_content_hash p, qv_updated_at = db_now e\<rparr>"

definition upsert_version ::
  "env \<Rightarrow> string \<Rightarrow> uuid \<Rightarrow> content_package \<Rightarrow> uuid \<Rightarrow> version_row option \<Rightarrow> content_db \<Rightarrow>
   (uuid \<times> content_db) result" where
  "upsert_version e revision nid p qid existing d = (case existing of
     Some v \<Rightarrow> Inr (qv_id v, d\<lparr>question_versions := update_where (\<lambda>x. qv_id x = qv_id v)
       (\<lambda>x. package_row e revision p (qv_question x) (qv_id x)) (question_versions d)\<rparr>)
   | None \<Rightarrow> res_bind (insert_unique qv_id (package_row e revision p qid nid) (question_versions d))
       (\<lambda>t. Inr (nid, d\<lparr>question_versions := t\<rparr>)))"

text \<open>Of the sidecars the rows the review workflow reads: the author with the provenance record,
  which replaces the earlier ones, and a passed validation run.\<close>

definition content_author :: "env \<Rightarrow> uuid \<Rightarrow> content_package \<Rightarrow> user_row" where
  "content_author e nid p =
     \<lparr>us_id = nid, us_identity_subject = ''content-author:'' @ pk_author_id p,
      us_email = pk_author_id p @ ''@content.rigor.test'', us_display_name = pk_author_id p,
      us_email_verified = True, us_deleted_at = None, us_last_login_at = None, us_updated_at = db_now e\<rparr>"

definition replace_provenance ::
  "env \<Rightarrow> uuid \<Rightarrow> content_package \<Rightarrow> uuid \<Rightarrow> content_db \<Rightarrow> content_db result" where
  "replace_provenance e nid p vid d =
     res_bind (upsert_user (content_author e nid p)
         (\<lambda>u. u\<lparr>us_display_name := pk_author_id p\<rparr>)
         (d\<lparr>provenance_records := filter (\<lambda>r. pv_version r \<noteq> vid) (provenance_records d)\<rparr>))
       (\<lambda>(author, d).
     Inr (d\<lparr>provenance_records := provenance_records d @
             [\<lparr>pv_version = vid, pv_author = author, pv_originality = pk_originality p,
               pv_authoring_method = pk_authoring_method p, pv_source_notes = pk_source_notes p,
               pv_created_at = db_now e\<rparr>],
            validation_runs := validation_runs d @
             [\<lparr>vr_version = vid, vr_validator_version = ''m1-sync-v1'', vr_status = ''passed'',
               vr_findings = JList [], vr_started_at = db_now e, vr_completed_at = Some (db_now e)\<rparr>]\<rparr>))"

definition system_user :: "env \<Rightarrow> uuid \<Rightarrow> user_row" where
  "system_user e nid =
     \<lparr>us_id = nid, us_identity_subject = ''system:content-sync'', us_email = ''content-sync@rigor.test'',
      us_display_name = ''Content Synchronizer'', us_email_verified = True, us_deleted_at = None,
      us_last_login_at = None, us_updated_at = db_now e\<rparr>"

definition upsert_system_user :: "env \<Rightarrow> uuid \<Rightarrow> content_db \<Rightarrow> (uuid \<times> content_db) result" where
  "upsert_system_user e nid d = upsert_user (system_user e nid)
     (\<lambda>u. u\<lparr>us_display_name := ''Content Synchronizer''\<rparr>) d"

definition record_sync_audit ::
  "env \<Rightarrow> string \<Rightarrow> uuid \<Rightarrow> string \<Rightarrow> uuid \<Rightarrow> content_db \<Rightarrow> content_db result" where
  "record_sync_audit e revision nid external_id vid d =
     res_bind (upsert_system_user e nid d) (\<lambda>(actor, d).
     Inr (audit_event ''content-sync'' actor ''content.synchronized'' (uuid_str vid)
       (JObj [(''external_id'', JStr external_id), (''source_revision'', JStr revision)]) d))"

definition package_outcome ::
  "content_package \<Rightarrow> string \<Rightarrow> string list \<Rightarrow> package_result" where
  "package_outcome p status findings =
     \<lparr>px_question_id = pk_id p, px_version = pk_version p, px_status = status,
      px_content_hash = Some (pk_content_hash p), px_findings = findings\<rparr>"

definition synchronize_package ::
  "env \<Rightarrow> string \<Rightarrow> sync_ids \<Rightarrow> content_package \<Rightarrow> content_db \<Rightarrow> (package_result \<times> content_db) result" where
  "synchronize_package e revision ids p d =
     (case find (\<lambda>(t, slug). slug = pk_primary_track p) (question_tracks d) of
        None \<Rightarrow> Inr (package_outcome p ''invalid'' [''primary track is not seeded''], d)
      | Some (track, _) \<Rightarrow>
     res_bind (upsert_question e (si_question ids) track p d) (\<lambda>(qid, d).
     let existing = find (\<lambda>v. qv_question v = qid \<and> qv_version v = pk_version p) (question_versions d);
         d = replace_question_competencies p qid d
     in
     if (case existing of None \<Rightarrow> False | Some v \<Rightarrow> qv_content_hash v = pk_content_hash p)
     then Inr (package_outcome p ''unchanged'' [], d)
     else if (case existing of None \<Rightarrow> False | Some v \<Rightarrow> qv_state v \<in> {Approved, Published})
     then Inr (package_outcome p ''invalid''
       [''approved or published versions are immutable; create a new version''], d)
     else
     res_bind (upsert_version e revision (si_version ids) p qid existing d) (\<lambda>(vid, d).
     res_bind (replace_provenance e (si_author ids) p vid d) (\<lambda>d.
     res_bind (record_sync_audit e revision (si_system ids) (pk_id p) vid d) (\<lambda>d.
     Inr (package_outcome p (if existing = None then ''inserted'' else ''updated'') [], d))))))"

section \<open>Rollback\<close>

definition rollback_outcome ::
  "string \<Rightarrow> string \<Rightarrow> string \<Rightarrow> string option \<Rightarrow> string list \<Rightarrow> package_result" where
  "rollback_outcome question_id target_version status hash findings =
     \<lparr>px_question_id = question_id, px_version = target_version, px_status = status,
      px_content_hash = hash, px_findings = findings\<rparr>"

definition rollback_row :: "string \<Rightarrow> string \<Rightarrow> content_db \<Rightarrow> (question_row \<times> version_row) option" where
  "rollback_row question_id target_version d =
     (case row_with qs_external_id question_id (questions d) of None \<Rightarrow> None
      | Some q \<Rightarrow> map_option (Pair q)
          (find (\<lambda>v. qv_question v = qs_id q \<and> qv_version v = target_version) (question_versions d)))"

definition rollback ::
  "env \<Rightarrow> string \<Rightarrow> uuid \<Rightarrow> string \<Rightarrow> string \<Rightarrow> content_db \<Rightarrow> (package_result \<times> content_db) result" where
  "rollback e revision nid question_id target_version d =
     (let invalid = rollback_outcome question_id target_version ''invalid'' None
            [''rollback target is not a previously published version''] in
      case rollback_row question_id target_version d of
        None \<Rightarrow> Inr (invalid, d)
      | Some (q, v) \<Rightarrow>
          if qv_id v \<notin> pe_version ` set (publication_events d) then Inr (invalid, d)
          else if qs_current_published_version q = Some (qv_id v)
          then Inr (rollback_outcome question_id target_version ''unchanged'' (Some (qv_content_hash v)) [], d)
          else
          res_bind (upsert_system_user e nid d) (\<lambda>(actor, d).
          let current = qs_current_published_version q;
              versions = (case current of None \<Rightarrow> question_versions d
                | Some c \<Rightarrow> set_version_state e c Deprecated (question_versions d))
          in Inr (rollback_outcome question_id target_version ''rolled_back'' (Some (qv_content_hash v)) [],
            d\<lparr>question_versions := set_version_state e (qv_id v) Published versions,
              questions := update_where (\<lambda>x. qs_id x = qs_id q)
                (\<lambda>x. x\<lparr>qs_current_published_version := Some (qv_id v), qs_archived_at := None,
                   qs_updated_at := db_now e\<rparr>) (questions d),
              audit_events := audit_events d @
                [\<lparr>ae_actor = actor, ae_action = ''content.rollback'', ae_resource_type = ''question_version'',
                  ae_resource_id = uuid_str (qv_id v),
                  ae_details = JObj [(''question_id'', JStr question_id), (''target_version'', JStr target_version),
                    (''replaced_version_id'', (case current of None \<Rightarrow> JNull | Some c \<Rightarrow> JStr (uuid_str c))),
                    (''source_revision'', JStr revision)],
                  ae_correlation_id = ''content-sync-rollback''\<rparr>]\<rparr>)))"

record sync_report =
  sy_mode :: string
  sy_started_at :: string
  sy_completed_at :: string
  sy_source_revision :: string
  sy_discovered :: nat
  sy_valid :: nat
  sy_invalid :: nat
  sy_inserted :: nat
  sy_updated :: nat
  sy_unchanged :: nat
  sy_rolled_back :: nat
  sy_results :: "package_result list"

definition rollback_report ::
  "env \<Rightarrow> env \<Rightarrow> string \<Rightarrow> package_result \<Rightarrow> sync_report" where
  "rollback_report started completed revision r =
     \<lparr>sy_mode = ''rollback'', sy_started_at = iso_utc (lib started) (app_now started),
      sy_completed_at = iso_utc (lib completed) (app_now completed),
      sy_source_revision = revision, sy_discovered = 1,
      sy_valid = (if px_status r \<noteq> ''invalid'' then 1 else 0),
      sy_invalid = (if px_status r = ''invalid'' then 1 else 0), sy_inserted = 0, sy_updated = 0,
      sy_unchanged = (if px_status r = ''unchanged'' then 1 else 0),
      sy_rolled_back = (if px_status r = ''rolled_back'' then 1 else 0), sy_results = [r]\<rparr>"

end
