(* ===== verification/Content_Lifecycle.thy ===== *)
theory Content_Lifecycle imports Content_Sync begin

text \<open>
  The review workflow as a transition system: \<open>review_op\<close> has a rule for every operation of the
  review repository and for the synchronisation of a package; transactions commit one after the
  other with increasing \<open>CURRENT_TIMESTAMP\<close>. \<open>review_change\<close> is the abstract specification: what
  a commit does to the signatures under a version. The invariant is proved for the changes.
\<close>

section \<open>The latest row\<close>

lemma sorted_last_max: "sorted xs \<Longrightarrow> y \<in> set xs \<Longrightarrow> y \<le> last xs"
  by (induction xs) (auto simp: last_ConsR dest: sorted_wrt.simps(2) [THEN iffD1])

lemma latest_Nil [simp]: "latest key [] = None"
  by (simp add: latest_def)

lemma latest_None_iff [simp]: "latest key rows = None \<longleftrightarrow> rows = []"
  by (simp add: latest_def)

lemma latest_single [simp]: "latest key [r] = Some r"
  by (simp add: latest_def)

lemma latest_in: "latest key rows = Some r \<Longrightarrow> r \<in> set rows"
  using last_in_set [of "sort_key key rows"] set_sort length_sort
  by (metis latest_def length_0_conv option.distinct(1) option.inject)

lemma latest_snoc:
  assumes "\<forall>r\<in>set rows. key r < key x"
  shows "latest key (rows @ [x]) = Some x"
proof -
  let ?s = "sort_key key (rows @ [x])"
  have ne: "?s \<noteq> []" by (metis append_is_Nil_conv length_0_conv length_sort list.distinct(1))
  have "last (map key ?s) = key (last ?s)" using ne by (simp add: last_map)
  moreover have "key x \<le> last (map key ?s)"
    by (rule sorted_last_max) (auto simp: sorted_sort_key)
  ultimately have "key x \<le> key (last ?s)" by simp
  moreover have "last ?s \<in> set (rows @ [x])" using last_in_set [OF ne] by simp
  ultimately have "last ?s = x" using assms by fastforce
  then show ?thesis by (simp add: latest_def)
qed

lemma sort_key_map: "sort_key f (map g xs) = map g (sort_key (f \<circ> g) xs)"
proof (induction xs)
  case (Cons x xs)
  have "insort_key f (g x) (map g ys) = map g (insort_key (\<lambda>a. f (g a)) x ys)" for ys
    by (induction ys) simp_all
  then show ?case using Cons.IH by (simp add: comp_def)
qed simp

lemma latest_map: "latest f (map g xs) = map_option g (latest (f \<circ> g) xs)"
proof (cases "xs = []")
  case False
  then have "sort_key (f \<circ> g) xs \<noteq> []" by (metis length_0_conv length_sort)
  then show ?thesis using False by (simp add: latest_def sort_key_map last_map)
qed simp

lemma find_SomeD: "find P xs = Some x \<Longrightarrow> x \<in> set xs \<and> P x"
  by (induction xs) (auto split: if_splits)

lemma find_update_where:
  assumes "\<And>r. Q (f r) = Q r"
  shows "find Q (update_where P f t) = map_option (\<lambda>r. if P r then f r else r) (find Q t)"
  using assms by (induction t) auto

lemma find_snoc: "find P (t @ [a]) = (case find P t of Some r \<Rightarrow> Some r | None \<Rightarrow> if P a then Some a else None)"
  by (induction t) auto

section \<open>Signatures\<close>

text \<open>Who signed a version: the reviewer of the latest decision of the assignment, when it
  approves. Who wrote it: the author of the latest provenance record.\<close>

definition signed_by :: "uuid \<Rightarrow> review_kind \<Rightarrow> content_db \<Rightarrow> uuid option" where
  "signed_by vid k d = Option.bind (assignment_for vid k d)
     (\<lambda>a. Option.bind (latest_decision (as_id a) d)
       (\<lambda>c. if dc_outcome c = Outcome_Approved then Some (dc_reviewer c) else None))"

definition author_id :: "uuid \<Rightarrow> content_db \<Rightarrow> uuid option" where
  "author_id vid d = map_option pv_author
     (latest pv_created_at (filter (\<lambda>p. pv_version p = vid) (provenance_records d)))"

definition people_ok :: "content_db \<Rightarrow> bool" where
  "people_ok d \<longleftrightarrow> distinct (map us_id (users d)) \<and> distinct (map us_identity_subject (users d)) \<and>
     (\<forall>p\<in>set (provenance_records d). pv_author p \<in> us_id ` set (users d))"

lemma author_rows_refs:
  assumes "\<forall>p\<in>set (provenance_records d). pv_author p \<in> us_id ` set (users d)"
  shows "author_rows vid d = map (\<lambda>p. (p, the (row_with us_id (pv_author p) (users d))))
     (filter (\<lambda>p. pv_version p = vid) (provenance_records d))"
proof -
  have "List.map_filter (\<lambda>p. map_option (Pair p) (row_with us_id (pv_author p) (users d))) ps =
      map (\<lambda>p. (p, the (row_with us_id (pv_author p) (users d)))) ps"
    if "\<forall>p\<in>set ps. pv_author p \<in> us_id ` set (users d)" for ps
    using that
  proof (induction ps)
    case (Cons p ps)
    then have "row_with us_id (pv_author p) (users d) \<noteq> None" by (simp add: row_with_None_iff)
    then show ?case using Cons by (auto simp: List.map_filter_simps)
  qed (simp add: List.map_filter_simps)
  from this [of "filter (\<lambda>p. pv_version p = vid) (provenance_records d)"]
  show ?thesis using assms by (simp add: author_rows_def)
qed

lemma author_subject_id:
  assumes "author_subject vid d = Inr s" "people_ok d"
  obtains au u where "author_id vid d = Some au" "row_with us_id au (users d) = Some u"
    "us_identity_subject u = s"
proof -
  let ?ps = "filter (\<lambda>p. pv_version p = vid) (provenance_records d)"
  note rows = author_rows_refs [of d vid]
  obtain p where p: "latest pv_created_at ?ps = Some p"
    "s = us_identity_subject (the (row_with us_id (pv_author p) (users d)))"
    using assms by (auto simp: author_subject_def rows people_ok_def latest_map comp_def workflow_error_def
        split: option.splits)
  have "p \<in> set (provenance_records d)" using latest_in [OF p(1)] by simp
  then have "row_with us_id (pv_author p) (users d) \<noteq> None"
    using assms(2) by (simp add: people_ok_def row_with_None_iff)
  then show ?thesis using p that by (auto simp: author_id_def)
qed

section \<open>Users\<close>

text \<open>What no operation on users changes, and what it only adds to.\<close>

definition same_content :: "content_db \<Rightarrow> content_db \<Rightarrow> bool" where
  "same_content d d' \<longleftrightarrow> question_versions d' = question_versions d \<and> questions d' = questions d \<and>
     review_assignments d' = review_assignments d \<and> review_decisions d' = review_decisions d \<and>
     provenance_records d' = provenance_records d \<and> publication_events d' = publication_events d"

lemma same_content_refl [simp]: "same_content d d"
  by (simp add: same_content_def)

lemma same_content_trans: "same_content d d1 \<Longrightarrow> same_content d1 d2 \<Longrightarrow> same_content d d2"
  by (simp add: same_content_def)

lemma same_content_audit [simp]: "same_content d (audit_event c a t r x d') \<longleftrightarrow> same_content d d'"
  by (simp add: same_content_def audit_event_def)

lemma people_ok_audit [simp]: "people_ok (audit_event c a t r x d) = people_ok d"
  by (simp add: people_ok_def audit_event_def)

lemma distinct_snoc_key: "distinct (map key (t @ [r])) \<longleftrightarrow> distinct (map key t) \<and> key r \<notin> key ` set t"
  by auto

lemma upsert_user_Inr:
  assumes "upsert_user new refresh d = Inr (uid, d')" "people_ok d"
    and "\<And>u. us_id (refresh u) = us_id u" "\<And>u. us_identity_subject (refresh u) = us_identity_subject u"
  shows "same_content d d'" "people_ok d'" "us_id ` set (users d) \<subseteq> us_id ` set (users d')"
    "\<exists>u. row_with us_id uid (users d') = Some u \<and> us_identity_subject u = us_identity_subject new"
proof -
  let ?R = "same_content d d' \<and> people_ok d' \<and> us_id ` set (users d) \<subseteq> us_id ` set (users d') \<and>
    (\<exists>u. row_with us_id uid (users d') = Some u \<and> us_identity_subject u = us_identity_subject new)"
  have ?R
  proof (cases "row_with us_identity_subject (us_identity_subject new) (users d)")
    case None
    then have new: "us_identity_subject new \<notin> us_identity_subject ` set (users d)"
      by (simp add: row_with_None_iff)
    have d': "us_id new \<notin> us_id ` set (users d)" "uid = us_id new" "d' = d\<lparr>users := users d @ [new]\<rparr>"
      using assms(1) None by (auto simp: upsert_user_def insert_unique_def split: if_splits)
    have "row_with us_id uid (users d') = Some new"
      using d' by (simp add: row_with_append row_with_None_iff [THEN iffD2])
    then show ?thesis using assms(2) new d'
      by (auto simp: same_content_def people_ok_def distinct_snoc_key)
  next
    case (Some u)
    have d': "uid = us_id u"
      "users d' = update_where (\<lambda>x. us_identity_subject x = us_identity_subject new) refresh (users d)"
      "same_content d d'"
      using assms(1) Some by (auto simp: upsert_user_def same_content_def split: if_splits)
    have maps: "map us_id (users d') = map us_id (users d)"
      "map us_identity_subject (users d') = map us_identity_subject (users d)"
      unfolding d'(2) by (rule map_update_where_same; simp add: assms(3,4))+
    have ids: "us_id ` set (users d') = us_id ` set (users d)"
      using arg_cong [OF maps(1), of set] by simp
    have "row_with us_id uid (users d) = Some u"
      using row_with_SomeD [OF Some] assms(2) row_with_distinct [of us_id "users d" u]
      by (simp add: people_ok_def d'(1))
    then have "row_with us_id uid (users d') = Some (refresh u)"
      unfolding d'(2) using row_with_SomeD [OF Some]
      by (subst row_with_update_where) (simp_all add: assms(3))
    then show ?thesis
      using assms(2,4) d'(3) maps ids row_with_SomeD [OF Some]
      by (auto simp: people_ok_def same_content_def)
  qed
  then show "same_content d d'" "people_ok d'" "us_id ` set (users d) \<subseteq> us_id ` set (users d')"
    "\<exists>u. row_with us_id uid (users d') = Some u \<and> us_identity_subject u = us_identity_subject new"
    by auto
qed

lemma synchronize_roles_Inr:
  "synchronize_local_user_roles p uid d = Inr d' \<Longrightarrow>
     same_content d d' \<and> users d' = users d \<and> people_ok d' = people_ok d"
  by (auto simp: synchronize_local_user_roles_def same_content_def people_ok_def split: if_splits)

lemma ensure_user_Inr:
  assumes "ensure_user e nid p d = Inr (uid, d')" "people_ok d"
  shows "same_content d d'" "people_ok d'" "us_id ` set (users d) \<subseteq> us_id ` set (users d')"
    "\<exists>u. row_with us_id uid (users d') = Some u \<and> us_identity_subject u = pc_subject_id p"
proof -
  let ?f = "\<lambda>u. u\<lparr>us_email := pc_email p, us_display_name := pc_display_name p,
     us_email_verified := True, us_last_login_at := Some (db_now e), us_updated_at := db_now e\<rparr>"
  obtain r where r: "upsert_user
      \<lparr>us_id = nid, us_identity_subject = pc_subject_id p, us_email = pc_email p,
       us_display_name = pc_display_name p, us_email_verified = True, us_deleted_at = None,
       us_last_login_at = Some (db_now e), us_updated_at = db_now e\<rparr> ?f d = Inr r"
    and rest: "(\<lambda>(uid, d). if pc_authentication_provider p = ''local-oidc''
          then res_bind (synchronize_local_user_roles p uid d) (\<lambda>d. Inr (uid, d))
          else Inr (uid, d)) r = Inr (uid, d')"
    using assms(1) unfolding ensure_user_def by (rule res_bind_InrE)
  obtain d1 where pair: "r = (uid, d1)"
    using rest by (cases r) (auto split: if_splits elim!: res_bind_InrE)
  have d': "same_content d1 d' \<and> users d' = users d1 \<and> people_ok d' = people_ok d1"
    using rest by (auto simp: pair dest: synchronize_roles_Inr split: if_splits elim!: res_bind_InrE)
  note d1 = r [unfolded pair]
  note u = upsert_user_Inr [OF d1 assms(2)]
  show "same_content d d'" "people_ok d'" "us_id ` set (users d) \<subseteq> us_id ` set (users d')"
    "\<exists>u. row_with us_id uid (users d') = Some u \<and> us_identity_subject u = pc_subject_id p"
    using u d' by (auto intro: same_content_trans)
qed

section \<open>Changes\<close>

definition content_tables :: "content_db \<Rightarrow> version_row list \<times> question_row list \<times> assignment_row list \<times>
    decision_row list \<times> provenance_row list \<times> publication_row list" where
  "content_tables d = (question_versions d, questions d, review_assignments d, review_decisions d,
     provenance_records d, publication_events d)"

lemma content_tables_same: "content_tables d' = content_tables d \<longleftrightarrow> same_content d d'"
  by (auto simp: content_tables_def same_content_def)

lemma content_tablesD:
  assumes "content_tables d' = (vs, qs, ras, dcs, prs, pes)"
  shows "question_versions d' = vs" "questions d' = qs" "review_assignments d' = ras"
    "review_decisions d' = dcs" "provenance_records d' = prs" "publication_events d' = pes"
  using assms by (simp_all add: content_tables_def)

lemma content_tables_audit [simp]: "content_tables (audit_event c a t r x d) = content_tables d"
  by (simp add: content_tables_def audit_event_def)

definition decision_guard :: "uuid \<Rightarrow> review_kind \<Rightarrow> version_row \<Rightarrow> uuid \<Rightarrow> content_db \<Rightarrow> bool" where
  "decision_guard vid k v reviewer d = (case k of
     Technical \<Rightarrow> qv_state v = Awaiting_Technical_Review
   | Editorial \<Rightarrow> qv_state v = Awaiting_Editorial_Review \<and>
       (\<exists>a\<in>set (review_assignments d). as_version a = vid \<and> as_kind a = Technical \<and>
          as_completed_at a \<noteq> None \<and> as_reviewer a \<noteq> reviewer))"

lemma decision_allowed_guard:
  "decision_allowed vid k v reviewer d = Inr () \<Longrightarrow> decision_guard vid k v reviewer d"
  by (fastforce simp: decision_allowed_def decision_guard_def workflow_error_def find_Some_iff in_set_conv_nth
      split: review_kind.splits if_splits option.splits)

inductive review_change :: "timestamp \<Rightarrow> content_db \<Rightarrow> content_db \<Rightarrow> bool" for now where
  change_same: "content_tables d' = content_tables d \<Longrightarrow> review_change now d d'"
| change_assign: "upsert_assignment e aid vid reviewer k (review_assignments d) = Inr t \<Longrightarrow>
    content_tables d' = (question_versions d, questions d, t, review_decisions d,
      provenance_records d, publication_events d) \<Longrightarrow> review_change now d d'"
| change_decide: "row_with qv_id vid (question_versions d) = Some v \<Longrightarrow>
    assignment_for vid k d = Some a \<Longrightarrow> as_reviewer a = reviewer \<Longrightarrow>
    author_id vid d = Some au \<Longrightarrow> au \<noteq> reviewer \<Longrightarrow> decision_guard vid k v reviewer d \<Longrightarrow> db_now e = now \<Longrightarrow>
    content_tables d' = (set_version_state e vid (decision_state k outcome) (question_versions d), questions d,
      update_where (\<lambda>x. as_id x = as_id a) (\<lambda>x. x\<lparr>as_completed_at := Some now\<rparr>) (review_assignments d),
      review_decisions d @ [\<lparr>dc_assignment = as_id a, dc_reviewer = reviewer, dc_outcome = outcome,
         dc_reason = reason, dc_created_at = now\<rparr>],
      provenance_records d, publication_events d) \<Longrightarrow> review_change now d d'"
| change_publish: "row_with qv_id vid (question_versions d) = Some v \<Longrightarrow> qv_state v = Approved \<Longrightarrow>
    pe_version pe = vid \<Longrightarrow> pe_content_hash pe = qv_content_hash v \<Longrightarrow>
    content_tables d' = (update_where (\<lambda>x. qv_id x = vid) (\<lambda>x. x\<lparr>qv_state := Published\<rparr>) (question_versions d),
      update_where (\<lambda>q. qs_id q = qv_question v) (\<lambda>q. q\<lparr>qs_current_published_version := Some vid\<rparr>) (questions d),
      review_assignments d, review_decisions d, provenance_records d, publication_events d @ [pe]) \<Longrightarrow>
    review_change now d d'"
| change_withdraw: "row_with qv_id vid (question_versions d) = Some v \<Longrightarrow>
    target = Deprecated \<and> qv_state v = Published \<or> target = Archived \<and> qv_state v \<noteq> Published \<Longrightarrow>
    content_tables d' = (set_version_state e vid target (question_versions d),
      update_where (\<lambda>q. qs_id q = qv_question v \<and> qs_current_published_version q = Some vid)
        (withdraw_question e target) (questions d),
      review_assignments d, review_decisions d, provenance_records d, publication_events d) \<Longrightarrow>
    review_change now d d'"

text \<open>A package replaces the version that has its number, or becomes a new version.\<close>

definition package_written ::
  "env \<Rightarrow> string \<Rightarrow> content_package \<Rightarrow> uuid \<Rightarrow> uuid \<Rightarrow> version_row list \<Rightarrow> version_row list \<Rightarrow> bool" where
  "package_written e revision p qid vid old new \<longleftrightarrow>
     (case find (\<lambda>v. qv_question v = qid \<and> qv_version v = pk_version p) old of
        Some v \<Rightarrow> qv_state v \<notin> {Approved, Published} \<and> vid = qv_id v \<and>
          new = update_where (\<lambda>x. qv_id x = vid) (\<lambda>x. package_row e revision p (qv_question x) (qv_id x)) old
      | None \<Rightarrow> vid \<notin> qv_id ` set old \<and> new = old @ [package_row e revision p qid vid])"

inductive sync_change :: "content_db \<Rightarrow> content_db \<Rightarrow> bool" where
  change_question: "upsert_question e nid track p d = Inr (qid, d1) \<Longrightarrow>
    content_tables d' = content_tables d1 \<Longrightarrow> sync_change d d'"
| change_package: "package_written e revision p qid vid (question_versions d) vs \<Longrightarrow>
    pv_version pr = vid \<Longrightarrow>
    content_tables d' = (vs, questions d, review_assignments d, review_decisions d,
      filter (\<lambda>r. pv_version r \<noteq> vid) (provenance_records d) @ [pr], publication_events d) \<Longrightarrow> sync_change d d'"

section \<open>Operations are changes\<close>

lemma workflow_error_Inr [simp]: "workflow_error code msg \<noteq> Inr x"
  by (simp add: workflow_error_def)

lemma lock_version_Inr [simp]: "lock_version vid d = Inr v \<longleftrightarrow> row_with qv_id vid (question_versions d) = Some v"
  by (auto simp: lock_version_def split: option.splits)

lemma same_content_lookups:
  assumes "same_content d d1"
  shows "assignment_for vid k d1 = assignment_for vid k d" "author_id vid d1 = author_id vid d"
    "decision_guard vid k v r d1 = decision_guard vid k v r d" "approvals vid d1 = approvals vid d"
    "question_versions d1 = question_versions d" "questions d1 = questions d"
    "review_assignments d1 = review_assignments d" "review_decisions d1 = review_decisions d"
    "provenance_records d1 = provenance_records d" "publication_events d1 = publication_events d"
  using assms by (simp_all add: same_content_def assignment_for_def author_id_def decision_guard_def
      approvals_def latest_decision_def split: review_kind.split)

lemma people_ok_update:
  "users d' = users d \<Longrightarrow> provenance_records d' = provenance_records d \<Longrightarrow> people_ok d' = people_ok d"
  by (simp add: people_ok_def)

lemma audit_tables [simp]:
  "users (audit_event c a t r x d) = users d"
  "provenance_records (audit_event c a t r x d) = provenance_records d"
  "question_versions (audit_event c a t r x d) = question_versions d"
  "questions (audit_event c a t r x d) = questions d"
  "review_assignments (audit_event c a t r x d) = review_assignments d"
  "review_decisions (audit_event c a t r x d) = review_decisions d"
  "publication_events (audit_event c a t r x d) = publication_events d"
  by (simp_all add: audit_event_def)

lemma assign_Inr:
  assumes "assign e nid aid p vid k subject d = Inr (r, d')"
  shows "\<exists>actor d1 reviewer t. ensure_user e nid p d = Inr (actor, d1) \<and>
    upsert_assignment e aid vid reviewer k (review_assignments d1) = Inr t \<and>
    content_tables d' = content_tables (d1\<lparr>review_assignments := t\<rparr>) \<and> users d' = users d1"
  using assms unfolding assign_def
  by (auto simp: Let_def split: option.splits if_splits elim!: res_bind_InrE)
    (auto intro!: exI)

lemma decide_Inr:
  assumes "decide e nid p vid k outcome reason d = Inr (r, d')"
  shows "\<exists>reviewer d1 v a author. ensure_user e nid p d = Inr (reviewer, d1) \<and>
    row_with qv_id vid (question_versions d1) = Some v \<and> assignment_for vid k d1 = Some a \<and>
    as_reviewer a = reviewer \<and> author_subject vid d1 = Inr author \<and> author \<noteq> pc_subject_id p \<and>
    decision_allowed vid k v reviewer d1 = Inr () \<and> users d' = users d1 \<and>
    content_tables d' = (set_version_state e vid (decision_state k outcome) (question_versions d1), questions d1,
      update_where (\<lambda>x. as_id x = as_id a) (\<lambda>x. x\<lparr>as_completed_at := Some (db_now e)\<rparr>) (review_assignments d1),
      review_decisions d1 @ [\<lparr>dc_assignment = as_id a, dc_reviewer = reviewer, dc_outcome = outcome,
         dc_reason = reason, dc_created_at = db_now e\<rparr>],
      provenance_records d1, publication_events d1)"
  using assms unfolding decide_def
  by (auto simp: content_tables_def split: option.splits if_splits elim!: res_bind_InrE)

lemma publish_Inr:
  assumes "publish e nid p vid key d = Inr (r, d')"
  shows "\<exists>publisher d1 v. ensure_user e nid p d = Inr (publisher, d1) \<and>
    row_with qv_id vid (question_versions d1) = Some v \<and> users d' = users d1 \<and>
    (content_tables d' = content_tables d1 \<or>
     qv_state v = Approved \<and>
     (\<exists>pe. pe_version pe = vid \<and> pe_content_hash pe = qv_content_hash v \<and>
       content_tables d' = (update_where (\<lambda>x. qv_id x = vid) (\<lambda>x. x\<lparr>qv_state := Published\<rparr>) (question_versions d1),
         update_where (\<lambda>q. qs_id q = qv_question v) (\<lambda>q. q\<lparr>qs_current_published_version := Some vid\<rparr>) (questions d1),
         review_assignments d1, review_decisions d1, provenance_records d1, publication_events d1 @ [pe])))"
  using assms unfolding publish_def
  by (auto simp: content_tables_def Let_def split: option.splits if_splits elim!: res_bind_InrE)

lemma transition_version_Inr:
  assumes "transition_version e nid p vid target d = Inr (r, d')"
  shows "\<exists>actor d1 v. ensure_user e nid p d = Inr (actor, d1) \<and>
    row_with qv_id vid (question_versions d1) = Some v \<and> users d' = users d1 \<and>
    (target = Deprecated \<and> qv_state v = Published \<or> target = Archived \<and> qv_state v \<noteq> Published) \<and>
    content_tables d' = (set_version_state e vid target (question_versions d1),
      update_where (\<lambda>q. qs_id q = qv_question v \<and> qs_current_published_version q = Some vid)
        (withdraw_question e target) (questions d1),
      review_assignments d1, review_decisions d1, provenance_records d1, publication_events d1)"
  using assms unfolding transition_version_def
  by (auto simp: content_tables_def split: if_splits elim!: res_bind_InrE)

text \<open>People stay in order when the author of a changed provenance table is known.\<close>

lemma people_ok_same:
  assumes "people_ok d1" "users d' = users d1" "content_tables d' = (vs, qs, ras, dcs, provenance_records d1, pes)"
  shows "people_ok d'"
  using assms by (simp add: people_ok_def content_tables_def)

lemma assign_change:
  assumes "assign e nid aid p vid k subject d = Inr (r, d')" "people_ok d"
  shows "review_change (db_now e) d d' \<and> people_ok d'"
proof -
  obtain actor d1 reviewer t where d1: "ensure_user e nid p d = Inr (actor, d1)"
    and t: "upsert_assignment e aid vid reviewer k (review_assignments d1) = Inr t"
    and d': "content_tables d' = content_tables (d1\<lparr>review_assignments := t\<rparr>)" "users d' = users d1"
    using assign_Inr [OF assms(1)] by (elim exE conjE) (rule that)
  note u = ensure_user_Inr [OF d1 assms(2)]
  note same = same_content_lookups [OF u(1)]
  have "review_change (db_now e) d d'"
    using t [unfolded same] d'(1) by (intro change_assign) (simp_all add: content_tables_def same)
  then show ?thesis using people_ok_same [OF u(2) d'(2)] d'(1) by (simp add: content_tables_def)
qed

lemma decide_change:
  assumes "decide e nid p vid k outcome reason d = Inr (r, d')" "people_ok d"
  shows "review_change (db_now e) d d' \<and> people_ok d'"
proof -
  obtain reviewer d1 v a author where d1: "ensure_user e nid p d = Inr (reviewer, d1)"
    and v: "row_with qv_id vid (question_versions d1) = Some v"
    and a: "assignment_for vid k d1 = Some a" "as_reviewer a = reviewer"
    and author: "author_subject vid d1 = Inr author" "author \<noteq> pc_subject_id p"
    and allowed: "decision_allowed vid k v reviewer d1 = Inr ()"
    and d': "users d' = users d1"
      "content_tables d' = (set_version_state e vid (decision_state k outcome) (question_versions d1), questions d1,
      update_where (\<lambda>x. as_id x = as_id a) (\<lambda>x. x\<lparr>as_completed_at := Some (db_now e)\<rparr>) (review_assignments d1),
      review_decisions d1 @ [\<lparr>dc_assignment = as_id a, dc_reviewer = reviewer, dc_outcome = outcome,
         dc_reason = reason, dc_created_at = db_now e\<rparr>],
      provenance_records d1, publication_events d1)"
    using decide_Inr [OF assms(1)] by (elim exE conjE) (rule that)
  note u = ensure_user_Inr [OF d1 assms(2)]
  note same = same_content_lookups [OF u(1)]
  obtain au w where au: "author_id vid d1 = Some au" "row_with us_id au (users d1) = Some w"
    "us_identity_subject w = author"
    using author_subject_id [OF author(1) u(2)] .
  have "au \<noteq> reviewer" using u(4) au(2,3) author(2) by auto
  then have "review_change (db_now e) d d'"
    using v a au(1) decision_allowed_guard [OF allowed] d'(2)
    by (intro change_decide [where vid = vid and v = v and k = k and a = a and reviewer = reviewer and au = au])
      (simp_all add: same)
  then show ?thesis using people_ok_same [OF u(2) d'] by simp
qed

lemma publish_change:
  assumes "publish e nid p vid key d = Inr (r, d')" "people_ok d"
  shows "review_change (db_now e) d d' \<and> people_ok d'"
proof -
  obtain publisher d1 v where d1: "ensure_user e nid p d = Inr (publisher, d1)"
    and v: "row_with qv_id vid (question_versions d1) = Some v" and users: "users d' = users d1"
    and d': "content_tables d' = content_tables d1 \<or>
     qv_state v = Approved \<and>
     (\<exists>pe. pe_version pe = vid \<and> pe_content_hash pe = qv_content_hash v \<and>
       content_tables d' = (update_where (\<lambda>x. qv_id x = vid) (\<lambda>x. x\<lparr>qv_state := Published\<rparr>) (question_versions d1),
         update_where (\<lambda>q. qs_id q = qv_question v) (\<lambda>q. q\<lparr>qs_current_published_version := Some vid\<rparr>) (questions d1),
         review_assignments d1, review_decisions d1, provenance_records d1, publication_events d1 @ [pe]))"
    using publish_Inr [OF assms(1)] by (elim exE conjE) (rule that)
  note u = ensure_user_Inr [OF d1 assms(2)]
  note same = same_content_lookups [OF u(1)]
  have "people_ok d'"
    using d' people_ok_same [OF u(2) users] by (auto simp: content_tables_def)
  moreover have "review_change (db_now e) d d'"
    using d'
  proof (elim disjE conjE exE)
    assume "content_tables d' = content_tables d1"
    then show ?thesis using u(1) by (intro change_same) (simp add: content_tables_same same_content_def)
  next
    fix pe
    assume "qv_state v = Approved" "pe_version pe = vid" "pe_content_hash pe = qv_content_hash v"
      "content_tables d' = (update_where (\<lambda>x. qv_id x = vid) (\<lambda>x. x\<lparr>qv_state := Published\<rparr>) (question_versions d1),
         update_where (\<lambda>q. qs_id q = qv_question v) (\<lambda>q. q\<lparr>qs_current_published_version := Some vid\<rparr>) (questions d1),
         review_assignments d1, review_decisions d1, provenance_records d1, publication_events d1 @ [pe])"
    then show ?thesis using v
      by (intro change_publish [where vid = vid and v = v and pe = pe]) (simp_all add: same)
  qed
  ultimately show ?thesis by simp
qed

lemma transition_change:
  assumes "transition_version e nid p vid target d = Inr (r, d')" "people_ok d"
  shows "review_change (db_now e) d d' \<and> people_ok d'"
proof -
  obtain actor d1 v where d1: "ensure_user e nid p d = Inr (actor, d1)"
    and v: "row_with qv_id vid (question_versions d1) = Some v" and users: "users d' = users d1"
    and t: "target = Deprecated \<and> qv_state v = Published \<or> target = Archived \<and> qv_state v \<noteq> Published"
    and d': "content_tables d' = (set_version_state e vid target (question_versions d1),
      update_where (\<lambda>q. qs_id q = qv_question v \<and> qs_current_published_version q = Some vid)
        (withdraw_question e target) (questions d1),
      review_assignments d1, review_decisions d1, provenance_records d1, publication_events d1)"
    using transition_version_Inr [OF assms(1)] by (elim exE conjE) (rule that)
  note u = ensure_user_Inr [OF d1 assms(2)]
  note same = same_content_lookups [OF u(1)]
  have "review_change (db_now e) d d'"
    using v t d' by (intro change_withdraw [where vid = vid and v = v and target = target and e = e]) (simp_all add: same)
  then show ?thesis using people_ok_same [OF u(2) users d'] by simp
qed

lemma queue_change:
  assumes "review_queue e nid p d = Inr (items, d')" "people_ok d"
  shows "review_change (db_now e) d d' \<and> people_ok d'"
proof -
  obtain actor where "ensure_user e nid p d = Inr (actor, d')"
    using assms(1) by (auto simp: review_queue_def elim!: res_bind_InrE)
  from ensure_user_Inr [OF this assms(2)] show ?thesis
    by (auto intro: change_same simp: content_tables_same)
qed

lemma upsert_question_same:
  assumes "upsert_question e nid track p d = Inr (qid, d')"
  shows "users d' = users d \<and> question_versions d' = question_versions d \<and>
    provenance_records d' = provenance_records d \<and>
    content_tables d' = (question_versions d, questions d', review_assignments d, review_decisions d,
      provenance_records d, publication_events d)"
  using assms by (auto simp: upsert_question_def content_tables_def split: option.splits if_splits elim!: res_bind_InrE)

lemma replace_competencies_same [simp]:
  "users (replace_question_competencies p qid d) = users d"
  "question_versions (replace_question_competencies p qid d) = question_versions d"
  "provenance_records (replace_question_competencies p qid d) = provenance_records d"
  "content_tables (replace_question_competencies p qid d) = content_tables d"
  by (simp_all add: replace_question_competencies_def content_tables_def Let_def)

lemma upsert_version_Inr:
  assumes "upsert_version e revision nid p qid
      (find (\<lambda>v. qv_question v = qid \<and> qv_version v = pk_version p) (question_versions d)) d = Inr (vid, d')"
    and "\<not> (case find (\<lambda>v. qv_question v = qid \<and> qv_version v = pk_version p) (question_versions d) of
           None \<Rightarrow> False | Some v \<Rightarrow> qv_state v \<in> {Approved, Published})"
  shows "\<exists>vs. d' = d\<lparr>question_versions := vs\<rparr> \<and> package_written e revision p qid vid (question_versions d) vs"
  using assms
  by (auto simp: upsert_version_def package_written_def insert_unique_def package_row_def
      split: option.splits if_splits elim!: res_bind_InrE)

lemma replace_provenance_Inr:
  assumes "replace_provenance e nid p vid d = Inr d'" "people_ok d"
  shows "people_ok d' \<and> (\<exists>pr. pv_version pr = vid \<and>
    content_tables d' = (question_versions d, questions d, review_assignments d, review_decisions d,
      filter (\<lambda>r. pv_version r \<noteq> vid) (provenance_records d) @ [pr], publication_events d))"
proof -
  let ?d = "d\<lparr>provenance_records := filter (\<lambda>r. pv_version r \<noteq> vid) (provenance_records d)\<rparr>"
  obtain x where x: "upsert_user (content_author e nid p) (\<lambda>u. u\<lparr>us_display_name := pk_author_id p\<rparr>) ?d = Inr x"
    and rest: "(\<lambda>(author, d).
     Inr (d\<lparr>provenance_records := provenance_records d @
             [\<lparr>pv_version = vid, pv_author = author, pv_originality = pk_originality p,
               pv_authoring_method = pk_authoring_method p, pv_source_notes = pk_source_notes p,
               pv_created_at = db_now e\<rparr>],
            validation_runs := validation_runs d @
             [\<lparr>vr_version = vid, vr_validator_version = ''m1-sync-v1'', vr_status = ''passed'',
               vr_findings = JList [], vr_started_at = db_now e, vr_completed_at = Some (db_now e)\<rparr>]\<rparr>)) x =
      (Inr d' :: content_db result)"
    using assms(1) unfolding replace_provenance_def by (rule res_bind_InrE)
  obtain author d1 where pair: "x = (author, d1)" by (cases x)
  have ok: "people_ok ?d" using assms(2) by (auto simp: people_ok_def)
  note u = upsert_user_Inr [OF x [unfolded pair] ok]
  obtain w where "row_with us_id author (users d1) = Some w" using u(4) by auto
  then have "author \<in> us_id ` set (users d1)" using row_with_SomeD by force
  then show ?thesis using rest u(1,2)
    by (auto simp: pair people_ok_def content_tables_def same_content_def)
qed

lemma record_audit_Inr:
  assumes "record_sync_audit e revision nid external_id vid d = Inr d'" "people_ok d"
  shows "people_ok d' \<and> content_tables d' = content_tables d"
proof -
  obtain actor d1 where d1: "upsert_system_user e nid d = Inr (actor, d1)"
    and d': "d' = audit_event ''content-sync'' actor ''content.synchronized'' (uuid_str vid)
       (JObj [(''external_id'', JStr external_id), (''source_revision'', JStr revision)]) d1"
    using assms(1) by (auto simp: record_sync_audit_def elim!: res_bind_InrE)
  from upsert_user_Inr [OF d1 [unfolded upsert_system_user_def] assms(2)]
  show ?thesis by (simp add: d' content_tables_same)
qed

lemma sync_Inr:
  assumes "synchronize_package e revision ids p d = Inr (r, d')" "people_ok d"
  shows "people_ok d' \<and> (d' = d \<and> px_status r = ''invalid'' \<or>
    (\<exists>track qid d1. upsert_question e (si_question ids) track p d = Inr (qid, d1) \<and>
      (content_tables d' = content_tables d1 \<and> px_status r \<in> {''unchanged'', ''invalid''} \<or>
       (\<exists>vid vs pr. package_written e revision p qid vid (question_versions d) vs \<and> pv_version pr = vid \<and>
          content_tables d' = (vs, questions d1, review_assignments d, review_decisions d,
            filter (\<lambda>r. pv_version r \<noteq> vid) (provenance_records d) @ [pr], publication_events d)))))"
proof (cases "find (\<lambda>(t, slug). slug = pk_primary_track p) (question_tracks d)")
  case None
  then show ?thesis using assms by (auto simp: synchronize_package_def package_outcome_def)
next
  case (Some t)
  obtain track slug where t: "t = (track, slug)" by (cases t)
  obtain x where x: "upsert_question e (si_question ids) track p d = Inr x"
    and rest: "(\<lambda>(qid, d).
     let existing = find (\<lambda>v. qv_question v = qid \<and> qv_version v = pk_version p) (question_versions d);
         d = replace_question_competencies p qid d
     in
     if (case existing of None \<Rightarrow> False | Some v \<Rightarrow> qv_content_hash v = pk_content_hash p)
     then Inr (package_outcome p ''unchanged'' [], d)
     else if (case existing of None \<Rightarrow> False | Some v \<Rightarrow> qv_state v \<in> {Approved, Published})
     then Inr (package_outcome p ''invalid''
       [''approved or published versions are immutable; create a new version''], d)
     else
     res_bind (upsert_version e revision (si_version ids) p qid existing d) (\<lambda>(vid, d).
     res_bind (replace_provenance e (si_author ids) p vid d) (\<lambda>d.
     res_bind (record_sync_audit e revision (si_system ids) (pk_id p) vid d) (\<lambda>d.
     Inr (package_outcome p (if existing = None then ''inserted'' else ''updated'') [], d))))) x = Inr (r, d')"
    using assms(1) unfolding synchronize_package_def Some t option.case prod.case by (rule res_bind_InrE)
  obtain qid d1 where pair: "x = (qid, d1)" by (cases x)
  let ?existing = "find (\<lambda>v. qv_question v = qid \<and> qv_version v = pk_version p) (question_versions d1)"
  let ?d2 = "replace_question_competencies p qid d1"
  note q = upsert_question_same [OF x [unfolded pair]]
  have ok2: "people_ok ?d2" using assms(2) q by (simp add: people_ok_def)
  show ?thesis
  proof (cases "d' = ?d2 \<and> px_status r \<in> {''unchanged'', ''invalid''}")
    case True
    then show ?thesis using ok2 x [unfolded pair] by auto
  next
    case False
    then have guard: "\<not> (case ?existing of None \<Rightarrow> False | Some v \<Rightarrow> qv_state v \<in> {Approved, Published})"
      using rest by (auto simp: pair Let_def package_outcome_def split: if_splits)
    obtain y d4 where y: "upsert_version e revision (si_version ids) p qid ?existing ?d2 = Inr y"
      and d4: "replace_provenance e (si_author ids) p (fst y) (snd y) = Inr d4"
      and d5: "record_sync_audit e revision (si_system ids) (pk_id p) (fst y) d4 = Inr d'"
      using rest False by (auto simp: pair Let_def package_outcome_def split: if_splits elim!: res_bind_InrE)
    obtain vid d3 where pair3: "y = (vid, d3)" by (cases y)
    have qv2: "question_versions ?d2 = question_versions d1" by simp
    obtain vs where vs: "d3 = ?d2\<lparr>question_versions := vs\<rparr>"
      "package_written e revision p qid vid (question_versions ?d2) vs"
      using upsert_version_Inr [where d = ?d2, unfolded qv2, OF y [unfolded pair3] guard] qv2
      by (elim exE conjE) (rule that, simp_all)
    have ok3: "people_ok d3" using ok2 by (simp add: vs(1) people_ok_def)
    obtain pr where pr: "people_ok d4" "pv_version pr = vid"
      "content_tables d4 = (question_versions d3, questions d3, review_assignments d3, review_decisions d3,
         filter (\<lambda>r. pv_version r \<noteq> vid) (provenance_records d3) @ [pr], publication_events d3)"
      using replace_provenance_Inr [OF d4 [unfolded pair3 fst_conv snd_conv] ok3] by (elim exE conjE) (rule that)
    note audit = record_audit_Inr [OF d5 pr(1)]
    have "content_tables ?d2 = (question_versions d, questions d1, review_assignments d, review_decisions d,
        provenance_records d, publication_events d)"
      using q by simp
    then have "content_tables d' = (vs, questions d1, review_assignments d, review_decisions d,
         filter (\<lambda>r. pv_version r \<noteq> vid) (provenance_records d) @ [pr], publication_events d)"
      using audit pr(3) by (auto simp: vs(1) content_tables_def)
    moreover have "package_written e revision p qid vid (question_versions d) vs" using vs(2) q by simp
    ultimately have "\<exists>vid vs pr. package_written e revision p qid vid (question_versions d) vs \<and> pv_version pr = vid \<and>
          content_tables d' = (vs, questions d1, review_assignments d, review_decisions d,
            filter (\<lambda>r. pv_version r \<noteq> vid) (provenance_records d) @ [pr], publication_events d)"
      using pr(2) by (intro exI conjI)
    then show ?thesis using x [unfolded pair] conjunct1 [OF audit]
      by - (rule conjI, assumption, rule disjI2, rule exI [of _ track], rule exI [of _ qid], rule exI [of _ d1],
          rule conjI, assumption, rule disjI2, assumption)
  qed
qed

lemma sync_changes:
  assumes "synchronize_package e revision ids p d = Inr (r, d')" "people_ok d"
  shows "sync_change\<^sup>*\<^sup>* d d' \<and> people_ok d'"
proof -
  have "sync_change\<^sup>*\<^sup>* d d'"
    using conjunct2 [OF sync_Inr [OF assms]]
  proof (elim disjE exE conjE)
    fix track qid d1
    assume "upsert_question e (si_question ids) track p d = Inr (qid, d1)" "content_tables d' = content_tables d1"
    then show ?thesis by (blast intro: change_question)
  next
    fix track qid d1 vid vs pr
    assume q: "upsert_question e (si_question ids) track p d = Inr (qid, d1)"
      and w: "package_written e revision p qid vid (question_versions d) vs" and pr: "pv_version pr = vid"
      and d': "content_tables d' = (vs, questions d1, review_assignments d, review_decisions d,
            filter (\<lambda>r. pv_version r \<noteq> vid) (provenance_records d) @ [pr], publication_events d)"
    have 1: "sync_change d d1" using q by (rule change_question) simp
    have tabs: "content_tables d1 = (question_versions d, questions d1, review_assignments d, review_decisions d,
        provenance_records d, publication_events d)"
      using upsert_question_same [OF q] by simp
    note tabs = content_tablesD [OF tabs]
    have "sync_change d1 d'"
      using w [folded tabs(1)] pr by (rule change_package) (simp add: d' tabs(3-6))
    with 1 show ?thesis by (rule converse_rtranclp_into_rtranclp [OF _ r_into_rtranclp])
  qed simp
  then show ?thesis using conjunct1 [OF sync_Inr [OF assms]] by (rule conjI)
qed

section \<open>The invariant\<close>

text \<open>
  A version that has passed technical review carries the signature of a technical reviewer who is
  not its author; one that has been approved also that of an editorial reviewer who is neither.
\<close>

definition reviewed :: "content_db \<Rightarrow> version_row \<Rightarrow> bool" where
  "reviewed d v \<longleftrightarrow>
     (qv_state v \<in> {Awaiting_Editorial_Review, Approved, Published, Deprecated} \<longrightarrow>
      (\<exists>au r. author_id (qv_id v) d = Some au \<and> signed_by (qv_id v) Technical d = Some r \<and> r \<noteq> au \<and>
        (qv_state v \<noteq> Awaiting_Editorial_Review \<longrightarrow>
          (\<exists>s. signed_by (qv_id v) Editorial d = Some s \<and> s \<noteq> r \<and> s \<noteq> au))))"

definition completed_ok :: "content_db \<Rightarrow> assignment_row \<Rightarrow> bool" where
  "completed_ok d a \<longleftrightarrow> (as_completed_at a \<noteq> None \<longrightarrow>
     map_option dc_reviewer (latest_decision (as_id a) d) = Some (as_reviewer a))"

definition announced :: "content_db \<Rightarrow> version_row \<Rightarrow> bool" where
  "announced d v \<longleftrightarrow> (qv_state v = Published \<longrightarrow>
     (\<exists>pe\<in>set (publication_events d). pe_version pe = qv_id v \<and> pe_content_hash pe = qv_content_hash v))"

definition served :: "content_db \<Rightarrow> question_row \<Rightarrow> bool" where
  "served d q \<longleftrightarrow> qs_archived_at q = None \<and>
     (\<forall>vid. qs_current_published_version q = Some vid \<longrightarrow>
        (\<exists>v\<in>set (question_versions d). qv_id v = vid \<and> qv_question v = qs_id q \<and> qv_state v = Published))"

definition review_keys :: "content_db \<Rightarrow> bool" where
  "review_keys d \<longleftrightarrow> distinct (map qv_id (question_versions d)) \<and> distinct (map as_id (review_assignments d)) \<and>
     distinct (map (\<lambda>a. (as_version a, as_kind a)) (review_assignments d)) \<and>
     (\<forall>c\<in>set (review_decisions d). dc_assignment c \<in> as_id ` set (review_assignments d))"

definition review_inv :: "timestamp \<Rightarrow> content_db \<Rightarrow> bool" where
  "review_inv t d \<longleftrightarrow> review_keys d \<and> (\<forall>c\<in>set (review_decisions d). dc_created_at c \<le> t) \<and>
     (\<forall>a\<in>set (review_assignments d). completed_ok d a) \<and>
     (\<forall>v\<in>set (question_versions d). reviewed d v \<and> announced d v) \<and> (\<forall>q\<in>set (questions d). served d q)"

lemma signed_by_cong:
  "review_assignments d' = review_assignments d \<Longrightarrow> review_decisions d' = review_decisions d \<Longrightarrow>
     signed_by vid k d' = signed_by vid k d \<and> latest_decision aid d' = latest_decision aid d"
  by (simp add: signed_by_def assignment_for_def latest_decision_def)

lemma author_id_cong: "provenance_records d' = provenance_records d \<Longrightarrow> author_id vid d' = author_id vid d"
  by (simp add: author_id_def)

lemma assignment_for_in:
  assumes "review_keys d" "a \<in> set (review_assignments d)"
  shows "assignment_for (as_version a) (as_kind a) d = Some a"
proof -
  have "row_with (\<lambda>x. (as_version x, as_kind x)) (as_version a, as_kind a) (review_assignments d) = Some a"
    using assms row_with_distinct [of "\<lambda>x. (as_version x, as_kind x)" "review_assignments d" a]
    by (simp add: review_keys_def)
  then show ?thesis by (simp add: assignment_for_def row_with_def)
qed

lemma assignment_for_Some:
  "assignment_for vid k d = Some a \<Longrightarrow> a \<in> set (review_assignments d) \<and> as_version a = vid \<and> as_kind a = k"
  by (auto simp: assignment_for_def find_Some_iff)

lemma no_decisions: "review_keys d \<Longrightarrow> aid \<notin> as_id ` set (review_assignments d) \<Longrightarrow> latest_decision aid d = None"
  by (auto simp: latest_decision_def review_keys_def filter_empty_conv)

text \<open>An assignment changes no signature.\<close>

lemma assignment_keeps_signatures:
  assumes "review_keys d" "upsert_assignment e aid vid reviewer k (review_assignments d) = Inr (review_assignments d')"
    and "review_decisions d' = review_decisions d"
  shows "signed_by x j d' = signed_by x j d"
proof (cases "\<exists>a\<in>set (review_assignments d). as_version a = vid \<and> as_kind a = k")
  case True
  let ?f = "\<lambda>a. a\<lparr>as_reviewer := reviewer, as_assigned_at := db_now e, as_completed_at := None\<rparr>"
  have t: "review_assignments d' = update_where (\<lambda>a. as_version a = vid \<and> as_kind a = k) ?f (review_assignments d)"
    using assms(2) True by (simp add: upsert_assignment_def)
  have "assignment_for x j d' =
      map_option (\<lambda>a. if as_version a = vid \<and> as_kind a = k then ?f a else a) (assignment_for x j d)"
    unfolding assignment_for_def t by (rule find_update_where) simp
  then show ?thesis using assms(3)
    by (cases "assignment_for x j d") (auto simp: signed_by_def latest_decision_def)
next
  case False
  then obtain a where t: "review_assignments d' = review_assignments d @ [a]" "as_id a = aid"
    "as_id a \<notin> as_id ` set (review_assignments d)"
    using assms(2)
    by (auto simp: upsert_assignment_def insert_unique_def split: if_splits
        dest!: sym [of _ "review_assignments d'"])
  have "latest_decision aid d' = None"
    using no_decisions [OF assms(1)] t assms(3) by (simp add: latest_decision_def)
  then show ?thesis using assms(3) t(2)
    by (cases "assignment_for x j d")
      (auto simp: signed_by_def assignment_for_def t(1) find_snoc latest_decision_def)
qed

text \<open>A decision signs its own review, or takes the signature back.\<close>

lemma decision_signs:
  assumes "review_keys d" "assignment_for vid k d = Some a"
    and "\<forall>c\<in>set (review_decisions d). dc_created_at c < dc_created_at c0" "dc_assignment c0 = as_id a"
    and "review_assignments d' = update_where (\<lambda>x. as_id x = as_id a) (\<lambda>x. x\<lparr>as_completed_at := t\<rparr>) (review_assignments d)"
    and "review_decisions d' = review_decisions d @ [c0]"
  shows "latest_decision aid d' = (if aid = as_id a then Some c0 else latest_decision aid d)"
    "signed_by x j d' = (if x = vid \<and> j = k
       then (if dc_outcome c0 = Outcome_Approved then Some (dc_reviewer c0) else None) else signed_by x j d)"
proof -
  have "latest dc_created_at (filter (\<lambda>c. dc_assignment c = as_id a) (review_decisions d) @ [c0]) = Some c0"
    using assms(3) by (intro latest_snoc) auto
  then show latest: "latest_decision aid d' = (if aid = as_id a then Some c0 else latest_decision aid d)" for aid
    using assms(4,6) by (auto simp: latest_decision_def)
  have assignment: "assignment_for x j d' = map_option
      (\<lambda>b. if as_id b = as_id a then b\<lparr>as_completed_at := t\<rparr> else b) (assignment_for x j d)"
    unfolding assignment_for_def assms(5) by (rule find_update_where) simp
  have other: "as_id b \<noteq> as_id a" if "assignment_for x j d = Some b" "(x, j) \<noteq> (vid, k)" for b
  proof
    assume "as_id b = as_id a"
    moreover have "distinct (map as_id (review_assignments d))" using assms(1) by (simp add: review_keys_def)
    ultimately have "b = a"
      using assignment_for_Some [OF that(1)] assignment_for_Some [OF assms(2)] by (auto simp: distinct_map inj_on_def)
    then show False
      using assignment_for_Some [OF that(1)] assignment_for_Some [OF assms(2)] that(2) by simp
  qed
  show "signed_by x j d' = (if x = vid \<and> j = k
       then (if dc_outcome c0 = Outcome_Approved then Some (dc_reviewer c0) else None) else signed_by x j d)"
  proof (cases "x = vid \<and> j = k")
    case True
    then have "assignment_for x j d' = Some (a\<lparr>as_completed_at := t\<rparr>)" using assignment assms(2) by simp
    then show ?thesis using True by (simp add: signed_by_def latest)
  next
    case False
    then show ?thesis using other by (cases "assignment_for x j d") (auto simp: signed_by_def assignment latest)
  qed
qed

section \<open>Changes keep the invariant\<close>

lemma review_invI:
  assumes "review_keys d" "\<forall>c\<in>set (review_decisions d). dc_created_at c \<le> t"
    "\<forall>a\<in>set (review_assignments d). completed_ok d a"
    "\<forall>v\<in>set (question_versions d). reviewed d v \<and> announced d v" "\<forall>q\<in>set (questions d). served d q"
  shows "review_inv t d"
  using assms by (simp add: review_inv_def)

lemma inv_same:
  assumes "review_inv s d" "content_tables d' = content_tables d" "s < t"
  shows "review_inv t d'"
  using assms by (fastforce simp: review_inv_def review_keys_def completed_ok_def reviewed_def announced_def served_def
      content_tables_def signed_by_def assignment_for_def latest_decision_def author_id_def)

lemma inv_assign:
  assumes inv: "review_inv s d" and t: "upsert_assignment e aid vid reviewer k (review_assignments d) = Inr ras"
    and d': "content_tables d' = (question_versions d, questions d, ras, review_decisions d,
      provenance_records d, publication_events d)" and "s < t"
  shows "review_inv t d'"
proof (rule review_invI)
  note tabs = content_tablesD [OF d']
  have keys: "review_keys d" using inv by (simp add: review_inv_def)
  note sig = assignment_keeps_signatures [OF keys t [folded tabs(3)] tabs(4)]
  have dec: "latest_decision x d' = latest_decision x d" for x by (simp add: latest_decision_def tabs)
  have auth: "author_id x d' = author_id x d" for x by (simp add: author_id_def tabs)
  let ?f = "\<lambda>a. a\<lparr>as_reviewer := reviewer, as_assigned_at := db_now e, as_completed_at := None\<rparr>"
  have cases: "ras = update_where (\<lambda>a. as_version a = vid \<and> as_kind a = k) ?f (review_assignments d) \<or>
      (\<exists>a. ras = review_assignments d @ [a] \<and> as_id a \<notin> as_id ` set (review_assignments d) \<and>
        as_completed_at a = None \<and> (as_version a, as_kind a) \<notin> (\<lambda>x. (as_version x, as_kind x)) ` set (review_assignments d))"
    using t by (force simp: upsert_assignment_def insert_unique_def split: if_splits)
  show "review_keys d'" using cases
  proof (elim disjE exE conjE)
    assume u: "ras = update_where (\<lambda>a. as_version a = vid \<and> as_kind a = k) ?f (review_assignments d)"
    have maps: "map as_id ras = map as_id (review_assignments d)"
      "map (\<lambda>a. (as_version a, as_kind a)) ras = map (\<lambda>a. (as_version a, as_kind a)) (review_assignments d)"
      unfolding u by (rule map_update_where_same; simp)+
    have "as_id ` set ras = as_id ` set (review_assignments d)" using arg_cong [OF maps(1), of set] by simp
    then show ?thesis using keys maps by (simp add: review_keys_def tabs)
  next
    fix a assume "ras = review_assignments d @ [a]" "as_id a \<notin> as_id ` set (review_assignments d)"
      "(as_version a, as_kind a) \<notin> (\<lambda>x. (as_version x, as_kind x)) ` set (review_assignments d)"
    then show ?thesis using keys by (auto simp: review_keys_def tabs)
  qed
  show "\<forall>a\<in>set (review_assignments d'). completed_ok d' a"
    using cases inv by (auto simp: review_inv_def completed_ok_def dec tabs set_update_where)
  show "\<forall>c\<in>set (review_decisions d'). dc_created_at c \<le> t"
    using inv \<open>s < t\<close> by (auto simp: review_inv_def tabs)
  show "\<forall>v\<in>set (question_versions d'). reviewed d' v \<and> announced d' v"
    using inv by (auto simp: review_inv_def reviewed_def announced_def sig auth tabs)
  show "\<forall>q\<in>set (questions d'). served d' q"
    using inv by (auto simp: review_inv_def served_def tabs)
qed

lemma in_set_state:
  assumes "v' \<in> set (set_version_state e vid st vs)" "distinct (map qv_id vs)" "row_with qv_id vid vs = Some v"
  shows "(v' = v\<lparr>qv_state := st, qv_updated_at := db_now e\<rparr>) \<or> v' \<in> set vs \<and> qv_id v' \<noteq> vid"
proof -
  obtain w where w: "w \<in> set vs"
    "v' = (if qv_id w = vid then w\<lparr>qv_state := st, qv_updated_at := db_now e\<rparr> else w)"
    using assms(1) unfolding set_version_state_def by (rule in_update_whereE)
  then have "qv_id w = vid \<Longrightarrow> w = v" using row_with_distinct [OF assms(2), of w] assms(3) by simp
  then show ?thesis using w by (auto split: if_splits)
qed

lemma map_ids_set_state [simp]: "map qv_id (set_version_state e vid st vs) = map qv_id vs"
  unfolding set_version_state_def by (rule map_update_where_same) simp

lemma inv_decide:
  assumes inv: "review_inv s d" and "s < t"
    and v: "row_with qv_id vid (question_versions d) = Some v" and a: "assignment_for vid k d = Some a"
    and reviewer: "as_reviewer a = reviewer" "author_id vid d = Some au" "au \<noteq> reviewer"
    and guard: "decision_guard vid k v reviewer d"
    and d': "content_tables d' = (set_version_state e vid (decision_state k outcome) (question_versions d), questions d,
      update_where (\<lambda>x. as_id x = as_id a) (\<lambda>x. x\<lparr>as_completed_at := Some t\<rparr>) (review_assignments d),
      review_decisions d @ [\<lparr>dc_assignment = as_id a, dc_reviewer = reviewer, dc_outcome = outcome,
         dc_reason = reason, dc_created_at = t\<rparr>],
      provenance_records d, publication_events d)"
  shows "review_inv t d'"
proof (rule review_invI)
  note tabs = content_tablesD [OF d']
  have keys: "review_keys d" using inv by (simp add: review_inv_def)
  let ?c = "\<lparr>dc_assignment = as_id a, dc_reviewer = reviewer, dc_outcome = outcome,
         dc_reason = reason, dc_created_at = t\<rparr>"
  have "\<forall>c\<in>set (review_decisions d). dc_created_at c < dc_created_at ?c"
    using inv \<open>s < t\<close> by (auto simp: review_inv_def)
  note sig = decision_signs [OF keys a this _ tabs(3) tabs(4), simplified]
  have auth: "author_id x d' = author_id x d" for x by (simp add: author_id_def tabs)
  have a_in: "a \<in> set (review_assignments d)" using assignment_for_Some [OF a] by simp
  have maps: "map as_id (review_assignments d') = map as_id (review_assignments d)"
    "map (\<lambda>a. (as_version a, as_kind a)) (review_assignments d') =
      map (\<lambda>a. (as_version a, as_kind a)) (review_assignments d)"
    unfolding tabs by (rule map_update_where_same; simp)+
  have ids: "as_id ` set (review_assignments d') = as_id ` set (review_assignments d)"
    using arg_cong [OF maps(1), of set] by simp
  have dist: "distinct (map qv_id (question_versions d))" using keys by (simp add: review_keys_def)
  show "review_keys d'" using keys maps a_in by (auto simp: review_keys_def ids tabs(1,4))
  have same_a: "\<forall>x\<in>set (review_assignments d). as_id x = as_id a \<longrightarrow> x = a"
    using keys a_in by (auto simp: review_keys_def distinct_map inj_on_def)
  show "\<forall>x\<in>set (review_assignments d'). completed_ok d' x"
    using inv same_a reviewer(1)
    by (fastforce simp: review_inv_def completed_ok_def sig(1) tabs(3) set_update_where)
  show "\<forall>c\<in>set (review_decisions d'). dc_created_at c \<le> t"
    using inv \<open>s < t\<close> by (auto simp: review_inv_def tabs)
  have rv: "reviewed d v" "announced d v" "qv_id v = vid"
    using inv row_with_SomeD [OF v] by (simp_all add: review_inv_def)
  have other_reviewer: "signed_by vid Technical d \<noteq> Some reviewer" if editorial: "k = Editorial"
  proof -
    obtain b where b: "b \<in> set (review_assignments d)" "as_version b = vid" "as_kind b = Technical"
      "as_completed_at b \<noteq> None" "as_reviewer b \<noteq> reviewer"
      using guard editorial by (auto simp: decision_guard_def)
    have "completed_ok d b" using inv b(1) by (simp add: review_inv_def)
    then show ?thesis using b assignment_for_in [OF keys b(1)]
      by (auto simp: completed_ok_def signed_by_def split: if_splits)
  qed
  have now: "reviewed d' (v\<lparr>qv_state := decision_state k outcome, qv_updated_at := db_now e\<rparr>)"
  proof (cases k)
    case Technical
    then show ?thesis using reviewer(2,3) rv(3) by (simp add: reviewed_def sig auth decision_state_def)
  next
    case Editorial
    then have "qv_state v = Awaiting_Editorial_Review" using guard by (simp add: decision_guard_def)
    then show ?thesis using Editorial reviewer(2,3) rv(1,3) other_reviewer
      by (auto simp: reviewed_def sig auth decision_state_def)
  qed
  show "\<forall>v\<in>set (question_versions d'). reviewed d' v \<and> announced d' v"
  proof
    fix w assume "w \<in> set (question_versions d')"
    then have "w = v\<lparr>qv_state := decision_state k outcome, qv_updated_at := db_now e\<rparr> \<or>
        w \<in> set (question_versions d) \<and> qv_id w \<noteq> vid"
      unfolding tabs using dist v by (rule in_set_state)
    then show "reviewed d' w \<and> announced d' w"
    proof
      assume "w = v\<lparr>qv_state := decision_state k outcome, qv_updated_at := db_now e\<rparr>"
      then show ?thesis using now by (simp add: announced_def decision_state_def)
    next
      assume "w \<in> set (question_versions d) \<and> qv_id w \<noteq> vid"
      then show ?thesis using inv by (auto simp: review_inv_def reviewed_def announced_def sig auth tabs)
    qed
  qed
  have unpublished: "qv_state v \<noteq> Published"
    using guard by (auto simp: decision_guard_def split: review_kind.splits)
  show "\<forall>q\<in>set (questions d'). served d' q"
  proof
    fix q assume "q \<in> set (questions d')"
    then have q: "served d q" using inv by (simp add: review_inv_def tabs)
    have "w \<in> set (question_versions d')" if "w \<in> set (question_versions d)" "qv_state w = Published" for w
    proof -
      have "qv_id w \<noteq> vid" using that unpublished row_with_distinct [OF dist that(1)] v by auto
      then show ?thesis using that(1) by (force simp: tabs set_version_state_def set_update_where)
    qed
    then show "served d' q" using q by (fastforce simp: served_def)
  qed
qed

text \<open>The remaining changes leave assignments and decisions alone.\<close>

lemma review_keys_versions:
  assumes "review_keys d" "distinct (map qv_id (question_versions d'))"
    "review_assignments d' = review_assignments d" "review_decisions d' = review_decisions d"
  shows "review_keys d'"
  using assms by (simp add: review_keys_def)

lemma inv_unsigned:
  assumes inv: "review_inv s d" and "s \<le> t" and "distinct (map qv_id (question_versions d'))"
    and same: "review_assignments d' = review_assignments d" "review_decisions d' = review_decisions d"
    and "\<forall>v\<in>set (question_versions d'). reviewed d' v \<and> announced d' v" "\<forall>q\<in>set (questions d'). served d' q"
  shows "review_inv t d'"
proof (rule review_invI)
  have keys: "review_keys d" using inv by (simp add: review_inv_def)
  show "review_keys d'" using keys assms(3) same by (rule review_keys_versions)
  show "\<forall>a\<in>set (review_assignments d'). completed_ok d' a" "\<forall>c\<in>set (review_decisions d'). dc_created_at c \<le> t"
    using inv \<open>s \<le> t\<close> by (auto simp: review_inv_def completed_ok_def same latest_decision_def)
qed (use assms in auto)

lemma inv_publish:
  assumes inv: "review_inv s d" and "s < t"
    and v: "row_with qv_id vid (question_versions d) = Some v" "qv_state v = Approved"
    and pe: "pe_version pe = vid" "pe_content_hash pe = qv_content_hash v"
    and d': "content_tables d' = (update_where (\<lambda>x. qv_id x = vid) (\<lambda>x. x\<lparr>qv_state := Published\<rparr>) (question_versions d),
      update_where (\<lambda>q. qs_id q = qv_question v) (\<lambda>q. q\<lparr>qs_current_published_version := Some vid\<rparr>) (questions d),
      review_assignments d, review_decisions d, provenance_records d, publication_events d @ [pe])"
  shows "review_inv t d'"
proof (rule inv_unsigned [OF inv less_imp_le [OF \<open>s < t\<close>]])
  note tabs = content_tablesD [OF d']
  have dist: "distinct (map qv_id (question_versions d))" using inv by (simp add: review_inv_def review_keys_def)
  have maps: "map qv_id (question_versions d') = map qv_id (question_versions d)"
    unfolding tabs by (rule map_update_where_same) simp
  then show "distinct (map qv_id (question_versions d'))" using dist by simp
  show "review_assignments d' = review_assignments d" "review_decisions d' = review_decisions d"
    by (simp_all add: tabs)
  have sig: "signed_by x k d' = signed_by x k d" "author_id x d' = author_id x d" for x k
    by (simp_all add: signed_by_def assignment_for_def latest_decision_def author_id_def tabs)
  have rv: "reviewed d v" "v \<in> set (question_versions d)" "qv_id v = vid"
    using inv row_with_SomeD [OF v(1)] by (simp_all add: review_inv_def)
  have same_v: "w = v" if "w \<in> set (question_versions d)" "qv_id w = vid" for w
    using row_with_distinct [OF dist that(1)] that(2) v(1) by simp
  show "\<forall>w\<in>set (question_versions d'). reviewed d' w \<and> announced d' w"
  proof
    fix w assume "w \<in> set (question_versions d')"
    then obtain u where u: "u \<in> set (question_versions d)" "w = (if qv_id u = vid then u\<lparr>qv_state := Published\<rparr> else u)"
      unfolding tabs by (rule in_update_whereE)
    show "reviewed d' w \<and> announced d' w"
    proof (cases "qv_id u = vid")
      case True
      then have "w = v\<lparr>qv_state := Published\<rparr>" using u same_v by simp
      then show ?thesis using rv v(2) pe by (auto simp: reviewed_def announced_def sig tabs)
    next
      case False
      then show ?thesis using u inv by (auto simp: review_inv_def reviewed_def announced_def sig tabs)
    qed
  qed
  have pub: "v\<lparr>qv_state := Published\<rparr> \<in> set (question_versions d')"
    using rv(2,3) by (force simp: tabs set_update_where)
  have keep: "\<exists>x\<in>set (question_versions d'). qv_id x = qv_id w \<and> qv_question x = qv_question w \<and> qv_state x = Published"
    if "w \<in> set (question_versions d)" "qv_state w = Published" for w
    using that by (intro bexI [of _ "if qv_id w = vid then w\<lparr>qv_state := Published\<rparr> else w"])
      (auto simp: tabs set_update_where)
  show "\<forall>q\<in>set (questions d'). served d' q"
  proof
    fix q assume "q \<in> set (questions d')"
    then obtain r where r: "r \<in> set (questions d)"
      "q = (if qs_id r = qv_question v then r\<lparr>qs_current_published_version := Some vid\<rparr> else r)"
      unfolding tabs by (rule in_update_whereE)
    have sr: "served d r" using inv r(1) by (simp add: review_inv_def)
    show "served d' q"
    proof (cases "qs_id r = qv_question v")
      case True
      then show ?thesis using r(2) sr rv(3) by (auto simp: served_def intro!: bexI [OF _ pub])
    next
      case False
      then show ?thesis using r(2) sr keep by (fastforce simp: served_def)
    qed
  qed
qed

lemma inv_withdraw:
  assumes inv: "review_inv s d" and "s < t"
    and v: "row_with qv_id vid (question_versions d) = Some v"
    and target: "target = Deprecated \<and> qv_state v = Published \<or> target = Archived \<and> qv_state v \<noteq> Published"
    and d': "content_tables d' = (set_version_state e vid target (question_versions d),
      update_where (\<lambda>q. qs_id q = qv_question v \<and> qs_current_published_version q = Some vid)
        (withdraw_question e target) (questions d),
      review_assignments d, review_decisions d, provenance_records d, publication_events d)"
  shows "review_inv t d'"
proof (rule inv_unsigned [OF inv less_imp_le [OF \<open>s < t\<close>]])
  note tabs = content_tablesD [OF d']
  have dist: "distinct (map qv_id (question_versions d))" using inv by (simp add: review_inv_def review_keys_def)
  then show "distinct (map qv_id (question_versions d'))" by (simp add: tabs)
  show "review_assignments d' = review_assignments d" "review_decisions d' = review_decisions d"
    by (simp_all add: tabs)
  have sig: "signed_by x k d' = signed_by x k d" "author_id x d' = author_id x d" for x k
    by (simp_all add: signed_by_def assignment_for_def latest_decision_def author_id_def tabs)
  have rv: "reviewed d v" "v \<in> set (question_versions d)" "qv_id v = vid"
    using inv row_with_SomeD [OF v] by (simp_all add: review_inv_def)
  show "\<forall>w\<in>set (question_versions d'). reviewed d' w \<and> announced d' w"
  proof
    fix w assume "w \<in> set (question_versions d')"
    then have "w = v\<lparr>qv_state := target, qv_updated_at := db_now e\<rparr> \<or>
        w \<in> set (question_versions d) \<and> qv_id w \<noteq> vid"
      unfolding tabs using dist v by (rule in_set_state)
    then show "reviewed d' w \<and> announced d' w"
    proof
      assume "w = v\<lparr>qv_state := target, qv_updated_at := db_now e\<rparr>"
      then show ?thesis using rv target by (auto simp: reviewed_def announced_def sig)
    next
      assume "w \<in> set (question_versions d) \<and> qv_id w \<noteq> vid"
      then show ?thesis using inv by (auto simp: review_inv_def reviewed_def announced_def sig tabs)
    qed
  qed
  have same_v: "w = v" if "w \<in> set (question_versions d)" "qv_id w = vid" for w
    using row_with_distinct [OF dist that(1)] that(2) v by simp
  have keep: "w \<in> set (question_versions d')" if "w \<in> set (question_versions d)" "qv_id w \<noteq> vid" for w
    using that by (force simp: tabs set_version_state_def set_update_where)
  show "\<forall>q\<in>set (questions d'). served d' q"
  proof
    fix q assume "q \<in> set (questions d')"
    then obtain r where r: "r \<in> set (questions d)"
      "q = (if qs_id r = qv_question v \<and> qs_current_published_version r = Some vid
            then withdraw_question e target r else r)"
      unfolding tabs by (rule in_update_whereE)
    have sr: "served d r" using inv r(1) by (simp add: review_inv_def)
    show "served d' q"
    proof (cases "qs_current_published_version r = Some vid")
      case True
      then have "qv_question v = qs_id r \<and> qv_state v = Published" using sr same_v by (auto simp: served_def)
      then show ?thesis using True r(2) sr target by (auto simp: served_def withdraw_question_def)
    next
      case False
      then show ?thesis using r(2) sr keep by (fastforce simp: served_def)
    qed
  qed
qed

lemma inv_question:
  assumes inv: "review_inv t d" and q: "upsert_question e nid track p d = Inr (qid, d1)"
    and d': "content_tables d' = content_tables d1"
  shows "review_inv t d'"
proof (rule inv_unsigned [OF inv order_refl])
  have tabs: "content_tables d' = (question_versions d, questions d1, review_assignments d, review_decisions d,
      provenance_records d, publication_events d)"
    using upsert_question_same [OF q] d' by simp
  note tabs = content_tablesD [OF tabs]
  show "distinct (map qv_id (question_versions d'))" using inv by (simp add: review_inv_def review_keys_def tabs)
  show "review_assignments d' = review_assignments d" "review_decisions d' = review_decisions d"
    by (simp_all add: tabs)
  have sig: "signed_by x k d' = signed_by x k d" "author_id x d' = author_id x d" for x k
    by (simp_all add: signed_by_def assignment_for_def latest_decision_def author_id_def tabs)
  show "\<forall>v\<in>set (question_versions d'). reviewed d' v \<and> announced d' v"
    using inv by (auto simp: review_inv_def reviewed_def announced_def sig tabs)
  have "\<forall>x\<in>set (questions d1). served d x"
    using q inv by (auto simp: upsert_question_def insert_unique_def review_inv_def served_def set_update_where
        split: option.splits if_splits elim!: res_bind_InrE)
  then show "\<forall>q\<in>set (questions d'). served d' q" by (simp add: served_def tabs)
qed

lemma inv_package:
  assumes inv: "review_inv t d" and written: "package_written e revision p qid vid (question_versions d) vs"
    and pr: "pv_version pr = vid"
    and d': "content_tables d' = (vs, questions d, review_assignments d, review_decisions d,
      filter (\<lambda>r. pv_version r \<noteq> vid) (provenance_records d) @ [pr], publication_events d)"
  shows "review_inv t d'"
proof (rule inv_unsigned [OF inv order_refl])
  have vs: "(\<exists>v. row_with qv_id vid (question_versions d) = Some v \<and> qv_state v \<notin> {Approved, Published}) \<and>
      vs = update_where (\<lambda>x. qv_id x = vid) (\<lambda>x. package_row e revision p (qv_question x) (qv_id x)) (question_versions d) \<or>
    vid \<notin> qv_id ` set (question_versions d) \<and> vs = question_versions d @ [package_row e revision p qid vid]"
  proof (cases "find (\<lambda>v. qv_question v = qid \<and> qv_version v = pk_version p) (question_versions d)")
    case (Some v)
    then have "row_with qv_id (qv_id v) (question_versions d) = Some v"
      using inv find_SomeD [OF Some] by (intro row_with_distinct) (simp_all add: review_inv_def review_keys_def)
    then show ?thesis using written Some by (auto simp: package_written_def)
  qed (use written in \<open>simp add: package_written_def\<close>)
  note tabs = content_tablesD [OF d']
  have dist: "distinct (map qv_id (question_versions d))" using inv by (simp add: review_inv_def review_keys_def)
  have row: "qv_id (package_row e revision p q i) = i" "qv_state (package_row e revision p q i) = Awaiting_Technical_Review" for q i
    by (simp_all add: package_row_def)
  show "distinct (map qv_id (question_versions d'))" using vs dist
    by (auto simp: tabs row map_update_where_same)
  show "review_assignments d' = review_assignments d" "review_decisions d' = review_decisions d"
    by (simp_all add: tabs)
  have sig: "signed_by x k d' = signed_by x k d" for x k
    by (simp add: signed_by_def assignment_for_def latest_decision_def tabs)
  have "filter (\<lambda>q. pv_version q = x) (filter (\<lambda>r. pv_version r \<noteq> vid) (provenance_records d) @ [pr]) =
      filter (\<lambda>q. pv_version q = x) (provenance_records d)" if "x \<noteq> vid" for x
    using that pr by (auto intro!: filter_cong)
  then have auth: "author_id x d' = author_id x d" if "x \<noteq> vid" for x
    using that by (simp add: author_id_def tabs)
  have rows: "w \<in> set (question_versions d) \<and> qv_id w \<noteq> vid \<or> qv_state w = Awaiting_Technical_Review"
    if w: "w \<in> set (question_versions d')" for w
    using vs
  proof (elim disjE conjE exE)
    assume u: "vs = update_where (\<lambda>x. qv_id x = vid) (\<lambda>x. package_row e revision p (qv_question x) (qv_id x)) (question_versions d)"
    obtain u where "u \<in> set (question_versions d)"
      "w = (if qv_id u = vid then package_row e revision p (qv_question u) (qv_id u) else u)"
      using w unfolding tabs u by (rule in_update_whereE)
    then show ?thesis by (auto simp: row)
  next
    assume "vid \<notin> qv_id ` set (question_versions d)" "vs = question_versions d @ [package_row e revision p qid vid]"
    then show ?thesis using w row(2) [of qid vid] by (auto simp: tabs)
  qed
  show "\<forall>v\<in>set (question_versions d'). reviewed d' v \<and> announced d' v"
  proof
    fix w assume "w \<in> set (question_versions d')"
    then show "reviewed d' w \<and> announced d' w"
      using rows [of w] inv auth [of "qv_id w"]
      by (auto simp: review_inv_def reviewed_def announced_def sig tabs)
  qed
  have same_v: "\<forall>v w. row_with qv_id vid (question_versions d) = Some v \<longrightarrow> w \<in> set (question_versions d) \<longrightarrow>
      qv_id w = vid \<longrightarrow> w = v"
    using row_with_distinct [OF dist] by fastforce
  have keep: "w \<in> set (question_versions d')" if "w \<in> set (question_versions d)" "qv_state w = Published" for w
    using vs
  proof (elim disjE conjE exE)
    fix v assume "row_with qv_id vid (question_versions d) = Some v" "qv_state v \<notin> {Approved, Published}"
      "vs = update_where (\<lambda>x. qv_id x = vid) (\<lambda>x. package_row e revision p (qv_question x) (qv_id x)) (question_versions d)"
    moreover from this have "qv_id w \<noteq> vid" using same_v that by auto
    ultimately show ?thesis using that(1) by (force simp: tabs set_update_where)
  qed (use that(1) in \<open>simp add: tabs\<close>)
  show "\<forall>q\<in>set (questions d'). served d' q"
  proof
    fix q assume "q \<in> set (questions d')"
    then have "served d q" using inv by (simp add: review_inv_def tabs)
    then show "served d' q" using keep by (fastforce simp: served_def)
  qed
qed

section \<open>Unique keys of the catalogue\<close>

definition catalog_keys :: "content_db \<Rightarrow> bool" where
  "catalog_keys d \<longleftrightarrow> distinct (map qs_id (questions d)) \<and> distinct (map qs_external_id (questions d)) \<and>
     distinct (map qs_slug (questions d)) \<and>
     distinct (map (\<lambda>v. (qv_question v, qv_version v)) (question_versions d))"

lemma catalog_keys_maps:
  assumes "catalog_keys d" "map qs_id (questions d') = map qs_id (questions d)"
    "map qs_external_id (questions d') = map qs_external_id (questions d)"
    "map qs_slug (questions d') = map qs_slug (questions d)"
    "map (\<lambda>v. (qv_question v, qv_version v)) (question_versions d') =
      map (\<lambda>v. (qv_question v, qv_version v)) (question_versions d)"
  shows "catalog_keys d'"
  using assms by (simp add: catalog_keys_def)

lemma maps_set_state [simp]:
  "map (\<lambda>v. (qv_question v, qv_version v)) (set_version_state e vid st vs) = map (\<lambda>v. (qv_question v, qv_version v)) vs"
  unfolding set_version_state_def by (rule map_update_where_same) simp

lemma review_change_keys:
  assumes "review_change t d d'" "catalog_keys d"
  shows "catalog_keys d'"
  using assms(1)
proof cases
  case change_same
  then show ?thesis using assms(2) by (simp add: catalog_keys_def content_tables_def)
next
  case change_assign
  note tabs = content_tablesD [OF change_assign(2)]
  show ?thesis using assms(2) by (simp add: catalog_keys_def tabs)
next
  case (change_decide vid v k a reviewer au e outcome reason)
  note tabs = content_tablesD [OF change_decide(8)]
  show ?thesis using assms(2) by (simp add: catalog_keys_def tabs)
next
  case (change_publish vid v pe)
  note tabs = content_tablesD [OF change_publish(5)]
  show ?thesis using assms(2)
    by (rule catalog_keys_maps; unfold tabs; intro map_update_where_same) simp_all
next
  case (change_withdraw vid v target e)
  note tabs = content_tablesD [OF change_withdraw(3)]
  show ?thesis using assms(2)
    by (rule catalog_keys_maps; unfold tabs; (intro map_update_where_same)?) (simp_all add: withdraw_question_def)
qed

lemma question_keys:
  assumes "upsert_question e nid track p d = Inr (qid, d')" "catalog_keys d"
  shows "catalog_keys d'"
proof (cases "row_with qs_external_id (pk_id p) (questions d)")
  case None
  then have "pk_id p \<notin> qs_external_id ` set (questions d)" by (simp add: row_with_None_iff)
  moreover from this have "pk_slug p \<notin> qs_slug ` set (questions d)"
    using assms(1) by (force simp: upsert_question_def split: if_splits)
  ultimately show ?thesis using assms None
    by (auto simp: upsert_question_def catalog_keys_def insert_unique_def split: if_splits)
next
  case (Some q)
  let ?P = "\<lambda>x. qs_external_id x = pk_id p"
  let ?f = "\<lambda>x. x\<lparr>qs_slug := pk_slug p, qs_primary_track := track, qs_updated_at := db_now e\<rparr>"
  have d': "questions d' = update_where ?P ?f (questions d)" "question_versions d' = question_versions d"
    and free: "\<forall>x\<in>set (questions d). qs_slug x = pk_slug p \<longrightarrow> qs_external_id x = pk_id p"
    using assms(1) Some by (auto simp: upsert_question_def split: if_splits)
  have maps: "map qs_id (update_where ?P ?f t) = map qs_id t" "map qs_external_id (update_where ?P ?f t) = map qs_external_id t" for t
    by (rule map_update_where_same; simp)+
  have slugs: "distinct (map qs_slug (update_where ?P ?f t))"
    if "\<forall>x\<in>set t. qs_slug x = pk_slug p \<longrightarrow> qs_external_id x = pk_id p"
      "distinct (map qs_slug t)" "distinct (map qs_external_id t)" for t
    using that
  proof (induction t)
    case (Cons x t)
    show ?case
    proof (cases "qs_external_id x = pk_id p")
      case True
      then have rest: "\<forall>y\<in>set t. qs_external_id y \<noteq> pk_id p" using Cons.prems(3) by (auto simp: rev_image_eqI)
      then have "update_where ?P ?f t = t" by (intro update_where_none) simp
      moreover have "pk_slug p \<notin> qs_slug ` set t" using rest Cons.prems(1) by auto
      ultimately show ?thesis using True Cons.prems(2) by simp
    next
      case False
      then have "qs_slug x \<notin> qs_slug ` set (update_where ?P ?f t)"
        using Cons.prems(1,2) by (auto simp: set_update_where)
      then show ?thesis using False Cons.IH Cons.prems by simp
    qed
  qed simp
  from slugs [OF free] show ?thesis using assms(2) by (simp add: catalog_keys_def d' maps)
qed

lemma sync_change_keys:
  assumes "sync_change d d'" "catalog_keys d" "distinct (map qv_id (question_versions d))"
  shows "catalog_keys d'"
  using assms(1)
proof cases
  case (change_question e nid track p qid d1)
  then show ?thesis using question_keys [OF change_question(1) assms(2)]
    by (simp add: catalog_keys_def content_tables_def)
next
  case (change_package e revision p qid vid vs pr)
  note tabs = content_tablesD [OF change_package(3)]
  have "distinct (map (\<lambda>v. (qv_question v, qv_version v)) vs)"
  proof (cases "find (\<lambda>v. qv_question v = qid \<and> qv_version v = pk_version p) (question_versions d)")
    case None
    then have "(qid, pk_version p) \<notin> (\<lambda>v. (qv_question v, qv_version v)) ` set (question_versions d)"
      by (auto simp: find_None_iff)
    then show ?thesis using None change_package(1) assms(2)
      by (auto simp: package_written_def catalog_keys_def package_row_def)
  next
    case (Some v)
    have v: "v \<in> set (question_versions d)" "qv_version v = pk_version p" using find_SomeD [OF Some] by simp_all
    have "map (\<lambda>v. (qv_question v, qv_version v)) vs = map (\<lambda>v. (qv_question v, qv_version v)) (question_versions d)"
    proof (rule nth_equalityI)
      show "length (map (\<lambda>v. (qv_question v, qv_version v)) vs) =
          length (map (\<lambda>v. (qv_question v, qv_version v)) (question_versions d))"
        using change_package(1) Some by (simp add: package_written_def)
    next
      fix i assume "i < length (map (\<lambda>v. (qv_question v, qv_version v)) vs)"
      then have i: "i < length (question_versions d)" using change_package(1) Some by (simp add: package_written_def)
      have "question_versions d ! i = v" if "qv_id (question_versions d ! i) = qv_id v"
        using that i v(1) assms(3) by (auto simp: distinct_map inj_on_def)
      then show "map (\<lambda>v. (qv_question v, qv_version v)) vs ! i =
          map (\<lambda>v. (qv_question v, qv_version v)) (question_versions d) ! i"
        using i v(2) change_package(1) Some
        by (auto simp: package_written_def update_where_def package_row_def)
    qed
    then show ?thesis using assms(2) by (simp add: catalog_keys_def)
  qed
  then show ?thesis using assms(2) by (simp add: catalog_keys_def tabs)
qed

section \<open>Reachable states\<close>

inductive review_op :: "env \<Rightarrow> content_db \<Rightarrow> content_db \<Rightarrow> bool" for e where
  op_queue: "review_queue e nid p d = Inr (items, d') \<Longrightarrow> review_op e d d'"
| op_assign: "assign e nid aid p vid k subject d = Inr (r, d') \<Longrightarrow> review_op e d d'"
| op_decide: "decide e nid p vid k outcome reason d = Inr (r, d') \<Longrightarrow> review_op e d d'"
| op_publish: "publish e nid p vid key d = Inr (r, d') \<Longrightarrow> review_op e d d'"
| op_transition: "transition_version e nid p vid target d = Inr (r, d') \<Longrightarrow> review_op e d d'"
| op_sync: "synchronize_package e revision ids pkg d = Inr (px, d') \<Longrightarrow> review_op e d d'"

text \<open>Before the first synchronisation there are users and perhaps questions, but no versions.\<close>

definition content_start :: "content_db \<Rightarrow> bool" where
  "content_start d \<longleftrightarrow> people_ok d \<and> question_versions d = [] \<and> review_assignments d = [] \<and>
     review_decisions d = [] \<and> publication_events d = [] \<and> catalog_keys d \<and>
     (\<forall>q\<in>set (questions d). qs_current_published_version q = None \<and> qs_archived_at q = None)"

inductive review_reachable :: "timestamp \<Rightarrow> content_db \<Rightarrow> bool" where
  reach_start: "content_start d \<Longrightarrow> review_reachable t d"
| reach_op: "review_reachable t d \<Longrightarrow> t < db_now e \<Longrightarrow> review_op e d d' \<Longrightarrow> review_reachable (db_now e) d'"

lemma review_change_inv:
  assumes "review_change t d d'" "review_inv s d" "s < t"
  shows "review_inv t d'"
  using assms(1)
proof cases
  case change_same
  show ?thesis using assms(2) change_same assms(3) by (rule inv_same)
next
  case change_assign
  show ?thesis using assms(2) change_assign assms(3) by (rule inv_assign)
next
  case change_decide
  show ?thesis using assms(2,3) change_decide(1-6,8) by (rule inv_decide)
next
  case change_publish
  show ?thesis using assms(2,3) change_publish by (rule inv_publish)
next
  case change_withdraw
  show ?thesis using assms(2,3) change_withdraw by (rule inv_withdraw)
qed

lemma sync_change_inv:
  assumes "sync_change d d'" "review_inv t d"
  shows "review_inv t d'"
  using assms(1)
proof cases
  case change_question
  show ?thesis using assms(2) change_question by (rule inv_question)
next
  case change_package
  show ?thesis using assms(2) change_package by (rule inv_package)
qed

lemma sync_changes_inv: "sync_change\<^sup>*\<^sup>* d d' \<Longrightarrow> review_inv t d \<Longrightarrow> review_inv t d'"
  by (induction rule: rtranclp_induct) (auto intro: sync_change_inv)

lemma review_op_change:
  assumes "review_op e d d'" "people_ok d"
  shows "(review_change (db_now e) d d' \<or> sync_change\<^sup>*\<^sup>* d d') \<and> people_ok d'"
  using assms(1)
proof cases
  case op_queue
  show ?thesis using queue_change [OF op_queue assms(2)] by simp
next
  case op_assign
  show ?thesis using assign_change [OF op_assign assms(2)] by simp
next
  case op_decide
  show ?thesis using decide_change [OF op_decide assms(2)] by simp
next
  case op_publish
  show ?thesis using publish_change [OF op_publish assms(2)] by simp
next
  case op_transition
  show ?thesis using transition_change [OF op_transition assms(2)] by simp
next
  case op_sync
  show ?thesis using sync_changes [OF op_sync assms(2)] by simp
qed

lemma review_op_inv:
  assumes "review_op e d d'" "review_inv s d" "people_ok d" "s < db_now e"
  shows "review_inv (db_now e) d' \<and> people_ok d'"
proof -
  note c = review_op_change [OF assms(1,3)]
  have "review_inv (db_now e) d" using assms(2,4) by (rule inv_same [OF _ refl])
  then show ?thesis using c review_change_inv [OF _ assms(2,4)] sync_changes_inv by blast
qed

lemma sync_changes_keys:
  "sync_change\<^sup>*\<^sup>* d d' \<Longrightarrow> review_inv t d \<Longrightarrow> catalog_keys d \<Longrightarrow> review_inv t d' \<and> catalog_keys d'"
proof (induction rule: rtranclp_induct)
  case (step c c')
  then have "distinct (map qv_id (question_versions c))" by (simp add: review_inv_def review_keys_def)
  then show ?case using step sync_change_keys sync_change_inv by blast
qed simp

theorem review_reachable_inv: "review_reachable t d \<Longrightarrow> review_inv t d \<and> people_ok d \<and> catalog_keys d"
proof (induction rule: review_reachable.induct)
  case (reach_start d t)
  then show ?case by (auto simp: content_start_def review_inv_def review_keys_def served_def)
next
  case (reach_op t d e d')
  then have "catalog_keys d'"
    using review_op_change [of e d d'] review_change_keys sync_changes_keys by blast
  then show ?case using reach_op review_op_inv by blast
qed

end
