(* ===== verification/Execution_Api.thy ===== *)
theory Execution_Api imports Practice_Sessions begin

text \<open>
  The candidate's execution API (\<open>execution_api.py\<close>) with the sandbox profiles it copies into a
  request (\<open>sandbox_jobs.py\<close>): resolving the session and question of a run or submission, the
  back pressure, the input of the sandbox for Python and SQL questions, and the four routes. The
  Python parser is a parameter: \<open>top_functions\<close> gives the names of the top-level functions of a
  source text in order, or \<open>None\<close> where \<open>ast.parse\<close> raises \<open>SyntaxError\<close>.
\<close>

section \<open>Sandbox profiles\<close>

record sandbox_profile =
  sf_name :: string
  sf_runtime :: string
  sf_cpu_request :: string
  sf_cpu_limit :: string
  sf_memory_request :: string
  sf_memory_limit :: string
  sf_ephemeral_storage_limit :: string
  sf_execution_timeout_seconds :: int
  sf_job_deadline_seconds :: int

definition sandbox_profiles :: "sandbox_profile list" where
  "sandbox_profiles =
     [\<lparr>sf_name = ''python-small'', sf_runtime = ''python'', sf_cpu_request = ''100m'',
       sf_cpu_limit = ''1000m'', sf_memory_request = ''128Mi'', sf_memory_limit = ''512Mi'',
       sf_ephemeral_storage_limit = ''32Mi'', sf_execution_timeout_seconds = 10,
       sf_job_deadline_seconds = 20\<rparr>,
      \<lparr>sf_name = ''python-large'', sf_runtime = ''python'', sf_cpu_request = ''250m'',
       sf_cpu_limit = ''2000m'', sf_memory_request = ''256Mi'', sf_memory_limit = ''1024Mi'',
       sf_ephemeral_storage_limit = ''64Mi'', sf_execution_timeout_seconds = 15,
       sf_job_deadline_seconds = 30\<rparr>,
      \<lparr>sf_name = ''sql-small'', sf_runtime = ''sql'', sf_cpu_request = ''250m'',
       sf_cpu_limit = ''1000m'', sf_memory_request = ''256Mi'', sf_memory_limit = ''768Mi'',
       sf_ephemeral_storage_limit = ''128Mi'', sf_execution_timeout_seconds = 10,
       sf_job_deadline_seconds = 30\<rparr>,
      \<lparr>sf_name = ''sql-large'', sf_runtime = ''sql'', sf_cpu_request = ''500m'',
       sf_cpu_limit = ''2000m'', sf_memory_request = ''512Mi'', sf_memory_limit = ''1536Mi'',
       sf_ephemeral_storage_limit = ''256Mi'', sf_execution_timeout_seconds = 20,
       sf_job_deadline_seconds = 45\<rparr>]"

definition sandbox_profile_named :: "string \<Rightarrow> sandbox_profile result" where
  "sandbox_profile_named name = (case row_with sf_name name sandbox_profiles of
     Some p \<Rightarrow> Inr p
   | None \<Rightarrow> Inl (Exn ValueErr ''Unknown server-controlled sandbox profile.''))"

section \<open>What a run needs\<close>

abbreviation conflict :: "string \<Rightarrow> 'a result" where
  "conflict m \<equiv> Inl (Exn (HttpErr 409) m)"

definition max_active_runs_per_candidate :: nat where "max_active_runs_per_candidate = 5"
definition max_active_submits_per_candidate :: nat where "max_active_submits_per_candidate = 2"

definition active_states :: "execution_state list" where
  "active_states = [PG_QUEUED, PG_DISPATCHING, PG_RUNNING]"

definition invocation_modes :: "string list" where
  "invocation_modes = [''auto'', ''keyword_arguments'', ''positional_arguments'',
     ''single_payload'', ''no_arguments'']"

text \<open>
  The session must belong to the candidate and to a version of the question with that slug; what
  is executed is the version published now.
\<close>

definition session_question ::
  "env \<Rightarrow> uuid \<Rightarrow> string \<Rightarrow> db \<Rightarrow> (question_payload \<times> submission_runtime) result" where
  "session_question e sid slug d =
     (case find (own_session e sid) (practice_sessions d) of
        None \<Rightarrow> Inl (Exn PracticeNotFoundErr [])
      | Some r \<Rightarrow> (case joined_question d r of
          None \<Rightarrow> Inl (Exn PracticeNotFoundErr [])
        | Some (v, q) \<Rightarrow>
          if qs_slug q \<noteq> slug then Inl (Exn PracticeNotFoundErr [])
          else if ps_state r \<in> {COMPLETED, ABANDONED}
          then conflict ''Practice session is no longer executable.''
          else (case (case ps_runtime r of None \<Rightarrow> None | Some t \<Rightarrow> parse_runtime t) of
              None \<Rightarrow> conflict ''Practice session runtime is unsupported.''
            | Some runtime \<Rightarrow>
              res_bind (published_question_payload slug d) (\<lambda>question.
              (case question_runtime (lib e) question of
                 Inl x \<Rightarrow> conflict (exn_message x)
               | Inr required_runtime \<Rightarrow>
                 if runtime \<noteq> required_runtime
                 then conflict ''Practice session runtime no longer matches the published question runtime.''
                 else Inr (question, runtime))))))"

record execution_accepted =
  ea_execution_id :: uuid
  ea_submission_id :: "uuid option"
  ea_status :: execution_status
  ea_duplicate :: bool

definition existing_execution ::
  "env \<Rightarrow> string \<Rightarrow> string \<Rightarrow> db \<Rightarrow> execution_accepted option result" where
  "existing_execution e key hash d =
     (case find_by_idempotency e key d of
        None \<Rightarrow> Inr None
      | Some r \<Rightarrow>
        if rq_request_hash r \<noteq> hash
        then Inl (Exn IdempotencyConflictErr
          ''The Idempotency-Key was already used for a different execution request.'')
        else res_bind (parse_status (state_text (rq_state r))) (\<lambda>s.
          Inr (Some \<lparr>ea_execution_id = rq_id r, ea_submission_id = rq_submission r, ea_status = s,
            ea_duplicate = True\<rparr>)))"

definition active_of :: "env \<Rightarrow> execution_type \<Rightarrow> db \<Rightarrow> request_row list" where
  "active_of e typ d =
     filter (\<lambda>r. Some (rq_candidate r) = user_id e \<and> rq_execution_type r = type_value typ \<and>
       rq_state r \<in> set active_states) (requests d)"

definition maximum_active :: "execution_type \<Rightarrow> nat" where
  "maximum_active typ = (case typ of Run \<Rightarrow> max_active_runs_per_candidate
     | Submit \<Rightarrow> max_active_submits_per_candidate)"

definition enforce_backpressure :: "env \<Rightarrow> execution_type \<Rightarrow> db \<Rightarrow> unit result" where
  "enforce_backpressure e typ d =
     (if length (active_of e typ d) \<ge> maximum_active typ
      then Inl (Exn (HttpErr 429)
        ''Too many candidate executions are already active. Retry after one finishes.'')
      else Inr ())"

text \<open>The expected answers stay behind: a candidate test has an id, a visibility and an input.\<close>

definition candidate_test :: "pylib \<Rightarrow> nat \<Rightarrow> jobj \<Rightarrow> json" where
  "candidate_test l index test = JObj
     [(''id'', JStr (py_str l (py_or (jget test ''id'') (JStr (''test-'' @ nat_str (index + 1)))))),
      (''visibility'', JStr (if is_public_test test then ''public'' else ''hidden'')),
      (''input'', jget test ''input'')]"

definition candidate_tests :: "pylib \<Rightarrow> question_payload \<Rightarrow> bool \<Rightarrow> json list result" where
  "candidate_tests l question public_only =
     (let sanitized = map (\<lambda>(i, t). candidate_test l i t)
            (List.enumerate 0 (question_tests question public_only))
      in if sanitized = [] then conflict ''Question has no executable tests.'' else Inr sanitized)"

text \<open>\<open>s.isidentifier()\<close> for code points below 256.\<close>

definition identifier_start :: "char \<Rightarrow> bool" where
  "identifier_start c =
     (let n = (of_char c :: nat) in
      65 \<le> n \<and> n \<le> 90 \<or> 97 \<le> n \<and> n \<le> 122 \<or> n \<in> {95, 170, 181, 186} \<or>
      192 \<le> n \<and> n \<noteq> 215 \<and> n \<noteq> 247)"

definition is_identifier :: "string \<Rightarrow> bool" where
  "is_identifier s = (case s of [] \<Rightarrow> False
     | c # cs \<Rightarrow> identifier_start c \<and>
         list_all (\<lambda>x. identifier_start x \<or> is_digit x \<or> (of_char x :: nat) = 183) cs)"

type_synonym top_functions = "string \<Rightarrow> string list option"

definition starter_entrypoint :: "top_functions \<Rightarrow> string \<Rightarrow> string result" where
  "starter_entrypoint parse starter =
     (if strip starter = []
      then conflict ''Python question is missing a persisted entrypoint and starter code.''
      else case parse starter of
        None \<Rightarrow> conflict ''Python starter code is invalid and cannot define an entrypoint.''
      | Some functions \<Rightarrow>
        let candidates = filter (\<lambda>name. \<not> starts_with ''_'' name) functions in
        if ''solve'' \<in> set candidates then Inr ''solve''
        else case candidates of
          [name] \<Rightarrow> Inr name
        | _ \<Rightarrow> conflict ''Python question must persist an unambiguous execution entrypoint.'')"

definition entrypoint :: "pylib \<Rightarrow> top_functions \<Rightarrow> question_payload \<Rightarrow> string result" where
  "entrypoint l parse question =
     (let mode = question_mode question;
          explicit = py_or (jget mode ''entrypoint'') (jget mode ''function_name'')
      in res_bind
        (if explicit \<noteq> JNull then Inr (py_str l explicit)
         else case jget mode ''starter_code'' of
           JStr starter \<Rightarrow> starter_entrypoint parse starter
         | _ \<Rightarrow> conflict ''Python question is missing a persisted entrypoint and starter code.'')
        (\<lambda>name. if is_identifier name then Inr name
          else conflict ''Question execution entrypoint is invalid.''))"

definition invocation_mode :: "pylib \<Rightarrow> question_payload \<Rightarrow> string result" where
  "invocation_mode l question =
     (let v = py_str l (py_or (jget (question_mode question) ''invocation_mode'') (JStr ''auto''))
      in if v \<notin> set invocation_modes then conflict ''Question invocation mode is invalid.'' else Inr v)"

definition sql_input_payload :: "pylib \<Rightarrow> question_payload \<Rightarrow> bool \<Rightarrow> json result" where
  "sql_input_payload l question public_only =
     (let mode = question_mode question in
      case jget_default mode ''schema_sql'' (jget mode ''ddl'') of
        JStr schema_sql \<Rightarrow>
          if strip schema_sql = [] then conflict ''SQL question is missing trusted schema DDL.''
          else (case jget_default mode ''seed_sql'' (jget_default mode ''seed_data'' (JStr [])) of
            JStr seed_sql \<Rightarrow>
              (case jget_default mode ''statement_timeout_ms'' (JInt 5000) of
                 JInt timeout \<Rightarrow>
                   if 100 \<le> timeout \<and> timeout \<le> 30000
                   then res_bind (candidate_tests l question public_only) (\<lambda>tests.
                     Inr (JObj [(''schema_version'', JInt 1), (''schema_sql'', JStr schema_sql),
                       (''seed_sql'', JStr seed_sql), (''statement_timeout_ms'', JInt timeout),
                       (''tests'', JList tests)]))
                   else conflict ''SQL statement timeout is invalid.''
               | _ \<Rightarrow> conflict ''SQL statement timeout is invalid.'')
          | _ \<Rightarrow> conflict ''SQL question seed data is invalid.'')
      | _ \<Rightarrow> conflict ''SQL question is missing trusted schema DDL.'')"

definition limits_of :: "string \<Rightarrow> json result" where
  "limits_of profile_name = res_bind (sandbox_profile_named profile_name) (\<lambda>p.
     Inr (JObj [(''profile'', JStr (sf_name p)), (''cpu_limit'', JStr (sf_cpu_limit p)),
       (''memory_limit'', JStr (sf_memory_limit p)),
       (''ephemeral_storage_limit'', JStr (sf_ephemeral_storage_limit p)),
       (''execution_timeout_seconds'', JInt (sf_execution_timeout_seconds p)),
       (''job_deadline_seconds'', JInt (sf_job_deadline_seconds p))]))"

text \<open>Language, profile and sandbox input of a question.\<close>

definition runtime_execution_config ::
  "pylib \<Rightarrow> top_functions \<Rightarrow> question_payload \<Rightarrow> submission_runtime \<Rightarrow> bool \<Rightarrow>
     (string \<times> string \<times> json) result" where
  "runtime_execution_config l parse question runtime public_only =
     (case runtime of
        Python313 \<Rightarrow>
          res_bind (entrypoint l parse question) (\<lambda>name.
          res_bind (invocation_mode l question) (\<lambda>mode.
          res_bind (candidate_tests l question public_only) (\<lambda>tests.
          Inr (''python'', ''python-small'',
            JObj [(''schema_version'', JInt 1), (''entrypoint'', JStr name),
              (''invocation_mode'', JStr mode), (''tests'', JList tests)]))))
      | Postgresql18 \<Rightarrow>
          res_bind (sql_input_payload l question public_only) (\<lambda>payload.
          Inr (''sql'', ''sql-small'', payload)))"

section \<open>Queueing\<close>

text \<open>
  The candidate's request: the session, the source, the value of the Idempotency-Key header, the
  question slug header and the correlation id of the principal; \<open>fi_execution\<close>, \<open>fi_outbox\<close>
  and \<open>fi_submission\<close> are the identifiers the transaction draws.
\<close>

record run_request =
  rr_session :: uuid
  rr_source_code :: string
  rr_key :: string
  rr_slug :: string
  rr_correlation :: string

record fresh_ids =
  fi_execution :: uuid
  fi_outbox :: uuid
  fi_submission :: uuid

definition queued_request ::
  "execution_type \<Rightarrow> run_request \<Rightarrow> question_payload \<Rightarrow> submission_runtime \<Rightarrow> string \<Rightarrow> uuid option \<Rightarrow>
     string \<Rightarrow> json \<Rightarrow> json \<Rightarrow> create_request" where
  "queued_request typ rr question runtime key submission language limits payload =
     \<lparr>cr_execution_type = typ, cr_practice_session = rr_session rr, cr_submission = submission,
      cr_question_version = qp_question_version_id question, cr_runtime = runtime_value runtime,
      cr_language = language, cr_source_code = rr_source_code rr, cr_idempotency_key = key,
      cr_trace_id = rr_correlation rr, cr_limits = limits, cr_input_payload = Some payload\<rparr>"

text \<open>
  Nothing is locked while the active executions are counted, so other requests of the candidate can
  commit between the count and the insert: \<open>seen\<close> is the state the count has read, \<open>d\<close> the one
  the rest of the transaction works on. A submission is counted twice; \<open>seen\<close> is then the state
  of the count that refuses, if one does.
\<close>

definition queue_execution ::
  "env \<Rightarrow> top_functions \<Rightarrow> fresh_ids \<Rightarrow> execution_type \<Rightarrow> run_request \<Rightarrow> question_payload \<Rightarrow>
     submission_runtime \<Rightarrow> string \<Rightarrow> uuid option \<Rightarrow> db \<Rightarrow> db \<Rightarrow> (execution_accepted \<times> db) result" where
  "queue_execution e parse ids typ rr question runtime key submission seen d =
     res_bind (enforce_backpressure e typ seen) (\<lambda>_.
     res_bind (runtime_execution_config (lib e) parse question runtime (typ = Run))
       (\<lambda>(language, profile_name, payload).
     res_bind (limits_of profile_name) (\<lambda>limits.
     res_bind (create_queued e (fi_execution ids) (fi_outbox ids)
         (queued_request typ rr question runtime key submission language limits payload) d d)
       (\<lambda>(q, d1). Inr (\<lparr>ea_execution_id = qe_execution_id q, ea_submission_id = qe_submission_id q,
          ea_status = qe_status q, ea_duplicate = qe_duplicate q\<rparr>, d1)))))"

definition run_key :: "run_request \<Rightarrow> string" where
  "run_key rr = ''run:'' @ rr_key rr"

definition submit_key :: "run_request \<Rightarrow> string" where
  "submit_key rr = ''submit:'' @ rr_key rr"

definition request_hash_of ::
  "env \<Rightarrow> execution_type \<Rightarrow> run_request \<Rightarrow> question_payload \<Rightarrow> submission_runtime \<Rightarrow> string" where
  "request_hash_of e typ rr question runtime =
     execution_request_hash (lib e) typ (rr_session rr) (qp_question_version_id question)
       (runtime_value runtime) (rr_source_code rr)"

definition run_count_row :: "env \<Rightarrow> string \<Rightarrow> practice_session_row \<Rightarrow> practice_session_row" where
  "run_count_row e source r =
     r\<lparr>ps_draft_code := Some source, ps_run_count := ps_run_count r + 1,
       ps_last_activity_at := db_now e, ps_updated_at := db_now e\<rparr>"

text \<open>The end of a run: the draft, the counter and the event of the session.\<close>

definition record_run ::
  "env \<Rightarrow> run_request \<Rightarrow> submission_runtime \<Rightarrow> execution_accepted \<Rightarrow> db \<Rightarrow>
     (execution_accepted \<times> db) result" where
  "record_run e rr runtime acc d =
     res_bind (append_practice_event e (rr_session rr) ''CODE_RUN_QUEUED''
         (JObj [(''execution_id'', JStr (uuid_str (ea_execution_id acc))),
                (''runtime'', JStr (runtime_value runtime))])
         (d\<lparr>practice_sessions := update_where (\<lambda>r. ps_id r = rr_session rr)
            (run_count_row e (rr_source_code rr)) (practice_sessions d)\<rparr>))
       (\<lambda>d1. Inr (acc, d1))"

definition queue_run_tx ::
  "env \<Rightarrow> top_functions \<Rightarrow> fresh_ids \<Rightarrow> run_request \<Rightarrow> db \<Rightarrow> db \<Rightarrow> (execution_accepted \<times> db) result" where
  "queue_run_tx e parse ids rr seen d =
     res_bind (session_question e (rr_session rr) (rr_slug rr) d) (\<lambda>(question, runtime).
     res_bind (existing_execution e (run_key rr) (request_hash_of e Run rr question runtime) d)
       (\<lambda>existing. case existing of
          Some acc \<Rightarrow> Inr (acc, d)
        | None \<Rightarrow>
          res_bind (queue_execution e parse ids Run rr question runtime (run_key rr) None seen d)
            (\<lambda>(acc, d1). record_run e rr runtime acc d1)))"

definition new_submission_row ::
  "env \<Rightarrow> uuid \<Rightarrow> uuid \<Rightarrow> run_request \<Rightarrow> question_payload \<Rightarrow> submission_runtime \<Rightarrow> submission_row" where
  "new_submission_row e u sbid rr question runtime =
     \<lparr>sb_id = sbid, sb_organization = organization_id e, sb_candidate = u,
      sb_practice_session = Some (rr_session rr),
      sb_question_version = qp_question_version_id question, sb_runtime = runtime_value runtime,
      sb_submitted_source = rr_source_code rr, sb_idempotency_key = Some (rr_key rr),
      sb_status = ''queued'', sb_public_test_results = [], sb_hidden_test_summary = JObj [],
      sb_error_category = None, sb_execution_duration_ms = None, sb_started_at = None,
      sb_completed_at = None\<rparr>"

text \<open>
  \<open>INSERT INTO submissions\<close> under its primary key and the unique pair of candidate and key.
\<close>

definition insert_submission ::
  "env \<Rightarrow> uuid \<Rightarrow> run_request \<Rightarrow> question_payload \<Rightarrow> submission_runtime \<Rightarrow> db \<Rightarrow> db result" where
  "insert_submission e sbid rr question runtime d =
     (case user_id e of None \<Rightarrow> Inl (Exn IntegrityErr ''candidate_id'')
      | Some u \<Rightarrow>
        if sbid \<in> sb_id ` set (submissions d) then Inl (Exn IntegrityErr ''submissions_pkey'')
        else if list_ex (\<lambda>s. sb_candidate s = u \<and> sb_idempotency_key s = Some (rr_key rr)) (submissions d)
        then Inl (Exn IntegrityErr ''uq_submissions_candidate_idempotency'')
        else Inr (d\<lparr>submissions := submissions d @
          [new_submission_row e u sbid rr question runtime]\<rparr>))"

definition submission_count_row :: "env \<Rightarrow> string \<Rightarrow> practice_session_row \<Rightarrow> practice_session_row" where
  "submission_count_row e source r =
     r\<lparr>ps_draft_code := Some source, ps_submission_count := ps_submission_count r + 1,
       ps_last_activity_at := db_now e, ps_updated_at := db_now e\<rparr>"

text \<open>The end of a submission: the session is submitted, its draft, counter and event follow.\<close>

definition record_submission ::
  "env \<Rightarrow> run_request \<Rightarrow> submission_runtime \<Rightarrow> uuid \<Rightarrow> execution_accepted \<Rightarrow> db \<Rightarrow>
     (execution_accepted \<times> db) result" where
  "record_submission e rr runtime sbid acc d =
     res_bind (transition_session e (rr_session rr) SUBMITTED open_states d d) (\<lambda>(_, d1).
     res_bind (append_practice_event e (rr_session rr) ''SUBMISSION_QUEUED''
         (JObj [(''execution_id'', JStr (uuid_str (ea_execution_id acc))),
                (''submission_id'', JStr (uuid_str sbid)),
                (''runtime'', JStr (runtime_value runtime))])
         (d1\<lparr>practice_sessions := update_where (\<lambda>r. ps_id r = rr_session rr)
            (submission_count_row e (rr_source_code rr)) (practice_sessions d1)\<rparr>))
       (\<lambda>d2. Inr (acc, d2)))"

definition queue_submit_tx ::
  "env \<Rightarrow> top_functions \<Rightarrow> fresh_ids \<Rightarrow> run_request \<Rightarrow> db \<Rightarrow> db \<Rightarrow> (execution_accepted \<times> db) result" where
  "queue_submit_tx e parse ids rr seen d =
     res_bind (session_question e (rr_session rr) (rr_slug rr) d) (\<lambda>(question, runtime).
     res_bind (existing_execution e (submit_key rr) (request_hash_of e Submit rr question runtime) d)
       (\<lambda>existing. case existing of
          Some acc \<Rightarrow> Inr (acc, d)
        | None \<Rightarrow>
          res_bind (enforce_backpressure e Submit seen) (\<lambda>_.
          res_bind (insert_submission e (fi_submission ids) rr question runtime d) (\<lambda>d1.
          res_bind (queue_execution e parse ids Submit rr question runtime (submit_key rr)
              (Some (fi_submission ids)) seen d1)
            (\<lambda>(acc, d2). record_submission e rr runtime (fi_submission ids) acc d2)))))"

text \<open>Only the not-found and the idempotency error of a queueing transaction become HTTP errors.\<close>

definition queue_error :: "exn \<Rightarrow> exn" where
  "queue_error x = (case exn_class x of
     PracticeNotFoundErr \<Rightarrow> Exn (HttpErr 404) ''Practice session or question not found.''
   | IdempotencyConflictErr \<Rightarrow> Exn (HttpErr 409) (exn_message x)
   | _ \<Rightarrow> x)"

definition queue_route :: "'a result \<Rightarrow> 'a result" where
  "queue_route r = (case r of Inl x \<Rightarrow> Inl (queue_error x) | Inr y \<Rightarrow> Inr y)"

definition queue_run ::
  "env \<Rightarrow> top_functions \<Rightarrow> fresh_ids \<Rightarrow> run_request \<Rightarrow> db \<Rightarrow> db \<Rightarrow> (execution_accepted \<times> db) result" where
  "queue_run e parse ids rr seen d = queue_route (queue_run_tx e parse ids rr seen d)"

definition queue_submit ::
  "env \<Rightarrow> top_functions \<Rightarrow> fresh_ids \<Rightarrow> run_request \<Rightarrow> db \<Rightarrow> db \<Rightarrow> (execution_accepted \<times> db) result" where
  "queue_submit e parse ids rr seen d = queue_route (queue_submit_tx e parse ids rr seen d)"

section \<open>Reading and cancelling\<close>

record public_test_result =
  pt_test_id :: string
  pt_name :: string
  pt_passed :: bool
  pt_expected :: json
  pt_actual :: json
  pt_error_category :: "string option"

record execution_result =
  xr_public_results :: "public_test_result list"
  xr_hidden_total :: int
  xr_hidden_passed :: int
  xr_stdout :: string
  xr_stderr :: string
  xr_candidate_message :: "string option"

text \<open>
  \<open>AsyncPublicTestResult.model_validate\<close>, which forbids extra keys and wants strings and a
  boolean; the coercions of its lax mode do not occur on stored results and count as errors.
\<close>

definition validate_test_result :: "jobj \<Rightarrow> public_test_result result" where
  "validate_test_result item =
     (case (jget item ''test_id'', jget item ''name'', jget item ''passed'') of
        (JStr test_id, JStr name, JBool passed) \<Rightarrow>
          if \<not> set (map fst item) \<subseteq> {''test_id'', ''name'', ''passed'', ''expected'', ''actual'', ''error_category''}
          then Inl (Exn ValidationErr ''AsyncPublicTestResult'')
          else (case jget item ''error_category'' of
             JNull \<Rightarrow> Inr \<lparr>pt_test_id = test_id, pt_name = name, pt_passed = passed,
               pt_expected = jget item ''expected'', pt_actual = jget item ''actual'',
               pt_error_category = None\<rparr>
           | JStr c \<Rightarrow> Inr \<lparr>pt_test_id = test_id, pt_name = name, pt_passed = passed,
               pt_expected = jget item ''expected'', pt_actual = jget item ''actual'',
               pt_error_category = Some c\<rparr>
           | _ \<Rightarrow> Inl (Exn ValidationErr ''AsyncPublicTestResult''))
      | _ \<Rightarrow> Inl (Exn ValidationErr ''AsyncPublicTestResult''))"

definition load_public_result :: "uuid \<Rightarrow> db \<Rightarrow> execution_result option result" where
  "load_public_result eid d =
     (case row_with pr_execution eid (public_results d) of
        None \<Rightarrow> Inr None
      | Some r \<Rightarrow>
        res_bind (res_map validate_test_result (List.map_filter as_obj (pr_public_results r))) (\<lambda>results.
        if pr_hidden_total r < 0 \<or> pr_hidden_passed r < 0
        then Inl (Exn ValidationErr ''AsyncExecutionResult'')
        else Inr (Some \<lparr>xr_public_results = results, xr_hidden_total = pr_hidden_total r,
          xr_hidden_passed = pr_hidden_passed r, xr_stdout = pr_stdout r, xr_stderr = pr_stderr r,
          xr_candidate_message =
            (if pr_candidate_message r = [] then None else Some (pr_candidate_message r))\<rparr>)))"

definition execution_view :: "uuid \<Rightarrow> db \<Rightarrow> (execution_snapshot \<times> execution_result option) result" where
  "execution_view eid d =
     (case get_execution eid d of
        Inl x \<Rightarrow> Inl (if exn_class x = ExecutionNotFoundErr
          then Exn (HttpErr 404) ''Execution not found.'' else x)
      | Inr snapshot \<Rightarrow>
        res_bind (load_public_result eid d) (\<lambda>r.
        if (case es_runtime_ms snapshot of None \<Rightarrow> False | Some ms \<Rightarrow> ms < 0)
        then Inl (Exn ValidationErr ''AsyncExecutionView'')
        else Inr (snapshot, r)))"

definition cancel_execution ::
  "env \<Rightarrow> uuid \<Rightarrow> uuid \<Rightarrow> string \<Rightarrow> db \<Rightarrow>
     ((execution_snapshot \<times> execution_result option) \<times> db) result" where
  "cancel_execution e oid eid correlation d =
     (case res_bind (cancel e oid eid correlation d)
         (\<lambda>(_, d1). res_bind (execution_view eid d1) (\<lambda>v. Inr (v, d1))) of
        Inl x \<Rightarrow> Inl (case exn_class x of
            ExecutionNotFoundErr \<Rightarrow> Exn (HttpErr 404) ''Execution not found.''
          | ExecutionTransitionErr \<Rightarrow> Exn (HttpErr 409) (exn_message x)
          | _ \<Rightarrow> x)
      | Inr r \<Rightarrow> Inr r)"

section \<open>What queueing does to the tables\<close>

lemma store_queued_tables [simp]:
  "practice_sessions (store_queued e eid oid c row d) = practice_sessions d"
  "session_events (store_queued e eid oid c row d) = session_events d"
  "submissions (store_queued e eid oid c row d) = submissions d"
  "questions (store_queued e eid oid c row d) = questions d"
  "question_versions (store_queued e eid oid c row d) = question_versions d"
  by (simp_all add: store_queued_def insert_outbox_def append_event_def)

lemma create_queued_new:
  assumes "create_queued e eid oid c d d = Inr (q, d')" "find_by_idempotency e (cr_idempotency_key c) d = None"
  shows "\<exists>u. user_id e = Some u \<and> eid \<notin> rq_id ` set (requests d) \<and>
    d' = store_queued e eid oid c (new_request_row e u eid c) d \<and>
    queued_from_row (new_request_row e u eid c) False = Inr q"
  using assms find_by_idempotency_None [OF assms(2)]
  by (cases rule: create_queued_cases) (auto simp: request_key_def)

text \<open>A fresh request is stored with its configuration, within the back pressure of the count.\<close>

lemma queue_execution_new:
  assumes "queue_execution e parse ids typ rr question runtime key submission seen d = Inr (acc, d')"
    "find_by_idempotency e key d = None"
  obtains u language profile payload limits c where
    "length (active_of e typ seen) < maximum_active typ"
    "runtime_execution_config (lib e) parse question runtime (typ = Run) = Inr (language, profile, payload)"
    "limits_of profile = Inr limits"
    "c = queued_request typ rr question runtime key submission language limits payload"
    "user_id e = Some u" "fi_execution ids \<notin> rq_id ` set (requests d)"
    "d' = store_queued e (fi_execution ids) (fi_outbox ids) c (new_request_row e u (fi_execution ids) c) d"
    "acc = \<lparr>ea_execution_id = fi_execution ids, ea_submission_id = submission, ea_status = Queued,
       ea_duplicate = False\<rparr>"
proof -
  obtain language profile payload limits q where
    b: "enforce_backpressure e typ seen = Inr ()"
    and config: "runtime_execution_config (lib e) parse question runtime (typ = Run) = Inr (language, profile, payload)"
    and limits: "limits_of profile = Inr limits"
    and create: "create_queued e (fi_execution ids) (fi_outbox ids)
      (queued_request typ rr question runtime key submission language limits payload) d d = Inr (q, d')"
    and acc: "acc = \<lparr>ea_execution_id = qe_execution_id q, ea_submission_id = qe_submission_id q,
       ea_status = qe_status q, ea_duplicate = qe_duplicate q\<rparr>"
    using assms(1) unfolding queue_execution_def by (auto elim!: res_bind_InrE split: prod.splits)
  let ?c = "queued_request typ rr question runtime key submission language limits payload"
  obtain u where u: "user_id e = Some u" "fi_execution ids \<notin> rq_id ` set (requests d)"
    "d' = store_queued e (fi_execution ids) (fi_outbox ids) ?c (new_request_row e u (fi_execution ids) ?c) d"
    "queued_from_row (new_request_row e u (fi_execution ids) ?c) False = Inr q"
    using create_queued_new [OF create] assms(2) by (auto simp: queued_request_def)
  have "length (active_of e typ seen) < maximum_active typ"
    using b by (simp add: enforce_backpressure_def split: if_splits)
  moreover have "acc = \<lparr>ea_execution_id = fi_execution ids, ea_submission_id = submission,
      ea_status = Queued, ea_duplicate = False\<rparr>"
    using u(4) acc by (auto simp: queued_from_new_row queued_request_def)
  ultimately show thesis using config limits u by (intro that) auto
qed

lemma queue_execution_accepted:
  assumes "queue_execution e parse ids typ rr question runtime key submission seen d = Inr (acc, d')"
    "find_by_idempotency e key d = None"
  shows "acc = \<lparr>ea_execution_id = fi_execution ids, ea_submission_id = submission,
    ea_status = Queued, ea_duplicate = False\<rparr>"
  by (rule queue_execution_new [OF assms])

lemma queue_execution_tables:
  assumes "queue_execution e parse ids typ rr question runtime key submission seen d = Inr (acc, d')"
    "find_by_idempotency e key d = None"
  shows "practice_sessions d' = practice_sessions d" "session_events d' = session_events d"
    "submissions d' = submissions d" "questions d' = questions d"
    "question_versions d' = question_versions d"
  by (rule queue_execution_new [OF assms]; simp)+

lemma existing_execution_None [simp]:
  "existing_execution e key hash d = Inr None \<longleftrightarrow> find_by_idempotency e key d = None"
  by (auto simp: existing_execution_def res_bind_Inr_iff split: option.splits if_splits)

lemma insert_submission_Inr:
  "insert_submission e sbid rr question runtime d = Inr d' \<longleftrightarrow>
     (\<exists>u. user_id e = Some u \<and> sbid \<notin> sb_id ` set (submissions d) \<and>
       \<not> list_ex (\<lambda>s. sb_candidate s = u \<and> sb_idempotency_key s = Some (rr_key rr)) (submissions d) \<and>
       d' = d\<lparr>submissions := submissions d @ [new_submission_row e u sbid rr question runtime]\<rparr>)"
  by (auto simp: insert_submission_def split: option.splits if_splits)

lemma session_question_Inr:
  assumes "session_question e sid slug d = Inr (question, runtime)"
  obtains r v q where "find (own_session e sid) (practice_sessions d) = Some r"
    "joined_question d r = Some (v, q)" "qs_slug q = slug" "ps_state r \<notin> {COMPLETED, ABANDONED}"
    "ps_runtime r = Some (runtime_value runtime)" "published_question_payload slug d = Inr question"
    "question_runtime (lib e) question = Inr runtime"
  using assms
  by (auto simp: session_question_def parse_runtime_Some elim!: res_bind_InrE
      split: option.split_asm prod.split_asm if_split_asm sum.split_asm)

lemma queue_run_cases:
  assumes "queue_run_tx e parse ids rr seen d = Inr (acc, d')"
  obtains (replayed) question runtime where
      "session_question e (rr_session rr) (rr_slug rr) d = Inr (question, runtime)"
      "existing_execution e (run_key rr) (request_hash_of e Run rr question runtime) d = Inr (Some acc)"
      "d' = d"
  | (queued) question runtime acc0 d1 where
      "session_question e (rr_session rr) (rr_slug rr) d = Inr (question, runtime)"
      "find_by_idempotency e (run_key rr) d = None"
      "queue_execution e parse ids Run rr question runtime (run_key rr) None seen d = Inr (acc0, d1)"
      "record_run e rr runtime acc0 d1 = Inr (acc, d')"
  using assms unfolding queue_run_tx_def
  by (auto elim!: res_bind_InrE split: prod.split_asm option.split_asm)

lemma queue_submit_cases:
  assumes "queue_submit_tx e parse ids rr seen d = Inr (acc, d')"
  obtains (replayed) question runtime where
      "session_question e (rr_session rr) (rr_slug rr) d = Inr (question, runtime)"
      "existing_execution e (submit_key rr) (request_hash_of e Submit rr question runtime) d = Inr (Some acc)"
      "d' = d"
  | (queued) question runtime d1 acc0 d2 where
      "session_question e (rr_session rr) (rr_slug rr) d = Inr (question, runtime)"
      "find_by_idempotency e (submit_key rr) d = None"
      "insert_submission e (fi_submission ids) rr question runtime d = Inr d1"
      "queue_execution e parse ids Submit rr question runtime (submit_key rr)
         (Some (fi_submission ids)) seen d1 = Inr (acc0, d2)"
      "record_submission e rr runtime (fi_submission ids) acc0 d2 = Inr (acc, d')"
  using assms unfolding queue_submit_tx_def
  by (auto elim!: res_bind_InrE split: prod.split_asm option.split_asm)

end
