(* ===== verification/Practice_Lifecycle.thy ===== *)
theory Practice_Lifecycle imports Execution_Api begin

text \<open>
  Practice sessions as a transition system: \<open>practice_step\<close> has a rule for every operation that
  writes the session tables (\<open>practice.py\<close>, the queueing transactions of \<open>execution_api.py\<close>,
  \<open>execution_submission.py\<close>). \<open>session_change\<close> is the abstract specification: a session is opened,
  gets an event, evolves by one move of its state machine, or is submitted; every step is a
  sequence of such changes. The invariant and the guarantees are proved for the changes.
\<close>

section \<open>Rows found by owner and by key\<close>

definition put_session ::
  "uuid \<Rightarrow> practice_session_row \<Rightarrow> practice_session_row list \<Rightarrow> practice_session_row list" where
  "put_session sid r' = update_where (\<lambda>x. ps_id x = sid) (\<lambda>_. r')"

abbreviation session_of :: "uuid \<Rightarrow> db \<Rightarrow> practice_session_row option" where
  "session_of sid d \<equiv> row_with ps_id sid (practice_sessions d)"

abbreviation session_keys :: "db \<Rightarrow> bool" where
  "session_keys d \<equiv> distinct (map ps_id (practice_sessions d))"

lemma own_session_key: "own_session e sid r \<Longrightarrow> ps_id r = sid"
  by (simp add: own_session_def)

lemma find_own:
  assumes "distinct (map ps_id t)" "find (own_session e sid) t = Some r"
  shows "row_with ps_id sid t = Some r \<and> own_session e sid r"
proof -
  have "find (own_session e sid) t =
    (case row_with ps_id sid t of None \<Rightarrow> None | Some r \<Rightarrow> if own_session e sid r then Some r else None)"
    using assms(1) own_session_key by (rule find_guard)
  then show ?thesis using assms(2) by (auto split: option.splits if_splits)
qed

lemma touch_guarded:
  assumes "distinct (map ps_id t)" "row_with ps_id sid t = Some r" "G r" "\<And>x. G x \<Longrightarrow> ps_id x = sid"
  shows "update_where G f t = put_session sid (f r) t"
proof -
  have only: "x = r" if "x \<in> set t" "ps_id x = sid" for x
    using that assms(1,2) row_with_distinct [of ps_id t x] by simp
  have "(if G x then f x else x) = (if ps_id x = sid then f r else x)" if "x \<in> set t" for x
    using only [OF that] assms(3,4) row_with_SomeD [OF assms(2)] by auto
  then show ?thesis by (simp add: update_where_def put_session_def)
qed

lemma touch_by_key:
  assumes "distinct (map ps_id t)" "row_with ps_id sid t = Some r"
  shows "update_where (\<lambda>x. ps_id x = sid) f t = put_session sid (f r) t"
  using assms row_with_SomeD [OF assms(2)] by (intro touch_guarded) auto

lemma touch_own:
  assumes "distinct (map ps_id t)" "row_with ps_id sid t = Some r" "own_session e sid r"
  shows "update_where (own_session e sid) f t = put_session sid (f r) t"
  using assms own_session_key by (rule touch_guarded)

lemma put_put: "ps_id a = sid \<Longrightarrow> put_session sid b (put_session sid a t) = put_session sid b t"
  by (induction t) (auto simp: put_session_def)

lemma keys_put: "ps_id a = sid \<Longrightarrow> map ps_id (put_session sid a t) = map ps_id t"
  by (induction t) (auto simp: put_session_def)

lemma row_with_put:
  "ps_id a = sid \<Longrightarrow> row_with ps_id k (put_session sid a t) =
     (if k = sid then map_option (\<lambda>_. a) (row_with ps_id k t) else row_with ps_id k t)"
  by (induction t) (auto simp: put_session_def)

lemma set_put: "x \<in> set (put_session sid a t) \<Longrightarrow> x = a \<or> x \<in> set t \<and> ps_id x \<noteq> sid"
  by (auto simp: put_session_def set_update_where)

lemma session_view_Inr:
  assumes "session_view r v q = Inr pv"
  shows "pv_state pv = ps_state r" "pv_hint_count pv = ps_hint_count r" "pv_id pv = ps_id r"
    "pv_question_slug pv = qs_slug q" "0 \<le> ps_elapsed_seconds r" "0 \<le> ps_hint_count r"
  using assms by (auto simp: session_view_def split: option.splits if_splits)

text \<open>A session that can be read has a row of the candidate.\<close>

lemma get_session_row:
  assumes "get_session e sid d = Inr pv" "session_keys d"
  obtains r where "session_of sid d = Some r" "own_session e sid r" "pv_state pv = ps_state r"
    "pv_hint_count pv = ps_hint_count r" "0 \<le> ps_elapsed_seconds r" "0 \<le> ps_hint_count r"
  using assms find_own [of "practice_sessions d" e sid]
  by (fastforce simp: get_session_def split: option.splits prod.splits dest: session_view_Inr)

section \<open>The state machine\<close>

fun session_move :: "practice_state \<Rightarrow> practice_state \<Rightarrow> bool" where
  "session_move CREATED t = (t \<in> {IN_PROGRESS, SUBMITTED})"
| "session_move IN_PROGRESS t = (t \<in> {PAUSED, SUBMITTED})"
| "session_move PAUSED t = (t \<in> {IN_PROGRESS, SUBMITTED})"
| "session_move SUBMITTED t = (t = COMPLETED)"
| "session_move EVALUATING t = (t = COMPLETED)"
| "session_move COMPLETED t = False"
| "session_move ABANDONED t = False"

text \<open>What one change may do to the row of a session.\<close>

inductive session_evolve :: "practice_session_row \<Rightarrow> practice_session_row \<Rightarrow> bool" where
  evolve_patch: "ps_state r \<in> set open_states \<Longrightarrow> 0 \<le> ps_elapsed_seconds (patch_row e p r) \<Longrightarrow>
    session_evolve r (patch_row e p r)"
| evolve_move: "session_move (ps_state r) t \<Longrightarrow> t \<noteq> SUBMITTED \<Longrightarrow>
    session_evolve r (practice_transition_row e t r)"
| evolve_hint: "session_evolve r (hint_row e (ps_hint_count r + 1) r)"
| evolve_run: "ps_state r \<notin> {COMPLETED, ABANDONED} \<Longrightarrow> session_evolve r (run_count_row e source r)"
| evolve_complete: "ps_state r \<in> {SUBMITTED, EVALUATING} \<Longrightarrow> session_evolve r (complete_session e r)"

inductive_cases session_evolveE: "session_evolve r r'"

definition submitted_row :: "env \<Rightarrow> string \<Rightarrow> practice_session_row \<Rightarrow> practice_session_row" where
  "submitted_row e source r = submission_count_row e source (practice_transition_row e SUBMITTED r)"

abbreviation submission_sessions :: "db \<Rightarrow> uuid option list" where
  "submission_sessions d \<equiv> map sb_practice_session (submissions d)"

inductive session_change :: "db \<Rightarrow> db \<Rightarrow> bool" where
  change_open: "session_of sid d = None \<Longrightarrow>
    practice_sessions d' = practice_sessions d @ [new_session_row e u sid question runtime] \<Longrightarrow>
    session_events d' = session_events (append_session_event sid ''SESSION_STARTED'' payload d) \<Longrightarrow>
    submission_sessions d' = submission_sessions d \<Longrightarrow> session_change d d'"
| change_event: "session_of sid d \<noteq> None \<Longrightarrow> practice_sessions d' = practice_sessions d \<Longrightarrow>
    session_events d' = session_events (append_session_event sid event_type payload d) \<Longrightarrow>
    submission_sessions d' = submission_sessions d \<Longrightarrow> session_change d d'"
| change_evolve: "session_of sid d = Some r \<Longrightarrow> session_evolve r r' \<Longrightarrow>
    practice_sessions d' = put_session sid r' (practice_sessions d) \<Longrightarrow>
    session_events d' = session_events d \<Longrightarrow>
    submission_sessions d' = submission_sessions d \<Longrightarrow> session_change d d'"
| change_submit: "session_of sid d = Some r \<Longrightarrow> ps_state r \<in> set open_states \<Longrightarrow>
    practice_sessions d' = put_session sid (submitted_row e source r) (practice_sessions d) \<Longrightarrow>
    session_events d' = session_events d \<Longrightarrow>
    submission_sessions d' = submission_sessions d @ [Some sid] \<Longrightarrow> session_change d d'"
| change_none: "practice_sessions d' = practice_sessions d \<Longrightarrow> session_events d' = session_events d \<Longrightarrow>
    submission_sessions d' = submission_sessions d \<Longrightarrow> session_change d d'"

section \<open>Steps\<close>

inductive practice_step :: "db \<Rightarrow> db \<Rightarrow> bool" where
  practice_create: "create_practice_session e sid slug runtime d = Inr (v, d') \<Longrightarrow> practice_step d d'"
| practice_patch: "patch_practice_session e sid p d d = Inr (v, d') \<Longrightarrow> practice_step d d'"
| practice_start: "start_practice_session e sid d d = Inr (v, d') \<Longrightarrow> practice_step d d'"
| practice_pause: "pause_practice_session e sid d d = Inr (v, d') \<Longrightarrow> practice_step d d'"
| practice_resume: "resume_practice_session e sid d d = Inr (v, d') \<Longrightarrow> practice_step d d'"
| practice_complete: "complete_practice_session e sid d d = Inr (v, d') \<Longrightarrow> practice_step d d'"
| practice_event: "append_practice_event_route e sid event_type payload d = Inr d' \<Longrightarrow> practice_step d d'"
| practice_hint: "reveal_practice_hint e sid d = Inr (h, d') \<Longrightarrow> practice_step d d'"
| practice_run: "queue_run e parse ids rr seen d = Inr (a, d') \<Longrightarrow> practice_step d d'"
| practice_submit: "queue_submit e parse ids rr seen d = Inr (a, d') \<Longrightarrow> practice_step d d'"
| practice_finalize: "practice_step d (finalize_submission e ast pkg p d)"
| practice_other: "practice_sessions d' = practice_sessions d \<Longrightarrow> session_events d' = session_events d \<Longrightarrow>
    submissions d' = submissions d \<Longrightarrow> practice_step d d'"

definition practice_reachable :: "db \<Rightarrow> bool" where
  "practice_reachable d \<longleftrightarrow> practice_step\<^sup>*\<^sup>* empty_db d"

section \<open>Every step is a sequence of changes\<close>

lemma append_session_event_tables [simp]:
  "practice_sessions (append_session_event sid t p d) = practice_sessions d"
  "submissions (append_session_event sid t p d) = submissions d"
  "questions (append_session_event sid t p d) = questions d"
  "question_versions (append_session_event sid t p d) = question_versions d"
  "requests (append_session_event sid t p d) = requests d"
  by (simp_all add: append_session_event_def)

lemma append_session_event_cong:
  "session_events d = session_events d' \<Longrightarrow>
     session_events (append_session_event sid t p d) = session_events (append_session_event sid t p d')"
  by (simp add: append_session_event_def)

lemma event_change: "session_of sid d \<noteq> None \<Longrightarrow> session_change d (append_session_event sid t p d)"
  by (rule change_event) simp_all

lemma append_practice_event_Inr:
  "append_practice_event e sid t p d = Inr d' \<Longrightarrow>
     d' = append_session_event sid t p d \<and> (\<exists>v. get_session e sid d = Inr v)"
  by (auto simp: append_practice_event_def res_bind_Inr_iff)

lemma session_route_Inr [simp]: "session_route r = Inr y \<longleftrightarrow> r = Inr y"
  by (auto simp: session_route_def split: sum.splits)

lemma queue_route_Inr [simp]: "queue_route r = Inr y \<longleftrightarrow> r = Inr y"
  by (auto simp: queue_route_def split: sum.splits)

lemma create_changes:
  assumes "create_session e sid slug runtime d = Inr (v, d')"
  shows "session_change d d'"
proof -
  obtain question where q: "published_question_payload slug d = Inr question"
    "question_runtime (lib e) question = Inr runtime"
    using assms by (auto simp: create_session_def res_bind_Inr_iff split: if_splits)
  show ?thesis
  proof (cases "open_sessions e (qp_question_version_id question) runtime d")
    case Nil
    then obtain u d2 where u: "user_id e = Some u" "sid \<notin> ps_id ` set (practice_sessions d)"
      "append_practice_event e sid ''SESSION_STARTED''
         (JObj [(''question_slug'', JStr slug), (''runtime'', JStr (runtime_value runtime))])
         (d\<lparr>practice_sessions := practice_sessions d @ [new_session_row e u sid question runtime]\<rparr>) = Inr d2"
      "d' = d2"
      using assms q by (auto simp: create_session_def res_bind_Inr_iff Let_def split: option.splits if_splits)
    have "session_of sid d = None" using u(2) by (simp add: row_with_None_iff)
    then show ?thesis
      using append_practice_event_Inr [OF u(3)] u(4)
      by (intro change_open [where sid = sid and e = e and u = u and question = question and runtime = runtime])
        (auto simp: append_session_event_def)
  next
    case (Cons x xs)
    then have "d' = d" using assms q by (auto simp: create_session_def res_bind_Inr_iff)
    then show ?thesis by (simp add: change_none)
  qed
qed

text \<open>The successful outcomes of the operations, read off their definitions.\<close>

lemma patch_session_Inr:
  "patch_session e sid p seen d = Inr (v, d') \<longleftrightarrow>
     (\<exists>c. get_session e sid seen = Inr c \<and> pv_state c \<in> set open_states \<and>
       sp_elapsed_seconds p \<noteq> Some None \<and>
       d' = d\<lparr>practice_sessions := update_where (own_session e sid) (patch_row e p) (practice_sessions d)\<rparr> \<and>
       get_session e sid d' = Inr v)"
  unfolding patch_session_def Let_def res_bind_Inr_iff
  by (rule ex_cong1) (auto simp: res_bind_Inr_iff)

lemma transition_session_Inr:
  "transition_session e sid t allowed seen d = Inr (v, d') \<longleftrightarrow>
     (\<exists>c. get_session e sid seen = Inr c \<and> pv_state c \<in> set allowed \<and>
       append_practice_event e sid (''SESSION_'' @ practice_text t)
         (JObj [(''from'', JStr (practice_text (pv_state c))), (''to'', JStr (practice_text t))])
         (d\<lparr>practice_sessions := update_where (own_session e sid) (practice_transition_row e t)
           (practice_sessions d)\<rparr>) = Inr d' \<and>
       get_session e sid d' = Inr v)"
  unfolding transition_session_def Let_def res_bind_Inr_iff
  by (rule ex_cong1) (auto simp: res_bind_Inr_iff)

lemma patch_changes:
  assumes "patch_session e sid p d d = Inr (v, d')" "session_keys d"
  shows "session_change d d'"
proof -
  let ?d1 = "d\<lparr>practice_sessions := update_where (own_session e sid) (patch_row e p) (practice_sessions d)\<rparr>"
  obtain current where c: "get_session e sid d = Inr current" "pv_state current \<in> set open_states"
    "get_session e sid ?d1 = Inr v" "d' = ?d1"
    using assms(1) unfolding patch_session_Inr by blast
  obtain r where r: "session_of sid d = Some r" "own_session e sid r" "pv_state current = ps_state r"
    using get_session_row [OF c(1) assms(2)] .
  have put: "practice_sessions ?d1 = put_session sid (patch_row e p r) (practice_sessions d)"
    using touch_own [OF assms(2) r(1,2)] by simp
  have id: "ps_id (patch_row e p r) = sid" using r(2) by (simp add: patch_row_def own_session_def)
  have keys: "session_keys ?d1" unfolding put keys_put [OF id] by (rule assms(2))
  obtain r' where r': "session_of sid ?d1 = Some r'" "0 \<le> ps_elapsed_seconds r'"
    using get_session_row [OF c(3) keys] .
  have "r' = patch_row e p r" using r'(1) unfolding put row_with_put [OF id] using r(1) by simp
  then have "session_evolve r (patch_row e p r)" using r'(2) c(2) r(3) by (simp add: evolve_patch)
  then show ?thesis using put r(1) c(4) by (intro change_evolve) auto
qed

lemma transition_effect:
  assumes "transition_session e sid t allowed d d = Inr (v, d')" "session_keys d"
  obtains r p where "session_of sid d = Some r" "own_session e sid r" "ps_state r \<in> set allowed"
    "d' = append_session_event sid (''SESSION_'' @ practice_text t) p
       (d\<lparr>practice_sessions := put_session sid (practice_transition_row e t r) (practice_sessions d)\<rparr>)"
proof -
  obtain current p where c: "get_session e sid d = Inr current" "pv_state current \<in> set allowed"
    "append_practice_event e sid (''SESSION_'' @ practice_text t) p
       (d\<lparr>practice_sessions := update_where (own_session e sid) (practice_transition_row e t)
          (practice_sessions d)\<rparr>) = Inr d'"
    using assms(1) unfolding transition_session_Inr by blast
  obtain r where r: "session_of sid d = Some r" "own_session e sid r" "pv_state current = ps_state r"
    using get_session_row [OF c(1) assms(2)] .
  have "update_where (own_session e sid) (practice_transition_row e t) (practice_sessions d) =
      put_session sid (practice_transition_row e t r) (practice_sessions d)"
    using touch_own [OF assms(2) r(1,2)] .
  then show thesis using that r c(2) append_practice_event_Inr [OF c(3)] by simp
qed

lemma put_event_changes:
  assumes "session_of sid d = Some r" "session_evolve r r'" "ps_id r' = sid"
  shows "session_change\<^sup>*\<^sup>* d (append_session_event sid t p
    (d\<lparr>practice_sessions := put_session sid r' (practice_sessions d)\<rparr>))"
proof -
  let ?d1 = "d\<lparr>practice_sessions := put_session sid r' (practice_sessions d)\<rparr>"
  have "session_change d ?d1" using assms(1,2) by (intro change_evolve) auto
  moreover have "session_change ?d1 (append_session_event sid t p ?d1)"
    using assms by (intro event_change) (simp add: row_with_put)
  ultimately show ?thesis by (meson r_into_rtranclp rtranclp.rtrancl_into_rtrancl)
qed

lemma transition_changes:
  assumes "transition_session e sid t allowed d d = Inr (v, d')" "session_keys d"
    "\<And>s. s \<in> set allowed \<Longrightarrow> session_move s t" "t \<noteq> SUBMITTED"
  shows "session_change\<^sup>*\<^sup>* d d'"
proof -
  obtain r p where r: "session_of sid d = Some r" "own_session e sid r" "ps_state r \<in> set allowed"
    and d': "d' = append_session_event sid (''SESSION_'' @ practice_text t) p
       (d\<lparr>practice_sessions := put_session sid (practice_transition_row e t r) (practice_sessions d)\<rparr>)"
    using transition_effect [OF assms(1,2)] .
  show ?thesis unfolding d'
    using r assms(3,4) by (intro put_event_changes [OF r(1)] evolve_move)
      (auto simp: practice_transition_row_def own_session_def)
qed

lemma hint_changes:
  assumes "next_hint e sid d = Inr (h, d')" "session_keys d"
  shows "session_change\<^sup>*\<^sup>* d d'"
proof -
  obtain session p where c: "get_session e sid d = Inr session"
    "append_practice_event e sid ''HINT_REVEALED'' p
       (d\<lparr>practice_sessions := update_where (own_session e sid) (hint_row e (pv_hint_count session + 1))
          (practice_sessions d)\<rparr>) = Inr d'"
    using assms(1) by (auto simp: next_hint_def res_bind_Inr_iff Let_def split: if_splits)
  obtain r where r: "session_of sid d = Some r" "own_session e sid r" "pv_hint_count session = ps_hint_count r"
    using get_session_row [OF c(1) assms(2)] .
  have put: "update_where (own_session e sid) (hint_row e (pv_hint_count session + 1)) (practice_sessions d) =
      put_session sid (hint_row e (ps_hint_count r + 1) r) (practice_sessions d)"
    using touch_own [OF assms(2) r(1,2)] r(3) by simp
  show ?thesis
    using put_event_changes [OF r(1) evolve_hint] append_practice_event_Inr [OF c(2)] r(2)
    unfolding put by (auto simp: hint_row_def own_session_def)
qed

lemma finalize_submission_practice:
  "submission_sessions (finalize_submission e ast pkg p d) = submission_sessions d"
  by (auto simp: finalize_submission_def Let_def intro!: map_update_where_same
      simp: submission_update_def split: option.split)

lemma finalize_changes:
  assumes "session_keys d"
  shows "session_change\<^sup>*\<^sup>* d (finalize_submission e ast pkg p d)"
proof -
  let ?d' = "finalize_submission e ast pkg p d"
  let ?s = "dp_practice_session_id pkg"
  show ?thesis
  proof (cases "find (completable ?s) (practice_sessions d)")
    case None
    then have "update_where (completable ?s) (complete_session e) (practice_sessions d) = practice_sessions d"
      by (intro update_where_none) (auto simp: find_None_iff)
    then have "practice_sessions ?d' = practice_sessions d \<and> session_events ?d' = session_events d"
      using None by (auto simp: finalize_submission_def Let_def split: option.split)
    then show ?thesis using finalize_submission_practice by (intro r_into_rtranclp change_none) auto
  next
    case (Some r)
    have "find (completable ?s) (practice_sessions d) = (case session_of ?s d of None \<Rightarrow> None
        | Some r \<Rightarrow> if completable ?s r then Some r else None)"
      using assms by (rule find_guard) (simp add: completable_def)
    then have r: "session_of ?s d = Some r" "completable ?s r"
      using Some by (auto split: option.splits if_splits)
    have put: "update_where (completable ?s) (complete_session e) (practice_sessions d) =
        put_session ?s (complete_session e r) (practice_sessions d)"
      using assms r by (rule touch_guarded) (simp add: completable_def)
    have ev: "session_evolve r (complete_session e r)" "ps_id (complete_session e r) = ?s"
      using r(2) evolve_complete [of r e] by (auto simp: completable_def complete_session_def)
    show ?thesis
    proof (cases "?d' = d")
      case False
      then obtain d1 t pl where d1: "?d' = append_session_event ?s t pl d1"
        "practice_sessions d1 = put_session ?s (complete_session e r) (practice_sessions d)"
        "session_events d1 = session_events d" "submission_sessions d1 = submission_sessions d"
        using Some put finalize_submission_practice [of e ast pkg p d]
        by (fastforce simp: finalize_submission_def Let_def split: option.splits if_splits)
      have "session_change d d1" using r(1) ev(1) d1(2-4) by (rule change_evolve)
      moreover have "session_change d1 ?d'"
        unfolding d1(1) by (rule event_change) (simp add: d1(2) row_with_put [OF ev(2)] r(1))
      ultimately show ?thesis by (meson r_into_rtranclp rtranclp.rtrancl_into_rtrancl)
    qed simp
  qed
qed

lemma session_question_row:
  assumes "session_question e sid slug d = Inr (question, runtime)" "session_keys d"
  obtains r where "session_of sid d = Some r" "own_session e sid r" "ps_state r \<notin> {COMPLETED, ABANDONED}"
  using session_question_Inr [OF assms(1)] find_own [OF assms(2)] by metis

lemma run_changes:
  assumes "queue_run_tx e parse ids rr seen d = Inr (acc, d')" "session_keys d"
  shows "session_change\<^sup>*\<^sup>* d d'"
  using assms(1)
proof (cases rule: queue_run_cases)
  case (queued question runtime acc0 d1)
  let ?sid = "rr_session rr" and ?f = "run_count_row e (rr_source_code rr)"
  obtain r where r: "session_of ?sid d = Some r" "own_session e ?sid r" "ps_state r \<notin> {COMPLETED, ABANDONED}"
    using session_question_row [OF queued(1) assms(2)] .
  note same = queue_execution_tables [OF queued(3,2)]
  have id: "ps_id (?f r) = ?sid" using r(2) by (simp add: run_count_row_def own_session_def)
  have put: "update_where (\<lambda>x. ps_id x = ?sid) ?f (practice_sessions d1) =
      put_session ?sid (?f r) (practice_sessions d1)"
    using touch_by_key r(1) assms(2) same(1) by simp
  obtain p where d': "d' = append_session_event ?sid ''CODE_RUN_QUEUED'' p
      (d1\<lparr>practice_sessions := put_session ?sid (?f r) (practice_sessions d1)\<rparr>)"
    using queued(4) put by (auto simp: record_run_def dest!: append_practice_event_Inr elim!: res_bind_InrE)
  have "session_change d d1" using same by (intro change_none) auto
  moreover have "session_change\<^sup>*\<^sup>* d1 d'" unfolding d'
    using r same(1) by (intro put_event_changes [OF _ _ id]) (auto intro: evolve_run)
  ultimately show ?thesis by (meson converse_rtranclp_into_rtranclp)
qed simp

lemma submit_changes:
  assumes "queue_submit_tx e parse ids rr seen d = Inr (acc, d')" "session_keys d"
  shows "session_change\<^sup>*\<^sup>* d d'"
  using assms(1)
proof (cases rule: queue_submit_cases)
  case (queued question runtime d1 acc0 d2)
  let ?sid = "rr_session rr" and ?f = "submission_count_row e (rr_source_code rr)"
  let ?t = "practice_transition_row e SUBMITTED"
  obtain u where d1: "d1 = d\<lparr>submissions := submissions d @ [new_submission_row e u (fi_submission ids) rr question runtime]\<rparr>"
    using queued(3) by (auto simp: insert_submission_Inr)
  have "find_by_idempotency e (submit_key rr) d1 = None"
    using queued(2) by (simp add: d1 find_by_idempotency_def split: option.splits)
  note queue_execution_tables [OF queued(4) this]
  then have same: "practice_sessions d2 = practice_sessions d" "session_events d2 = session_events d"
      "submissions d2 = submissions d1"
    by (simp_all add: d1)
  obtain view d3 p where t: "transition_session e ?sid SUBMITTED open_states d2 d2 = Inr (view, d3)"
    and d': "d' = append_session_event ?sid ''SUBMISSION_QUEUED'' p
      (d3\<lparr>practice_sessions := update_where (\<lambda>x. ps_id x = ?sid) ?f (practice_sessions d3)\<rparr>)"
    using queued(5) by (auto simp: record_submission_def dest!: append_practice_event_Inr elim!: res_bind_InrE)
  have keys: "session_keys d2" using assms(2) same(1) by simp
  obtain r p3 where r: "session_of ?sid d2 = Some r" "own_session e ?sid r" "ps_state r \<in> set open_states"
    and d3: "d3 = append_session_event ?sid (''SESSION_'' @ practice_text SUBMITTED) p3
       (d2\<lparr>practice_sessions := put_session ?sid (?t r) (practice_sessions d2)\<rparr>)"
    using transition_effect [OF t keys] .
  have id: "ps_id (?t r) = ?sid" "ps_id (?f (?t r)) = ?sid"
    using r(2) by (simp_all add: practice_transition_row_def submission_count_row_def own_session_def)
  have keys3: "session_keys d3" unfolding d3 append_session_event_tables
    using keys keys_put [OF id(1)] by simp
  have "session_of ?sid d3 = Some (?t r)" using r(1) by (simp add: d3 row_with_put [OF id(1)])
  then have put: "practice_sessions d' = put_session ?sid (submitted_row e (rr_source_code rr) r) (practice_sessions d)"
    using touch_by_key [OF keys3] put_put [OF id(1)] same(1)
    by (simp add: d' d3 submitted_row_def)
  let ?a = "d'\<lparr>session_events := session_events d\<rparr>" and ?b = "d'\<lparr>session_events := session_events d3\<rparr>"
  have "session_change d ?a"
    using r same put d1 by (intro change_submit) (auto simp: d' d3 new_submission_row_def)
  moreover have "session_of ?sid ?a \<noteq> None"
    using put r(1) id same(1) by (simp add: row_with_put submitted_row_def)
  moreover have "session_change ?a ?b"
    by (rule change_event [OF calculation(2)]) (auto simp: d3 append_session_event_def same)
  moreover have "session_change ?b d'"
    by (rule change_event) (use calculation(2) in \<open>auto simp: d' append_session_event_def\<close>)
  ultimately show ?thesis by (meson r_into_rtranclp rtranclp.rtrancl_into_rtrancl)
qed simp

lemma practice_step_changes: "practice_step d d' \<Longrightarrow> session_keys d \<Longrightarrow> session_change\<^sup>*\<^sup>* d d'"
proof (induction rule: practice_step.induct)
  case (practice_finalize d e ast pkg p)
  then show ?case by (rule finalize_changes)
next
  case (practice_other d' d)
  then show ?case by (intro r_into_rtranclp change_none) auto
next
  case (practice_complete e sid d v d')
  then show ?case
    by (auto simp: complete_practice_session_def elim!: transition_changes)
next
  case (practice_event e sid event_type payload d d')
  then obtain view where "get_session e sid d = Inr view" "d' = append_session_event sid event_type payload d"
    using append_practice_event_Inr by (fastforce simp: append_practice_event_route_def)
  then show ?case
    using get_session_row [OF _ practice_event(2)] by (metis event_change r_into_rtranclp option.discI)
qed (auto simp: create_practice_session_def patch_practice_session_def start_practice_session_def
    pause_practice_session_def resume_practice_session_def complete_practice_session_def
    reveal_practice_hint_def queue_run_def queue_submit_def
    dest: create_changes patch_changes hint_changes run_changes submit_changes
    intro: transition_changes)

section \<open>The invariant\<close>

text \<open>
  The columns of a reachable session: it has been started, it is never \<open>CREATED\<close>, \<open>EVALUATING\<close>
  or \<open>ABANDONED\<close> (no operation sets these states), the submission and completion times are set
  exactly in the states they name, and a session has been submitted at most once.
\<close>

definition session_columns :: "practice_session_row \<Rightarrow> bool" where
  "session_columns r \<longleftrightarrow>
     ps_state r \<in> {IN_PROGRESS, PAUSED, SUBMITTED, COMPLETED} \<and> ps_started_at r \<noteq> None \<and>
     (ps_submitted_at r \<noteq> None \<longleftrightarrow> ps_state r \<in> {SUBMITTED, COMPLETED}) \<and>
     (ps_completed_at r \<noteq> None \<longleftrightarrow> ps_state r = COMPLETED) \<and>
     ps_submission_count r = (if ps_state r \<in> {SUBMITTED, COMPLETED} then 1 else 0) \<and>
     0 \<le> ps_elapsed_seconds r \<and> 0 \<le> ps_hint_count r \<and> 0 \<le> ps_run_count r"

definition events_of_session :: "uuid \<Rightarrow> db \<Rightarrow> session_event_row list" where
  "events_of_session sid d = filter (\<lambda>ev. pse_session ev = sid) (session_events d)"

text \<open>The events of a session are numbered from one without a gap and begin with its start.\<close>

definition session_history_ok :: "session_event_row list \<Rightarrow> bool" where
  "session_history_ok evs \<longleftrightarrow> map pse_sequence evs = map int [1..<Suc (length evs)] \<and>
     (case evs of [] \<Rightarrow> False | ev # _ \<Rightarrow> pse_event_type ev = ''SESSION_STARTED'')"

definition session_ok :: "db \<Rightarrow> practice_session_row \<Rightarrow> bool" where
  "session_ok d r \<longleftrightarrow> session_columns r \<and> session_history_ok (events_of_session (ps_id r) d) \<and>
     count_list (submission_sessions d) (Some (ps_id r)) = nat (ps_submission_count r)"

definition practice_inv :: "db \<Rightarrow> bool" where
  "practice_inv d \<longleftrightarrow> session_keys d \<and> list_all (session_ok d) (practice_sessions d) \<and>
     list_all (\<lambda>ev. session_of (pse_session ev) d \<noteq> None) (session_events d) \<and>
     list_all (\<lambda>s. case s of None \<Rightarrow> True | Some k \<Rightarrow> session_of k d \<noteq> None) (submission_sessions d)"

lemma practice_invI:
  assumes "session_keys d" "\<And>r. r \<in> set (practice_sessions d) \<Longrightarrow> session_ok d r"
    "\<And>ev. ev \<in> set (session_events d) \<Longrightarrow> session_of (pse_session ev) d \<noteq> None"
    "\<And>k. Some k \<in> set (submission_sessions d) \<Longrightarrow> session_of k d \<noteq> None"
  shows "practice_inv d"
proof -
  have "list_all (\<lambda>s. case s of None \<Rightarrow> True | Some k \<Rightarrow> session_of k d \<noteq> None) (submission_sessions d)"
    unfolding list_all_iff
  proof
    fix s assume "s \<in> set (submission_sessions d)"
    then show "case s of None \<Rightarrow> True | Some k \<Rightarrow> session_of k d \<noteq> None"
      using assms(4) by (cases rule: option.exhaust [of s]) (simp_all del: set_map)
  qed
  then show ?thesis
    unfolding practice_inv_def list_all_iff using assms(1,2,3) by blast
qed

lemma practice_invD:
  assumes "practice_inv d"
  shows "session_keys d" "\<forall>r\<in>set (practice_sessions d). session_ok d r"
    "\<forall>ev\<in>set (session_events d). session_of (pse_session ev) d \<noteq> None"
    "\<forall>k. Some k \<in> set (submission_sessions d) \<longrightarrow> session_of k d \<noteq> None"
proof -
  note inv = assms [unfolded practice_inv_def list_all_iff]
  show "session_keys d" using inv by blast
  show "\<forall>r\<in>set (practice_sessions d). session_ok d r" using inv by blast
  show "\<forall>ev\<in>set (session_events d). session_of (pse_session ev) d \<noteq> None" using inv by blast
  show "\<forall>k. Some k \<in> set (submission_sessions d) \<longrightarrow> session_of k d \<noteq> None"
    using bspec [OF conjunct2 [OF conjunct2 [OF conjunct2 [OF inv]]]] by fastforce
qed

lemma practice_inv_empty: "practice_inv empty_db"
  by (simp add: practice_inv_def empty_db_def)

lemma practice_inv_row: "practice_inv d \<Longrightarrow> session_of sid d = Some r \<Longrightarrow> session_ok d r \<and> ps_id r = sid"
  by (auto simp: practice_inv_def list_all_iff dest: row_with_SomeD)

text \<open>Every change of a row keeps its identity and its columns.\<close>

lemma session_move_target:
  "session_move s t \<Longrightarrow> s \<in> {IN_PROGRESS, PAUSED, SUBMITTED, COMPLETED} \<Longrightarrow> t \<noteq> SUBMITTED \<Longrightarrow>
     (s, t) \<in> {(IN_PROGRESS, PAUSED), (PAUSED, IN_PROGRESS), (SUBMITTED, COMPLETED)}"
  by auto

lemma evolve_columns:
  assumes "session_evolve r r'" "session_columns r"
  shows "session_columns r' \<and> ps_id r' = ps_id r \<and> ps_submission_count r' = ps_submission_count r"
  using assms
proof (cases rule: session_evolve.cases)
  case (evolve_move t e)
  then show ?thesis
    using assms(2) session_move_target [of "ps_state r" t]
    by (auto simp: session_columns_def practice_transition_row_def coalesce_def split: option.split)
qed (auto simp: session_columns_def open_states_def patch_row_def hint_row_def run_count_row_def
    complete_session_def)

lemma submitted_columns:
  assumes "session_columns r" "ps_state r \<in> set open_states"
  shows "session_columns (submitted_row e source r) \<and> ps_id (submitted_row e source r) = ps_id r \<and>
    ps_submission_count (submitted_row e source r) = 1 \<and> ps_submission_count r = 0"
  using assms
  by (auto simp: session_columns_def open_states_def submitted_row_def submission_count_row_def
      practice_transition_row_def)

lemma new_session_columns:
  "session_columns (new_session_row e u sid question runtime) \<and>
     ps_id (new_session_row e u sid question runtime) = sid \<and>
     ps_submission_count (new_session_row e u sid question runtime) = 0"
  by (simp add: session_columns_def new_session_row_def)

text \<open>Appending an event extends the history of its session and no other.\<close>

lemma events_after_append:
  "events_of_session k (append_session_event sid t p d) = events_of_session k d @
     (if k = sid then [\<lparr>pse_session = sid,
       pse_sequence = next_sequence 0 (map pse_sequence (events_of_session sid d)),
       pse_event_type = t, pse_payload = p\<rparr>] else [])"
  by (simp add: append_session_event_def events_of_session_def)

lemma events_of_session_cong: "session_events d = session_events d' \<Longrightarrow> events_of_session sid d = events_of_session sid d'"
  by (simp add: events_of_session_def)

lemma history_snoc:
  assumes "session_history_ok evs \<or> evs = [] \<and> t = ''SESSION_STARTED''"
  shows "session_history_ok (evs @ [\<lparr>pse_session = sid, pse_sequence = next_sequence 0 (map pse_sequence evs),
     pse_event_type = t, pse_payload = p\<rparr>])"
proof -
  have seq: "map pse_sequence evs = map int [1..<Suc (length evs)]"
    using assms by (auto simp: session_history_ok_def)
  show ?thesis
    using assms unfolding session_history_ok_def map_append seq next_sequence_upt_from_1
    by (cases evs) (auto simp: session_history_ok_def)
qed

lemma history_append:
  assumes "session_history_ok (events_of_session k d)"
  shows "session_history_ok (events_of_session k (append_session_event sid t p d))"
  using assms history_snoc [of "events_of_session sid d" t sid p] by (auto simp: events_after_append)

text \<open>A change leaves the sessions it does not name as they are.\<close>

lemma session_ok_same:
  assumes "session_ok d r" "events_of_session (ps_id r) d' = events_of_session (ps_id r) d"
    "count_list (submission_sessions d') (Some (ps_id r)) = count_list (submission_sessions d) (Some (ps_id r))"
  shows "session_ok d' r"
  using assms by (simp add: session_ok_def)

lemma session_ok_put:
  assumes "list_all (session_ok d) (practice_sessions d)" "ps_id r' = sid"
    "practice_sessions d' = put_session sid r' (practice_sessions d)" "session_ok d' r'"
    "session_events d' = session_events d"
    "\<And>k. k \<noteq> sid \<Longrightarrow> count_list (submission_sessions d') (Some k) = count_list (submission_sessions d) (Some k)"
  shows "list_all (session_ok d') (practice_sessions d')"
  using assms set_put [of _ sid r' "practice_sessions d"] session_ok_same [of d _ d']
    events_of_session_cong [OF assms(5)]
  by (fastforce simp: list_all_iff)

lemma row_with_put_None:
  "ps_id a = sid \<Longrightarrow> row_with ps_id k (put_session sid a t) = None \<longleftrightarrow> row_with ps_id k t = None"
  by (simp add: row_with_put)

lemma change_inv_open:
  assumes inv: "practice_inv d" and none: "session_of sid d = None"
    and s: "practice_sessions d' = practice_sessions d @ [new_session_row e u sid question runtime]"
    and ev: "session_events d' = session_events (append_session_event sid ''SESSION_STARTED'' p d)"
    and sub: "submission_sessions d' = submission_sessions d"
  shows "practice_inv d'"
proof -
  let ?r = "new_session_row e u sid question runtime"
  have fresh: "events_of_session sid d = []"
    using practice_invD(3) [OF inv] none by (auto simp: events_of_session_def filter_empty_conv)
  have "Some sid \<notin> set (submission_sessions d)"
    using practice_invD(4) [OF inv] none by blast
  then have nosub: "count_list (submission_sessions d) (Some sid) = 0" by (rule count_notin)
  have events: "events_of_session k d' = events_of_session k (append_session_event sid ''SESSION_STARTED'' p d)" for k
    using ev by (rule events_of_session_cong)
  have absent: "sid \<notin> ps_id ` set (practice_sessions d)"
    by (rule none [unfolded row_with_None_iff])
  have "session_ok d' r" if "r \<in> set (practice_sessions d)" for r
  proof (rule session_ok_same [of d])
    show "session_ok d r" using inv that by (simp add: practice_inv_def list_all_iff)
    show "events_of_session (ps_id r) d' = events_of_session (ps_id r) d"
      using absent that by (auto simp: events events_after_append)
  qed (simp add: sub)
  moreover have "session_ok d' ?r"
    using new_session_columns [of e u sid question runtime] history_snoc [of "[]" "''SESSION_STARTED''" sid p]
    by (simp add: session_ok_def sub nosub events events_after_append fresh)
  moreover have "session_keys d'"
    using inv absent new_session_columns [of e u sid question runtime] by (simp add: practice_inv_def s)
  moreover have there: "session_of k d' \<noteq> None" if "k = sid \<or> session_of k d \<noteq> None" for k
    using that new_session_columns [of e u sid question runtime] by (auto simp: s row_with_append split: option.splits)
  moreover have "session_of (pse_session x) d' \<noteq> None" if "x \<in> set (session_events d')" for x
    using that practice_invD(3) [OF inv] by (intro there) (auto simp: ev append_session_event_def)
  moreover have "session_of k d' \<noteq> None" if "Some k \<in> set (submission_sessions d')" for k
    using that practice_invD(4) [OF inv] unfolding sub by (intro there) blast
  moreover have "session_ok d' x" if "x \<in> set (practice_sessions d')" for x
    using that calculation(1,2) unfolding s by auto
  ultimately show ?thesis by (intro practice_invI) blast+
qed

lemma change_inv_put:
  assumes inv: "practice_inv d" and r': "ps_id r' = sid" "session_of sid d \<noteq> None"
    and s: "practice_sessions d' = put_session sid r' (practice_sessions d)"
    and ok: "session_ok d' r'" and ev: "session_events d' = session_events d"
    and sub: "submission_sessions d' = submission_sessions d \<or>
      submission_sessions d' = submission_sessions d @ [Some sid]"
  shows "practice_inv d'"
proof -
  have all: "list_all (session_ok d') (practice_sessions d')"
  proof (rule session_ok_put [OF _ r'(1) s ok ev])
    show "list_all (session_ok d) (practice_sessions d)"
      using practice_invD(2) [OF inv] by (simp add: list_all_iff)
    show "count_list (submission_sessions d') (Some k) = count_list (submission_sessions d) (Some k)"
      if "k \<noteq> sid" for k using sub that by (auto simp del: map_append)
  qed
  have there: "session_of k d' = None \<longleftrightarrow> session_of k d = None" for k
    unfolding s by (rule row_with_put_None [OF r'(1)])
  show ?thesis
  proof (rule practice_invI)
    show "session_keys d'" unfolding s keys_put [OF r'(1)] by (rule practice_invD(1) [OF inv])
    show "session_ok d' r" if "r \<in> set (practice_sessions d')" for r
      using all that by (simp add: list_all_iff)
    show "session_of (pse_session x) d' \<noteq> None" if "x \<in> set (session_events d')" for x
      using practice_invD(3) [OF inv] that unfolding there ev by blast
    show "session_of k d' \<noteq> None" if "Some k \<in> set (submission_sessions d')" for k
      using practice_invD(4) [OF inv] that sub r'(2) unfolding there by (auto simp del: set_map)
  qed
qed

lemma change_inv:
  assumes "session_change d d'" "practice_inv d"
  shows "practice_inv d'"
  using assms(1)
proof (cases rule: session_change.cases)
  case (change_open sid e u question runtime payload)
  then show ?thesis using change_inv_open assms(2) by blast
next
  case (change_event sid event_type payload)
  then have ok: "session_ok d' r" if "session_ok d r" for r
    using that history_append [of "ps_id r" d sid event_type payload] events_of_session_cong [of d' _ "ps_id r"]
    by (simp add: session_ok_def)
  show ?thesis
    by (rule practice_invI)
      (use change_event ok practice_invD [OF assms(2)] in \<open>auto simp: append_session_event_def simp del: set_map\<close>)
next
  case (change_evolve sid r r')
  have r: "session_ok d r" "ps_id r = sid"
    using practice_inv_row [OF assms(2) change_evolve(1)] by auto
  have new: "session_columns r' \<and> ps_id r' = sid \<and> ps_submission_count r' = ps_submission_count r"
    using evolve_columns [OF change_evolve(2)] r by (simp add: session_ok_def)
  have "session_ok d' r'"
    using r new change_evolve(5) events_of_session_cong [OF change_evolve(4)] by (simp add: session_ok_def)
  then show ?thesis
    using change_evolve new assms(2) by (intro change_inv_put [OF assms(2)]) auto
next
  case (change_submit sid r e source)
  have r: "session_ok d r" "ps_id r = sid"
    using practice_inv_row [OF assms(2) change_submit(1)] by auto
  have new: "session_columns (submitted_row e source r) \<and> ps_id (submitted_row e source r) = sid \<and>
      ps_submission_count (submitted_row e source r) = 1 \<and> ps_submission_count r = 0"
    using submitted_columns r change_submit(2) by (simp add: session_ok_def)
  have "session_ok d' (submitted_row e source r)"
    using r new change_submit(5) events_of_session_cong [OF change_submit(4)] by (simp add: session_ok_def)
  then show ?thesis
    using change_submit new by (intro change_inv_put [OF assms(2)]) auto
next
  case change_none
  then have ok: "session_ok d' r \<longleftrightarrow> session_ok d r" for r
    using events_of_session_cong [OF change_none(2)] by (simp add: session_ok_def)
  show ?thesis
    by (rule practice_invI)
      (use change_none ok practice_invD [OF assms(2)] in \<open>auto simp del: set_map\<close>)
qed

lemma changes_inv: "session_change\<^sup>*\<^sup>* d d' \<Longrightarrow> practice_inv d \<Longrightarrow> practice_inv d'"
  by (induction rule: rtranclp_induct) (auto intro: change_inv)

lemma practice_step_inv: "practice_step d d' \<Longrightarrow> practice_inv d \<Longrightarrow> practice_inv d'"
  using practice_step_changes changes_inv practice_inv_def by blast

lemma practice_steps_inv: "practice_step\<^sup>*\<^sup>* d d' \<Longrightarrow> practice_inv d \<Longrightarrow> practice_inv d'"
  by (induction rule: rtranclp_induct) (auto intro: practice_step_inv)

lemma practice_reachable_inv: "practice_reachable d \<Longrightarrow> practice_inv d"
  unfolding practice_reachable_def using practice_steps_inv practice_inv_empty by blast

lemma practice_steps_changes:
  "practice_step\<^sup>*\<^sup>* d d' \<Longrightarrow> practice_inv d \<Longrightarrow> session_change\<^sup>*\<^sup>* d d'"
proof (induction rule: rtranclp_induct)
  case (step d1 d2)
  have "session_change\<^sup>*\<^sup>* d1 d2"
    using practice_step_changes [OF step(2)] practice_steps_inv [OF step(1) step(4)]
    by (simp add: practice_inv_def)
  then show ?case using step by simp
qed simp

end
