(* ===== verification/Execution_Queue.thy ===== *)
theory Execution_Queue imports Execution_Trust begin

text \<open>
  The queue that carries execution events: the event contracts (\<open>execution_events.py\<close>) and the
  PostgreSQL-backed queue of the local controller (\<open>LocalExecutionQueueClient\<close> in
  \<open>local_execution_controller.py\<close>), which has the interface of the SQS client.

  The locale \<open>message_queue\<close> is that interface with the laws its clients rely on. It is
  interpreted on the local queue. Pydantic's lax conversions are parameters (\<open>pydantic\<close>).
\<close>

section \<open>Events\<close>

record pydantic =
  pd_uuid :: "json \<Rightarrow> uuid option"
  pd_int :: "json \<Rightarrow> int option"
  pd_datetime :: "json \<Rightarrow> timestamp option"

record requested_event =
  re_execution_id :: uuid
  re_attempt :: int
  re_requested_at :: timestamp
  re_trace_id :: string

record cancel_event =
  ce_execution_id :: uuid
  ce_requested_at :: timestamp
  ce_trace_id :: string

datatype queue_event = Requested requested_event | CancelRequested cancel_event

fun event_execution :: "queue_event \<Rightarrow> uuid" where
  "event_execution (Requested ev) = re_execution_id ev"
| "event_execution (CancelRequested ev) = ce_execution_id ev"

fun event_type_of :: "queue_event \<Rightarrow> string" where
  "event_type_of (Requested ev) = ''execution.requested''"
| "event_type_of (CancelRequested ev) = ''execution.cancel_requested''"

text \<open>\<open>extra="forbid"\<close>: no key beyond the fields.\<close>

definition only_keys :: "string list \<Rightarrow> jobj \<Rightarrow> bool" where
  "only_keys ks d \<longleftrightarrow> set (map fst d) \<subseteq> set ks"

definition trace_field :: "json \<Rightarrow> string option" where
  "trace_field v = (case v of
     JStr s \<Rightarrow> if 1 \<le> length s \<and> length s \<le> 160 then Some s else None | _ \<Rightarrow> None)"

definition validate_requested :: "pydantic \<Rightarrow> jobj \<Rightarrow> queue_event result" where
  "validate_requested pd d =
     (case (pd_uuid pd (jget d ''execution_id''), pd_int pd (jget d ''attempt''),
            pd_datetime pd (jget d ''requested_at''), trace_field (jget d ''trace_id'')) of
        (Some eid, Some attempt, Some t, Some trace) \<Rightarrow>
          if only_keys [''schema_version'', ''event_type'', ''execution_id'', ''attempt'',
               ''requested_at'', ''trace_id''] d \<and> jget d ''schema_version'' = JInt 1 \<and> 1 \<le> attempt
          then Inr (Requested \<lparr>re_execution_id = eid, re_attempt = attempt, re_requested_at = t,
            re_trace_id = trace\<rparr>)
          else Inl (Exn ValidationErr ''ExecutionRequestedEvent'')
      | _ \<Rightarrow> Inl (Exn ValidationErr ''ExecutionRequestedEvent''))"

definition validate_cancel :: "pydantic \<Rightarrow> jobj \<Rightarrow> queue_event result" where
  "validate_cancel pd d =
     (case (pd_uuid pd (jget d ''execution_id''), pd_datetime pd (jget d ''requested_at''),
            trace_field (jget d ''trace_id'')) of
        (Some eid, Some t, Some trace) \<Rightarrow>
          if only_keys [''schema_version'', ''event_type'', ''execution_id'', ''requested_at'',
               ''trace_id''] d \<and> jget d ''schema_version'' = JInt 1
          then Inr (CancelRequested \<lparr>ce_execution_id = eid, ce_requested_at = t, ce_trace_id = trace\<rparr>)
          else Inl (Exn ValidationErr ''ExecutionCancelRequestedEvent'')
      | _ \<Rightarrow> Inl (Exn ValidationErr ''ExecutionCancelRequestedEvent''))"

definition parse_execution_queue_event :: "pydantic \<Rightarrow> json \<Rightarrow> queue_event result" where
  "parse_execution_queue_event pd payload = (case payload of
     JObj d \<Rightarrow>
       if jget d ''event_type'' = JStr ''execution.requested'' then validate_requested pd d
       else if jget d ''event_type'' = JStr ''execution.cancel_requested'' then validate_cancel pd d
       else Inl (Exn ValueErr ''Unsupported execution queue event type.'')
   | _ \<Rightarrow> Inl (Exn ValueErr ''Execution queue event must be a JSON object.''))"

text \<open>\<open>parse_execution_queue_event(json.loads(body))\<close>, as both consumers call it.\<close>

definition parse_body :: "pylib \<Rightarrow> pydantic \<Rightarrow> string \<Rightarrow> queue_event result" where
  "parse_body l pd body = (case json_loads l body of
     None \<Rightarrow> Inl (Exn JSONDecodeErr body) | Some v \<Rightarrow> parse_execution_queue_event pd v)"

lemma parse_body_errors: "parse_body l pd body = Inl x \<Longrightarrow> is_value_error (exn_class x)"
  by (auto simp: parse_body_def parse_execution_queue_event_def validate_requested_def
      validate_cancel_def split: option.splits json.splits if_splits)

section \<open>The local queue\<close>

record queue_row =
  lq_id :: uuid
  lq_body :: string
  lq_visible_at :: timestamp
  lq_receipt_handle :: "uuid option"
  lq_receive_count :: int
  lq_created_at :: timestamp
  lq_updated_at :: timestamp

record sqs_message =
  sm_message_id :: string
  sm_receipt_handle :: string
  sm_body :: string

definition max_queue_body_bytes :: nat where
  "max_queue_body_bytes = 1024 * 1024"

definition validate_body :: "pylib \<Rightarrow> string \<Rightarrow> unit result" where
  "validate_body l body =
     (if body = [] \<or> utf8_len body > max_queue_body_bytes
      then Inl (Exn TransportErr ''Local execution queue body is invalid.'')
      else case json_loads l body of
        None \<Rightarrow> Inl (Exn TransportErr ''Local execution queue body must be valid JSON.'')
      | Some (JObj d) \<Rightarrow> Inr ()
      | Some _ \<Rightarrow> Inl (Exn TransportErr ''Local execution queue body must be a JSON object.''))"

text \<open>\<open>mid\<close> is the identifier \<open>gen_random_uuid()\<close> draws; the primary key refuses a used one.\<close>

definition send_message ::
  "pylib \<Rightarrow> timestamp \<Rightarrow> uuid \<Rightarrow> string \<Rightarrow> queue_row list \<Rightarrow> (string \<times> queue_row list) result" where
  "send_message l now mid body q =
     res_bind (validate_body l body) (\<lambda>_.
       if mid \<in> lq_id ` set q then Inl (Exn IntegrityErr ''local_execution_queue_pkey'')
       else Inr (uuid_str mid, q @ [\<lparr>lq_id = mid, lq_body = body, lq_visible_at = now,
         lq_receipt_handle = None, lq_receive_count = 0, lq_created_at = now, lq_updated_at = now\<rparr>]))"

definition visible_rows :: "timestamp \<Rightarrow> uuid list \<Rightarrow> queue_row list \<Rightarrow> queue_row list" where
  "visible_rows now locked q = sort_key (\<lambda>r. (lq_created_at r, lq_id r))
     (filter (\<lambda>r. lq_visible_at r \<le> now \<and> lq_id r \<notin> set locked) q)"

definition receive_row ::
  "timestamp \<Rightarrow> (uuid \<Rightarrow> uuid) \<Rightarrow> int \<Rightarrow> queue_row \<Rightarrow> queue_row" where
  "receive_row now handles visibility r =
     r\<lparr>lq_receipt_handle := Some (handles (lq_id r)),
       lq_visible_at := now + visibility * 10 ^ 6,
       lq_receive_count := lq_receive_count r + 1, lq_updated_at := now\<rparr>"

definition message_of :: "queue_row \<Rightarrow> sqs_message" where
  "message_of r = \<lparr>sm_message_id = uuid_str (lq_id r),
     sm_receipt_handle = (case lq_receipt_handle r of None \<Rightarrow> ''None'' | Some h \<Rightarrow> uuid_str h),
     sm_body = lq_body r\<rparr>"

definition receipts :: "queue_row list \<Rightarrow> uuid list" where
  "receipts q = map the (filter (\<lambda>h. h \<noteq> None) (map lq_receipt_handle q))"

text \<open>
  \<open>handles\<close> gives the receipt handle drawn for a row; the unique index refuses a handle that
  another row holds, and the statement changes nothing then.
\<close>

definition receive_messages ::
  "timestamp \<Rightarrow> uuid list \<Rightarrow> (uuid \<Rightarrow> uuid) \<Rightarrow> int \<Rightarrow> int \<Rightarrow> queue_row list \<Rightarrow>
     (sqs_message list \<times> queue_row list) result" where
  "receive_messages now locked handles maximum visibility q =
     (if \<not> (1 \<le> maximum \<and> maximum \<le> 10)
        then Inl (Exn ValueErr ''maximum must be between 1 and 10'')
      else if visibility < 1 then Inl (Exn ValueErr ''visibility_timeout must be positive'')
      else
        let selected = map lq_id (take (nat maximum) (visible_rows now locked q));
            q' = update_where (\<lambda>r. lq_id r \<in> set selected) (receive_row now handles visibility) q
        in if \<not> distinct (receipts q')
           then Inl (Exn IntegrityErr ''ux_local_execution_queue_receipt'')
           else Inr (map message_of (filter (\<lambda>r. lq_id r \<in> set selected) q'), q'))"

definition has_receipt :: "string \<Rightarrow> queue_row \<Rightarrow> bool" where
  "has_receipt h r \<longleftrightarrow> (case lq_receipt_handle r of None \<Rightarrow> False | Some u \<Rightarrow> uuid_str u = h)"

definition delete_message :: "string \<Rightarrow> queue_row list \<Rightarrow> queue_row list" where
  "delete_message h q = filter (\<lambda>r. \<not> has_receipt h r) q"

definition change_message_visibility ::
  "timestamp \<Rightarrow> string \<Rightarrow> int \<Rightarrow> queue_row list \<Rightarrow> queue_row list result" where
  "change_message_visibility now h timeout q =
     (if timeout < 0 then Inl (Exn ValueErr ''timeout_seconds must be non-negative'')
      else Inr (update_where (has_receipt h)
        (\<lambda>r. r\<lparr>lq_visible_at := now + timeout * 10 ^ 6, lq_updated_at := now\<rparr>) q))"

definition depth :: "queue_row list \<Rightarrow> nat" where
  "depth q = length q"

section \<open>The interface and its laws\<close>

text \<open>
  The four calls, as the clients hold them. A call that raises leaves the queue as it was.
\<close>

record 'q queue_ops =
  qo_send :: "string \<Rightarrow> 'q \<Rightarrow> 'q result"
  qo_receive :: "int \<Rightarrow> int \<Rightarrow> 'q \<Rightarrow> (sqs_message list \<times> 'q) result"
  qo_delete :: "string \<Rightarrow> 'q \<Rightarrow> 'q result"
  qo_visibility :: "string \<Rightarrow> int \<Rightarrow> 'q \<Rightarrow> 'q result"

text \<open>
  \<open>bodies\<close> is the multiset of the message bodies in the queue; \<open>held\<close> relates a receipt handle
  to the body of the message it stands for.
\<close>

locale message_queue =
  fixes send :: "string \<Rightarrow> 'q \<Rightarrow> 'q result"
    and receive :: "int \<Rightarrow> int \<Rightarrow> 'q \<Rightarrow> (sqs_message list \<times> 'q) result"
    and delete :: "string \<Rightarrow> 'q \<Rightarrow> 'q result"
    and visibility :: "string \<Rightarrow> int \<Rightarrow> 'q \<Rightarrow> 'q result"
    and ok :: "'q \<Rightarrow> bool"
    and bodies :: "'q \<Rightarrow> string multiset"
    and held :: "'q \<Rightarrow> string \<Rightarrow> string option"
  assumes send_law: "ok q \<Longrightarrow> send b q = Inr q' \<Longrightarrow>
      ok q' \<and> bodies q' = add_mset b (bodies q) \<and> held q' = held q"
    and receive_law: "ok q \<Longrightarrow> receive m v q = Inr (ms, q') \<Longrightarrow>
      ok q' \<and> bodies q' = bodies q \<and> length ms \<le> nat m \<and>
      distinct (map sm_receipt_handle ms) \<and>
      (\<forall>msg\<in>set ms. held q' (sm_receipt_handle msg) = Some (sm_body msg))"
    and delete_law: "ok q \<Longrightarrow> held q h = Some b \<Longrightarrow> delete h q = Inr q' \<Longrightarrow>
      ok q' \<and> add_mset b (bodies q') = bodies q \<and> held q' = (held q)(h := None)"
    and visibility_law: "ok q \<Longrightarrow> visibility h t q = Inr q' \<Longrightarrow>
      ok q' \<and> bodies q' = bodies q \<and> held q' = held q"

text \<open>The laws for a record of operations.\<close>

abbreviation queue_laws ::
  "'q queue_ops \<Rightarrow> ('q \<Rightarrow> bool) \<Rightarrow> ('q \<Rightarrow> string multiset) \<Rightarrow> ('q \<Rightarrow> string \<Rightarrow> string option) \<Rightarrow> bool" where
  "queue_laws ops \<equiv> message_queue (qo_send ops) (qo_receive ops) (qo_delete ops) (qo_visibility ops)"

section \<open>The local queue satisfies them\<close>

definition queue_ok :: "queue_row list \<Rightarrow> bool" where
  "queue_ok q \<longleftrightarrow> distinct (map lq_id q) \<and> distinct (receipts q)"

definition queue_bodies :: "queue_row list \<Rightarrow> string multiset" where
  "queue_bodies q = mset (map lq_body q)"

definition queue_held :: "queue_row list \<Rightarrow> string \<Rightarrow> string option" where
  "queue_held q h = map_option lq_body (find (has_receipt h) q)"

lemma receipts_simps [simp]:
  "receipts [] = []"
  "receipts (r # q) = (case lq_receipt_handle r of None \<Rightarrow> receipts q | Some h \<Rightarrow> h # receipts q)"
  by (auto simp: receipts_def split: option.split)

lemma receipts_append [simp]: "receipts (q @ q') = receipts q @ receipts q'"
  by (simp add: receipts_def)

lemma has_receipt_in: "has_receipt h r \<Longrightarrow> r \<in> set q \<Longrightarrow> \<exists>u. u \<in> set (receipts q) \<and> uuid_str u = h"
  by (force simp: has_receipt_def receipts_def split: option.splits)

lemma send_message_law:
  assumes "queue_ok q" "send_message l now mid body q = Inr (i, q')"
  shows "queue_ok q' \<and> queue_bodies q' = add_mset body (queue_bodies q) \<and> queue_held q' = queue_held q"
proof -
  let ?r = "\<lparr>lq_id = mid, lq_body = body, lq_visible_at = now, lq_receipt_handle = None,
    lq_receive_count = 0, lq_created_at = now, lq_updated_at = now\<rparr>"
  have q': "q' = q @ [?r]" "mid \<notin> lq_id ` set q"
    using assms(2) by (auto simp: send_message_def res_bind_Inr_iff split: if_splits)
  have "find (has_receipt h) (q @ [?r]) = find (has_receipt h) q" for h
    by (induction q) (auto simp: has_receipt_def)
  then show ?thesis using assms(1) q'
    by (auto simp: queue_ok_def queue_bodies_def queue_held_def fun_eq_iff)
qed

lemma receipts_visibility:
  "receipts (update_where P (\<lambda>r. r\<lparr>lq_visible_at := t, lq_updated_at := n\<rparr>) q) = receipts q"
  by (simp add: receipts_def map_update_where_same)

lemma has_receipt_eq: "has_receipt x r \<Longrightarrow> has_receipt h r \<Longrightarrow> x = h"
  by (auto simp: has_receipt_def split: option.splits)

lemma change_visibility_law:
  assumes "queue_ok q" "change_message_visibility now h t q = Inr q'"
  shows "queue_ok q' \<and> queue_bodies q' = queue_bodies q \<and> queue_held q' = queue_held q"
proof -
  let ?f = "\<lambda>r. r\<lparr>lq_visible_at := now + t * 10 ^ 6, lq_updated_at := now\<rparr>"
  have q': "q' = update_where (has_receipt h) ?f q"
    using assms(2) by (auto simp: change_message_visibility_def split: if_splits)
  have same: "map lq_id q' = map lq_id q" "map lq_body q' = map lq_body q"
    by (simp_all add: q' map_update_where_same)
  have "map_option lq_body (find (has_receipt x) (update_where (has_receipt h) ?f q)) =
      map_option lq_body (find (has_receipt x) q)" for x
    by (induction q) (auto simp: has_receipt_def)
  then show ?thesis using assms(1) same
    by (simp add: queue_ok_def queue_bodies_def queue_held_def q' receipts_visibility fun_eq_iff)
qed

lemma find_receipt_unique:
  assumes "distinct (receipts q)" "r \<in> set q" "has_receipt h r"
  shows "find (has_receipt h) q = Some r"
  using assms
proof (induction q)
  case (Cons x q)
  show ?case
  proof (cases "has_receipt h x")
    case True
    have "x = r"
    proof (rule ccontr)
      assume "x \<noteq> r"
      then have "r \<in> set q" using Cons.prems(2) by simp
      from has_receipt_in [OF Cons.prems(3) this] obtain u where "u \<in> set (receipts q)" "uuid_str u = h"
        by blast
      then show False using True Cons.prems(1)
        by (auto simp: has_receipt_def split: option.splits)
    qed
    then show ?thesis using True by simp
  next
    case False
    then show ?thesis using Cons by (auto split: option.splits)
  qed
qed simp

lemma delete_message_law:
  assumes "queue_ok q" "queue_held q h = Some b"
  shows "queue_ok (delete_message h q) \<and>
    add_mset b (queue_bodies (delete_message h q)) = queue_bodies q \<and>
    queue_held (delete_message h q) = (queue_held q)(h := None)"
proof -
  have ids: "distinct (map lq_id q)" and recs: "distinct (receipts q)"
    using assms(1) by (simp_all add: queue_ok_def)
  have one: "add_mset b (mset (map lq_body (filter (\<lambda>r. \<not> has_receipt h r) q))) = mset (map lq_body q)"
    using assms(2) recs unfolding queue_held_def
  proof (induction q)
    case (Cons r q)
    show ?case
    proof (cases "has_receipt h r")
      case True
      have "\<not> has_receipt h x" if "x \<in> set q" for x
        using Cons.prems(2) True has_receipt_in [OF _ that] by (auto simp: has_receipt_def split: option.splits)
      then have "filter (\<lambda>r. \<not> has_receipt h r) q = q" by (simp add: filter_id_conv)
      then show ?thesis using True Cons.prems(1) by simp
    next
      case False
      then show ?thesis using Cons by (auto split: option.splits)
    qed
  qed simp
  have "distinct (receipts (filter P q))" for P
    using recs
  proof (induction q)
    case (Cons r q)
    have "set (receipts (filter P q)) \<subseteq> set (receipts q)" by (auto simp: receipts_def)
    then show ?case using Cons by (auto split: option.splits)
  qed simp
  moreover have "find (has_receipt x) (filter (\<lambda>r. \<not> has_receipt h r) q) =
      (if x = h then None else find (has_receipt x) q)" for x
    by (induction q) (auto dest: has_receipt_eq)
  ultimately show ?thesis
    using one ids by (auto simp: queue_ok_def queue_bodies_def queue_held_def delete_message_def
        distinct_map_filter fun_eq_iff)
qed

lemma take_visible_rows: "set (take n (visible_rows now locked q)) \<subseteq> set q"
  using set_take_subset [of n "visible_rows now locked q"] by (auto simp: visible_rows_def)

lemma receive_row_simps [simp]:
  "lq_id (receive_row now hs v r) = lq_id r" "lq_body (receive_row now hs v r) = lq_body r"
  "lq_receipt_handle (receive_row now hs v r) = Some (hs (lq_id r))"
  "lq_visible_at (receive_row now hs v r) = now + v * 10 ^ 6"
  by (simp_all add: receive_row_def)

lemma receive_messages_InrD:
  assumes "receive_messages now locked hs m v q = Inr (ms, q')"
  obtains ids where "ids = map lq_id (take (nat m) (visible_rows now locked q))"
    "q' = update_where (\<lambda>r. lq_id r \<in> set ids) (receive_row now hs v) q"
    "ms = map message_of (filter (\<lambda>r. lq_id r \<in> set ids) q')" "distinct (receipts q')"
    "1 \<le> m" "m \<le> 10" "1 \<le> v"
  using assms by (auto simp: receive_messages_def Let_def split: if_splits)

lemma length_filter_ids:
  assumes "distinct (map f q)"
  shows "length (filter (\<lambda>r. f r \<in> A) q) \<le> card (f ` set q \<inter> A)"
proof -
  have "length (filter (\<lambda>r. f r \<in> A) q) = card (set (map f (filter (\<lambda>r. f r \<in> A) q)))"
    using distinct_card [OF distinct_map_filter [OF assms, of "\<lambda>r. f r \<in> A"]] by simp
  also have "set (map f (filter (\<lambda>r. f r \<in> A) q)) = f ` set q \<inter> A" by auto
  finally show ?thesis by simp
qed

lemma receipts_distinct_messages:
  assumes "distinct (receipts q)" "\<forall>r\<in>set q. lq_receipt_handle r \<noteq> None"
  shows "distinct (map sm_receipt_handle (map message_of q))"
  using assms
proof (induction q)
  case (Cons r q)
  obtain h where h: "lq_receipt_handle r = Some h" using Cons.prems(2) by auto
  have "h \<in> set (receipts q)"
    if x: "x \<in> set q" "sm_receipt_handle (message_of x) = uuid_str h" for x
  proof -
    obtain k where "lq_receipt_handle x = Some k" using Cons.prems(2) x(1) by auto
    then show ?thesis using x by (force simp: message_of_def receipts_def)
  qed
  moreover have "sm_receipt_handle (message_of r) = uuid_str h" by (simp add: message_of_def h)
  moreover have "h \<notin> set (receipts q)" "distinct (receipts q)" using Cons.prems(1) h by simp_all
  ultimately have "\<forall>x\<in>set q. sm_receipt_handle (message_of x) \<noteq> sm_receipt_handle (message_of r)"
    by metis
  then show ?case using Cons.IH \<open>distinct (receipts q)\<close> Cons.prems(2) by auto
qed simp

lemma receive_messages_law:
  assumes "queue_ok q" "receive_messages now locked hs m v q = Inr (ms, q')"
  shows "queue_ok q' \<and> queue_bodies q' = queue_bodies q \<and> length ms \<le> nat m \<and>
    distinct (map sm_receipt_handle ms) \<and>
    (\<forall>msg\<in>set ms. queue_held q' (sm_receipt_handle msg) = Some (sm_body msg))"
  using assms(2)
proof (rule receive_messages_InrD)
  fix ids
  assume ids: "ids = map lq_id (take (nat m) (visible_rows now locked q))"
    and q': "q' = update_where (\<lambda>r. lq_id r \<in> set ids) (receive_row now hs v) q"
    and ms: "ms = map message_of (filter (\<lambda>r. lq_id r \<in> set ids) q')"
    and rec: "distinct (receipts q')"
  have same: "map lq_id q' = map lq_id q" "map lq_body q' = map lq_body q"
    by (simp_all add: q' map_update_where_same)
  have dist: "distinct (map lq_id q')" using assms(1) same by (simp add: queue_ok_def)
  have got: "lq_receipt_handle r = Some (hs (lq_id r))" if "r \<in> set q'" "lq_id r \<in> set ids" for r
    using that by (auto simp: q' set_update_where split: if_splits)
  have "length ms \<le> card (lq_id ` set q' \<inter> set ids)"
    using length_filter_ids [OF dist] by (simp add: ms)
  also have "\<dots> \<le> card (set ids)" by (intro card_mono) auto
  also have "\<dots> \<le> nat m" using card_length [of ids] by (simp add: ids)
  finally have len: "length ms \<le> nat m" .
  have recs: "distinct (receipts (filter P q'))" for P
    using rec
  proof (induction q')
    case (Cons r t)
    have "set (receipts (filter P t)) \<subseteq> set (receipts t)" by (auto simp: receipts_def)
    then show ?case using Cons by (auto split: option.splits)
  qed simp
  have "distinct (map sm_receipt_handle ms)"
    unfolding ms using got by (intro receipts_distinct_messages [OF recs]) auto
  moreover have "queue_held q' (sm_receipt_handle msg) = Some (sm_body msg)" if "msg \<in> set ms" for msg
  proof -
    from that obtain r where r: "r \<in> set q'" "lq_id r \<in> set ids" "msg = message_of r"
      by (auto simp: ms)
    then have "has_receipt (sm_receipt_handle msg) r"
      using got [OF r(1,2)] by (simp add: message_of_def has_receipt_def)
    then show ?thesis
      using find_receipt_unique [OF rec r(1)] r(3) by (simp add: queue_held_def message_of_def)
  qed
  ultimately show ?thesis
    using dist rec same len by (simp add: queue_ok_def queue_bodies_def)
qed

text \<open>
  The operations of the local queue at one time. Every insert draws its own identifier: \<open>fresh\<close>
  gives the one drawn while the queue is as it is, so that two sends need not get the same.
\<close>

definition local_queue_ops ::
  "pylib \<Rightarrow> timestamp \<Rightarrow> (queue_row list \<Rightarrow> uuid) \<Rightarrow> uuid list \<Rightarrow> (uuid \<Rightarrow> uuid) \<Rightarrow> queue_row list queue_ops" where
  "local_queue_ops l now fresh locked handles =
     \<lparr>qo_send = (\<lambda>b q. res_bind (send_message l now (fresh q) b q) (\<lambda>(i, q'). Inr q')),
      qo_receive = receive_messages now locked handles,
      qo_delete = (\<lambda>h q. Inr (delete_message h q)),
      qo_visibility = change_message_visibility now\<rparr>"

interpretation local_queue: message_queue
  "qo_send (local_queue_ops l now fresh locked hs)" "qo_receive (local_queue_ops l now fresh locked hs)"
  "qo_delete (local_queue_ops l now fresh locked hs)" "qo_visibility (local_queue_ops l now fresh locked hs)"
  queue_ok queue_bodies queue_held for l now fresh locked hs
proof unfold_locales
  fix q b q'
  assume "queue_ok q" "qo_send (local_queue_ops l now fresh locked hs) b q = Inr q'"
  then show "queue_ok q' \<and> queue_bodies q' = add_mset b (queue_bodies q) \<and> queue_held q' = queue_held q"
    using send_message_law by (auto simp: local_queue_ops_def res_bind_Inr_iff)
next
  fix q m v ms q'
  assume "queue_ok q" "qo_receive (local_queue_ops l now fresh locked hs) m v q = Inr (ms, q')"
  then show "queue_ok q' \<and> queue_bodies q' = queue_bodies q \<and> length ms \<le> nat m \<and>
      distinct (map sm_receipt_handle ms) \<and>
      (\<forall>msg\<in>set ms. queue_held q' (sm_receipt_handle msg) = Some (sm_body msg))"
    by (simp add: local_queue_ops_def receive_messages_law)
next
  fix q h b q'
  assume "queue_ok q" "queue_held q h = Some b"
    "qo_delete (local_queue_ops l now fresh locked hs) h q = Inr q'"
  then show "queue_ok q' \<and> add_mset b (queue_bodies q') = queue_bodies q \<and>
      queue_held q' = (queue_held q)(h := None)"
    using delete_message_law by (auto simp: local_queue_ops_def)
next
  fix q h t q'
  assume "queue_ok q" "qo_visibility (local_queue_ops l now fresh locked hs) h t q = Inr q'"
  then show "queue_ok q' \<and> queue_bodies q' = queue_bodies q \<and> queue_held q' = queue_held q"
    by (simp add: local_queue_ops_def change_visibility_law)
qed

section \<open>Exclusive delivery\<close>

text \<open>A message that was received stays out of every receive until its visibility ends.\<close>

lemma received_invisible:
  assumes "receive_messages now locked hs m v q = Inr (ms, q')" "msg \<in> set ms"
    "now' < now + v * 10 ^ 6" "receive_messages now' locked' hs' m' v' q' = Inr (ms', q'')"
    "queue_ok q"
  shows "sm_message_id msg \<notin> sm_message_id ` set ms'"
  using assms(1)
proof (rule receive_messages_InrD)
  fix ids
  assume ids: "ids = map lq_id (take (nat m) (visible_rows now locked q))"
    and q': "q' = update_where (\<lambda>r. lq_id r \<in> set ids) (receive_row now hs v) q"
    and ms: "ms = map message_of (filter (\<lambda>r. lq_id r \<in> set ids) q')"
  have late: "lq_visible_at r = now + v * 10 ^ 6" if "r \<in> set q'" "lq_id r \<in> set ids" for r
    using that by (auto simp: q' set_update_where split: if_splits)
  from assms(2) obtain r where "lq_id r \<in> set ids" "msg = message_of r" by (auto simp: ms)
  then have r: "lq_id r \<in> set ids" "sm_message_id msg = uuid_str (lq_id r)"
    by (simp_all add: message_of_def)
  from assms(4) show ?thesis
  proof (rule receive_messages_InrD)
    fix ids'
    assume ids': "ids' = map lq_id (take (nat m') (visible_rows now' locked' q'))"
      and q'': "q'' = update_where (\<lambda>r. lq_id r \<in> set ids') (receive_row now' hs' v') q'"
      and ms': "ms' = map message_of (filter (\<lambda>r. lq_id r \<in> set ids') q'')"
    have "lq_id r \<notin> set ids'"
    proof
      assume "lq_id r \<in> set ids'"
      then obtain x where "x \<in> set (visible_rows now' locked' q')" "lq_id x = lq_id r"
        by (auto simp: ids' dest: in_set_takeD)
      then show False using late [of x] r(1) assms(3) by (auto simp: visible_rows_def)
    qed
    then show ?thesis using r by (auto simp: ms' message_of_def)
  qed
qed

end
