(* ===== verification/Execution_Dlq.thy ===== *)
theory Execution_Dlq imports Execution_Queue begin

text \<open>
  The dead-letter operator (\<open>execution_dlq.py\<close>): it classifies each dead message against the
  durable state of its execution, replays the ones that can still do something, discards the
  ones whose execution is over and leaves the rest. The batches are written against the queue
  interface of \<open>Execution_Queue\<close>, which the operator's SQS queues have: SQS is outside this
  repository, so the locale \<open>dlq_pair\<close> assumes the laws of the two queues, and it is interpreted
  on two local queues. A call that raises ends the batch with both queues as
  they are by then.
\<close>

section \<open>Classification\<close>

datatype dlq_disposition =
    Replay | Discard_Terminal | Hold_In_Progress | Hold_Unknown | Hold_Malformed

record durable_state =
  ds_status :: execution_status
  ds_kubernetes_job_name :: "string option"

record dlq_classification =
  dc_message_id :: string
  dc_execution_id :: "string option"
  dc_event_type :: "string option"
  dc_disposition :: dlq_disposition
  dc_reason :: string

definition classify_event :: "queue_event \<Rightarrow> durable_state option \<Rightarrow> dlq_disposition" where
  "classify_event event state =
     (case state of None \<Rightarrow> Hold_Unknown
      | Some s \<Rightarrow> (case event of
          Requested ev \<Rightarrow>
            if ds_status s = Queued then Replay
            else if ds_status s = Dispatching \<or> ds_status s = Running then Hold_In_Progress
            else Discard_Terminal
        | CancelRequested ev \<Rightarrow>
            if ds_status s = Cancelled \<and> truthy_str (ds_kubernetes_job_name s) \<noteq> None then Replay
            else if ds_status s = Cancelled then Discard_Terminal
            else if ds_status s = Queued \<or> ds_status s = Dispatching \<or> ds_status s = Running
              then Hold_In_Progress
            else Discard_Terminal))"

text \<open>\<open>ExecutionStatus(str(row["state"]))\<close>, without the mapping of legacy states.\<close>

definition load_state :: "db \<Rightarrow> queue_event \<Rightarrow> durable_state option result" where
  "load_state d event = (case request_of (event_execution event) d of
     None \<Rightarrow> Inr None
   | Some r \<Rightarrow> res_bind (parse_status (state_text (rq_state r))) (\<lambda>s.
       Inr (Some \<lparr>ds_status = s, ds_kubernetes_job_name = truthy_str (rq_k8s_job_name r)\<rparr>)))"

definition classify_message ::
  "pylib \<Rightarrow> pydantic \<Rightarrow> db \<Rightarrow> sqs_message \<Rightarrow> dlq_classification result" where
  "classify_message l pd d message =
     (case parse_body l pd (sm_body message) of
        Inl exc \<Rightarrow> Inr \<lparr>dc_message_id = sm_message_id message, dc_execution_id = None,
            dc_event_type = None, dc_disposition = Hold_Malformed,
            dc_reason = ''malformed:'' @ exn_name (exn_class exc)\<rparr>
      | Inr event \<Rightarrow> res_bind (load_state d event) (\<lambda>state.
          Inr \<lparr>dc_message_id = sm_message_id message,
            dc_execution_id = Some (uuid_str (event_execution event)),
            dc_event_type = Some (event_type_of event),
            dc_disposition = classify_event event state,
            dc_reason = (case state of
               Some s \<Rightarrow> ''database_state='' @ status_value (ds_status s)
             | None \<Rightarrow> ''execution_not_found'')\<rparr>))"

section \<open>Batches\<close>

type_synonym classifier = "sqs_message \<Rightarrow> dlq_classification result"

fun inspect_loop ::
  "classifier \<Rightarrow> 'p queue_ops \<Rightarrow> sqs_message list \<Rightarrow> dlq_classification list \<Rightarrow> 'p \<Rightarrow>
     dlq_classification list result \<times> 'p" where
  "inspect_loop classify dlq [] printed p = (Inr printed, p)"
| "inspect_loop classify dlq (m # ms) printed p =
     (case classify m of Inl x \<Rightarrow> (Inl x, p)
      | Inr c \<Rightarrow> (case qo_visibility dlq (sm_receipt_handle m) 0 p of
          Inl x \<Rightarrow> (Inl x, p)
        | Inr p' \<Rightarrow> inspect_loop classify dlq ms (printed @ [c]) p'))"

definition inspect_batch ::
  "classifier \<Rightarrow> 'p queue_ops \<Rightarrow> int \<Rightarrow> 'p \<Rightarrow> dlq_classification list result \<times> 'p" where
  "inspect_batch classify dlq limit p = (case qo_receive dlq limit 15 p of
     Inl x \<Rightarrow> (Inl x, p) | Inr (ms, p') \<Rightarrow> inspect_loop classify dlq ms [] p')"

fun replay_loop ::
  "classifier \<Rightarrow> 'q queue_ops \<Rightarrow> 'p queue_ops \<Rightarrow> sqs_message list \<Rightarrow> nat \<Rightarrow> 'q \<Rightarrow> 'p \<Rightarrow>
     nat result \<times> 'q \<times> 'p" where
  "replay_loop classify queue dlq [] replayed q p = (Inr replayed, q, p)"
| "replay_loop classify queue dlq (m # ms) replayed q p =
     (case classify m of Inl x \<Rightarrow> (Inl x, q, p)
      | Inr c \<Rightarrow>
         if dc_disposition c = Replay
         then (case qo_send queue (sm_body m) q of Inl x \<Rightarrow> (Inl x, q, p)
           | Inr q' \<Rightarrow> (case qo_delete dlq (sm_receipt_handle m) p of Inl x \<Rightarrow> (Inl x, q', p)
             | Inr p' \<Rightarrow> replay_loop classify queue dlq ms (replayed + 1) q' p'))
         else (case qo_visibility dlq (sm_receipt_handle m) 0 p of Inl x \<Rightarrow> (Inl x, q, p)
           | Inr p' \<Rightarrow> replay_loop classify queue dlq ms replayed q p'))"

definition replay_batch ::
  "classifier \<Rightarrow> 'q queue_ops \<Rightarrow> 'p queue_ops \<Rightarrow> int \<Rightarrow> 'q \<Rightarrow> 'p \<Rightarrow> nat result \<times> 'q \<times> 'p" where
  "replay_batch classify queue dlq limit q p = (case qo_receive dlq limit 30 p of
     Inl x \<Rightarrow> (Inl x, q, p) | Inr (ms, p') \<Rightarrow> replay_loop classify queue dlq ms 0 q p')"

fun discard_loop ::
  "classifier \<Rightarrow> 'p queue_ops \<Rightarrow> sqs_message list \<Rightarrow> nat \<Rightarrow> 'p \<Rightarrow> nat result \<times> 'p" where
  "discard_loop classify dlq [] discarded p = (Inr discarded, p)"
| "discard_loop classify dlq (m # ms) discarded p =
     (case classify m of Inl x \<Rightarrow> (Inl x, p)
      | Inr c \<Rightarrow>
         if dc_disposition c = Discard_Terminal
         then (case qo_delete dlq (sm_receipt_handle m) p of Inl x \<Rightarrow> (Inl x, p)
           | Inr p' \<Rightarrow> discard_loop classify dlq ms (discarded + 1) p')
         else (case qo_visibility dlq (sm_receipt_handle m) 0 p of Inl x \<Rightarrow> (Inl x, p)
           | Inr p' \<Rightarrow> discard_loop classify dlq ms discarded p'))"

definition discard_terminal_batch ::
  "classifier \<Rightarrow> 'p queue_ops \<Rightarrow> int \<Rightarrow> 'p \<Rightarrow> nat result \<times> 'p" where
  "discard_terminal_batch classify dlq limit p = (case qo_receive dlq limit 30 p of
     Inl x \<Rightarrow> (Inl x, p) | Inr (ms, p') \<Rightarrow> discard_loop classify dlq ms 0 p')"

section \<open>Laws of the two queues\<close>

definition holds_all :: "('p \<Rightarrow> string \<Rightarrow> string option) \<Rightarrow> sqs_message list \<Rightarrow> 'p \<Rightarrow> bool" where
  "holds_all held ms p \<longleftrightarrow> distinct (map sm_receipt_handle ms) \<and>
     (\<forall>m\<in>set ms. held p (sm_receipt_handle m) = Some (sm_body m))"

lemma holds_all_Cons:
  assumes "holds_all held (m # ms) p"
  shows "held p (sm_receipt_handle m) = Some (sm_body m) \<and>
    (held p' = held p \<or> held p' = (held p)(sm_receipt_handle m := None) \<longrightarrow> holds_all held ms p')"
proof -
  have "sm_receipt_handle x \<noteq> sm_receipt_handle m" if "x \<in> set ms" for x
    using assms imageI [OF that, of sm_receipt_handle] by (auto simp: holds_all_def)
  then show ?thesis using assms by (auto simp: holds_all_def)
qed

lemma add_mset_subset: "add_mset b A = B \<Longrightarrow> A \<subseteq># B"
  by auto

locale dlq_pair =
  main: message_queue "qo_send queue" "qo_receive queue" "qo_delete queue" "qo_visibility queue"
    okq bq hq +
  dead: message_queue "qo_send dlq" "qo_receive dlq" "qo_delete dlq" "qo_visibility dlq" okp bp hp
  for queue :: "'q queue_ops" and dlq :: "'p queue_ops" and okq bq hq okp bp hp
begin

lemma replay_loop_keeps:
  assumes "replay_loop classify queue dlq ms n q p = (res, q', p')" "okq q" "okp p" "holds_all hp ms p"
  shows "okq q' \<and> okp p' \<and> bq q + bp p \<subseteq># bq q' + bp p' \<and> bp p' \<subseteq># bp p \<and>
    (\<forall>k. res = Inr k \<longrightarrow> bq q' + bp p' = bq q + bp p \<and> size (bq q') = size (bq q) + (k - n) \<and> n \<le> k)"
  using assms
proof (induction ms arbitrary: n q p)
  case Nil
  then show ?case by auto
next
  case (Cons m ms)
  note held = holds_all_Cons [OF Cons.prems(4)]
  show ?case
  proof (cases "classify m")
    case (Inl x)
    then have "res = Inl x" "q' = q" "p' = p" using Cons.prems(1) by simp_all
    then show ?thesis using Cons.prems(2,3) by simp
  next
    case (Inr c)
    show ?thesis
    proof (cases "dc_disposition c = Replay")
      case True
      show ?thesis
      proof (cases "qo_send queue (sm_body m) q")
        case (Inl x)
        then have "res = Inl x" "q' = q" "p' = p" using Cons.prems(1) Inr True by simp_all
        then show ?thesis using Cons.prems(2,3) by simp
      next
        case (Inr q1)
        note s = main.send_law [OF Cons.prems(2) Inr]
        show ?thesis
        proof (cases "qo_delete dlq (sm_receipt_handle m) p")
          case (Inl x)
          then have "res = Inl x" "q' = q1" "p' = p"
            using Cons.prems(1) \<open>classify m = Inr c\<close> True Inr by simp_all
          then show ?thesis using Cons.prems(3) s by simp
        next
          case (Inr p1)
          note d = dead.delete_law [OF Cons.prems(3) conjunct1 [OF held] Inr]
          have "replay_loop classify queue dlq ms (n + 1) q1 p1 = (res, q', p')"
            using Cons.prems(1) \<open>classify m = Inr c\<close> True \<open>qo_send queue (sm_body m) q = Inr q1\<close> Inr
            by simp
          from Cons.IH [OF this] s d held have ih: "okq q' \<and> okp p' \<and>
            bq q1 + bp p1 \<subseteq># bq q' + bp p' \<and> bp p' \<subseteq># bp p1 \<and>
            (\<forall>k. res = Inr k \<longrightarrow> bq q' + bp p' = bq q1 + bp p1 \<and>
               size (bq q') = size (bq q1) + (k - (n + 1)) \<and> n + 1 \<le> k)" by blast
          have eq: "bq q1 + bp p1 = bq q + bp p"
            by (simp add: s [THEN conjunct2, THEN conjunct1] d [THEN conjunct2, THEN conjunct1, symmetric])
          have sz: "size (bq q1) = Suc (size (bq q))" by (simp add: s)
          have "bp p1 \<subseteq># bp p" by (rule add_mset_subset [OF d [THEN conjunct2, THEN conjunct1]])
          with ih have sub: "bp p' \<subseteq># bp p" by (metis subset_mset.trans)
          have "\<forall>k. res = Inr k \<longrightarrow> bq q' + bp p' = bq q + bp p \<and>
              size (bq q') = size (bq q) + (k - n) \<and> n \<le> k"
            using ih unfolding eq sz by fastforce
          then show ?thesis using ih sub unfolding eq by blast
        qed
      qed
    next
      case False
      show ?thesis
      proof (cases "qo_visibility dlq (sm_receipt_handle m) 0 p")
        case (Inl x)
        then have "res = Inl x" "q' = q" "p' = p" using Cons.prems(1) Inr False by simp_all
        then show ?thesis using Cons.prems(2,3) by simp
      next
        case (Inr p1)
        note v = dead.visibility_law [OF Cons.prems(3) Inr]
        have "replay_loop classify queue dlq ms n q p1 = (res, q', p')"
          using Cons.prems(1) \<open>classify m = Inr c\<close> False Inr by simp
        from Cons.IH [OF this] v held Cons.prems(2) show ?thesis by simp
      qed
    qed
  qed
qed

lemma replay_batch_keeps:
  assumes "replay_batch classify queue dlq limit q p = (res, q', p')" "okq q" "okp p"
  shows "okq q' \<and> okp p' \<and> bq q + bp p \<subseteq># bq q' + bp p' \<and> bp p' \<subseteq># bp p \<and>
    (\<forall>k. res = Inr k \<longrightarrow> bq q' + bp p' = bq q + bp p \<and> size (bq q') = size (bq q) + k)"
proof (cases "qo_receive dlq limit 30 p")
  case (Inl x)
  then show ?thesis using assms by (auto simp: replay_batch_def)
next
  case (Inr mp)
  obtain ms p1 where mp: "mp = (ms, p1)" by (cases mp)
  note r = dead.receive_law [OF assms(3) Inr [unfolded mp]]
  have "replay_loop classify queue dlq ms 0 q p1 = (res, q', p')"
    using assms(1) Inr mp by (simp add: replay_batch_def)
  from replay_loop_keeps [OF this assms(2)] r show ?thesis by (simp add: holds_all_def)
qed

text \<open>The bodies a discard drops are among those of terminal executions.\<close>

lemma discard_loop_keeps:
  assumes "discard_loop classify dlq ms n p = (res, p')" "okp p" "holds_all hp ms p"
  shows "okp p' \<and> bp p' \<subseteq># bp p \<and> bp p \<subseteq># bp p' + mset (map sm_body (filter
    (\<lambda>m. \<exists>c. classify m = Inr c \<and> dc_disposition c = Discard_Terminal) ms))"
  using assms
proof (induction ms arbitrary: n p)
  case Nil
  then show ?case by simp
next
  case (Cons m ms)
  note held = holds_all_Cons [OF Cons.prems(3)]
  show ?case
  proof (cases "classify m")
    case (Inl x)
    then have "res = Inl x" "p' = p" using Cons.prems(1) by simp_all
    then show ?thesis using Cons.prems(2) by simp
  next
    case (Inr c)
    show ?thesis
    proof (cases "dc_disposition c = Discard_Terminal")
      case True
      show ?thesis
      proof (cases "qo_delete dlq (sm_receipt_handle m) p")
        case (Inl x)
        then have "res = Inl x" "p' = p" using Cons.prems(1) \<open>classify m = Inr c\<close> True by simp_all
        then show ?thesis using Cons.prems(2) by simp
      next
        case (Inr p1)
        note d = dead.delete_law [OF Cons.prems(2) conjunct1 [OF held] Inr]
        have "discard_loop classify dlq ms (n + 1) p1 = (res, p')"
          using Cons.prems(1) \<open>classify m = Inr c\<close> True Inr by simp
        from Cons.IH [OF this] d held have ih: "okp p' \<and> bp p' \<subseteq># bp p1 \<and>
          bp p1 \<subseteq># bp p' + mset (map sm_body (filter
            (\<lambda>m. \<exists>c. classify m = Inr c \<and> dc_disposition c = Discard_Terminal) ms))" by blast
        have "bp p1 \<subseteq># bp p" by (rule add_mset_subset [OF d [THEN conjunct2, THEN conjunct1]])
        moreover have "bp p \<subseteq># bp p' + mset (map sm_body (filter
            (\<lambda>m. \<exists>c. classify m = Inr c \<and> dc_disposition c = Discard_Terminal) (m # ms)))"
          using ih True \<open>classify m = Inr c\<close> by (simp add: d [THEN conjunct2, THEN conjunct1, symmetric])
        ultimately show ?thesis using ih by (metis subset_mset.trans)
      qed
    next
      case False
      show ?thesis
      proof (cases "qo_visibility dlq (sm_receipt_handle m) 0 p")
        case (Inl x)
        then have "res = Inl x" "p' = p" using Cons.prems(1) Inr False by simp_all
        then show ?thesis using Cons.prems(2) by simp
      next
        case (Inr p1)
        note v = dead.visibility_law [OF Cons.prems(2) Inr]
        have "discard_loop classify dlq ms n p1 = (res, p')"
          using Cons.prems(1) \<open>classify m = Inr c\<close> False Inr by simp
        from Cons.IH [OF this] v held False \<open>classify m = Inr c\<close> show ?thesis by simp
      qed
    qed
  qed
qed

end

interpretation local_dlq: dlq_pair
  "local_queue_ops l now fresh locked hs" "local_queue_ops l' now' fresh' locked' hs'"
  queue_ok queue_bodies queue_held queue_ok queue_bodies queue_held
  for l now fresh locked hs l' now' fresh' locked' hs'
  by unfold_locales

section \<open>What the dispositions mean\<close>

lemma load_state_inv:
  assumes "exec_inv d" "load_state d ev = Inr (Some s)"
  obtains r where "request_of (event_execution ev) d = Some r" "rq_state r = pg_state (ds_status s)"
    "ds_kubernetes_job_name s = truthy_str (rq_k8s_job_name r)"
proof -
  from assms(2) obtain r where r: "request_of (event_execution ev) d = Some r"
    "parse_status (state_text (rq_state r)) = Inr (ds_status s)"
    "ds_kubernetes_job_name s = truthy_str (rq_k8s_job_name r)"
    by (auto simp: load_state_def res_bind_Inr_iff split: option.splits)
  obtain s' where s': "rq_state r = pg_state s'" using exec_inv_pg_state [OF assms(1) r(1)] .
  then have "s' = ds_status s"
    using r(2) by (cases s') (auto simp: parse_status_def all_statuses_def)
  then show thesis using that r s' by blast
qed

end
