(* ===== verification/Execution_Controller.thy ===== *)
theory Execution_Controller imports Execution_Dlq Execution_Submission begin

text \<open>
  The execution controller (\<open>execution_controller.py\<close>). A worker runs one transaction after the
  other; between two of them other sessions commit. A world holds the tables, the queue and the
  sandbox service, and a tick that counts transactions and sleeps. The rig holds what the
  controller is given: at each tick the clocks and the commits of other sessions, the queue and
  sandbox clients, the settings and the library functions.

  An action returns an exception or a value, and the world it leaves: what was committed before
  an exception stays. \<open>in_transaction\<close> rolls the tables back when its body raises.
\<close>

section \<open>Settings\<close>

record settings =
  st_worker_id :: string
  st_lease_seconds :: int
  st_reconciliation_limit :: int
  st_outbox_batch_size :: int
  st_receive_wait_seconds :: int
  st_receive_visibility_seconds :: int
  st_max_attempts :: int
  st_stale_queued_seconds :: int

text \<open>The bounds \<open>ExecutionControllerSettings.discover\<close> enforces on the environment.\<close>

definition check_settings :: "settings \<Rightarrow> settings result" where
  "check_settings s =
     (if st_lease_seconds s < 10
        then Inl (Exn RuntimeErr ''RIGOR_EXECUTION_LEASE_SECONDS must be at least 10.'')
      else if \<not> (1 \<le> st_max_attempts s \<and> st_max_attempts s \<le> 10)
        then Inl (Exn RuntimeErr ''RIGOR_EXECUTION_MAX_ATTEMPTS must be between 1 and 10.'')
      else if st_stale_queued_seconds s < 30
        then Inl (Exn RuntimeErr ''RIGOR_EXECUTION_STALE_QUEUED_SECONDS must be at least 30.'')
      else Inr s)"

definition positive_limit :: "jobj \<Rightarrow> string \<Rightarrow> int \<Rightarrow> int" where
  "positive_limit limits key dflt = (case jget limits key of
     JInt v \<Rightarrow> if v > 0 then v else dflt
   | JStr s \<Rightarrow> (case py_int_of_str s of
       None \<Rightarrow> dflt | Some parsed \<Rightarrow> if parsed > 0 then parsed else dflt)
   | _ \<Rightarrow> dflt)"

definition infrastructure_runner_errors :: "string list" where
  "infrastructure_runner_errors =
     [''RunnerInputError'', ''runner_infrastructure_error'', ''runner_protocol_error'']"

section \<open>The sandbox service\<close>

record sandbox_handle =
  hd_execution_id :: uuid
  hd_namespace :: string
  hd_job_name :: string
  hd_input_secret_name :: string

record sandbox_observation =
  so_state :: string
  so_logs :: "string option"
  so_reason :: "string option"

text \<open>\<open>create_python_execution\<close> and \<open>create_sql_execution\<close> are \<open>sp_create\<close> at the language.\<close>

record 's sandbox_ops =
  sp_namespace :: string
  sp_create :: "string \<Rightarrow> uuid \<Rightarrow> jobj \<Rightarrow> string \<Rightarrow> 's \<Rightarrow> sandbox_handle result \<times> 's"
  sp_observe :: "sandbox_handle \<Rightarrow> 's \<Rightarrow> sandbox_observation result \<times> 's"
  sp_cleanup :: "sandbox_handle \<Rightarrow> 's \<Rightarrow> unit result \<times> 's"

definition handle_for :: "uuid \<Rightarrow> string \<Rightarrow> string \<Rightarrow> sandbox_handle" where
  "handle_for eid namespace job =
     \<lparr>hd_execution_id = eid, hd_namespace = namespace, hd_job_name = job,
      hd_input_secret_name = ''input-'' @ job\<rparr>"

definition or_else :: "string option \<Rightarrow> string \<Rightarrow> string" where
  "or_else s other = (case truthy_str s of None \<Rightarrow> other | Some t \<Rightarrow> t)"

section \<open>Worlds and actions\<close>

record ('q, 's) world =
  wd_db :: db
  wd_queue :: 'q
  wd_sandbox :: 's
  wd_tick :: nat

record ('q, 's) rig =
  rg_env :: "nat \<Rightarrow> env"
  rg_others :: "nat \<Rightarrow> db \<Rightarrow> db"
  rg_mono :: "nat \<Rightarrow> rat"
  rg_locked :: "nat \<Rightarrow> uuid list"
  rg_jitter :: "nat \<Rightarrow> uuid \<Rightarrow> rat"
  rg_queue :: "nat \<Rightarrow> 'q queue_ops"
  rg_sandbox :: "'s sandbox_ops"
  rg_settings :: settings
  rg_ast :: ast_counts
  rg_pd :: pydantic

type_synonym ('q, 's, 'a) act = "('q, 's) world \<Rightarrow> 'a result \<times> ('q, 's) world"

definition ret :: "'a \<Rightarrow> ('q, 's, 'a) act" where
  "ret a w = (Inr a, w)"

definition fail :: "exn \<Rightarrow> ('q, 's, 'a) act" where
  "fail x w = (Inl x, w)"

definition bind :: "('q, 's, 'a) act \<Rightarrow> ('a \<Rightarrow> ('q, 's, 'b) act) \<Rightarrow> ('q, 's, 'b) act" where
  "bind m f w = (case m w of (Inl x, w') \<Rightarrow> (Inl x, w') | (Inr a, w') \<Rightarrow> f a w')"

definition lift :: "'a result \<Rightarrow> ('q, 's, 'a) act" where
  "lift r w = (r, w)"

definition in_transaction ::
  "('q, 's) rig \<Rightarrow> (nat \<Rightarrow> env \<Rightarrow> db \<Rightarrow> ('a \<times> db) result) \<Rightarrow> ('q, 's, 'a) act" where
  "in_transaction g body w =
     (let n = wd_tick w; d = rg_others g n (wd_db w) in
      case body n (rg_env g n) d of
        Inl x \<Rightarrow> (Inl x, w\<lparr>wd_db := d, wd_tick := n + 1\<rparr>)
      | Inr (a, d') \<Rightarrow> (Inr a, w\<lparr>wd_db := d', wd_tick := n + 1\<rparr>))"

definition sandbox_call :: "('s \<Rightarrow> 'a result \<times> 's) \<Rightarrow> ('q, 's, 'a) act" where
  "sandbox_call f w = (case f (wd_sandbox w) of (r, s') \<Rightarrow> (r, w\<lparr>wd_sandbox := s'\<rparr>))"

definition queue_call :: "('q, 's) rig \<Rightarrow> ('q queue_ops \<Rightarrow> 'q \<Rightarrow> 'q result) \<Rightarrow> ('q, 's, unit) act" where
  "queue_call g f w = (case f (rg_queue g (wd_tick w)) (wd_queue w) of
     Inl x \<Rightarrow> (Inl x, w) | Inr q' \<Rightarrow> (Inr (), w\<lparr>wd_queue := q'\<rparr>))"

text \<open>\<open>datetime.now(UTC) + timedelta(seconds=lease_seconds)\<close>.\<close>

definition lease_deadline :: "('q, 's) rig \<Rightarrow> env \<Rightarrow> timestamp" where
  "lease_deadline g e = app_now e + st_lease_seconds (rg_settings g) * 10 ^ 6"

section \<open>Terminal outcomes\<close>

definition timeout_projection :: "dispatch_package \<Rightarrow> projection" where
  "timeout_projection pkg =
     \<lparr>tp_execution_status = Timeout,
      tp_runtime_ms = positive_limit (dp_limits pkg) ''execution_timeout_seconds'' 10 * 1000,
      tp_exit_code = 124, tp_error_category = Some ''timeout'', tp_public_results = [],
      tp_hidden_total = 0, tp_hidden_passed = 0, tp_stdout = [], tp_stderr = [],
      tp_candidate_message = ''Execution exceeded the configured time limit.''\<rparr>"

definition failure_projection :: "string \<Rightarrow> string \<Rightarrow> projection" where
  "failure_projection error_category message =
     \<lparr>tp_execution_status = Failed, tp_runtime_ms = 0, tp_exit_code = 1,
      tp_error_category = Some error_category, tp_public_results = [],
      tp_hidden_total = 0, tp_hidden_passed = 0, tp_stdout = [], tp_stderr = [],
      tp_candidate_message = message\<rparr>"

text \<open>\<open>_terminal_or_lost\<close> swallows every exception of the lookup.\<close>

definition terminal_or_lost :: "uuid \<Rightarrow> db \<Rightarrow> bool" where
  "terminal_or_lost eid d = (case get_execution eid d of
     Inl x \<Rightarrow> False | Inr s \<Rightarrow> is_terminal (es_status s))"

definition store_projection ::
  "ast_counts \<Rightarrow> dispatch_package \<Rightarrow> projection \<Rightarrow> env \<Rightarrow> db \<Rightarrow> (bool \<times> db) result" where
  "store_projection ast pkg p e d =
     res_bind (persist_terminal_result e (dp_execution_id pkg) p d d) (\<lambda>(terminal, d').
       Inr (True, if terminal = tp_execution_status p then finalize_submission e ast pkg p d' else d'))"

definition owns_locked_attempt :: "('q, 's) rig \<Rightarrow> dispatch_package \<Rightarrow> env \<Rightarrow> db \<Rightarrow> bool" where
  "owns_locked_attempt g pkg e d =
     lock_owned_attempt e (dp_execution_id pkg) (st_worker_id (rg_settings g)) (dp_attempt_count pkg) d"

definition persist_projection_tx ::
  "('q, 's) rig \<Rightarrow> dispatch_package \<Rightarrow> projection \<Rightarrow> env \<Rightarrow> db \<Rightarrow> (bool \<times> db) result" where
  "persist_projection_tx g pkg p e d =
     (if \<not> owns_locked_attempt g pkg e d then Inr (terminal_or_lost (dp_execution_id pkg) d, d)
      else store_projection (rg_ast g) pkg p e d)"

definition persist_projection ::
  "('q, 's) rig \<Rightarrow> dispatch_package \<Rightarrow> projection \<Rightarrow> ('q, 's, bool) act" where
  "persist_projection g pkg p = in_transaction g (\<lambda>_. persist_projection_tx g pkg p)"

definition persist_timeout :: "('q, 's) rig \<Rightarrow> dispatch_package \<Rightarrow> ('q, 's, bool) act" where
  "persist_timeout g pkg = persist_projection g pkg (timeout_projection pkg)"

definition persist_infrastructure_failure ::
  "('q, 's) rig \<Rightarrow> dispatch_package \<Rightarrow> string \<Rightarrow> string \<Rightarrow> ('q, 's, bool) act" where
  "persist_infrastructure_failure g pkg error_category message =
     persist_projection g pkg (failure_projection error_category message)"

section \<open>Retries\<close>

definition defer_guard :: "string \<Rightarrow> dispatch_package \<Rightarrow> request_row \<Rightarrow> bool" where
  "defer_guard worker pkg r \<longleftrightarrow>
     rq_id r = dp_execution_id pkg \<and> rq_attempt_count r = dp_attempt_count pkg \<and>
     rq_lease_owner r = Some worker \<and>
     (rq_state r = PG_DISPATCHING \<or> rq_state r = PG_RUNNING)"

definition defer_row :: "env \<Rightarrow> string \<Rightarrow> request_row \<Rightarrow> request_row" where
  "defer_row e error_category r =
     r\<lparr>rq_lease_expires_at := Some (db_now e - 10 ^ 6), rq_k8s_namespace := None,
       rq_k8s_job_name := None, rq_error_category := Some error_category\<rparr>"

definition defer_tx ::
  "('q, 's) rig \<Rightarrow> dispatch_package \<Rightarrow> string \<Rightarrow> env \<Rightarrow> db \<Rightarrow> (bool \<times> db) result" where
  "defer_tx g pkg error_category e d =
     Inr (False, d\<lparr>requests := update_where (defer_guard (st_worker_id (rg_settings g)) pkg)
       (defer_row e error_category) (requests d)\<rparr>)"

definition defer_infrastructure_retry ::
  "('q, 's) rig \<Rightarrow> dispatch_package \<Rightarrow> sandbox_handle \<Rightarrow> string \<Rightarrow> ('q, 's, bool) act" where
  "defer_infrastructure_retry g pkg handle error_category =
     (if dp_attempt_count pkg \<ge> st_max_attempts (rg_settings g)
      then persist_infrastructure_failure g pkg ''execution_attempt_limit''
        ''Execution failed after repeated infrastructure errors.''
      else bind (sandbox_call (sp_cleanup (rg_sandbox g) handle)) (\<lambda>_.
        in_transaction g (\<lambda>_. defer_tx g pkg error_category)))"

section \<open>Observations\<close>

text \<open>
  The transaction of a good result. \<open>TrustedResultError\<close> is caught outside of it and turned
  into a retry; any other exception leaves the method.
\<close>

definition observation_tx ::
  "('q, 's) rig \<Rightarrow> dispatch_package \<Rightarrow> sandbox_result \<Rightarrow> env \<Rightarrow> db \<Rightarrow> (bool \<times> db) result" where
  "observation_tx g pkg result e d =
     (if \<not> owns_locked_attempt g pkg e d then Inr (terminal_or_lost (dp_execution_id pkg) d, d)
      else res_bind (load_expected_tests (lib e) (dp_question_version_id pkg) d) (\<lambda>expected.
        res_bind (trusted_compare (lib e) result expected) (\<lambda>p.
          store_projection (rg_ast g) pkg p e d)))"

definition infrastructure_category :: "sandbox_result \<Rightarrow> string option" where
  "infrastructure_category result =
     (if sx_status result = ''FAILED'' then (case sx_error_category result of
          None \<Rightarrow> None
        | Some c \<Rightarrow> if c \<in> set infrastructure_runner_errors
            then Some (or_else (Some c) ''runner_infrastructure_error'') else None)
      else None)"

text \<open>\<open>except TrustedResultError\<close>: run \<open>handler\<close> in the world the body leaves.\<close>

definition on_trusted_error ::
  "('q, 's, 'a) act \<Rightarrow> ('q, 's, 'a) act \<Rightarrow> ('q, 's, 'a) act" where
  "on_trusted_error body handler w = (case body w of
     (Inl x, w') \<Rightarrow> if exn_class x = TrustedResultErr then handler w' else (Inl x, w')
   | (Inr a, w') \<Rightarrow> (Inr a, w'))"

definition persist_observation ::
  "('q, 's) rig \<Rightarrow> dispatch_package \<Rightarrow> sandbox_observation \<Rightarrow> sandbox_handle \<Rightarrow> ('q, 's, bool) act" where
  "persist_observation g pkg observation handle =
     (case truthy_str (so_logs observation) of
        None \<Rightarrow> defer_infrastructure_retry g pkg handle ''runner_result_unavailable''
      | Some logs \<Rightarrow> on_trusted_error
          (\<lambda>w. bind (lift (parse_runner_result (lib (rg_env g (wd_tick w))) logs
                 (dp_execution_id pkg) (Some (dp_attempt_count pkg)))) (\<lambda>result.
             case infrastructure_category result of
               Some category \<Rightarrow> defer_infrastructure_retry g pkg handle category
             | None \<Rightarrow> in_transaction g (\<lambda>_. observation_tx g pkg result)) w)
          (defer_infrastructure_retry g pkg handle ''trusted_result_validation_failed''))"

section \<open>Starting and monitoring a sandbox\<close>

definition default_profile :: "string \<Rightarrow> string" where
  "default_profile language = (if language = ''python'' then ''python-small'' else ''sql-small'')"

definition start_sandbox ::
  "('q, 's) rig \<Rightarrow> dispatch_package \<Rightarrow> ('q, 's, sandbox_handle option) act" where
  "start_sandbox g pkg w =
     (let l = lib (rg_env g (wd_tick w)) in
      bind (lift (sandbox_request l pkg)) (\<lambda>request_payload.
        if dp_language pkg \<notin> set [''python'', ''sql'']
        then fail (Exn TrustedResultErr ''Unsupported execution language.'')
        else bind (sandbox_call (sp_create (rg_sandbox g) (dp_language pkg) (dp_execution_id pkg)
               request_payload (py_str l (py_or (jget (dp_limits pkg) ''profile'')
                 (JStr (default_profile (dp_language pkg))))))) (\<lambda>handle.
          bind (in_transaction g (\<lambda>_ e d. Inr (mark_running e (dp_execution_id pkg)
                  (st_worker_id (rg_settings g)) (hd_namespace handle) (hd_job_name handle) d)))
            (\<lambda>running.
              if running then ret (Some handle)
              else bind (sandbox_call (sp_cleanup (rg_sandbox g) handle)) (\<lambda>_. ret None)))) w)"

definition renew_execution_lease :: "('q, 's) rig \<Rightarrow> uuid \<Rightarrow> ('q, 's, bool) act" where
  "renew_execution_lease g eid = in_transaction g (\<lambda>_ e d.
     renew_lease e eid (st_worker_id (rg_settings g)) (lease_deadline g e) d)"

text \<open>
  One turn of the monitoring loop: either the method returns, or it sleeps and looks again with
  a new renewal time. \<open>rg_mono\<close> is \<open>time.monotonic()\<close>; a sleep is one tick.
\<close>

datatype monitor_turn = Return bool | Again rat

definition monitor_turn ::
  "('q, 's) rig \<Rightarrow> dispatch_package \<Rightarrow> sandbox_handle \<Rightarrow> sqs_message \<Rightarrow> rat \<Rightarrow> rat \<Rightarrow> rat \<Rightarrow>
     ('q, 's, monitor_turn) act" where
  "monitor_turn g pkg handle message deadline renew_after next_renewal =
     bind (sandbox_call (sp_observe (rg_sandbox g) handle)) (\<lambda>observation.
       if so_state observation = ''SUCCEEDED'' \<or> so_state observation = ''FAILED'' then
         bind (if so_reason observation = Some ''DeadlineExceeded'' \<and>
                  truthy_str (so_logs observation) = None
               then persist_timeout g pkg
               else persist_observation g pkg observation handle) (\<lambda>b. ret (Return b))
       else if so_state observation = ''MISSING'' then
         bind (defer_infrastructure_retry g pkg handle ''sandbox_missing'') (\<lambda>b. ret (Return b))
       else (\<lambda>w.
         if deadline \<le> rg_mono g (wd_tick w)
         then bind (persist_timeout g pkg) (\<lambda>b. ret (Return b)) w
         else if next_renewal \<le> rg_mono g (wd_tick w)
         then bind (renew_execution_lease g (dp_execution_id pkg)) (\<lambda>renewed.
                if \<not> renewed then ret (Return False)
                else bind (queue_call g (\<lambda>ops. qo_visibility ops (sm_receipt_handle message)
                         (st_receive_visibility_seconds (rg_settings g)))) (\<lambda>_ w'.
                       (Inr (Again (rg_mono g (wd_tick w') + renew_after)),
                        w'\<lparr>wd_tick := wd_tick w' + 1\<rparr>))) w
         else (Inr (Again next_renewal), w\<lparr>wd_tick := wd_tick w + 1\<rparr>)))"

fun monitor_loop ::
  "('q, 's) rig \<Rightarrow> dispatch_package \<Rightarrow> sandbox_handle \<Rightarrow> sqs_message \<Rightarrow> rat \<Rightarrow> rat \<Rightarrow> nat \<Rightarrow> rat \<Rightarrow>
     ('q, 's) world \<Rightarrow> (bool result \<times> ('q, 's) world) option" where
  "monitor_loop g pkg handle message deadline renew_after 0 next_renewal w = None"
| "monitor_loop g pkg handle message deadline renew_after (Suc fuel) next_renewal w =
     (case monitor_turn g pkg handle message deadline renew_after next_renewal w of
        (Inl x, w') \<Rightarrow> Some (Inl x, w')
      | (Inr (Return b), w') \<Rightarrow> Some (Inr b, w')
      | (Inr (Again next_renewal'), w') \<Rightarrow>
          monitor_loop g pkg handle message deadline renew_after fuel next_renewal' w')"

definition monitor_deadline :: "('q, 's) rig \<Rightarrow> dispatch_package \<Rightarrow> ('q, 's) world \<Rightarrow> rat" where
  "monitor_deadline g pkg w =
     rg_mono g (wd_tick w) + of_int (positive_limit (dp_limits pkg) ''job_deadline_seconds'' 30) + 10"

definition monitor ::
  "('q, 's) rig \<Rightarrow> nat \<Rightarrow> dispatch_package \<Rightarrow> sandbox_handle \<Rightarrow> sqs_message \<Rightarrow> ('q, 's) world \<Rightarrow>
     (bool result \<times> ('q, 's) world) option" where
  "monitor g fuel pkg handle message w =
     (let renew_after = of_int (max 5 (st_lease_seconds (rg_settings g) div 2)) in
      monitor_loop g pkg handle message (monitor_deadline g pkg w) renew_after fuel
        (rg_mono g (wd_tick w) + renew_after) w)"

section \<open>Messages\<close>

text \<open>
  The claim transaction: either the answer to give without a claim, or the claimed package.
  \<open>_execution_status\<close> swallows every exception of the lookup.
\<close>

definition claim_tx ::
  "('q, 's) rig \<Rightarrow> uuid \<Rightarrow> env \<Rightarrow> db \<Rightarrow> ((bool + dispatch_package) \<times> db) result" where
  "claim_tx g eid e d =
     res_bind (claim_for_dispatch e eid (st_worker_id (rg_settings g)) (lease_deadline g e) d)
       (\<lambda>(claim, d1). case claim of
          None \<Rightarrow> Inr (Inl (case get_execution eid d1 of Inl x \<Rightarrow> False | Inr s \<Rightarrow> True), d1)
        | Some c \<Rightarrow> res_bind (load_dispatch_package eid d1) (\<lambda>pkg. Inr (Inr pkg, d1)))"

definition process_requested ::
  "('q, 's) rig \<Rightarrow> nat \<Rightarrow> requested_event \<Rightarrow> sqs_message \<Rightarrow> ('q, 's) world \<Rightarrow>
     (bool result \<times> ('q, 's) world) option" where
  "process_requested g fuel event message w =
     (case in_transaction g (\<lambda>_. claim_tx g (re_execution_id event)) w of
        (Inl x, w1) \<Rightarrow> Some (Inl x, w1)
      | (Inr (Inl known), w1) \<Rightarrow> Some (Inr known, w1)
      | (Inr (Inr pkg), w1) \<Rightarrow>
          if dp_attempt_count pkg > st_max_attempts (rg_settings g)
          then Some (persist_infrastructure_failure g pkg ''execution_attempt_limit''
            ''Execution could not be started after repeated infrastructure failures.'' w1)
          else if dp_language pkg \<notin> set [''python'', ''sql'']
          then Some (persist_infrastructure_failure g pkg ''unsupported_execution_language''
            ''This runtime is not available in the production executor.'' w1)
          else (case start_sandbox g pkg w1 of
              (Inl x, w2) \<Rightarrow> Some (Inl x, w2)
            | (Inr None, w2) \<Rightarrow> Some (Inr True, w2)
            | (Inr (Some handle), w2) \<Rightarrow> (case monitor g fuel pkg handle message w2 of
                  None \<Rightarrow> None
                | Some (Inl x, w3) \<Rightarrow> Some (Inl x, w3)
                | Some (Inr terminal, w3) \<Rightarrow> Some (if terminal
                    then bind (sandbox_call (sp_cleanup (rg_sandbox g) handle)) (\<lambda>_. ret terminal) w3
                    else (Inr terminal, w3)))))"

definition clear_cancelled_row :: "request_row \<Rightarrow> request_row" where
  "clear_cancelled_row r =
     r\<lparr>rq_k8s_namespace := None, rq_k8s_job_name := None, rq_lease_owner := None,
       rq_lease_expires_at := None\<rparr>"

definition clear_cancelled :: "uuid \<Rightarrow> db \<Rightarrow> db" where
  "clear_cancelled eid d = d\<lparr>requests := update_where
     (\<lambda>r. rq_id r = eid \<and> rq_state r = PG_CANCELLED) clear_cancelled_row (requests d)\<rparr>"

definition process_cancel :: "('q, 's) rig \<Rightarrow> cancel_event \<Rightarrow> ('q, 's, unit) act" where
  "process_cancel g event =
     (let eid = ce_execution_id event in
      bind (in_transaction g (\<lambda>_ e d. Inr (request_of eid d, d))) (\<lambda>row.
        case row of None \<Rightarrow> ret ()
        | Some r \<Rightarrow>
            bind (sandbox_call (sp_cleanup (rg_sandbox g) (handle_for eid
                (or_else (rq_k8s_namespace r) (sp_namespace (rg_sandbox g)))
                (or_else (rq_k8s_job_name r) (''execution-'' @ uuid_str eid))))) (\<lambda>_.
              in_transaction g (\<lambda>_ e d. Inr ((), clear_cancelled eid d)))))"

definition process_message ::
  "('q, 's) rig \<Rightarrow> nat \<Rightarrow> sqs_message \<Rightarrow> ('q, 's) world \<Rightarrow> (bool result \<times> ('q, 's) world) option" where
  "process_message g fuel message w =
     (case parse_body (lib (rg_env g (wd_tick w))) (rg_pd g) (sm_body message) of
        Inl x \<Rightarrow> Some (Inr False, w)
      | Inr (CancelRequested ev) \<Rightarrow>
          Some (bind (process_cancel g ev) (\<lambda>_.
            bind (queue_call g (\<lambda>ops. qo_delete ops (sm_receipt_handle message))) (\<lambda>_. ret True)) w)
      | Inr (Requested ev) \<Rightarrow>
          (case queue_call g (\<lambda>ops. qo_visibility ops (sm_receipt_handle message)
                  (st_receive_visibility_seconds (rg_settings g))) w of
             (Inl x, w1) \<Rightarrow> Some (Inl x, w1)
           | (Inr _, w1) \<Rightarrow> (case process_requested g fuel ev message w1 of
                 None \<Rightarrow> None
               | Some (Inl x, w2) \<Rightarrow> Some (Inl x, w2)
               | Some (Inr acknowledged, w2) \<Rightarrow> Some (if acknowledged
                   then bind (queue_call g (\<lambda>ops. qo_delete ops (sm_receipt_handle message)))
                     (\<lambda>_. ret acknowledged) w2
                   else (Inr acknowledged, w2)))))"

section \<open>Reconciliation\<close>

definition stale_guard :: "int \<Rightarrow> env \<Rightarrow> db \<Rightarrow> outbox_row \<Rightarrow> bool" where
  "stale_guard stale_seconds e d ob \<longleftrightarrow>
     ob_aggregate_type ob = ''execution'' \<and> ob_event_type ob = ''execution.requested'' \<and>
     (case request_of (ob_aggregate_id ob) d of None \<Rightarrow> False | Some r \<Rightarrow> rq_state r = PG_QUEUED) \<and>
     sql_lt (ob_published_at ob) (db_now e - stale_seconds * 10 ^ 6)"

definition requeue_row :: "env \<Rightarrow> outbox_row \<Rightarrow> outbox_row" where
  "requeue_row e ob = ob\<lparr>ob_published_at := None, ob_next_attempt_at := db_now e,
     ob_last_error := Some ''stale_queued_republish''\<rparr>"

definition requeue_stale_queued_tx :: "('q, 's) rig \<Rightarrow> env \<Rightarrow> db \<Rightarrow> (nat \<times> db) result" where
  "requeue_stale_queued_tx g e d =
     (let stale = stale_guard (st_stale_queued_seconds (rg_settings g)) e d in
      Inr (length (filter stale (outbox d)),
        d\<lparr>outbox := update_where stale (requeue_row e) (outbox d)\<rparr>))"

definition retry_expired_tx ::
  "('q, 's) rig \<Rightarrow> expired_lease \<Rightarrow> env \<Rightarrow> db \<Rightarrow> (dispatch_package option \<times> db) result" where
  "retry_expired_tx g lease e d =
     res_bind (retry_missing_sandbox e (xl_execution_id lease) (xl_attempt_count lease)
         (st_worker_id (rg_settings g)) (lease_deadline g e) (st_max_attempts (rg_settings g)) d)
       (\<lambda>(attempt, d1). case attempt of
          None \<Rightarrow> Inr (None, d1)
        | Some a \<Rightarrow> res_bind (load_dispatch_package (xl_execution_id lease) d1) (\<lambda>pkg.
            if dp_attempt_count pkg \<noteq> a
            then Inl (Exn RuntimeErr ''Recovered execution attempt does not match durable claim.'')
            else Inr (Some pkg, d1)))"

definition retry_expired_missing_sandbox ::
  "('q, 's) rig \<Rightarrow> expired_lease \<Rightarrow> ('q, 's, dispatch_package option) act" where
  "retry_expired_missing_sandbox g lease =
     (if xl_attempt_count lease \<ge> st_max_attempts (rg_settings g) then ret None
      else in_transaction g (\<lambda>_. retry_expired_tx g lease))"

definition reacquire_guard :: "env \<Rightarrow> expired_lease \<Rightarrow> request_row \<Rightarrow> bool" where
  "reacquire_guard e lease r \<longleftrightarrow>
     rq_id r = xl_execution_id lease \<and> state_text (rq_state r) = status_value (xl_status lease) \<and>
     rq_attempt_count r = xl_attempt_count lease \<and> sql_lt (rq_lease_expires_at r) (db_now e)"

definition reacquire_row :: "string \<Rightarrow> timestamp \<Rightarrow> request_row \<Rightarrow> request_row" where
  "reacquire_row worker expires r =
     r\<lparr>rq_lease_owner := Some worker, rq_lease_expires_at := Some expires\<rparr>"

definition reacquire_tx ::
  "('q, 's) rig \<Rightarrow> expired_lease \<Rightarrow> sandbox_observation \<Rightarrow> string \<Rightarrow> string \<Rightarrow> env \<Rightarrow> db \<Rightarrow>
     (dispatch_package option \<times> db) result" where
  "reacquire_tx g lease observation namespace job e d =
     (let worker = st_worker_id (rg_settings g);
          d1 = d\<lparr>requests := update_where (reacquire_guard e lease)
            (reacquire_row worker (lease_deadline g e)) (requests d)\<rparr>
      in if find (reacquire_guard e lease) (requests d) = None then Inr (None, d1)
         else res_bind (load_dispatch_package (xl_execution_id lease) d1) (\<lambda>pkg.
           if xl_status lease = Dispatching \<and> so_state observation \<noteq> ''MISSING''
           then (case mark_running e (xl_execution_id lease) worker namespace job d1 of
               (running, d2) \<Rightarrow> Inr (if running then Some pkg else None, d2))
           else Inr (Some pkg, d1)))"

definition reacquire_expired_execution ::
  "('q, 's) rig \<Rightarrow> expired_lease \<Rightarrow> sandbox_observation \<Rightarrow> string \<Rightarrow> string \<Rightarrow>
     ('q, 's, dispatch_package option) act" where
  "reacquire_expired_execution g lease observation namespace job =
     in_transaction g (\<lambda>_. reacquire_tx g lease observation namespace job)"

definition cleanup_if :: "('q, 's) rig \<Rightarrow> sandbox_handle \<Rightarrow> bool \<Rightarrow> ('q, 's, bool) act" where
  "cleanup_if g handle terminal =
     (if terminal then bind (sandbox_call (sp_cleanup (rg_sandbox g) handle)) (\<lambda>_. ret terminal)
      else ret terminal)"

definition reconcile_lease :: "('q, 's) rig \<Rightarrow> expired_lease \<Rightarrow> ('q, 's, bool) act" where
  "reconcile_lease g lease =
     (let namespace = or_else (xl_k8s_namespace lease) (sp_namespace (rg_sandbox g));
          job = or_else (xl_k8s_job_name lease) (''execution-'' @ uuid_str (xl_execution_id lease));
          handle = handle_for (xl_execution_id lease) namespace job
      in bind (sandbox_call (sp_observe (rg_sandbox g) handle)) (\<lambda>observation.
        if so_state observation = ''MISSING'' then
          bind (retry_expired_missing_sandbox g lease) (\<lambda>retried. case retried of
            Some pkg \<Rightarrow> bind (start_sandbox g pkg) (\<lambda>started. ret (started \<noteq> None))
          | None \<Rightarrow>
              bind (reacquire_expired_execution g lease observation namespace job) (\<lambda>pkg. case pkg of
                None \<Rightarrow> ret False
              | Some p \<Rightarrow>
                  bind (persist_infrastructure_failure g p ''execution_attempt_limit''
                    ''Execution failed after repeated infrastructure errors.'') (cleanup_if g handle)))
        else
          bind (reacquire_expired_execution g lease observation namespace job) (\<lambda>pkg. case pkg of
            None \<Rightarrow> ret False
          | Some p \<Rightarrow>
              if so_state observation = ''SUCCEEDED'' \<or> so_state observation = ''FAILED''
              then bind (persist_observation g p observation handle) (cleanup_if g handle)
              else ret True)))"

text \<open>\<open>except Exception\<close>: a lease whose reconciliation raises counts as not repaired.\<close>

fun reconcile_leases ::
  "('q, 's) rig \<Rightarrow> expired_lease list \<Rightarrow> nat \<Rightarrow> ('q, 's, nat) act" where
  "reconcile_leases g [] repaired w = (Inr repaired, w)"
| "reconcile_leases g (lease # leases) repaired w =
     (case reconcile_lease g lease w of
        (Inl x, w') \<Rightarrow> reconcile_leases g leases repaired w'
      | (Inr b, w') \<Rightarrow> reconcile_leases g leases (if b then repaired + 1 else repaired) w')"

definition orphan_rows :: "('q, 's) rig \<Rightarrow> db \<Rightarrow> request_row list" where
  "orphan_rows g d = take (nat (st_reconciliation_limit (rg_settings g)))
     (sort_key (\<lambda>r. (rq_completed_at r = None, rq_completed_at r, rq_id r))
       (filter (\<lambda>r. rq_state r \<in> {PG_COMPLETED, PG_FAILED, PG_TIMEOUT, PG_CANCELLED} \<and>
          rq_k8s_job_name r \<noteq> None) (requests d)))"

definition clear_job_row :: "request_row \<Rightarrow> request_row" where
  "clear_job_row r = r\<lparr>rq_k8s_namespace := None, rq_k8s_job_name := None\<rparr>"

definition orphan_guard :: "uuid \<Rightarrow> request_row \<Rightarrow> bool" where
  "orphan_guard eid r \<longleftrightarrow> rq_id r = eid \<and>
     rq_state r \<in> {PG_COMPLETED, PG_FAILED, PG_TIMEOUT, PG_CANCELLED}"

definition clear_orphan :: "uuid \<Rightarrow> db \<Rightarrow> bool \<times> db" where
  "clear_orphan eid d =
     (find (orphan_guard eid) (requests d) \<noteq> None,
      d\<lparr>requests := update_where (orphan_guard eid) clear_job_row (requests d)\<rparr>)"

fun cleanup_orphans :: "('q, 's) rig \<Rightarrow> request_row list \<Rightarrow> nat \<Rightarrow> ('q, 's, nat) act" where
  "cleanup_orphans g [] cleaned w = (Inr cleaned, w)"
| "cleanup_orphans g (r # rs) cleaned w =
     bind (sandbox_call (sp_cleanup (rg_sandbox g) (handle_for (rq_id r)
         (or_else (rq_k8s_namespace r) (sp_namespace (rg_sandbox g)))
         (case rq_k8s_job_name r of None \<Rightarrow> ''None'' | Some j \<Rightarrow> j)))) (\<lambda>_.
       bind (in_transaction g (\<lambda>_ e d. Inr (clear_orphan (rq_id r) d))) (\<lambda>updated.
         cleanup_orphans g rs (if updated then cleaned + 1 else cleaned))) w"

definition cleanup_terminal_orphans :: "('q, 's) rig \<Rightarrow> ('q, 's, nat) act" where
  "cleanup_terminal_orphans g =
     bind (in_transaction g (\<lambda>_ e d. Inr (orphan_rows g d, d))) (\<lambda>rows. cleanup_orphans g rows 0)"

definition reconcile_once :: "('q, 's) rig \<Rightarrow> ('q, 's, nat) act" where
  "reconcile_once g =
     bind (in_transaction g (\<lambda>_. requeue_stale_queued_tx g)) (\<lambda>repaired.
     bind (in_transaction g (\<lambda>n e d. res_bind (expired_leases e (rg_locked g n)
            (st_reconciliation_limit (rg_settings g)) d) (\<lambda>leases. Inr (leases, d)))) (\<lambda>leases.
     bind (reconcile_leases g leases repaired) (\<lambda>repaired'.
     bind (cleanup_terminal_orphans g) (\<lambda>cleaned. ret (repaired' + cleaned)))))"

section \<open>Publishing and one turn of the worker\<close>

text \<open>\<open>SqsExecutionQueuePublisher.publish\<close>: the payload as one message body.\<close>

definition publish_message ::
  "pylib \<Rightarrow> 'q queue_ops \<Rightarrow> outbox_message \<Rightarrow> 'q \<Rightarrow> exn option \<times> 'q" where
  "publish_message l ops m q = (case qo_send ops (json_dumps l False False (JObj (om_payload m))) q of
     Inl x \<Rightarrow> (Some x, q) | Inr q' \<Rightarrow> (None, q'))"

text \<open>The sends are not undone when the transaction is.\<close>

definition publish_outbox_once :: "('q, 's) rig \<Rightarrow> ('q, 's, nat) act" where
  "publish_outbox_once g w =
     (let n = wd_tick w; e = rg_env g n; d = rg_others g n (wd_db w) in
      case publish_outbox_batch e (rg_locked g n) (rg_jitter g n)
             (publish_message (lib e) (rg_queue g n)) (st_outbox_batch_size (rg_settings g)) d (wd_queue w) of
        (Inl x, q') \<Rightarrow> (Inl x, w\<lparr>wd_db := d, wd_queue := q', wd_tick := n + 1\<rparr>)
      | (Inr (b, d'), q') \<Rightarrow> (Inr (pb_published b), w\<lparr>wd_db := d', wd_queue := q', wd_tick := n + 1\<rparr>))"

fun process_messages ::
  "('q, 's) rig \<Rightarrow> nat \<Rightarrow> sqs_message list \<Rightarrow> ('q, 's) world \<Rightarrow> ('q, 's) world option" where
  "process_messages g fuel [] w = Some w"
| "process_messages g fuel (m # ms) w = (case process_message g fuel m w of
     None \<Rightarrow> None | Some (r, w') \<Rightarrow> process_messages g fuel ms w')"

text \<open>
  The body of \<open>run_forever\<close>: an exception ends the turn and is logged. \<open>due\<close> says whether
  thirty seconds have passed since the last reconciliation.
\<close>

definition controller_turn ::
  "('q, 's) rig \<Rightarrow> nat \<Rightarrow> bool \<Rightarrow> ('q, 's) world \<Rightarrow> ('q, 's) world option" where
  "controller_turn g fuel due w =
     (case bind (publish_outbox_once g) (\<lambda>_.
            if due then reconcile_once g else ret 0) w of
        (Inl x, w1) \<Rightarrow> Some w1
      | (Inr _, w1) \<Rightarrow>
         (case qo_receive (rg_queue g (wd_tick w1)) 10
                 (st_receive_visibility_seconds (rg_settings g)) (wd_queue w1) of
            Inl x \<Rightarrow> Some w1
          | Inr (ms, q') \<Rightarrow> process_messages g fuel ms (w1\<lparr>wd_queue := q'\<rparr>)))"

end
