(* ===== verification/Execution_Steps.thy ===== *)
theory Execution_Steps imports Execution_Controller begin

text \<open>
  The execution plane as a transition system: one step per committed transaction, in any order
  and from any session. \<open>exec_step\<close> has a rule for each operation; \<open>db_advance\<close> states what no
  step ever undoes: identity columns, a terminal state, the log so far, and the count of
  attempts, which the log accounts for.
\<close>

section \<open>Steps\<close>

inductive exec_step :: "db \<Rightarrow> db \<Rightarrow> bool" where
  step_create: "create_queued e eid oid c seen d = Inr (q, d') \<Longrightarrow> exec_step d d'"
| step_cancel: "cancel e oid eid trace d = Inr (snap, d') \<Longrightarrow> exec_step d d'"
| step_claim: "claim_for_dispatch e eid worker expires d = Inr (res, d') \<Longrightarrow> exec_step d d'"
| step_retry: "retry_missing_sandbox e eid attempt worker expires limit d = Inr (res, d') \<Longrightarrow> exec_step d d'"
| step_running: "mark_running e eid worker namespace job d = (b, d') \<Longrightarrow> exec_step d d'"
| step_renew: "renew_lease e eid worker expires d = Inr (b, d') \<Longrightarrow> exec_step d d'"
| step_persist: "is_terminal (tp_execution_status p) \<Longrightarrow>
    persist_terminal_result e eid p seen d = Inr (st, d') \<Longrightarrow> exec_step d d'"
| step_defer: "exec_step d (d\<lparr>requests := update_where (defer_guard worker pkg) (defer_row e category) (requests d)\<rparr>)"
| step_reacquire: "xl_status lease \<in> {Dispatching, Running} \<Longrightarrow>
    exec_step d (d\<lparr>requests := update_where (reacquire_guard e lease) (reacquire_row worker expires) (requests d)\<rparr>)"
| step_clear_cancelled: "exec_step d (clear_cancelled eid d)"
| step_clear_orphan: "clear_orphan eid d = (b, d') \<Longrightarrow> exec_step d d'"
| step_requeue: "exec_step d (d\<lparr>outbox := update_where (stale_guard stale e d0) (requeue_row e) (outbox d)\<rparr>)"
| step_published: "exec_step d (mark_published e m d)"
| step_publish_failed: "mark_failed e m attempt err jitter d = Inr (t, d') \<Longrightarrow> exec_step d d'"
| step_other: "requests d' = requests d \<Longrightarrow> payloads d' = payloads d \<Longrightarrow>
    exec_events d' = exec_events d \<Longrightarrow> outbox d' = outbox d \<Longrightarrow> exec_step d d'"

definition reachable :: "db \<Rightarrow> bool" where
  "reachable d \<longleftrightarrow> exec_step\<^sup>*\<^sup>* empty_db d"

section \<open>The remaining operations keep the invariant\<close>

lemma defer_guard_active: "defer_guard w pkg r \<Longrightarrow> active_state (rq_state r)"
  by (auto simp: defer_guard_def)

lemma row_ok_active_columns:
  assumes "row_ok r" "active_state (rq_state r)" "rq_state r' = rq_state r"
    "rq_attempt_count r' = rq_attempt_count r" "rq_lease_owner r' \<noteq> None"
    "rq_lease_expires_at r' \<noteq> None" "rq_dispatch_started_at r' = rq_dispatch_started_at r"
    "rq_completed_at r' = rq_completed_at r" "rq_execution_type r' = rq_execution_type r"
  shows "row_ok r'"
proof -
  obtain ty where "rq_execution_type r = type_value ty" using row_ok_type [OF assms(1)] .
  then show ?thesis
    using row_ok_active [OF assms(1,2)] assms by (intro row_ok_activeI [of _ ty]) auto
qed

lemma row_ok_defer:
  assumes "row_ok r" "defer_guard w pkg r"
  shows "row_ok (defer_row e c r)"
  using assms row_ok_active [OF assms(1) defer_guard_active [OF assms(2)]]
  by (intro row_ok_active_columns [OF assms(1) defer_guard_active [OF assms(2)]])
    (auto simp: defer_row_def)

lemma reacquire_guard_active:
  assumes "xl_status lease \<in> {Dispatching, Running}" "row_ok r" "reacquire_guard e lease r"
  shows "active_state (rq_state r)"
proof -
  obtain s where "rq_state r = pg_state s" using row_ok_state [OF assms(2)] .
  then show ?thesis using assms(1,3) by (cases s) (auto simp: reacquire_guard_def)
qed

lemma row_ok_reacquire:
  assumes "xl_status lease \<in> {Dispatching, Running}" "row_ok r" "reacquire_guard e lease r"
  shows "row_ok (reacquire_row w x r)"
  using assms row_ok_active [OF assms(2) reacquire_guard_active [OF assms]]
  by (intro row_ok_active_columns [OF assms(2) reacquire_guard_active [OF assms]])
    (auto simp: reacquire_row_def)

lemma row_ok_terminal_columns:
  assumes "row_ok r" "rq_state r \<in> {PG_COMPLETED, PG_FAILED, PG_TIMEOUT, PG_CANCELLED}"
    "rq_state r' = rq_state r" "rq_attempt_count r' = rq_attempt_count r"
    "rq_completed_at r' = rq_completed_at r" "rq_execution_type r' = rq_execution_type r"
  shows "row_ok r'"
proof -
  have "terminal_state (rq_state r)" using assms(2) by (auto simp: terminal_execution_statuses_def)
  then show ?thesis using assms unfolding row_ok_def by auto
qed

lemma defer_inv:
  assumes "exec_inv d"
  shows "exec_inv (d\<lparr>requests := update_where (defer_guard w pkg) (defer_row e c) (requests d)\<rparr>)"
  by (rule exec_inv_touch [OF assms, where P = "defer_guard w pkg" and f = "defer_row e c"])
    (auto intro: row_ok_defer, auto simp: defer_row_def request_key_def)

lemma reacquire_inv:
  assumes "exec_inv d" "xl_status lease \<in> {Dispatching, Running}"
  shows "exec_inv (d\<lparr>requests := update_where (reacquire_guard e lease) (reacquire_row w x) (requests d)\<rparr>)"
  by (rule exec_inv_touch [OF assms(1), where P = "reacquire_guard e lease" and f = "reacquire_row w x"])
    (auto intro: row_ok_reacquire [OF assms(2)], auto simp: reacquire_row_def request_key_def)

lemma clear_cancelled_inv: "exec_inv d \<Longrightarrow> exec_inv (clear_cancelled eid d)"
  by (rule exec_inv_touch [where P = "\<lambda>r. rq_id r = eid \<and> rq_state r = PG_CANCELLED"
        and f = clear_cancelled_row and d = d])
    (auto simp: clear_cancelled_def clear_cancelled_row_def request_key_def intro: row_ok_terminal_columns)

lemma clear_orphan_inv: "exec_inv d \<Longrightarrow> clear_orphan eid d = (b, d') \<Longrightarrow> exec_inv d'"
  by (rule exec_inv_touch [where P = "orphan_guard eid" and f = clear_job_row and d = d])
    (auto simp: clear_orphan_def clear_job_row_def orphan_guard_def request_key_def
      intro: row_ok_terminal_columns)

lemma outbox_update_inv:
  assumes "exec_inv d" "\<And>ob. ob_dedupe_key (f ob) = ob_dedupe_key ob"
  shows "exec_inv (d\<lparr>outbox := update_where P f (outbox d)\<rparr>)"
  by (rule exec_inv_touch [OF assms(1), where P = "\<lambda>_. False" and f = id])
    (auto simp: assms(2) update_where_none map_update_where_same)

lemma exec_step_inv: "exec_step d d' \<Longrightarrow> exec_inv d \<Longrightarrow> exec_inv d'"
proof (induction rule: exec_step.induct)
  case step_requeue
  then show ?case by (rule outbox_update_inv) (simp add: requeue_row_def)
next
  case (step_other d' d)
  then show ?case by (metis exec_inv_cong)
qed (blast intro: create_queued_inv cancel_inv claim_inv retry_inv mark_running_inv renew_lease_inv
    persist_terminal_result_inv defer_inv reacquire_inv clear_cancelled_inv clear_orphan_inv
    mark_published_inv mark_failed_inv)+

lemma exec_steps_inv: "exec_step\<^sup>*\<^sup>* d d' \<Longrightarrow> exec_inv d \<Longrightarrow> exec_inv d'"
  by (induction rule: rtranclp_induct) (auto intro: exec_step_inv)

section \<open>What no step undoes\<close>

text \<open>The columns that are written once, at creation.\<close>

definition same_identity :: "request_row \<Rightarrow> request_row \<Rightarrow> bool" where
  "same_identity r r' \<longleftrightarrow>
     rq_id r' = rq_id r \<and> rq_candidate r' = rq_candidate r \<and>
     rq_idempotency_key r' = rq_idempotency_key r \<and> rq_request_hash r' = rq_request_hash r \<and>
     rq_practice_session r' = rq_practice_session r \<and> rq_submission r' = rq_submission r \<and>
     rq_question_version r' = rq_question_version r \<and> rq_runtime r' = rq_runtime r \<and>
     rq_language r' = rq_language r \<and> rq_execution_type r' = rq_execution_type r \<and>
     rq_created_at r' = rq_created_at r"

definition row_advance :: "request_row \<Rightarrow> request_row \<Rightarrow> bool" where
  "row_advance r r' \<longleftrightarrow> same_identity r r' \<and>
     (terminal_state (rq_state r) \<longrightarrow> rq_state r' = rq_state r \<and> rq_completed_at r' = rq_completed_at r)"

definition db_advance :: "db \<Rightarrow> db \<Rightarrow> bool" where
  "db_advance d d' \<longleftrightarrow> (\<forall>eid r. request_of eid d = Some r \<longrightarrow>
     (\<exists>r' later. request_of eid d' = Some r' \<and> row_advance r r' \<and>
        history eid d' = history eid d @ later \<and>
        rq_attempt_count r' = rq_attempt_count r + int (count_list later PG_DISPATCHING)))"

lemma same_identity_refl [simp]: "same_identity r r"
  by (simp add: same_identity_def)

lemma row_advance_refl [simp]: "row_advance r r"
  by (simp add: row_advance_def)

lemma row_advance_trans: "row_advance r s \<Longrightarrow> row_advance s t \<Longrightarrow> row_advance r t"
  by (auto simp: row_advance_def same_identity_def)

lemma db_advance_refl: "db_advance d d"
  by (auto simp: db_advance_def intro: exI [of _ "[]"])

lemma db_advanceE:
  assumes "db_advance d d'" "request_of eid d = Some r"
  obtains r' later where "request_of eid d' = Some r'" "row_advance r r'"
    "history eid d' = history eid d @ later"
    "rq_attempt_count r' = rq_attempt_count r + int (count_list later PG_DISPATCHING)"
  using assms unfolding db_advance_def by blast

lemma db_advance_trans:
  assumes "db_advance d d1" "db_advance d1 d2"
  shows "db_advance d d2"
  unfolding db_advance_def
proof (intro allI impI)
  fix eid r
  assume "request_of eid d = Some r"
  then obtain r1 l1 where 1: "request_of eid d1 = Some r1" "row_advance r r1"
    "history eid d1 = history eid d @ l1"
    "rq_attempt_count r1 = rq_attempt_count r + int (count_list l1 PG_DISPATCHING)"
    using db_advanceE [OF assms(1)] by blast
  obtain r2 l2 where 2: "request_of eid d2 = Some r2" "row_advance r1 r2"
    "history eid d2 = history eid d1 @ l2"
    "rq_attempt_count r2 = rq_attempt_count r1 + int (count_list l2 PG_DISPATCHING)"
    using db_advanceE [OF assms(2) 1(1)] by blast
  show "\<exists>r' later. request_of eid d2 = Some r' \<and> row_advance r r' \<and>
        history eid d2 = history eid d @ later \<and>
        rq_attempt_count r' = rq_attempt_count r + int (count_list later PG_DISPATCHING)"
    using 1 2 row_advance_trans by (intro exI [of _ r2] exI [of _ "l1 @ l2"]) auto
qed

text \<open>The two ways to change requests, again.\<close>

lemma db_advance_touch:
  assumes "exec_events d' = exec_events d" "requests d' = update_where P f (requests d)"
    "\<And>r. rq_id (f r) = rq_id r"
    "\<And>r. r \<in> set (requests d) \<Longrightarrow> P r \<Longrightarrow> row_advance r (f r) \<and> rq_attempt_count (f r) = rq_attempt_count r"
  shows "db_advance d d'"
  unfolding db_advance_def
proof (intro allI impI)
  fix eid r
  assume r: "request_of eid d = Some r"
  have "request_of eid d' = Some (if P r then f r else r)"
    using r assms(2,3) by (simp add: row_with_update_where)
  moreover have "row_advance r (if P r then f r else r)"
    "rq_attempt_count (if P r then f r else r) = rq_attempt_count r"
    using assms(4) [of r] row_with_SomeD [OF r] by auto
  moreover have "history eid d' = history eid d" by (simp add: history_def events_of_cong [OF assms(1)])
  ultimately show "\<exists>r' later. request_of eid d' = Some r' \<and> row_advance r r' \<and>
        history eid d' = history eid d @ later \<and>
        rq_attempt_count r' = rq_attempt_count r + int (count_list later PG_DISPATCHING)"
    by (intro exI [of _ "if P r then f r else r"] exI [of _ "[]"]) simp
qed

lemma db_advance_step:
  assumes inv: "exec_inv d" and at: "request_of eid d = Some r"
    and keep: "\<And>r. rq_id (f r) = rq_id r" "\<And>r. same_identity r (f r)"
    and only: "P r" "\<And>x. x \<in> set (requests d) \<Longrightarrow> P x \<Longrightarrow> rq_id x = eid"
    and live: "\<not> terminal_state (rq_state r)"
    and count: "rq_attempt_count (f r) = rq_attempt_count r + (if s = Dispatching then 1 else 0)"
  shows "db_advance d (append_event eid s det (d\<lparr>requests := update_where P f (requests d)\<rparr>))"
  unfolding db_advance_def
proof (intro allI impI)
  let ?d1 = "d\<lparr>requests := update_where P f (requests d)\<rparr>"
  let ?d2 = "append_event eid s det ?d1"
  fix y x
  assume x: "request_of y d = Some x"
  have hist: "history y ?d2 = history y d @ (if y = eid then [pg_state s] else [])"
    using events_of_cong [of ?d1 d] by (simp add: history_append_event) (simp add: history_def)
  have req: "request_of y ?d2 = Some (if P x then f x else x)"
    using x keep(1) by (simp add: row_with_update_where)
  show "\<exists>r' later. request_of y ?d2 = Some r' \<and> row_advance x r' \<and>
        history y ?d2 = history y d @ later \<and>
        rq_attempt_count r' = rq_attempt_count x + int (count_list later PG_DISPATCHING)"
  proof (cases "y = eid")
    case True
    then have "x = r" using at x by simp
    then show ?thesis
      using True hist req only(1) keep(2) live count
      by (intro exI [of _ "f r"] exI [of _ "[pg_state s]"]) (cases s; auto simp: row_advance_def)
  next
    case False
    then have "\<not> P x" using only(2) row_with_SomeD [OF x] by blast
    then show ?thesis using False hist req by (intro exI [of _ x] exI [of _ "[]"]) simp
  qed
qed

lemma db_advance_outside: "requests d' = requests d \<Longrightarrow> exec_events d' = exec_events d \<Longrightarrow> db_advance d d'"
  by (rule db_advance_touch [where P = "\<lambda>_. False" and f = id]) (auto simp: update_where_none)

section \<open>Every step advances\<close>

lemma same_identity_rows [simp]:
  "same_identity r (claim_row e w x r)" "same_identity r (retry_row w x r)"
  "same_identity r (running_row e n j r)" "same_identity r (transition_row e t o1 z r)"
  "same_identity r (result_row eid p r)" "same_identity r (defer_row e c r)"
  "same_identity r (reacquire_row w x r)" "same_identity r (clear_cancelled_row r)"
  "same_identity r (clear_job_row r)" "same_identity r (r\<lparr>rq_lease_expires_at := y\<rparr>)"
  by (simp_all add: same_identity_def claim_row_def retry_row_def running_row_def transition_row_def
      result_row_def defer_row_def reacquire_row_def clear_cancelled_row_def clear_job_row_def)

lemma row_advance_same_state:
  "same_identity r r' \<Longrightarrow> rq_state r' = rq_state r \<Longrightarrow> rq_completed_at r' = rq_completed_at r \<Longrightarrow>
    row_advance r r'"
  by (simp add: row_advance_def)

lemma transition_advance:
  assumes "exec_inv d" "t \<noteq> Dispatching" "transition e eid t det o1 x d = Inr (snap, d')"
  shows "db_advance d d'"
  using assms(3)
proof (rule transition_InrD)
  fix r s det'
  assume r: "request_of eid d = Some r"
    and s: "normalize_execution_status (state_text (rq_state r)) = Inr s"
    and t: "t \<in> set (legal_execution_transitions s)"
    and d': "d' = append_event eid t det'
       (d\<lparr>requests := update_where (\<lambda>y. rq_id y = eid) (transition_row e t o1 x) (requests d)\<rparr>)"
  obtain s' where s': "rq_state r = pg_state s'" using exec_inv_pg_state [OF assms(1) r] .
  then have "\<not> terminal_state (rq_state r)"
    using s t by (auto simp: is_terminal_iff_no_transition)
  then show "db_advance d d'"
    unfolding d' using assms(2) row_with_SomeD [OF r]
    by (intro db_advance_step [OF assms(1) r]) auto
qed

lemma create_advance:
  assumes "exec_inv d" "create_queued e eid oid c seen d = Inr (q, d')"
  shows "db_advance d d'"
  using assms(2)
proof (cases rule: create_queued_cases)
  case (reused r)
  then show ?thesis by (simp add: db_advance_refl)
next
  case (stored u)
  show ?thesis
    unfolding db_advance_def
  proof (intro allI impI)
    fix y x
    assume x: "request_of y d = Some x"
    then have "y \<noteq> eid" using stored(2) row_with_SomeD [OF x] by auto
    then have "history y d' = history y d"
      by (simp add: stored(6) store_queued_def history_def events_of_def insert_outbox_def append_event_def)
    moreover have "request_of y d' = Some x" using x by (simp add: stored(6) row_with_append)
    ultimately show "\<exists>r' later. request_of y d' = Some r' \<and> row_advance x r' \<and>
        history y d' = history y d @ later \<and>
        rq_attempt_count r' = rq_attempt_count x + int (count_list later PG_DISPATCHING)"
      by (intro exI [of _ x] exI [of _ "[]"]) simp
  qed
qed

lemma claim_advance:
  assumes "exec_inv d" "claim_for_dispatch e eid w x d = Inr (res, d')"
  shows "db_advance d d'"
  using assms
proof (cases rule: claim_cases)
  case (claimed r c det)
  show ?thesis unfolding claimed(7)
    using claimed(4) row_with_SomeD [OF claimed(3)]
    by (intro db_advance_step [OF assms(1) claimed(3)])
      (auto simp: claim_guard_def terminal_execution_statuses_def)
qed (simp add: db_advance_refl)

lemma retry_advance:
  assumes "exec_inv d" "retry_missing_sandbox e eid x w t m d = Inr (res, d')"
  shows "db_advance d d'"
  using assms
proof (cases rule: retry_cases)
  case (retried r det)
  have "active_state (rq_state r)" using retried(4) by (auto simp: retry_guard_def)
  then have "\<not> terminal_state (rq_state r)" by (rule active_not_terminal)
  then show ?thesis unfolding retried(5)
    using retried(4) by (intro db_advance_step [OF assms(1) retried(3)]) (auto dest: guards_fix_key)
qed (simp add: db_advance_refl)

lemma running_advance:
  assumes "exec_inv d" "mark_running e eid w n j d = (res, d')"
  shows "db_advance d d'"
  using assms
proof (cases rule: mark_running_cases)
  case (running r det)
  have "\<not> terminal_state (rq_state r)"
    using running(3) by (auto simp: running_guard_def terminal_execution_statuses_def)
  then show ?thesis unfolding running(4)
    using running(3) by (intro db_advance_step [OF assms(1) running(2)]) (auto dest: guards_fix_key)
qed (simp add: db_advance_refl)

lemma renew_advance:
  assumes "renew_lease e eid w x d = Inr (res, d')"
  shows "db_advance d d'"
  using assms
  by (intro db_advance_touch [where P = "owned_guard e eid w" and f = "\<lambda>r. r\<lparr>rq_lease_expires_at := Some x\<rparr>"])
    (auto simp: renew_lease_def res_bind_Inr_iff intro: row_advance_same_state)

lemma persist_advance:
  assumes "exec_inv d" "is_terminal (tp_execution_status p)"
    "persist_terminal_result e eid p seen d = Inr (st, d')"
  shows "db_advance d d'"
  using assms(3)
proof (cases rule: persist_terminal_result_cases)
  case (already snap)
  then show ?thesis by (simp add: db_advance_refl)
next
  case (stored snap d1)
  have "tp_execution_status p \<noteq> Dispatching" using assms(2) by (auto simp: is_terminal_iff)
  from transition_advance [OF assms(1) this stored(1)] have "db_advance d d1" .
  moreover have "db_advance d1 d'"
    by (rule db_advance_touch [where P = "\<lambda>r. rq_id r = eid" and f = "result_row eid p"])
      (auto simp: stored(3) stored_db_def intro: row_advance_same_state)
  ultimately show ?thesis by (rule db_advance_trans)
qed

lemma cancel_advance:
  assumes "exec_inv d" "cancel e oid eid tr d = Inr (snap, d')"
  shows "db_advance d d'"
proof -
  have outside: "db_advance d1 (insert_outbox oid eid t k p c d1)" for t k p c d1
    by (rule db_advance_outside) simp_all
  show ?thesis
    using assms transition_advance [OF assms(1), of Cancelled] db_advance_trans [OF _ outside]
    by (auto simp: cancel_def res_bind_Inr_iff db_advance_refl split: if_splits)
qed

lemma exec_step_advance: "exec_step d d' \<Longrightarrow> exec_inv d \<Longrightarrow> db_advance d d'"
proof (induction rule: exec_step.induct)
  case step_create then show ?case by (blast intro: create_advance)
next
  case step_cancel then show ?case by (blast intro: cancel_advance)
next
  case step_claim then show ?case by (blast intro: claim_advance)
next
  case step_retry then show ?case by (blast intro: retry_advance)
next
  case step_running then show ?case by (blast intro: running_advance)
next
  case step_renew then show ?case by (blast intro: renew_advance)
next
  case step_persist then show ?case by (blast intro: persist_advance)
next
  case (step_defer d worker pkg e category)
  show ?case
    by (rule db_advance_touch [where P = "defer_guard worker pkg" and f = "defer_row e category"])
      (auto simp: defer_row_def intro!: row_advance_same_state, auto simp: same_identity_def)
next
  case (step_reacquire lease d e worker expires)
  show ?case
    by (rule db_advance_touch [where P = "reacquire_guard e lease" and f = "reacquire_row worker expires"])
      (auto simp: reacquire_row_def intro!: row_advance_same_state, auto simp: same_identity_def)
next
  case (step_clear_cancelled d eid)
  show ?case
    by (rule db_advance_touch [where P = "\<lambda>r. rq_id r = eid \<and> rq_state r = PG_CANCELLED"
          and f = clear_cancelled_row])
      (auto simp: clear_cancelled_def clear_cancelled_row_def intro!: row_advance_same_state,
        auto simp: same_identity_def)
next
  case (step_clear_orphan eid d b d')
  then show ?case
    by (intro db_advance_touch [where P = "orphan_guard eid" and f = clear_job_row])
      (auto simp: clear_orphan_def clear_job_row_def intro!: row_advance_same_state,
        auto simp: same_identity_def)
next
  case step_requeue then show ?case by (intro db_advance_outside) simp_all
next
  case step_published then show ?case by (intro db_advance_outside) (simp_all add: mark_published_def)
next
  case step_publish_failed
  then show ?case
    by (intro db_advance_outside) (auto simp: mark_failed_def res_bind_Inr_iff Let_def)
next
  case step_other then show ?case by (intro db_advance_outside) simp_all
qed

lemma exec_steps_advance: "exec_step\<^sup>*\<^sup>* d d' \<Longrightarrow> exec_inv d \<Longrightarrow> db_advance d d'"
proof (induction rule: rtranclp_induct)
  case base
  show ?case by (rule db_advance_refl)
next
  case (step d1 d2)
  then show ?case using exec_step_advance exec_steps_inv db_advance_trans by blast
qed

section \<open>The log accounts for every attempt\<close>

definition attempts_logged :: "db \<Rightarrow> bool" where
  "attempts_logged d \<longleftrightarrow> (\<forall>eid r. request_of eid d = Some r \<longrightarrow>
     rq_attempt_count r = int (count_list (history eid d) PG_DISPATCHING))"

definition same_ids :: "db \<Rightarrow> db \<Rightarrow> bool" where
  "same_ids d d' \<longleftrightarrow> map rq_id (requests d') = map rq_id (requests d)"

lemma same_ids_update:
  assumes "requests d' = update_where P f (requests d)" "\<And>r. rq_id (f r) = rq_id r"
  shows "same_ids d d'"
  by (simp add: same_ids_def assms map_update_where_same)

lemma same_ids_trans: "same_ids d d1 \<Longrightarrow> same_ids d1 d2 \<Longrightarrow> same_ids d d2"
  by (simp add: same_ids_def)

lemma same_ids_refl [simp]: "same_ids d d"
  by (simp add: same_ids_def)

lemma transition_same_ids: "transition e eid t det o1 x d = Inr (snap, d') \<Longrightarrow> same_ids d d'"
  by (erule transition_InrD) (auto intro!: same_ids_update)

lemma same_ids_cases:
  assumes "exec_step d d'" "exec_inv d"
  obtains (same) "same_ids d d'"
  | (created) e eid oid c seen q where "create_queued e eid oid c seen d = Inr (q, d')"
  using assms
proof (cases rule: exec_step.cases)
  case (step_create e eid oid c seen q)
  then show thesis by (rule created)
next
  case (step_cancel e oid eid tr snap)
  then have "same_ids d d'"
    by (auto simp: cancel_def res_bind_Inr_iff same_ids_def split: if_splits
        dest: transition_same_ids [unfolded same_ids_def])
  then show thesis by (rule same)
next
  case (step_claim e eid w x res)
  from assms(2) step_claim have "same_ids d d'"
    by (cases rule: claim_cases) (auto intro!: same_ids_update)
  then show thesis by (rule same)
next
  case (step_retry e eid a w x m res)
  from assms(2) step_retry have "same_ids d d'"
    by (cases rule: retry_cases) (auto intro!: same_ids_update)
  then show thesis by (rule same)
next
  case (step_running e eid w n j b)
  from assms(2) step_running have "same_ids d d'"
    by (cases rule: mark_running_cases) (auto intro!: same_ids_update)
  then show thesis by (rule same)
next
  case step_renew
  then show thesis
    by (intro same) (auto simp: renew_lease_def res_bind_Inr_iff same_ids_def map_update_where_same)
next
  case (step_persist p e eid seen st)
  from step_persist(2) have "same_ids d d'"
    by (cases rule: persist_terminal_result_cases)
      (auto simp: stored_db_def same_ids_def map_update_where_same
        dest: transition_same_ids [unfolded same_ids_def])
  then show thesis by (rule same)
next
  case step_defer
  then show thesis by (intro same) (simp add: same_ids_def map_update_where_same defer_row_def)
next
  case step_reacquire
  then show thesis by (intro same) (simp add: same_ids_def map_update_where_same reacquire_row_def)
next
  case step_clear_cancelled
  then show thesis
    by (intro same) (simp add: same_ids_def map_update_where_same clear_cancelled_def clear_cancelled_row_def)
next
  case step_clear_orphan
  then show thesis
    by (intro same) (auto simp: same_ids_def map_update_where_same clear_orphan_def clear_job_row_def)
next
  case step_requeue
  then show thesis by (intro same) (simp add: same_ids_def)
next
  case step_published
  then show thesis by (intro same) (simp add: same_ids_def mark_published_def)
next
  case step_publish_failed
  then show thesis by (intro same) (auto simp: same_ids_def mark_failed_def res_bind_Inr_iff Let_def)
next
  case step_other
  then show thesis by (intro same) (simp add: same_ids_def)
qed

lemma attempts_logged_old:
  assumes "attempts_logged d" "db_advance d d'" "request_of eid d = Some r" "request_of eid d' = Some r'"
  shows "rq_attempt_count r' = int (count_list (history eid d') PG_DISPATCHING)"
proof -
  from db_advanceE [OF assms(2,3)] obtain r1 later where "request_of eid d' = Some r1"
    "history eid d' = history eid d @ later"
    "rq_attempt_count r1 = rq_attempt_count r + int (count_list later PG_DISPATCHING)" by blast
  then show ?thesis using assms(1,3,4) by (simp add: attempts_logged_def)
qed

lemma created_row_log:
  assumes "exec_inv d" "create_queued e eid oid c seen d = Inr (q, d')" "request_of y d = None"
    "request_of y d' = Some r"
  shows "rq_attempt_count r = 0 \<and> history y d' = [PG_QUEUED]"
  using assms(2)
proof (cases rule: create_queued_cases)
  case (reused r0)
  then show ?thesis using assms(3,4) by simp
next
  case (stored u)
  then have y: "y = eid" "r = new_request_row e u eid c"
    using assms(3,4) by (auto simp: row_with_append split: if_splits)
  have "events_of eid d = []" using assms(1) stored(2) by (rule events_of_absent)
  then have "history eid d' = [PG_QUEUED]"
    by (simp add: stored(6) store_queued_def history_def events_of_def insert_outbox_def append_event_def)
  then show ?thesis using y by (simp add: new_request_row_def)
qed

lemma attempts_logged_step:
  assumes "exec_inv d" "attempts_logged d" "exec_step d d'"
  shows "attempts_logged d'"
  unfolding attempts_logged_def
proof (intro allI impI)
  fix eid r
  assume r: "request_of eid d' = Some r"
  show "rq_attempt_count r = int (count_list (history eid d') PG_DISPATCHING)"
  proof (cases "request_of eid d")
    case (Some r0)
    then show ?thesis
      using attempts_logged_old [OF assms(2) exec_step_advance [OF assms(3,1)] _ r] by blast
  next
    case None
    from assms(3,1) show ?thesis
    proof (cases rule: same_ids_cases)
      case same
      then have "eid \<in> rq_id ` set (requests d)"
        using row_with_SomeD [OF r] by (metis image_eqI list.set_map same_ids_def)
      then show ?thesis using None row_with_None_iff [of rq_id eid "requests d"] by simp
    next
      case (created e eid' oid c seen q)
      then show ?thesis using created_row_log [OF assms(1) created None r] by simp
    qed
  qed
qed

lemma attempts_logged_empty: "attempts_logged empty_db"
  by (simp add: attempts_logged_def empty_db_def)

lemma reachable_inv:
  assumes "reachable d"
  shows "exec_inv d \<and> attempts_logged d"
  using assms unfolding reachable_def
  by (induction rule: rtranclp_induct)
    (auto simp: exec_inv_empty attempts_logged_empty intro: exec_step_inv attempts_logged_step)

end
