(* ===== verification/Execution_Safety.thy ===== *)
theory Execution_Safety imports Execution_Steps begin

text \<open>
  The controller refines the transition system: whatever it does, and whatever other sessions
  commit in between, its tables move by the steps of \<open>Execution_Steps\<close>. From that follow the
  safety and liveness properties of the execution plane.
\<close>

section \<open>Actions as sequences of steps\<close>

text \<open>What the model assumes of other sessions: they commit steps of the execution plane.\<close>

definition others_step :: "('q, 's) rig \<Rightarrow> bool" where
  "others_step g \<longleftrightarrow> (\<forall>n d. exec_step\<^sup>*\<^sup>* d (rg_others g n d))"

definition steps :: "('q, 's, 'a) act \<Rightarrow> bool" where
  "steps m \<longleftrightarrow> (\<forall>w. exec_step\<^sup>*\<^sup>* (wd_db w) (wd_db (snd (m w))))"

lemma stepsD: "steps m \<Longrightarrow> m w = (r, w') \<Longrightarrow> exec_step\<^sup>*\<^sup>* (wd_db w) (wd_db w')"
  unfolding steps_def by (metis snd_conv)

lemma steps_ret [intro, simp]: "steps (ret a)" "steps (fail x)" "steps (lift res)"
  by (simp_all add: steps_def ret_def fail_def lift_def)

lemma steps_sandbox_call [intro, simp]: "steps (sandbox_call f)"
  by (simp add: steps_def sandbox_call_def split: prod.split)

lemma steps_queue_call [intro, simp]: "steps (queue_call g f)"
  by (simp add: steps_def queue_call_def split: sum.split)

lemma steps_bind:
  assumes "steps m" "\<And>a. steps (f a)"
  shows "steps (bind m f)"
  unfolding steps_def
proof
  fix w
  obtain r w1 where m: "m w = (r, w1)" by fastforce
  show "exec_step\<^sup>*\<^sup>* (wd_db w) (wd_db (snd (bind m f w)))"
  proof (cases r)
    case (Inl x)
    then show ?thesis using stepsD [OF assms(1) m] by (simp add: bind_def m)
  next
    case (Inr a)
    then have "exec_step\<^sup>*\<^sup>* (wd_db w1) (wd_db (snd (bind m f w)))"
      using assms(2) [of a] by (simp add: bind_def m steps_def)
    then show ?thesis using stepsD [OF assms(1) m] by (rule rtranclp_trans [rotated])
  qed
qed

lemma steps_bind_value:
  assumes "steps m" "\<And>a w w'. m w = (Inr a, w') \<Longrightarrow> steps (f a)"
  shows "steps (bind m f)"
  unfolding steps_def
proof
  fix w
  obtain r w1 where m: "m w = (r, w1)" by fastforce
  show "exec_step\<^sup>*\<^sup>* (wd_db w) (wd_db (snd (bind m f w)))"
  proof (cases r)
    case (Inl x)
    then show ?thesis using stepsD [OF assms(1) m] by (simp add: bind_def m)
  next
    case (Inr a)
    then have "steps (f a)" using assms(2) m by simp
    then have "exec_step\<^sup>*\<^sup>* (wd_db w1) (wd_db (snd (bind m f w)))"
      using Inr by (simp add: bind_def m steps_def)
    then show ?thesis using stepsD [OF assms(1) m] by (rule rtranclp_trans [rotated])
  qed
qed

lemma steps_on_trusted_error:
  assumes "steps body" "steps handler"
  shows "steps (on_trusted_error body handler)"
  unfolding steps_def
proof
  fix w
  obtain r w1 where m: "body w = (r, w1)" by fastforce
  note first = stepsD [OF assms(1) m]
  have second: "exec_step\<^sup>*\<^sup>* (wd_db w1) (wd_db (snd (handler w1)))"
    using assms(2) by (simp add: steps_def)
  show "exec_step\<^sup>*\<^sup>* (wd_db w) (wd_db (snd (on_trusted_error body handler w)))"
    using first rtranclp_trans [OF first second] by (simp add: on_trusted_error_def m split: sum.split)
qed

lemma steps_in_transaction:
  fixes g :: "('q, 's) rig"
  assumes "others_step g" "\<And>n e d a d'. body n e d = Inr (a, d') \<Longrightarrow> exec_step\<^sup>*\<^sup>* d d'"
  shows "steps (in_transaction g body)"
  unfolding steps_def
proof
  fix w :: "('q, 's) world"
  let ?d = "rg_others g (wd_tick w) (wd_db w)"
  have o: "exec_step\<^sup>*\<^sup>* (wd_db w) ?d" using assms(1) by (simp add: others_step_def)
  show "exec_step\<^sup>*\<^sup>* (wd_db w) (wd_db (snd (in_transaction g body w)))"
  proof (cases "body (wd_tick w) (rg_env g (wd_tick w)) ?d")
    case (Inl x)
    then show ?thesis using o by (simp add: in_transaction_def Let_def)
  next
    case (Inr y)
    obtain a d' where "y = (a, d')" by (cases y)
    then show ?thesis
      using Inr rtranclp_trans [OF o assms(2)] by (simp add: in_transaction_def Let_def)
  qed
qed

lemma exec_step_finalize: "exec_step d (finalize_submission e ast pkg p d)"
  by (rule step_other) simp_all

lemma store_projection_steps:
  assumes "is_terminal (tp_execution_status p)" "store_projection ast pkg p e d = Inr (b, d')"
  shows "exec_step\<^sup>*\<^sup>* d d'"
proof -
  from assms(2) obtain st d1 where "persist_terminal_result e (dp_execution_id pkg) p d d = Inr (st, d1)"
    and d': "d' = (if st = tp_execution_status p then finalize_submission e ast pkg p d1 else d1)"
    by (auto simp: store_projection_def res_bind_Inr_iff)
  then have "exec_step d d1" using assms(1) by (blast intro: step_persist)
  then show ?thesis unfolding d' using exec_step_finalize by (auto intro: rtranclp.rtrancl_into_rtrancl)
qed

lemma persist_projection_tx_steps:
  assumes "is_terminal (tp_execution_status p)" "persist_projection_tx g pkg p e d = Inr (b, d')"
  shows "exec_step\<^sup>*\<^sup>* d d'"
  using assms store_projection_steps [OF assms(1)]
  by (auto simp: persist_projection_tx_def split: if_splits)

lemma trusted_compare_terminal: "trusted_compare l s E = Inr p \<Longrightarrow> is_terminal (tp_execution_status p)"
  using trusted_compare_InrD(1) [of l s E p] by (simp add: terminal_execution_statuses_def)

lemma observation_tx_steps:
  assumes "observation_tx g pkg result e d = Inr (b, d')"
  shows "exec_step\<^sup>*\<^sup>* d d'"
  using assms
  by (auto simp: observation_tx_def res_bind_Inr_iff split: if_splits
      intro: store_projection_steps [OF trusted_compare_terminal])

lemma projection_terminal [simp]:
  "is_terminal (tp_execution_status (timeout_projection pkg))"
  "is_terminal (tp_execution_status (failure_projection c m))"
  by (simp_all add: timeout_projection_def failure_projection_def terminal_execution_statuses_def)

lemma steps_persist_projection:
  "others_step g \<Longrightarrow> is_terminal (tp_execution_status p) \<Longrightarrow> steps (persist_projection g pkg p)"
  unfolding persist_projection_def
  by (rule steps_in_transaction) (auto intro: persist_projection_tx_steps)

lemma defer_tx_step: "defer_tx g pkg c e d = Inr (b, d') \<Longrightarrow> exec_step d d'"
  by (auto simp: defer_tx_def intro: step_defer)

lemma steps_defer: "others_step g \<Longrightarrow> steps (defer_infrastructure_retry g pkg handle c)"
  unfolding defer_infrastructure_retry_def persist_infrastructure_failure_def
  by (auto intro!: steps_persist_projection steps_bind steps_in_transaction dest: defer_tx_step)

lemma steps_persist_observation:
  fixes g :: "('q, 's) rig"
  assumes "others_step g"
  shows "steps (persist_observation g pkg obs handle)"
proof -
  have "steps (\<lambda>w. bind (lift (parse_runner_result (lib (rg_env g (wd_tick w))) logs
         (dp_execution_id pkg) (Some (dp_attempt_count pkg)))) (\<lambda>result.
      case infrastructure_category result of
        Some category \<Rightarrow> defer_infrastructure_retry g pkg handle category
      | None \<Rightarrow> in_transaction g (\<lambda>_. observation_tx g pkg result)) w)" for logs
    unfolding steps_def
  proof
    fix w :: "('q, 's) world"
    let ?r = "parse_runner_result (lib (rg_env g (wd_tick w))) logs (dp_execution_id pkg)
      (Some (dp_attempt_count pkg))"
    have "steps (bind (lift ?r) (\<lambda>result. case infrastructure_category result of
        Some category \<Rightarrow> defer_infrastructure_retry g pkg handle category
      | None \<Rightarrow> in_transaction g (\<lambda>_. observation_tx g pkg result)))"
      using assms by (intro steps_bind)
        (auto intro: steps_defer steps_in_transaction observation_tx_steps split: option.split)
    then show "exec_step\<^sup>*\<^sup>* (wd_db w) (wd_db (snd (bind (lift ?r) (\<lambda>result.
      case infrastructure_category result of
        Some category \<Rightarrow> defer_infrastructure_retry g pkg handle category
      | None \<Rightarrow> in_transaction g (\<lambda>_. observation_tx g pkg result)) w)))"
      by (simp add: steps_def)
  qed
  then show ?thesis
    unfolding persist_observation_def
    using assms by (auto intro: steps_defer steps_on_trusted_error split: option.split)
qed

lemma steps_start_sandbox:
  assumes "others_step g"
  shows "steps (start_sandbox g pkg)"
proof -
  have run: "steps (in_transaction g (\<lambda>_ e d. Inr (mark_running e eid w n j d)))" for eid w n j
    by (rule steps_in_transaction [OF assms]) (auto intro: step_running)
  have "steps (bind (lift (sandbox_request l pkg)) (\<lambda>request_payload.
        if dp_language pkg \<notin> set [''python'', ''sql'']
        then fail (Exn TrustedResultErr ''Unsupported execution language.'')
        else bind (sandbox_call (c request_payload)) (\<lambda>handle.
          bind (in_transaction g (\<lambda>_ e d. Inr (mark_running e (dp_execution_id pkg)
                  (st_worker_id (rg_settings g)) (hd_namespace handle) (hd_job_name handle) d)))
            (\<lambda>running.
              if running then ret (Some handle)
              else bind (sandbox_call (sp_cleanup (rg_sandbox g) handle)) (\<lambda>_. ret None)))))" for l c
    by (auto intro!: steps_bind run)
  then show ?thesis unfolding start_sandbox_def steps_def by (simp add: Let_def)
qed

lemma steps_renew: "others_step g \<Longrightarrow> steps (renew_execution_lease g eid)"
  unfolding renew_execution_lease_def by (rule steps_in_transaction) (auto intro: step_renew)

lemma steps_monitor_turn:
  fixes g :: "('q, 's) rig"
  assumes "others_step g"
  shows "steps (monitor_turn g pkg handle m deadline ra nr)"
proof -
  have sleep: "steps (\<lambda>w. (Inr (Again (f w)), w\<lparr>wd_tick := wd_tick w + 1\<rparr>))"
    for f :: "('q, 's) world \<Rightarrow> rat" by (simp add: steps_def)
  have turn: "steps (\<lambda>w. if deadline \<le> rg_mono g (wd_tick w)
         then bind (persist_timeout g pkg) (\<lambda>b. ret (Return b)) w
         else if nr \<le> rg_mono g (wd_tick w)
         then bind (renew_execution_lease g (dp_execution_id pkg)) (\<lambda>renewed.
                if \<not> renewed then ret (Return False)
                else bind (queue_call g (\<lambda>ops. qo_visibility ops (sm_receipt_handle m)
                         (st_receive_visibility_seconds (rg_settings g)))) (\<lambda>_ w'.
                       (Inr (Again (rg_mono g (wd_tick w') + ra)),
                        w'\<lparr>wd_tick := wd_tick w' + 1\<rparr>))) w
         else (Inr (Again nr), w\<lparr>wd_tick := wd_tick w + 1\<rparr>))"
    (is "steps (\<lambda>w. if ?c w then ?t w else if ?d w then ?r w else ?s w)")
  proof -
    have t: "steps ?t" unfolding persist_timeout_def
      using assms by (auto intro!: steps_bind steps_persist_projection)
    have r: "steps ?r"
      using assms sleep by (auto intro!: steps_bind steps_renew)
    show ?thesis using t r sleep [of "\<lambda>_. nr"] unfolding steps_def by auto
  qed
  show ?thesis
    unfolding monitor_turn_def persist_timeout_def
    using assms turn [unfolded persist_timeout_def]
    by (auto intro!: steps_bind steps_persist_projection steps_persist_observation steps_defer)
qed

lemma monitor_loop_steps:
  assumes "others_step g"
  shows "monitor_loop g pkg handle m deadline ra fuel nr w = Some (r, w') \<Longrightarrow>
    exec_step\<^sup>*\<^sup>* (wd_db w) (wd_db w')"
proof (induction fuel arbitrary: nr w)
  case (Suc fuel)
  obtain t w1 where t: "monitor_turn g pkg handle m deadline ra nr w = (t, w1)" by fastforce
  note first = stepsD [OF steps_monitor_turn [OF assms] t]
  show ?case
  proof (cases t)
    case (Inl x)
    then show ?thesis using Suc.prems t first by simp
  next
    case (Inr y)
    then show ?thesis using Suc.prems t first Suc.IH rtranclp_trans [OF first]
      by (cases y) auto
  qed
qed simp


text \<open>Procedures that may not return carry their worlds in an \<open>option\<close>.\<close>

definition partial_steps :: "(('q, 's) world \<Rightarrow> ('a \<times> ('q, 's) world) option) \<Rightarrow> bool" where
  "partial_steps f \<longleftrightarrow> (\<forall>w r w'. f w = Some (r, w') \<longrightarrow> exec_step\<^sup>*\<^sup>* (wd_db w) (wd_db w'))"

lemma partial_stepsD: "partial_steps f \<Longrightarrow> f w = Some (r, w') \<Longrightarrow> exec_step\<^sup>*\<^sup>* (wd_db w) (wd_db w')"
  by (auto simp: partial_steps_def)

lemma partial_steps_monitor: "others_step g \<Longrightarrow> partial_steps (monitor g fuel pkg handle m)"
  unfolding partial_steps_def monitor_def by (auto simp: Let_def dest: monitor_loop_steps)

lemma claim_tx_steps:
  assumes "claim_tx g eid e d = Inr (x, d')"
  shows "exec_step\<^sup>*\<^sup>* d d'"
proof -
  from assms obtain c where "claim_for_dispatch e eid (st_worker_id (rg_settings g)) (lease_deadline g e) d
      = Inr (c, d')"
    by (auto simp: claim_tx_def res_bind_Inr_iff split: option.splits)
  then show ?thesis by (blast intro: step_claim)
qed

lemma steps_claim: "others_step g \<Longrightarrow> steps (in_transaction g (\<lambda>_. claim_tx g eid))"
  by (auto intro: steps_in_transaction claim_tx_steps)

lemma steps_persist_failure:
  "others_step g \<Longrightarrow> steps (persist_infrastructure_failure g pkg c m)"
  unfolding persist_infrastructure_failure_def by (rule steps_persist_projection) simp_all

lemma steps_cleanup_if [intro, simp]: "steps (cleanup_if g handle t)"
  unfolding cleanup_if_def by (auto intro: steps_bind)

text \<open>What follows the claim transaction of a message.\<close>

lemma process_requested_after_claim:
  fixes g :: "('q, 's) rig"
  assumes g: "others_step g"
    and c: "in_transaction g (\<lambda>_. claim_tx g (re_execution_id ev)) w = (c, w1)"
    and run: "process_requested g fuel ev m w = Some (r, w')"
  shows "exec_step\<^sup>*\<^sup>* (wd_db w1) (wd_db w')"
proof (cases "\<exists>pkg. c = Inr (Inr pkg) \<and> \<not> dp_attempt_count pkg > st_max_attempts (rg_settings g)
    \<and> dp_language pkg \<in> set [''python'', ''sql'']")
  case False
  then show ?thesis
    using run c stepsD [OF steps_persist_failure [OF g]]
    by (auto simp: process_requested_def split: sum.splits if_splits)
next
  case True
  then obtain pkg where pkg: "c = Inr (Inr pkg)" "\<not> dp_attempt_count pkg > st_max_attempts (rg_settings g)"
    "dp_language pkg \<in> set [''python'', ''sql'']" by blast
  obtain h w2 where h: "start_sandbox g pkg w1 = (h, w2)" by fastforce
  note second = stepsD [OF steps_start_sandbox [OF g] h]
  have "exec_step\<^sup>*\<^sup>* (wd_db w2) (wd_db w')"
  proof (cases "\<exists>handle. h = Inr (Some handle)")
    case False
    then show ?thesis
      using run c pkg h by (auto simp: process_requested_def split: sum.splits option.splits)
  next
    case True
    then obtain handle where handle: "h = Inr (Some handle)" by blast
    then obtain t w3 where t: "monitor g fuel pkg handle m w2 = Some (t, w3)"
      using run c pkg h by (auto simp: process_requested_def split: option.splits)
    note third = partial_stepsD [OF partial_steps_monitor [OF g] t]
    have cleanup: "steps (bind (sandbox_call (sp_cleanup (rg_sandbox g) handle)) (\<lambda>_. ret b))" for b
      by (auto intro: steps_bind)
    have "exec_step\<^sup>*\<^sup>* (wd_db w3) (wd_db w')"
      using run c pkg h handle t stepsD [OF cleanup, of True w3]
      by (auto simp: process_requested_def split: sum.splits if_splits)
    then show ?thesis by (rule rtranclp_trans [OF third])
  qed
  then show ?thesis by (rule rtranclp_trans [OF second])
qed

lemma partial_steps_process_requested:
  assumes "others_step g"
  shows "partial_steps (process_requested g fuel ev m)"
  unfolding partial_steps_def
  using assms process_requested_after_claim stepsD [OF steps_claim [OF assms]]
  by (metis rtranclp_trans surj_pair)

lemma steps_process_cancel:
  assumes "others_step g"
  shows "steps (process_cancel g ev)"
  unfolding process_cancel_def
  by (auto simp: Let_def intro!: steps_bind steps_in_transaction [OF assms] step_clear_cancelled
      split: option.split)

lemma partial_steps_process_message:
  fixes g :: "('q, 's) rig"
  assumes g: "others_step g"
  shows "partial_steps (process_message g fuel m)"
  unfolding partial_steps_def
proof (intro allI impI)
  fix w :: "('q, 's) world" and r w'
  assume run: "process_message g fuel m w = Some (r, w')"
  note defs = process_message_def
  have delete: "steps (bind (queue_call g f) (\<lambda>_. ret b))" for f and b :: bool
    by (auto intro: steps_bind)
  have cancelled: "steps (bind (process_cancel g ev) (\<lambda>_. bind (queue_call g f) (\<lambda>_. ret True)))" for f ev
    by (auto intro!: steps_bind steps_process_cancel g)
  consider (bad) x where "parse_body (lib (rg_env g (wd_tick w))) (rg_pd g) (sm_body m) = Inl x"
    | (cancel) ev where "parse_body (lib (rg_env g (wd_tick w))) (rg_pd g) (sm_body m) = Inr (CancelRequested ev)"
    | (requested) ev where "parse_body (lib (rg_env g (wd_tick w))) (rg_pd g) (sm_body m) = Inr (Requested ev)"
    by (metis queue_event.exhaust sum.exhaust)
  then show "exec_step\<^sup>*\<^sup>* (wd_db w) (wd_db w')"
  proof cases
    case bad
    then show ?thesis using run by (auto simp: defs)
  next
    case cancel
    then show ?thesis using run stepsD [OF cancelled] by (auto simp: defs)
  next
    case requested
    obtain v w1 where v: "queue_call g (\<lambda>ops. qo_visibility ops (sm_receipt_handle m)
        (st_receive_visibility_seconds (rg_settings g))) w = (v, w1)" by fastforce
    have "steps (queue_call g (\<lambda>ops. qo_visibility ops (sm_receipt_handle m)
        (st_receive_visibility_seconds (rg_settings g))))" by simp
    from stepsD [OF this v] have first: "exec_step\<^sup>*\<^sup>* (wd_db w) (wd_db w1)" .
    have "exec_step\<^sup>*\<^sup>* (wd_db w1) (wd_db w')"
    proof (cases v)
      case (Inl x)
      then show ?thesis using run requested v by (auto simp: defs)
    next
      case (Inr u)
      then obtain t w2 where t: "process_requested g fuel ev m w1 = Some (t, w2)"
        using run requested v by (auto simp: defs split: option.splits)
      have "exec_step\<^sup>*\<^sup>* (wd_db w2) (wd_db w')"
        using run requested v Inr t stepsD [OF delete] by (auto simp: defs split: sum.splits if_splits)
      then show ?thesis
        by (rule rtranclp_trans [OF partial_stepsD [OF partial_steps_process_requested [OF g] t]])
    qed
    then show ?thesis by (rule rtranclp_trans [OF first])
  qed
qed

lemma process_messages_steps:
  assumes g: "others_step g"
  shows "process_messages g fuel ms w = Some w' \<Longrightarrow> exec_step\<^sup>*\<^sup>* (wd_db w) (wd_db w')"
proof (induction ms arbitrary: w)
  case (Cons m ms)
  then obtain r w1 where r: "process_message g fuel m w = Some (r, w1)"
    by (auto split: option.splits)
  with Cons.prems have "process_messages g fuel ms w1 = Some w'" by simp
  from Cons.IH [OF this] show ?case
    by (rule rtranclp_trans [OF partial_stepsD [OF partial_steps_process_message [OF g] r]])
qed simp


section \<open>Reconciliation and publishing\<close>

lemma requeue_steps: "requeue_stale_queued_tx g e d = Inr (k, d') \<Longrightarrow> exec_step\<^sup>*\<^sup>* d d'"
  by (auto simp: requeue_stale_queued_tx_def Let_def intro: step_requeue)

lemma retry_expired_tx_steps:
  assumes "retry_expired_tx g lease e d = Inr (x, d')"
  shows "exec_step\<^sup>*\<^sup>* d d'"
proof -
  from assms obtain a where "retry_missing_sandbox e (xl_execution_id lease) (xl_attempt_count lease)
      (st_worker_id (rg_settings g)) (lease_deadline g e) (st_max_attempts (rg_settings g)) d = Inr (a, d')"
    by (auto simp: retry_expired_tx_def res_bind_Inr_iff split: option.splits if_splits)
  then show ?thesis by (blast intro: step_retry)
qed

lemma steps_retry_expired: "others_step g \<Longrightarrow> steps (retry_expired_missing_sandbox g lease)"
  unfolding retry_expired_missing_sandbox_def by (auto intro: steps_in_transaction retry_expired_tx_steps)

lemma reacquire_tx_steps:
  assumes "xl_status lease \<in> {Dispatching, Running}" "reacquire_tx g lease obs n j e d = Inr (x, d')"
  shows "exec_step\<^sup>*\<^sup>* d d'"
proof -
  let ?d1 = "d\<lparr>requests := update_where (reacquire_guard e lease)
      (reacquire_row (st_worker_id (rg_settings g)) (lease_deadline g e)) (requests d)\<rparr>"
  have "exec_step d ?d1" using assms(1) by (rule step_reacquire)
  moreover have "d' = ?d1 \<or> (\<exists>b. mark_running e (xl_execution_id lease) (st_worker_id (rg_settings g)) n j ?d1
      = (b, d'))"
    using assms(2)
    by (auto simp: reacquire_tx_def res_bind_Inr_iff Let_def split: if_splits prod.splits)
  ultimately show ?thesis by (blast intro: step_running rtranclp.rtrancl_into_rtrancl)
qed

lemma steps_reacquire:
  assumes "others_step g" "xl_status lease \<in> {Dispatching, Running}"
  shows "steps (reacquire_expired_execution g lease obs n j)"
  unfolding reacquire_expired_execution_def
  using assms by (auto intro: steps_in_transaction reacquire_tx_steps)

lemma steps_reconcile_lease:
  assumes "others_step g" "xl_status lease \<in> {Dispatching, Running}"
  shows "steps (reconcile_lease g lease)"
  unfolding reconcile_lease_def Let_def
  using assms
  by (intro steps_bind steps_sandbox_call) (auto intro!: steps_bind steps_retry_expired steps_start_sandbox
      steps_reacquire steps_persist_failure steps_persist_observation split: option.split)

lemma reconcile_leases_steps:
  assumes g: "others_step g"
  shows "(\<forall>l \<in> set ls. xl_status l \<in> {Dispatching, Running}) \<Longrightarrow> steps (reconcile_leases g ls k)"
proof (induction ls arbitrary: k)
  case (Cons l ls)
  show ?case
    unfolding steps_def
  proof
    fix w
    obtain r w1 where r: "reconcile_lease g l w = (r, w1)" by fastforce
    have first: "exec_step\<^sup>*\<^sup>* (wd_db w) (wd_db w1)"
      using Cons.prems by (intro stepsD [OF steps_reconcile_lease [OF g] r]) simp
    have "steps (reconcile_leases g ls i)" for i using Cons by simp
    then have "exec_step\<^sup>*\<^sup>* (wd_db w1) (wd_db (snd (reconcile_leases g ls i w1)))" for i
      by (simp add: steps_def)
    then show "exec_step\<^sup>*\<^sup>* (wd_db w) (wd_db (snd (reconcile_leases g (l # ls) k w)))"
      using rtranclp_trans [OF first] by (simp add: r split: sum.split)
  qed
qed (simp add: steps_def)

lemma parse_active_states:
  "parse_status (state_text PG_DISPATCHING) = Inr Dispatching"
  "parse_status (state_text PG_RUNNING) = Inr Running"
  by (simp_all add: parse_status_def all_statuses_def)

lemma lease_of_row_status:
  assumes "lease_of_row r = Inr l" "rq_state r = PG_DISPATCHING \<or> rq_state r = PG_RUNNING"
  shows "xl_status l \<in> {Dispatching, Running}"
  using assms(2,1) by (elim disjE) (simp_all only: lease_of_row_def parse_active_states res_bind_Inr_iff
      sum.inject, auto)

lemma expired_rows_active:
  "r \<in> set (expired_rows e locked d) \<longleftrightarrow> r \<in> set (requests d) \<and>
     (rq_state r = PG_DISPATCHING \<or> rq_state r = PG_RUNNING) \<and>
     sql_lt (rq_lease_expires_at r) (db_now e) \<and> rq_id r \<notin> set locked"
  by (auto simp: expired_rows_def)

lemma expired_leases_status:
  assumes "expired_leases e locked limit d = Inr ls" "l \<in> set ls"
  shows "xl_status l \<in> {Dispatching, Running}"
proof -
  from assms(1) have "res_map lease_of_row (take (nat limit) (expired_rows e locked d)) = Inr ls"
    by (auto simp: expired_leases_def split: if_splits)
  with assms(2) obtain r where "r \<in> set (take (nat limit) (expired_rows e locked d))" "lease_of_row r = Inr l"
    by (blast dest: res_map_Inr_set)
  then show ?thesis
    using lease_of_row_status expired_rows_active by (blast dest: in_set_takeD)
qed


lemma orphans_step: "exec_step d (snd (clear_orphan eid d))"
  by (rule step_clear_orphan [where b = "fst (clear_orphan eid d)"]) simp

lemma cleanup_orphans_steps:
  assumes g: "others_step g"
  shows "steps (cleanup_orphans g rs k)"
proof (induction rs arbitrary: k)
  case (Cons r rs)
  have clear: "steps (in_transaction g (\<lambda>_ e d. Inr (clear_orphan (rq_id r) d)))"
    using g by (rule steps_in_transaction) (metis orphans_step r_into_rtranclp snd_conv sum.inject(2))
  have "steps (bind (sandbox_call f) (\<lambda>_. bind (in_transaction g (\<lambda>_ e d. Inr (clear_orphan (rq_id r) d)))
      (\<lambda>u. cleanup_orphans g rs (if u then k + 1 else k))))" for f :: "_ \<Rightarrow> unit result \<times> _"
    by (intro steps_bind steps_sandbox_call clear Cons)
  then show ?case by (simp add: steps_def)
qed (simp add: steps_def)

lemma steps_reconcile_once:
  assumes g: "others_step g"
  shows "steps (reconcile_once g)"
proof -
  have orphans: "steps (cleanup_terminal_orphans g)"
    unfolding cleanup_terminal_orphans_def
    by (intro steps_bind cleanup_orphans_steps g steps_in_transaction) simp_all
  have requeue: "steps (in_transaction g (\<lambda>_. requeue_stale_queued_tx g))"
    using g requeue_steps by (rule steps_in_transaction)
  let ?expired = "in_transaction g (\<lambda>n e d. res_bind (expired_leases e (rg_locked g n)
            (st_reconciliation_limit (rg_settings g)) d) (\<lambda>leases. Inr (leases, d)))"
  have expired: "steps ?expired"
    using g by (rule steps_in_transaction) (auto simp: res_bind_Inr_iff)
  have active: "\<forall>l \<in> set ls. xl_status l \<in> {Dispatching, Running}"
    if "?expired w = (Inr ls, w')" for w ls w'
    using that expired_leases_status
    by (auto simp: in_transaction_def Let_def res_bind_Inr_iff split: sum.splits prod.splits; blast)
  have rest: "steps (bind ?expired (\<lambda>leases. bind (reconcile_leases g leases k)
      (\<lambda>repaired. bind (cleanup_terminal_orphans g) (\<lambda>cleaned. ret (repaired + cleaned)))))" for k
    by (rule steps_bind_value [OF expired])
      (intro steps_bind reconcile_leases_steps [OF g] orphans steps_ret active)
  show ?thesis unfolding reconcile_once_def by (rule steps_bind [OF requeue rest])
qed

lemma publish_loop_steps:
  assumes "publish_loop (\<lambda>m. mark_published e (om_id m))
      (\<lambda>m err s. res_bind (mark_failed e (om_id m) (om_attempt_count m) err (jit (om_id m)) s)
          (\<lambda>(_, s'). Inr s')) publish ms p f d q = (Inr (p', f', d'), q')"
  shows "exec_step\<^sup>*\<^sup>* d d'"
  using assms
proof (induction ms arbitrary: p f d q)
  case (Cons m ms)
  show ?case
  proof (cases "fst (publish m q)")
    case None
    have "exec_step d (mark_published e (om_id m) d)" by (rule step_published)
    moreover have "exec_step\<^sup>*\<^sup>* (mark_published e (om_id m) d) d'"
      using Cons.prems None
      by (intro Cons.IH [of "p + 1" f _ "snd (publish m q)"]) (auto split: prod.splits)
    ultimately show ?thesis by (rule converse_rtranclp_into_rtranclp)
  next
    case (Some x)
    then obtain t d1 where "mark_failed e (om_id m) (om_attempt_count m) (exn_name (exn_class x))
        (jit (om_id m)) d = Inr (t, d1)"
      and rest: "publish_loop (\<lambda>m. mark_published e (om_id m))
        (\<lambda>m err s. res_bind (mark_failed e (om_id m) (om_attempt_count m) err (jit (om_id m)) s)
          (\<lambda>(_, s'). Inr s')) publish ms p (f + 1) d1 (snd (publish m q)) = (Inr (p', f', d'), q')"
      using Cons.prems by (auto simp: res_bind_def split: prod.splits sum.splits)
    then have "exec_step d d1" by (blast intro: step_publish_failed)
    then show ?thesis using Cons.IH [OF rest] by (rule converse_rtranclp_into_rtranclp)
  qed
qed simp

lemma steps_publish_outbox:
  fixes g :: "('q, 's) rig"
  assumes g: "others_step g"
  shows "steps (publish_outbox_once g)"
  unfolding steps_def
proof
  fix w :: "('q, 's) world"
  let ?n = "wd_tick w" let ?d = "rg_others g (wd_tick w) (wd_db w)"
  have first: "exec_step\<^sup>*\<^sup>* (wd_db w) ?d" using g by (simp add: others_step_def)
  obtain r q' where r: "publish_outbox_batch (rg_env g ?n) (rg_locked g ?n) (rg_jitter g ?n)
      (publish_message (lib (rg_env g ?n)) (rg_queue g ?n)) (st_outbox_batch_size (rg_settings g)) ?d
      (wd_queue w) = (r, q')" by fastforce
  show "exec_step\<^sup>*\<^sup>* (wd_db w) (wd_db (snd (publish_outbox_once g w)))"
  proof (cases r)
    case (Inl x)
    then show ?thesis using r first by (simp add: publish_outbox_once_def Let_def)
  next
    case (Inr bd)
    obtain b d' where bd: "bd = (b, d')" by (cases bd)
    have "exec_step\<^sup>*\<^sup>* ?d d'"
      using r Inr bd publish_loop_steps
      by (fastforce simp: publish_outbox_batch_def publish_claimed_messages_def
          split: sum.splits prod.splits)
    then have "exec_step\<^sup>*\<^sup>* (wd_db w) d'" by (rule rtranclp_trans [OF first])
    then show ?thesis using r Inr bd by (simp add: publish_outbox_once_def Let_def)
  qed
qed

lemma controller_turn_steps:
  assumes g: "others_step g" and turn: "controller_turn g fuel due w = Some w'"
  shows "exec_step\<^sup>*\<^sup>* (wd_db w) (wd_db w')"
proof -
  have "steps (bind (publish_outbox_once g) (\<lambda>_. if due then reconcile_once g else ret 0))"
    by (intro steps_bind steps_publish_outbox [OF g]) (simp add: steps_reconcile_once [OF g])
  moreover obtain r w1 where r: "bind (publish_outbox_once g)
      (\<lambda>_. if due then reconcile_once g else ret 0) w = (r, w1)" by fastforce
  ultimately have first: "exec_step\<^sup>*\<^sup>* (wd_db w) (wd_db w1)" by (blast dest: stepsD)
  have "exec_step\<^sup>*\<^sup>* (wd_db w1) (wd_db w')"
    using turn r process_messages_steps [OF g]
    by (fastforce simp: controller_turn_def split: sum.splits prod.splits)
  then show ?thesis by (rule rtranclp_trans [OF first])
qed

end
