(* ===== verification/Execution_Sample.thy ===== *)
theory Execution_Sample imports Execution_Safety begin

text \<open>
  A small run of the execution plane with every operation evaluated, for applying the general
  theorems at concrete values: one candidate queues a Python submission with a public and a
  hidden test, worker \<open>w1\<close> claims it, starts it and stores its result.
\<close>

section \<open>The surroundings\<close>

definition sample_lib :: pylib where
  "sample_lib = \<lparr>float_repr = (\<lambda>f. ''1.5''), container_str = (\<lambda>v. ''[]''),
     str_repr = (\<lambda>s. s), sha256_hex = (\<lambda>s. rev s), json_loads = (\<lambda>s. None),
     iso_utc = (\<lambda>t. ''2026-01-01T00:00:00+00:00'')\<rparr>"

definition sample_env :: "timestamp \<Rightarrow> env" where
  "sample_env t = \<lparr>app_now = t, db_now = t, user_id = Some 7, organization_id = None, lib = sample_lib\<rparr>"

definition sample_request :: create_request where
  "sample_request = \<lparr>cr_execution_type = Submit, cr_practice_session = 20, cr_submission = Some 30,
     cr_question_version = 40, cr_runtime = ''python3.13'', cr_language = ''python'',
     cr_source_code = ''s'', cr_idempotency_key = ''k'', cr_trace_id = ''t'',
     cr_limits = JObj [], cr_input_payload = Some (JObj [(''tests'', JList [])])\<rparr>"

section \<open>The run\<close>

definition sample_queued :: db where
  "sample_queued = (case create_queued (sample_env 1000) 1 2 sample_request empty_db empty_db of
     Inr (q, d) \<Rightarrow> d | Inl x \<Rightarrow> empty_db)"

definition sample_claimed :: db where
  "sample_claimed = (case claim_for_dispatch (sample_env 2000) 1 ''w1'' 60000 sample_queued of
     Inr (c, d) \<Rightarrow> d | Inl x \<Rightarrow> empty_db)"

definition sample_running :: db where
  "sample_running = snd (mark_running (sample_env 3000) 1 ''w1'' ''ns'' ''job'' sample_claimed)"

definition sample_retried :: db where
  "sample_retried = (case retry_missing_sandbox (sample_env 70000) 1 1 ''w2'' 130000 3 sample_running of
     Inr (a, d) \<Rightarrow> d | Inl x \<Rightarrow> empty_db)"

definition sample_completed :: db where
  "sample_completed = (case persist_terminal_result (sample_env 4000) 1
     (failure_projection ''c'' ''m'') sample_running sample_running of
     Inr (s, d) \<Rightarrow> d | Inl x \<Rightarrow> empty_db)"

text \<open>Each operation of the run succeeds.\<close>

lemma committed: "\<not> isl r \<Longrightarrow> \<exists>q. r = Inr (q, case r of Inr (q, d) \<Rightarrow> d | Inl x \<Rightarrow> z)"
  by (cases r) auto

named_theorems sample_eval

lemmas [sample_eval] = sample_env_def sample_request_def empty_db_def create_queued_def Let_def
  find_by_idempotency_def reuse_queued_def queued_from_row_def new_request_row_def store_queued_def
  append_event_def insert_outbox_def res_bind_def claim_for_dispatch_def claim_guard_def claim_row_def
  validate_lease_deadline_def update_where_def row_with_def normalize_execution_status_def
  legacy_status_map_def parse_status_def all_statuses_def parse_type_def mark_running_def
  running_guard_def running_row_def retry_missing_sandbox_def retry_guard_def retry_row_def
  events_of_def coalesce_def sql_gt_def sql_lt_def

lemma sample_queued_eq:
  "\<exists>q. create_queued (sample_env 1000) 1 2 sample_request empty_db empty_db = Inr (q, sample_queued)"
  unfolding sample_queued_def by (rule committed) (simp add: sample_eval)

lemma sample_queued_requests [sample_eval]:
  "requests sample_queued = [new_request_row (sample_env 1000) 7 1 sample_request]"
  unfolding sample_queued_def by (simp add: sample_eval)

lemma sample_claimed_eq:
  "\<exists>c. claim_for_dispatch (sample_env 2000) 1 ''w1'' 60000 sample_queued = Inr (c, sample_claimed)"
  unfolding sample_claimed_def by (rule committed) (simp add: sample_eval)

lemma sample_claimed_requests [sample_eval]:
  "requests sample_claimed = [claim_row (sample_env 2000) ''w1'' 60000
     (new_request_row (sample_env 1000) 7 1 sample_request)]"
  unfolding sample_claimed_def by (simp add: sample_eval)

lemma sample_running_eq: 
  "mark_running (sample_env 3000) 1 ''w1'' ''ns'' ''job'' sample_claimed = (True, sample_running)"
  unfolding sample_running_def prod_eq_iff by (simp add: sample_eval)

lemma sample_running_requests [sample_eval]:
  "requests sample_running = [running_row (sample_env 3000) ''ns'' ''job''
     (claim_row (sample_env 2000) ''w1'' 60000 (new_request_row (sample_env 1000) 7 1 sample_request))]"
  unfolding sample_running_def by (simp add: sample_eval)

lemma sample_retried_eq:
  "\<exists>a. retry_missing_sandbox (sample_env 70000) 1 1 ''w2'' 130000 3 sample_running = Inr (a, sample_retried)"
  unfolding sample_retried_def by (rule committed) (simp add: sample_eval)

lemmas [sample_eval] = persist_terminal_result_def transition_def get_execution_def snapshot_of_row_def
  transition_row_def validate_execution_transition_def failure_projection_def stored_db_def

lemma sample_completed_eq:
  "\<exists>s. persist_terminal_result (sample_env 4000) 1 (failure_projection ''c'' ''m'')
     sample_running sample_running = Inr (s, sample_completed)"
  unfolding sample_completed_def by (rule committed) (simp add: sample_eval)

lemma sample_reachable:
  "reachable sample_queued" "reachable sample_claimed" "reachable sample_running"
  "reachable sample_retried" "reachable sample_completed"
proof -
  note next_step = rtranclp.rtrancl_into_rtrancl
  show queued: "reachable sample_queued"
    unfolding reachable_def using sample_queued_eq step_create by blast
  then show claimed: "reachable sample_claimed"
    unfolding reachable_def using sample_claimed_eq step_claim by (blast intro: next_step)
  then show running: "reachable sample_running"
    unfolding reachable_def using sample_running_eq step_running by (blast intro: next_step)
  then show "reachable sample_retried"
    unfolding reachable_def using sample_retried_eq step_retry by (blast intro: next_step)
  show "reachable sample_completed"
    using running unfolding reachable_def
    using sample_completed_eq step_persist [of "failure_projection ''c'' ''m''"]
    by (auto intro: next_step)
qed

lemma sample_retried_requests [sample_eval]:
  "requests sample_retried = [retry_row ''w2'' 130000 (running_row (sample_env 3000) ''ns'' ''job''
     (claim_row (sample_env 2000) ''w1'' 60000 (new_request_row (sample_env 1000) 7 1 sample_request)))]"
  unfolding sample_retried_def by (simp add: sample_eval)

lemma sample_completed_requests [sample_eval]:
  "requests sample_completed = [result_row 1 (failure_projection ''c'' ''m'')
     (transition_row (sample_env 4000) Failed None None (running_row (sample_env 3000) ''ns'' ''job''
     (claim_row (sample_env 2000) ''w1'' 60000 (new_request_row (sample_env 1000) 7 1 sample_request))))]"
  unfolding sample_completed_def by (simp add: sample_eval terminal_execution_statuses_def result_row_def)

lemmas sample_requests = sample_queued_requests sample_claimed_requests sample_running_requests
  sample_retried_requests sample_completed_requests

lemma sample_states:
  "map_option rq_state (request_of 1 sample_queued) = Some PG_QUEUED"
  "map_option rq_state (request_of 1 sample_claimed) = Some PG_DISPATCHING"
  "map_option rq_state (request_of 1 sample_running) = Some PG_RUNNING"
  "map_option rq_state (request_of 1 sample_retried) = Some PG_DISPATCHING"
  "map_option rq_state (request_of 1 sample_completed) = Some PG_FAILED"
  by (simp_all add: sample_eval result_row_def)

lemmas sample_rows = sample_states [unfolded map_option_eq_Some]

lemmas sample_inv = sample_reachable [THEN reachable_inv, THEN conjunct1]

section \<open>A worker for the sample run\<close>

text \<open>
  Worker \<open>w2\<close> finds the request of the sample run after its lease has run out and its sandbox
  has vanished: one turn publishes the outbox, starts the second attempt and receives nothing.
\<close>

definition sample_queue :: "string list queue_ops" where
  "sample_queue = \<lparr>qo_send = (\<lambda>b q. Inr (q @ [b])), qo_receive = (\<lambda>n v q. Inr ([], q)),
     qo_delete = (\<lambda>h q. Inr q), qo_visibility = (\<lambda>h v q. Inr q)\<rparr>"

definition sample_sandbox :: "nat sandbox_ops" where
  "sample_sandbox = \<lparr>sp_namespace = ''ns'',
     sp_create = (\<lambda>l eid p prof s. (Inr (handle_for eid ''ns'' ''job2''), s + 1)),
     sp_observe = (\<lambda>h s. (Inr \<lparr>so_state = ''MISSING'', so_logs = None, so_reason = None\<rparr>, s)),
     sp_cleanup = (\<lambda>h s. (Inr (), s))\<rparr>"

definition sample_settings :: settings where
  "sample_settings = \<lparr>st_worker_id = ''w2'', st_lease_seconds = 60, st_reconciliation_limit = 50,
     st_outbox_batch_size = 25, st_receive_wait_seconds = 20, st_receive_visibility_seconds = 90,
     st_max_attempts = 3, st_stale_queued_seconds = 120\<rparr>"

definition sample_rig :: "(string list, nat) rig" where
  "sample_rig = \<lparr>rg_env = (\<lambda>n. sample_env 70000), rg_others = (\<lambda>n d. d), rg_mono = of_nat,
     rg_locked = (\<lambda>n. []), rg_jitter = (\<lambda>n u. 1 / 2), rg_queue = (\<lambda>n. sample_queue),
     rg_sandbox = sample_sandbox, rg_settings = sample_settings,
     rg_ast = (\<lambda>s. None), rg_pd = \<lparr>pd_uuid = (\<lambda>v. None), pd_int = (\<lambda>v. None), pd_datetime = (\<lambda>v. None)\<rparr>\<rparr>"

definition sample_world :: "(string list, nat) world" where
  "sample_world = \<lparr>wd_db = sample_running, wd_queue = [], wd_sandbox = 0, wd_tick = 0\<rparr>"

lemma sample_rig_simps [simp]:
  "rg_env sample_rig n = sample_env 70000" "rg_others sample_rig n d = d" "rg_locked sample_rig n = []"
  "rg_queue sample_rig n = sample_queue" "rg_sandbox sample_rig = sample_sandbox"
  "rg_settings sample_rig = sample_settings" "rg_mono sample_rig n = of_nat n"
  "lease_deadline sample_rig e = app_now e + 60000000"
  by (simp_all add: sample_rig_def lease_deadline_def sample_settings_def)

lemma sample_others: "others_step sample_rig"
  by (simp add: others_step_def)

lemma sample_outbox_tables:
  "outbox sample_running = outbox sample_queued" "payloads sample_running = payloads sample_queued"
  unfolding sample_running_def sample_claimed_def by (simp_all add: sample_eval)

lemma sample_queued_payloads [sample_eval]:
  "payloads sample_queued = [\<lparr>pl_execution = 1, pl_source_code = ''s'',
     pl_input_payload = JObj [(''tests'', JList [])]\<rparr>]"
  unfolding sample_queued_def by (simp add: sample_eval py_or_def)

lemma sample_queued_outbox:
  "\<exists>p. outbox sample_queued = [\<lparr>ob_id = 2, ob_aggregate_type = ''execution'', ob_aggregate_id = 1,
     ob_event_type = ''execution.requested'', ob_dedupe_key = ''execution.requested:'' @ uuid_str 1,
     ob_payload = p, ob_created_at = 1000, ob_published_at = None, ob_attempt_count = 0,
     ob_next_attempt_at = 1000, ob_last_error = None\<rparr>]"
  unfolding sample_queued_def by (simp add: sample_eval)

lemma sample_published:
  "\<exists>b. publish_outbox_once sample_rig sample_world =
     (Inr 1, sample_world\<lparr>wd_db := mark_published (sample_env 70000) 2 sample_running,
        wd_queue := [b], wd_tick := 1\<rparr>)"
  using sample_queued_outbox
  by (auto simp: publish_outbox_once_def publish_outbox_batch_def publish_claimed_messages_def
      claim_batch_def claimable_def message_of_row_def publish_message_def sample_world_def
      sample_settings_def sample_queue_def sample_outbox_tables sample_env_def Let_def)


definition sample_lease :: expired_lease where
  "sample_lease = \<lparr>xl_execution_id = 1, xl_status = Running, xl_lease_owner = Some ''w1'',
     xl_lease_expires_at = Some 60000, xl_k8s_namespace = Some ''ns'', xl_k8s_job_name = Some ''job'',
     xl_attempt_count = 1\<rparr>"

lemma sample_expired:
  assumes "requests d = requests sample_running"
  shows "expired_leases (sample_env 70000) [] 50 d = Inr [sample_lease]"
  using assms by (simp add: expired_leases_def expired_rows_def lease_of_row_def sample_eval truthy_str_def
      sample_lease_def)

lemma sample_reconciled:
  assumes d: "requests d = requests sample_running" "payloads d = payloads sample_queued"
  shows "\<exists>w'. reconcile_lease sample_rig sample_lease
     \<lparr>wd_db = d, wd_queue = q, wd_sandbox = s, wd_tick = n\<rparr> = (Inr True, w') \<and>
     map rq_attempt_count (requests (wd_db w')) = [2] \<and> map rq_state (requests (wd_db w')) = [PG_RUNNING] \<and>
     wd_queue w' = q"
  using d
  by (simp add: reconcile_lease_def Let_def bind_def sandbox_call_def sample_lease_def sample_sandbox_def
      sample_settings_def retry_expired_missing_sandbox_def in_transaction_def retry_expired_tx_def
      start_sandbox_def sandbox_request_def object_list_def lift_def handle_for_def or_else_def truthy_str_def
      load_dispatch_package_def optional_object_dict_def jget_def ret_def sample_eval)

lemma sample_not_stale:
  assumes "requests d = requests sample_running"
  shows "\<not> stale_guard k e d ob"
  using assms by (simp add: stale_guard_def sample_eval)

lemma sample_turn:
  "\<exists>w'. controller_turn sample_rig 0 True sample_world = Some w' \<and>
     map rq_attempt_count (requests (wd_db w')) = [2]"
proof -
  let ?d = "mark_published (sample_env 70000) 2 sample_running"
  obtain b where pub: "publish_outbox_once sample_rig sample_world =
     (Inr 1, sample_world\<lparr>wd_db := ?d, wd_queue := [b], wd_tick := 1\<rparr>)"
    using sample_published by blast
  have tables: "requests ?d = requests sample_running" "payloads ?d = payloads sample_queued"
    by (simp_all add: mark_published_def sample_outbox_tables)
  have "stale_guard k e ?d = (\<lambda>_. False)" for k e
    using sample_not_stale [OF tables(1)] by (simp add: fun_eq_iff)
  then have fresh: "requeue_stale_queued_tx sample_rig (sample_env 70000) ?d = Inr (0, ?d)"
    by (simp add: requeue_stale_queued_tx_def update_where_none)
  obtain w' where w': "reconcile_lease sample_rig sample_lease
     \<lparr>wd_db = ?d, wd_queue = [b], wd_sandbox = 0, wd_tick = 3\<rparr> = (Inr True, w')"
     "map rq_attempt_count (requests (wd_db w')) = [2]" "map rq_state (requests (wd_db w')) = [PG_RUNNING]"
    using sample_reconciled [OF tables, of "[b]" 0 3] by (elim exE conjE) (rule that)
  have "orphan_rows sample_rig (wd_db w') = []"
    using w'(3) by (auto simp: orphan_rows_def)
  then have "cleanup_terminal_orphans sample_rig w' = (Inr 0, w'\<lparr>wd_tick := wd_tick w' + 1\<rparr>)"
    by (simp add: cleanup_terminal_orphans_def bind_def in_transaction_def)
  then have "reconcile_once sample_rig \<lparr>wd_db = ?d, wd_queue = [b], wd_sandbox = 0, wd_tick = 1\<rparr> =
      (Inr 1, w'\<lparr>wd_tick := wd_tick w' + 1\<rparr>)"
    using fresh sample_expired [OF tables(1)] w'(1)
    by (simp add: reconcile_once_def bind_def in_transaction_def sample_settings_def ret_def
        numeral_3_eq_3)
  then show ?thesis
    using pub w'(2) by (simp add: controller_turn_def bind_def sample_world_def sample_queue_def)
qed

end
