(* ===== verification/Execution_Guarantees.thy ===== *)
theory Execution_Guarantees imports Execution_Sample begin

text \<open>
  What the execution plane guarantees under any interleaving: lifecycle, exclusive claims,
  fencing of superseded workers, recovery of expired leases, acknowledgement of messages.
\<close>

section \<open>Leaving the queue\<close>

lemma pg_state_queued [simp]: "pg_state t = PG_QUEUED \<longleftrightarrow> t = Queued"
  by (cases t) simp_all

lemma log_step_not_queued:
  assumes "log_step s t"
  shows "t \<noteq> PG_QUEUED"
  using assms
proof cases
  case (legal_step t' s')
  then show ?thesis by (cases s') auto
qed simp

lemma successively_last:
  assumes "successively P (xs @ ys)" "xs \<noteq> []" "ys \<noteq> []"
  shows "\<exists>p. P p (last ys)"
proof -
  obtain zs z where ys: "ys = zs @ [z]" using assms(3) by (cases ys rule: rev_cases) auto
  have "successively P ((xs @ zs) @ [z])" using assms(1) by (simp add: ys)
  then have "P (last (xs @ zs)) z"
    using assms(2) unfolding successively_append_iff by simp
  then show ?thesis by (auto simp: ys)
qed

text \<open>What a run makes of one request, with its log.\<close>

lemma run_of_request:
  assumes inv: "exec_inv d" and run: "exec_step\<^sup>*\<^sup>* d d'" and r: "request_of eid d = Some r"
  obtains r' later where "request_of eid d' = Some r'" "row_advance r r'"
    "rq_attempt_count r' = rq_attempt_count r + int (count_list later PG_DISPATCHING)"
    "history eid d' = history eid d @ later" "history eid d \<noteq> []" "last (history eid d) = rq_state r"
    "successively log_step (history eid d @ later)" "last (history eid d @ later) = rq_state r'"
proof -
  from db_advanceE [OF exec_steps_advance [OF run inv] r] obtain r' later where
    r': "request_of eid d' = Some r'" "row_advance r r'" "history eid d' = history eid d @ later"
      "rq_attempt_count r' = rq_attempt_count r + int (count_list later PG_DISPATCHING)" by blast
  have old: "log_ok d r" by (rule exec_inv_request(1) [OF inv r])
  have new: "log_ok d' r'" by (rule exec_inv_request(1) [OF exec_steps_inv [OF run inv] r'(1)])
  have eid: "rq_id r = eid" "rq_id r' = eid" using row_with_SomeD [OF r] row_with_SomeD [OF r'(1)] by simp_all
  show thesis
    using old new r' unfolding log_ok_def eid by (intro that [of r' later]) simp_all
qed

lemma left_queue_stays:
  assumes inv: "exec_inv d" and r: "request_of eid d = Some r" "rq_state r \<noteq> PG_QUEUED"
    and run: "exec_step\<^sup>*\<^sup>* d d'"
  shows "\<exists>r'. request_of eid d' = Some r' \<and> rq_state r' \<noteq> PG_QUEUED"
proof -
  obtain r' later where r': "request_of eid d' = Some r'"
    "history eid d \<noteq> []" "last (history eid d) = rq_state r"
    "successively log_step (history eid d @ later)" "last (history eid d @ later) = rq_state r'"
    using run_of_request [OF inv run r(1)] by metis
  have "rq_state r' \<noteq> PG_QUEUED"
  proof (cases "later = []")
    case True
    then show ?thesis using r' r(2) by simp
  next
    case False
    then obtain p where "log_step p (last later)" using successively_last [OF r'(4,2)] by blast
    then have "last later \<noteq> PG_QUEUED" by (rule log_step_not_queued)
    then show ?thesis using r'(5) False by simp
  qed
  then show ?thesis using r'(1) by blast
qed

lemma claimed_row:
  assumes "exec_inv d" "claim_for_dispatch e eid w x d = Inr (Some c, d')"
  obtains r where "request_of eid d = Some r" "rq_state r = PG_QUEUED"
    "request_of eid d' = Some (claim_row e w x r)"
  using assms
proof (cases rule: claim_cases)
  case (claimed r c' det)
  then have "request_of eid d' = Some (claim_row e w x r)"
    using row_with_SomeD [OF claimed(3)] by (simp add: row_with_update_where claim_guard_def)
  then show thesis using that claimed(3,4) by blast
qed simp

section \<open>Absorbing states\<close>

lemma terminal_history:
  assumes inv: "exec_inv d" and run: "exec_step\<^sup>*\<^sup>* d d'"
    and r: "request_of eid d = Some r" "terminal_state (rq_state r)"
  shows "\<exists>r'. request_of eid d' = Some r' \<and> rq_state r' = rq_state r \<and>
    rq_completed_at r' = rq_completed_at r \<and> rq_attempt_count r' = rq_attempt_count r \<and>
    history eid d' = history eid d"
proof -
  obtain r' later where r': "request_of eid d' = Some r'" "row_advance r r'"
    "rq_attempt_count r' = rq_attempt_count r + int (count_list later PG_DISPATCHING)"
    "history eid d' = history eid d @ later" "history eid d \<noteq> []" "last (history eid d) = rq_state r"
    "successively log_step (history eid d @ later)"
    using run_of_request [OF inv run r(1)] by metis
  have "later = []"
  proof (rule ccontr)
    assume "later \<noteq> []"
    then have "log_step (rq_state r) (hd later)" using r' by (simp add: successively_append_iff)
    then show False using log_step_terminal r(2) by blast
  qed
  then show ?thesis using r' r(2) by (simp add: row_advance_def)
qed

section \<open>Fencing\<close>

lemma attempts_never_fall:
  assumes "exec_inv d" "exec_step\<^sup>*\<^sup>* d d'" "request_of eid d = Some r" "request_of eid d' = Some r'"
  shows "rq_attempt_count r \<le> rq_attempt_count r'"
  using db_advanceE [OF exec_steps_advance [OF assms(2,1)] assms(3)] assms(4) by (metis
      of_nat_0_le_iff le_add_same_cancel1 option.inject)

lemma retried_attempt:
  assumes "exec_inv d" "retry_missing_sandbox e eid a w x m d = Inr (Some a', d')"
  shows "\<exists>r. request_of eid d' = Some r \<and> rq_attempt_count r = a + 1 \<and> a' = a + 1"
  using assms
proof (cases rule: retry_cases)
  case (retried r det)
  then have "request_of eid d' = Some (retry_row w x r)"
    using row_with_SomeD [OF retried(3)] by (simp add: row_with_update_where)
  moreover have "rq_attempt_count r = a" using retried(4) by (simp add: retry_guard_def)
  ultimately show ?thesis using retried(1) by simp
qed simp

lemma not_owner_of_other_attempt:
  assumes "exec_inv d" "request_of (dp_execution_id pkg) d = Some r" "rq_attempt_count r \<noteq> dp_attempt_count pkg"
  shows "\<not> owns_locked_attempt g pkg e d"
  using assms by (simp add: owns_locked_attempt_def lock_owned_attempt_iff)

section \<open>Monitoring ends\<close>

lemma bind_wd_tick_le:
  assumes "\<And>w. wd_tick w \<le> wd_tick (snd (m w))" "\<And>a w. wd_tick w \<le> wd_tick (snd (f a w))"
  shows "wd_tick w \<le> wd_tick (snd (bind m f w))"
  using assms(1) [of w] assms(2) by (auto simp: bind_def split: prod.split sum.split)
    (metis le_trans snd_conv)

lemma in_transaction_tick: "wd_tick (snd (in_transaction g body w)) = wd_tick w + 1"
  by (simp add: in_transaction_def Let_def split: sum.split prod.split)

lemma monitor_turn_again:
  assumes "monitor_turn g pkg handle m deadline ra nr w = (Inr (Again nr'), w')"
  shows "rg_mono g (wd_tick w) < deadline \<and> wd_tick w < wd_tick w'"
proof -
  have no_again: "bind f (\<lambda>b. ret (Return b)) v \<noteq> (Inr (Again nr'), v')" for f v v'
    by (simp add: bind_def ret_def split: prod.split sum.split)
  obtain ob w1 where ob: "sandbox_call (sp_observe (rg_sandbox g) handle) w = (ob, w1)" by fastforce
  have tick: "wd_tick w1 = wd_tick w" using ob by (auto simp: sandbox_call_def split: prod.splits)
  have renew: "wd_tick (snd (renew_execution_lease g eid v)) = wd_tick v + 1" for eid v
    unfolding renew_execution_lease_def by (rule in_transaction_tick)
  have queue: "wd_tick (snd (queue_call g f v)) = wd_tick v" for f v
    by (simp add: queue_call_def split: sum.split)
  show ?thesis
  proof (cases ob)
    case (Inl x)
    then show ?thesis using assms ob by (simp add: monitor_turn_def bind_def)
  next
    case (Inr o1)
    then have live: "rg_mono g (wd_tick w1) < deadline"
      using assms ob no_again by (fastforce simp: monitor_turn_def bind_def [of "sandbox_call _"]
          split: if_splits)
    show ?thesis
    proof (cases "nr \<le> rg_mono g (wd_tick w1)")
      case False
      then show ?thesis using assms ob Inr live no_again tick
        by (fastforce simp: monitor_turn_def bind_def [of "sandbox_call _"] split: if_splits)
    next
      case True
      then have "bind (renew_execution_lease g (dp_execution_id pkg)) (\<lambda>renewed.
                if \<not> renewed then ret (Return False)
                else bind (queue_call g (\<lambda>ops. qo_visibility ops (sm_receipt_handle m)
                         (st_receive_visibility_seconds (rg_settings g)))) (\<lambda>_ w'.
                       (Inr (Again (rg_mono g (wd_tick w') + ra)),
                        w'\<lparr>wd_tick := wd_tick w' + 1\<rparr>))) w1 = (Inr (Again nr'), w')"
        using assms ob Inr live no_again
        by (fastforce simp: monitor_turn_def bind_def [of "sandbox_call _"] split: if_splits)
      moreover obtain rn w2 where rn: "renew_execution_lease g (dp_execution_id pkg) w1 = (rn, w2)"
        by fastforce
      moreover obtain q w3 where q: "queue_call g (\<lambda>ops. qo_visibility ops (sm_receipt_handle m)
          (st_receive_visibility_seconds (rg_settings g))) w2 = (q, w3)" by fastforce
      moreover have "wd_tick w2 = wd_tick w1 + 1" using renew [of "dp_execution_id pkg" w1] rn by simp
      moreover have "wd_tick w3 = wd_tick w2" using queue q by (metis snd_conv)
      ultimately have "wd_tick w1 < wd_tick w'"
        by (cases rn; cases q) (auto simp: bind_def ret_def split: if_splits)
      then show ?thesis using live tick by simp
    qed
  qed
qed

lemma monitor_loop_returns:
  assumes clock: "\<And>n. rg_mono g n + \<delta> \<le> rg_mono g (Suc n)" "0 < \<delta>"
  shows "deadline - rg_mono g (wd_tick w) \<le> of_nat fuel * \<delta> \<Longrightarrow>
    monitor_loop g pkg handle m deadline ra (Suc fuel) nr w \<noteq> None"
proof (induction fuel arbitrary: nr w)
  case 0
  obtain t w' where t: "monitor_turn g pkg handle m deadline ra nr w = (t, w')" by fastforce
  then show ?case
    using 0 monitor_turn_again [of g pkg handle m deadline ra nr w]
    by (auto split: sum.split monitor_turn.split)
next
  case (Suc fuel)
  have mono: "rg_mono g i \<le> rg_mono g j" if "i \<le> j" for i j
    by (rule lift_Suc_mono_le [OF _ that]) (meson clock le_add_same_cancel1 less_imp_le order_trans)
  obtain t w' where t: "monitor_turn g pkg handle m deadline ra nr w = (t, w')" by fastforce
  show ?case
  proof (cases "\<exists>nr'. t = Inr (Again nr')")
    case True
    then obtain nr' where "t = Inr (Again nr')" by blast
    moreover from this have "wd_tick w < wd_tick w'" using monitor_turn_again t by blast
    then have "rg_mono g (wd_tick w) + \<delta> \<le> rg_mono g (wd_tick w')"
      using clock(1) [of "wd_tick w"] mono [of "Suc (wd_tick w)" "wd_tick w'"] by simp
    then have "deadline - rg_mono g (wd_tick w') \<le> of_nat fuel * \<delta>"
      using Suc.prems by (simp add: algebra_simps)
    ultimately show ?thesis using Suc.IH t by (simp del: monitor_loop.simps add: monitor_loop.simps(2))
  next
    case False
    then show ?thesis using t by (auto split: sum.split monitor_turn.split)
  qed
qed


section \<open>A claim leaves the queue\<close>

lemma claim_tx_known:
  assumes "exec_inv d" "claim_tx g eid e d = Inr (Inl True, d')"
  shows "d' = d \<and> (\<exists>r. request_of eid d = Some r \<and> rq_state r \<noteq> PG_QUEUED)"
proof -
  from assms(2) have none: "claim_for_dispatch e eid (st_worker_id (rg_settings g)) (lease_deadline g e) d
      = Inr (None, d')" and found: "\<not> isl (get_execution eid d')"
    by (auto simp: claim_tx_def res_bind_Inr_iff split: option.splits sum.splits)
  from assms(1) none have d': "d' = d" and queued: "\<And>r. request_of eid d = Some r \<Longrightarrow> rq_state r \<noteq> PG_QUEUED"
    by (auto elim: claim_cases)
  from found obtain r where "request_of eid d = Some r"
    by (auto simp: get_execution_def d' split: option.splits)
  then show ?thesis using queued d' by blast
qed

lemma claim_tx_package:
  assumes "exec_inv d" "claim_tx g eid e d = Inr (Inr pkg, d')"
  shows "\<exists>r. request_of eid d' = Some r \<and> rq_state r \<noteq> PG_QUEUED"
proof -
  from assms(2) obtain c where c: "claim_for_dispatch e eid (st_worker_id (rg_settings g)) (lease_deadline g e) d
      = Inr (Some c, d')"
    by (auto simp: claim_tx_def res_bind_Inr_iff split: option.splits)
  from assms(1) c obtain r where "request_of eid d' = Some (claim_row e (st_worker_id (rg_settings g))
      (lease_deadline g e) r)" by (rule claimed_row)
  then show ?thesis by simp
qed

lemma acknowledged_left_queue:
  assumes g: "others_step g" and inv: "exec_inv (wd_db w)"
    and run: "process_requested g fuel ev m w = Some (Inr True, w')"
  shows "\<exists>r. request_of (re_execution_id ev) (wd_db w') = Some r \<and> rq_state r \<noteq> PG_QUEUED"
proof -
  let ?n = "wd_tick w" let ?d = "rg_others g ?n (wd_db w)"
  obtain c w1 where c: "in_transaction g (\<lambda>_. claim_tx g (re_execution_id ev)) w = (c, w1)" by fastforce
  have "exec_step\<^sup>*\<^sup>* (wd_db w) ?d" using g by (simp only: others_step_def)
  from exec_steps_inv [OF this inv] have inv1: "exec_inv ?d" .
  have "\<exists>r. request_of (re_execution_id ev) (wd_db w1) = Some r \<and> rq_state r \<noteq> PG_QUEUED"
  proof (cases "claim_tx g (re_execution_id ev) (rg_env g ?n) ?d")
    case (Inl x)
    then show ?thesis using c run by (auto simp: in_transaction_def Let_def process_requested_def)
  next
    case (Inr y)
    note tx = this
    obtain a d1 where y: "y = (a, d1)" by (cases y)
    then have w1: "c = Inr a" "wd_db w1 = d1" using c Inr by (auto simp: in_transaction_def Let_def)
    show ?thesis
    proof (cases a)
      case (Inl known)
      then have "known" using c w1 run by (simp add: process_requested_def)
      then have "claim_tx g (re_execution_id ev) (rg_env g ?n) ?d = Inr (Inl True, d1)"
        using tx y Inl by simp
      from claim_tx_known [OF inv1 this] show ?thesis using w1(2) by simp
    next
      case (Inr pkg)
      then have "claim_tx g (re_execution_id ev) (rg_env g ?n) ?d = Inr (Inr pkg, d1)"
        using tx y by simp
      from claim_tx_package [OF inv1 this] show ?thesis using w1(2) by simp
    qed
  qed
  then obtain r where r: "request_of (re_execution_id ev) (wd_db w1) = Some r" "rq_state r \<noteq> PG_QUEUED"
    by blast
  have inv2: "exec_inv (wd_db w1)" using exec_steps_inv [OF stepsD [OF steps_claim [OF g] c] inv] .
  show ?thesis
    by (rule left_queue_stays [OF inv2 r process_requested_after_claim [OF g c run]])
qed

section \<open>Expired leases are found\<close>

lemma lease_of_active_row:
  assumes "active_state (rq_state r)"
  shows "\<exists>l. lease_of_row r = Inr l \<and> xl_execution_id l = rq_id r \<and> xl_attempt_count l = rq_attempt_count r
    \<and> state_text (rq_state r) = status_value (xl_status l)"
  using assms parse_active_states by (auto simp: lease_of_row_def)

lemma res_map_all:
  "(\<And>x. x \<in> set xs \<Longrightarrow> \<exists>y. f x = Inr y \<and> R x y) \<Longrightarrow> \<exists>ys. res_map f xs = Inr ys \<and> list_all2 R xs ys"
proof (induction xs)
  case (Cons x xs)
  from Cons.prems [of x] obtain y where "f x = Inr y" "R x y" by auto
  moreover have "\<exists>ys. res_map f xs = Inr ys \<and> list_all2 R xs ys" using Cons by simp
  ultimately show ?case by auto
qed simp

lemma expired_lease_found:
  assumes r: "request_of eid d = Some r" "active_state (rq_state r)" "rq_lease_expires_at r = Some t"
      "t < db_now e" "eid \<notin> set locked"
    and room: "1 \<le> limit" "limit \<le> 500" "int (length (expired_rows e locked d)) \<le> limit"
  shows "\<exists>ls l. expired_leases e locked limit d = Inr ls \<and> l \<in> set ls \<and> xl_execution_id l = eid \<and>
    xl_attempt_count l = rq_attempt_count r \<and> state_text (rq_state r) = status_value (xl_status l)"
proof -
  let ?rows = "expired_rows e locked d"
  let ?R = "\<lambda>r l. xl_execution_id l = rq_id r \<and> xl_attempt_count l = rq_attempt_count r \<and>
    state_text (rq_state r) = status_value (xl_status l)"
  have "\<exists>ls. res_map lease_of_row ?rows = Inr ls \<and> list_all2 ?R ?rows ls"
    using lease_of_active_row by (intro res_map_all) (auto simp: expired_rows_active)
  then obtain ls where ls: "res_map lease_of_row ?rows = Inr ls" "list_all2 ?R ?rows ls" by blast
  have "take (nat limit) ?rows = ?rows" using room by simp
  then have "expired_leases e locked limit d = Inr ls" using room ls(1) by (simp add: expired_leases_def)
  moreover have id: "rq_id r = eid" using row_with_SomeD [OF r(1)] by simp
  moreover have "r \<in> set ?rows"
    using r row_with_SomeD [OF r(1)] by (auto simp: expired_rows_active sql_lt_def)
  then obtain i where "i < length ?rows" "?rows ! i = r" by (auto simp: in_set_conv_nth)
  then have "ls ! i \<in> set ls" "?R r (ls ! i)" using ls(2) by (auto simp: list_all2_conv_all_nth)
  ultimately show ?thesis using id by blast
qed

lemma expired_lease_retried:
  assumes inv: "exec_inv d" and r: "request_of eid d = Some r" "active_state (rq_state r)"
    "rq_lease_expires_at r = Some t" "t < db_now e"
    and live: "rq_attempt_count r < m" "app_now e < x"
  shows "\<exists>d'. retry_missing_sandbox e eid (rq_attempt_count r) w x m d = Inr (Some (rq_attempt_count r + 1), d')"
proof -
  have guard: "retry_guard e eid (rq_attempt_count r) m r"
    using r live row_with_SomeD [OF r(1)] by (auto simp: retry_guard_def sql_lt_def)
  have one: "1 \<le> rq_attempt_count r"
    using row_ok_active [OF exec_inv_request(2) [OF inv r(1)] r(2)] by simp
  have "find (retry_guard e eid (rq_attempt_count r) m) (requests d) = Some r"
    using find_guarded_request [OF inv, of "retry_guard e eid (rq_attempt_count r) m" eid r] r(1) guard
    by (auto simp: retry_guard_def)
  then show ?thesis
    using one live by (auto simp: retry_missing_sandbox_def validate_lease_deadline_def Let_def)
qed


section \<open>Properties\<close>

text \<open>C1: A turn of the controller, in which other sessions may commit any operations of the
  execution plane between its transactions, keeps the tables reachable: every request's log is a
  chain of legal steps that starts in QUEUED and ends in the stored state, columns agree with the
  state, identifiers and idempotency keys are unique, and each request's attempt count is the
  number of DISPATCHING entries in its log.\<close>

theorem controller_turn_keeps_plane:
  assumes "others_step g" "reachable (wd_db w)" "controller_turn g fuel due w = Some w'"
  shows "reachable (wd_db w') \<and> exec_inv (wd_db w') \<and> attempts_logged (wd_db w')"
proof -
  have "reachable (wd_db w')"
    using assms(2) controller_turn_steps [OF assms(1,3)] unfolding reachable_def by (rule rtranclp_trans)
  then show ?thesis using reachable_inv by blast
qed

theorem controller_turn_keeps_plane_witness:
  "\<exists>w'. controller_turn sample_rig 0 True sample_world = Some w' \<and> reachable (wd_db w') \<and>
     map rq_attempt_count (requests (wd_db w')) = [2]"
proof -
  obtain w' where "controller_turn sample_rig 0 True sample_world = Some w'"
    "map rq_attempt_count (requests (wd_db w')) = [2]" using sample_turn by (elim exE conjE) (rule that)
  moreover have "reachable (wd_db sample_world)" using sample_reachable by (simp add: sample_world_def)
  ultimately show ?thesis using controller_turn_keeps_plane [OF sample_others] by metis
qed

text \<open>A status transition of an existing request succeeds exactly when
  LEGAL_EXECUTION_TRANSITIONS allows it from the stored state, and an unknown request never does.\<close>

theorem transition_obeys_status_machine:
  assumes "exec_inv d"
  shows "(\<exists>snap d'. transition e eid t det owner x d = Inr (snap, d')) \<longleftrightarrow>
    (\<exists>r s. request_of eid d = Some r \<and> rq_state r = pg_state s \<and>
       t \<in> set (legal_execution_transitions s))"
  using assms by (rule transition_succeeds_iff)

theorem transition_obeys_status_machine_witness:
  "(\<exists>snap d'. transition (sample_env 5000) 1 Completed [] None None sample_running = Inr (snap, d')) \<and>
   \<not> (\<exists>snap d'. transition (sample_env 5000) 1 Running [] None None sample_completed = Inr (snap, d'))"
proof
  obtain r where "request_of 1 sample_running = Some r" "rq_state r = pg_state Running"
    using sample_rows(3) by auto
  then show "\<exists>snap d'. transition (sample_env 5000) 1 Completed [] None None sample_running = Inr (snap, d')"
    unfolding transition_obeys_status_machine [OF sample_inv(3)]
    by (intro exI [of _ r] exI [of _ Running]) simp
  obtain r where "request_of 1 sample_completed = Some r" "rq_state r = pg_state Failed"
    using sample_rows(5) by auto
  then show "\<not> (\<exists>snap d'. transition (sample_env 5000) 1 Running [] None None sample_completed = Inr (snap, d'))"
    unfolding transition_obeys_status_machine [OF sample_inv(5)]
    by (auto simp del: pg_state.simps)
qed

text \<open>C2: A terminal execution is final: whatever operations follow, in any order and from any
  session, its state, completion time, attempt count and log stay as they are.\<close>

theorem terminal_execution_is_final:
  assumes "exec_inv d" "request_of eid d = Some r" "terminal_state (rq_state r)" "exec_step\<^sup>*\<^sup>* d d'"
  shows "\<exists>r'. request_of eid d' = Some r' \<and> rq_state r' = rq_state r \<and>
    rq_completed_at r' = rq_completed_at r \<and> rq_attempt_count r' = rq_attempt_count r \<and>
    history eid d' = history eid d"
  using assms(1,4,2,3) by (rule terminal_history)

theorem terminal_execution_is_final_witness:
  "\<exists>r'. request_of 1 (clear_cancelled 1 sample_completed) = Some r' \<and> rq_state r' = PG_FAILED"
proof -
  obtain r where r: "request_of 1 sample_completed = Some r" "rq_state r = PG_FAILED"
    using sample_rows(5) by auto
  have "exec_step\<^sup>*\<^sup>* sample_completed (clear_cancelled 1 sample_completed)"
    using step_clear_cancelled by blast
  from terminal_execution_is_final [OF sample_inv(5) r(1) _ this] r(2) show ?thesis
    by (auto simp: terminal_execution_statuses_def)
qed

text \<open>C3: Of all claims of one execution at most one succeeds: after a claim, and any operations in
  between, every later claim returns nothing and changes nothing.\<close>

theorem claim_succeeds_once:
  assumes "exec_inv d" "claim_for_dispatch e eid w x d = Inr (Some c, d1)" "exec_step\<^sup>*\<^sup>* d1 d2"
    and "claim_for_dispatch e' eid w' x' d2 = Inr (res, d3)"
  shows "res = None \<and> d3 = d2"
proof -
  obtain r where r: "request_of eid d1 = Some (claim_row e w x r)"
    using claimed_row [OF assms(1,2)] by blast
  have inv1: "exec_inv d1" using claim_inv [OF assms(1,2)] .
  have "rq_state (claim_row e w x r) \<noteq> PG_QUEUED" by simp
  from left_queue_stays [OF inv1 r this assms(3)]
  obtain r2 where r2: "request_of eid d2 = Some r2" "rq_state r2 \<noteq> PG_QUEUED" by blast
  from exec_steps_inv [OF assms(3) inv1] assms(4) show ?thesis
    by (cases rule: claim_cases) (use r2 in auto)
qed

theorem claim_succeeds_once_witness:
  "claim_for_dispatch (sample_env 71000) 1 ''w3'' 90000 sample_retried = Inr (None, sample_retried)"
proof -
  obtain c where "claim_for_dispatch (sample_env 2000) 1 ''w1'' 60000 sample_queued = Inr (Some c, sample_claimed)"
    using sample_claimed_eq by (auto simp: sample_eval)
  moreover have "exec_step\<^sup>*\<^sup>* sample_claimed sample_retried"
    using step_running [OF sample_running_eq] sample_retried_eq step_retry by fastforce
  moreover obtain res d3 where "claim_for_dispatch (sample_env 71000) 1 ''w3'' 90000 sample_retried = Inr (res, d3)"
    by (simp add: sample_eval)
  ultimately show ?thesis using claim_succeeds_once [OF sample_inv(1)] by simp
qed

text \<open>C4: A worker whose attempt was superseded by an infrastructure retry is fenced: from then on
  neither a projection nor an observation of its attempt changes the tables.\<close>

theorem superseded_worker_is_fenced:
  assumes "exec_inv d"
    and "retry_missing_sandbox e (dp_execution_id pkg) (dp_attempt_count pkg) w x m d = Inr (Some a, d1)"
    and "exec_step\<^sup>*\<^sup>* d1 d2"
  shows "persist_projection_tx g pkg p e' d2 = Inr (terminal_or_lost (dp_execution_id pkg) d2, d2) \<and>
    observation_tx g pkg result e' d2 = Inr (terminal_or_lost (dp_execution_id pkg) d2, d2)"
proof -
  obtain r where r: "request_of (dp_execution_id pkg) d1 = Some r"
    "rq_attempt_count r = dp_attempt_count pkg + 1"
    using retried_attempt [OF assms(1,2)] by blast
  have inv1: "exec_inv d1" using retry_inv [OF assms(1,2)] .
  obtain r2 where r2: "request_of (dp_execution_id pkg) d2 = Some r2"
    using db_advanceE [OF exec_steps_advance [OF assms(3) inv1] r(1)] by blast
  have "rq_attempt_count r2 \<noteq> dp_attempt_count pkg"
    using attempts_never_fall [OF inv1 assms(3) r(1) r2] r(2) by simp
  then have "\<not> owns_locked_attempt g pkg e' d2"
    using not_owner_of_other_attempt [OF exec_steps_inv [OF assms(3) inv1] r2] by blast
  then show ?thesis by (simp add: persist_projection_tx_def observation_tx_def)
qed


definition sample_package :: "int \<Rightarrow> dispatch_package" where
  "sample_package attempt = \<lparr>dp_execution_id = 1, dp_organization_id = None, dp_candidate_id = 7,
     dp_practice_session_id = 20, dp_submission_id = Some 30, dp_question_version_id = 40,
     dp_execution_type = ''SUBMIT'', dp_runtime = ''python3.13'', dp_language = ''python'',
     dp_source_code = ''s'', dp_input_payload = [(''tests'', JList [])], dp_limits = [],
     dp_trace_id = ''t'', dp_attempt_count = attempt\<rparr>"

theorem superseded_worker_is_fenced_witness:
  "persist_projection_tx sample_rig (sample_package 1) (timeout_projection (sample_package 1))
     (sample_env 71000) sample_retried = Inr (False, sample_retried)"
proof -
  obtain a where "retry_missing_sandbox (sample_env 70000) (dp_execution_id (sample_package 1))
      (dp_attempt_count (sample_package 1)) ''w2'' 130000 3 sample_running = Inr (Some a, sample_retried)"
    using sample_retried_eq by (auto simp: sample_eval sample_package_def)
  moreover have "terminal_or_lost (dp_execution_id (sample_package 1)) sample_retried = False"
    by (simp add: sample_package_def terminal_or_lost_def sample_eval terminal_execution_statuses_def)
  ultimately show ?thesis
    using superseded_worker_is_fenced [OF sample_inv(3) _ rtranclp.rtrancl_refl, where g = sample_rig] by simp
qed


text \<open>C5: A request message is only acknowledged, and so deleted from the queue, once its execution
  exists and has left QUEUED: a message that is dropped never strands a queued execution.\<close>

theorem acknowledged_request_is_not_queued:
  assumes "others_step g" "reachable (wd_db w)"
    and "process_requested g fuel ev m w = Some (Inr True, w')"
  shows "\<exists>r. request_of (re_execution_id ev) (wd_db w') = Some r \<and> rq_state r \<noteq> PG_QUEUED"
  using assms reachable_inv by (blast intro: acknowledged_left_queue)

definition sample_event :: requested_event where
  "sample_event = \<lparr>re_execution_id = 1, re_attempt = 1, re_requested_at = 1000, re_trace_id = ''t''\<rparr>"

definition sample_message :: sqs_message where
  "sample_message = \<lparr>sm_message_id = ''1'', sm_receipt_handle = ''2'', sm_body = ''b''\<rparr>"

theorem acknowledged_request_is_not_queued_witness:
  "\<exists>w' r. process_requested sample_rig 0 sample_event sample_message sample_world = Some (Inr True, w') \<and>
     request_of 1 (wd_db w') = Some r \<and> rq_state r \<noteq> PG_QUEUED"
proof -
  have "\<not> isl (get_execution 1 sample_running)" by (simp add: sample_eval)
  then have "claim_tx sample_rig 1 (sample_env 70000) sample_running = Inr (Inl True, sample_running)"
    by (simp add: claim_tx_def claim_for_dispatch_def validate_lease_deadline_def claim_guard_def
        update_where_none sample_eval isl_def split: sum.split)
  then obtain w' where w': "process_requested sample_rig 0 sample_event sample_message sample_world
      = Some (Inr True, w')"
    by (simp add: process_requested_def in_transaction_def sample_world_def sample_event_def)
  moreover have "reachable (wd_db sample_world)" using sample_reachable by (simp add: sample_world_def)
  ultimately show ?thesis
    using acknowledged_request_is_not_queued [OF sample_others _ w'] by (simp add: sample_event_def)
qed

text \<open>C6: No active execution is stranded. When its lease has run out and no other reconciler holds
  its row, the reconciler finds it (the limit admits all expired leases), and, as long as attempts
  are left, can start the next attempt with the lease it found.\<close>

theorem expired_lease_is_recovered:
  assumes "exec_inv d" "request_of eid d = Some r" "active_state (rq_state r)"
    and "rq_lease_expires_at r = Some t" "t < db_now e" "eid \<notin> set locked"
    and "1 \<le> limit" "limit \<le> 500" "int (length (expired_rows e locked d)) \<le> limit"
    and "rq_attempt_count r < max_attempts" "app_now e < deadline"
  shows "\<exists>ls l d'. expired_leases e locked limit d = Inr ls \<and> l \<in> set ls \<and>
    retry_missing_sandbox e (xl_execution_id l) (xl_attempt_count l) worker deadline max_attempts d =
      Inr (Some (rq_attempt_count r + 1), d') \<and> xl_execution_id l = eid"
proof -
  obtain ls l where l: "expired_leases e locked limit d = Inr ls" "l \<in> set ls" "xl_execution_id l = eid"
    "xl_attempt_count l = rq_attempt_count r"
    using expired_lease_found [OF assms(2-9)] by blast
  moreover obtain d' where "retry_missing_sandbox e eid (rq_attempt_count r) worker deadline max_attempts d
      = Inr (Some (rq_attempt_count r + 1), d')"
    using expired_lease_retried [OF assms(1-5,10,11)] by blast
  ultimately show ?thesis by metis
qed

theorem expired_lease_is_recovered_witness:
  "\<exists>ls l d'. expired_leases (sample_env 70000) [] 50 sample_running = Inr ls \<and> l \<in> set ls \<and>
    retry_missing_sandbox (sample_env 70000) (xl_execution_id l) (xl_attempt_count l) ''w2'' 130000 3
      sample_running = Inr (Some 2, d') \<and> xl_execution_id l = 1"
proof -
  obtain r where r: "request_of 1 sample_running = Some r" "rq_attempt_count r = 1"
    "rq_lease_expires_at r = Some 60000" "rq_state r = PG_RUNNING"
    by (simp add: sample_eval)
  have "int (length (expired_rows (sample_env 70000) [] sample_running)) \<le> 50"
    by (simp add: expired_rows_def sample_eval)
  then show ?thesis
    using expired_lease_is_recovered [OF sample_inv(3) r(1) _ r(3), of "sample_env 70000" "[]" 50 3 130000 "''w2''"]
      r(2,4) by (simp add: sample_env_def)
qed

text \<open>C7: Monitoring a sandbox ends. Whatever the sandbox, the queue and other sessions answer, with a
  clock that advances by at least \<open>\<delta>\<close> per poll the loop returns within the polls that cover the
  job deadline and its ten seconds of grace.\<close>

theorem monitor_terminates:
  fixes g :: "('q, 's) rig"
  assumes "0 < \<delta>" "\<And>n. rg_mono g n + \<delta> \<le> rg_mono g (Suc n)"
    and "of_int (positive_limit (dp_limits pkg) ''job_deadline_seconds'' 30) + 10 \<le> of_nat fuel * \<delta>"
  shows "monitor g (Suc fuel) pkg handle m w \<noteq> None"
  using monitor_loop_returns [OF assms(2,1), of "monitor_deadline g pkg w" w fuel] assms(3)
  by (simp add: monitor_def monitor_deadline_def Let_def algebra_simps del: monitor_loop.simps)

theorem monitor_terminates_witness:
  "monitor sample_rig (Suc 40) (sample_package 2) (handle_for 1 ''ns'' ''job'') sample_message sample_world \<noteq> None"
  by (rule monitor_terminates [where \<delta> = 1])
    (simp_all add: sample_package_def positive_limit_def jget_def)

end
