(* ===== verification/Execution_Contracts.thy ===== *)
theory Execution_Contracts imports Execution_Guarantees begin

text \<open>
  What the single operations of the execution plane promise: idempotent creation, the outbox,
  the trust boundary around the runner, scores, the queue and its dead letters.
\<close>

section \<open>Creation and cancellation\<close>

text \<open>Creation is idempotent. Sending the same request again under the same Idempotency-Key, with
  whatever fresh identifiers and clock, answers with the first execution, marked as a duplicate,
  and changes nothing; under the same key, a request with another fingerprint is refused.\<close>

theorem create_queued_is_idempotent:
  assumes "exec_inv d" "create_queued e eid oid c d d = Inr (q, d')" "user_id e' = user_id e"
    and "cr_idempotency_key c' = cr_idempotency_key c"
  defines "print \<equiv> \<lambda>e c. execution_request_hash (lib e) (cr_execution_type c)
      (cr_practice_session c) (cr_question_version c) (cr_runtime c) (cr_source_code c)"
  shows "create_queued e' eid' oid' c' d' d' =
    (if print e' c' = print e c then Inr (q\<lparr>qe_duplicate := True\<rparr>, d')
     else Inl (Exn IdempotencyConflictErr
       ''The Idempotency-Key was already used for a different execution request.''))"
proof -
  obtain r where r: "find_by_idempotency e (cr_idempotency_key c) d' = Some r"
    "queued_from_row r True = Inr (q\<lparr>qe_duplicate := True\<rparr>)" "rq_request_hash r = print e c"
    using create_queued_owner [OF assms(1,2)] unfolding print_def by blast
  have "find_by_idempotency e' (cr_idempotency_key c') d' = Some r"
    using r(1) assms(3,4) by (simp add: find_by_idempotency_def)
  then show ?thesis
    using r(2,3) by (auto simp: create_queued_def reuse_queued_def Let_def print_def)
qed

theorem create_queued_is_idempotent_witness:
  "\<exists>q. create_queued (sample_env 9000) 5 6 sample_request sample_queued sample_queued =
     Inr (q\<lparr>qe_duplicate := True\<rparr>, sample_queued)"
proof -
  obtain q where "create_queued (sample_env 1000) 1 2 sample_request empty_db empty_db = Inr (q, sample_queued)"
    using sample_queued_eq by blast
  from create_queued_is_idempotent [OF exec_inv_empty this, of "sample_env 9000" sample_request 5 6]
  show ?thesis by (intro exI [of _ q]) (simp add: sample_env_def)
qed

lemma cancel_succeeds:
  assumes inv: "exec_inv d"
  shows "(\<exists>snap d'. cancel e oid eid tr d = Inr (snap, d')) \<longleftrightarrow>
    (\<exists>r. request_of eid d = Some r \<and> rq_state r \<notin> {PG_COMPLETED, PG_FAILED, PG_TIMEOUT})"
    (is "?lhs \<longleftrightarrow> ?rhs")
proof (cases "request_of eid d")
  case None
  then show ?thesis by (simp add: cancel_def get_execution_def)
next
  case (Some r)
  obtain s where s: "rq_state r = pg_state s" using exec_inv_pg_state [OF inv Some] .
  obtain snap where snap: "get_execution eid d = Inr snap" "es_status snap = s"
    using get_execution_status [OF inv Some s] .
  have legal: "Cancelled \<in> set (legal_execution_transitions s) \<longleftrightarrow> \<not> is_terminal s"
    by (cases s) (simp_all add: terminal_execution_statuses_def)
  note t = transition_succeeds_iff [OF inv, of e eid Cancelled
      "[(''reason'', JStr ''candidate_requested''), (''trace_id'', JStr tr)]" None None]
  have "?lhs \<longleftrightarrow> s = Cancelled \<or> \<not> is_terminal s"
  proof (cases "s = Cancelled \<or> is_terminal s")
    case True
    then show ?thesis using snap by (auto simp: cancel_def)
  next
    case False
    then have "\<exists>snap d'. transition e eid Cancelled
        [(''reason'', JStr ''candidate_requested''), (''trace_id'', JStr tr)] None None d = Inr (snap, d')"
      using t legal Some s by blast
    then show ?thesis using snap False by (auto simp: cancel_def)
  qed
  also have "\<dots> \<longleftrightarrow> ?rhs"
    using Some s by (cases s) (simp_all add: terminal_execution_statuses_def)
  finally show ?thesis .
qed

lemma cancel_effect:
  assumes inv: "exec_inv d" and c: "cancel e oid eid tr d = Inr (snap, d')" and r: "request_of eid d = Some r"
  shows "map_option rq_state (request_of eid d') = Some PG_CANCELLED \<and> (rq_state r \<noteq> PG_CANCELLED \<longrightarrow>
    ''execution.cancel_requested:'' @ uuid_str eid \<in> ob_dedupe_key ` set (outbox d'))"
proof -
  obtain s where s: "rq_state r = pg_state s" using exec_inv_pg_state [OF inv r] .
  obtain cur where cur: "get_execution eid d = Inr cur" "es_status cur = s"
    using get_execution_status [OF inv r s] .
  show ?thesis
  proof (cases "s = Cancelled")
    case True
    then have "d' = d" using c cur by (auto simp: cancel_def)
    then show ?thesis using r s True by simp
  next
    case False
    then obtain d1 key payload where t: "transition e eid Cancelled
        [(''reason'', JStr ''candidate_requested''), (''trace_id'', JStr tr)] None None d = Inr (snap, d1)"
      and d': "d' = insert_outbox oid eid ''execution.cancel_requested''
        (''execution.cancel_requested:'' @ uuid_str eid) payload (app_now e) d1"
      using c cur by (auto simp: cancel_def res_bind_Inr_iff split: if_splits)
    from t obtain det' where "d1 = append_event eid Cancelled det' (d\<lparr>requests :=
        update_where (\<lambda>y. rq_id y = eid) (transition_row e Cancelled None None) (requests d)\<rparr>)"
      by (rule transition_InrD)
    from transition_request_of [OF r this]
    have "map_option rq_state (request_of eid d1) = Some PG_CANCELLED" by simp
    then show ?thesis by (simp add: d') (simp add: insert_outbox_def)
  qed
qed

text \<open>A candidate can cancel exactly the executions that exist and have not completed, failed or
  timed out; a successful cancellation leaves the execution CANCELLED and announces it in the
  outbox under the key of its cancel event.\<close>

theorem cancel_contract:
  assumes "exec_inv d"
  shows "((\<exists>snap d'. cancel e oid eid tr d = Inr (snap, d')) \<longleftrightarrow>
      (\<exists>r. request_of eid d = Some r \<and> rq_state r \<notin> {PG_COMPLETED, PG_FAILED, PG_TIMEOUT})) \<and>
    (\<forall>snap d' r. cancel e oid eid tr d = Inr (snap, d') \<longrightarrow> request_of eid d = Some r \<longrightarrow>
       map_option rq_state (request_of eid d') = Some PG_CANCELLED \<and>
       (rq_state r \<noteq> PG_CANCELLED \<longrightarrow>
         ''execution.cancel_requested:'' @ uuid_str eid \<in> ob_dedupe_key ` set (outbox d')))"
  using cancel_succeeds [OF assms] cancel_effect [OF assms] by blast

theorem cancel_contract_witness:
  "\<exists>snap d'. cancel (sample_env 5000) 9 1 ''t'' sample_running = Inr (snap, d') \<and>
     map_option rq_state (request_of 1 d') = Some PG_CANCELLED"
proof -
  obtain r where r: "request_of 1 sample_running = Some r" "rq_state r = PG_RUNNING"
    using sample_rows(3) by blast
  note contract = cancel_contract [OF sample_inv(3), of "sample_env 5000" 9 1 "''t''"]
  obtain snap d' where c: "cancel (sample_env 5000) 9 1 ''t'' sample_running = Inr (snap, d')"
    using contract [THEN conjunct1] r by auto
  then show ?thesis using contract [THEN conjunct2] r(1) by blast
qed

section \<open>The outbox\<close>

text \<open>A committed publishing batch takes at most the limit, and every message it claimed is either
  published or failed; the rows that leave the unpublished set are exactly those the transport
  accepted, in the order of the batch.\<close>

theorem publish_batch_accounts:
  assumes "publish_outbox_batch e locked jit publish limit d q = (Inr (b, d'), q')"
  shows "\<exists>ms. claim_batch e locked limit d = Inr ms \<and> pb_claimed b = length ms \<and> length ms \<le> nat limit \<and>
    pb_published b = length (accepted publish ms q) \<and> pb_claimed b = pb_published b + pb_failed b \<and>
    unpublished_ids d' = unpublished_ids d - om_id ` set (accepted publish ms q)"
proof -
  from assms obtain ms where "claim_batch e locked limit d = Inr ms" "pb_claimed b = length ms"
    "pb_published b = length (accepted publish ms q)" "pb_claimed b = pb_published b + pb_failed b"
    "unpublished_ids d' = unpublished_ids d - om_id ` set (accepted publish ms q)"
    unfolding publish_outbox_batch_def by (rule db_outbox.batch_counts)
  moreover from this(1) have "length ms \<le> nat limit"
    by (auto simp: claim_batch_def split: if_splits)
  ultimately show ?thesis by blast
qed

definition accept_all :: "outbox_message \<Rightarrow> uuid list \<Rightarrow> exn option \<times> uuid list" where
  "accept_all m q = (None, q @ [om_id m])"

definition refuse_all :: "outbox_message \<Rightarrow> uuid list \<Rightarrow> exn option \<times> uuid list" where
  "refuse_all m q = (Some (Exn TransportErr ''down''), q)"

lemma sample_outbox_row:
  obtains p where "outbox sample_queued = [\<lparr>ob_id = 2, ob_aggregate_type = ''execution'',
     ob_aggregate_id = 1, ob_event_type = ''execution.requested'',
     ob_dedupe_key = ''execution.requested:'' @ uuid_str 1, ob_payload = p, ob_created_at = 1000,
     ob_published_at = None, ob_attempt_count = 0, ob_next_attempt_at = 1000, ob_last_error = None\<rparr>]"
  using sample_queued_outbox by (elim exE) (rule that)

lemma sample_accepted:
  "\<exists>ms. claim_batch (sample_env 70000) [] 25 sample_queued = Inr ms \<and> accepted accept_all ms [] = ms \<and>
     map om_id ms = [2]"
  by (rule sample_outbox_row) (simp add: claim_batch_def claimable_def message_of_row_def accept_all_def
      sample_env_def)

theorem publish_batch_accounts_witness:
  "\<exists>b d' q'. publish_outbox_batch (sample_env 70000) [] (\<lambda>u. 1 / 2) accept_all 25 sample_queued [] =
     (Inr (b, d'), q') \<and> pb_published b = 1 \<and> unpublished_ids d' = unpublished_ids sample_queued - {2}"
proof -
  obtain b d' q' where run: "publish_outbox_batch (sample_env 70000) [] (\<lambda>u. 1 / 2) accept_all 25 sample_queued [] =
     (Inr (b, d'), q')"
    using sample_accepted
    by (auto simp: publish_outbox_batch_def publish_claimed_messages_def accept_all_def)
  from sample_accepted obtain ms where ms: "claim_batch (sample_env 70000) [] 25 sample_queued = Inr ms"
    "accepted accept_all ms [] = ms" "map om_id ms = [2]" by (elim exE conjE) (rule that)
  then have one: "length ms = 1" "om_id ` set ms = {2}" by auto
  from publish_batch_accounts [OF run] ms one have "pb_published b = 1"
    "unpublished_ids d' = unpublished_ids sample_queued - {2}" by simp_all
  then show ?thesis using run by (intro exI conjI)
qed

lemma fl_ge_300: "300 \<le> x \<Longrightarrow> 300 \<le> fl x"
  using binary64.rnd_ge_of_int [of 300 x] by simp

lemma fl_small_power: "n \<le> 8 \<Longrightarrow> fl (2 ^ n) = 2 ^ n"
  using fl_of_int [of "2 ^ n"] power_increasing [of n 8 "2::int"] by simp

lemma capped_power: "min 300 (fmul 1 (2 ^ n)) = min 300 (2 ^ n)"
proof (cases "n \<le> 8")
  case False
  then have "(2::rat) ^ 9 \<le> 2 ^ n" by (intro power_increasing) auto
  then show ?thesis using fl_ge_300 [of "2 ^ n"] by (simp add: fmul_def min_def)
qed (simp add: fmul_def fl_small_power)

lemma capped_exact:
  "fl (min 300 (2 ^ n)) = min 300 (2 ^ n)" "fl (min 300 (2 ^ n) / 2) = min 300 (2 ^ n) / 2"
proof -
  show *: "fl (min 300 (2 ^ n)) = min 300 (2 ^ n)"
  proof (cases "n \<le> 8")
    case True
    then have "(2::rat) ^ n \<le> 2 ^ 8" by (intro power_increasing) auto
    then show ?thesis using fl_small_power [OF True] by (simp add: min_def)
  next
    case False
    then have "(2::rat) ^ 9 \<le> 2 ^ n" by (intro power_increasing) auto
    then show ?thesis using fl_of_int [of 300] by (simp add: min_def)
  qed
  then show "fl (min 300 (2 ^ n) / 2) = min 300 (2 ^ n) / 2" by (simp add: fl_half)
qed

lemma jitter_factor:
  assumes "0 \<le> j" "j \<le> (1::rat)"
  shows "1 / 2 \<le> fadd (1 / 2) (fmul (1 / 2) j)" "fadd (1 / 2) (fmul (1 / 2) j) \<le> 1"
proof -
  have half: "fl (1 / 2) = 1 / 2" using fl_half [of 1] binary64.rnd_1 by simp
  have "0 \<le> fmul (1 / 2) j" "fmul (1 / 2) j \<le> 1 / 2"
    using fl_mono [of 0 "1 / 2 * j"] fl_mono [of "1 / 2 * j" "1 / 2"] assms half by (simp_all add: fmul_def)
  then show "1 / 2 \<le> fadd (1 / 2) (fmul (1 / 2) j)" "fadd (1 / 2) (fmul (1 / 2) j) \<le> 1"
    using fl_mono [of "1 / 2" "1 / 2 + fmul (1 / 2) j"] fl_mono [of "1 / 2 + fmul (1 / 2) j" 1]
      half binary64.rnd_1 by (simp_all add: fadd_def)
qed

text \<open>C8: A failed message is retried after half to all of min(300, 2^n) seconds, n the attempts so
  far, for every jitter in the unit interval: the backoff is capped, never shorter than half of its
  nominal delay, and never raises below 1024 attempts.\<close>

theorem retry_delay_bounds:
  assumes "0 \<le> attempt" "attempt < 1024" "0 \<le> jitter" "jitter \<le> 1"
  shows "\<exists>s. retry_delay_seconds attempt 1 300 jitter = Inr s \<and>
    min 300 (2 ^ nat attempt) / 2 \<le> s \<and> s \<le> min 300 (2 ^ nat attempt)"
proof -
  let ?x = "min 300 (2 ^ nat attempt) :: rat" and ?j = "fadd (1 / 2) (fmul (1 / 2) jitter)"
  have x: "0 < ?x" "?x \<le> 300" by simp_all
  note j = jitter_factor [OF assms(3,4)]
  have "?x / 2 \<le> ?x * ?j" using mult_left_mono [OF j(1), of ?x] x by simp
  then have lower: "?x / 2 \<le> fmul ?x ?j"
    using fl_mono [of "?x / 2" "?x * ?j"] capped_exact(2) by (simp add: fmul_def)
  have "?x * ?j \<le> ?x" using mult_left_mono [OF j(2), of ?x] x by simp
  then have upper: "fmul ?x ?j \<le> ?x"
    using fl_mono [of "?x * ?j" ?x] capped_exact(1) by (simp add: fmul_def)
  have "retry_delay_seconds attempt 1 300 jitter = Inr (min 300 (fmul ?x ?j))"
    using assms by (simp add: retry_delay_seconds_def capped_power Let_def)
  moreover have "min 300 (fmul ?x ?j) = fmul ?x ?j" using upper x by linarith
  ultimately show ?thesis using lower upper by simp
qed

theorem retry_delay_bounds_witness:
  "\<exists>s. retry_delay_seconds 3 1 300 (1 / 2) = Inr s \<and> 4 \<le> s \<and> s \<le> 8"
  using retry_delay_bounds [of 3 "1 / 2"] by (simp add: numeral_3_eq_3)

text \<open>From 1024 failed attempts on the backoff cannot be computed: \<open>2 ** attempt_count\<close> no longer
  converts to a float. The OverflowError is raised inside the publishing transaction, so a batch
  whose first message has failed 1024 times and fails again is rolled back whole.\<close>

theorem exhausted_message_aborts_batch:
  assumes "claim_batch e locked limit d = Inr (m # ms)" "1024 \<le> om_attempt_count m"
    and "0 \<le> jit (om_id m)" "jit (om_id m) \<le> 1" "fst (publish m q) = Some x"
  shows "fst (publish_outbox_batch e locked jit publish limit d q) =
    Inl (Exn OverflowErr ''int too large to convert to float'')"
  using assms
  by (auto simp: publish_outbox_batch_def publish_claimed_messages_def mark_failed_def
      retry_delay_seconds_def split: prod.split)

theorem exhausted_message_aborts_batch_witness:
  "fst (publish_outbox_batch (sample_env 70000) [] (\<lambda>u. 1 / 2) refuse_all 25
     (empty_db\<lparr>outbox := [\<lparr>ob_id = 2, ob_aggregate_type = ''execution'', ob_aggregate_id = 1,
        ob_event_type = ''execution.requested'', ob_dedupe_key = ''k'', ob_payload = JObj [],
        ob_created_at = 1000, ob_published_at = None, ob_attempt_count = 1024,
        ob_next_attempt_at = 1000, ob_last_error = None\<rparr>]\<rparr>) []) =
    Inl (Exn OverflowErr ''int too large to convert to float'')"
  by (rule exhausted_message_aborts_batch)
    (auto simp: claim_batch_def claimable_def message_of_row_def sample_env_def refuse_all_def)


section \<open>The trust boundary\<close>

text \<open>C9: What the candidate's sandbox is sent never contains an expected answer: of every test in
  the request neither \<open>expected_output\<close> nor \<open>expected\<close> is a key, the tests are those of the
  stored payload, and only a claimed attempt in a supported language is sent.\<close>

theorem sandbox_request_hides_answers:
  assumes "sandbox_request l pkg = Inr req"
  shows "\<exists>tests. jget (dp_input_payload pkg) ''tests'' = JList tests \<and> jget req ''tests'' = JList tests \<and>
    (\<forall>t\<in>set tests. \<exists>o1. t = JObj o1 \<and> \<not> has_key o1 ''expected_output'' \<and> \<not> has_key o1 ''expected'') \<and>
    jget req ''attempt'' = JInt (dp_attempt_count pkg) \<and> 1 \<le> dp_attempt_count pkg \<and>
    dp_language pkg \<in> {''python'', ''sql''}"
  using assms by (rule sandbox_request_InrD) metis

theorem sandbox_request_hides_answers_witness:
  "\<exists>req. sandbox_request sample_lib (sample_package 1) = Inr req \<and> jget req ''tests'' = JList []"
proof -
  obtain req where req: "sandbox_request sample_lib (sample_package 1) = Inr req"
    by (simp add: sandbox_request_def sample_package_def object_list_def jget_def)
  from sandbox_request_hides_answers [OF req] show ?thesis
    using req by (auto simp: sample_package_def jget_def)
qed

text \<open>C10: A log that the trust boundary accepts is bounded and belongs to the attempt: at most
  256 KiB of log, at most 200 tests with distinct non-empty identifiers and a known visibility,
  streams cut to 64 KiB characters, a terminal status, a non-negative runtime, and the execution
  and attempt that were expected.\<close>

theorem parsed_result_is_bounded:
  assumes "parse_runner_result l txt eid (Some attempt) = Inr s"
  shows "utf8_len txt \<le> 256 * 1024 \<and> sx_execution_id s = eid \<and> sx_attempt s = attempt \<and> 1 \<le> attempt \<and>
    sx_status s \<in> {''COMPLETED'', ''FAILED'', ''TIMEOUT''} \<and> 0 \<le> sx_runtime_ms s \<and>
    length (sx_tests s) \<le> 200 \<and> distinct (map (test_key l) (sx_tests s)) \<and>
    list_all returned_test_ok (sx_tests s) \<and>
    length (sx_stdout s) \<le> 64 * 1024 \<and> length (sx_stderr s) \<le> 64 * 1024"
  using parse_runner_result_InrD [OF assms]
  by (simp add: max_result_log_bytes_def max_result_tests_def max_public_stream_bytes_def)

text \<open>A runner's answer with one public and one hidden test.\<close>

definition sample_answer :: jobj where
  "sample_answer = [(''schema_version'', JInt 1), (''execution_id'', JStr (uuid_str 1)),
     (''attempt'', JInt 1), (''status'', JStr ''COMPLETED''),
     (''tests'', JList [
        JObj [(''id'', JStr ''a''), (''visibility'', JStr ''public''), (''ok'', JBool True), (''actual'', JInt 3)],
        JObj [(''id'', JStr ''b''), (''visibility'', JStr ''hidden''), (''ok'', JBool True), (''actual'', JInt 4)]]),
     (''runtime_ms'', JInt 12), (''exit_code'', JInt 0)]"

definition sample_runner_lib :: pylib where
  "sample_runner_lib = sample_lib\<lparr>json_loads := (\<lambda>s. if s = ''x'' then Some (JObj sample_answer) else None)\<rparr>"

lemma sample_log:
  "utf8_len (result_prefix @ ''x'') \<le> max_result_log_bytes"
  "find (starts_with result_prefix) (rev (splitlines (result_prefix @ ''x''))) = Some (result_prefix @ ''x'')"
  by (simp_all add: result_prefix_def utf8_len_def max_result_log_bytes_def splitlines_def
      is_line_break_def starts_with_def)

lemma sample_payload: "find_result_payload sample_runner_lib (result_prefix @ ''x'') = Inr sample_answer"
  using sample_log(2) by (simp add: find_result_payload_def sample_runner_lib_def)

lemma sample_fields:
  "py_eq (jget sample_answer ''schema_version'') (JInt 1)"
  "jget sample_answer ''execution_id'' = JStr (uuid_str 1)" "jget sample_answer ''attempt'' = JInt 1"
  "jget sample_answer ''status'' = JStr ''COMPLETED''" "jget sample_answer ''runtime_ms'' = JInt 12"
  "jget sample_answer ''exit_code'' = JInt 0" "jget sample_answer ''error_category'' = JNull"
  "jget sample_answer ''stdout'' = JNull" "jget sample_answer ''stderr'' = JNull"
  by (simp_all add: sample_answer_def jget_def number_eq_def)

definition sample_result :: sandbox_result where
  "sample_result = \<lparr>sx_execution_id = 1, sx_attempt = 1, sx_status = ''COMPLETED'', sx_runtime_ms = 12,
     sx_exit_code = 0, sx_tests = [
        [(''id'', JStr ''a''), (''visibility'', JStr ''public''), (''ok'', JBool True), (''actual'', JInt 3),
         (''error_category'', JNull)],
        [(''id'', JStr ''b''), (''visibility'', JStr ''hidden''), (''ok'', JBool True), (''actual'', JInt 4),
         (''error_category'', JNull)]],
     sx_stdout = [], sx_stderr = [], sx_error_category = None\<rparr>"

lemma sample_tests:
  "\<exists>raws. jget sample_answer ''tests'' = JList raws \<and> parse_tests raws [] = Inr (sx_tests sample_result) \<and>
     length raws = 2"
  by (simp add: sample_answer_def jget_def required_string_def object_dict_def sample_result_def
      optional_string_def string_json_def)

lemma sample_parsed:
  "parse_runner_result sample_runner_lib (result_prefix @ ''x'') 1 (Some 1) = Inr sample_result"
proof -
  obtain raws where "jget sample_answer ''tests'' = JList raws" "parse_tests raws [] = Inr (sx_tests sample_result)"
    "length raws = 2" using sample_tests by (elim exE conjE) (rule that)
  moreover have "stream_text sample_runner_lib JNull = []"
    by (simp add: stream_text_def py_or_def py_str_def)
  ultimately show ?thesis
    using sample_log(1) sample_payload sample_fields
    by (simp add: parse_runner_result_def py_eq_JStr positive_int_def required_string_def object_list_def
        nonnegative_int_def max_result_tests_def optional_string_def)
      (simp add: sample_result_def)
qed

theorem parsed_result_is_bounded_witness:
  "\<exists>s. parse_runner_result sample_runner_lib (result_prefix @ ''x'') 1 (Some 1) = Inr s \<and>
     sx_execution_id s = 1 \<and> length (sx_tests s) \<le> 200"
  using sample_parsed parsed_result_is_bounded by blast


text \<open>C11: The stored outcome adds up. For an accepted runner result against the expected tests of the
  question version, at most as many hidden tests pass as there are, no more tests pass than are
  counted and no more are counted than are expected; a COMPLETED outcome counts every expected
  test. All six evaluation scores then lie in the unit interval, as the table demands.\<close>

theorem outcome_adds_up:
  assumes "parse_runner_result l txt eid attempt = Inr s" "load_expected_tests l v d = Inr E"
    and "trusted_compare l s E = Inr p"
  shows "tp_hidden_passed p \<le> tp_hidden_total p \<and> passed_tests p \<le> total_tests p \<and>
    total_tests p \<le> length E \<and> length E \<le> max_result_tests \<and>
    (tp_execution_status p = Completed \<longrightarrow> total_tests p = length E) \<and>
    tp_execution_status p = terminal_of_status (sx_status s) \<and>
    unit_scores (evaluation_of quality p)"
  using outcome_counts [OF assms(3) parse_runner_result_InrD(9) [OF assms(1)]
      load_expected_tests_InrD(1,2) [OF assms(2)]]
    load_expected_tests_InrD(4) [OF assms(2)] trusted_compare_InrD(1) [OF assms(3)]
    passed_le_total [of p] evaluation_unit_scores [of p quality]
  by simp

text \<open>The question version the sample's runner answer belongs to.\<close>

definition sample_question :: json where
  "sample_question = JObj [(''question_type'', JStr ''python_coding''),
     (''mode_specification'', JObj [(''tests'', JList [
        JObj [(''id'', JStr ''a''), (''visibility'', JStr ''public''), (''expected_output'', JInt 3)],
        JObj [(''id'', JStr ''b''), (''visibility'', JStr ''hidden''), (''expected_output'', JInt 5)]])])]"

definition sample_versions :: "json \<Rightarrow> db" where
  "sample_versions content = empty_db\<lparr>question_versions := [\<lparr>qv_id = 40, qv_question = 50,
     qv_version = ''1'', qv_title = ''t'',
     qv_problem_statement = ''p'', qv_expected_seniority = ''senior'', qv_difficulty = ''easy'',
     qv_conceptual_difficulty = 1, qv_implementation_difficulty = 1, qv_scale = 1, qv_ambiguity = 1,
     qv_prerequisite_depth = 1, qv_duration_minutes = 30, qv_state = Published,
     qv_structured_content = content, qv_source_revision = ''r'', qv_content_hash = ''h'',
     qv_updated_at = 0\<rparr>]\<rparr>"

definition sample_entry :: "string \<Rightarrow> string \<Rightarrow> int \<Rightarrow> jobj" where
  "sample_entry i v x = [(''id'', JStr i), (''name'', JStr i), (''visibility'', JStr v),
     (''expected_output'', JInt x), (''expected_columns'', JNull),
     (''comparison'', JObj [(''strategy'', JStr ''exact'')])]"

definition sample_expected :: "int \<Rightarrow> (string \<times> jobj) list" where
  "sample_expected hidden =
     [(''a'', sample_entry ''a'' ''public'' 3), (''b'', sample_entry ''b'' ''hidden'' hidden)]"

definition sample_projection :: "nat \<Rightarrow> string \<Rightarrow> projection" where
  "sample_projection hidden msg = \<lparr>tp_execution_status = Completed, tp_runtime_ms = 12, tp_exit_code = 0,
     tp_error_category = None, tp_public_results = [[(''test_id'', JStr ''a''), (''name'', JStr ''a''),
       (''passed'', JBool True), (''expected'', JInt 3), (''actual'', JInt 3), (''error_category'', JNull)]],
     tp_hidden_total = 1, tp_hidden_passed = hidden, tp_stdout = [], tp_stderr = [],
     tp_candidate_message = msg\<rparr>"

lemma sample_expected_eq:
  "load_expected_tests sample_runner_lib 40 (sample_versions sample_question) = Inr (sample_expected 5)"
  by code_simp

lemma sample_compared:
  "trusted_compare sample_runner_lib sample_result (sample_expected 5) =
     Inr (sample_projection 0 ''1 of 2 evaluated tests passed.'')"
  "trusted_compare sample_runner_lib sample_result (sample_expected 4) =
     Inr (sample_projection 1 ''All evaluated tests passed.'')"
  by code_simp+

theorem outcome_adds_up_witness:
  "tp_hidden_passed (sample_projection 0 ''1 of 2 evaluated tests passed.'') \<le> 1 \<and>
   total_tests (sample_projection 0 ''1 of 2 evaluated tests passed.'') = 2 \<and>
   unit_scores (evaluation_of [] (sample_projection 0 ''1 of 2 evaluated tests passed.''))"
  using outcome_adds_up [OF sample_parsed sample_expected_eq sample_compared(1), of "[]"]
  by (simp add: sample_projection_def sample_expected_def)


definition same_public :: "pylib \<Rightarrow> (string \<times> jobj) list \<Rightarrow> (string \<times> jobj) list \<Rightarrow> bool" where
  "same_public l E E' \<longleftrightarrow> list_all2 (\<lambda>(k, x) (k', x'). k' = k \<and> visibility_of l x' = visibility_of l x \<and>
     (visibility_of l x = ''public'' \<longrightarrow> x' = x)) E E'"

lemma same_public_map_of:
  assumes "same_public l E E'"
  shows "rel_option (\<lambda>x x'. visibility_of l x' = visibility_of l x \<and>
    (visibility_of l x = ''public'' \<longrightarrow> x' = x)) (map_of E k) (map_of E' k)"
  using assms unfolding same_public_def by (induction rule: list_all2_induct) auto

lemma same_public_hidden_count: "same_public l E E' \<Longrightarrow> hidden_count l E' = hidden_count l E"
  unfolding same_public_def hidden_count_def
  by (induction rule: list_all2_induct) auto

lemma same_public_entry:
  assumes "same_public l E E'"
  shows "is_public l E' t = is_public l E t" "is_public l E t \<Longrightarrow> shown_result l E' t = shown_result l E t"
  using same_public_map_of [OF assms, of "test_key l t"]
  by (auto simp: is_public_def entry_of_def shown_result_def passes_def elim: option.rel_cases)

text \<open>C12: A hidden test's expected answer does not reach the candidate. Replace the hidden entries of
  the expected tests by any others: of two accepted comparisons of the same runner result, the
  status, the public results, the totals and the streams agree; only the count of passed hidden
  tests, and the message that quotes it, can differ.\<close>

theorem hidden_answers_stay_hidden:
  assumes "same_public l E E'" "trusted_compare l s E = Inr p" "trusted_compare l s E' = Inr p'"
  shows "p' = p\<lparr>tp_hidden_passed := tp_hidden_passed p', tp_candidate_message := tp_candidate_message p'\<rparr>"
proof -
  note a = trusted_compare_InrD [OF assms(2)] and b = trusted_compare_InrD [OF assms(3)]
  have public: "tp_public_results p' = tp_public_results p"
    unfolding a(2) b(2) using same_public_entry [OF assms(1)] by (simp cong: map_cong filter_cong)
  have rest: "tp_execution_status p' = tp_execution_status p" "tp_hidden_total p' = tp_hidden_total p"
    using a(1,4) b(1,4) same_public_hidden_count [OF assms(1)] by simp_all
  show ?thesis by (subst b(8), subst a(8)) (simp add: public rest)
qed

theorem hidden_answers_stay_hidden_witness:
  "sample_projection 1 ''All evaluated tests passed.'' =
     (sample_projection 0 ''1 of 2 evaluated tests passed.'')
       \<lparr>tp_hidden_passed := 1, tp_candidate_message := ''All evaluated tests passed.''\<rparr>"
proof -
  have "same_public sample_runner_lib (sample_expected 5) (sample_expected 4)"
    unfolding same_public_def sample_expected_def by code_simp
  from hidden_answers_stay_hidden [OF this sample_compared] show ?thesis
    by (simp add: sample_projection_def)
qed

text \<open>The unordered strategies compare as multisets: for a list answer, \<open>unordered\<close> accepts exactly
  when both lists hold the same canonical JSON texts with the same multiplicities.\<close>

theorem unordered_is_multiset_equality:
  assumes "jget policy ''strategy'' = JStr ''unordered''"
  shows "compare_value l (JList xs) (JList ys) policy cols = Inr
    (image_mset (canonical_json l) (mset xs) = image_mset (canonical_json l) (mset ys))"
  using assms by (simp add: compare_value_def same_unordered_iff py_or_def py_str_def)

theorem unordered_is_multiset_equality_witness:
  "compare_value sample_lib (JList [JInt 1, JInt 2]) (JList [JInt 2, JInt 1])
     [(''strategy'', JStr ''unordered'')] JNull = Inr True"
  by (subst unordered_is_multiset_equality) (simp_all add: jget_def add_mset_commute)

section \<open>The stored outcome\<close>

text \<open>The first terminal outcome wins. After one has been stored, storing any other outcome of the
  same execution, however late and whatever was committed in between, reports the first and changes
  nothing.\<close>

theorem first_outcome_wins:
  assumes "exec_inv d" "is_terminal (tp_execution_status p)"
    and "persist_terminal_result e eid p d d = Inr (st, d1)" "exec_step\<^sup>*\<^sup>* d1 d2"
  shows "persist_terminal_result e' eid p' d2 d2 = Inr (st, d2)"
proof -
  obtain r where r: "request_of eid d1 = Some r" "rq_state r = pg_state st" "is_terminal st"
    using persist_terminal_result_state [OF assms(1-3)] .
  have inv1: "exec_inv d1" using persist_terminal_result_inv [OF assms(1,2,3)] .
  obtain r2 where "request_of eid d2 = Some r2" "rq_state r2 = rq_state r"
    using terminal_history [OF inv1 assms(4) r(1)] r(2,3) by auto
  then show ?thesis
    using persist_terminal_result_again [OF exec_steps_inv [OF assms(4) inv1]] r(2,3) by simp
qed

theorem first_outcome_wins_witness:
  "persist_terminal_result (sample_env 9000) 1 (timeout_projection (sample_package 1))
     (clear_cancelled 1 sample_completed) (clear_cancelled 1 sample_completed) =
   Inr (Failed, clear_cancelled 1 sample_completed)"
proof -
  obtain st where st: "persist_terminal_result (sample_env 4000) 1 (failure_projection ''c'' ''m'')
     sample_running sample_running = Inr (st, sample_completed)" using sample_completed_eq by blast
  obtain r where "request_of 1 sample_completed = Some r" "rq_state r = pg_state st"
    by (rule persist_terminal_result_state [OF sample_inv(3) _ st]) simp
  then have "st = Failed" using sample_rows(5) pg_state_inject [of st Failed] by auto
  moreover have "exec_step\<^sup>*\<^sup>* sample_completed (clear_cancelled 1 sample_completed)"
    using step_clear_cancelled by blast
  ultimately show ?thesis using first_outcome_wins [OF sample_inv(3) _ st] by simp
qed


text \<open>A submission is finalised once. Whatever projection arrives later for the same submission,
  from whichever package of it, the stored result, evaluation, session and event log stay as the
  first finalisation left them.\<close>

theorem finalize_submission_once:
  assumes "dp_submission_id pkg' = dp_submission_id pkg" "dp_execution_type pkg' = dp_execution_type pkg"
  shows "finalize_submission e' ast' pkg' p' (finalize_submission e ast pkg p d) =
    finalize_submission e ast pkg p d"
  using assms by (rule finalize_submission_again)

theorem finalize_submission_once_witness:
  "finalize_submission (sample_env 9000) (\<lambda>s. None) (sample_package 2) (timeout_projection (sample_package 2))
     (finalize_submission (sample_env 4000) (\<lambda>s. None) (sample_package 1) (failure_projection ''c'' ''m'') empty_db) =
   finalize_submission (sample_env 4000) (\<lambda>s. None) (sample_package 1) (failure_projection ''c'' ''m'') empty_db"
  by (rule finalize_submission_once) (simp_all add: sample_package_def)

section \<open>The queue and its dead letters\<close>

text \<open>A received message is not delivered again before its visibility timeout has passed, to any
  consumer, with any batch size: the local queue hands one message to one worker at a time.\<close>

theorem received_message_is_invisible:
  assumes "queue_ok q" "receive_messages now locked hs m v q = Inr (ms, q')" "msg \<in> set ms"
    and "now' < now + v * 10 ^ 6" "receive_messages now' locked' hs' m' v' q' = Inr (ms', q'')"
  shows "sm_message_id msg \<notin> sm_message_id ` set ms'"
  using assms(2-5,1) by (rule received_invisible)

definition sample_letters :: "queue_row list" where
  "sample_letters = [\<lparr>lq_id = 1, lq_body = ''b'', lq_visible_at = 0, lq_receipt_handle = None,
     lq_receive_count = 0, lq_created_at = 0, lq_updated_at = 0\<rparr>]"

theorem received_message_is_invisible_witness:
  "\<exists>ms q'. receive_messages 0 [] (\<lambda>u. u) 10 90 sample_letters = Inr (ms, q') \<and> length ms = 1 \<and>
     receive_messages 50 [] (\<lambda>u. u + 1) 10 90 q' = Inr ([], q')"
proof -
  obtain msg q' where r: "receive_messages 0 [] (\<lambda>u. u) 10 90 sample_letters = Inr ([msg], q')"
    by (simp add: receive_messages_def visible_rows_def sample_letters_def receive_row_def update_where_def
        message_of_def)
  obtain ms' q'' where again: "receive_messages 50 [] (\<lambda>u. u + 1) 10 90 q' = Inr (ms', q'')" "q'' = q'"
    "ms' \<noteq> [] \<Longrightarrow> sm_message_id msg \<in> sm_message_id ` set ms'"
    using r by (auto simp: receive_messages_def visible_rows_def sample_letters_def receive_row_def
        update_where_def message_of_def)
  have "queue_ok sample_letters" by (simp add: queue_ok_def sample_letters_def)
  from received_message_is_invisible [OF this r _ _ again(1)] again(3) have "ms' = []" by auto
  then show ?thesis using r again by auto
qed







text \<open>C14: A dead request is only classified for replay when a worker can still act on it: at that
  moment its execution exists in QUEUED, so a claim with a deadline in the future succeeds.\<close>

theorem replayed_request_is_claimable:
  assumes "exec_inv d" "load_state d (Requested ev) = Inr state"
    and "classify_event (Requested ev) state = Replay" "app_now e < deadline"
  shows "\<exists>c d'. claim_for_dispatch e (re_execution_id ev) worker deadline d = Inr (Some c, d')"
proof -
  obtain st where st: "state = Some st" "ds_status st = Queued"
    using assms(3) by (auto simp: classify_event_def split: option.splits if_splits)
  obtain r where r: "request_of (re_execution_id ev) d = Some r" "rq_state r = PG_QUEUED"
    using load_state_inv [OF assms(1) assms(2) [unfolded st(1)]] st(2) by auto
  then have "find (claim_guard (re_execution_id ev)) (requests d) = Some r"
    using find_guarded_request [OF assms(1), of "claim_guard (re_execution_id ev)" "re_execution_id ev" r]
      row_with_SomeD [OF r(1)] by (auto simp: claim_guard_def)
  then show ?thesis
    using assms(4) by (simp add: claim_for_dispatch_def validate_lease_deadline_def Let_def)
qed

theorem replayed_request_is_claimable_witness:
  "\<exists>c d'. claim_for_dispatch (sample_env 2000) 1 ''w1'' 60000 sample_queued = Inr (Some c, d')"
proof -
  obtain st where "load_state sample_queued (Requested sample_event) = Inr st"
    "classify_event (Requested sample_event) st = Replay"
    by (simp add: load_state_def sample_event_def classify_event_def sample_eval truthy_str_def)
  then show ?thesis
    using replayed_request_is_claimable [OF sample_inv(1), of sample_event st "sample_env 2000" 60000 "''w1''"]
    by (simp add: sample_event_def sample_env_def)
qed

text \<open>C15: What a creation writes to the outbox is read back by the worker as the request of that
  execution: where \<open>json.loads\<close> inverts \<open>json.dumps\<close> on the event and pydantic reads the
  texts the platform writes, publishing and receiving the new row is a round trip.\<close>

theorem requested_event_round_trip:
  assumes "create_queued e eid oid c d d = Inr (q, d')" "\<not> qe_duplicate q"
    and "''execution.requested:'' @ uuid_str eid \<notin> ob_dedupe_key ` set (outbox d)"
    and "1 \<le> length (cr_trace_id c)" "length (cr_trace_id c) \<le> 160"
    and "json_loads l (json_dumps (lib e) False False
           (execution_requested_event (lib e) eid (app_now e) (cr_trace_id c) 1)) =
         Some (execution_requested_event (lib e) eid (app_now e) (cr_trace_id c) 1)"
    and "pd_uuid pd (JStr (uuid_str eid)) = Some eid" "pd_int pd (JInt 1) = Some 1"
    and "pd_datetime pd (JStr (iso_utc (lib e) (app_now e))) = Some (app_now e)"
  shows "\<exists>row \<in> set (outbox d'). ob_id row = oid \<and> ob_published_at row = None \<and>
    parse_body l pd (json_dumps (lib e) False False (JObj (om_payload (message_of_row row)))) =
      Inr (Requested \<lparr>re_execution_id = eid, re_attempt = 1, re_requested_at = app_now e,
        re_trace_id = cr_trace_id c\<rparr>)"
proof -
  let ?event = "execution_requested_event (lib e) eid (app_now e) (cr_trace_id c) 1"
  from assms(1) obtain row where row: "row \<in> set (outbox d')" "ob_id row = oid" "ob_published_at row = None"
    "ob_payload row = ?event"
  proof (cases rule: create_queued_cases)
    case (reused r)
    then show ?thesis using assms(2) by (auto simp: queued_from_row_def res_bind_Inr_iff)
  next
    case (stored u)
    then show ?thesis
      using assms(3) by (intro that) (auto simp: store_queued_def insert_outbox_def append_event_def)
  qed
  have payload: "JObj (om_payload (message_of_row row)) = ?event"
    by (simp add: message_of_row_def row(4) execution_requested_event_def)
  have "parse_execution_queue_event pd ?event = Inr (Requested \<lparr>re_execution_id = eid, re_attempt = 1,
      re_requested_at = app_now e, re_trace_id = cr_trace_id c\<rparr>)"
    using assms(4,5,7-9)
    by (simp add: execution_requested_event_def parse_execution_queue_event_def validate_requested_def
        jget_def trace_field_def only_keys_def)
  then show ?thesis
    using row(1-3) assms(6) unfolding parse_body_def by (intro bexI [of _ row]) (simp_all add: payload)
qed

definition sample_pydantic :: pydantic where
  "sample_pydantic = \<lparr>pd_uuid = (\<lambda>v. if v = JStr (uuid_str 1) then Some 1 else None),
     pd_int = (\<lambda>v. as_int v), pd_datetime = (\<lambda>v. Some 1000)\<rparr>"

theorem requested_event_round_trip_witness:
  "\<exists>row \<in> set (outbox sample_queued). ob_id row = 2 \<and>
    parse_body (sample_lib\<lparr>json_loads := (\<lambda>s. Some (execution_requested_event sample_lib 1 1000 ''t'' 1))\<rparr>)
      sample_pydantic (json_dumps sample_lib False False (JObj (om_payload (message_of_row row)))) =
    Inr (Requested sample_event)"
proof -
  obtain q where q: "create_queued (sample_env 1000) 1 2 sample_request empty_db empty_db = Inr (q, sample_queued)"
    using sample_queued_eq by blast
  then have "\<not> qe_duplicate q" by (auto simp: sample_eval)
  from requested_event_round_trip [OF q this, of
      "sample_lib\<lparr>json_loads := (\<lambda>s. Some (execution_requested_event sample_lib 1 1000 ''t'' 1))\<rparr>" sample_pydantic]
  show ?thesis
    by (auto simp: sample_env_def sample_request_def sample_pydantic_def sample_event_def empty_db_def)
qed

end
