(* ===== verification/Practice_Guarantees.thy ===== *)
theory Practice_Guarantees imports Practice_Lifecycle Execution_Contracts begin

text \<open>
  What the practice sessions guarantee over every sequence of operations, with a small published
  question on which the theorems are applied: one public and one hidden test, two hints.
\<close>

section \<open>A published question and its session\<close>

definition sample_content :: json where
  "sample_content = JObj
     [(''question_type'', JStr ''python_coding''),
      (''mode_specification'', JObj
         [(''entrypoint'', JStr ''solve''),
          (''tests'', JList
             [JObj [(''id'', JStr ''a''), (''visibility'', JStr ''public''), (''input'', JInt 1),
                    (''expected_output'', JInt 2)],
              JObj [(''id'', JStr ''b''), (''visibility'', JStr ''hidden''), (''input'', JInt 2),
                    (''expected_output'', JInt 4)]])]),
      (''hints'', JList [JObj [(''reveal_level'', JInt 1), (''text'', JStr ''double'')],
         JObj [(''text'', JStr ''multiply by two'')]])]"

definition sample_question :: question_row where
  "sample_question = \<lparr>qs_id = 50, qs_external_id = ''PY-1'', qs_slug = ''twice'', qs_primary_track = 60,
     qs_current_published_version = Some 40, qs_archived_at = None, qs_updated_at = 0\<rparr>"

definition sample_version :: version_row where
  "sample_version = \<lparr>qv_id = 40, qv_question = 50, qv_version = ''1'', qv_title = ''Twice'',
     qv_problem_statement = ''p'', qv_expected_seniority = ''senior'', qv_difficulty = ''easy'',
     qv_conceptual_difficulty = 1, qv_implementation_difficulty = 1, qv_scale = 1, qv_ambiguity = 1,
     qv_prerequisite_depth = 1, qv_duration_minutes = 30, qv_state = Published, qv_structured_content = sample_content,
     qv_source_revision = ''r'', qv_content_hash = ''h'', qv_updated_at = 0\<rparr>"

definition catalog_db :: db where
  "catalog_db = empty_db\<lparr>questions := [sample_question], question_versions := [sample_version]\<rparr>"

definition sample_payload :: question_payload where
  "sample_payload = \<lparr>qp_question_id = 50, qp_slug = ''twice'', qp_question_version_id = 40,
     qp_title = ''Twice'', qp_publication_version = ''1'', qp_difficulty = ''easy'',
     qp_structured_content = sample_content\<rparr>"

abbreviation sample_session_row :: practice_session_row where
  "sample_session_row \<equiv> new_session_row (sample_env 100) 7 20 sample_payload Python313"

definition session_db :: db where
  "session_db = append_session_event 20 ''SESSION_STARTED''
     (JObj [(''question_slug'', JStr ''twice''), (''runtime'', JStr ''python3.13'')])
     (catalog_db\<lparr>practice_sessions := [sample_session_row]\<rparr>)"

named_theorems practice_eval

lemmas [practice_eval] = sample_question_def sample_version_def sample_env_def empty_db_def
  joined_question_def session_view_def own_session_def new_session_row_def parse_runtime_def
  sample_payload_def row_with_def

lemma catalog_tables [practice_eval]:
  "questions catalog_db = [sample_question]" "question_versions catalog_db = [sample_version]"
  "practice_sessions catalog_db = []" "session_events catalog_db = []" "requests catalog_db = []"
  "submissions catalog_db = []"
  by (simp_all add: catalog_db_def empty_db_def)

lemma session_tables [practice_eval]:
  "questions session_db = [sample_question]" "question_versions session_db = [sample_version]"
  "practice_sessions session_db = [sample_session_row]" "requests session_db = []"
  "submissions session_db = []"
  by (simp_all add: session_db_def practice_eval append_session_event_def)

lemma published_sample:
  assumes "questions d = [sample_question]" "question_versions d = [sample_version]"
  shows "published_question_payload ''twice'' d = Inr sample_payload"
  by (simp add: published_question_payload_def Let_def assms practice_eval)

lemma runtime_sample: "question_runtime (lib (sample_env t)) sample_payload = Inr Python313"
  by (simp add: question_runtime_def sample_payload_def sample_content_def question_mode_def jget_def
      py_or_def optional_object_dict_def)

lemma create_sample:
  "\<exists>v. create_practice_session (sample_env 100) 20 ''twice'' Python313 catalog_db = Inr (v, session_db)"
  using published_sample [of catalog_db] runtime_sample [of 100]
  by (simp add: create_practice_session_def create_session_def open_sessions_def append_practice_event_def
      get_session_def session_db_def practice_eval append_session_event_def)

lemma session_reachable: "practice_reachable session_db"
proof -
  have "practice_step empty_db catalog_db"
    by (rule practice_other) (simp_all add: catalog_tables empty_db_def)
  moreover have "practice_step catalog_db session_db"
    using create_sample practice_create by blast
  ultimately show ?thesis unfolding practice_reachable_def by (meson r_into_rtranclp rtranclp.rtrancl_into_rtrancl)
qed

section \<open>Consistency\<close>

text \<open>C16: In every reachable state a practice session has consistent columns (started; submission and
  completion times exactly in the submitted and completed states; submitted at most once; counts
  not negative), its events are numbered from one without a gap and begin with its start, and it
  has as many submissions as its counter says.
\<close>

theorem practice_sessions_stay_consistent:
  assumes "practice_reachable d" "session_of sid d = Some r"
  shows "session_columns r \<and> session_history_ok (events_of_session sid d) \<and>
    count_list (map sb_practice_session (submissions d)) (Some sid) = nat (ps_submission_count r)"
  using practice_inv_row [OF practice_reachable_inv [OF assms(1)] assms(2)] by (auto simp: session_ok_def)

theorem practice_sessions_stay_consistent_witness:
  "session_history_ok (events_of_session 20 session_db)"
  using practice_sessions_stay_consistent [OF session_reachable, of 20 sample_session_row]
  by (simp add: practice_eval)

section \<open>The life of a session\<close>

text \<open>The columns no operation changes once the session exists.\<close>

definition same_session :: "practice_session_row \<Rightarrow> practice_session_row \<Rightarrow> bool" where
  "same_session r r' \<longleftrightarrow> ps_id r' = ps_id r \<and> ps_candidate r' = ps_candidate r \<and>
     ps_organization r' = ps_organization r \<and> ps_question_version r' = ps_question_version r \<and>
     ps_runtime r' = ps_runtime r \<and> ps_created_at r' = ps_created_at r \<and>
     (ps_started_at r \<noteq> None \<longrightarrow> ps_started_at r' = ps_started_at r)"

definition frozen :: "practice_session_row \<Rightarrow> practice_session_row \<Rightarrow> bool" where
  "frozen r r' \<longleftrightarrow> ps_state r' = ps_state r \<and> ps_draft_code r' = ps_draft_code r \<and>
     ps_notes r' = ps_notes r \<and> ps_elapsed_seconds r' = ps_elapsed_seconds r \<and>
     ps_run_count r' = ps_run_count r \<and> ps_submission_count r' = ps_submission_count r \<and>
     ps_paused_at r' = ps_paused_at r \<and> ps_submitted_at r' = ps_submitted_at r \<and>
     ps_completed_at r' = ps_completed_at r \<and> ps_hint_count r \<le> ps_hint_count r'"

definition session_advance :: "practice_session_row \<Rightarrow> practice_session_row \<Rightarrow> bool" where
  "session_advance r r' \<longleftrightarrow> same_session r r' \<and> session_move\<^sup>*\<^sup>* (ps_state r) (ps_state r') \<and>
     (ps_state r = COMPLETED \<longrightarrow> frozen r r')"

lemma session_advance_refl: "session_advance r r"
  by (simp add: session_advance_def same_session_def frozen_def)

lemma session_advance_trans: "session_advance r s \<Longrightarrow> session_advance s t \<Longrightarrow> session_advance r t"
  unfolding session_advance_def same_session_def frozen_def by auto

lemma evolve_advance:
  assumes "session_evolve r r'"
  shows "session_advance r r'"
  using assms
proof (cases rule: session_evolve.cases)
  case (evolve_move t e)
  then show ?thesis
    by (auto simp: session_advance_def same_session_def practice_transition_row_def coalesce_def split: option.splits)
next
  case (evolve_complete e)
  then show ?thesis
    by (auto simp: session_advance_def same_session_def complete_session_def)
qed (auto simp: session_advance_def same_session_def frozen_def open_states_def patch_row_def
    hint_row_def run_count_row_def)

lemma submitted_advance: "ps_state r \<in> set open_states \<Longrightarrow> session_advance r (submitted_row e source r)"
  by (auto simp: session_advance_def same_session_def submitted_row_def submission_count_row_def
      practice_transition_row_def open_states_def)

lemma change_advance:
  assumes "session_change d d'" "session_of sid d = Some r"
  shows "\<exists>r'. session_of sid d' = Some r' \<and> session_advance r r'"
  using assms
proof (cases rule: session_change.cases)
  case (change_evolve k x x')
  have "ps_id x' = k"
    using evolve_advance [OF change_evolve(2)] row_with_SomeD [OF change_evolve(1)]
    by (simp add: session_advance_def same_session_def)
  then show ?thesis
    using change_evolve evolve_advance [OF change_evolve(2)] assms(2) session_advance_refl
    by (auto simp: row_with_put)
next
  case (change_submit k x e source)
  have "ps_id (submitted_row e source x) = k"
    using submitted_advance [OF change_submit(2)] row_with_SomeD [OF change_submit(1)]
    by (simp add: session_advance_def same_session_def)
  then show ?thesis
    using change_submit submitted_advance [OF change_submit(2)] assms(2) session_advance_refl
    by (auto simp: row_with_put)
qed (auto simp: row_with_append session_advance_refl)

lemma changes_advance:
  assumes "session_change\<^sup>*\<^sup>* d d'" "session_of sid d = Some r"
  shows "\<exists>r'. session_of sid d' = Some r' \<and> session_advance r r'"
  using assms
proof (induction rule: rtranclp_induct)
  case (step d1 d2)
  then obtain s where s: "session_of sid d1 = Some s" "session_advance r s" by blast
  then show ?case using change_advance [OF step(2) s(1)] session_advance_trans by blast
qed (simp add: session_advance_refl)

lemma steps_advance:
  assumes "practice_reachable d" "practice_step\<^sup>*\<^sup>* d d'" "session_of sid d = Some r"
  shows "\<exists>r'. session_of sid d' = Some r' \<and> session_advance r r'"
  using changes_advance practice_steps_changes [OF assms(2) practice_reachable_inv [OF assms(1)]] assms(3) .

section \<open>A submission of the sample session\<close>

definition sample_parse :: top_functions where "sample_parse = (\<lambda>s. None)"

definition sample_ids :: fresh_ids where
  "sample_ids = \<lparr>fi_execution = 1, fi_outbox = 2, fi_submission = 30\<rparr>"

definition sample_rr :: run_request where
  "sample_rr = \<lparr>rr_session = 20, rr_source_code = ''s'', rr_key = ''key-0001'', rr_slug = ''twice'',
     rr_correlation = ''t''\<rparr>"

definition submitted_db :: db where
  "submitted_db = (case queue_submit (sample_env 200) sample_parse sample_ids sample_rr session_db session_db of
     Inr (a, d) \<Rightarrow> d | Inl x \<Rightarrow> session_db)"

definition run_db :: db where
  "run_db = (case queue_run (sample_env 150) sample_parse sample_ids sample_rr session_db session_db of
     Inr (a, d) \<Rightarrow> d | Inl x \<Rightarrow> session_db)"

lemma session_question_sample:
  assumes "questions d = [sample_question]" "question_versions d = [sample_version]"
    "practice_sessions d = [r]" "ps_id r = 20" "ps_candidate r = 7" "ps_question_version r = Some 40"
    "ps_runtime r = Some ''python3.13''" "ps_state r \<notin> {COMPLETED, ABANDONED}"
  shows "session_question (sample_env t) 20 ''twice'' d = Inr (sample_payload, Python313)"
  using assms published_sample [of d] runtime_sample [of t]
  by (simp add: session_question_def practice_eval)

lemma config_sample:
  "\<exists>payload. runtime_execution_config (lib (sample_env t)) sample_parse sample_payload Python313 b =
     Inr (''python'', ''python-small'', payload)"
  by (simp add: runtime_execution_config_def entrypoint_def question_mode_def sample_payload_def
      sample_content_def jget_def py_or_def optional_object_dict_def is_identifier_def
      identifier_start_def invocation_mode_def invocation_modes_def candidate_tests_def
      question_tests_def objects_of_def Let_def is_public_test_def List.map_filter_def List.enumerate_eq_zip)

lemma limits_sample: "\<exists>limits. limits_of ''python-small'' = Inr limits"
  by (simp add: limits_of_def sandbox_profile_named_def sandbox_profiles_def)

lemma queue_sample_general:
  assumes "enforce_backpressure (sample_env t) typ seen = Inr ()" "find_by_idempotency (sample_env t) key d = None"
    "fi_execution ids \<notin> rq_id ` set (requests d)"
  shows "\<exists>a d'. queue_execution (sample_env t) sample_parse ids typ rr sample_payload Python313 key sb seen d = Inr (a, d')"
proof -
  obtain payload where "runtime_execution_config (lib (sample_env t)) sample_parse sample_payload Python313
      (typ = Run) = Inr (''python'', ''python-small'', payload)"
    using config_sample by blast
  moreover obtain limits where "limits_of ''python-small'' = Inr limits" using limits_sample by blast
  moreover have "user_id (sample_env t) = Some 7" by (simp add: sample_env_def)
  ultimately show ?thesis
    using assms
    by (simp add: queue_execution_def create_queued_def Let_def queued_request_def queued_from_new_row)
qed

lemma queue_sample:
  assumes "requests d = []" "requests seen = []"
  shows "\<exists>a d'. queue_execution (sample_env t) sample_parse sample_ids typ sample_rr sample_payload
     Python313 key sb seen d = Inr (a, d')"
  using assms
  by (intro queue_sample_general; cases "typ")
    (simp_all add: enforce_backpressure_def active_of_def maximum_active_def find_by_idempotency_def
      max_active_runs_per_candidate_def max_active_submits_per_candidate_def split: option.split)

lemmas [practice_eval] = sample_ids_def sample_rr_def open_states_def append_practice_event_def
  get_session_def transition_session_def practice_transition_row_def res_bind_def update_where_def
  coalesce_def

lemma record_submission_sample:
  assumes "questions d = [sample_question]" "question_versions d = [sample_version]"
    "practice_sessions d = [sample_session_row]"
  shows "\<exists>d'. record_submission (sample_env 200) sample_rr Python313 30 a d = Inr (a, d') \<and>
    practice_sessions d' = [submitted_row (sample_env 200) ''s'' sample_session_row] \<and>
    submissions d' = submissions d \<and> requests d' = requests d \<and> questions d' = [sample_question] \<and> question_versions d' = [sample_version]"
  using assms
  by (simp add: record_submission_def practice_eval submitted_row_def submission_count_row_def
      append_session_event_def)

lemma record_run_sample:
  assumes "questions d = [sample_question]" "question_versions d = [sample_version]"
    "practice_sessions d = [sample_session_row]"
  shows "\<exists>d'. record_run (sample_env 150) sample_rr Python313 a d = Inr (a, d') \<and>
    practice_sessions d' = [run_count_row (sample_env 150) ''s'' sample_session_row]"
  using assms by (simp add: record_run_def practice_eval run_count_row_def append_session_event_def)

lemma session_sample: "session_question (sample_env t) (rr_session sample_rr) (rr_slug sample_rr) session_db =
    Inr (sample_payload, Python313)"
  using session_question_sample [of session_db sample_session_row t]
  by (simp add: session_tables sample_rr_def new_session_row_def sample_env_def sample_payload_def)

lemma submit_sample:
  "\<exists>a. queue_submit (sample_env 200) sample_parse sample_ids sample_rr session_db session_db = Inr (a, submitted_db) \<and>
     ea_duplicate a = False \<and>
     practice_sessions submitted_db = [submitted_row (sample_env 200) ''s'' sample_session_row] \<and>
     submissions submitted_db = [new_submission_row (sample_env 200) 7 30 sample_rr sample_payload Python313] \<and>
     (\<exists>c. requests submitted_db = [new_request_row (sample_env 200) 7 1 c] \<and>
        cr_idempotency_key c = submit_key sample_rr \<and> cr_execution_type c = Submit) \<and>
     questions submitted_db = [sample_question] \<and> question_versions submitted_db = [sample_version]"
proof -
  let ?e = "sample_env 200"
  let ?d1 = "session_db\<lparr>submissions := [new_submission_row ?e 7 30 sample_rr sample_payload Python313]\<rparr>"
  have none: "find_by_idempotency ?e (submit_key sample_rr) session_db = None"
    "find_by_idempotency ?e (submit_key sample_rr) ?d1 = None"
    by (simp_all add: find_by_idempotency_def session_tables sample_env_def)
  have "requests ?d1 = []" by (simp add: session_tables)
  then obtain a d2 where q: "queue_execution ?e sample_parse sample_ids Submit sample_rr sample_payload
      Python313 (submit_key sample_rr) (Some 30) session_db ?d1 = Inr (a, d2)"
    using queue_sample session_tables(4) by blast
  note same = queue_execution_tables [OF q none(2)]
  obtain d' where r: "record_submission ?e sample_rr Python313 30 a d2 = Inr (a, d')"
    "practice_sessions d' = [submitted_row ?e ''s'' sample_session_row]"
    "questions d' = [sample_question]" "question_versions d' = [sample_version]"
    "submissions d' = submissions d2" "requests d' = requests d2"
    using record_submission_sample [of d2 a] same by (auto simp: session_tables)
  have ins: "insert_submission ?e 30 sample_rr sample_payload Python313 session_db = Inr ?d1"
    by (simp add: insert_submission_def session_tables sample_env_def)
  have bp: "enforce_backpressure ?e Submit session_db = Inr ()"
    by (simp add: enforce_backpressure_def active_of_def maximum_active_def session_tables
        max_active_submits_per_candidate_def)
  have ids: "fi_submission sample_ids = 30" by (simp add: sample_ids_def)
  have new: "existing_execution ?e (submit_key sample_rr) h session_db = Inr None" for h
    using none(1) by simp
  have "queue_submit ?e sample_parse sample_ids sample_rr session_db session_db = Inr (a, d')"
    unfolding queue_submit_def queue_route_Inr queue_submit_tx_def
    by (simp only: session_sample res_bind_simps prod.case new option.case bp ids ins q r(1))
  moreover have "ea_duplicate a = False" using queue_execution_accepted [OF q none(2)] by simp
  moreover have "\<exists>c. requests d' = [new_request_row ?e 7 1 c] \<and> cr_idempotency_key c = submit_key sample_rr \<and>
      cr_execution_type c = Submit"
  proof -
    have e: "user_id ?e = Some 7" "fi_execution sample_ids = 1" by (simp_all add: sample_env_def sample_ids_def)
    show ?thesis
      by (rule queue_execution_new [OF q none(2)]) (auto simp: e r(6) session_tables queued_request_def)
  qed
  ultimately show ?thesis using r(2-5) same(3) by (simp add: submitted_db_def)
qed

lemma submitted_tables [practice_eval]:
  "practice_sessions submitted_db = [submitted_row (sample_env 200) ''s'' sample_session_row]"
  "questions submitted_db = [sample_question]" "question_versions submitted_db = [sample_version]"
  "submissions submitted_db = [new_submission_row (sample_env 200) 7 30 sample_rr sample_payload Python313]"
  using submit_sample by blast+

lemma submitted_step: "practice_step session_db submitted_db"
  using submit_sample practice_submit by blast

lemma submitted_reachable: "practice_reachable submitted_db"
  using session_reachable submitted_step unfolding practice_reachable_def
  by (rule rtranclp.rtrancl_into_rtrancl)

definition done_db :: db where
  "done_db = (case complete_practice_session (sample_env 300) 20 submitted_db submitted_db of
     Inr (v, d) \<Rightarrow> d | Inl x \<Rightarrow> submitted_db)"

lemma complete_sample:
  "\<exists>v. complete_practice_session (sample_env 300) 20 submitted_db submitted_db = Inr (v, done_db) \<and>
     practice_sessions done_db = [practice_transition_row (sample_env 300) COMPLETED
       (submitted_row (sample_env 200) ''s'' sample_session_row)]"
  by (simp add: done_db_def complete_practice_session_def session_route_def practice_eval
      submitted_row_def submission_count_row_def append_session_event_def)

lemma done_step: "practice_step submitted_db done_db"
  using complete_sample practice_complete by blast

lemma done_reachable: "practice_reachable done_db"
  using submitted_reachable done_step unfolding practice_reachable_def
  by (rule rtranclp.rtrancl_into_rtrancl)

definition hinted_db :: db where
  "hinted_db = (case reveal_practice_hint (sample_env 400) 20 done_db of
     Inr (h, d) \<Rightarrow> d | Inl x \<Rightarrow> done_db)"

lemma done_tables [practice_eval]:
  "practice_sessions done_db = [practice_transition_row (sample_env 300) COMPLETED
     (submitted_row (sample_env 200) ''s'' sample_session_row)]"
  "questions done_db = [sample_question]" "question_versions done_db = [sample_version]"
  using complete_sample by (auto simp: done_db_def complete_practice_session_def session_route_def
      practice_eval submitted_row_def submission_count_row_def append_session_event_def)

lemma hint_sample:
  "\<exists>h. reveal_practice_hint (sample_env 400) 20 done_db = Inr (h, hinted_db) \<and>
     ph_text h = ''double'' \<and> session_of 20 hinted_db = Some (hint_row (sample_env 400) 1
       (practice_transition_row (sample_env 300) COMPLETED
         (submitted_row (sample_env 200) ''s'' sample_session_row)))"
  using published_sample [of done_db]
  by (simp add: hinted_db_def reveal_practice_hint_def session_route_def next_hint_def Let_def practice_eval
      submitted_row_def submission_count_row_def append_session_event_def question_hints_def
      sample_content_def objects_of_def List.map_filter_def jget_def jget_default_def py_int_def hint_row_def)

lemma hint_step: "practice_step done_db hinted_db"
  using hint_sample practice_hint by blast

text \<open>C17: The operations refine the state machine of a session: whatever sequence of operations
  runs, the session keeps its owner, question, runtime and start time, and its state moves only
  along the edges of \<open>session_move\<close>.
\<close>

theorem session_follows_machine:
  assumes "practice_reachable d" "practice_step\<^sup>*\<^sup>* d d'" "session_of sid d = Some r"
  shows "\<exists>r'. session_of sid d' = Some r' \<and> same_session r r' \<and> session_move\<^sup>*\<^sup>* (ps_state r) (ps_state r')"
  using steps_advance [OF assms] by (auto simp: session_advance_def)

theorem session_follows_machine_witness:
  "\<exists>r'. session_of 20 done_db = Some r' \<and> session_move\<^sup>*\<^sup>* IN_PROGRESS (ps_state r')"
proof -
  have "practice_step\<^sup>*\<^sup>* session_db done_db"
    using submitted_step done_step by (meson r_into_rtranclp rtranclp.rtrancl_into_rtrancl)
  moreover have "session_of 20 session_db = Some sample_session_row"
    by (simp add: practice_eval)
  ultimately show ?thesis
    using session_follows_machine [OF session_reachable] by (fastforce simp: new_session_row_def)
qed

text \<open>C18: A completed session is frozen: no later operation changes its state, draft, notes, times
  or counters; only the hint counter can still grow (and the activity times with it).
\<close>

theorem completed_session_is_frozen:
  assumes "practice_reachable d" "practice_step\<^sup>*\<^sup>* d d'" "session_of sid d = Some r" "ps_state r = COMPLETED"
  shows "\<exists>r'. session_of sid d' = Some r' \<and> same_session r r' \<and> frozen r r'"
  using steps_advance [OF assms(1-3)] assms(4) by (auto simp: session_advance_def)

theorem completed_session_is_frozen_witness:
  "\<exists>r r'. session_of 20 done_db = Some r \<and> session_of 20 hinted_db = Some r' \<and> frozen r r' \<and>
     ps_hint_count r < ps_hint_count r'"
proof -
  let ?r = "practice_transition_row (sample_env 300) COMPLETED
    (submitted_row (sample_env 200) ''s'' sample_session_row)"
  have r: "session_of 20 done_db = Some ?r" "ps_state ?r = COMPLETED"
    by (simp_all add: practice_eval submitted_row_def submission_count_row_def)
  obtain r' where r': "session_of 20 hinted_db = Some r'" "frozen ?r r'"
    using completed_session_is_frozen [OF done_reachable r_into_rtranclp [of practice_step, OF hint_step] r] by blast
  have "ps_hint_count ?r < ps_hint_count r'"
    using hint_sample r'(1) by (auto simp: hint_row_def practice_transition_row_def submitted_row_def
        submission_count_row_def new_session_row_def)
  then show ?thesis using r(1) r' by blast
qed

section \<open>Opening a session\<close>

lemma own_session_cong: "user_id e' = user_id e \<Longrightarrow> own_session e' sid = own_session e sid"
  by (simp add: own_session_def fun_eq_iff)

lemma get_session_cong: "user_id e' = user_id e \<Longrightarrow> get_session e' sid d = get_session e sid d"
  unfolding get_session_def by (drule own_session_cong [where sid = sid]) simp

lemma open_sessions_cong: "user_id e' = user_id e \<Longrightarrow> open_sessions e' q runtime d = open_sessions e q runtime d"
  by (simp add: open_sessions_def)

lemma published_cong:
  "questions d' = questions d \<Longrightarrow> question_versions d' = question_versions d \<Longrightarrow>
     published_question_payload slug d' = published_question_payload slug d"
  by (simp only: published_question_payload_def)

lemma open_sessions_new:
  assumes "open_sessions e (qp_question_version_id question) runtime d = []" "user_id e = Some u"
    "practice_sessions d' = practice_sessions d @ [new_session_row e u sid question runtime]"
  shows "open_sessions e (qp_question_version_id question) runtime d' = [new_session_row e u sid question runtime]"
proof -
  have "filter (\<lambda>r. Some (ps_candidate r) = user_id e \<and> ps_question_version r = Some (qp_question_version_id question) \<and>
      ps_runtime r = Some (runtime_value runtime) \<and> ps_state r \<in> set open_states) (practice_sessions d) = []"
    using arg_cong [OF assms(1), of length] unfolding open_sessions_def
    by (simp only: length_sort list.size length_0_conv)
  then show ?thesis
    using assms(2) unfolding open_sessions_def assms(3) filter_append
    by (simp add: new_session_row_def open_states_def)
qed

lemma create_session_cases:
  assumes "create_session e sid slug runtime d = Inr (v, d')"
  obtains question where "published_question_payload slug d = Inr question"
    "question_runtime (lib e) question = Inr runtime"
    "open_sessions e (qp_question_version_id question) runtime d \<noteq> [] \<and> d' = d \<and>
       get_session e (ps_id (hd (open_sessions e (qp_question_version_id question) runtime d))) d = Inr v \<or>
     open_sessions e (qp_question_version_id question) runtime d = [] \<and> get_session e sid d' = Inr v \<and>
       (\<exists>u p. user_id e = Some u \<and> d' = append_session_event sid ''SESSION_STARTED'' p
         (d\<lparr>practice_sessions := practice_sessions d @ [new_session_row e u sid question runtime]\<rparr>))"
proof -
  obtain question where q: "published_question_payload slug d = Inr question"
    "question_runtime (lib e) question = Inr runtime"
    using assms by (auto simp: create_session_def res_bind_Inr_iff split: if_splits)
  show thesis
  proof (cases "open_sessions e (qp_question_version_id question) runtime d")
    case Nil
    have "\<exists>u p. user_id e = Some u \<and> get_session e sid d' = Inr v \<and>
        d' = append_session_event sid ''SESSION_STARTED'' p
         (d\<lparr>practice_sessions := practice_sessions d @ [new_session_row e u sid question runtime]\<rparr>)"
      using assms q Nil append_practice_event_Inr
      by (fastforce simp: create_session_def res_bind_Inr_iff Let_def split: option.splits if_splits)
    then show thesis using that [OF q] Nil by blast
  next
    case (Cons x xs)
    then have "d' = d \<and> get_session e (ps_id x) d = Inr v"
      using assms q by (auto simp: create_session_def res_bind_Inr_iff)
    then show thesis using that [OF q] Cons by simp
  qed
qed

text \<open>Opening a session is idempotent: repeating the request in the state it left, under any
  clock and with any other fresh identifier, returns the same session and changes nothing.
\<close>

theorem create_session_is_idempotent:
  assumes "create_practice_session e sid slug runtime d = Inr (v, d')"
    "user_id e' = user_id e" "lib e' = lib e"
  shows "create_practice_session e' sid' slug runtime d' = Inr (v, d')"
proof -
  have c: "create_session e sid slug runtime d = Inr (v, d')"
    using assms(1) by (simp add: create_practice_session_def)
  obtain question where q: "published_question_payload slug d = Inr question"
      "question_runtime (lib e) question = Inr runtime"
    and r: "open_sessions e (qp_question_version_id question) runtime d \<noteq> [] \<and> d' = d \<and>
       get_session e (ps_id (hd (open_sessions e (qp_question_version_id question) runtime d))) d = Inr v \<or>
     open_sessions e (qp_question_version_id question) runtime d = [] \<and> get_session e sid d' = Inr v \<and>
       (\<exists>u p. user_id e = Some u \<and> d' = append_session_event sid ''SESSION_STARTED'' p
         (d\<lparr>practice_sessions := practice_sessions d @ [new_session_row e u sid question runtime]\<rparr>))"
    using create_session_cases [OF c] .
  have same: "published_question_payload slug d' = Inr question"
    using r unfolding q(1) [symmetric] by (intro published_cong) auto
  have "\<exists>x xs. open_sessions e (qp_question_version_id question) runtime d' = x # xs \<and>
      get_session e (ps_id x) d' = Inr v"
    using r
  proof
    assume "open_sessions e (qp_question_version_id question) runtime d \<noteq> [] \<and> d' = d \<and>
       get_session e (ps_id (hd (open_sessions e (qp_question_version_id question) runtime d))) d = Inr v"
    then show ?thesis by (metis list.collapse)
  next
    assume "open_sessions e (qp_question_version_id question) runtime d = [] \<and> get_session e sid d' = Inr v \<and>
       (\<exists>u p. user_id e = Some u \<and> d' = append_session_event sid ''SESSION_STARTED'' p
         (d\<lparr>practice_sessions := practice_sessions d @ [new_session_row e u sid question runtime]\<rparr>))"
    then show ?thesis using open_sessions_new [of e question runtime d _ d' sid]
      by (auto simp: new_session_row_def)
  qed
  then show ?thesis
    using same q(2) assms(3) open_sessions_cong [OF assms(2)] get_session_cong [OF assms(2)]
    by (auto simp: create_practice_session_def create_session_def)
qed

theorem create_session_is_idempotent_witness:
  "\<exists>v. create_practice_session (sample_env 100) 20 ''twice'' Python313 catalog_db = Inr (v, session_db) \<and>
     create_practice_session (sample_env 500) 21 ''twice'' Python313 session_db = Inr (v, session_db)"
  using create_sample create_session_is_idempotent [where e' = "sample_env 500" and sid' = 21]
  by (fastforce simp: sample_env_def)

section \<open>Reads and writes that are not locked\<close>

lemma get_session_parts:
  assumes "get_session e sid d = Inr pv"
  obtains r v q where "find (own_session e sid) (practice_sessions d) = Some r"
    "joined_question d r = Some (v, q)" "session_view r v q = Inr pv"
  using assms by (auto simp: get_session_def split: option.splits)

text \<open>A session that could be read can be read after a change of its other columns.\<close>

lemma get_session_put:
  assumes "session_keys d" "session_of sid d = Some r" "own_session e sid r'"
    "joined_question d r = Some (v, q)" "session_view r' v q = Inr w"
    "ps_question_version r' = ps_question_version r"
    "practice_sessions d1 = put_session sid r' (practice_sessions d)"
    "questions d1 = questions d" "question_versions d1 = question_versions d"
  shows "get_session e sid d1 = Inr w"
proof -
  have id: "ps_id r' = sid" using assms(3) own_session_key by blast
  have "find (own_session e sid) (practice_sessions d1) = (case session_of sid d1 of None \<Rightarrow> None
      | Some r \<Rightarrow> if own_session e sid r then Some r else None)"
    using assms(1) own_session_key by (intro find_guard) (simp_all add: assms(7) keys_put [OF id])
  moreover have "session_of sid d1 = Some r'" by (simp add: assms(2,7) row_with_put [OF id])
  moreover have "joined_question d1 r' = Some (v, q)"
    using assms(4) by (simp only: joined_question_def assms(6,8,9))
  ultimately show ?thesis using assms(3,5) by (simp add: get_session_def)
qed

lemma view_after_transition:
  assumes "session_view r v q = Inr pv"
  shows "\<exists>w. session_view (practice_transition_row e t r) v q = Inr w \<and> pv_state w = t"
proof -
  obtain x s rt where parts: "ps_runtime r = Some x" "ps_started_at r = Some s" "parse_runtime x = Some rt"
    "\<not> (ps_elapsed_seconds r < 0 \<or> ps_hint_count r < 0 \<or> ps_run_count r < 0 \<or> ps_submission_count r < 0)"
    using assms by (auto simp: session_view_def split: option.splits if_splits)
  then show ?thesis by (simp add: session_view_def practice_transition_row_def)
qed

lemma transition_succeeds:
  assumes "get_session e sid seen = Inr v0" "pv_state v0 \<in> set allowed"
    "session_keys d" "get_session e sid d = Inr v1"
  obtains v r p where "session_of sid d = Some r" "pv_state v = t"
    "transition_session e sid t allowed seen d = Inr (v, append_session_event sid (''SESSION_'' @ practice_text t) p
       (d\<lparr>practice_sessions := put_session sid (practice_transition_row e t r) (practice_sessions d)\<rparr>))"
proof -
  obtain r v q where f: "find (own_session e sid) (practice_sessions d) = Some r"
    and j: "joined_question d r = Some (v, q)" and view: "session_view r v q = Inr v1"
    using get_session_parts [OF assms(4)] .
  note r = find_own [OF assms(3) f]
  let ?r' = "practice_transition_row e t r"
  obtain w where w: "session_view ?r' v q = Inr w" "pv_state w = t"
    using view_after_transition [OF view] by blast
  let ?d1 = "d\<lparr>practice_sessions := put_session sid ?r' (practice_sessions d)\<rparr>"
  have own: "own_session e sid ?r'" using r by (simp add: own_session_def practice_transition_row_def)
  have ver: "ps_question_version ?r' = ps_question_version r" by (simp add: practice_transition_row_def)
  have get: "get_session e sid ?d1 = Inr w" "get_session e sid (append_session_event sid ev p ?d1) = Inr w" for ev p
    using get_session_put [OF assms(3) conjunct1 [OF r] own j w(1) ver] by simp_all
  have "transition_session e sid t allowed seen d = Inr (w, append_session_event sid
      (''SESSION_'' @ practice_text t)
      (JObj [(''from'', JStr (practice_text (pv_state v0))), (''to'', JStr (practice_text t))]) ?d1)"
    using assms(1,2) get touch_own [OF assms(3) conjunct1 [OF r] conjunct2 [OF r]]
    by (simp add: transition_session_def append_practice_event_def)
  then show thesis using that r w(2) by blast
qed

text \<open>C19: The read and the update of a transition are not locked: a pause that read the session
  before a concurrent submission committed still succeeds, takes the submitted session back to
  \<open>PAUSED\<close>, and the evaluation of that submission then no longer completes the session.
\<close>

theorem stale_pause_loses_submission:
  assumes "get_session e sid seen = Inr v0" "pv_state v0 = IN_PROGRESS" "practice_reachable d"
    "get_session e sid d = Inr v1" "pv_state v1 = SUBMITTED" "dp_practice_session_id pkg = sid"
  shows "\<exists>v d' r. pause_practice_session e sid seen d = Inr (v, d') \<and> pv_state v = PAUSED \<and>
    session_of sid (finalize_submission e' ast pkg p d') = Some r \<and> ps_state r = PAUSED \<and>
    ps_completed_at r = None"
proof -
  note inv = practice_reachable_inv [OF assms(3)]
  note keys = practice_invD(1) [OF inv]
  have allowed: "pv_state v0 \<in> set [IN_PROGRESS]" using assms(2) by simp
  obtain v r pl where r: "session_of sid d = Some r" "pv_state v = PAUSED"
    and t: "transition_session e sid PAUSED [IN_PROGRESS] seen d = Inr (v, append_session_event sid
       (''SESSION_'' @ practice_text PAUSED) pl
       (d\<lparr>practice_sessions := put_session sid (practice_transition_row e PAUSED r) (practice_sessions d)\<rparr>))"
    using transition_succeeds [OF assms(1) allowed keys assms(4)] .
  let ?r' = "practice_transition_row e PAUSED r"
  let ?d' = "append_session_event sid (''SESSION_'' @ practice_text PAUSED) pl
    (d\<lparr>practice_sessions := put_session sid ?r' (practice_sessions d)\<rparr>)"
  have id: "ps_id ?r' = sid" using row_with_SomeD [OF r(1)] by (simp add: practice_transition_row_def)
  have row: "session_of sid ?d' = Some ?r'" using r(1) by (simp add: row_with_put [OF id])
  have "session_of sid (finalize_submission e' ast pkg p ?d') = Some ?r'"
    using row by (auto simp: finalize_submission_def Let_def row_with_update_where complete_session_def
        completable_def assms(6) practice_transition_row_def split: option.splits)
  moreover have "ps_completed_at ?r' = None"
  proof -
    obtain r0 where "session_of sid d = Some r0" "pv_state v1 = ps_state r0"
      using get_session_row [OF assms(4) keys] .
    then show ?thesis using practice_inv_row [OF inv r(1)] assms(5) r(1)
      by (simp add: session_ok_def session_columns_def practice_transition_row_def)
  qed
  moreover have "pause_practice_session e sid seen d = Inr (v, ?d')"
    unfolding pause_practice_session_def session_route_Inr by (rule t)
  moreover have "ps_state ?r' = PAUSED" by (simp add: practice_transition_row_def)
  ultimately show ?thesis using r(2) by blast
qed

definition sample_evaluated :: dispatch_package where
  "sample_evaluated = \<lparr>dp_execution_id = 1, dp_organization_id = None, dp_candidate_id = 7,
     dp_practice_session_id = 20, dp_submission_id = Some 30, dp_question_version_id = 40,
     dp_execution_type = ''SUBMIT'', dp_runtime = ''python3.13'', dp_language = ''python'',
     dp_source_code = ''s'', dp_input_payload = [], dp_limits = [], dp_trace_id = ''t'',
     dp_attempt_count = 1\<rparr>"

theorem stale_pause_loses_submission_witness:
  "\<exists>v d' r. pause_practice_session (sample_env 250) 20 session_db submitted_db = Inr (v, d') \<and>
     session_of 20 (finalize_submission (sample_env 300) (\<lambda>s. None) sample_evaluated
       (failure_projection ''c'' ''m'') d') = Some r \<and> ps_state r = PAUSED"
proof -
  obtain v0 where seen: "get_session (sample_env 250) 20 session_db = Inr v0" "pv_state v0 = IN_PROGRESS"
    by (simp add: practice_eval)
  obtain v1 where now: "get_session (sample_env 250) 20 submitted_db = Inr v1" "pv_state v1 = SUBMITTED"
    by (simp add: practice_eval submitted_row_def submission_count_row_def)
  have "dp_practice_session_id sample_evaluated = 20" by (simp add: sample_evaluated_def)
  then show ?thesis
    using stale_pause_loses_submission [OF seen submitted_reachable now, of sample_evaluated] by blast
qed

section \<open>Hints\<close>

text \<open>Hints come in order: the candidate's next hint is the one at the position the session's
  counter gives among the hints of the version published now, the counter grows by one, and the
  reveal is logged; with the counter at the number of hints the request is refused.
\<close>

theorem hints_come_in_order:
  assumes "practice_reachable d" "get_session e sid d = Inr session"
    "published_question_payload (pv_question_slug session) d = Inr question"
  shows "if pv_hint_count session < int (length (question_hints question))
    then (let hint = question_hints question ! nat (pv_hint_count session) in
      case py_int (jget_default hint ''reveal_level'' (JInt (pv_hint_count session + 1))) of
        Inl x \<Rightarrow> next_hint e sid d = Inl x
      | Inr level \<Rightarrow> (if level < 1 then isl (next_hint e sid d)
          else (\<exists>h d' r. next_hint e sid d = Inr (h, d') \<and> ph_reveal_level h = level \<and>
            ph_text h = py_str (lib e) (jget_default hint ''text'' (JStr [])) \<and>
            ph_hint_count h = pv_hint_count session + 1 \<and>
            session_of sid d' = Some r \<and> ps_hint_count r = pv_hint_count session + 1 \<and>
            session_events d' = session_events (append_session_event sid ''HINT_REVEALED''
              (JObj [(''reveal_level'', JInt level)]) d))))
    else reveal_practice_hint e sid d = Inl (Exn (HttpErr 409) ''No additional hints are available.'')"
proof (cases "pv_hint_count session < int (length (question_hints question))")
  case False
  then show ?thesis
    using assms(2,3) by (simp add: reveal_practice_hint_def next_hint_def session_route_def session_error_def)
next
  case True
  note keys = practice_invD(1) [OF practice_reachable_inv [OF assms(1)]]
  obtain r v q where f: "find (own_session e sid) (practice_sessions d) = Some r"
    and j: "joined_question d r = Some (v, q)" and view: "session_view r v q = Inr session"
    using get_session_parts [OF assms(2)] .
  note r = find_own [OF keys f]
  let ?n = "pv_hint_count session + 1"
  let ?r' = "hint_row e ?n r"
  let ?d1 = "d\<lparr>practice_sessions := put_session sid ?r' (practice_sessions d)\<rparr>"
  have own: "own_session e sid ?r'" using r by (simp add: own_session_def hint_row_def)
  have id: "ps_id ?r' = sid" by (rule own_session_key [OF own])
  have n: "0 \<le> pv_hint_count session" using session_view_Inr [OF view] by simp
  obtain w where w: "session_view ?r' v q = Inr w"
    using view n by (auto simp: session_view_def hint_row_def split: option.splits if_splits)
  have "get_session e sid ?d1 = Inr w"
    by (rule get_session_put [OF keys conjunct1 [OF r] own j w]) (simp_all add: hint_row_def)
  then have app: "append_practice_event e sid t p ?d1 = Inr (append_session_event sid t p ?d1)" for t p
    by (simp add: append_practice_event_def)
  have row: "session_of sid (append_session_event sid t p ?d1) = Some ?r'" for t p
    using r by (simp add: row_with_put [OF id])
  show ?thesis
    using True n assms(2,3) app row touch_own [OF keys conjunct1 [OF r] conjunct2 [OF r]]
    by (auto simp: next_hint_def Let_def hint_row_def append_session_event_def split: sum.split)
qed

theorem hints_come_in_order_witness:
  "\<exists>h d'. next_hint (sample_env 400) 20 done_db = Inr (h, d') \<and> ph_text h = ''double'' \<and> ph_hint_count h = 1"
proof -
  obtain session where s: "get_session (sample_env 400) 20 done_db = Inr session"
    "pv_question_slug session = ''twice''" "pv_hint_count session = 0"
    by (simp add: practice_eval submitted_row_def submission_count_row_def)
  have q: "published_question_payload (pv_question_slug session) done_db = Inr sample_payload"
    unfolding s(2) by (rule published_sample) (simp_all add: done_tables)
  have hints: "question_hints sample_payload =
      [[(''reveal_level'', JInt 1), (''text'', JStr ''double'')], [(''text'', JStr ''multiply by two'')]]"
    by (simp add: question_hints_def sample_payload_def sample_content_def objects_of_def
        List.map_filter_def jget_def)
  show ?thesis
    using hints_come_in_order [OF done_reachable s(1) q]
    by (auto simp: s(3) hints jget_default_def py_int_def)
qed

end
