(* ===== verification/Api_Guarantees.thy ===== *)
theory Api_Guarantees imports Practice_Guarantees begin

text \<open>
  What the candidate's execution API guarantees: the back pressure bound and how concurrent requests
  get past it, the replay of a request under its Idempotency-Key, and the composition of the API with the claim and dispatch of the
  execution plane: whatever it queues can be sent into a sandbox.
\<close>

section \<open>Back pressure\<close>

lemma append_practice_event_tables:
  assumes "append_practice_event e sid t p d = Inr d'"
  shows "requests d' = requests d \<and> payloads d' = payloads d \<and> practice_sessions d' = practice_sessions d \<and>
    questions d' = questions d \<and> question_versions d' = question_versions d \<and>
    exec_events d' = exec_events d \<and> outbox d' = outbox d"
  using append_practice_event_Inr [OF assms] by (simp_all add: append_session_event_def)

lemma record_run_tables:
  assumes "record_run e rr runtime a d = Inr (b, d')"
  shows "b = a" "requests d' = requests d" "payloads d' = payloads d" "questions d' = questions d"
    "question_versions d' = question_versions d" "exec_events d' = exec_events d" "outbox d' = outbox d"
  using assms
  by (auto simp: record_run_def dest!: append_practice_event_tables elim!: res_bind_InrE)

lemma record_submission_tables:
  assumes "record_submission e rr runtime sbid a d = Inr (b, d')"
  shows "b = a" "requests d' = requests d" "payloads d' = payloads d" "questions d' = questions d"
    "question_versions d' = question_versions d" "exec_events d' = exec_events d" "outbox d' = outbox d"
  using assms
  by (auto simp: record_submission_def transition_session_Inr dest!: append_practice_event_tables
      elim!: res_bind_InrE)

definition queue_typed ::
  "execution_type \<Rightarrow> env \<Rightarrow> top_functions \<Rightarrow> fresh_ids \<Rightarrow> run_request \<Rightarrow> db \<Rightarrow> db \<Rightarrow>
     (execution_accepted \<times> db) result" where
  "queue_typed typ e parse ids rr seen d =
     (case typ of Run \<Rightarrow> queue_run e parse ids rr seen d | Submit \<Rightarrow> queue_submit e parse ids rr seen d)"

definition typed_key :: "execution_type \<Rightarrow> run_request \<Rightarrow> string" where
  "typed_key typ rr = (case typ of Run \<Rightarrow> run_key rr | Submit \<Rightarrow> submit_key rr)"

text \<open>Both routes either replay a stored request or store a new one, in the same way.\<close>

lemma queue_typed_cases:
  assumes "queue_typed typ e parse ids rr seen d = Inr (acc, d')"
  obtains (replayed) question runtime where
      "session_question e (rr_session rr) (rr_slug rr) d = Inr (question, runtime)"
      "existing_execution e (typed_key typ rr) (request_hash_of e typ rr question runtime) d = Inr (Some acc)"
      "d' = d"
  | (queued) question runtime submission d1 d2 where
      "session_question e (rr_session rr) (rr_slug rr) d = Inr (question, runtime)"
      "find_by_idempotency e (typed_key typ rr) d = None"
      "find_by_idempotency e (typed_key typ rr) d1 = None"
      "requests d1 = requests d" "payloads d1 = payloads d" "questions d1 = questions d"
      "question_versions d1 = question_versions d"
      "queue_execution e parse ids typ rr question runtime (typed_key typ rr) submission seen d1 = Inr (acc, d2)"
      "requests d' = requests d2" "payloads d' = payloads d2" "questions d' = questions d"
      "question_versions d' = question_versions d"
proof (cases "typ")
  case Run
  then have "queue_run_tx e parse ids rr seen d = Inr (acc, d')"
    using assms by (simp add: queue_typed_def queue_run_def)
  then show thesis
  proof (cases rule: queue_run_cases)
    case (queued question runtime acc0 d1)
    note rec = record_run_tables [OF queued(4)] and tab = queue_execution_tables [OF queued(3,2)]
    show thesis
      using queued rec tab Run that(2) [of question runtime d None d1] by (simp add: typed_key_def)
  qed (use Run that(1) in \<open>auto simp: typed_key_def\<close>)
next
  case Submit
  then have "queue_submit_tx e parse ids rr seen d = Inr (acc, d')"
    using assms by (simp add: queue_typed_def queue_submit_def)
  then show thesis
  proof (cases rule: queue_submit_cases)
    case (queued question runtime d1 acc0 d2)
    obtain u where d1: "d1 = d\<lparr>submissions := submissions d @ [new_submission_row e u (fi_submission ids) rr question runtime]\<rparr>"
      using queued(3) by (auto simp: insert_submission_Inr)
    have none: "find_by_idempotency e (submit_key rr) d1 = None"
      using queued(2) by (simp add: d1 find_by_idempotency_def split: option.splits)
    note rec = record_submission_tables [OF queued(5)] and tab = queue_execution_tables [OF queued(4) none]
    show thesis
      using queued rec tab none d1 Submit that(2) [of question runtime d1 "Some (fi_submission ids)" d2]
      by (simp add: typed_key_def)
  qed (use Submit that(1) in \<open>auto simp: typed_key_def\<close>)
qed

lemma existing_execution_Some:
  "existing_execution e key hash d = Inr (Some acc) \<longleftrightarrow>
     (\<exists>r s. find_by_idempotency e key d = Some r \<and> rq_request_hash r = hash \<and>
       parse_status (state_text (rq_state r)) = Inr s \<and>
       acc = \<lparr>ea_execution_id = rq_id r, ea_submission_id = rq_submission r, ea_status = s, ea_duplicate = True\<rparr>)"
  by (auto simp: existing_execution_def res_bind_Inr_iff split: option.splits if_splits)

lemma active_of_store:
  assumes "user_id e = Some u" "cr_execution_type c = typ"
  shows "active_of e typ (store_queued e eid oid c (new_request_row e u eid c) d) =
    active_of e typ d @ [new_request_row e u eid c]"
  using assms by (simp add: active_of_def active_states_def new_request_row_def)

lemma active_of_requests: "requests d' = requests d \<Longrightarrow> active_of e typ d' = active_of e typ d"
  by (simp add: active_of_def)

lemma queue_typed_active:
  assumes "queue_typed typ e parse ids rr seen d = Inr (acc, d')" "\<not> ea_duplicate acc"
  shows "length (active_of e typ d') = Suc (length (active_of e typ d)) \<and>
    length (active_of e typ seen) < maximum_active typ"
  using assms(1)
proof (cases rule: queue_typed_cases)
  case (queued question runtime submission d1 d2)
  obtain u language profile payload limits c where new: "length (active_of e typ seen) < maximum_active typ"
    "runtime_execution_config (lib e) parse question runtime (typ = Run) = Inr (language, profile, payload)"
    "limits_of profile = Inr limits"
    "c = queued_request typ rr question runtime (typed_key typ rr) submission language limits payload"
    "user_id e = Some u" "fi_execution ids \<notin> rq_id ` set (requests d1)"
    "d2 = store_queued e (fi_execution ids) (fi_outbox ids) c (new_request_row e u (fi_execution ids) c) d1"
    "acc = \<lparr>ea_execution_id = fi_execution ids, ea_submission_id = submission, ea_status = Queued,
       ea_duplicate = False\<rparr>"
    using queue_execution_new [OF queued(8,3)] .
  have u: "cr_execution_type c = typ" by (simp add: new(4) queued_request_def)
  have "active_of e typ d' = active_of e typ d @ [new_request_row e u (fi_execution ids) c]"
    using active_of_store [OF new(5) u] new(7) active_of_requests [OF queued(9)] active_of_requests [OF queued(4)]
    by simp
  then show ?thesis using new(1) by simp
qed (use assms(2) in \<open>auto simp: existing_execution_Some\<close>)

lemma queue_typed_duplicate:
  assumes "queue_typed typ e parse ids rr seen d = Inr (acc, d')" "ea_duplicate acc"
  shows "d' = d"
  using assms(1)
proof (cases rule: queue_typed_cases)
  case (queued question runtime submission d1 d2)
  then show ?thesis using queue_execution_accepted [OF queued(8,3)] assms(2) by simp
qed

text \<open>C20: The API keeps its back pressure as far as its count sees: an accepted run or submission
  is either a replay that changes nothing, or one more active execution of a candidate of whom the
  count found less than the maximum. The excess over five active runs or two active submissions is
  at most what became active between the count and the insert, so the maximum itself holds when no
  request of the candidate is committed in between.
\<close>

theorem queue_respects_backpressure:
  assumes "queue_typed typ e parse ids rr seen d = Inr (acc, d')"
  shows "if ea_duplicate acc then d' = d
    else length (active_of e typ d') = length (active_of e typ d) + 1 \<and>
      length (active_of e typ d') \<le> (case typ of Run \<Rightarrow> 5 | Submit \<Rightarrow> 2) +
        (length (active_of e typ d) - length (active_of e typ seen))"
proof (cases "ea_duplicate acc")
  case True
  then show ?thesis using queue_typed_duplicate [OF assms] by simp
next
  case False
  then show ?thesis
    using queue_typed_active [OF assms] by (cases "typ"; simp add: maximum_active_def
        max_active_runs_per_candidate_def max_active_submits_per_candidate_def; arith)
qed

theorem queue_respects_backpressure_witness:
  "length (active_of (sample_env 200) Submit submitted_db) \<le> 2"
proof -
  obtain a where "queue_typed Submit (sample_env 200) sample_parse sample_ids sample_rr session_db session_db = Inr (a, submitted_db)"
    "\<not> ea_duplicate a"
    using submit_sample by (auto simp: queue_typed_def)
  then show ?thesis using queue_respects_backpressure [of Submit] by fastforce
qed

text \<open>
  The bound is that of the count: requests of one candidate whose counts all read the same state
  are all accepted. Here they are committed one after the other, as the update of their session
  orders them.
\<close>

fun queue_concurrently ::
  "execution_type \<Rightarrow> env \<Rightarrow> top_functions \<Rightarrow> db \<Rightarrow> (fresh_ids \<times> run_request) list \<Rightarrow> db \<Rightarrow> db result" where
  "queue_concurrently typ e parse seen [] d = Inr d"
| "queue_concurrently typ e parse seen ((ids, rr) # rest) d =
     res_bind (queue_typed typ e parse ids rr seen d) (\<lambda>(acc, d1). queue_concurrently typ e parse seen rest d1)"

text \<open>The catalog of the sample with its one session, which may have been run.\<close>

definition sample_running :: "db \<Rightarrow> bool" where
  "sample_running d \<longleftrightarrow> questions d = [sample_question] \<and> question_versions d = [sample_version] \<and>
     (\<exists>draft n t t'. 0 \<le> n \<and> practice_sessions d = [sample_session_row\<lparr>ps_draft_code := draft, ps_run_count := n,
        ps_last_activity_at := t, ps_updated_at := t'\<rparr>])"

definition race_request :: "nat \<Rightarrow> fresh_ids \<times> run_request" where
  "race_request i = (\<lparr>fi_execution = of_nat i, fi_outbox = of_nat i, fi_submission = 30\<rparr>,
     sample_rr\<lparr>rr_key := ''key-0001'' @ replicate i (CHR ''1'')\<rparr>)"

lemma sample_run_accepted:
  assumes "sample_running d" "requests seen = []" "rr_session rr = 20" "rr_slug rr = ''twice''"
    "run_key rr \<notin> rq_idempotency_key ` set (requests d)" "fi_execution ids \<notin> rq_id ` set (requests d)"
  shows "\<exists>acc d' c. queue_typed Run (sample_env t) sample_parse ids rr seen d = Inr (acc, d') \<and> sample_running d' \<and>
    \<not> ea_duplicate acc \<and> requests d' = requests d @ [new_request_row (sample_env t) 7 (fi_execution ids) c] \<and>
    cr_idempotency_key c = run_key rr"
proof -
  let ?e = "sample_env t"
  obtain draft n t1 t2 where d: "questions d = [sample_question]" "question_versions d = [sample_version]" "0 \<le> n"
    "practice_sessions d = [sample_session_row\<lparr>ps_draft_code := draft, ps_run_count := n,
       ps_last_activity_at := t1, ps_updated_at := t2\<rparr>]"
    using assms(1) by (auto simp: sample_running_def)
  have sq: "session_question ?e (rr_session rr) (rr_slug rr) d = Inr (sample_payload, Python313)"
    unfolding assms(3,4) by (rule session_question_sample [OF d(1,2,4)]) (simp_all add: new_session_row_def sample_payload_def)
  have none: "find_by_idempotency ?e (run_key rr) d = None"
    using assms(5) by (auto simp: find_by_idempotency_def sample_env_def find_None_iff image_iff)
  have "enforce_backpressure ?e Run seen = Inr ()"
    by (simp add: enforce_backpressure_def active_of_def assms(2) maximum_active_def max_active_runs_per_candidate_def)
  then obtain acc d1 where q: "queue_execution ?e sample_parse ids Run rr sample_payload Python313 (run_key rr) None seen d
      = Inr (acc, d1)"
    using queue_sample_general none assms(6) by blast
  note tab = queue_execution_tables [OF q none]
  obtain d' where r: "record_run ?e rr Python313 acc d1 = Inr (acc, d')" "sample_running d'" "requests d' = requests d1"
    using tab d by (simp add: record_run_def practice_eval assms(3) run_count_row_def append_session_event_def
        sample_running_def new_session_row_def)
  have new: "existing_execution ?e (run_key rr) h d = Inr None" for h using none by simp
  have "queue_typed Run ?e sample_parse ids rr seen d = Inr (acc, d')"
    by (simp add: queue_typed_def queue_run_def queue_route_def queue_run_tx_def sq q r(1) new del: existing_execution_None)
  moreover have "\<exists>c. requests d1 = requests d @ [new_request_row ?e 7 (fi_execution ids) c] \<and> cr_idempotency_key c = run_key rr"
    by (rule queue_execution_new [OF q none]) (auto simp: sample_env_def queued_request_def)
  ultimately show ?thesis using r(2,3) queue_execution_accepted [OF q none] by auto
qed

lemma concurrent_runs_accepted:
  assumes "sample_running d" "requests seen = []" "distinct is" "\<forall>i\<in>set is. i < 2 ^ 128"
    "\<forall>i\<in>set is. of_nat i \<notin> rq_id ` set (requests d) \<and>
       run_key (snd (race_request i)) \<notin> rq_idempotency_key ` set (requests d)"
  shows "\<exists>d'. queue_concurrently Run (sample_env t) sample_parse seen (map race_request is) d = Inr d' \<and>
    practice_step\<^sup>*\<^sup>* d d' \<and> length (active_of (sample_env t) Run d') = length (active_of (sample_env t) Run d) + length is"
  using assms
proof (induction "is" arbitrary: d)
  case (Cons i "is")
  obtain ids rr where i: "race_request i = (ids, rr)" by (rule prod.exhaust)
  have cols: "rr_session rr = 20" "rr_slug rr = ''twice''" "fi_execution ids = of_nat i" "rr_key rr = ''key-0001'' @ replicate i (CHR ''1'')"
    using i by (auto simp: race_request_def sample_rr_def)
  obtain acc d1 c where q: "queue_typed Run (sample_env t) sample_parse ids rr seen d = Inr (acc, d1)"
    "sample_running d1" "\<not> ea_duplicate acc"
    "requests d1 = requests d @ [new_request_row (sample_env t) 7 (of_nat i) c]" "cr_idempotency_key c = run_key rr"
    using sample_run_accepted [OF Cons.prems(1,2) cols(1,2), of ids t] Cons.prems(5) i cols(3) by auto
  have "of_nat j \<noteq> (of_nat i :: uuid) \<and> run_key (snd (race_request j)) \<noteq> run_key rr" if "j \<in> set is" for j
    using Cons.prems(3,4) that cols(4)
    by (auto simp: run_key_def race_request_def of_nat_eq_iff word_of_nat_eq_iff take_bit_nat_eq_self)
  then have "\<forall>j\<in>set is. of_nat j \<notin> rq_id ` set (requests d1) \<and>
      run_key (snd (race_request j)) \<notin> rq_idempotency_key ` set (requests d1)"
    using Cons.prems(5) q(4,5) by (auto simp: new_request_row_def)
  then obtain d' where "queue_concurrently Run (sample_env t) sample_parse seen (map race_request is) d1 = Inr d'"
    "practice_step\<^sup>*\<^sup>* d1 d'" "length (active_of (sample_env t) Run d') = length (active_of (sample_env t) Run d1) + length is"
    using Cons.IH [OF q(2) Cons.prems(2)] Cons.prems(3,4) by auto
  moreover have "practice_step d d1" using q(1) by (auto simp: queue_typed_def intro: practice_run)
  ultimately show ?case
    using q(1) queue_typed_active [OF q(1,3)] i by (auto intro: converse_rtranclp_into_rtranclp)
qed simp

text \<open>Six runs of one candidate, each of which counted no active run, are all active afterwards.\<close>

theorem concurrent_runs_exceed_backpressure:
  "\<exists>d'. queue_concurrently Run (sample_env 150) sample_parse session_db (map race_request [1..<7]) session_db = Inr d' \<and>
     practice_reachable d' \<and> maximum_active Run < length (active_of (sample_env 150) Run d')"
proof -
  have "sample_running session_db"
    by (auto simp: sample_running_def session_tables new_session_row_def)
  from concurrent_runs_accepted [OF this session_tables(4), of "[1..<7]" 150]
  obtain d' where "queue_concurrently Run (sample_env 150) sample_parse session_db (map race_request [1..<7]) session_db = Inr d'"
    "practice_step\<^sup>*\<^sup>* session_db d'" "length (active_of (sample_env 150) Run d') = 6"
    by (auto simp: session_tables active_of_def)
  then show ?thesis
    using session_reachable
    by (auto simp: practice_reachable_def maximum_active_def max_active_runs_per_candidate_def intro: rtranclp_trans)
qed

section \<open>Replaying a request\<close>

lemma session_db_exec_inv: "exec_inv session_db"
  by (rule exec_inv_cong [OF exec_inv_empty])
    (simp_all add: session_db_def append_session_event_def catalog_db_def empty_db_def)

lemma record_run_sessions:
  assumes "record_run e rr runtime a d = Inr (b, d')"
  shows "practice_sessions d' = update_where (\<lambda>r. ps_id r = rr_session rr)
    (run_count_row e (rr_source_code rr)) (practice_sessions d)"
  using assms by (auto simp: record_run_def dest!: append_practice_event_Inr elim!: res_bind_InrE)

lemma record_submission_sessions:
  assumes "record_submission e rr runtime sbid a d = Inr (b, d')" "session_keys d"
  obtains r where "session_of (rr_session rr) d = Some r"
    "practice_sessions d' = put_session (rr_session rr) (submitted_row e (rr_source_code rr) r) (practice_sessions d)"
proof -
  let ?sid = "rr_session rr" and ?f = "submission_count_row e (rr_source_code rr)"
  let ?t = "practice_transition_row e SUBMITTED"
  obtain view d1 p where t: "transition_session e ?sid SUBMITTED open_states d d = Inr (view, d1)"
    and d': "d' = append_session_event ?sid ''SUBMISSION_QUEUED'' p
      (d1\<lparr>practice_sessions := update_where (\<lambda>x. ps_id x = ?sid) ?f (practice_sessions d1)\<rparr>)"
    using assms(1) by (auto simp: record_submission_def dest!: append_practice_event_Inr elim!: res_bind_InrE)
  obtain r p1 where r: "session_of ?sid d = Some r" "own_session e ?sid r"
    and d1: "d1 = append_session_event ?sid (''SESSION_'' @ practice_text SUBMITTED) p1
       (d\<lparr>practice_sessions := put_session ?sid (?t r) (practice_sessions d)\<rparr>)"
    using transition_effect [OF t assms(2)] by metis
  have id: "ps_id (?t r) = ?sid" using r(2) by (simp add: practice_transition_row_def own_session_def)
  have "session_keys d1" "session_of ?sid d1 = Some (?t r)"
    using assms(2) r(1) by (simp_all add: d1 keys_put [OF id] row_with_put [OF id] del: map_map)
  then have "practice_sessions d' = put_session ?sid (submitted_row e (rr_source_code rr) r) (practice_sessions d)"
    using touch_by_key [of "practice_sessions d1"] put_put [OF id] by (simp add: d' d1 submitted_row_def)
  then show thesis using that r(1) by blast
qed

lemma queue_typed_step: "queue_typed typ e parse ids rr seen d = Inr (acc, d') \<Longrightarrow> practice_step d d'"
  by (cases "typ") (auto simp: queue_typed_def intro: practice_run practice_submit)

text \<open>After a request has been queued its session can still be resolved.\<close>

lemma queued_session_executable:
  assumes "queue_typed typ e parse ids rr seen d = Inr (acc, d')" "practice_inv d"
  shows "\<exists>r'. session_of (rr_session rr) d' = Some r' \<and> ps_state r' \<notin> {COMPLETED, ABANDONED}"
proof (cases "typ")
  case Run
  then have "queue_run_tx e parse ids rr seen d = Inr (acc, d')"
    using assms(1) by (simp add: queue_typed_def queue_run_def)
  then show ?thesis
  proof (cases rule: queue_run_cases)
    case (replayed question runtime)
    then show ?thesis using session_question_row practice_invD(1) [OF assms(2)] by metis
  next
    case (queued question runtime acc0 d1)
    obtain r where "session_of (rr_session rr) d = Some r" "ps_state r \<notin> {COMPLETED, ABANDONED}"
      using session_question_row [OF queued(1) practice_invD(1) [OF assms(2)]] .
    then show ?thesis
      using record_run_sessions [OF queued(4)] queue_execution_tables(1) [OF queued(3,2)]
      by (simp add: row_with_update_where run_count_row_def)
  qed
next
  case Submit
  then have "queue_submit_tx e parse ids rr seen d = Inr (acc, d')"
    using assms(1) by (simp add: queue_typed_def queue_submit_def)
  then show ?thesis
  proof (cases rule: queue_submit_cases)
    case (replayed question runtime)
    then show ?thesis using session_question_row practice_invD(1) [OF assms(2)] by metis
  next
    case (queued question runtime d1 acc0 d2)
    have none: "find_by_idempotency e (submit_key rr) d1 = None"
      using queued(2,3) by (auto simp: insert_submission_Inr find_by_idempotency_def split: option.splits)
    have "practice_sessions d2 = practice_sessions d"
      using queue_execution_tables(1) [OF queued(4) none] queued(3) by (auto simp: insert_submission_Inr)
    then have "session_keys d2" using practice_invD(1) [OF assms(2)] by simp
    then obtain r where r: "session_of (rr_session rr) d2 = Some r" and
      "practice_sessions d' = put_session (rr_session rr) (submitted_row e (rr_source_code rr) r) (practice_sessions d2)"
      using record_submission_sessions [OF queued(5)] by metis
    moreover have "ps_id (submitted_row e (rr_source_code rr) r) = rr_session rr"
      using row_with_SomeD [OF r] by (simp add: submitted_row_def submission_count_row_def practice_transition_row_def)
    ultimately show ?thesis
      by (simp add: row_with_put submitted_row_def submission_count_row_def practice_transition_row_def)
  qed
qed

lemma find_append: "find P (xs @ ys) = (case find P xs of Some x \<Rightarrow> Some x | None \<Rightarrow> find P ys)"
  by (induction xs) auto

text \<open>What a later request finds of the session and the question an earlier one found.\<close>

lemma session_question_again:
  assumes "session_question e sid slug d = Inr (question, runtime)" "session_keys d" "session_keys d'"
    "session_of sid d' = Some r'"
    "\<And>r. session_of sid d = Some r \<Longrightarrow> same_session r r'"
    "questions d' = questions d" "question_versions d' = question_versions d"
    "user_id e' = user_id e" "lib e' = lib e"
  shows "session_question e' sid slug d' = (if ps_state r' \<in> {COMPLETED, ABANDONED}
    then conflict ''Practice session is no longer executable.'' else Inr (question, runtime))"
proof -
  obtain r v q where r: "find (own_session e sid) (practice_sessions d) = Some r"
    "joined_question d r = Some (v, q)" "qs_slug q = slug"
    "ps_runtime r = Some (runtime_value runtime)" "published_question_payload slug d = Inr question"
    "question_runtime (lib e) question = Inr runtime"
    using session_question_Inr [OF assms(1)] .
  have row: "session_of sid d = Some r" "own_session e sid r" using find_own [OF assms(2) r(1)] by auto
  have same: "same_session r r'" using assms(5) row(1) by blast
  then have own: "own_session e' sid r'" using row(2) assms(8) by (simp add: same_session_def own_session_def)
  have "find (own_session e' sid) (practice_sessions d') = (case session_of sid d' of None \<Rightarrow> None
      | Some r \<Rightarrow> if own_session e' sid r then Some r else None)"
    using assms(3) own_session_key by (rule find_guard)
  then have found: "find (own_session e' sid) (practice_sessions d') = Some r'" using assms(4) own by simp
  have joined: "joined_question d' r' = Some (v, q)"
    using r(2) same by (simp only: joined_question_def assms(6,7) same_session_def)
  have pub: "published_question_payload slug d' = Inr question"
    unfolding published_cong [OF assms(6,7)] by (rule r(5))
  show ?thesis
    using found joined pub r(3,4,6) assms(9) same by (simp add: session_question_def same_session_def)
qed

text \<open>A stored request is replayed while its session is open, and refused after that.\<close>

lemma stored_request_is_replayed:
  assumes s: "session_question e' (rr_session rr) (rr_slug rr) d = (if ended
      then conflict ''Practice session is no longer executable.'' else Inr (question, runtime))"
    and f: "find_by_idempotency e' (typed_key typ rr) d = Some r" "rq_request_hash r = request_hash_of e' typ rr question runtime"
      "rq_state r = pg_state st"
  shows "queue_typed typ e' parse' ids' rr seen' d = (if ended
    then Inl (Exn (HttpErr 409) ''Practice session is no longer executable.'')
    else Inr (\<lparr>ea_execution_id = rq_id r, ea_submission_id = rq_submission r, ea_status = st, ea_duplicate = True\<rparr>, d))"
proof -
  have "existing_execution e' (typed_key typ rr) (request_hash_of e' typ rr question runtime) d = Inr (Some
      \<lparr>ea_execution_id = rq_id r, ea_submission_id = rq_submission r, ea_status = st, ea_duplicate = True\<rparr>)"
    using f by (cases st) (simp_all add: existing_execution_Some parse_status_def all_statuses_def)
  then show ?thesis
    using s by (cases "typ") (simp_all add: queue_typed_def queue_run_def queue_submit_def queue_run_tx_def
        queue_submit_tx_def typed_key_def queue_route_def queue_error_def)
qed

text \<open>The same identity in a later state of the execution plane.\<close>

lemma stored_request_later:
  assumes "find_by_idempotency e key d = Some r" "exec_inv d" "exec_step\<^sup>*\<^sup>* d d'" "user_id e' = user_id e"
  obtains r' st where "find_by_idempotency e' key d' = Some r'" "same_identity r r'" "rq_state r' = pg_state st"
    "request_of (rq_id r) d' = Some r'"
proof -
  note r = find_by_idempotency_Some [OF assms(1)]
  have inv': "exec_inv d'" by (rule exec_steps_inv [OF assms(3,2)])
  have "request_of (rq_id r) d = Some r"
    using r assms(2) by (intro row_with_distinct) (simp_all add: exec_inv_def)
  then obtain r' later where r': "request_of (rq_id r) d' = Some r'" "row_advance r r'"
    using exec_steps_advance [OF assms(3,2)] by (elim db_advanceE) auto
  obtain st where "rq_state r' = pg_state st" using exec_inv_pg_state [OF inv' r'(1)] .
  moreover have "find_by_idempotency e' key d' = Some r'"
    using inv' exec_inv_request(4) [OF inv' r'(1)] r'(2) r assms(4)
    by (intro find_by_idempotency_unique) (simp_all add: exec_inv_def row_advance_def same_identity_def)
  ultimately show thesis using that r' by (simp add: row_advance_def)
qed

lemma queue_execution_step:
  "queue_execution e parse ids typ rr question runtime key submission seen d = Inr (acc, d') \<Longrightarrow> exec_step d d'"
  unfolding queue_execution_def by (auto elim!: res_bind_InrE split: prod.splits intro: step_create)

lemma queue_typed_exec_steps:
  assumes "queue_typed typ e parse ids rr seen d = Inr (acc, d')"
  shows "exec_step\<^sup>*\<^sup>* d d'"
proof (cases "typ")
  case Run
  then have "queue_run_tx e parse ids rr seen d = Inr (acc, d')" using assms by (simp add: queue_typed_def queue_run_def)
  then show ?thesis
  proof (cases rule: queue_run_cases)
    case (queued question runtime acc0 d1)
    have "exec_step d1 d'" using record_run_tables [OF queued(4)] by (intro step_other)
    then show ?thesis using queue_execution_step [OF queued(3)] by (meson converse_rtranclp_into_rtranclp r_into_rtranclp)
  qed simp
next
  case Submit
  then have "queue_submit_tx e parse ids rr seen d = Inr (acc, d')" using assms by (simp add: queue_typed_def queue_submit_def)
  then show ?thesis
  proof (cases rule: queue_submit_cases)
    case (queued question runtime d1 acc0 d2)
    have "exec_step d d1" using queued(3) by (intro step_other) (auto simp: insert_submission_Inr)
    moreover have "exec_step d2 d'" using record_submission_tables [OF queued(5)] by (intro step_other)
    ultimately show ?thesis
      using queue_execution_step [OF queued(4)] by (meson converse_rtranclp_into_rtranclp r_into_rtranclp)
  qed simp
qed

lemma accepted_request_stored:
  assumes "queue_typed typ e parse ids rr seen d = Inr (acc, d')"
  obtains question runtime r where "session_question e (rr_session rr) (rr_slug rr) d = Inr (question, runtime)"
    "find_by_idempotency e (typed_key typ rr) d' = Some r" "rq_request_hash r = request_hash_of e typ rr question runtime"
    "rq_id r = ea_execution_id acc" "rq_submission r = ea_submission_id acc"
    "questions d' = questions d" "question_versions d' = question_versions d"
  using assms
proof (cases rule: queue_typed_cases)
  case (replayed question runtime)
  obtain r st where r: "find_by_idempotency e (typed_key typ rr) d = Some r"
    "rq_request_hash r = request_hash_of e typ rr question runtime" "parse_status (state_text (rq_state r)) = Inr st"
    "acc = \<lparr>ea_execution_id = rq_id r, ea_submission_id = rq_submission r, ea_status = st, ea_duplicate = True\<rparr>"
    using replayed(2) unfolding existing_execution_Some by blast
  show ?thesis
    by (rule that [OF replayed(1) _ r(2)]) (simp_all add: replayed(3) r(1,4))
next
  case (queued question runtime submission d1 d2)
  obtain u language profile payload limits c where new:
    "length (active_of e typ seen) < maximum_active typ"
    "runtime_execution_config (lib e) parse question runtime (typ = Run) = Inr (language, profile, payload)"
    "limits_of profile = Inr limits"
    "c = queued_request typ rr question runtime (typed_key typ rr) submission language limits payload"
    "user_id e = Some u" "fi_execution ids \<notin> rq_id ` set (requests d1)"
    "d2 = store_queued e (fi_execution ids) (fi_outbox ids) c (new_request_row e u (fi_execution ids) c) d1"
    "acc = \<lparr>ea_execution_id = fi_execution ids, ea_submission_id = submission, ea_status = Queued,
       ea_duplicate = False\<rparr>"
    using queue_execution_new [OF queued(8,3)] .
  let ?row = "new_request_row e u (fi_execution ids) c"
  have req: "requests d' = requests d @ [?row]" using queued(4,9) new(7) by simp
  have none: "find (\<lambda>r. rq_candidate r = u \<and> rq_idempotency_key r = typed_key typ rr) (requests d) = None"
    using queued(2) by (simp add: find_by_idempotency_def new(5))
  have row: "find_by_idempotency e (typed_key typ rr) d' = Some ?row"
    "rq_request_hash ?row = request_hash_of e typ rr question runtime"
    by (simp_all add: find_by_idempotency_def new(4,5) req find_append none queued_request_def request_hash_of_def)
  have ids: "rq_id ?row = ea_execution_id acc" "rq_submission ?row = ea_submission_id acc"
    by (simp_all add: new(4,8) queued_request_def new_request_row_def)
  show ?thesis by (rule that [OF queued(1) row ids queued(11,12)])
qed

text \<open>C21: A run or submission that was accepted can be repeated as long as its session is open: in
  any later state of the sessions and of the execution plane, while the catalogue is as it was, the
  same request under the same Idempotency-Key returns the execution and the submission of the first
  call, with the present status and marked as a duplicate, and changes nothing. Once the session has
  been completed or abandoned the same request is refused with 409 although it is stored; the
  request itself leaves the session open.
\<close>

theorem repeated_request_is_replayed:
  assumes "queue_typed typ e parse ids rr seen d = Inr (acc, d')" "practice_reachable d" "exec_inv d"
    "practice_step\<^sup>*\<^sup>* d' d2" "exec_step\<^sup>*\<^sup>* d' d2"
    "questions d2 = questions d'" "question_versions d2 = question_versions d'"
    "user_id e' = user_id e" "lib e' = lib e"
  shows "\<exists>s r st. session_of (rr_session rr) d2 = Some s \<and> request_of (ea_execution_id acc) d2 = Some r \<and>
    rq_state r = pg_state st \<and> (d2 = d' \<longrightarrow> ps_state s \<notin> {COMPLETED, ABANDONED}) \<and>
    queue_typed typ e' parse' ids' rr seen' d2 =
      (if ps_state s \<in> {COMPLETED, ABANDONED}
       then Inl (Exn (HttpErr 409) ''Practice session is no longer executable.'')
       else Inr (\<lparr>ea_execution_id = ea_execution_id acc, ea_submission_id = ea_submission_id acc,
              ea_status = st, ea_duplicate = True\<rparr>, d2))"
proof -
  obtain question runtime r where first: "session_question e (rr_session rr) (rr_slug rr) d = Inr (question, runtime)"
    "find_by_idempotency e (typed_key typ rr) d' = Some r" "rq_request_hash r = request_hash_of e typ rr question runtime"
    "rq_id r = ea_execution_id acc" "rq_submission r = ea_submission_id acc"
    "questions d' = questions d" "question_versions d' = question_versions d"
    using accepted_request_stored [OF assms(1)] .
  have "exec_inv d'" by (rule exec_steps_inv [OF queue_typed_exec_steps [OF assms(1)] assms(3)])
  then obtain r' st where r': "find_by_idempotency e' (typed_key typ rr) d2 = Some r'" "same_identity r r'"
    "rq_state r' = pg_state st" "request_of (rq_id r) d2 = Some r'"
    using stored_request_later [OF first(2) _ assms(5,8)] by metis
  have steps: "practice_step\<^sup>*\<^sup>* d d2" using queue_typed_step [OF assms(1)] assms(4) by (rule converse_rtranclp_into_rtranclp)
  have keys: "session_keys d" "session_keys d2"
    using practice_invD(1) practice_reachable_inv assms(2) steps unfolding practice_reachable_def
    by (blast intro: rtranclp_trans)+
  obtain y where y: "session_of (rr_session rr) d = Some y" using session_question_row [OF first(1) keys(1)] .
  obtain s where s: "session_of (rr_session rr) d2 = Some s" "same_session y s"
    using steps_advance [OF assms(2) steps y] by (auto simp: session_advance_def)
  note again = session_question_again [OF first(1) keys s(1), of e']
  have "session_question e' (rr_session rr) (rr_slug rr) d2 = (if ps_state s \<in> {COMPLETED, ABANDONED}
      then conflict ''Practice session is no longer executable.'' else Inr (question, runtime))"
    using again y s(2) first(6,7) assms(6-9) by simp
  from stored_request_is_replayed [OF this r'(1) _ r'(3)]
  have "queue_typed typ e' parse' ids' rr seen' d2 =
      (if ps_state s \<in> {COMPLETED, ABANDONED}
       then Inl (Exn (HttpErr 409) ''Practice session is no longer executable.'')
       else Inr (\<lparr>ea_execution_id = ea_execution_id acc, ea_submission_id = ea_submission_id acc,
              ea_status = st, ea_duplicate = True\<rparr>, d2))"
    using r'(2) first(3-5) assms(9) by (simp add: same_identity_def request_hash_of_def)
  moreover have "d2 = d' \<longrightarrow> ps_state s \<notin> {COMPLETED, ABANDONED}"
    using queued_session_executable [OF assms(1) practice_reachable_inv [OF assms(2)]] s(1) by auto
  ultimately show ?thesis using s(1) r'(3,4) first(4) by auto
qed

text \<open>A worker has claimed the submission by the time it is repeated.\<close>

theorem repeated_request_is_replayed_witness:
  "\<exists>claim d2 a. claim_for_dispatch (sample_env 300) 1 ''w1'' 60000 submitted_db = Inr (Some claim, d2) \<and>
     queue_submit (sample_env 900) sample_parse sample_ids sample_rr d2 d2 = Inr (a, d2) \<and> ea_duplicate a \<and>
     ea_execution_id a = 1"
proof -
  obtain a where q: "queue_typed Submit (sample_env 200) sample_parse sample_ids sample_rr session_db session_db = Inr (a, submitted_db)"
    using submit_sample by (auto simp: queue_typed_def)
  obtain c where req: "requests submitted_db = [new_request_row (sample_env 200) 7 1 c]" using submit_sample by blast
  obtain claim d2 where c: "claim_for_dispatch (sample_env 300) 1 ''w1'' 60000 submitted_db = Inr (Some claim, d2)"
    "practice_sessions d2 = practice_sessions submitted_db" "session_events d2 = session_events submitted_db"
    "submissions d2 = submissions submitted_db" "questions d2 = questions submitted_db"
    "question_versions d2 = question_versions submitted_db" "map rq_id (requests d2) = [1]"
    by (simp add: claim_for_dispatch_def validate_lease_deadline_def sample_env_def Let_def req claim_guard_def
        append_event_def update_where_def claim_row_def new_request_row_def)
  have "practice_step\<^sup>*\<^sup>* submitted_db d2" using c by (intro r_into_rtranclp practice_other)
  moreover have "exec_step\<^sup>*\<^sup>* submitted_db d2" using c(1) by (intro r_into_rtranclp step_claim)
  ultimately obtain s r st where s: "session_of (rr_session sample_rr) d2 = Some s" "request_of (ea_execution_id a) d2 = Some r"
    "queue_typed Submit (sample_env 900) sample_parse sample_ids sample_rr d2 d2 =
      (if ps_state s \<in> {COMPLETED, ABANDONED}
       then Inl (Exn (HttpErr 409) ''Practice session is no longer executable.'')
       else Inr (\<lparr>ea_execution_id = ea_execution_id a, ea_submission_id = ea_submission_id a,
              ea_status = st, ea_duplicate = True\<rparr>, d2))"
    using repeated_request_is_replayed [OF q session_reachable session_db_exec_inv _ _ c(5,6), of "sample_env 900"
        sample_parse sample_ids d2] by (auto simp: sample_env_def)
  have "ps_state s = SUBMITTED"
    using s(1) by (auto simp: c(2) submitted_tables sample_rr_def submitted_row_def submission_count_row_def
        practice_transition_row_def new_session_row_def split: if_splits)
  moreover have "ea_execution_id a = 1" using row_with_SomeD [OF s(2)] c(7) by auto
  ultimately show ?thesis using c(1) s(3) by (auto simp: queue_typed_def)
qed

text \<open>The replay ends with the session: once the session has been completed (as the evaluation of
  the submission itself does), the same request under the same Idempotency-Key is refused with 409
  although its execution is stored, because the session is checked before the key.
\<close>

theorem completed_request_is_not_replayed:
  assumes "get_session e (rr_session rr) d = Inr view" "pv_state view = COMPLETED"
    "pv_question_slug view = rr_slug rr"
  shows "queue_typed typ e parse ids rr seen d = Inl (Exn (HttpErr 409) ''Practice session is no longer executable.'')"
proof -
  obtain r v q where r: "find (own_session e (rr_session rr)) (practice_sessions d) = Some r"
    "joined_question d r = Some (v, q)" "session_view r v q = Inr view"
    using get_session_parts [OF assms(1)] .
  have "ps_state r = COMPLETED" "qs_slug q = rr_slug rr"
    using session_view_Inr [OF r(3)] assms(2,3) by simp_all
  then have "session_question e (rr_session rr) (rr_slug rr) d =
      conflict ''Practice session is no longer executable.''"
    using r(1,2) by (simp add: session_question_def)
  then show ?thesis
    by (cases "typ") (simp_all add: queue_typed_def queue_run_def queue_submit_def queue_run_tx_def
        queue_submit_tx_def queue_route_def queue_error_def)
qed

theorem completed_request_is_not_replayed_witness:
  "queue_typed Submit (sample_env 900) sample_parse sample_ids sample_rr done_db done_db =
     Inl (Exn (HttpErr 409) ''Practice session is no longer executable.'')"
proof -
  obtain view where "get_session (sample_env 900) (rr_session sample_rr) done_db = Inr view"
    "pv_state view = COMPLETED" "pv_question_slug view = rr_slug sample_rr"
    by (simp add: practice_eval submitted_row_def submission_count_row_def)
  then show ?thesis by (rule completed_request_is_not_replayed)
qed

section \<open>Composition with the execution plane\<close>

text \<open>What the API stores as the input of an execution is what the dispatcher reads.\<close>

lemma candidate_tests_Inr:
  assumes "candidate_tests l question b = Inr tests"
  shows "tests = map (\<lambda>(i, t). candidate_test l i t) (List.enumerate 0 (question_tests question b))"
    "tests \<noteq> []"
  using assms by (auto simp: candidate_tests_def Let_def split: if_splits)

lemma sanitize_candidate_tests:
  "res_map sanitize_test (map (\<lambda>(i, t). candidate_test l i t) xs) = Inr (map (\<lambda>(i, t). candidate_test l i t) xs)"
  by (induction xs) (auto simp: candidate_test_def sanitize_test_def object_dict_def has_key_def)

definition dispatchable :: "pylib \<Rightarrow> string \<Rightarrow> json \<Rightarrow> json list \<Rightarrow> bool" where
  "dispatchable l language payload tests \<longleftrightarrow>
     (\<exists>obj. payload = JObj obj \<and> obj \<noteq> [] \<and> jget obj ''tests'' = JList tests \<and>
       res_map sanitize_test tests = Inr tests \<and>
       (language = ''python'' \<or> language = ''sql'' \<and>
          (\<exists>schema seed t. jget obj ''schema_sql'' = JStr schema \<and> strip schema \<noteq> [] \<and>
            jget_default obj ''seed_sql'' (JStr []) = JStr seed \<and>
            jget obj ''statement_timeout_ms'' = JInt t)))"

lemma config_dispatchable:
  assumes "runtime_execution_config l parse question runtime b = Inr (language, profile, payload)"
  obtains tests where "candidate_tests l question b = Inr tests" "dispatchable l language payload tests"
proof (cases runtime)
  case Python313
  then obtain name mode tests where t: "candidate_tests l question b = Inr tests" "language = ''python''"
    "payload = JObj [(''schema_version'', JInt 1), (''entrypoint'', JStr name),
       (''invocation_mode'', JStr mode), (''tests'', JList tests)]"
    using assms by (auto simp: runtime_execution_config_def elim!: res_bind_InrE)
  then show thesis
    using that [OF t(1)] sanitize_candidate_tests candidate_tests_Inr [OF t(1)]
    by (simp add: dispatchable_def jget_Cons)
next
  case Postgresql18
  then have "sql_input_payload l question b = Inr payload" "language = ''sql''"
    using assms by (auto simp: runtime_execution_config_def elim!: res_bind_InrE)
  then obtain tests schema seed timeout where t: "candidate_tests l question b = Inr tests"
    "strip schema \<noteq> []" "language = ''sql''"
    "payload = JObj [(''schema_version'', JInt 1), (''schema_sql'', JStr schema),
       (''seed_sql'', JStr seed), (''statement_timeout_ms'', JInt timeout), (''tests'', JList tests)]"
    by (auto simp: sql_input_payload_def Let_def elim!: res_bind_InrE split: json.splits if_splits)
  then show thesis
    using that [OF t(1)] sanitize_candidate_tests candidate_tests_Inr [OF t(1)]
    by (simp add: dispatchable_def jget_Cons jget_default_def)
qed

lemma dispatchable_request:
  assumes "dispatchable l (dp_language p) (JObj (dp_input_payload p)) tests" "1 \<le> dp_attempt_count p"
  shows "\<exists>req. sandbox_request l p = Inr req \<and> jget req ''tests'' = JList tests"
  using assms
  by (auto simp: dispatchable_def sandbox_request_def Let_def jget_Cons object_list_def res_bind_def)

lemma claim_queued:
  assumes "claim_for_dispatch e eid worker expires d = Inr (claim, d2)" "distinct (map rq_id (requests d))"
    "request_of eid d = Some r" "rq_state r = PG_QUEUED"
  shows "request_of eid d2 = Some (claim_row e worker expires r)" "payloads d2 = payloads d"
proof -
  have "find (claim_guard eid) (requests d) = (case request_of eid d of None \<Rightarrow> None
      | Some r \<Rightarrow> if claim_guard eid r then Some r else None)"
    using assms(2) by (rule find_guard) (simp add: claim_guard_def)
  then have "find (claim_guard eid) (requests d) = Some r"
    using assms(3,4) row_with_SomeD [OF assms(3)] by (simp add: claim_guard_def)
  then obtain det where d2: "d2 = append_event eid Dispatching det
      (d\<lparr>requests := update_where (claim_guard eid) (claim_row e worker expires) (requests d)\<rparr>)"
    using assms(1) by (auto simp: claim_for_dispatch_def Let_def elim!: res_bind_InrE)
  show "payloads d2 = payloads d" by (simp add: d2 append_event_def)
  show "request_of eid d2 = Some (claim_row e worker expires r)"
    using assms(3,4) row_with_SomeD [OF assms(3)]
    by (simp add: d2 append_event_def row_with_update_where claim_row_def claim_guard_def)
qed

lemma appended_rows:
  assumes "requests d' = requests d @ [row]" "payloads d' = payloads d @ [pl]" "rq_id row = eid" "pl_execution pl = eid"
    "eid \<notin> rq_id ` set (requests d)" "exec_inv d"
  shows "request_of eid d' = Some row" "distinct (map rq_id (requests d'))" "row_with pl_execution eid (payloads d') = Some pl"
proof -
  have "row_with rq_id eid (requests d) = None" unfolding row_with_None_iff by (rule assms(5))
  then show "request_of eid d' = Some row" by (simp add: assms(1,3) row_with_append)
  show "distinct (map rq_id (requests d'))" using assms(5,6) by (simp add: assms(1,3) exec_inv_def)
  have "eid \<notin> pl_execution ` set (payloads d)" using assms(5,6) unfolding exec_inv_def by (metis image_set)
  then have "row_with pl_execution eid (payloads d) = None" unfolding row_with_None_iff .
  then show "row_with pl_execution eid (payloads d') = Some pl" by (simp add: assms(2,4) row_with_append)
qed

lemma claimed_package:
  assumes "request_of eid d = Some (claim_row e2 worker expires (new_request_row e u eid c))"
    "row_with pl_execution eid (payloads d) = Some \<lparr>pl_execution = eid, pl_source_code = source, pl_input_payload = JObj obj\<rparr>"
    "cr_practice_session c = sid"
  obtains pkg where "load_dispatch_package eid d = Inr pkg" "dp_source_code pkg = source" "dp_practice_session_id pkg = sid"
    "dp_execution_id pkg = eid"
    "dp_language pkg = cr_language c" "dp_input_payload pkg = obj" "dp_attempt_count pkg = 1"
  using assms that by (simp add: load_dispatch_package_def claim_row_def new_request_row_def optional_object_dict_def)

lemma queued_package:
  assumes "queue_typed typ e parse ids rr seen d = Inr (acc, d')" "\<not> ea_duplicate acc" "exec_inv d"
    "claim_for_dispatch e2 (ea_execution_id acc) worker expires d' = Inr (claim, d2)"
  obtains question runtime language profile obj pkg where
    "session_question e (rr_session rr) (rr_slug rr) d = Inr (question, runtime)"
    "runtime_execution_config (lib e) parse question runtime (typ = Run) = Inr (language, profile, JObj obj)" "obj \<noteq> []"
    "load_dispatch_package (ea_execution_id acc) d2 = Inr pkg" "dp_execution_id pkg = ea_execution_id acc"
    "dp_source_code pkg = rr_source_code rr" "dp_practice_session_id pkg = rr_session rr" "dp_language pkg = language"
    "dp_input_payload pkg = obj" "dp_attempt_count pkg = 1"
  using assms(1)
proof (cases rule: queue_typed_cases)
  case (replayed question runtime)
  then show ?thesis using assms(2) by (auto simp: existing_execution_Some)
next
  case (queued question runtime submission d1 dq)
  obtain u language profile payload limits c where new:
    "length (active_of e typ seen) < maximum_active typ"
    "runtime_execution_config (lib e) parse question runtime (typ = Run) = Inr (language, profile, payload)"
    "limits_of profile = Inr limits"
    "c = queued_request typ rr question runtime (typed_key typ rr) submission language limits payload"
    "user_id e = Some u" "fi_execution ids \<notin> rq_id ` set (requests d1)"
    "dq = store_queued e (fi_execution ids) (fi_outbox ids) c (new_request_row e u (fi_execution ids) c) d1"
    "acc = \<lparr>ea_execution_id = fi_execution ids, ea_submission_id = submission, ea_status = Queued,
       ea_duplicate = False\<rparr>"
    using queue_execution_new [OF queued(8,3)] .
  let ?eid = "fi_execution ids" and ?row = "new_request_row e u (fi_execution ids) c"
  obtain tests where tests: "candidate_tests (lib e) question (typ = Run) = Inr tests"
      "dispatchable (lib e) language payload tests"
    using config_dispatchable [OF new(2)] .
  then obtain obj where obj: "payload = JObj obj" "obj \<noteq> []" by (auto simp: dispatchable_def)
  let ?pl = "\<lparr>pl_execution = ?eid, pl_source_code = rr_source_code rr, pl_input_payload = payload\<rparr>"
  have req: "requests d' = requests d @ [?row]" using queued(4,9) new(7) by simp
  have pay: "payloads d' = payloads d @ [?pl]"
    using queued(5,10) obj by (simp add: new(4,7) store_queued_def insert_outbox_def append_event_def
        queued_request_def py_or_def)
  have absent: "?eid \<notin> rq_id ` set (requests d)" using new(6) queued(4) by simp
  note rows = appended_rows [OF req pay _ _ absent assms(3), simplified]
  note claimed = claim_queued [OF assms(4) [unfolded new(8) execution_accepted.simps] rows(2,1) new_request_row_simps(4)]
  have pl: "row_with pl_execution ?eid (payloads d2) = Some ?pl" using rows(3) claimed(2) by simp
  have columns: "cr_practice_session c = rr_session rr" "cr_language c = language" by (simp_all add: new(4) queued_request_def)
  obtain pkg where pkg: "load_dispatch_package ?eid d2 = Inr pkg" "dp_source_code pkg = rr_source_code rr"
    "dp_practice_session_id pkg = rr_session rr" "dp_execution_id pkg = ?eid" "dp_language pkg = language"
    "dp_input_payload pkg = obj" "dp_attempt_count pkg = 1"
    by (rule claimed_package [OF claimed(1) pl [unfolded obj(1)] columns(1)]) (rule that, simp_all add: columns(2))
  have eid: "?eid = ea_execution_id acc" by (simp add: new(8))
  show ?thesis
    by (rule that [OF queued(1) new(2) [unfolded obj(1)] obj(2) pkg(1) [unfolded eid]]) (simp_all add: pkg eid)
qed

text \<open>C22: Whatever the API accepts can be executed: when a worker claims the queued request, the
  dispatch package loads and yields a sandbox request carrying the candidate's source for that
  session and exactly the sanitised tests of the published question, for Python and for SQL.
\<close>

theorem queued_request_is_dispatchable:
  assumes "queue_typed typ e parse ids rr seen d = Inr (acc, d')" "\<not> ea_duplicate acc" "exec_inv d"
    "claim_for_dispatch e2 (ea_execution_id acc) worker expires d' = Inr (claim, d2)"
  shows "\<exists>pkg req tests question. load_dispatch_package (ea_execution_id acc) d2 = Inr pkg \<and>
    dp_source_code pkg = rr_source_code rr \<and> dp_practice_session_id pkg = rr_session rr \<and>
    sandbox_request (lib e) pkg = Inr req \<and> jget req ''tests'' = JList tests \<and>
    published_question_payload (rr_slug rr) d = Inr question \<and>
    candidate_tests (lib e) question (typ = Run) = Inr tests"
proof -
  obtain question runtime language profile obj pkg where q:
    "session_question e (rr_session rr) (rr_slug rr) d = Inr (question, runtime)"
    "runtime_execution_config (lib e) parse question runtime (typ = Run) = Inr (language, profile, JObj obj)"
    "load_dispatch_package (ea_execution_id acc) d2 = Inr pkg" "dp_source_code pkg = rr_source_code rr"
    "dp_practice_session_id pkg = rr_session rr" "dp_language pkg = language" "dp_input_payload pkg = obj"
    "dp_attempt_count pkg = 1"
    using queued_package [OF assms] .
  obtain tests where tests: "candidate_tests (lib e) question (typ = Run) = Inr tests"
      "dispatchable (lib e) language (JObj obj) tests"
    using config_dispatchable [OF q(2)] .
  have "\<exists>req. sandbox_request (lib e) pkg = Inr req \<and> jget req ''tests'' = JList tests"
    using dispatchable_request [of "lib e" pkg tests] tests(2) q(6-8) by simp
  moreover have "published_question_payload (rr_slug rr) d = Inr question"
    using session_question_Inr [OF q(1)] by metis
  ultimately show ?thesis using q(3-5) tests(1) by auto
qed

theorem queued_request_is_dispatchable_witness:
  "\<exists>(a :: execution_accepted) d2 pkg req. load_dispatch_package (ea_execution_id a) d2 = Inr pkg \<and>
     dp_source_code pkg = ''s'' \<and> sandbox_request sample_lib pkg = Inr req"
proof -
  obtain a where q: "queue_typed Submit (sample_env 200) sample_parse sample_ids sample_rr session_db session_db = Inr (a, submitted_db)"
    "\<not> ea_duplicate a"
    using submit_sample by (auto simp: queue_typed_def)
  have "\<exists>claim d2. claim_for_dispatch (sample_env 300) (ea_execution_id a) ''w1'' 60000 submitted_db = Inr (claim, d2)"
    by (simp add: claim_for_dispatch_def validate_lease_deadline_def sample_env_def Let_def split: option.split)
  then obtain claim d2 where
    "claim_for_dispatch (sample_env 300) (ea_execution_id a) ''w1'' 60000 submitted_db = Inr (claim, d2)" by blast
  from queued_request_is_dispatchable [OF q session_db_exec_inv this]
  obtain pkg req where "load_dispatch_package (ea_execution_id a) d2 = Inr pkg"
    "dp_source_code pkg = rr_source_code sample_rr" "sandbox_request (lib (sample_env 200)) pkg = Inr req"
    by (elim exE conjE) (rule that)
  then have "load_dispatch_package (ea_execution_id a) d2 = Inr pkg \<and> dp_source_code pkg = ''s'' \<and>
      sandbox_request sample_lib pkg = Inr req"
    by (simp add: sample_rr_def sample_env_def)
  then show ?thesis by (intro exI) assumption
qed

section \<open>Runs of questions with hidden tests\<close>

lemma question_mode_agrees:
  assumes "qp_structured_content question = JObj structured" "question_mode_of structured = Inr mode"
  shows "question_mode question = mode"
  using assms
  by (auto simp: question_mode_def question_mode_of_def optional_object_dict_def
      split: option.splits json.splits)

lemma expected_tests_objects:
  assumes "expected_tests_from l m ds top_level cols n raws E0 = Inr E"
  shows "List.map_filter as_obj raws \<noteq> [] \<or> raws = []" "length (List.map_filter as_obj raws) = length raws"
proof -
  have "length (List.map_filter as_obj raws) = length raws"
    using assms
    by (induction l m ds top_level cols n raws E0 arbitrary: E rule: expected_tests_from.induct)
      (auto simp: List.map_filter_def res_bind_Inr_iff Let_def split: if_splits)
  then show "length (List.map_filter as_obj raws) = length raws"
    "List.map_filter as_obj raws \<noteq> [] \<or> raws = []" by auto
qed

text \<open>The trusted side expects one answer per test of the question, hidden ones included.\<close>

lemma load_expected_tests_count:
  assumes "load_expected_tests l (qp_question_version_id question) d = Inr E"
    "published_question_payload slug d = Inr question"
  shows "length E = length (question_tests question False)"
proof -
  have content: "(case row_with qv_id (qp_question_version_id question) (question_versions d) of
      None \<Rightarrow> JNull | Some v \<Rightarrow> qv_structured_content v) = qp_structured_content question"
    using assms(2) row_with_SomeD [where key = qv_id and t = "question_versions d"]
    by (fastforce simp: published_question_payload_def Let_def split: option.splits if_splits)
  obtain structured mode tests m ds top_level cols where
    s: "qp_structured_content question = JObj structured" "question_mode_of structured = Inr mode"
      "jget mode ''tests'' = JList tests" "expected_tests_from l m ds top_level cols 0 tests [] = Inr E"
    using assms(1) unfolding load_expected_tests_def content Let_def
    by (auto simp: res_bind_Inr_iff split: if_splits)
  have "question_tests question False = List.map_filter as_obj tests"
    by (simp add: question_tests_def question_mode_agrees [OF s(1,2)] s(3) objects_of_def Let_def)
  then show ?thesis
    using expected_tests_from_Inr [OF s(4)] expected_tests_objects(2) [OF s(4)] by simp
qed

text \<open>C23: A run of a question with a hidden test never ends as completed: the sandbox gets only the
  public tests, but the trusted comparison wants an answer for every test of the question, so a
  completed result that answers what was sent is always refused as untrusted.
\<close>

theorem run_with_hidden_tests_is_refused:
  assumes "published_question_payload slug d = Inr question"
    "candidate_tests l question True = Inr sent"
    "load_expected_tests l (qp_question_version_id question) d = Inr expected"
    "list_ex (\<lambda>t. \<not> is_public_test t) (question_tests question False)"
    "sx_status result = ''COMPLETED''" "length (remdups (map (test_key l) (sx_tests result))) \<le> length sent"
  shows "\<exists>m. trusted_compare l result expected = Inl (Exn TrustedResultErr m)"
proof -
  have "length sent < length (question_tests question False)"
    using assms(4) length_filter_less [of _ "question_tests question False" is_public_test]
      candidate_tests_Inr(1) [OF assms(2)]
    by (auto simp: list_ex_iff question_tests_def)
  also have "\<dots> = card (fst ` set expected)"
    using load_expected_tests_count [OF assms(3,1)] load_expected_tests_InrD(1) [OF assms(3)]
    by (metis distinct_card length_map set_map)
  finally have "card (test_key l ` set (sx_tests result)) \<noteq> card (fst ` set expected)"
    using assms(6) by (simp add: length_remdups_card_conv)
  then have "set (map (test_key l) (sx_tests result)) \<noteq> fst ` set expected" by auto
  then show ?thesis using assms(5) by (simp add: trusted_compare_def Let_def)
qed

definition public_answer :: sandbox_result where
  "public_answer = \<lparr>sx_execution_id = 1, sx_attempt = 1, sx_status = ''COMPLETED'', sx_runtime_ms = 3,
     sx_exit_code = 0, sx_tests = [[(''id'', JStr ''a''), (''visibility'', JStr ''public''),
       (''ok'', JBool True), (''actual'', JInt 2), (''error_category'', JNull)]],
     sx_stdout = [], sx_stderr = [], sx_error_category = None\<rparr>"

lemma question_tests_sample:
  "question_tests sample_payload b =
     [[(''id'', JStr ''a''), (''visibility'', JStr ''public''), (''input'', JInt 1), (''expected_output'', JInt 2)]] @
     (if b then [] else [[(''id'', JStr ''b''), (''visibility'', JStr ''hidden''), (''input'', JInt 2),
        (''expected_output'', JInt 4)]])"
  by (simp add: question_tests_def question_mode_def sample_payload_def sample_content_def jget_def
      optional_object_dict_def objects_of_def List.map_filter_def is_public_test_def Let_def)

theorem run_with_hidden_tests_is_refused_witness:
  "\<exists>expected m. load_expected_tests sample_lib 40 catalog_db = Inr expected \<and>
     trusted_compare sample_lib public_answer expected = Inl (Exn TrustedResultErr m)"
proof -
  have pub: "published_question_payload ''twice'' catalog_db = Inr sample_payload"
    by (rule published_sample) (simp_all add: catalog_tables)
  obtain sent where sent: "candidate_tests sample_lib sample_payload True = Inr sent" "length sent = 1"
    by (simp add: candidate_tests_def question_tests_sample enumerate_eq_zip)
  obtain expected where ex: "load_expected_tests sample_lib 40 catalog_db = Inr expected"
    by (simp add: load_expected_tests_def catalog_tables sample_version_def sample_content_def object_dict_def
        question_mode_of_def jget_def object_list_def max_result_tests_def is_sql_mode_def Let_def
        expected_test_def comparison_policy_def optional_string_def)
  then have "load_expected_tests sample_lib (qp_question_version_id sample_payload) catalog_db = Inr expected"
    by (simp add: sample_payload_def)
  moreover have "list_ex (\<lambda>t. \<not> is_public_test t) (question_tests sample_payload False)"
    by (simp add: question_tests_sample is_public_test_def jget_def)
  moreover have "sx_status public_answer = ''COMPLETED''"
    "length (remdups (map (test_key sample_lib) (sx_tests public_answer))) \<le> length sent"
    by (simp_all add: public_answer_def sent(2))
  ultimately show ?thesis
    using run_with_hidden_tests_is_refused [OF pub sent(1)] ex by blast
qed

section \<open>A second submission\<close>

text \<open>A second submission of a session under a new key is not refused but fails: the transition
  error of the submitted session is not among the errors the route handles, so it escapes as an
  unhandled exception although the request itself could be queued.
\<close>

theorem second_submission_is_unhandled:
  assumes "session_question e (rr_session rr) (rr_slug rr) d = Inr (question, runtime)"
    "practice_reachable d" "session_of (rr_session rr) d = Some r" "ps_state r = SUBMITTED"
    "get_session e (rr_session rr) d = Inr view"
    "find_by_idempotency e (submit_key rr) d = None" "enforce_backpressure e Submit seen = Inr ()"
    "insert_submission e (fi_submission ids) rr question runtime d = Inr d1"
    "queue_execution e parse ids Submit rr question runtime (submit_key rr) (Some (fi_submission ids)) seen d1 = Inr (acc, d2)"
  shows "queue_submit e parse ids rr seen d =
    Inl (Exn PracticeTransitionErr ''Cannot transition a SUBMITTED session to SUBMITTED.'')"
proof -
  note keys = practice_invD(1) [OF practice_reachable_inv [OF assms(2)]]
  have none: "find_by_idempotency e (submit_key rr) d1 = None"
    using assms(6,8) by (auto simp: insert_submission_Inr find_by_idempotency_def split: option.splits)
  have d1: "practice_sessions d1 = practice_sessions d" "questions d1 = questions d"
      "question_versions d1 = question_versions d"
    using assms(8) by (auto simp: insert_submission_Inr)
  note tab = queue_execution_tables [OF assms(9) none]
  have "get_session e (rr_session rr) d2 = get_session e (rr_session rr) d"
    using tab d1 by (simp only: get_session_def joined_question_def)
  moreover have "pv_state view = SUBMITTED"
    using get_session_row [OF assms(5) keys] assms(3,4) by (metis option.inject)
  ultimately have "transition_session e (rr_session rr) SUBMITTED open_states d2 d2 =
      Inl (Exn PracticeTransitionErr ''Cannot transition a SUBMITTED session to SUBMITTED.'')"
    using assms(5) by (simp add: transition_session_def open_states_def)
  then have "record_submission e rr runtime (fi_submission ids) acc d2 =
      Inl (Exn PracticeTransitionErr ''Cannot transition a SUBMITTED session to SUBMITTED.'')"
    by (simp add: record_submission_def)
  moreover have "existing_execution e (submit_key rr) h d = Inr None" for h using assms(6) by simp
  ultimately show ?thesis
    using assms(1,7,8,9)
    by (simp add: queue_submit_def queue_submit_tx_def queue_route_def queue_error_def
        del: existing_execution_None)
qed

theorem second_submission_is_unhandled_witness:
  "queue_submit (sample_env 250) sample_parse \<lparr>fi_execution = 3, fi_outbox = 4, fi_submission = 31\<rparr>
     (sample_rr\<lparr>rr_key := ''key-0002''\<rparr>) submitted_db submitted_db =
   Inl (Exn PracticeTransitionErr ''Cannot transition a SUBMITTED session to SUBMITTED.'')"
proof -
  let ?e = "sample_env 250" and ?rr = "sample_rr\<lparr>rr_key := ''key-0002''\<rparr>"
  let ?ids = "\<lparr>fi_execution = 3, fi_outbox = 4, fi_submission = 31\<rparr> :: fresh_ids"
  let ?row = "submitted_row (sample_env 200) ''s'' sample_session_row"
  have rr: "rr_session ?rr = 20" "rr_slug ?rr = ''twice''" "rr_key ?rr = ''key-0002''"
    by (simp_all add: sample_rr_def)
  have cols: "ps_id ?row = 20" "ps_candidate ?row = 7" "ps_question_version ?row = Some 40"
    "ps_runtime ?row = Some ''python3.13''" "ps_state ?row = SUBMITTED"
    by (simp_all add: submitted_row_def submission_count_row_def practice_transition_row_def
        new_session_row_def sample_payload_def)
  have sq: "session_question ?e (rr_session ?rr) (rr_slug ?rr) submitted_db = Inr (sample_payload, Python313)"
    unfolding rr by (rule session_question_sample [where r = ?row]) (simp_all add: submitted_tables cols)
  have row: "session_of (rr_session ?rr) submitted_db = Some ?row" by (simp add: rr submitted_tables cols)
  obtain view where view: "get_session ?e (rr_session ?rr) submitted_db = Inr view"
    unfolding rr by (simp add: practice_eval submitted_row_def submission_count_row_def)
  obtain c where c: "requests submitted_db = [new_request_row (sample_env 200) 7 1 c]"
    "cr_idempotency_key c = submit_key sample_rr"
    using submit_sample by blast
  have none: "find_by_idempotency ?e (submit_key ?rr) submitted_db = None"
    by (simp add: find_by_idempotency_def c submit_key_def sample_rr_def sample_env_def)
  have bp: "enforce_backpressure ?e Submit submitted_db = Inr ()"
    by (simp add: enforce_backpressure_def active_of_def c maximum_active_def max_active_submits_per_candidate_def)
  obtain d1 where ins: "insert_submission ?e (fi_submission ?ids) ?rr sample_payload Python313 submitted_db = Inr d1"
    by (simp add: insert_submission_def submitted_tables new_submission_row_def sample_rr_def sample_env_def)
  have same: "requests d1 = requests submitted_db" using ins by (auto simp: insert_submission_Inr)
  have "find_by_idempotency ?e (submit_key ?rr) d1 = None"
    using none by (simp only: find_by_idempotency_def same)
  moreover have "fi_execution ?ids \<notin> rq_id ` set (requests d1)" by (simp add: same c)
  ultimately obtain acc d2 where "queue_execution ?e sample_parse ?ids Submit ?rr sample_payload Python313
      (submit_key ?rr) (Some (fi_submission ?ids)) submitted_db d1 = Inr (acc, d2)"
    using queue_sample_general [OF bp] by blast
  then show ?thesis
    using second_submission_is_unhandled [OF sq submitted_reachable row cols(5) view none bp ins] by blast
qed

end
