(* ===== verification/Content_Guarantees.thy ===== *)
theory Content_Guarantees imports Content_Lifecycle Api_Guarantees begin

text \<open>
  What the review workflow guarantees: everything candidates are served has two independent
  approvals, and what the rollback of the synchroniser does to that.
\<close>

section \<open>What candidates are served\<close>

lemma truncate_tables [simp]:
  "questions (db.truncate d) = questions d" "question_versions (db.truncate d) = question_versions d"
  by (simp_all add: db.defs)

lemma published_Inr:
  assumes "published_question_payload slug d = Inr payload"
  obtains q v where "row_with qs_slug slug (questions d) = Some q"
    "qs_current_published_version q = Some (qp_question_version_id payload)"
    "row_with qv_id (qp_question_version_id payload) (question_versions d) = Some v"
    "qv_state v = Published" "qp_structured_content payload = qv_structured_content v"
    "qp_publication_version payload = qv_version v"
proof -
  obtain q vid v where q: "row_with qs_slug slug (questions d) = Some q" "qs_current_published_version q = Some vid"
    and v: "row_with qv_id vid (question_versions d) = Some v" "qv_state v = Published"
    and payload: "qp_question_version_id payload = qv_id v" "qp_structured_content payload = qv_structured_content v"
      "qp_publication_version payload = qv_version v"
    using assms by (auto simp: published_question_payload_def Let_def split: option.splits if_splits)
  then show ?thesis using that row_with_SomeD [OF v(1)] by simp
qed

text \<open>C24: Candidates are served reviewed content only. In every state the review operations and
  package synchronisations can reach, the version a published question shows carries the approval
  of a technical and of an editorial reviewer, the latest decisions of their assignments; they
  and the author are three different users; a publication event has the content hash the version
  still has. And no question of a reachable state is archived: the archival of a version never
  sets \<open>archived_at\<close>, although \<open>transition\<close> has an update for it.\<close>

theorem catalogue_serves_reviewed_content:
  assumes "review_reachable t d" "published_question_payload slug (db.truncate d) = Inr payload"
  shows "(\<exists>v\<in>set (question_versions d). qv_id v = qp_question_version_id payload \<and>
      qv_structured_content v = qp_structured_content payload \<and>
      (\<exists>pe\<in>set (publication_events d). pe_version pe = qv_id v \<and> pe_content_hash pe = qv_content_hash v)) \<and>
    (\<exists>author technical editorial. author_id (qp_question_version_id payload) d = Some author \<and>
      signed_by (qp_question_version_id payload) Technical d = Some technical \<and>
      signed_by (qp_question_version_id payload) Editorial d = Some editorial \<and>
      distinct [author, technical, editorial]) \<and>
    (\<forall>q\<in>set (questions d). qs_archived_at q = None)"
proof -
  have inv: "review_inv t d" using review_reachable_inv [OF assms(1)] by simp
  obtain q v where v: "row_with qv_id (qp_question_version_id payload) (question_versions d) = Some v"
    "qv_state v = Published" "qp_structured_content payload = qv_structured_content v"
    using published_Inr [OF assms(2)] by (metis truncate_tables(2))
  have in_v: "v \<in> set (question_versions d)" "qv_id v = qp_question_version_id payload"
    using row_with_SomeD [OF v(1)] by simp_all
  then have "reviewed d v" "announced d v" using inv by (simp_all add: review_inv_def)
  then show ?thesis using v in_v inv
    by (auto simp: reviewed_def announced_def review_inv_def served_def)
qed

section \<open>A question from its package to publication\<close>

abbreviation clock :: "timestamp \<Rightarrow> env" where
  "clock t \<equiv> \<lparr>app_now = t, db_now = t, user_id = None, organization_id = None, lib = sample_lib\<rparr>"

abbreviation person :: "uuid \<Rightarrow> string \<Rightarrow> timestamp \<Rightarrow> user_row" where
  "person i s t \<equiv> \<lparr>us_id = i, us_identity_subject = s, us_email = s, us_display_name = s, us_email_verified = True,
     us_deleted_at = None, us_last_login_at = Some t, us_updated_at = t\<rparr>"

abbreviation clerk :: "string \<Rightarrow> principal" where
  "clerk s \<equiv> \<lparr>pc_subject_id = s, pc_email = s, pc_display_name = s, pc_roles = [],
     pc_authentication_provider = ''clerk'', pc_correlation_id = ''c''\<rparr>"

definition content_db0 :: content_db where
  "content_db0 = \<lparr>requests = [], payloads = [], exec_events = [], outbox = [], public_results = [],
     questions = [], question_versions = [], submissions = [], submission_results = [],
     submission_evaluations = [], practice_sessions = [], session_events = [],
     users = [person 1 ''t'' 0, person 2 ''e'' 0, person 3 ''a'' 0],
     user_roles = [(1, ''technical-reviewer''), (2, ''editorial-reviewer''), (3, ''platform-administrator'')],
     review_assignments = [], review_decisions = [], provenance_records = [], validation_runs = [],
     publication_events = [], audit_events = [], question_tracks = [(60, ''python'')],
     competencies = [], question_competencies = []\<rparr>"

definition twice_package :: "string \<Rightarrow> json \<Rightarrow> content_package" where
  "twice_package hash content = \<lparr>pk_id = ''PY-1'', pk_slug = ''twice'', pk_version = ''1'', pk_title = ''Twice'',
     pk_problem_statement = ''p'', pk_expected_seniority = ''senior'', pk_difficulty = ''easy'',
     pk_conceptual = 1, pk_implementation = 1, pk_scale = 1, pk_ambiguity = 1, pk_prerequisite_depth = 1,
     pk_duration = 30, pk_primary_track = ''python'', pk_secondary_skills = [], pk_author_id = ''w'',
     pk_originality = ''o'', pk_authoring_method = ''m'', pk_source_notes = JList [],
     pk_structured = content, pk_content_hash = hash\<rparr>"

definition sync_fresh :: sync_ids where
  "sync_fresh = \<lparr>si_question = 50, si_version = 40, si_author = 4, si_system = 5\<rparr>"

definition staff :: "timestamp \<Rightarrow> timestamp \<Rightarrow> timestamp \<Rightarrow> user_row list" where
  "staff t e a = [person 1 ''t'' t, person 2 ''e'' e, person 3 ''a'' a, content_author (clock 1) 4 (twice_package ''h1'' JNull),
     system_user (clock 1) 5]"

definition twice_version :: "content_state \<Rightarrow> timestamp \<Rightarrow> version_row" where
  "twice_version st t = package_row (clock 1) ''r'' (twice_package ''h1'' (JObj [(''n'', JInt 1)])) 50 40
     \<lparr>qv_state := st, qv_updated_at := t\<rparr>"

definition twice_question :: "uuid option \<Rightarrow> question_row" where
  "twice_question cur = \<lparr>qs_id = 50, qs_external_id = ''PY-1'', qs_slug = ''twice'', qs_primary_track = 60,
     qs_current_published_version = cur, qs_archived_at = None, qs_updated_at = 1\<rparr>"

definition reviewed_by :: "uuid \<Rightarrow> uuid \<Rightarrow> review_kind \<Rightarrow> timestamp \<Rightarrow> timestamp option \<Rightarrow> assignment_row" where
  "reviewed_by i u k t c = \<lparr>as_id = i, as_version = 40, as_reviewer = u, as_kind = k, as_assigned_at = t,
     as_completed_at = c\<rparr>"

definition approval :: "uuid \<Rightarrow> uuid \<Rightarrow> timestamp \<Rightarrow> decision_row" where
  "approval i u t = \<lparr>dc_assignment = i, dc_reviewer = u, dc_outcome = Outcome_Approved,
     dc_reason = ''meets the standard'', dc_created_at = t\<rparr>"

definition audit_row_of :: "string \<Rightarrow> uuid \<Rightarrow> string \<Rightarrow> (string \<times> json) list \<Rightarrow> audit_row" where
  "audit_row_of corr actor action details = \<lparr>ae_actor = actor, ae_action = action,
     ae_resource_type = ''question_version'', ae_resource_id = uuid_str 40, ae_details = JObj details,
     ae_correlation_id = corr\<rparr>"

definition content_db1 :: content_db where
  "content_db1 = content_db0\<lparr>questions := [twice_question None],
     question_versions := [twice_version Awaiting_Technical_Review 1], users := staff 0 0 0,
     provenance_records := [\<lparr>pv_version = 40, pv_author = 4, pv_originality = ''o'', pv_authoring_method = ''m'',
        pv_source_notes = JList [], pv_created_at = 1\<rparr>],
     validation_runs := [\<lparr>vr_version = 40, vr_validator_version = ''m1-sync-v1'', vr_status = ''passed'',
        vr_findings = JList [], vr_started_at = 1, vr_completed_at = Some 1\<rparr>],
     audit_events := [audit_row_of ''content-sync'' 5 ''content.synchronized''
        [(''external_id'', JStr ''PY-1''), (''source_revision'', JStr ''r'')]]\<rparr>"

definition content_db2 :: content_db where
  "content_db2 = content_db1\<lparr>users := staff 0 0 2, review_assignments := [reviewed_by 31 1 Technical 2 None],
     audit_events := audit_events content_db1 @ [audit_row_of ''c'' 3 ''review.assigned''
       [(''kind'', JStr ''technical''), (''reviewer_subject_id'', JStr ''t'')]]\<rparr>"

definition content_db3 :: content_db where
  "content_db3 = content_db2\<lparr>users := staff 0 0 3,
     review_assignments := [reviewed_by 31 1 Technical 2 None, reviewed_by 32 2 Editorial 3 None],
     audit_events := audit_events content_db2 @ [audit_row_of ''c'' 3 ''review.assigned''
       [(''kind'', JStr ''editorial''), (''reviewer_subject_id'', JStr ''e'')]]\<rparr>"

definition content_db4 :: content_db where
  "content_db4 = content_db3\<lparr>users := staff 4 0 3, question_versions := [twice_version Awaiting_Editorial_Review 4],
     review_assignments := [reviewed_by 31 1 Technical 2 (Some 4), reviewed_by 32 2 Editorial 3 None],
     review_decisions := [approval 31 1 4],
     audit_events := audit_events content_db3 @ [audit_row_of ''c'' 1 ''review.decided''
       [(''kind'', JStr ''technical''), (''outcome'', JStr ''approved''), (''reason'', JStr ''meets the standard'')]]\<rparr>"

definition content_db5 :: content_db where
  "content_db5 = content_db4\<lparr>users := staff 4 5 3, question_versions := [twice_version Approved 5],
     review_assignments := [reviewed_by 31 1 Technical 2 (Some 4), reviewed_by 32 2 Editorial 3 (Some 5)],
     review_decisions := [approval 31 1 4, approval 32 2 5],
     audit_events := audit_events content_db4 @ [audit_row_of ''c'' 2 ''review.decided''
       [(''kind'', JStr ''editorial''), (''outcome'', JStr ''approved''), (''reason'', JStr ''meets the standard'')]]\<rparr>"

definition content_db6 :: content_db where
  "content_db6 = content_db5\<lparr>users := staff 4 5 6, question_versions := [twice_version Published 5],
     questions := [twice_question (Some 40)],
     publication_events := [\<lparr>pe_version = 40, pe_published_by = 3, pe_idempotency_key = ''publish-1'',
        pe_source_revision = ''r'', pe_content_hash = ''h1'', pe_published_at = 6\<rparr>],
     audit_events := audit_events content_db5 @ [audit_row_of ''c'' 3 ''content.published''
       [(''idempotency_key'', JStr ''publish-1'')]]\<rparr>"

lemmas content_rows = twice_package_def twice_version_def twice_question_def reviewed_by_def approval_def staff_def
  content_author_def system_user_def package_row_def audit_row_of_def

lemmas content_ops = ensure_user_def upsert_user_def insert_unique_def email_taken_def audit_event_def
  lower_char_def lock_version_def assignment_for_def other_kind_def author_subject_def author_rows_def
  latest_def eligible_reviewer_def upsert_assignment_def List.map_filter_simps

lemma sync_twice: "synchronize_package (clock 1) ''r'' sync_fresh (twice_package ''h1'' (JObj [(''n'', JInt 1)])) content_db0 =
  Inr (package_outcome (twice_package ''h1'' (JObj [(''n'', JInt 1)])) ''inserted'' [], content_db1)"
  by (simp add: synchronize_package_def content_db0_def content_db1_def sync_fresh_def upsert_question_def
    replace_question_competencies_def Let_def upsert_version_def replace_provenance_def record_sync_audit_def
    upsert_system_user_def package_outcome_def content_rows content_ops)

lemma assign_technical: "\<exists>r. assign (clock 2) 9 31 (clerk ''a'') 40 Technical ''t'' content_db1 = Inr (r, content_db2)"
  by (simp add: assign_def content_db0_def content_db1_def content_db2_def content_rows content_ops)

lemma assign_editorial: "\<exists>r. assign (clock 3) 9 32 (clerk ''a'') 40 Editorial ''e'' content_db2 = Inr (r, content_db3)"
  by (simp add: assign_def content_db0_def content_db1_def content_db2_def content_db3_def content_rows content_ops)

lemma decide_technical: "\<exists>r. decide (clock 4) 9 (clerk ''t'') 40 Technical Outcome_Approved ''meets the standard''
    content_db3 = Inr (r, content_db4)"
  by (simp add: decide_def decision_allowed_def decision_state_def set_version_state_def content_db0_def content_db1_def
    content_db2_def content_db3_def content_db4_def content_rows content_ops)

lemma decide_editorial: "\<exists>r. decide (clock 5) 9 (clerk ''e'') 40 Editorial Outcome_Approved ''meets the standard''
    content_db4 = Inr (r, content_db5)"
  by (simp add: decide_def decision_allowed_def decision_state_def set_version_state_def content_db0_def content_db1_def
    content_db2_def content_db3_def content_db4_def content_db5_def content_rows content_ops)

lemma publish_twice: "\<exists>r. publish (clock 6) 9 (clerk ''a'') 40 ''publish-1'' content_db5 = Inr (r, content_db6)"
  by (simp add: publish_def approvals_def latest_decision_def content_db0_def content_db1_def Let_def
    content_db2_def content_db3_def content_db4_def content_db5_def content_db6_def content_rows content_ops)

lemma content_reachable: "review_reachable 6 content_db6"
proof -
  have "content_start content_db0" by (simp add: content_start_def people_ok_def catalog_keys_def content_db0_def)
  then have "review_reachable 0 content_db0" by (rule reach_start)
  then have "review_reachable 1 content_db1"
    using reach_op [of 0 content_db0 "clock 1"] op_sync [OF sync_twice] by simp
  then have "review_reachable 2 content_db2"
    using reach_op [of 1 content_db1 "clock 2"] assign_technical op_assign by fastforce
  then have "review_reachable 3 content_db3"
    using reach_op [of 2 content_db2 "clock 3"] assign_editorial op_assign by fastforce
  then have "review_reachable 4 content_db4"
    using reach_op [of 3 content_db3 "clock 4"] decide_technical op_decide by fastforce
  then have "review_reachable 5 content_db5"
    using reach_op [of 4 content_db4 "clock 5"] decide_editorial op_decide by fastforce
  then show ?thesis
    using reach_op [of 5 content_db5 "clock 6"] publish_twice op_publish by fastforce
qed

theorem catalogue_serves_reviewed_content_witness:
  "\<exists>payload. published_question_payload ''twice'' (db.truncate content_db6) = Inr payload \<and>
     qp_question_version_id payload = 40 \<and>
     (\<exists>author technical editorial. author_id 40 content_db6 = Some author \<and>
        signed_by 40 Technical content_db6 = Some technical \<and> signed_by 40 Editorial content_db6 = Some editorial \<and>
        distinct [author, technical, editorial]) \<and>
     (\<forall>q\<in>set (questions content_db6). qs_archived_at q = None)"
proof -
  have "\<exists>payload. published_question_payload ''twice'' (db.truncate content_db6) = Inr payload \<and>
      qp_question_version_id payload = 40"
    by (simp add: published_question_payload_def content_db6_def content_rows)
  then obtain payload where payload: "published_question_payload ''twice'' (db.truncate content_db6) = Inr payload"
      "qp_question_version_id payload = 40"
    by (elim exE conjE)
  show ?thesis
    using catalogue_serves_reviewed_content [OF content_reachable payload(1)] payload
    by (intro exI [of _ payload] conjI) simp_all
qed

section \<open>Rolling back over a synchronisation\<close>

lemma find_version:
  assumes "catalog_keys d" "v \<in> set (question_versions d)"
  shows "find (\<lambda>x. qv_question x = qv_question v \<and> qv_version x = qv_version v) (question_versions d) = Some v"
  using assms row_with_distinct [of "\<lambda>v. (qv_question v, qv_version v)" "question_versions d" v]
  by (simp add: catalog_keys_def row_with_def)

lemma find_question:
  assumes "catalog_keys d" "q \<in> set (questions d)"
  shows "row_with qs_slug (qs_slug q) (questions d) = Some q"
    "row_with qs_external_id (qs_external_id q) (questions d) = Some q"
  using assms by (auto simp: catalog_keys_def intro!: row_with_distinct)

text \<open>Deprecating the version a question shows leaves both rows, the question without a version.\<close>

lemma deprecate_current:
  assumes "review_inv t d" "people_ok d" "catalog_keys d" "q \<in> set (questions d)"
    "qs_current_published_version q = Some vid" "transition_version e nid p vid Deprecated d = Inr (r, d1)"
  shows "\<exists>v. v \<in> set (question_versions d) \<and> qv_id v = vid \<and> qv_question v = qs_id q \<and>
    v\<lparr>qv_state := Deprecated, qv_updated_at := db_now e\<rparr> \<in> set (question_versions d1) \<and>
    q\<lparr>qs_current_published_version := None\<rparr> \<in> set (questions d1) \<and>
    review_decisions d1 = review_decisions d \<and> publication_events d1 = publication_events d \<and>
    people_ok d1 \<and> catalog_keys d1 \<and> distinct (map qv_id (question_versions d1))"
proof -
  obtain actor d0 v where d0: "ensure_user e nid p d = Inr (actor, d0)"
    and v: "row_with qv_id vid (question_versions d0) = Some v"
    and d1: "content_tables d1 = (set_version_state e vid Deprecated (question_versions d0),
      update_where (\<lambda>q. qs_id q = qv_question v \<and> qs_current_published_version q = Some vid)
        (withdraw_question e Deprecated) (questions d0),
      review_assignments d0, review_decisions d0, provenance_records d0, publication_events d0)"
    using transition_version_Inr [OF assms(6)] by (elim exE conjE) (rule that)
  note same = same_content_lookups [OF ensure_user_Inr(1) [OF d0 assms(2)]]
  note tabs = content_tablesD [OF d1, unfolded same]
  have dist: "distinct (map qv_id (question_versions d))" using assms(1) by (simp add: review_inv_def review_keys_def)
  have v: "v \<in> set (question_versions d)" "qv_id v = vid"
    using row_with_SomeD [OF v] by (simp_all add: same)
  have "served d q" using assms(1,4) by (simp add: review_inv_def)
  then obtain w where w: "w \<in> set (question_versions d)" "qv_id w = vid" "qv_question w = qs_id q"
    using assms(5) by (auto simp: served_def)
  then have q: "qv_question v = qs_id q" using v dist by (metis row_with_distinct option.inject)
  have "v\<lparr>qv_state := Deprecated, qv_updated_at := db_now e\<rparr> \<in> set (question_versions d1)"
    using v by (force simp: tabs set_version_state_def set_update_where)
  moreover have "q\<lparr>qs_current_published_version := None\<rparr> \<in> set (questions d1)"
    using assms(4,5) q by (force simp: tabs set_update_where withdraw_question_def)
  moreover have "review_change (db_now e) d d1 \<and> people_ok d1" by (rule transition_change [OF assms(6,2)])
  then have "people_ok d1" "catalog_keys d1" using review_change_keys assms(3) by blast+
  ultimately show ?thesis using v q dist by (intro exI [of _ v]) (simp add: tabs)
qed

lemma resync_current:
  assumes "synchronize_package e revision ids pkg d = Inr (px, d')" "px_status px = ''updated''"
    and "people_ok d" "catalog_keys d" "q \<in> set (questions d)" "qs_slug q = pk_slug pkg"
    and "v \<in> set (question_versions d)" "qv_question v = qs_id q" "qv_version v = pk_version pkg"
  shows "\<exists>q' v'. q' \<in> set (questions d') \<and> qs_id q' = qs_id q \<and> qs_external_id q' = pk_id pkg \<and>
    qs_slug q' = pk_slug pkg \<and> qs_current_published_version q' = qs_current_published_version q \<and>
    v' \<in> set (question_versions d') \<and> qv_id v' = qv_id v \<and> qv_question v' = qs_id q \<and>
    qv_version v' = pk_version pkg \<and> qv_structured_content v' = pk_structured pkg \<and>
    review_decisions d' = review_decisions d \<and> publication_events d' = publication_events d"
proof -
  obtain track qid d1 vid vs pr where q1: "upsert_question e (si_question ids) track pkg d = Inr (qid, d1)"
    and w: "package_written e revision pkg qid vid (question_versions d) vs"
    and d': "content_tables d' = (vs, questions d1, review_assignments d, review_decisions d,
       filter (\<lambda>r. pv_version r \<noteq> vid) (provenance_records d) @ [pr], publication_events d)"
    using conjunct2 [OF sync_Inr [OF assms(1,3)]] assms(2) by auto
  note tabs = content_tablesD [OF d']
  let ?f = "\<lambda>x. x\<lparr>qs_slug := pk_slug pkg, qs_primary_track := track, qs_updated_at := db_now e\<rparr>"
  have ext: "qs_external_id q = pk_id pkg"
    using q1 assms(5,6) by (auto simp: upsert_question_def split: if_splits)
  then have row: "row_with qs_external_id (pk_id pkg) (questions d) = Some q"
    using find_question(2) [OF assms(4,5)] by simp
  have qid: "qid = qs_id q" and qs: "questions d1 = update_where (\<lambda>x. qs_external_id x = pk_id pkg) ?f (questions d)"
    using q1 row by (auto simp: upsert_question_def split: if_splits)
  have "?f q \<in> set (questions d')" using assms(5) ext by (force simp: tabs(2) qs set_update_where)
  moreover have find: "find (\<lambda>x. qv_question x = qid \<and> qv_version x = pk_version pkg) (question_versions d) = Some v"
    using find_version [OF assms(4,7)] assms(8,9) qid by simp
  have "package_row e revision pkg (qs_id q) (qv_id v) \<in> set vs"
    using w assms(7,8) by (force simp: package_written_def find set_update_where)
  ultimately show ?thesis using ext
    by (intro exI [of _ "?f q"] exI [of _ "package_row e revision pkg (qs_id q) (qv_id v)"])
      (simp add: tabs package_row_def)
qed

lemma rollback_publishes:
  assumes "rollback e revision nid question_id target_version d = Inr (py, d')"
    and "people_ok d" "catalog_keys d" "distinct (map qv_id (question_versions d))"
    and "q \<in> set (questions d)" "qs_external_id q = question_id" "qs_current_published_version q = None"
    and "v \<in> set (question_versions d)" "qv_question v = qs_id q" "qv_version v = target_version"
    and "qv_id v \<in> pe_version ` set (publication_events d)"
  shows "px_status py = ''rolled_back'' \<and> review_decisions d' = review_decisions d \<and>
    (\<exists>payload. published_question_payload (qs_slug q) (db.truncate d') = Inr payload \<and>
       qp_question_version_id payload = qv_id v \<and> qp_structured_content payload = qv_structured_content v)"
proof -
  have row: "rollback_row question_id target_version d = Some (q, v)"
    using find_question(2) [OF assms(3,5)] find_version [OF assms(3,8)] assms(6,9,10)
    by (simp add: rollback_row_def)
  let ?qs = "update_where (\<lambda>x. qs_id x = qs_id q) (\<lambda>x. x\<lparr>qs_current_published_version := Some (qv_id v),
      qs_archived_at := None, qs_updated_at := db_now e\<rparr>) (questions d)"
  obtain actor d1 where d1: "upsert_system_user e nid d = Inr (actor, d1)"
    and d': "px_status py = ''rolled_back'' \<and> review_decisions d' = review_decisions d1 \<and>
      questions d' = update_where (\<lambda>x. qs_id x = qs_id q) (\<lambda>x. x\<lparr>qs_current_published_version := Some (qv_id v),
        qs_archived_at := None, qs_updated_at := db_now e\<rparr>) (questions d1) \<and>
      question_versions d' = set_version_state e (qv_id v) Published (question_versions d1)"
    using assms(1,7,11) by (auto simp: rollback_def row Let_def rollback_outcome_def elim!: res_bind_InrE)
  have same: "same_content d d1"
    using upsert_user_Inr(1) [OF d1 [unfolded upsert_system_user_def] assms(2)] by simp
  have "row_with qs_slug (qs_slug q) ?qs =
      Some (q\<lparr>qs_current_published_version := Some (qv_id v), qs_archived_at := None, qs_updated_at := db_now e\<rparr>)"
    using find_question(1) [OF assms(3,5)] by (subst row_with_update_where) simp_all
  moreover have "row_with qv_id (qv_id v) (question_versions d') =
      Some (v\<lparr>qv_state := Published, qv_updated_at := db_now e\<rparr>)"
    using row_with_distinct [OF assms(4,8)] d' same
    by (simp add: set_version_state_def same_content_def) (subst row_with_update_where, simp_all)
  moreover have "questions d' = ?qs" "review_decisions d' = review_decisions d"
    using d' same by (simp_all add: same_content_def)
  ultimately show ?thesis using d'
    by (simp add: published_question_payload_def)
qed

text \<open>C25: A rollback can serve content nobody has reviewed. The rollback only asks whether the
  version was ever published, not whether it still is what was published: when the version a
  question shows is deprecated, a package with new content is synchronised under the same version
  number, which sends it back to technical review, and the version is rolled back to, then
  candidates are served the new content, and no review decision has been made since.\<close>

theorem rollback_serves_unreviewed_content:
  assumes "review_reachable t d" "published_question_payload slug (db.truncate d) = Inr payload"
    and "transition_version e1 n1 p1 (qp_question_version_id payload) Deprecated d = Inr (r1, d1)" "t < db_now e1"
    and "synchronize_package e2 rev2 ids pkg d1 = Inr (px, d2)" "px_status px = ''updated''" "db_now e1 < db_now e2"
    and "pk_slug pkg = slug" "pk_version pkg = qp_publication_version payload"
    and "rollback e3 rev3 n3 (pk_id pkg) (pk_version pkg) d2 = Inr (py, d3)"
  shows "px_status py = ''rolled_back'' \<and> review_decisions d3 = review_decisions d \<and>
    (\<exists>new. published_question_payload slug (db.truncate d3) = Inr new \<and>
       qp_question_version_id new = qp_question_version_id payload \<and> qp_structured_content new = pk_structured pkg)"
proof -
  have 0: "review_inv t d" "people_ok d" "catalog_keys d" using review_reachable_inv [OF assms(1)] by simp_all
  have r1: "review_reachable (db_now e1) d1" using assms(1,4) op_transition [OF assms(3)] by (rule reach_op)
  have r2: "review_reachable (db_now e2) d2" using r1 assms(7) op_sync [OF assms(5)] by (rule reach_op)
  note 1 = review_reachable_inv [OF r1] and 2 = review_reachable_inv [OF r2]
  let ?vid = "qp_question_version_id payload"
  obtain q w where q: "row_with qs_slug slug (questions d) = Some q" "qs_current_published_version q = Some ?vid"
    and w: "row_with qv_id ?vid (question_versions d) = Some w" "qv_state w = Published" "qp_publication_version payload = qv_version w"
    using published_Inr [OF assms(2), unfolded truncate_tables] by metis
  have q_in: "q \<in> set (questions d)" "qs_slug q = slug" using row_with_SomeD [OF q(1)] by simp_all
  obtain v where v: "v \<in> set (question_versions d)" "qv_id v = ?vid" "qv_question v = qs_id q"
    and v1: "v\<lparr>qv_state := Deprecated, qv_updated_at := db_now e1\<rparr> \<in> set (question_versions d1)"
    and q1: "q\<lparr>qs_current_published_version := None\<rparr> \<in> set (questions d1)"
    and d1: "review_decisions d1 = review_decisions d" "publication_events d1 = publication_events d"
    using deprecate_current [OF 0 q_in(1) q(2) assms(3)] by (elim exE conjE) (rule that)
  have w_in: "w \<in> set (question_versions d)" "qv_id w = ?vid" using row_with_SomeD [OF w(1)] by simp_all
  have "v = w"
    using 0(1) v(1,2) w_in by (auto simp: review_inv_def review_keys_def distinct_map inj_on_def)
  then have version: "qv_version v = pk_version pkg" using w(3) assms(9) by simp
  obtain q2 v2 where q2: "q2 \<in> set (questions d2)" "qs_id q2 = qs_id q" "qs_external_id q2 = pk_id pkg" "qs_slug q2 = slug"
      "qs_current_published_version q2 = None"
    and v2: "v2 \<in> set (question_versions d2)" "qv_id v2 = ?vid" "qv_question v2 = qs_id q" "qv_version v2 = pk_version pkg"
      "qv_structured_content v2 = pk_structured pkg"
    and d2: "review_decisions d2 = review_decisions d1" "publication_events d2 = publication_events d1"
    using resync_current [OF assms(5,6) _ _ q1 _ v1] 1 q_in(2) assms(8) v version by auto
  have "announced d w" using 0(1) w_in by (simp add: review_inv_def)
  then have "qv_id v2 \<in> pe_version ` set (publication_events d2)"
    using w(2) w_in(2) by (force simp: announced_def v2(2) d1 d2)
  from rollback_publishes [OF assms(10) _ _ _ q2(1,3,5) v2(1) _ v2(4) this]
  show ?thesis using 2 q2(2,4) v2(2,3,5) d1(1) d2(1) by (simp add: review_inv_def review_keys_def)
qed

definition content_db7 :: content_db where
  "content_db7 = content_db6\<lparr>users := staff 4 5 7, question_versions := [twice_version Deprecated 7],
     questions := [twice_question None],
     audit_events := audit_events content_db6 @ [audit_row_of ''c'' 3 ''content.deprecated''
       [(''from_state'', JStr ''published'')]]\<rparr>"

definition changed_package :: content_package where
  "changed_package = twice_package ''h2'' (JObj [(''n'', JInt 2)])"

definition content_db8 :: content_db where
  "content_db8 = content_db7\<lparr>question_versions := [package_row (clock 8) ''r2'' changed_package 50 40],
     questions := [(twice_question None)\<lparr>qs_updated_at := 8\<rparr>],
     provenance_records := [\<lparr>pv_version = 40, pv_author = 4, pv_originality = ''o'', pv_authoring_method = ''m'',
        pv_source_notes = JList [], pv_created_at = 8\<rparr>],
     validation_runs := validation_runs content_db7 @ [\<lparr>vr_version = 40, vr_validator_version = ''m1-sync-v1'',
        vr_status = ''passed'', vr_findings = JList [], vr_started_at = 8, vr_completed_at = Some 8\<rparr>],
     audit_events := audit_events content_db7 @ [audit_row_of ''content-sync'' 5 ''content.synchronized''
        [(''external_id'', JStr ''PY-1''), (''source_revision'', JStr ''r2'')]]\<rparr>"

lemmas content_dbs = content_db0_def content_db1_def content_db2_def content_db3_def content_db4_def
  content_db5_def content_db6_def content_db7_def content_db8_def

lemma deprecate_twice: "\<exists>r. transition_version (clock 7) 9 (clerk ''a'') 40 Deprecated content_db6 = Inr (r, content_db7)"
  by (simp add: transition_version_def set_version_state_def withdraw_question_def content_dbs content_rows content_ops)

lemma resync_twice: "synchronize_package (clock 8) ''r2'' sync_fresh changed_package content_db7 =
    Inr (package_outcome changed_package ''updated'' [], content_db8)"
  by (simp add: synchronize_package_def sync_fresh_def upsert_question_def changed_package_def
    replace_question_competencies_def Let_def upsert_version_def replace_provenance_def record_sync_audit_def
    upsert_system_user_def package_outcome_def content_dbs content_rows content_ops)

lemma rollback_twice: "\<exists>r d. rollback (clock 9) ''r3'' 5 ''PY-1'' ''1'' content_db8 = Inr (r, d)"
  by (simp add: rollback_def rollback_row_def rollback_outcome_def upsert_system_user_def Let_def changed_package_def
    content_dbs content_rows content_ops)

theorem rollback_serves_unreviewed_content_witness:
  "\<exists>py d new. rollback (clock 9) ''r3'' 5 ''PY-1'' ''1'' content_db8 = Inr (py, d) \<and>
     review_decisions d = review_decisions content_db6 \<and>
     published_question_payload ''twice'' (db.truncate d) = Inr new \<and>
     qp_question_version_id new = 40 \<and> qp_structured_content new = JObj [(''n'', JInt 2)]"
proof -
  obtain r d where rb: "rollback (clock 9) ''r3'' 5 (pk_id changed_package) (pk_version changed_package) content_db8 = Inr (r, d)"
    using rollback_twice by (auto simp: changed_package_def twice_package_def)
  have "\<exists>payload. published_question_payload ''twice'' (db.truncate content_db6) = Inr payload \<and>
      qp_question_version_id payload = 40 \<and> pk_version changed_package = qp_publication_version payload"
    by (simp add: published_question_payload_def content_db6_def changed_package_def content_rows)
  then obtain payload where payload: "published_question_payload ''twice'' (db.truncate content_db6) = Inr payload"
      "qp_question_version_id payload = 40" "pk_version changed_package = qp_publication_version payload"
    by (elim exE conjE)
  obtain r1 where dep: "transition_version (clock 7) 9 (clerk ''a'') (qp_question_version_id payload) Deprecated content_db6 =
      Inr (r1, content_db7)"
    using deprecate_twice payload(2) by auto
  have slug: "pk_slug changed_package = ''twice''" "px_status (package_outcome changed_package ''updated'' []) = ''updated''"
    by (simp_all add: changed_package_def twice_package_def package_outcome_def)
  show ?thesis
    using rollback_serves_unreviewed_content [OF content_reachable payload(1) dep _ resync_twice slug(2) _ slug(1) payload(3) rb]
      rb payload(2)
    by (auto simp: changed_package_def twice_package_def)
qed

end
