(* ===== verification/Execution_Capability.thy ===== *)
theory Execution_Capability imports Api_Guarantees begin

text \<open>
  The execution capability of a published question (\<open>execution_capability.py\<close>): what the catalogue
  tells a candidate's editor before any run. It is decided by a cascade of its own; the theorem at
  the end relates it to what the execution API then accepts.
\<close>

section \<open>The capability\<close>

datatype availability = Runnable | Hosted

record execution_capability =
  xc_question_version :: uuid
  xc_availability :: availability
  xc_runtime :: "submission_runtime option"
  xc_starter_source :: string
  xc_public_test_count :: int
  xc_hidden_test_count :: int
  xc_reason :: "string option"

definition hosted_capability ::
  "question_payload \<Rightarrow> submission_runtime option \<Rightarrow> string \<Rightarrow> int \<Rightarrow> int \<Rightarrow> string \<Rightarrow> execution_capability" where
  "hosted_capability payload runtime starter public hidden reason =
     \<lparr>xc_question_version = qp_question_version_id payload, xc_availability = Hosted, xc_runtime = runtime,
      xc_starter_source = starter, xc_public_test_count = public, xc_hidden_test_count = hidden,
      xc_reason = Some reason\<rparr>"

definition visibility_count :: "string \<Rightarrow> jobj list \<Rightarrow> int" where
  "visibility_count kind tests = int (length (filter (\<lambda>t. py_eq (jget t ''visibility'') (JStr kind)) tests))"

definition capability :: "pylib \<Rightarrow> top_functions \<Rightarrow> question_payload \<Rightarrow> execution_capability" where
  "capability l parse payload =
     (let tests = question_tests payload False;
          public = visibility_count ''public'' tests;
          hidden = visibility_count ''hidden'' tests
      in case question_runtime l payload of
        Inl exc \<Rightarrow> hosted_capability payload None [] public hidden (exn_message exc)
      | Inr runtime \<Rightarrow>
        let starter = starter_source l payload runtime;
            runnable = \<lparr>xc_question_version = qp_question_version_id payload, xc_availability = Runnable,
              xc_runtime = Some runtime, xc_starter_source = starter, xc_public_test_count = public,
              xc_hidden_test_count = hidden, xc_reason = None\<rparr>
        in
        if tests = []
        then hosted_capability payload (Some runtime) starter 0 0
          ''No deterministic execution tests are published for this question version.''
        else (case runtime of
          Postgresql18 \<Rightarrow>
            (let mode = question_mode payload;
                 no_schema = hosted_capability payload (Some runtime) starter public hidden
                   ''The published SQL question does not define an isolated fixture schema.''
             in case jget_default mode ''schema_sql'' (jget mode ''ddl'') of
                  JStr schema_sql \<Rightarrow> if strip schema_sql = [] then no_schema else runnable
                | _ \<Rightarrow> no_schema)
        | Python313 \<Rightarrow>
            (case entrypoint l parse payload of
               Inl exc \<Rightarrow> hosted_capability payload (Some runtime) starter public hidden (exn_message exc)
             | Inr name \<Rightarrow> runnable)))"

definition get_execution_capability ::
  "pylib \<Rightarrow> top_functions \<Rightarrow> string \<Rightarrow> db \<Rightarrow> execution_capability result" where
  "get_execution_capability l parse slug d =
     (case published_question_payload slug d of
        Inr payload \<Rightarrow> Inr (capability l parse payload)
      | Inl x \<Rightarrow> if exn_class x = PracticeNotFoundErr
          then Inl (Exn (HttpErr 404) ''Published question not found'') else Inl x)"

section \<open>Against the execution API\<close>

text \<open>The settings the capability does not look at: the invocation mode of a Python question, the
  seed data and the statement timeout of a SQL question.\<close>

definition settings_valid :: "pylib \<Rightarrow> question_payload \<Rightarrow> submission_runtime \<Rightarrow> bool" where
  "settings_valid l payload runtime =
     (let mode = question_mode payload in case runtime of
        Python313 \<Rightarrow> py_str l (py_or (jget mode ''invocation_mode'') (JStr ''auto'')) \<in> set invocation_modes
      | Postgresql18 \<Rightarrow>
          as_str (jget_default mode ''seed_sql'' (jget_default mode ''seed_data'' (JStr []))) \<noteq> None \<and>
          (case jget_default mode ''statement_timeout_ms'' (JInt 5000) of
             JInt timeout \<Rightarrow> 100 \<le> timeout \<and> timeout \<le> 30000 | _ \<Rightarrow> False))"

definition accepted :: "pylib \<Rightarrow> top_functions \<Rightarrow> question_payload \<Rightarrow> submission_runtime \<Rightarrow> bool \<Rightarrow> bool" where
  "accepted l parse payload runtime public_only \<longleftrightarrow>
     (\<exists>config. runtime_execution_config l parse payload runtime public_only = Inr config)"

lemma candidate_tests_accepts:
  "(\<exists>tests. candidate_tests l payload public_only = Inr tests) \<longleftrightarrow> question_tests payload public_only \<noteq> []"
  by (simp add: candidate_tests_def Let_def enumerate_eq_zip)

lemma python_accepts:
  "accepted l parse payload Python313 public_only \<longleftrightarrow>
     (\<exists>name. entrypoint l parse payload = Inr name) \<and> settings_valid l payload Python313 \<and>
     question_tests payload public_only \<noteq> []"
  unfolding candidate_tests_accepts [symmetric, of payload public_only l] accepted_def
  by (auto simp: runtime_execution_config_def settings_valid_def invocation_mode_def res_bind_Inr_iff Let_def)

lemma sql_accepts:
  "accepted l parse payload Postgresql18 public_only \<longleftrightarrow>
     (\<exists>s. jget_default (question_mode payload) ''schema_sql'' (jget (question_mode payload) ''ddl'') = JStr s \<and>
        strip s \<noteq> []) \<and>
     settings_valid l payload Postgresql18 \<and> question_tests payload public_only \<noteq> []"
  unfolding candidate_tests_accepts [symmetric, of payload public_only l] accepted_def
  by (auto simp: runtime_execution_config_def settings_valid_def sql_input_payload_def res_bind_Inr_iff Let_def
      split: json.splits)

lemma public_tests_counted:
  "question_tests payload True \<noteq> [] \<longleftrightarrow> 0 < visibility_count ''public'' (question_tests payload False)"
  by (simp add: question_tests_def visibility_count_def Let_def is_public_test_def [abs_def])

lemma public_tests_among: "question_tests payload True \<noteq> [] \<Longrightarrow> question_tests payload False \<noteq> []"
  by (auto simp: question_tests_def Let_def)

text \<open>C26: The capability is right about the API up to the settings it does not look at. A
  submission of the published question is executable by the API exactly when the capability says
  runnable and the invocation mode (Python) or seed data and statement timeout (SQL) are valid; a
  run needs a public test as well. For a question without a supported runtime the capability
  says hosted, as the API refuses it.\<close>

theorem capability_predicts_api:
  "case question_runtime l payload of
     Inl exc \<Rightarrow> xc_availability (capability l parse payload) = Hosted
   | Inr runtime \<Rightarrow>
       accepted l parse payload runtime False =
         (xc_availability (capability l parse payload) = Runnable \<and> settings_valid l payload runtime) \<and>
       accepted l parse payload runtime True =
         (xc_availability (capability l parse payload) = Runnable \<and> settings_valid l payload runtime \<and>
          0 < xc_public_test_count (capability l parse payload))"
proof (cases "question_runtime l payload")
  case (Inl exc)
  then show ?thesis by (simp add: capability_def Let_def hosted_capability_def)
next
  case (Inr runtime)
  have "xc_availability (capability l parse payload) = Runnable \<longleftrightarrow> question_tests payload False \<noteq> [] \<and>
     (case runtime of Python313 \<Rightarrow> \<exists>name. entrypoint l parse payload = Inr name
      | Postgresql18 \<Rightarrow> \<exists>s. jget_default (question_mode payload) ''schema_sql'' (jget (question_mode payload) ''ddl'') = JStr s \<and>
          strip s \<noteq> [])"
    by (auto simp: capability_def Inr Let_def hosted_capability_def
        split: submission_runtime.splits json.splits sum.splits)
  moreover have "0 < xc_public_test_count (capability l parse payload) \<longleftrightarrow> question_tests payload True \<noteq> []"
    if "xc_availability (capability l parse payload) = Runnable"
    using that unfolding public_tests_counted
    by (auto simp: capability_def Inr Let_def hosted_capability_def
        split: submission_runtime.splits json.splits sum.splits if_splits)
  ultimately show ?thesis
    using public_tests_among [of payload]
    by (cases runtime) (auto simp: Inr python_accepts sql_accepts)
qed

end
