(* ===== verification/Py_Sum.thy ===== *)
theory Py_Sum imports Py_Float begin

text \<open>
  Python's \<open>sum\<close> of floats (CPython 3.12 and later): Neumaier's compensated summation. The running
  sum and its compensation are binary64 values; the compensation is added at the end. The lemma
  the grading needs: the sum of \<open>n\<close> shares \<open>min(m / k, 1.0)\<close> lies between 0 and \<open>n\<close> in spite of
  the rounding of every step.
\<close>

definition sum_step :: "rat \<times> rat \<Rightarrow> rat \<Rightarrow> rat \<times> rat" where
  "sum_step s x = (case s of (hi, lo) \<Rightarrow>
     let t = fadd hi x in
     (t, fadd lo (if \<bar>x\<bar> \<le> \<bar>hi\<bar> then fadd (fl (hi - t)) x else fadd (fl (x - t)) hi)))"

definition py_sum :: "rat list \<Rightarrow> rat" where
  "py_sum xs = (case xs of [] \<Rightarrow> 0
     | x # ys \<Rightarrow> let (hi, lo) = foldl sum_step (x, 0) ys in if lo = 0 then hi else fadd hi lo)"

section \<open>The error of one rounding\<close>

definition unit_roundoff :: rat where "unit_roundoff = 1 / 2 ^ 53"

lemma fl_pos_error:
  assumes "0 < x"
  shows "\<bar>fl_pos x - x\<bar> \<le> x * unit_roundoff"
proof -
  let ?e = "binexp x" and ?s = "x * 2 powi (52 - binexp x)"
  have x: "x = ?s * 2 powi (?e - 52)" using powi_cancel [of ?e] by (simp add: mult.assoc)
  have "fl_pos x - x = (of_int (round_half_even ?s) - ?s) * 2 powi (?e - 52)"
    unfolding fl_pos_def by (subst (2) x) (simp add: left_diff_distrib)
  then have "\<bar>fl_pos x - x\<bar> = \<bar>of_int (round_half_even ?s) - ?s\<bar> * 2 powi (?e - 52)"
    by (simp add: abs_mult)
  also have "\<dots> \<le> 1 / 2 * 2 powi (?e - 52)"
    by (rule mult_right_mono [OF round_half_even_error]) simp
  also have "\<dots> = 2 powi ?e * unit_roundoff"
    by (simp add: unit_roundoff_def power_int_diff)
  also have "\<dots> \<le> x * unit_roundoff"
    using binexp_bounds [OF assms] by (intro mult_right_mono) (simp_all add: unit_roundoff_def)
  finally show ?thesis .
qed

lemma fl_error: "\<bar>fl x - x\<bar> \<le> \<bar>x\<bar> * unit_roundoff"
proof -
  consider "x = 0" | "0 < x" | "0 < - x" by linarith
  then show ?thesis
  proof cases
    case 3
    then have "\<bar>fl_pos (- x) - (- x)\<bar> \<le> - x * unit_roundoff" by (rule fl_pos_error)
    then show ?thesis using 3 by (simp add: fl_def abs_if split: if_splits)
  qed (use fl_pos_error [of x] in \<open>simp_all add: fl_def\<close>)
qed

lemma fl_abs: "\<bar>fl x\<bar> \<le> \<bar>x\<bar> * (1 + unit_roundoff)"
  using fl_error [of x] by (simp add: distrib_left)

section \<open>The loop\<close>

lemma sum_step_bounds:
  assumes "sum_step (h, l) x = (h', l')" "0 \<le> h" "h \<le> k" "0 \<le> x" "x \<le> 1" "k + 1 \<le> 2 ^ 20" "fl h = h"
    and "\<bar>l\<bar> \<le> 2 ^ 23 * unit_roundoff * k" "k = of_nat n"
  shows "0 \<le> h' \<and> h' \<le> k + 1 \<and> fl h' = h' \<and> h \<le> h' \<and> fl x \<le> h' \<and>
    \<bar>h' - (h + x)\<bar> \<le> 2 ^ 20 * unit_roundoff \<and> \<bar>l'\<bar> \<le> 2 ^ 23 * unit_roundoff * (k + 1)"
proof -
  have t: "h' = fl (h + x)" using assms(1) by (simp add: sum_step_def fadd_def Let_def)
  have small: "int n + 1 < 2 ^ 53"
  proof -
    have "(of_int (int n + 1) :: rat) \<le> of_int (2 ^ 20)" using assms(6,9) by simp
    then have "int n + 1 \<le> 2 ^ 20" by (simp only: of_int_le_iff)
    then show ?thesis by simp
  qed
  have "h + x \<le> of_int (int n + 1)" using assms(3,5,9) by simp
  then have up: "h' \<le> k + 1"
    unfolding t using binary64.rnd_le_of_int [of "h + x" "int n + 1"] small assms(9) by simp
  have ge: "h \<le> h'" "fl x \<le> h'" unfolding t using fl_mono [of h "h + x"] fl_mono [of x "h + x"] assms(2,4,7) by simp_all
  have err: "\<bar>h' - (h + x)\<bar> \<le> 2 ^ 20 * unit_roundoff"
  proof -
    have "\<bar>h' - (h + x)\<bar> \<le> \<bar>h + x\<bar> * unit_roundoff" unfolding t by (rule fl_error)
    also have "\<dots> \<le> 2 ^ 20 * unit_roundoff" using assms(2-6) by (intro mult_right_mono) (simp_all add: unit_roundoff_def)
    finally show ?thesis .
  qed
  obtain a b where ab: "a + b = h + x - h'" "\<bar>a\<bar> \<le> 2" "l' = fl (l + fl (fl a + b))"
  proof (cases "\<bar>x\<bar> \<le> \<bar>h\<bar>")
    case True
    have "\<bar>h - h'\<bar> \<le> 2" using err assms(4,5) by (simp add: unit_roundoff_def abs_if split: if_splits)
    then show ?thesis using that [of "h - h'" x] assms(1) True t by (simp add: sum_step_def fadd_def Let_def)
  next
    case False
    then have "h \<le> 1" using assms(2,4,5) by simp
    then have "\<bar>x - h'\<bar> \<le> 2" using err assms(2,4,5) by (simp add: unit_roundoff_def abs_if split: if_splits)
    then show ?thesis using that [of "x - h'" h] assms(1) False t by (simp add: sum_step_def fadd_def Let_def)
  qed
  have "\<bar>fl a - a\<bar> \<le> 2 * unit_roundoff" using fl_error [of a] ab(2) by (simp add: unit_roundoff_def)
  then have "\<bar>fl a + b\<bar> \<le> (2 ^ 20 + 2) * unit_roundoff" using err ab(1) by (simp add: unit_roundoff_def abs_if split: if_splits)
  moreover have "\<bar>fl (fl a + b)\<bar> \<le> \<bar>fl a + b\<bar> * (1 + unit_roundoff)" by (rule fl_abs)
  ultimately have "\<bar>fl (fl a + b)\<bar> \<le> 2 ^ 21 * unit_roundoff" by (simp add: unit_roundoff_def)
  then have "\<bar>l + fl (fl a + b)\<bar> \<le> 2 ^ 23 * unit_roundoff * k + 2 ^ 21 * unit_roundoff" using assms(8) by linarith
  moreover have "\<bar>l'\<bar> \<le> \<bar>l + fl (fl a + b)\<bar> * (1 + unit_roundoff)" unfolding ab(3) by (rule fl_abs)
  ultimately have "\<bar>l'\<bar> \<le> 2 ^ 23 * unit_roundoff * (k + 1)" using assms(6) by (simp add: unit_roundoff_def)
  then show ?thesis using assms(2) up ge err t by simp
qed

lemma sum_loop_bounds:
  assumes "\<forall>x\<in>set xs. 0 \<le> x \<and> x \<le> 1" "0 \<le> h" "h \<le> of_nat n" "of_nat (n + length xs) \<le> (2 ^ 20 :: rat)" "fl h = h"
    and "\<bar>l\<bar> \<le> 2 ^ 23 * unit_roundoff * of_nat n" "foldl sum_step (h, l) xs = (h', l')"
  shows "0 \<le> h' \<and> h' \<le> of_nat (n + length xs) \<and> h \<le> h' \<and> (\<forall>x\<in>set xs. fl x \<le> h') \<and>
    \<bar>h' - (h + sum_list xs)\<bar> \<le> 2 ^ 20 * unit_roundoff * of_nat (length xs) \<and> \<bar>l'\<bar> \<le> 2 ^ 23 * unit_roundoff * of_nat (n + length xs)"
  using assms
proof (induction xs arbitrary: h l n)
  case Nil
  then show ?case by simp
next
  case (Cons x xs)
  obtain h1 l1 where s: "sum_step (h, l) x = (h1, l1)" by (cases "sum_step (h, l) x")
  have step: "0 \<le> h1 \<and> h1 \<le> of_nat n + 1 \<and> fl h1 = h1 \<and> h \<le> h1 \<and> fl x \<le> h1 \<and>
    \<bar>h1 - (h + x)\<bar> \<le> 2 ^ 20 * unit_roundoff \<and> \<bar>l1\<bar> \<le> 2 ^ 23 * unit_roundoff * (of_nat n + 1)"
    using s Cons.prems by (intro sum_step_bounds [of h l x h1 l1 "of_nat n" n]) simp_all
  then have "0 \<le> h' \<and> h' \<le> of_nat (Suc n + length xs) \<and> h1 \<le> h' \<and> (\<forall>x\<in>set xs. fl x \<le> h') \<and>
    \<bar>h' - (h1 + sum_list xs)\<bar> \<le> 2 ^ 20 * unit_roundoff * of_nat (length xs) \<and> \<bar>l'\<bar> \<le> 2 ^ 23 * unit_roundoff * of_nat (Suc n + length xs)"
    using Cons.prems by (intro Cons.IH) (simp_all add: s algebra_simps)
  then show ?case using step by (simp add: algebra_simps abs_if split: if_splits)
qed

section \<open>Sums of shares\<close>

text \<open>\<open>min(m / 80, 1.0)\<close> for a length \<open>m\<close>.\<close>

definition share80 :: "nat \<Rightarrow> rat" where
  "share80 m = min (int_div (int m) 80) 1"

lemma share80_cases:
  obtains "share80 m = 0" | "1 / 81 \<le> share80 m" "share80 m \<le> 1 - 1 / 81" | "share80 m = 1"
proof -
  consider "m = 0" | "1 \<le> m" "m \<le> 79" | "80 \<le> m" by linarith
  then show ?thesis
  proof cases
    case 1
    then show ?thesis using that(1) by (simp add: share80_def int_div_def)
  next
    case 2
    have q: "1 / 80 \<le> (of_nat m / 80 :: rat)" "(of_nat m / 80 :: rat) \<le> 79 / 80" using 2 by simp_all
    have "\<bar>fl (of_nat m / 80) - of_nat m / 80\<bar> \<le> \<bar>of_nat m / 80\<bar> * unit_roundoff" by (rule fl_error)
    also have "\<dots> \<le> 1 * unit_roundoff" using q by (intro mult_right_mono) (simp_all add: unit_roundoff_def)
    finally have "\<bar>fl (of_nat m / 80) - of_nat m / 80\<bar> \<le> unit_roundoff" by simp
    then have "1 / 81 \<le> fl (of_nat m / 80)" "fl (of_nat m / 80) \<le> 1 - 1 / 81"
      using q by (simp_all add: unit_roundoff_def abs_if split: if_splits)
    then show ?thesis using that(2) by (simp add: share80_def int_div_def)
  next
    case 3
    then have "of_int 1 \<le> fl (of_nat m / 80)" by (intro binary64.rnd_ge_of_int) simp_all
    then show ?thesis using that(3) by (simp add: share80_def int_div_def)
  qed
qed

lemma share80_unit: "0 \<le> share80 m \<and> share80 m \<le> 1"
  by (rule share80_cases [of m]) simp_all

lemma share80_float: "fl (share80 m) = share80 m"
  using binary64.rnd_1 by (simp add: share80_def int_div_def min_def)

lemma sum_zeros: "foldl sum_step (0, 0) (replicate n 0) = (0, 0)"
  by (induction n) (simp_all add: sum_step_def fadd_def)

lemma sum_ones:
  assumes "1 \<le> n" "n + k \<le> 2 ^ 20"
  shows "foldl sum_step (of_nat n, 0) (replicate k 1) = (of_nat (n + k), 0)"
  using assms
proof (induction k arbitrary: n)
  case (Suc k)
  have "fl (of_int (int n + 1)) = of_int (int n + 1)" using Suc.prems by (intro fl_of_int) simp
  then have t: "fl (of_nat n + 1) = of_nat n + 1" "fl (1 + of_nat n) = 1 + of_nat n" by (simp_all add: add.commute)
  have "fl (- 1) = - 1" using fl_of_int [of "- 1"] by simp
  then have "sum_step (of_nat n, 0) 1 = (of_nat (Suc n), 0)"
    using Suc.prems(1) by (simp add: sum_step_def fadd_def t Let_def)
  then show ?case using Suc.IH [of "Suc n"] Suc.prems by (simp del: of_nat_Suc)
qed simp

lemma sum_list_bound:
  assumes "\<forall>x\<in>set xs. x \<le> (1::rat)" "y \<in> set xs" "y \<le> 1 - c"
  shows "sum_list xs \<le> of_nat (length xs) - c"
  using assms
proof (induction xs)
  case (Cons x xs)
  have le: "sum_list zs \<le> of_nat (length zs)" if "\<forall>x\<in>set zs. x \<le> (1::rat)" for zs
    using that by (induction zs) auto
  show ?case
  proof (cases "y = x")
    case True
    then show ?thesis using Cons.prems le [of xs] by auto
  next
    case False
    then show ?thesis using Cons by fastforce
  qed
qed simp

theorem py_sum_shares:
  assumes "ms \<noteq> []" "length ms \<le> 2 ^ 20"
  shows "0 \<le> py_sum (map share80 ms) \<and> py_sum (map share80 ms) \<le> of_nat (length ms)"
proof -
  obtain m ns where ms: "ms = m # ns" using assms(1) by (auto simp: neq_Nil_conv)
  let ?xs = "map share80 ns"
  obtain hi lo where loop: "foldl sum_step (share80 m, 0) ?xs = (hi, lo)" by (cases "foldl sum_step (share80 m, 0) ?xs")
  have sum: "py_sum (map share80 ms) = (if lo = 0 then hi else fl (hi + lo))"
    by (simp add: py_sum_def ms loop fadd_def)
  have "(of_nat (length ms) :: rat) \<le> of_nat (2 ^ 20)" using assms(2) by (simp only: of_nat_le_iff)
  then have n: "of_nat (Suc (length ns)) \<le> (2 ^ 20 :: rat)" using ms by simp
  have b: "0 \<le> hi \<and> hi \<le> of_nat (1 + length ?xs) \<and> share80 m \<le> hi \<and> (\<forall>x\<in>set ?xs. fl x \<le> hi) \<and>
    \<bar>hi - (share80 m + sum_list ?xs)\<bar> \<le> 2 ^ 20 * unit_roundoff * of_nat (length ?xs) \<and> \<bar>lo\<bar> \<le> 2 ^ 23 * unit_roundoff * of_nat (1 + length ?xs)"
    using share80_unit n loop by (intro sum_loop_bounds [where h = "share80 m" and l = 0]) (auto simp: share80_float unit_roundoff_def)
  then have errs: "\<bar>hi - (share80 m + sum_list ?xs)\<bar> \<le> 1 / 2 ^ 13" "\<bar>lo\<bar> \<le> 1 / 2 ^ 10"
    using n by (simp_all add: unit_roundoff_def)
  have exact: "\<exists>k. k \<le> length ms \<and> hi = of_nat k \<and> lo = 0"
    if "(\<forall>x\<in>set (map share80 ms). x = 0) \<or> (\<forall>x\<in>set (map share80 ms). x = 1)"
    using that
  proof
    assume "\<forall>x\<in>set (map share80 ms). x = 0"
    then have "share80 m = 0" "?xs = replicate (length ns) 0" by (auto simp: ms intro: replicate_eqI)
    then show ?thesis using loop sum_zeros by (intro exI [of _ 0]) simp
  next
    assume "\<forall>x\<in>set (map share80 ms). x = 1"
    then have "share80 m = 1" "?xs = replicate (length ns) 1" by (auto simp: ms intro: replicate_eqI)
    then show ?thesis using loop sum_ones [of 1 "length ns"] assms(2) ms by (intro exI [of _ "length ms"]) simp
  qed
  have upper: "hi + lo \<le> of_nat (length ms)" if less: "\<not> (\<forall>x\<in>set (map share80 ms). x = 1)"
  proof -
    obtain y where y: "y \<in> set ms" "share80 y \<noteq> 1" using less by auto
    then have "share80 y \<le> 1 - 1 / 81" by (cases rule: share80_cases [of y]) simp_all
    then have "sum_list (map share80 ms) \<le> of_nat (length (map share80 ms)) - 1 / 81"
      using y(1) share80_unit by (intro sum_list_bound [where y = "share80 y"]) auto
    then show ?thesis using errs by (simp add: ms abs_if split: if_splits)
  qed
  have lower: "0 \<le> hi + lo" if more: "\<not> (\<forall>x\<in>set (map share80 ms). x = 0)"
  proof -
    obtain y where y: "y \<in> set ms" "share80 y \<noteq> 0" using more by auto
    then have "1 / 81 \<le> share80 y" by (cases rule: share80_cases [of y]) simp_all
    moreover have "share80 y \<le> hi" using b y(1) by (auto simp: ms share80_float)
    ultimately show ?thesis using errs(2) by (simp add: abs_if split: if_splits)
  qed
  have len: "\<bar>int (length ms)\<bar> < 2 ^ 53" using assms(2) by simp
  show ?thesis
  proof (cases "(\<forall>x\<in>set (map share80 ms). x = 0) \<or> (\<forall>x\<in>set (map share80 ms). x = 1)")
    case True
    from exact [OF this] show ?thesis using sum by auto
  next
    case False
    then have "0 \<le> hi + lo" "hi + lo \<le> of_nat (length ms)" using upper lower by blast+
    then have "0 \<le> fl (hi + lo)" "fl (hi + lo) \<le> of_nat (length ms)"
      using binary64.rnd_nonneg binary64.rnd_le_of_int [of "hi + lo" "int (length ms)"] len by simp_all
    moreover have "0 \<le> hi" "hi \<le> of_nat (length ms)" using b by (simp_all add: ms)
    ultimately show ?thesis by (simp add: sum)
  qed
qed

end
