(* ===== verification/Pr_Review.thy ===== *)
theory Pr_Review imports Py_Sum Execution_State begin

text \<open>
  Pull request review practice: the challenge, the location check and the grading
  (\<open>pr_review_domain.py\<close>), and the candidate's review sessions with their routes
  (\<open>pr_review_routes.py\<close>). The candidate's row-level filter is part of every query; a session
  opened without a user violates the NOT NULL column.
\<close>

section \<open>Challenges\<close>

datatype review_severity = Info | Minor | Major | Blocker

datatype review_verdict = Approve | Comment | Request_Changes

record diff_line_row =
  dl_old_line :: "int option"
  dl_new_line :: "int option"
  dl_kind :: string
  dl_content :: string

record review_file =
  rf_path :: string
  rf_additions :: int
  rf_deletions :: int
  rf_lines :: "diff_line_row list"

record public_challenge =
  ch_id :: string
  ch_title :: string
  ch_repository :: string
  ch_pull_request :: int
  ch_author :: string
  ch_difficulty :: string
  ch_estimated_minutes :: int
  ch_summary :: string
  ch_files :: "review_file list"

record graded_finding =
  gf_id :: string
  gf_file :: string
  gf_line :: int
  gf_severity :: review_severity
  gf_title :: string
  gf_explanation :: string

record challenge_spec =
  cs_public :: public_challenge
  cs_findings :: "graded_finding list"

definition diff_line :: "int option \<Rightarrow> int option \<Rightarrow> string \<Rightarrow> string \<Rightarrow> diff_line_row" where
  "diff_line old new kind content =
     \<lparr>dl_old_line = old, dl_new_line = new, dl_kind = kind, dl_content = content\<rparr>"

definition file_capture :: review_file where
  \<open>file_capture = \<lparr>rf_path = ''apps/api/src/payments/capture.ts'', rf_additions = 7, rf_deletions = 2,
     rf_lines =
     [diff_line (Some 8) (Some 8) ''context'' ''export async function capture(order: Order) {'',
      diff_line (Some 9) (Some 9) ''context'' ''  const payment = await payments.findByOrder(order.id);'',
      diff_line None (Some 10) ''addition'' ''  if (payment?.status === "succeeded") return payment;'',
      diff_line (Some 10) (Some 11) ''context'' [],
      diff_line (Some 11) None ''deletion'' ''  const idempotencyKey = order.id;'',
      diff_line None (Some 12) ''addition'' ''  const idempotencyKey = `${order.id}-${Date.now()}`;'',
      diff_line (Some 12) (Some 13) ''context'' ''  return stripe.paymentIntents.capture(payment.intentId, {'',
      diff_line (Some 13) (Some 14) ''context'' ''    idempotencyKey,'',
      diff_line (Some 14) (Some 15) ''context'' ''  });'']\<rparr>\<close>

definition file_finalize :: review_file where
  \<open>file_finalize = \<lparr>rf_path = ''apps/api/src/orders/finalize.ts'', rf_additions = 4, rf_deletions = 1,
     rf_lines =
     [diff_line (Some 4) (Some 4) ''context'' ''export async function finalizeOrder(order: Order) {'',
      diff_line None (Some 5) ''addition'' ''  await orders.update(order.id, { status: "paid" });'',
      diff_line (Some 5) (Some 6) ''context'' [],
      diff_line (Some 6) (Some 7) ''context'' ''  const payment = await capture(order);'',
      diff_line (Some 7) None ''deletion'' ''  await orders.update(order.id, { status: "paid" });'',
      diff_line None (Some 8) ''addition'' ''  return { orderId: order.id, paymentId: payment.id };'']\<rparr>\<close>

definition file_stripe :: review_file where
  \<open>file_stripe = \<lparr>rf_path = ''apps/api/src/webhooks/stripe.ts'', rf_additions = 5, rf_deletions = 1,
     rf_lines =
     [diff_line (Some 5) (Some 5) ''context'' ''export async function handleStripeWebhook(req: Request) {'',
      diff_line (Some 6) None ''deletion'' ''  const event = verifyStripeEvent(req);'',
      diff_line None (Some 6) ''addition'' ''  const event = await req.json();'',
      diff_line (Some 7) (Some 7) ''context'' ''  if (event.type === "payment_intent.succeeded") {'',
      diff_line (Some 8) (Some 8) ''context'' ''    await payments.markSucceeded(event.data.object.id);'',
      diff_line (Some 9) (Some 9) ''context'' ''  }'']\<rparr>\<close>

definition finding_unstable_idempotency_key :: graded_finding where
  \<open>finding_unstable_idempotency_key = \<lparr>gf_id = ''unstable-idempotency-key'', gf_file = ''apps/api/src/payments/capture.ts'', gf_line = 12, gf_severity = Blocker,
     gf_title = ''Retry idempotency is broken'',
     gf_explanation = ''Appending the current timestamp creates a new idempotency key for every retry, so the provider can process duplicate captures.''\<rparr>\<close>

definition finding_paid_before_capture :: graded_finding where
  \<open>finding_paid_before_capture = \<lparr>gf_id = ''paid-before-capture'', gf_file = ''apps/api/src/orders/finalize.ts'', gf_line = 5, gf_severity = Major,
     gf_title = ''Order state commits before payment succeeds'',
     gf_explanation = ''The order is marked paid before capture returns. A provider failure leaves internal state claiming payment succeeded.''\<rparr>\<close>

definition finding_unsigned_webhook :: graded_finding where
  \<open>finding_unsigned_webhook = \<lparr>gf_id = ''unsigned-webhook'', gf_file = ''apps/api/src/webhooks/stripe.ts'', gf_line = 6, gf_severity = Blocker,
     gf_title = ''Webhook signature verification was removed'',
     gf_explanation = ''Parsing request JSON directly allows an unauthenticated caller to forge payment success events.''\<rparr>\<close>

definition payments_retry :: challenge_spec where
  \<open>payments_retry = \<lparr>cs_public = \<lparr>ch_id = ''payments-retry-001'', ch_title = ''Prevent duplicate checkout captures'', ch_repository = ''commerce/payments-api'',
     ch_pull_request = 418, ch_author = ''maya-chen'', ch_difficulty = ''Senior'', ch_estimated_minutes = 20,
     ch_summary = ''A checkout reliability patch adds retry handling around payment capture. Review the diff for correctness, data consistency, and security before it ships.'',
     ch_files = [file_capture, file_finalize, file_stripe]\<rparr>,
   cs_findings = [finding_unstable_idempotency_key, finding_paid_before_capture, finding_unsigned_webhook]\<rparr>\<close>

definition challenges :: "(string \<times> challenge_spec) list" where
  "challenges = [(ch_id (cs_public payments_retry), payments_retry)]"

definition get_public_challenge :: "string \<Rightarrow> public_challenge option" where
  "get_public_challenge challenge_id = map_option cs_public (map_of challenges challenge_id)"

text \<open>The file is searched by path; the first one with the path decides.\<close>

definition review_location_is_valid :: "string \<Rightarrow> string \<Rightarrow> int \<Rightarrow> bool" where
  "review_location_is_valid challenge_id file_path line_number =
     (case get_public_challenge challenge_id of None \<Rightarrow> False
      | Some challenge \<Rightarrow>
        (case find (\<lambda>f. rf_path f = file_path) (ch_files challenge) of None \<Rightarrow> False
         | Some f \<Rightarrow> list_ex (\<lambda>l. (if dl_new_line l \<noteq> None then dl_new_line l else dl_old_line l) = Some line_number)
             (rf_lines f)))"

section \<open>Grading\<close>

record review_comment =
  cm_file :: string
  cm_line :: int
  cm_severity :: review_severity
  cm_message :: string

fun severity_rank :: "review_severity \<Rightarrow> nat" where
  "severity_rank Info = 0"
| "severity_rank Minor = 1"
| "severity_rank Major = 2"
| "severity_rank Blocker = 3"

text \<open>\<open>min(xs, key=f)\<close>: the first element with the least key.\<close>

fun min_by :: "('a \<Rightarrow> int) \<Rightarrow> 'a \<Rightarrow> 'a list \<Rightarrow> 'a" where
  "min_by f x [] = x"
| "min_by f x (y # ys) = (if f y < f x then min_by f y ys else min_by f x ys)"

definition matching_finding :: "review_comment \<Rightarrow> graded_finding list \<Rightarrow> graded_finding option" where
  "matching_finding comment available =
     (case filter (\<lambda>g. gf_file g = cm_file comment \<and> \<bar>gf_line g - cm_line comment\<bar> \<le> 1) available of
        [] \<Rightarrow> None
      | g # gs \<Rightarrow> Some (min_by (\<lambda>g. \<bar>gf_line g - cm_line comment\<bar>) g gs))"

text \<open>The loop: the findings still unmatched, the pairs matched so far, the false positives.\<close>

fun match_comments ::
  "review_comment list \<Rightarrow> graded_finding list \<Rightarrow> (review_comment \<times> graded_finding) list \<Rightarrow> nat \<Rightarrow>
     graded_finding list \<times> (review_comment \<times> graded_finding) list \<times> nat" where
  "match_comments [] unmatched matched fp = (unmatched, matched, fp)"
| "match_comments (c # cs) unmatched matched fp =
     (case matching_finding c unmatched of
        None \<Rightarrow> match_comments cs unmatched matched (fp + 1)
      | Some g \<Rightarrow> match_comments cs (remove1 g unmatched) (matched @ [(c, g)]) fp)"

record review_grade =
  rg_score :: int
  rg_caught :: "graded_finding list"
  rg_missed :: "graded_finding list"
  rg_false_positive_count :: nat
  rg_severity_accuracy :: rat
  rg_precision :: rat
  rg_recall :: rat
  rg_reasoning_quality :: rat
  rg_verdict_correct :: bool

text \<open>The field constraints of \<open>ReviewGrade\<close>: outside them pydantic raises.\<close>

definition grade_fields_ok :: "review_grade \<Rightarrow> bool" where
  "grade_fields_ok g \<longleftrightarrow> 0 \<le> rg_score g \<and> rg_score g \<le> 100 \<and>
     0 \<le> rg_severity_accuracy g \<and> rg_severity_accuracy g \<le> 1 \<and> 0 \<le> rg_precision g \<and> rg_precision g \<le> 1 \<and>
     0 \<le> rg_recall g \<and> rg_recall g \<le> 1 \<and> 0 \<le> rg_reasoning_quality g \<and> rg_reasoning_quality g \<le> 1"

definition length_div :: "'a list \<Rightarrow> 'b list \<Rightarrow> rat" where
  "length_div xs ys = (if ys = [] then 0 else int_div (int (length xs)) (int (length ys)))"

definition reasoning_quality :: "review_comment list \<Rightarrow> rat" where
  "reasoning_quality comments =
     (if comments = [] then 0
      else fdiv (py_sum (map (\<lambda>c. min (int_div (int (length (strip (cm_message c)))) 80) 1) comments))
             (of_nat (length comments)))"

definition review_score :: "rat \<Rightarrow> rat \<Rightarrow> rat \<Rightarrow> rat \<Rightarrow> bool \<Rightarrow> int" where
  "review_score recall precision severity reasoning correct =
     round_half_even (fadd (fadd (fadd (fadd (fmul recall 50) (fmul precision 20)) (fmul severity 15))
       (fmul reasoning 10)) (if correct then 5 else 0))"

definition grade_review ::
  "string \<Rightarrow> review_comment list \<Rightarrow> review_verdict \<Rightarrow> review_grade result" where
  "grade_review challenge_id comments verdict =
     (case map_of challenges challenge_id of
        None \<Rightarrow> Inl (Exn ValueErr ''Unknown PR review challenge'')
      | Some spec \<Rightarrow>
        (case match_comments comments (cs_findings spec) [] 0 of (unmatched, matched, fp) \<Rightarrow>
         let recall = int_div (int (length matched)) (int (length (cs_findings spec)));
             precision = length_div matched comments;
             severity = length_div
               (filter (\<lambda>(c, g). severity_rank (cm_severity c) = severity_rank (gf_severity g)) matched) matched;
             reasoning = reasoning_quality comments;
             correct = (verdict = Request_Changes);
             grade = \<lparr>rg_score = review_score recall precision severity reasoning correct,
               rg_caught = map snd matched, rg_missed = unmatched, rg_false_positive_count = fp,
               rg_severity_accuracy = severity, rg_precision = precision, rg_recall = recall,
               rg_reasoning_quality = reasoning, rg_verdict_correct = correct\<rparr>
         in if grade_fields_ok grade then Inr grade else Inl (Exn ValidationErr [])))"

section \<open>Review sessions\<close>

datatype review_status = Active | Submitted

record review_session_row =
  rv_id :: uuid
  rv_user :: uuid
  rv_challenge :: string
  rv_status :: review_status
  rv_verdict :: "review_verdict option"
  rv_score :: "int option"
  rv_recall :: "rat option"
  rv_precision :: "rat option"
  rv_severity_accuracy :: "rat option"
  rv_reasoning_quality :: "rat option"
  rv_verdict_correct :: "bool option"
  rv_started_at :: timestamp
  rv_updated_at :: timestamp
  rv_submitted_at :: "timestamp option"

record review_comment_row =
  rc_id :: uuid
  rc_user :: uuid
  rc_session :: uuid
  rc_file :: string
  rc_line :: int
  rc_severity :: review_severity
  rc_message :: string
  rc_created_at :: timestamp

record review_store =
  review_sessions :: "review_session_row list"
  review_comments :: "review_comment_row list"

abbreviation http_error :: "nat \<Rightarrow> string \<Rightarrow> 'a result" where
  "http_error code msg \<equiv> Inl (Exn (HttpErr code) msg)"

text \<open>The response models read the row as it is: every stored value is of the response's type.\<close>

definition own_review :: "env \<Rightarrow> uuid \<Rightarrow> review_session_row \<Rightarrow> bool" where
  "own_review e sid r \<longleftrightarrow> user_id e = Some (rv_user r) \<and> rv_id r = sid"

definition review_session :: "env \<Rightarrow> uuid \<Rightarrow> review_store \<Rightarrow> review_session_row result" where
  "review_session e sid d = (case find (own_review e sid) (review_sessions d) of
     None \<Rightarrow> http_error 404 ''PR review session not found'' | Some r \<Rightarrow> Inr r)"

definition require_active_session :: "env \<Rightarrow> uuid \<Rightarrow> review_store \<Rightarrow> review_session_row result" where
  "require_active_session e sid d = res_bind (review_session e sid d) (\<lambda>r.
     if rv_status r \<noteq> Active then http_error 409 ''PR review session has already been submitted'' else Inr r)"

definition comment_rows :: "env \<Rightarrow> uuid \<Rightarrow> review_store \<Rightarrow> review_comment_row list" where
  "comment_rows e sid d = sort_key rc_created_at (sort_key rc_id
     (filter (\<lambda>c. rc_session c = sid \<and> user_id e = Some (rc_user c)) (review_comments d)))"

definition get_review_challenge :: "string \<Rightarrow> public_challenge result" where
  "get_review_challenge challenge_id = (case get_public_challenge challenge_id of
     None \<Rightarrow> http_error 404 ''PR review challenge not found'' | Some c \<Rightarrow> Inr c)"

definition new_review_session :: "env \<Rightarrow> uuid \<Rightarrow> uuid \<Rightarrow> string \<Rightarrow> review_session_row" where
  "new_review_session e u nid challenge_id =
     \<lparr>rv_id = nid, rv_user = u, rv_challenge = challenge_id, rv_status = Active, rv_verdict = None,
      rv_score = None, rv_recall = None, rv_precision = None, rv_severity_accuracy = None,
      rv_reasoning_quality = None, rv_verdict_correct = None, rv_started_at = db_now e,
      rv_updated_at = db_now e, rv_submitted_at = None\<rparr>"

definition create_review_session ::
  "env \<Rightarrow> uuid \<Rightarrow> string \<Rightarrow> review_store \<Rightarrow> (review_session_row \<times> review_store) result" where
  "create_review_session e nid challenge_id d =
     res_bind (get_review_challenge challenge_id) (\<lambda>_.
     case user_id e of None \<Rightarrow> Inl (Exn IntegrityErr [])
     | Some u \<Rightarrow>
       if nid \<in> rv_id ` set (review_sessions d) then Inl (Exn IntegrityErr [])
       else let d1 = d\<lparr>review_sessions := review_sessions d @ [new_review_session e u nid challenge_id]\<rparr> in
       res_bind (review_session e nid d1) (\<lambda>view. Inr (view, d1)))"

definition list_review_sessions :: "env \<Rightarrow> review_store \<Rightarrow> review_session_row list" where
  "list_review_sessions e d = take 50
     (sort_key (\<lambda>r. - rv_updated_at r) (sort_key (\<lambda>r. - rv_started_at r)
       (filter (\<lambda>r. user_id e = Some (rv_user r)) (review_sessions d))))"

definition get_review_session ::
  "env \<Rightarrow> uuid \<Rightarrow> review_store \<Rightarrow> (review_session_row \<times> review_comment_row list) result" where
  "get_review_session e sid d = res_bind (review_session e sid d) (\<lambda>s. Inr (s, comment_rows e sid d))"

text \<open>The request model \<open>ReviewCommentCreate\<close> with its field constraints and validator.\<close>

definition review_comment_create ::
  "string \<Rightarrow> int \<Rightarrow> review_severity \<Rightarrow> string \<Rightarrow> review_comment result" where
  "review_comment_create file line severity message =
     (if file = [] \<or> 500 < length file \<or> line \<le> 0 \<or> message = [] \<or> 4000 < length message \<or> strip message = []
      then http_error 422 ''Review comment cannot be blank''
      else Inr \<lparr>cm_file = file, cm_line = line, cm_severity = severity, cm_message = strip message\<rparr>)"

definition touch_review :: "env \<Rightarrow> uuid \<Rightarrow> review_session_row list \<Rightarrow> review_session_row list" where
  "touch_review e sid = update_where (own_review e sid) (\<lambda>r. r\<lparr>rv_updated_at := db_now e\<rparr>)"

definition comment_row ::
  "env \<Rightarrow> uuid \<Rightarrow> review_session_row \<Rightarrow> uuid \<Rightarrow> review_comment \<Rightarrow> review_comment_row" where
  "comment_row e nid s sid payload =
     \<lparr>rc_id = nid, rc_user = rv_user s, rc_session = sid, rc_file = cm_file payload,
      rc_line = cm_line payload, rc_severity = cm_severity payload, rc_message = cm_message payload,
      rc_created_at = db_now e\<rparr>"

definition create_review_comment ::
  "env \<Rightarrow> uuid \<Rightarrow> uuid \<Rightarrow> review_comment \<Rightarrow> review_store \<Rightarrow> (review_comment_row \<times> review_store) result" where
  "create_review_comment e nid sid payload d =
     res_bind (require_active_session e sid d) (\<lambda>s.
     if \<not> review_location_is_valid (rv_challenge s) (cm_file payload) (cm_line payload)
     then http_error 422 ''Review comment targets an unknown diff line''
     else if nid \<in> rc_id ` set (review_comments d) then Inl (Exn IntegrityErr [])
     else let row = comment_row e nid s sid payload
          in Inr (row, d\<lparr>review_comments := review_comments d @ [row],
                        review_sessions := touch_review e sid (review_sessions d)\<rparr>))"

definition delete_review_comment :: "env \<Rightarrow> uuid \<Rightarrow> uuid \<Rightarrow> review_store \<Rightarrow> review_store result" where
  "delete_review_comment e sid cid d =
     res_bind (require_active_session e sid d) (\<lambda>s.
     let hit = (\<lambda>c. rc_id c = cid \<and> rc_session c = sid \<and> user_id e = Some (rc_user c)) in
     if \<not> list_ex hit (review_comments d) then http_error 404 ''PR review comment not found''
     else Inr (d\<lparr>review_comments := filter (\<lambda>c. \<not> hit c) (review_comments d),
                review_sessions := touch_review e sid (review_sessions d)\<rparr>))"

definition graded_row :: "env \<Rightarrow> review_verdict \<Rightarrow> review_grade \<Rightarrow> review_session_row \<Rightarrow> review_session_row" where
  "graded_row e verdict g r = r\<lparr>rv_status := Submitted, rv_verdict := Some verdict, rv_score := Some (rg_score g),
     rv_recall := Some (rg_recall g), rv_precision := Some (rg_precision g),
     rv_severity_accuracy := Some (rg_severity_accuracy g),
     rv_reasoning_quality := Some (rg_reasoning_quality g),
     rv_verdict_correct := Some (rg_verdict_correct g), rv_updated_at := db_now e,
     rv_submitted_at := Some (db_now e)\<rparr>"

text \<open>\<open>ReviewCommentInput\<close> built from a stored row.\<close>

definition comment_input :: "review_comment_row \<Rightarrow> review_comment result" where
  "comment_input c =
     (if rc_file c = [] \<or> 500 < length (rc_file c) \<or> rc_line c \<le> 0 \<or> rc_message c = [] \<or> 4000 < length (rc_message c)
      then Inl (Exn ValidationErr [])
      else Inr \<lparr>cm_file = rc_file c, cm_line = rc_line c, cm_severity = rc_severity c, cm_message = rc_message c\<rparr>)"

definition submit_review_session ::
  "env \<Rightarrow> uuid \<Rightarrow> review_verdict \<Rightarrow> review_store \<Rightarrow> ((review_session_row \<times> review_grade) \<times> review_store) result" where
  "submit_review_session e sid verdict d =
     res_bind (require_active_session e sid d) (\<lambda>s.
     let rows = comment_rows e sid d in
     if rows = [] then http_error 422 ''Add at least one review comment before submitting''
     else
     res_bind (res_map comment_input rows) (\<lambda>comments.
     res_bind (grade_review (rv_challenge s) comments verdict) (\<lambda>grade.
     let d1 = d\<lparr>review_sessions := update_where (own_review e sid) (graded_row e verdict grade) (review_sessions d)\<rparr> in
     res_bind (review_session e sid d1) (\<lambda>view. Inr ((view, grade), d1)))))"

end
