(* ===== verification/Pr_Guarantees.thy ===== *)
theory Pr_Guarantees imports Pr_Review Execution_Sample begin

text \<open>
  What the review routes guarantee: the grade of a review is always a grade the response model
  admits, the rows of every reachable state are well formed, and so a submission never fails on
  its stored comments.
\<close>

section \<open>The routes that write\<close>

inductive review_route :: "review_store \<Rightarrow> review_store \<Rightarrow> bool" where
  route_open: "create_review_session e nid cid d = Inr (view, d') \<Longrightarrow> review_route d d'"
| route_comment: "review_comment_create file line severity message = Inr payload \<Longrightarrow>
    create_review_comment e nid sid payload d = Inr (row, d') \<Longrightarrow> review_route d d'"
| route_delete: "delete_review_comment e sid cid d = Inr d' \<Longrightarrow> review_route d d'"
| route_submit: "submit_review_session e sid verdict d = Inr (out, d') \<Longrightarrow> review_route d d'"

inductive review_store_reachable :: "review_store \<Rightarrow> bool" where
  no_reviews: "review_store_reachable \<lparr>review_sessions = [], review_comments = []\<rparr>"
| after_route: "review_store_reachable d \<Longrightarrow> review_route d d' \<Longrightarrow> review_store_reachable d'"

section \<open>Well-formed rows\<close>

definition unit_share :: "rat \<Rightarrow> bool" where
  "unit_share x \<longleftrightarrow> 0 \<le> x \<and> x \<le> 1"

definition session_row_typed :: "review_session_row \<Rightarrow> bool" where
  "session_row_typed r \<longleftrightarrow> get_public_challenge (rv_challenge r) \<noteq> None \<and>
     (case rv_status r of
        Active \<Rightarrow> rv_verdict r = None \<and> rv_score r = None \<and> rv_recall r = None \<and> rv_precision r = None \<and>
          rv_severity_accuracy r = None \<and> rv_reasoning_quality r = None \<and> rv_verdict_correct r = None \<and>
          rv_submitted_at r = None
      | Submitted \<Rightarrow> rv_verdict r \<noteq> None \<and> (\<exists>s. rv_score r = Some s \<and> 0 \<le> s \<and> s \<le> 100) \<and>
          (\<forall>col\<in>{rv_recall r, rv_precision r, rv_severity_accuracy r, rv_reasoning_quality r}.
             \<exists>x. col = Some x \<and> unit_share x) \<and>
          rv_verdict_correct r = map_option (\<lambda>v. v = Request_Changes) (rv_verdict r) \<and> rv_submitted_at r \<noteq> None)"

definition comment_row_typed :: "review_session_row list \<Rightarrow> review_comment_row \<Rightarrow> bool" where
  "comment_row_typed sessions c \<longleftrightarrow>
     (\<exists>challenge. (rc_session c, rc_user c, challenge) \<in> (\<lambda>r. (rv_id r, rv_user r, rv_challenge r)) ` set sessions \<and>
        review_location_is_valid challenge (rc_file c) (rc_line c)) \<and>
     rc_file c \<noteq> [] \<and> length (rc_file c) \<le> 500 \<and> 0 < rc_line c \<and>
     strip (rc_message c) \<noteq> [] \<and> length (rc_message c) \<le> 4000"

definition review_store_typed :: "review_store \<Rightarrow> bool" where
  "review_store_typed d \<longleftrightarrow>
     distinct (map rv_id (review_sessions d)) \<and> distinct (map rc_id (review_comments d)) \<and>
     (\<forall>r\<in>set (review_sessions d). session_row_typed r) \<and>
     (\<forall>c\<in>set (review_comments d). comment_row_typed (review_sessions d) c)"

section \<open>Grades\<close>

lemma min_by_in: "min_by f x xs \<in> set (x # xs)"
proof (induction xs arbitrary: x)
  case (Cons y ys)
  show ?case using Cons.IH [of x] Cons.IH [of y] by (cases "f y < f x") auto
qed simp

lemma matching_finding_in: "matching_finding c gs = Some g \<Longrightarrow> g \<in> set gs"
proof -
  assume "matching_finding c gs = Some g"
  then obtain x xs where x: "filter (\<lambda>g. gf_file g = cm_file c \<and> \<bar>gf_line g - cm_line c\<bar> \<le> 1) gs = x # xs"
    "g = min_by (\<lambda>g. \<bar>gf_line g - cm_line c\<bar>) x xs"
    by (auto simp: matching_finding_def split: list.splits)
  have "g \<in> set (x # xs)" unfolding x(2) by (rule min_by_in)
  then show "g \<in> set gs" unfolding x(1) [symmetric] by simp
qed

lemma match_comments_count:
  assumes "match_comments cs un ms fp = (un', ms', fp')"
  shows "length ms' + fp' = length ms + fp + length cs \<and> length ms' + length un' = length ms + length un"
  using assms
proof (induction cs un ms fp rule: match_comments.induct)
  case (2 c cs un ms fp)
  show ?case
  proof (cases "matching_finding c un")
    case None
    then show ?thesis using 2 by simp
  next
    case (Some g)
    then have "g \<in> set un" by (rule matching_finding_in)
    then have "length un = Suc (length (remove1 g un))" using length_pos_if_in_set [of g un] by (simp add: length_remove1)
    then show ?thesis using 2 Some by simp
  qed
qed simp

lemma length_div_unit: "length xs \<le> length ys \<Longrightarrow> unit_share (length_div xs ys)"
  using binary64.rnd_share [of "int (length xs)" "int (length ys)"]
  by (auto simp: unit_share_def length_div_def int_div_def)

lemma reasoning_unit:
  assumes "length cs \<le> 2 ^ 20"
  shows "unit_share (reasoning_quality cs)"
proof (cases "cs = []")
  case False
  let ?ms = "map (\<lambda>c. length (strip (cm_message c))) cs"
  have shares: "map (\<lambda>c. min (int_div (int (length (strip (cm_message c)))) 80) 1) cs = map share80 ?ms"
    by (simp add: share80_def)
  have "0 \<le> py_sum (map share80 ?ms) \<and> py_sum (map share80 ?ms) \<le> of_nat (length ?ms)"
    using False assms by (intro py_sum_shares) simp_all
  then have "0 \<le> py_sum (map share80 ?ms) / of_nat (length cs)" "py_sum (map share80 ?ms) / of_nat (length cs) \<le> 1"
    using False by (simp_all add: divide_le_eq)
  then show ?thesis using False binary64.rnd_nonneg binary64.rnd_le_1
    by (simp add: unit_share_def reasoning_quality_def shares fdiv_def del: map_map)
qed (simp add: unit_share_def reasoning_quality_def)

lemma fl_between:
  assumes "0 \<le> x" "x \<le> of_int n" "\<bar>n\<bar> < 2 ^ 53"
  shows "0 \<le> fl x \<and> fl x \<le> of_int n"
  using assms binary64.rnd_nonneg binary64.rnd_le_of_int by blast

lemma weighted_between:
  assumes "0 \<le> a" "a \<le> of_int m" "unit_share x" "0 \<le> k" "\<bar>m + k\<bar> < 2 ^ 53" "\<bar>k\<bar> < 2 ^ 53"
  shows "0 \<le> fadd a (fmul x (of_int k)) \<and> fadd a (fmul x (of_int k)) \<le> of_int (m + k)"
proof -
  have "0 \<le> x * of_int k \<and> x * of_int k \<le> of_int k"
    using assms(3,4) by (simp add: unit_share_def mult_left_le_one_le)
  then have "0 \<le> fmul x (of_int k) \<and> fmul x (of_int k) \<le> of_int k"
    unfolding fmul_def using assms(6) by (intro fl_between) simp_all
  then show ?thesis unfolding fadd_def using assms by (intro fl_between) simp_all
qed

lemma review_score_bounds:
  assumes "unit_share recall" "unit_share precision" "unit_share severity" "unit_share reasoning"
  shows "0 \<le> review_score recall precision severity reasoning correct \<and>
    review_score recall precision severity reasoning correct \<le> 100"
proof -
  let ?r = "fmul recall 50"
  let ?p = "fadd ?r (fmul precision 20)"
  let ?s = "fadd ?p (fmul severity 15)"
  let ?q = "fadd ?s (fmul reasoning 10)"
  let ?t = "fadd ?q (if correct then 5 else 0)"
  have "0 \<le> recall * 50 \<and> recall * 50 \<le> of_int 50" using assms(1) by (simp add: unit_share_def)
  then have "0 \<le> ?r \<and> ?r \<le> of_int 50" unfolding fmul_def by (intro fl_between) simp_all
  then have "0 \<le> ?p \<and> ?p \<le> of_int 70" using weighted_between [of ?r 50 precision 20] assms(2) by simp
  then have "0 \<le> ?s \<and> ?s \<le> of_int 85" using weighted_between [of ?p 70 severity 15] assms(3) by simp
  then have "0 \<le> ?q \<and> ?q \<le> of_int 95" using weighted_between [of ?s 85 reasoning 10] assms(4) by simp
  then have "0 \<le> ?t \<and> ?t \<le> of_int 100" unfolding fadd_def by (intro fl_between) simp_all
  then show ?thesis
    unfolding review_score_def
    using round_half_even_le_of_int [of ?t 100] round_half_even_ge_of_int [of 0 ?t] by simp
qed

lemma challenges_have_findings: "map_of challenges cid = Some spec \<Longrightarrow> cs_findings spec \<noteq> []"
  by (auto simp: challenges_def payments_retry_def split: if_splits)

lemma grade_review_total:
  assumes "get_public_challenge cid \<noteq> None" "length cs \<le> 2 ^ 20"
  shows "\<exists>g. grade_review cid cs verdict = Inr g"
proof -
  obtain spec where spec: "map_of challenges cid = Some spec"
    using assms(1) by (auto simp: get_public_challenge_def)
  obtain un ms fp where m: "match_comments cs (cs_findings spec) [] 0 = (un, ms, fp)"
    by (cases "match_comments cs (cs_findings spec) [] 0")
  have n: "length ms \<le> length cs" "length ms \<le> length (cs_findings spec)"
    using match_comments_count [OF m] by simp_all
  have "unit_share (int_div (int (length ms)) (int (length (cs_findings spec))))"
    using binary64.rnd_share [of "int (length ms)" "int (length (cs_findings spec))"] n(2) challenges_have_findings [OF spec]
    by (simp add: unit_share_def int_div_def)
  moreover have "unit_share (length_div ms cs)" "unit_share (length_div (filter P ms) ms)" for P
    using n(1) by (simp_all add: length_div_unit)
  moreover note reasoning_unit [OF assms(2)]
  ultimately show ?thesis
    using review_score_bounds
    by (simp add: grade_review_def spec m Let_def grade_fields_ok_def) (simp add: unit_share_def)
qed

lemma grade_review_fields:
  assumes "grade_review cid cs verdict = Inr g"
  shows "grade_fields_ok g \<and> rg_verdict_correct g = (verdict = Request_Changes)"
  using assms by (auto simp: grade_review_def Let_def split: option.splits prod.splits if_splits)

section \<open>Every route keeps the rows well formed\<close>

lemma touched_keys:
  assumes "\<And>r. (rv_id (f r), rv_user (f r), rv_challenge (f r)) = (rv_id r, rv_user r, rv_challenge r)"
  shows "(\<lambda>r. (rv_id r, rv_user r, rv_challenge r)) ` set (update_where P f t) =
    (\<lambda>r. (rv_id r, rv_user r, rv_challenge r)) ` set t" "map rv_id (update_where P f t) = map rv_id t"
  using assms by (induction t) auto

lemma touched_typed:
  assumes "review_store_typed d" "\<And>r. r \<in> set (review_sessions d) \<Longrightarrow> P r \<Longrightarrow> session_row_typed (f r)"
    and "\<And>r. (rv_id (f r), rv_user (f r), rv_challenge (f r)) = (rv_id r, rv_user r, rv_challenge r)"
  shows "review_store_typed (d\<lparr>review_sessions := update_where P f (review_sessions d)\<rparr>)"
  using assms(1,2) touched_keys [OF assms(3), of P "review_sessions d"]
  by (auto simp: review_store_typed_def comment_row_typed_def set_update_where)

lemma touch_typed:
  "review_store_typed d \<Longrightarrow> review_store_typed (d\<lparr>review_sessions := touch_review e sid (review_sessions d)\<rparr>)"
  unfolding touch_review_def
  by (rule touched_typed) (auto simp: review_store_typed_def session_row_typed_def cong: review_status.case_cong)

lemma find_in: "find P xs = Some x \<Longrightarrow> x \<in> set xs \<and> P x"
  by (induction xs) (auto split: if_splits)

lemma active_session:
  assumes "require_active_session e sid d = Inr r"
  shows "find (own_review e sid) (review_sessions d) = Some r \<and> r \<in> set (review_sessions d) \<and> own_review e sid r \<and>
    rv_status r = Active"
  using assms find_in [of "own_review e sid" "review_sessions d"]
  by (auto simp: require_active_session_def review_session_def res_bind_Inr_iff split: option.splits if_splits)

lemma length_strip: "length (strip s) \<le> length s"
  using length_dropWhile_le [of is_space s] length_dropWhile_le [of is_space "rev (dropWhile is_space s)"]
  by (simp add: strip_def)

lemma strip_not_blank:
  assumes "strip s \<noteq> []"
  shows "strip (strip s) \<noteq> []"
proof -
  let ?t = "dropWhile is_space (rev (dropWhile is_space s))"
  have t: "strip s = rev ?t" "?t \<noteq> []" using assms by (simp_all add: strip_def)
  then have c: "\<not> is_space (hd ?t)" "hd ?t \<in> set (strip s)" using hd_dropWhile [of is_space] by simp_all
  then have "dropWhile is_space (strip s) \<noteq> []" by (auto simp: dropWhile_eq_Nil_conv)
  then have d: "hd (dropWhile is_space (strip s)) \<in> set (dropWhile is_space (strip s))"
    "\<not> is_space (hd (dropWhile is_space (strip s)))" using hd_dropWhile [of is_space] by simp_all
  then show ?thesis by (auto simp: strip_def [of "strip s"] dropWhile_eq_Nil_conv)
qed

lemma payload_typed:
  assumes "review_comment_create file line severity message = Inr p"
  shows "cm_file p \<noteq> [] \<and> length (cm_file p) \<le> 500 \<and> 0 < cm_line p \<and> strip (cm_message p) \<noteq> [] \<and>
    length (cm_message p) \<le> 4000"
  using assms length_strip [of message] strip_not_blank [of message]
  by (auto simp: review_comment_create_def split: if_splits)

lemma route_typed:
  assumes "review_route d d'" "review_store_typed d"
  shows "review_store_typed d'"
  using assms
proof cases
  case (route_open e nid cid view)
  then obtain u where fresh: "get_public_challenge cid \<noteq> None" "nid \<notin> rv_id ` set (review_sessions d)"
    and d': "d' = d\<lparr>review_sessions := review_sessions d @ [new_review_session e u nid cid]\<rparr>"
    by (auto simp: create_review_session_def get_review_challenge_def res_bind_Inr_iff Let_def
        split: option.splits if_splits)
  have "session_row_typed (new_review_session e u nid cid)"
    using fresh(1) by (simp add: session_row_typed_def new_review_session_def)
  moreover have "comment_row_typed (review_sessions d @ [new_review_session e u nid cid]) c"
    if "comment_row_typed (review_sessions d) c" for c
    using that by (auto simp: comment_row_typed_def)
  moreover have "rv_id (new_review_session e u nid cid) = nid" by (simp add: new_review_session_def)
  ultimately show ?thesis using assms(2) fresh(2) by (auto simp: review_store_typed_def d')
next
  case (route_comment path line severity message payload e nid sid row)
  obtain s where s: "require_active_session e sid d = Inr s"
    and rest: "(if \<not> review_location_is_valid (rv_challenge s) (cm_file payload) (cm_line payload)
       then http_error 422 ''Review comment targets an unknown diff line''
       else if nid \<in> rc_id ` set (review_comments d) then Inl (Exn IntegrityErr [])
       else let row = comment_row e nid s sid payload
            in Inr (row, d\<lparr>review_comments := review_comments d @ [row],
                          review_sessions := touch_review e sid (review_sessions d)\<rparr>)) = Inr (row, d')"
    using route_comment(2) unfolding create_review_comment_def by (rule res_bind_InrE)
  then have s_ok: "review_location_is_valid (rv_challenge s) (cm_file payload) (cm_line payload)"
      "nid \<notin> rc_id ` set (review_comments d)" and row0: "row = comment_row e nid s sid payload"
    and d': "d' = d\<lparr>review_comments := review_comments d @ [row], review_sessions := touch_review e sid (review_sessions d)\<rparr>"
    by (auto simp: Let_def split: if_splits)
  have row: "row = \<lparr>rc_id = nid, rc_user = rv_user s, rc_session = sid, rc_file = cm_file payload,
      rc_line = cm_line payload, rc_severity = cm_severity payload, rc_message = cm_message payload,
      rc_created_at = db_now e\<rparr>" by (simp add: row0 comment_row_def)
  have "comment_row_typed (review_sessions d) row"
    using active_session [OF s] s_ok(1) payload_typed [OF route_comment(1)]
    by (force simp: comment_row_typed_def row own_review_def)
  then have "review_store_typed (d\<lparr>review_comments := review_comments d @ [row]\<rparr>)"
    using assms(2) s_ok(2) by (auto simp: review_store_typed_def row)
  from touch_typed [OF this, of e sid] show ?thesis by (simp add: d')
next
  case (route_delete e sid cid)
  then obtain hit where d': "d' = d\<lparr>review_comments := filter hit (review_comments d),
       review_sessions := touch_review e sid (review_sessions d)\<rparr>"
    by (auto simp: delete_review_comment_def res_bind_Inr_iff Let_def split: if_splits)
  have "review_store_typed (d\<lparr>review_comments := filter hit (review_comments d)\<rparr>)"
    using assms(2) by (auto simp: review_store_typed_def distinct_map_filter)
  from touch_typed [OF this, of e sid] show ?thesis by (simp add: d')
next
  case (route_submit e sid verdict out)
  then obtain s cs g where s: "require_active_session e sid d = Inr s" and g: "grade_review (rv_challenge s) cs verdict = Inr g"
    and d': "d' = d\<lparr>review_sessions := update_where (own_review e sid) (graded_row e verdict g) (review_sessions d)\<rparr>"
    by (auto simp: submit_review_session_def res_bind_Inr_iff Let_def split: if_splits)
  have "session_row_typed (graded_row e verdict g r)" if "r \<in> set (review_sessions d)" for r
    using that assms(2) grade_review_fields [OF g]
    by (auto simp: review_store_typed_def session_row_typed_def graded_row_def grade_fields_ok_def unit_share_def)
  then show ?thesis unfolding d' using assms(2) by (intro touched_typed) (simp_all add: graded_row_def)
qed

lemma review_store_reachable_typed: "review_store_reachable d \<Longrightarrow> review_store_typed d"
proof (induction rule: review_store_reachable.induct)
  case no_reviews
  then show ?case by (simp add: review_store_typed_def)
qed (rule route_typed)

section \<open>A submission succeeds\<close>

lemma find_own_review:
  assumes "distinct (map rv_id t)" "r \<in> set t" "own_review e sid r"
  shows "find (own_review e sid) t = Some r"
proof -
  have "find (own_review e sid) t = (case row_with rv_id sid t of None \<Rightarrow> None
      | Some r \<Rightarrow> if own_review e sid r then Some r else None)"
    using assms(1) by (rule find_guard) (simp add: own_review_def)
  then show ?thesis using assms row_with_distinct [OF assms(1,2)] by (simp add: own_review_def)
qed

lemma res_map_total: "\<forall>x\<in>set xs. \<exists>y. f x = Inr y \<Longrightarrow> \<exists>ys. res_map f xs = Inr ys"
  by (induction xs) auto

lemma comment_input_typed: "comment_row_typed t c \<Longrightarrow> \<exists>i. comment_input c = Inr i"
  by (auto simp: comment_row_typed_def comment_input_def strip_def)

lemma submit_total:
  assumes "review_store_typed d" "r \<in> set (review_sessions d)" "own_review e sid r" "rv_status r = Active"
    and "comment_rows e sid d \<noteq> []" "length (comment_rows e sid d) \<le> 2 ^ 20"
  shows "\<exists>grade d'. submit_review_session e sid verdict d = Inr ((graded_row e verdict grade r, grade), d')"
proof -
  have find: "find (own_review e sid) (review_sessions d) = Some r"
    using assms(1-3) by (intro find_own_review) (simp_all add: review_store_typed_def)
  then have active: "require_active_session e sid d = Inr r"
    using assms(4) by (simp add: require_active_session_def review_session_def)
  have "\<forall>c\<in>set (comment_rows e sid d). \<exists>i. comment_input c = Inr i"
    using assms(1) comment_input_typed by (auto simp: review_store_typed_def comment_rows_def)
  then obtain cs where cs: "res_map comment_input (comment_rows e sid d) = Inr cs" using res_map_total by blast
  have "get_public_challenge (rv_challenge r) \<noteq> None" using assms(1,2) by (simp add: review_store_typed_def session_row_typed_def)
  moreover have "length cs \<le> 2 ^ 20" using res_map_Inr_length [OF cs] assms(6) by simp
  ultimately obtain g where g: "grade_review (rv_challenge r) cs verdict = Inr g" using grade_review_total by blast
  let ?t = "update_where (own_review e sid) (graded_row e verdict g) (review_sessions d)"
  have "graded_row e verdict g r \<in> set ?t" using assms(2,3) by (auto simp: set_update_where)
  moreover have "distinct (map rv_id ?t)"
    using assms(1) by (subst map_update_where_same) (simp_all add: graded_row_def review_store_typed_def)
  ultimately have "find (own_review e sid) ?t = Some (graded_row e verdict g r)"
    using assms(3) by (intro find_own_review) (simp_all add: own_review_def graded_row_def)
  then show ?thesis
    using assms(5) by (simp add: submit_review_session_def active cs g Let_def review_session_def)
qed

section \<open>A review from its opening to its grade\<close>

definition opened_review :: review_store where
  "opened_review = \<lparr>review_sessions = [new_review_session (sample_env 10) 7 1 ''payments-retry-001''], review_comments = []\<rparr>"

definition first_comment :: review_comment_row where
  "first_comment = \<lparr>rc_id = 2, rc_user = 7, rc_session = 1, rc_file = ''apps/api/src/payments/capture.ts'', rc_line = 12,
     rc_severity = Blocker, rc_message = ''retries double-charge'', rc_created_at = 20\<rparr>"

definition commented_review :: review_store where
  "commented_review = \<lparr>review_sessions = [(new_review_session (sample_env 10) 7 1 ''payments-retry-001'')\<lparr>rv_updated_at := 20\<rparr>],
     review_comments = [first_comment]\<rparr>"

lemmas review_eval = sample_env_def opened_review_def first_comment_def commented_review_def new_review_session_def own_review_def
  payments_retry_def challenges_def get_public_challenge_def

lemma opened_reachable: "review_store_reachable opened_review"
proof (rule after_route [OF no_reviews route_open])
  show "create_review_session (sample_env 10) 1 ''payments-retry-001'' \<lparr>review_sessions = [], review_comments = []\<rparr> =
    Inr (new_review_session (sample_env 10) 7 1 ''payments-retry-001'', opened_review)"
    by (simp add: create_review_session_def get_review_challenge_def review_session_def review_eval Let_def)
qed

lemma commented_reachable: "review_store_reachable commented_review"
proof (rule after_route [OF opened_reachable route_comment])
  show "review_comment_create ''apps/api/src/payments/capture.ts'' 12 Blocker '' retries double-charge'' =
    Inr \<lparr>cm_file = ''apps/api/src/payments/capture.ts'', cm_line = 12, cm_severity = Blocker, cm_message = ''retries double-charge''\<rparr>"
    by code_simp
  show "create_review_comment (sample_env 20) 2 1 \<lparr>cm_file = ''apps/api/src/payments/capture.ts'', cm_line = 12,
      cm_severity = Blocker, cm_message = ''retries double-charge''\<rparr> opened_review = Inr (first_comment, commented_review)"
    by (simp add: create_review_comment_def require_active_session_def review_session_def comment_row_def touch_review_def
        review_location_is_valid_def file_capture_def diff_line_def review_eval Let_def)
qed

text \<open>C27: In every state the review routes reach, the rows are well formed: a session names a known
  challenge and has no grade while it is active, and a verdict, a score of 0 to 100, shares in the
  unit interval and a submission time once it is submitted; a comment belongs to a session of its
  author, targets a line of the challenge's diff and is not blank. And submitting an own active
  session with 1 to 2^20 comments succeeds: neither a stored comment nor the grade, a compensated
  sum of rounded floats, can leave the bounds of the response models.\<close>

theorem review_sessions_well_typed:
  assumes "review_store_reachable d"
  shows "review_store_typed d \<and>
    (\<forall>e sid verdict. \<forall>r\<in>set (review_sessions d). own_review e sid r \<and> rv_status r = Active \<and>
        comment_rows e sid d \<noteq> [] \<and> length (comment_rows e sid d) \<le> 2 ^ 20 \<longrightarrow>
      (\<exists>grade d'. submit_review_session e sid verdict d = Inr ((graded_row e verdict grade r, grade), d')))"
  using review_store_reachable_typed [OF assms] submit_total by blast

theorem review_sessions_well_typed_witness:
  "\<exists>grade d'. submit_review_session (sample_env 30) 1 Request_Changes commented_review =
     Inr ((graded_row (sample_env 30) Request_Changes grade
       ((new_review_session (sample_env 10) 7 1 ''payments-retry-001'')\<lparr>rv_updated_at := 20\<rparr>), grade), d')"
proof -
  have "comment_rows (sample_env 30) 1 commented_review = [first_comment]"
    by (simp add: comment_rows_def review_eval)
  then show ?thesis
    using review_sessions_well_typed [OF commented_reachable] by (simp add: review_eval)
qed

end
