(* ===== verification/Arena_Guarantees.thy ===== *)
theory Arena_Guarantees imports Arena Practice_Guarantees begin

text \<open>
  What the arena guarantees: a candidate's public rating is determined by the best score on each
  question version, so repeating a question gains only the improvement; and what two finalisations
  of one candidate that run at the same time do to that.
\<close>

section \<open>Rating gains telescope\<close>

lemma gain_nonneg: "0 \<le> (case map_of difficulty_gain k of None \<Rightarrow> 28 | Some g \<Rightarrow> g)"
  by (simp add: difficulty_gain_def)

lemma clamp_mono: "a \<le> b \<Longrightarrow> clamp a lo hi \<le> clamp b lo hi"
  by (simp add: clamp_def)

lemma contribution_nonneg: "0 \<le> rating_contribution difficulty score"
proof (cases "score < 50")
  case False
  let ?s = "int_div (clamp score 50 100 - 50) 50"
  have "0 \<le> ?s \<and> ?s \<le> 1"
    unfolding int_div_def by (rule binary64.rnd_share) (simp_all add: clamp_def)
  then show ?thesis
    using binary64.scaled_share_bounds [of ?s "case map_of difficulty_gain (casefold difficulty) of None \<Rightarrow> 28 | Some g \<Rightarrow> g"]
      gain_nonneg [of "casefold difficulty"] False
    by (simp add: rating_contribution_def fmul_def difficulty_gain_def Let_def)
qed (simp add: rating_contribution_def Let_def)

lemma contribution_mono:
  assumes "a \<le> b"
  shows "rating_contribution difficulty a \<le> rating_contribution difficulty b"
proof (cases "a < 50")
  case True
  then have "rating_contribution difficulty a = 0" by (simp add: rating_contribution_def Let_def)
  then show ?thesis using contribution_nonneg by simp
next
  case False
  have "int_div (clamp a 50 100 - 50) 50 \<le> int_div (clamp b 50 100 - 50) 50"
    unfolding int_div_def using clamp_mono [OF assms] by (intro binary64.rnd_share_mono) simp_all
  then have "round_half_even (fmul (int_div (clamp a 50 100 - 50) 50) (of_int k)) \<le>
      round_half_even (fmul (int_div (clamp b 50 100 - 50) 50) (of_int k))" if "0 \<le> k" for k
    unfolding fmul_def using that by (intro binary64.scaled_share_mono)
  then show ?thesis
    using False assms gain_nonneg [of "casefold difficulty"] by (simp add: rating_contribution_def Let_def)
qed

text \<open>What a best score is worth, and the best of a score and an earlier best.\<close>

definition best_value :: "string \<Rightarrow> int option \<Rightarrow> int" where
  "best_value difficulty best =
     (case best of None \<Rightarrow> 0 | Some b \<Rightarrow> rating_contribution difficulty b + (if 70 \<le> b then 5 else 0))"

definition better :: "int \<Rightarrow> int option \<Rightarrow> int" where
  "better points best = (case best of None \<Rightarrow> points | Some b \<Rightarrow> max b points)"

lemma best_value_nonneg: "0 \<le> best_value difficulty best"
  using contribution_nonneg by (simp add: best_value_def split: option.split)

lemma delta_telescopes:
  "rating_delta difficulty points best (solves_first points best) =
     best_value difficulty (Some (better points best)) - best_value difficulty best"
proof (cases best)
  case None
  then show ?thesis using contribution_nonneg [of difficulty points]
    by (simp add: rating_delta_def best_value_def better_def solves_first_def Let_def)
next
  case (Some b)
  show ?thesis
  proof (cases "points \<le> b")
    case True
    then show ?thesis using Some contribution_mono [OF True, of difficulty]
      by (auto simp: rating_delta_def best_value_def better_def solves_first_def max_def Let_def)
  next
    case False
    then show ?thesis using Some contribution_mono [of b points difficulty]
      by (auto simp: rating_delta_def best_value_def better_def solves_first_def max_def Let_def)
  qed
qed

section \<open>The ledger\<close>

definition played :: "uuid \<Rightarrow> arena \<Rightarrow> uuid set" where
  "played u s = set (List.map_filter (\<lambda>r. if ar_user r = u
     then map_option ag_question_version (generation_of s r) else None) (arena_results s))"

definition solved_value :: "int option \<Rightarrow> int" where
  "solved_value best = (case best of None \<Rightarrow> 0 | Some b \<Rightarrow> if 70 \<le> b then 1 else 0)"

definition profile_settled :: "(uuid \<Rightarrow> string) \<Rightarrow> arena \<Rightarrow> arena_profile_row \<Rightarrow> bool" where
  "profile_settled D s p \<longleftrightarrow>
     ap_rating p = 1000 + (\<Sum>vid\<in>played (ap_user p) s. best_value (D vid) (previous_best (ap_user p) vid s)) \<and>
     ap_solved_count p = (\<Sum>vid\<in>played (ap_user p) s. solved_value (previous_best (ap_user p) vid s)) \<and>
     ap_submission_count p = int (length (filter (\<lambda>r. ar_user r = ap_user p) (arena_results s))) \<and>
     ap_tier p = tier_for_rating (ap_rating p)"

definition result_linked :: "arena \<Rightarrow> arena_result_row \<Rightarrow> bool" where
  "result_linked s r \<longleftrightarrow> (\<exists>g\<in>set (arena_generations s). ag_id g = ar_generation r \<and> ag_user g = ar_user r) \<and>
     ar_user r \<in> ap_user ` set (arena_profiles s) \<and> score_fields_ok (result_score r) \<and> 0 \<le> ar_rating_delta r"

definition arena_inv :: "(uuid \<Rightarrow> string) \<Rightarrow> arena \<Rightarrow> bool" where
  "arena_inv D s \<longleftrightarrow> distinct (map ap_user (arena_profiles s)) \<and> distinct (map ag_id (arena_generations s)) \<and>
     distinct (map ar_generation (arena_results s)) \<and> distinct (map ar_submission (arena_results s)) \<and>
     (\<forall>r\<in>set (arena_results s). result_linked s r) \<and> (\<forall>p\<in>set (arena_profiles s). profile_settled D s p)"

lemma finite_played [simp]: "finite (played u s)"
  by (simp add: played_def)

lemma scores_none: "vid \<notin> played u s \<Longrightarrow> previous_best u vid s = None"
  by (auto simp: played_def previous_best_def arena_scores_def List.map_filter_def filter_empty_conv image_iff
      split: option.splits)

lemma sum_one_more:
  fixes f g :: "'a \<Rightarrow> int"
  assumes "finite P" "\<And>v. v \<noteq> x \<Longrightarrow> g v = f v" "x \<notin> P \<Longrightarrow> f x = 0"
  shows "sum g (insert x P) = sum f P + (g x - f x)"
proof -
  have rest: "sum g (P - {x}) = sum f (P - {x})" using assms(2) by (intro sum.cong) auto
  have "sum g (insert x P) = g x + sum g (P - {x})" using assms(1) by (simp add: sum.insert_remove)
  moreover have "sum f P = f x + sum f (P - {x})"
    using assms(1,3) by (cases "x \<in> P") (simp_all add: sum.remove)
  ultimately show ?thesis using rest by simp
qed

text \<open>The tables after one more result: everything the ledger reads.\<close>

lemma one_more_result:
  assumes "arena_generations s2 = arena_generations s" "arena_results s2 = arena_results s @ [row]"
    and "generation_of s row = Some g"
  shows "arena_scores u vid s2 = arena_scores u vid s @
      (if ar_user row = u \<and> ag_question_version g = vid then [ar_total row] else [])"
    and "played u s2 = (if ar_user row = u then insert (ag_question_version g) (played u s) else played u s)"
  using assms by (auto simp: arena_scores_def played_def generation_of_def List.map_filter_def)

lemma best_after:
  assumes "arena_generations s2 = arena_generations s" "arena_results s2 = arena_results s @ [row]"
    and "generation_of s row = Some g"
  shows "previous_best u vid s2 = (if ar_user row = u \<and> ag_question_version g = vid
     then Some (better (ar_total row) (previous_best u vid s)) else previous_best u vid s)"
  using one_more_result(1) [OF assms, of u vid]
  by (auto simp: previous_best_def better_def max.commute)

lemma ledger_kept:
  assumes "arena_results s2 = arena_results s" "\<forall>r\<in>set (arena_results s). generation_of s2 r = generation_of s r"
  shows "arena_scores u vid s2 = arena_scores u vid s" "played u s2 = played u s"
    "previous_best u vid s2 = previous_best u vid s" "profile_settled D s2 p = profile_settled D s p"
proof -
  show scores: "arena_scores u vid s2 = arena_scores u vid s" for u vid
    unfolding arena_scores_def assms(1) using assms(2) by (intro arg_cong [where f = "map ar_total"] filter_cong) auto
  show best: "previous_best u vid s2 = previous_best u vid s" for u vid by (simp add: previous_best_def scores)
  show played: "played u s2 = played u s" for u
    unfolding played_def assms(1) using assms(2) by (auto simp: List.map_filter_def)
  show "profile_settled D s2 p = profile_settled D s p" by (simp add: profile_settled_def best played assms(1))
qed

section \<open>Operations keep the ledger\<close>

inductive arena_step :: "(uuid \<Rightarrow> string) \<Rightarrow> arena \<Rightarrow> arena \<Rightarrow> bool" for D where
  arena_begin: "begin_generation e limit req key d s = Inr (out, s') \<Longrightarrow> arena_step D s s'"
| arena_store: "store_generation e nid req key question gen d s = Inr (view, s') \<Longrightarrow> arena_step D s s'"
| arena_finalize: "finalize_arena_submission e nid gid sid d s s = Inr (view, s') \<Longrightarrow>
    \<forall>v\<in>set (question_versions d). version_difficulty v = D (qv_id v) \<Longrightarrow> arena_step D s s'"
| arena_accounts: "arena_step D s (s\<lparr>arena_users := accounts\<rparr>)"

inductive arena_reachable :: "(uuid \<Rightarrow> string) \<Rightarrow> arena \<Rightarrow> bool" for D where
  empty_arena: "arena_reachable D \<lparr>arena_profiles = [], arena_limits = [], arena_generations = [], arena_results = [],
    arena_users = accounts\<rparr>"
| after_arena_step: "arena_reachable D s \<Longrightarrow> arena_step D s s' \<Longrightarrow> arena_reachable D s'"

lemma inv_same_tables:
  assumes "arena_inv D s" "arena_profiles s2 = arena_profiles s" "arena_generations s2 = arena_generations s"
    and "arena_results s2 = arena_results s"
  shows "arena_inv D s2"
proof -
  have "profile_settled D s2 p = profile_settled D s p" for p
    by (rule ledger_kept(4)) (simp_all add: assms generation_of_def)
  then show ?thesis using assms by (simp add: arena_inv_def result_linked_def)
qed

lemma quota_tables:
  assumes "consume_generation_quota e limit s = Inr s'"
  shows "arena_profiles s' = arena_profiles s \<and> arena_generations s' = arena_generations s \<and>
    arena_results s' = arena_results s"
  using assms by (auto simp: consume_generation_quota_def split: option.splits if_splits)

lemma begin_tables:
  assumes "begin_generation e limit req key d s = Inr (out, s')"
  shows "arena_profiles s' = arena_profiles s \<and> arena_generations s' = arena_generations s \<and>
    arena_results s' = arena_results s"
  using assms quota_tables
  by (auto simp: begin_generation_def res_bind_Inr_iff split: option.splits)

lemma store_tables:
  assumes "store_generation e nid req key question gen d s = Inr (view, s')"
  shows "s' = s \<or> (\<exists>row. ag_id row \<notin> ag_id ` set (arena_generations s) \<and>
    s' = s\<lparr>arena_generations := arena_generations s @ [row]\<rparr>)"
proof -
  obtain stored where "replayed_generation e req key d s = Inr stored"
    and rest: "(case stored of Some view \<Rightarrow> Inr (view, s)
     | None \<Rightarrow> res_bind (published_arena_question (lib e) (gc_challenge_slug req) d) (\<lambda>fresh.
         if qp_question_version_id fresh \<noteq> qp_question_version_id question
         then http_fail 409 ''Challenge version changed during generation; generate again.''
         else case user_id e of None \<Rightarrow> db_fail ''user_id''
         | Some u \<Rightarrow>
           let row = new_generation_row e u nid req key fresh gen in
           if nid \<in> ag_id ` set (arena_generations s) then db_fail ''ai_arena_generations_pkey''
           else if ag_prompt row = [] \<or> 4000 < length (ag_prompt row)
           then db_fail ''ck_ai_arena_generations_prompt_length''
           else if gen_code gen = [] \<or> 100000 < length (gen_code gen)
           then db_fail ''ck_ai_arena_generations_code_length''
           else let s1 = s\<lparr>arena_generations := arena_generations s @ [row]\<rparr>
                in res_bind (generation_view d row) (\<lambda>view. Inr (view, s1)))) = Inr (view, s')"
    using assms unfolding store_generation_def by (rule res_bind_InrE)
  show ?thesis
  proof (cases stored)
    case None
    then obtain fresh where fresh: "published_arena_question (lib e) (gc_challenge_slug req) d = Inr fresh"
      using rest by (auto simp: res_bind_Inr_iff)
    obtain u where u: "user_id e = Some u"
      using rest None fresh by (cases "user_id e") (simp_all split: if_splits)
    have "nid \<notin> ag_id ` set (arena_generations s) \<and>
        s' = s\<lparr>arena_generations := arena_generations s @ [new_generation_row e u nid req key fresh gen]\<rparr>"
      using rest unfolding None by (simp add: fresh u Let_def res_bind_Inr_iff split: if_splits)
    then show ?thesis by (intro disjI2 exI [of _ "new_generation_row e u nid req key fresh gen"])
      (simp add: new_generation_row_def)
  qed (use rest in simp)
qed

lemma store_inv:
  assumes "arena_inv D s" "ag_id row \<notin> ag_id ` set (arena_generations s)"
  shows "arena_inv D (s\<lparr>arena_generations := arena_generations s @ [row]\<rparr>)" (is "arena_inv D ?s2")
proof -
  have "generation_of ?s2 r = generation_of s r" if r: "r \<in> set (arena_results s)" for r
  proof -
    have "ar_generation r \<in> ag_id ` set (arena_generations s)"
      using assms(1) r by (force simp: arena_inv_def result_linked_def)
    then obtain g where "row_with ag_id (ar_generation r) (arena_generations s) = Some g"
      using row_with_None_iff [of ag_id "ar_generation r"] by (cases "row_with ag_id (ar_generation r) (arena_generations s)") auto
    then show ?thesis by (simp add: generation_of_def row_with_append)
  qed
  then have "profile_settled D ?s2 p = profile_settled D s p" for p by (intro ledger_kept(4)) simp_all
  then show ?thesis using assms by (auto simp: arena_inv_def result_linked_def)
qed

lemma ensure_profile_inv:
  assumes "arena_inv D s"
  shows "arena_inv D (ensure_profile e u s)"
proof (cases "u \<in> ap_user ` set (arena_profiles s)")
  case False
  let ?s2 = "s\<lparr>arena_profiles := arena_profiles s @ [new_profile_row e u]\<rparr>"
  have same: "profile_settled D ?s2 p = profile_settled D s p" for p
    by (rule ledger_kept(4)) (simp_all add: generation_of_def)
  have "\<forall>r\<in>set (arena_results s). ar_user r \<noteq> u" using assms False by (auto simp: arena_inv_def result_linked_def)
  then have none: "played u s = {}" "filter (\<lambda>r. ar_user r = u) (arena_results s) = []"
    by (auto simp: played_def List.map_filter_def filter_empty_conv)
  have "profile_settled D s (new_profile_row e u)"
    by (simp add: profile_settled_def new_profile_row_def none tier_for_rating_def)
  then show ?thesis using assms False same
    by (auto simp: arena_inv_def result_linked_def ensure_profile_def new_profile_row_def)
qed (simp add: ensure_profile_def assms)

lemma rate_cases:
  assumes "rate_submission e nid u gid sid pair best s = Inr (view, s')"
  obtains p row where "row_with ap_user u (arena_profiles (ensure_profile e u s)) = Some p"
    "row = new_result_row_of e u nid gid sid (pair_score pair)
      (rating_delta (version_difficulty (pa_version pair)) (as_total (pair_score pair)) best
        (solves_first (as_total (pair_score pair)) best)) (ap_rating p + ar_rating_delta row)"
    "gid \<notin> ar_generation ` set (arena_results s)" "sid \<notin> ar_submission ` set (arena_results s)"
    "score_fields_ok (result_score row)" "0 \<le> ar_rating_delta row"
    "result_view (pa_slug pair) row = Inr view"
    "s' = (ensure_profile e u s)\<lparr>arena_profiles := update_where (\<lambda>p. ap_user p = u)
        (rated_profile e (ar_rating_after row) (solves_first (ar_total row) best)) (arena_profiles (ensure_profile e u s)),
      arena_results := arena_results (ensure_profile e u s) @ [row]\<rparr>"
proof -
  obtain p where p: "row_with ap_user u (arena_profiles (ensure_profile e u s)) = Some p"
    using assms by (cases "row_with ap_user u (arena_profiles (ensure_profile e u s))") (simp_all add: rate_submission_def Let_def)
  let ?delta = "rating_delta (version_difficulty (pa_version pair)) (as_total (pair_score pair)) best
        (solves_first (as_total (pair_score pair)) best)"
  let ?row = "new_result_row_of e u nid gid sid (pair_score pair) ?delta (ap_rating p + ?delta)"
  have row: "ar_rating_delta ?row = ?delta" "ar_rating_after ?row = ap_rating p + ?delta"
    "ar_total ?row = as_total (pair_score pair)" "result_score ?row = pair_score pair"
    by (simp_all add: new_result_row_of_def result_score_def)
  show ?thesis
  proof (rule that [of p ?row])
    show "?row = new_result_row_of e u nid gid sid (pair_score pair) ?delta (ap_rating p + ar_rating_delta ?row)"
      by (simp only: row)
  qed (use assms p in \<open>auto simp: rate_submission_def Let_def res_bind_Inr_iff row split: if_splits\<close>)
qed

lemma finalize_cases:
  assumes "finalize_arena_submission e nid gid sid d seen s = Inr (view, s')"
  obtains "s' = s"
  | pair where "arena_pair_of e gid sid d s = Some pair"
    "rate_submission e nid (ag_user (pa_generation pair)) gid sid pair
       (previous_best (ag_user (pa_generation pair)) (ag_question_version (pa_generation pair)) seen) s = Inr (view, s')"
    "ag_generated_code (pa_generation pair) = sb_submitted_source (pa_submission pair)"
proof -
  obtain by_gen where 1: "stored_arena_result e (\<lambda>r. ar_generation r = gid) d s = Inr by_gen"
    using assms unfolding finalize_arena_submission_def by (rule res_bind_InrE)
  show ?thesis
  proof (cases by_gen)
    case (Some v)
    then show ?thesis using assms 1 that(1) by (simp add: finalize_arena_submission_def split: if_splits)
  next
    case no_gen: None
    obtain by_sub where 2: "stored_arena_result e (\<lambda>r. ar_submission r = sid) d s = Inr by_sub"
      using assms 1 no_gen unfolding finalize_arena_submission_def by (auto simp: res_bind_Inr_iff)
    show ?thesis
    proof (cases by_sub)
      case (Some v)
      then show ?thesis using assms 1 2 no_gen that(1) by (simp add: finalize_arena_submission_def split: if_splits)
    next
      case None
      then show ?thesis using assms 1 2 no_gen that(2)
        by (simp add: finalize_arena_submission_def Let_def split: option.splits if_splits)
    qed
  qed
qed

lemma arena_pair_facts:
  assumes "arena_pair_of e gid sid d s = Some pair"
  shows "row_with ag_id gid (arena_generations s) = Some (pa_generation pair)"
    "pa_version pair \<in> set (question_versions d)" "qv_id (pa_version pair) = ag_question_version (pa_generation pair)"
    "user_id e = Some (ag_user (pa_generation pair))"
  using assms row_with_SomeD [of qv_id _ "question_versions d"]
  by (auto simp: arena_pair_of_def bind_eq_Some_conv split: if_splits)

lemma rated_settled:
  assumes inv: "arena_inv D s" and u: "row_with ap_user u (arena_profiles s) = Some p"
    and g: "generation_of s row = Some g" "ar_user row = u" "ag_question_version g = vid"
    and delta: "ar_rating_delta row = best_value (D vid) (Some (better (ar_total row) (previous_best u vid s))) -
      best_value (D vid) (previous_best u vid s)"
    and after: "ar_rating_after row = ap_rating p + ar_rating_delta row"
    and s2: "arena_generations s2 = arena_generations s" "arena_results s2 = arena_results s @ [row]"
  shows "profile_settled D s2 (rated_profile e (ar_rating_after row) (solves_first (ar_total row) (previous_best u vid s)) p)"
    and "q \<in> set (arena_profiles s) \<Longrightarrow> ap_user q \<noteq> u \<Longrightarrow> profile_settled D s2 q"
proof -
  have best: "previous_best w v s2 = (if w = u \<and> v = vid
      then Some (better (ar_total row) (previous_best u vid s)) else previous_best w v s)" for w v
    using best_after [OF s2 g(1), of w v] g(2,3) by auto
  have played: "played w s2 = (if w = u then insert vid (played u s) else played w s)" for w
    using one_more_result(2) [OF s2 g(1), of w] g(2,3) by simp
  have p: "p \<in> set (arena_profiles s)" "ap_user p = u" using row_with_SomeD [OF u] by simp_all
  then have settled: "profile_settled D s p" using inv by (simp add: arena_inv_def)
  have rating: "(\<Sum>v\<in>insert vid (played u s). best_value (D v) (previous_best u v s2)) =
      (\<Sum>v\<in>played u s. best_value (D v) (previous_best u v s)) + ar_rating_delta row"
    unfolding delta by (subst sum_one_more [where f = "\<lambda>v. best_value (D v) (previous_best u v s)"])
      (simp_all add: best scores_none best_value_def)
  have solved: "(\<Sum>v\<in>insert vid (played u s). solved_value (previous_best u v s2)) =
      (\<Sum>v\<in>played u s. solved_value (previous_best u v s)) +
        (if solves_first (ar_total row) (previous_best u vid s) then 1 else 0)"
    by (subst sum_one_more [where f = "\<lambda>v. solved_value (previous_best u v s)"])
      (auto simp: best scores_none solved_value_def solves_first_def better_def max_def split: option.splits)
  show "profile_settled D s2 (rated_profile e (ar_rating_after row) (solves_first (ar_total row) (previous_best u vid s)) p)"
    using settled p(2) g(2) by (simp add: profile_settled_def rated_profile_def after played rating solved s2(2))
  show "profile_settled D s2 q" if "q \<in> set (arena_profiles s)" "ap_user q \<noteq> u"
    using that inv g(2) by (simp add: arena_inv_def profile_settled_def played best s2(2))
qed

lemma finalize_inv:
  assumes inv: "arena_inv D s" and run: "finalize_arena_submission e nid gid sid d s s = Inr (view, s')"
    and D: "\<forall>v\<in>set (question_versions d). version_difficulty v = D (qv_id v)"
  shows "arena_inv D s'"
  using run
proof (cases rule: finalize_cases)
  case 1
  then show ?thesis using inv by simp
next
  case (2 pair)
  let ?g = "pa_generation pair" and ?u = "ag_user (pa_generation pair)"
  let ?vid = "ag_question_version (pa_generation pair)" and ?s1 = "ensure_profile e (ag_user (pa_generation pair)) s"
  note g = arena_pair_facts [OF 2(1)]
  have inv1: "arena_inv D ?s1" by (rule ensure_profile_inv [OF inv])
  have gens: "arena_generations ?s1 = arena_generations s" "arena_results ?s1 = arena_results s"
    by (simp_all add: ensure_profile_def)
  have best1: "previous_best w v ?s1 = previous_best w v s" for w v
    by (rule ledger_kept(3)) (simp_all add: gens generation_of_def)
  have difficulty: "version_difficulty (pa_version pair) = D ?vid" using D g(2,3) by simp
  from 2(2) show ?thesis
  proof (rule rate_cases)
    fix p row
    assume p: "row_with ap_user ?u (arena_profiles ?s1) = Some p"
      and row: "row = new_result_row_of e ?u nid gid sid (pair_score pair)
        (rating_delta (version_difficulty (pa_version pair)) (as_total (pair_score pair)) (previous_best ?u ?vid s)
          (solves_first (as_total (pair_score pair)) (previous_best ?u ?vid s))) (ap_rating p + ar_rating_delta row)"
      and fresh: "gid \<notin> ar_generation ` set (arena_results s)" "sid \<notin> ar_submission ` set (arena_results s)"
      and ok: "score_fields_ok (result_score row)" "0 \<le> ar_rating_delta row"
      and s': "s' = ?s1\<lparr>arena_profiles := update_where (\<lambda>p. ap_user p = ?u)
          (rated_profile e (ar_rating_after row) (solves_first (ar_total row) (previous_best ?u ?vid s))) (arena_profiles ?s1),
        arena_results := arena_results ?s1 @ [row]\<rparr>"
    have fields: "ar_user row = ?u" "ar_generation row = gid" "ar_submission row = sid"
      "ar_total row = as_total (pair_score pair)" "ar_rating_after row = ap_rating p + ar_rating_delta row"
      "ar_rating_delta row = rating_delta (D ?vid) (ar_total row) (previous_best ?u ?vid ?s1)
        (solves_first (ar_total row) (previous_best ?u ?vid ?s1))"
      by (subst row, simp add: new_result_row_of_def best1 difficulty)+
    have gen: "generation_of ?s1 row = Some ?g" using g(1) by (simp add: generation_of_def gens fields(2))
    have s2: "arena_generations s' = arena_generations ?s1" "arena_results s' = arena_results ?s1 @ [row]" by (simp_all add: s')
    note settled = rated_settled [OF inv1 p gen fields(1) refl fields(6) [unfolded delta_telescopes] fields(5) s2]
    have users: "map ap_user (arena_profiles s') = map ap_user (arena_profiles ?s1)"
      unfolding s' by (simp add: map_update_where_same rated_profile_def)
    have only: "q = p" if "q \<in> set (arena_profiles ?s1)" "ap_user q = ?u" for q
      using that inv1 p row_with_distinct [of ap_user "arena_profiles ?s1" q] by (simp add: arena_inv_def)
    have profiles: "profile_settled D s' q" if "q \<in> set (arena_profiles s')" for q
      using that unfolding s' using settled only by (auto elim!: in_update_whereE simp: best1 s' split: if_splits)
    have linked: "result_linked s' r" if "r \<in> set (arena_results s')" for r
    proof (cases "r = row")
      case True
      have "?g \<in> set (arena_generations s')" "ag_id ?g = gid" using row_with_SomeD [OF g(1)] by (simp_all add: s2 gens)
      moreover have "?u \<in> set (map ap_user (arena_profiles s'))" unfolding users using row_with_SomeD [OF p] by (auto simp: rev_image_eqI)
      ultimately show ?thesis using ok fields(1,2) True by (auto simp: result_linked_def)
    next
      case False
      then have "result_linked ?s1 r" using that inv1 by (auto simp: s2 arena_inv_def)
      then show ?thesis unfolding result_linked_def s2(1) set_map [symmetric] users .
    qed
    show ?thesis
      using inv1 fresh profiles linked unfolding arena_inv_def users
      by (simp add: s2 fields(2,3) gens)
  qed
qed

lemma arena_step_inv:
  assumes "arena_step D s s'" "arena_inv D s"
  shows "arena_inv D s'"
  using assms(1)
proof cases
  case (arena_begin e limit req key d out)
  then show ?thesis using inv_same_tables [OF assms(2)] begin_tables by blast
next
  case (arena_store e nid req key question gen d view)
  then show ?thesis using store_tables [OF arena_store] store_inv [OF assms(2)] assms(2) by auto
next
  case (arena_finalize e nid gid sid d view)
  then show ?thesis using finalize_inv [OF assms(2)] by simp
next
  case (arena_accounts accounts)
  then show ?thesis using inv_same_tables [OF assms(2)] by simp
qed

lemma arena_reachable_inv: "arena_reachable D s \<Longrightarrow> arena_inv D s"
proof (induction rule: arena_reachable.induct)
  case (empty_arena accounts)
  then show ?case by (simp add: arena_inv_def)
qed (rule arena_step_inv)

section \<open>Scores stay in their bounds\<close>

lemma correctness_bounds:
  assumes "0 \<le> passed" "passed \<le> tests" "tests \<noteq> 0"
  shows "0 \<le> round_half_even (fmul (int_div passed tests) 70) \<and> round_half_even (fmul (int_div passed tests) 70) \<le> 70"
proof -
  have "0 \<le> int_div passed tests \<and> int_div passed tests \<le> 1"
    unfolding int_div_def using assms by (intro binary64.rnd_share) simp_all
  then show ?thesis using binary64.scaled_share_bounds [of "int_div passed tests" 70] by (simp add: fmul_def)
qed

lemma clamp_bounds: "lo \<le> hi \<Longrightarrow> lo \<le> clamp v lo hi \<and> clamp v lo hi \<le> hi"
  by (simp add: clamp_def)

lemma arena_score_bounds:
  assumes "0 \<le> pp" "pp \<le> pt" "0 \<le> hp" "hp \<le> ht"
  shows "score_fields_ok (score_arena_submission pp pt hp ht ms q prompt)"
proof -
  have "0 \<le> performance_score ms 2000 \<and> performance_score ms 2000 \<le> 15"
    by (simp add: performance_score_def Let_def split: option.split)
  moreover have "0 \<le> prompt_efficiency_score prompt \<and> prompt_efficiency_score prompt \<le> 5"
    by (simp add: prompt_efficiency_score_def Let_def)
  moreover have "pt + ht \<noteq> 0 \<Longrightarrow> 0 \<le> round_half_even (fmul (int_div (pp + hp) (pt + ht)) 70) \<and>
      round_half_even (fmul (int_div (pp + hp) (pt + ht)) 70) \<le> 70"
    using assms by (intro correctness_bounds) simp_all
  moreover have "max 0 pp = pp" "max 0 pt = pt" "max 0 hp = hp" "max 0 ht = ht" using assms by simp_all
  moreover note clamp_bounds [of 0 10] clamp_bounds [of 0 100]
  ultimately show ?thesis by (simp add: score_fields_ok_def score_arena_submission_def Let_def)
qed

lemma pair_score_ok:
  assumes "0 \<le> sr_hidden_passed (pa_result p)" "sr_hidden_passed (pa_result p) \<le> sr_hidden_total (pa_result p)"
  shows "score_fields_ok (pair_score p)"
  unfolding pair_score_def Let_def using assms by (intro arena_score_bounds) simp_all

lemma best_value_bound: "best_value difficulty best \<le> 47"
proof (cases best)
  case (Some b)
  let ?s = "int_div (clamp b 50 100 - 50) 50"
  have "0 \<le> ?s \<and> ?s \<le> 1" unfolding int_div_def by (rule binary64.rnd_share) (simp_all add: clamp_def)
  then have "round_half_even (fmul ?s (of_int k)) \<le> k" if "0 \<le> k" "k < 2 ^ 53" for k
    using binary64.scaled_share_bounds [of ?s k] that by (simp add: fmul_def)
  from this [of 18] this [of 28] this [of 42] show ?thesis
    by (simp add: Some best_value_def rating_contribution_def difficulty_gain_def Let_def)
qed (simp add: best_value_def)

section \<open>Two generations of one question\<close>

abbreviation arena_request :: arena_generation_create where
  "arena_request \<equiv> \<lparr>gc_challenge_slug = ''twice'', gc_prompt = ''double''\<rparr>"

abbreviation sample_generation :: "uuid \<Rightarrow> string \<Rightarrow> arena_generation_row" where
  "sample_generation i key \<equiv> \<lparr>ag_id = i, ag_user = 7, ag_question_version = 40, ag_prompt = ''double'',
     ag_generated_code = ''c'', ag_provider = ''p'', ag_model = ''m'', ag_idempotency_key = key, ag_created_at = 10\<rparr>"

definition arena_with :: "arena_generation_row list \<Rightarrow> arena" where
  "arena_with gs = \<lparr>arena_profiles = [], arena_limits = [], arena_generations = gs, arena_results = [],
     arena_users = []\<rparr>"

lemma arena_with_tables [simp]:
  "arena_generations (arena_with gs) = gs" "arena_profiles (arena_with gs) = []" "arena_results (arena_with gs) = []"
  "arena_with gs\<lparr>arena_generations := gs'\<rparr> = arena_with gs'"
  by (simp_all add: arena_with_def)

abbreviation two_generations :: arena where
  "two_generations \<equiv> arena_with [sample_generation 1 ''k1'', sample_generation 2 ''k2'']"

abbreviation sample_submission :: "uuid \<Rightarrow> submission_row" where
  "sample_submission i \<equiv> \<lparr>sb_id = i, sb_organization = None, sb_candidate = 7, sb_practice_session = None,
     sb_question_version = 40, sb_runtime = ''python3.13'', sb_submitted_source = ''c'', sb_idempotency_key = None,
     sb_status = ''COMPLETED'', sb_public_test_results = [], sb_hidden_test_summary = JNull, sb_error_category = None,
     sb_execution_duration_ms = None, sb_started_at = None, sb_completed_at = None\<rparr>"

abbreviation sample_arena_result :: "uuid \<Rightarrow> submission_result_row" where
  "sample_arena_result i \<equiv> \<lparr>sr_submission = i, sr_status = PG_COMPLETED, sr_public_results = [JObj [(''passed'', JBool True)]],
     sr_hidden_total = 1, sr_hidden_passed = 1, sr_runtime_ms = 100, sr_error_category = None, sr_candidate_message = [],
     sr_quality_signals = JNull\<rparr>"

abbreviation sample_evaluation :: "uuid \<Rightarrow> submission_evaluation_row" where
  "sample_evaluation i \<equiv> \<lparr>se_submission = i, se_correctness = 1, se_complexity = 1, se_code_quality = 1, se_testing = 1,
     se_robustness = 1, se_overall = 1, se_evaluator_version = ''v'', se_deterministic_signals = JNull,
     se_heuristic_signals = JNull\<rparr>"

definition arena_db :: db where
  "arena_db = catalog_db\<lparr>submissions := [sample_submission 21, sample_submission 22],
     submission_results := [sample_arena_result 21, sample_arena_result 22],
     submission_evaluations := [sample_evaluation 21, sample_evaluation 22]\<rparr>"

lemma arena_tables:
  "questions arena_db = [sample_question]" "question_versions arena_db = [sample_version]"
  "submissions arena_db = [sample_submission 21, sample_submission 22]"
  "submission_results arena_db = [sample_arena_result 21, sample_arena_result 22]"
  "submission_evaluations arena_db = [sample_evaluation 21, sample_evaluation 22]"
  by (simp_all add: arena_db_def catalog_db_def empty_db_def)

lemma sample_challenge: "\<exists>c. challenge_view (lib (sample_env t)) sample_payload = Inr c"
  using runtime_sample [of t]
  by (simp add: challenge_view_def Let_def question_tests_def question_mode_def sample_payload_def sample_content_def
      objects_of_def is_public_test_def jget_def List.map_filter_def optional_object_dict_def)

lemma store_sample:
  assumes "g \<notin> ag_id ` set gs" "key \<notin> ag_idempotency_key ` set gs"
  shows "\<exists>v. store_generation (sample_env 10) g arena_request key sample_payload
    \<lparr>gen_code = ''c'', gen_provider = ''p'', gen_model = ''m''\<rparr> arena_db (arena_with gs) =
      Inr (v, arena_with (gs @ [sample_generation g key]))"
proof -
  have find: "find (\<lambda>g. user_id (sample_env 10) = Some (ag_user g) \<and> ag_idempotency_key g = key) gs = None"
    using assms(2) by (auto simp: find_None_iff)
  have new: "replayed_generation (sample_env 10) arena_request key arena_db (arena_with gs) = Inr None"
    by (simp add: replayed_generation_def find)
  have question: "published_arena_question (lib (sample_env 10)) ''twice'' arena_db = Inr sample_payload"
    using sample_challenge [of 10] published_sample [of arena_db]
    by (auto simp: published_arena_question_def arena_tables)
  have user: "user_id (sample_env 10) = Some 7" by (simp add: sample_env_def)
  have "strip ''double'' = ''double''" by (simp add: strip_def is_space_def)
  then have row: "new_generation_row (sample_env 10) 7 g arena_request key sample_payload
      \<lparr>gen_code = ''c'', gen_provider = ''p'', gen_model = ''m''\<rparr> = sample_generation g key"
    by (simp add: new_generation_row_def sample_payload_def sample_env_def)
  have "\<exists>v. generation_view arena_db (sample_generation g key) = Inr v"
    by (simp add: generation_view_def version_slug_def arena_tables sample_version_def sample_question_def)
  then show ?thesis
    using assms(1) by (auto simp: store_generation_def new question user row Let_def)
qed

lemma two_generations_reachable: "arena_reachable D two_generations"
proof -
  have "arena_reachable D (arena_with [])" unfolding arena_with_def by (rule empty_arena)
  moreover have "arena_step D (arena_with []) (arena_with [sample_generation 1 ''k1''])"
    using store_sample [of 1 "[]" "''k1''"] arena_store by fastforce
  moreover have "arena_step D (arena_with [sample_generation 1 ''k1'']) two_generations"
    using store_sample [of 2 "[sample_generation 1 ''k1'']" "''k2''"] arena_store by fastforce
  ultimately show ?thesis using after_arena_step by blast
qed

lemma fl_small: "k < 2 ^ 53 \<Longrightarrow> fl (of_nat k) = of_nat k"
  using fl_of_int [of "int k"] by simp

lemma sample_scores:
  "score_arena_submission 1 1 1 1 (Some 100) (fl 1) ''double'' =
     \<lparr>as_correctness = 70, as_performance = 15, as_quality = 10, as_efficiency = 5, as_total = 100\<rparr>"
proof -
  have one: "fl 1 = 1" by (rule binary64.rnd_1)
  have n: "fl 70 = 70" "fl 10 = 10" using fl_small [of 70] fl_small [of 10] by simp_all
  have "fl (100 / 2000) \<le> fl (1 / 4)" by (rule fl_mono) simp
  then have perf: "performance_score (Some 100) 2000 = 15" by (simp add: performance_score_def int_div_def lit_def Let_def)
  have "strip ''double'' = ''double''" by (simp add: strip_def is_space_def)
  then have eff: "prompt_efficiency_score ''double'' = 5" by (simp add: prompt_efficiency_score_def Let_def)
  show ?thesis
    by (simp add: score_arena_submission_def Let_def perf eff int_div_def one fmul_def n clamp_def)
qed

section \<open>What a rated submission changes\<close>

lemma profile_lookup:
  assumes "user_id e = Some u"
  shows "arena_profile e name s = (case row_with ap_user u (arena_profiles s) of
      None \<Rightarrow> \<lparr>pf_display_name = name, pf_rating = 1000, pf_tier = ''Bronze'', pf_solved_count = 0,
        pf_submission_count = 0\<rparr>
    | Some p \<Rightarrow> \<lparr>pf_display_name = name, pf_rating = ap_rating p, pf_tier = ap_tier p,
        pf_solved_count = ap_solved_count p, pf_submission_count = ap_submission_count p\<rparr>)"
proof -
  have "find (\<lambda>p. user_id e = Some (ap_user p)) t = row_with ap_user u t" for t :: "arena_profile_row list"
    using assms by (simp add: row_with_def eq_commute)
  then show ?thesis by (simp add: arena_profile_def)
qed

lemma ensure_profile_view:
  assumes "user_id e' = Some u"
  shows "arena_profile e' name (ensure_profile e u s) = arena_profile e' name s"
proof (cases "u \<in> ap_user ` set (arena_profiles s)")
  case False
  then have "row_with ap_user u (arena_profiles s) = None" by (simp add: row_with_None_iff)
  then show ?thesis unfolding profile_lookup [OF assms]
    using False by (simp add: ensure_profile_def row_with_append new_profile_row_def)
qed (simp add: ensure_profile_def)

lemma rate_profile:
  assumes "rate_submission e nid u gid sid pair best s = Inr (view, s')" "user_id e' = Some u"
  shows "pf_rating (arena_profile e' name s') = pf_rating (arena_profile e' name s) + rv_rating_delta view"
    and "pf_solved_count (arena_profile e' name s') = pf_solved_count (arena_profile e' name s) +
      (if solves_first (as_total (rv_arena_score view)) best then 1 else 0)"
    and "rv_rating_delta view = best_value (version_difficulty (pa_version pair))
        (Some (better (as_total (rv_arena_score view)) best)) - best_value (version_difficulty (pa_version pair)) best"
    and "rv_arena_score view = pair_score pair" "arena_generations s' = arena_generations s"
    and "\<exists>row. arena_results s' = arena_results s @ [row] \<and> ar_user row = u \<and> ar_generation row = gid \<and>
      ar_submission row = sid \<and> result_view (pa_slug pair) row = Inr view \<and> ar_total row = as_total (pair_score pair) \<and>
      ar_id row = nid"
proof -
  from assms(1) obtain p row where p: "row_with ap_user u (arena_profiles (ensure_profile e u s)) = Some p"
    and row: "row = new_result_row_of e u nid gid sid (pair_score pair)
      (rating_delta (version_difficulty (pa_version pair)) (as_total (pair_score pair)) best
        (solves_first (as_total (pair_score pair)) best)) (ap_rating p + ar_rating_delta row)"
    and v: "result_view (pa_slug pair) row = Inr view"
    and s': "s' = (ensure_profile e u s)\<lparr>arena_profiles := update_where (\<lambda>p. ap_user p = u)
        (rated_profile e (ar_rating_after row) (solves_first (ar_total row) best)) (arena_profiles (ensure_profile e u s)),
      arena_results := arena_results (ensure_profile e u s) @ [row]\<rparr>"
    by (rule rate_cases)
  have fields: "ar_user row = u" "ar_generation row = gid" "ar_submission row = sid" "result_score row = pair_score pair"
    "ar_total row = as_total (pair_score pair)" "ar_rating_after row = ap_rating p + ar_rating_delta row"
    "ar_rating_delta row = rating_delta (version_difficulty (pa_version pair)) (as_total (pair_score pair)) best
        (solves_first (as_total (pair_score pair)) best)" "ar_id row = nid"
    by (subst row, simp add: new_result_row_of_def result_score_def)+
  have view: "rv_arena_score view = pair_score pair" "rv_rating_delta view = ar_rating_delta row"
    using v fields(4) by (auto simp: result_view_def split: if_splits)
  have old: "arena_profile e' name s = arena_profile e' name (ensure_profile e u s)"
    by (rule ensure_profile_view [OF assms(2), symmetric])
  have prof: "row_with ap_user u (arena_profiles s') =
      Some (rated_profile e (ar_rating_after row) (solves_first (ar_total row) best) p)"
    unfolding s' by (simp add: row_with_update_at rated_profile_def p)
  show "pf_rating (arena_profile e' name s') = pf_rating (arena_profile e' name s) + rv_rating_delta view"
    unfolding old unfolding profile_lookup [OF assms(2)] by (simp add: prof p rated_profile_def view fields(6))
  show "pf_solved_count (arena_profile e' name s') = pf_solved_count (arena_profile e' name s) +
      (if solves_first (as_total (rv_arena_score view)) best then 1 else 0)"
    unfolding old unfolding profile_lookup [OF assms(2)] by (simp add: prof p rated_profile_def view fields(5))
  show "rv_rating_delta view = best_value (version_difficulty (pa_version pair))
        (Some (better (as_total (rv_arena_score view)) best)) - best_value (version_difficulty (pa_version pair)) best"
    by (simp only: view fields(7) delta_telescopes)
  show "rv_arena_score view = pair_score pair" by (rule view(1))
  show "arena_generations s' = arena_generations s" by (simp add: s' ensure_profile_def)
  show "\<exists>row. arena_results s' = arena_results s @ [row] \<and> ar_user row = u \<and> ar_generation row = gid \<and>
      ar_submission row = sid \<and> result_view (pa_slug pair) row = Inr view \<and> ar_total row = as_total (pair_score pair) \<and>
      ar_id row = nid"
    using fields v by (intro exI [of _ row]) (simp add: s' ensure_profile_def)
qed

lemma no_stored_result: "\<forall>r\<in>set (arena_results s). \<not> hit r \<Longrightarrow> stored_arena_result e hit d s = Inr None"
  by (simp add: stored_arena_result_def filter_empty_conv [THEN iffD2] List.map_filter_def)

lemma finalize_fresh:
  assumes "gid \<notin> ar_generation ` set (arena_results s)" "sid \<notin> ar_submission ` set (arena_results s)"
    and "arena_pair_of e gid sid d s = Some pair" "ag_generated_code (pa_generation pair) = sb_submitted_source (pa_submission pair)"
  shows "finalize_arena_submission e nid gid sid d seen s = rate_submission e nid (ag_user (pa_generation pair)) gid sid pair
    (previous_best (ag_user (pa_generation pair)) (ag_question_version (pa_generation pair)) seen) s"
proof -
  have "stored_arena_result e (\<lambda>r. ar_generation r = gid) d s = Inr None" "stored_arena_result e (\<lambda>r. ar_submission r = sid) d s = Inr None"
    using assms(1,2) by (auto intro!: no_stored_result)
  then show ?thesis using assms(3,4) by (simp add: finalize_arena_submission_def Let_def)
qed

lemma settled_rating_positive:
  assumes "profile_settled D s p"
  shows "1000 \<le> ap_rating p"
  using assms sum_nonneg [of "played (ap_user p) s" "\<lambda>vid. best_value (D vid) (previous_best (ap_user p) vid s)"]
  by (simp add: profile_settled_def best_value_nonneg)

lemma new_result_fields [simp]:
  "result_score (new_result_row_of e u nid gid sid score delta rating) = score"
  "ar_rating_delta (new_result_row_of e u nid gid sid score delta rating) = delta"
  "ar_rating_after (new_result_row_of e u nid gid sid score delta rating) = rating"
  by (simp_all add: new_result_row_of_def result_score_def)

lemma rate_succeeds:
  assumes "arena_inv D s" "score_fields_ok (pair_score pair)" "nid \<notin> ar_id ` set (arena_results s)"
    and "gid \<notin> ar_generation ` set (arena_results s)" "sid \<notin> ar_submission ` set (arena_results s)"
  shows "\<exists>view s'. rate_submission e nid u gid sid pair best s = Inr (view, s')"
proof -
  have "u \<in> ap_user ` set (arena_profiles (ensure_profile e u s))" by (simp add: ensure_profile_def new_profile_row_def)
  then obtain p where p: "row_with ap_user u (arena_profiles (ensure_profile e u s)) = Some p"
    by (cases "row_with ap_user u (arena_profiles (ensure_profile e u s))") (simp_all add: row_with_None_iff)
  have rating: "1000 \<le> ap_rating p"
    using ensure_profile_inv [OF assms(1), of e u] row_with_SomeD [OF p] settled_rating_positive by (auto simp: arena_inv_def)
  have delta: "0 \<le> rating_delta difficulty points best first" for difficulty points best first
    by (simp add: rating_delta_def Let_def)
  have "0 \<le> ap_rating p + rating_delta difficulty points best first" for difficulty points best first
    using rating delta [of difficulty points best first] by linarith
  then show ?thesis
    using assms delta by (simp add: rate_submission_def Let_def p result_view_def not_less)
qed

section \<open>Two finalisations of the sample\<close>

abbreviation sample_pair :: "uuid \<Rightarrow> string \<Rightarrow> uuid \<Rightarrow> arena_pair" where
  "sample_pair g key sid \<equiv> \<lparr>pa_generation = sample_generation g key, pa_version = sample_version, pa_slug = ''twice'',
     pa_submission = sample_submission sid, pa_result = sample_arena_result sid, pa_evaluation = sample_evaluation sid\<rparr>"

lemma sample_pairs:
  assumes "arena_generations s = arena_generations two_generations"
  shows "arena_pair_of (sample_env t) 1 21 arena_db s = Some (sample_pair 1 ''k1'' 21)"
    "arena_pair_of (sample_env t) 2 22 arena_db s = Some (sample_pair 2 ''k2'' 22)"
  using assms by (simp_all add: arena_pair_of_def arena_tables sample_version_def sample_question_def sample_env_def)

lemma sample_pair_score: "as_total (pair_score (sample_pair g key sid)) = 100" "score_fields_ok (pair_score (sample_pair g key sid))"
proof -
  have score: "pair_score (sample_pair g key sid) =
     \<lparr>as_correctness = 70, as_performance = 15, as_quality = 10, as_efficiency = 5, as_total = 100\<rparr>"
    using sample_scores by (simp add: pair_score_def Let_def List.map_filter_def jget_def)
  show "as_total (pair_score (sample_pair g key sid)) = 100" "score_fields_ok (pair_score (sample_pair g key sid))"
    by (simp_all add: score score_fields_ok_def)
qed

lemma sample_difficulty: "version_difficulty sample_version = ''easy''"
  by (simp add: version_difficulty_def sample_version_def arena_difficulty_def Let_def List.map_filter_def
      difficulty_aliases_def casefold_def casefold_char_def)

lemma sample_worth: "best_value ''easy'' (Some 100) = 23"
proof -
  have "casefold ''easy'' = ''easy''" by (simp add: casefold_def casefold_char_def)
  moreover have "fl 1 = 1" "fl 18 = 18" using binary64.rnd_1 fl_small [of 18] by simp_all
  ultimately show ?thesis
    by (simp add: best_value_def rating_contribution_def difficulty_gain_def Let_def clamp_def int_div_def fmul_def)
qed

lemma sample_user: "user_id (sample_env t) = Some 7"
  by (simp add: sample_env_def)

lemma sample_unplayed: "previous_best 7 40 two_generations = None"
  by (simp add: previous_best_def arena_scores_def)

abbreviation easy :: "uuid \<Rightarrow> string" where
  "easy \<equiv> \<lambda>_. ''easy''"

lemma first_finalisation:
  "\<exists>view s'. finalize_arena_submission (sample_env 20) 31 1 21 arena_db two_generations two_generations = Inr (view, s') \<and>
     as_total (rv_arena_score view) = 100 \<and> arena_reachable easy s' \<and> arena_generations s' = arena_generations two_generations \<and>
     (\<exists>row. arena_results s' = [row] \<and> ar_id row = 31 \<and> ar_generation row = 1 \<and> ar_submission row = 21 \<and> ar_user row = 7)"
proof -
  note pair = sample_pairs(1) [OF refl, of 20]
  have "\<exists>view s'. rate_submission (sample_env 20) 31 7 1 21 (sample_pair 1 ''k1'' 21) None two_generations = Inr (view, s')"
    using arena_reachable_inv [OF two_generations_reachable] sample_pair_score(2) by (intro rate_succeeds) simp_all
  then obtain view s' where run:
    "rate_submission (sample_env 20) 31 7 1 21 (sample_pair 1 ''k1'' 21) None two_generations = Inr (view, s')" by blast
  have fin: "finalize_arena_submission (sample_env 20) 31 1 21 arena_db two_generations two_generations = Inr (view, s')"
    using run by (subst finalize_fresh [OF _ _ pair]) (simp_all add: sample_unplayed)
  have reach: "arena_reachable easy s'"
    by (rule after_arena_step [OF two_generations_reachable arena_finalize [OF fin]]) (simp add: arena_tables sample_difficulty)
  note change = rate_profile [OF run sample_user [of 20]]
  have "\<exists>row. arena_results s' = [row] \<and> ar_id row = 31 \<and> ar_generation row = 1 \<and> ar_submission row = 21 \<and> ar_user row = 7"
    using change(6) by auto
  then show ?thesis using fin reach change(4,5) sample_pair_score(1) by auto
qed

lemma second_finalisation:
  assumes "arena_reachable easy s" "arena_generations s = arena_generations two_generations"
    and "arena_results s = [row]" "ar_id row = 31" "ar_generation row = 1" "ar_submission row = 21"
  shows "\<exists>view s'. finalize_arena_submission (sample_env 20) 32 2 22 arena_db two_generations s = Inr (view, s') \<and> s' \<noteq> s \<and>
     as_total (rv_arena_score view) = 100"
proof -
  note pair = sample_pairs(2) [OF assms(2), of 20]
  have "\<exists>view s'. rate_submission (sample_env 20) 32 7 2 22 (sample_pair 2 ''k2'' 22) None s = Inr (view, s')"
    using arena_reachable_inv [OF assms(1)] sample_pair_score(2) by (rule rate_succeeds) (simp_all add: assms(3-6))
  then obtain view s' where run:
    "rate_submission (sample_env 20) 32 7 2 22 (sample_pair 2 ''k2'' 22) None s = Inr (view, s')" by blast
  have fin: "finalize_arena_submission (sample_env 20) 32 2 22 arena_db two_generations s = Inr (view, s')"
    using run by (subst finalize_fresh [OF _ _ pair]) (simp_all add: sample_unplayed assms(3-6))
  note change = rate_profile [OF run sample_user [of 20]]
  have "s' \<noteq> s" using change(6) by auto
  then show ?thesis using fin change(4) sample_pair_score(1) by auto
qed

section \<open>The guarantees\<close>

text \<open>C28: The public rating of an arena profile is a function of the best score on each question
  version. In every state the arena routes reach (one at a time, on question versions that keep
  their difficulty) the rating is 1000 plus the value of the best score on each version played, at
  most 47 points for each; the solved count is the number of versions whose best score is at least
  70; the submission count is the number of results; the tier is that of the rating. No generation
  and no submission is rated twice.\<close>

theorem arena_rating_is_ledger:
  assumes "arena_reachable D s" "p \<in> set (arena_profiles s)"
  shows "ap_rating p = 1000 + (\<Sum>vid\<in>played (ap_user p) s. best_value (D vid) (previous_best (ap_user p) vid s)) \<and>
    1000 \<le> ap_rating p \<and> ap_rating p \<le> 1000 + 47 * int (card (played (ap_user p) s)) \<and>
    ap_solved_count p = int (card {vid \<in> played (ap_user p) s. \<exists>b. previous_best (ap_user p) vid s = Some b \<and> 70 \<le> b}) \<and>
    ap_submission_count p = int (length (filter (\<lambda>r. ar_user r = ap_user p) (arena_results s))) \<and>
    ap_tier p = tier_for_rating (ap_rating p) \<and>
    distinct (map ar_generation (arena_results s)) \<and> distinct (map ar_submission (arena_results s))"
proof -
  have inv: "arena_inv D s" by (rule arena_reachable_inv [OF assms(1)])
  then have settled: "profile_settled D s p" using assms(2) by (simp add: arena_inv_def)
  have "(\<Sum>vid\<in>played (ap_user p) s. best_value (D vid) (previous_best (ap_user p) vid s)) \<le>
      (\<Sum>vid\<in>played (ap_user p) s. 47)"
    by (rule sum_mono) (rule best_value_bound)
  moreover have "(\<Sum>vid\<in>played (ap_user p) s. solved_value (previous_best (ap_user p) vid s)) =
      int (card {vid \<in> played (ap_user p) s. \<exists>b. previous_best (ap_user p) vid s = Some b \<and> 70 \<le> b})"
    unfolding card_eq_sum of_nat_sum
    by (subst sum.inter_filter) (auto simp: solved_value_def intro!: sum.cong split: option.splits)
  ultimately show ?thesis
    using settled settled_rating_positive [OF settled] inv by (simp add: profile_settled_def arena_inv_def)
qed

theorem arena_rating_is_ledger_witness:
  "\<exists>s p. p \<in> set (arena_profiles s) \<and> arena_results s \<noteq> [] \<and> 1000 \<le> ap_rating p \<and>
     ap_rating p \<le> 1000 + 47 * int (card (played (ap_user p) s)) \<and> ap_tier p = tier_for_rating (ap_rating p)"
proof -
  obtain s row where s: "arena_reachable easy s" "arena_results s = [row]" "ar_user row = 7"
    using first_finalisation by auto
  then have "7 \<in> ap_user ` set (arena_profiles s)"
    using arena_reachable_inv [OF s(1)] by (simp add: arena_inv_def result_linked_def)
  then obtain p where p: "p \<in> set (arena_profiles s)" by auto
  have "arena_results s \<noteq> []" by (simp add: s(2))
  with p arena_rating_is_ledger [OF s(1) p] show ?thesis by blast
qed

text \<open>C29: Finalising an own, unmodified and not yet rated submission of a generation always
  succeeds when the stored hidden counts satisfy the constraint of their table; the rating moves by
  exactly the difference between the values of the new and the earlier best score on the question
  version; and repeating the request returns the same result and changes nothing.\<close>

theorem arena_gain_is_improvement:
  assumes "arena_reachable D s" "arena_pair_of e gid sid d s = Some pair"
    and "ag_generated_code (pa_generation pair) = sb_submitted_source (pa_submission pair)"
    and "gid \<notin> ar_generation ` set (arena_results s)" "sid \<notin> ar_submission ` set (arena_results s)"
    and "nid \<notin> ar_id ` set (arena_results s)"
    and "0 \<le> sr_hidden_passed (pa_result pair)" "sr_hidden_passed (pa_result pair) \<le> sr_hidden_total (pa_result pair)"
  shows "\<exists>view s'. finalize_arena_submission e nid gid sid d s s = Inr (view, s') \<and>
    (let best = previous_best (ag_user (pa_generation pair)) (ag_question_version (pa_generation pair)) s;
         worth = best_value (version_difficulty (pa_version pair))
     in rv_rating_delta view = worth (Some (better (as_total (pair_score pair)) best)) - worth best) \<and>
    pf_rating (arena_profile e name s') = pf_rating (arena_profile e name s) + rv_rating_delta view \<and>
    (\<forall>nid'. finalize_arena_submission e nid' gid sid d s' s' = Inr (view, s'))"
proof -
  let ?u = "ag_user (pa_generation pair)"
  let ?best = "previous_best ?u (ag_question_version (pa_generation pair)) s"
  have u: "user_id e = Some ?u" by (rule arena_pair_facts(4) [OF assms(2)])
  obtain view s' where run: "rate_submission e nid ?u gid sid pair ?best s = Inr (view, s')"
    using rate_succeeds [OF arena_reachable_inv [OF assms(1)] pair_score_ok assms(6,4,5)] assms(7,8) by blast
  note change = rate_profile [OF run u]
  obtain row where row: "arena_results s' = arena_results s @ [row]" "ar_user row = ?u" "ar_generation row = gid"
    "ar_submission row = sid" "result_view (pa_slug pair) row = Inr view"
    using change(6) by blast
  have others: "\<forall>r\<in>set (arena_results s). ar_generation r \<noteq> gid" using assms(4) by force
  have only: "filter (\<lambda>r. user_id e = Some (ar_user r) \<and> ar_generation r = gid) (arena_results s') = [row]"
    using u row(1-3) others by (simp add: filter_empty_conv)
  have slug: "Option.bind (generation_of s' row) (\<lambda>g. version_slug d (ag_question_version g)) = Some (pa_slug pair)"
    using assms(2) row(3) by (auto simp: arena_pair_of_def generation_of_def change(5) version_slug_def bind_eq_Some_conv
        split: if_splits)
  have "stored_arena_result e (\<lambda>r. ar_generation r = gid) d s' = Inr (Some view)"
    unfolding stored_arena_result_def only by (simp add: List.map_filter_def slug row(5))
  moreover have "rv_submission_id view = sid" using row(4,5) by (auto simp: result_view_def split: if_splits)
  ultimately have again: "finalize_arena_submission e nid' gid sid d s' s' = Inr (view, s')" for nid'
    by (simp add: finalize_arena_submission_def)
  show ?thesis
    using run change(1,3,4) again unfolding finalize_fresh [OF assms(4,5,2,3)]
    by (intro exI [of _ view] exI [of _ s']) (simp add: Let_def)
qed

theorem arena_gain_is_improvement_witness:
  "\<exists>view s'. finalize_arena_submission (sample_env 20) 31 1 21 arena_db two_generations two_generations = Inr (view, s') \<and>
     rv_rating_delta view = 23 \<and> pf_rating (arena_profile (sample_env 20) ''n'' s') = 1023"
  using arena_gain_is_improvement [OF two_generations_reachable sample_pairs(1) [OF refl, of 20], where nid = 31 and name = "''n''"]
    sample_pair_score(1) [of 1 "''k1''" 21] sample_worth
  by (auto simp: Let_def sample_unplayed sample_difficulty better_def best_value_def [of _ None] arena_profile_def)

text \<open>C30: Two finalisations of one candidate that run at the same time count a question twice. The
  locks are on the generation and on the submission, and the best earlier score is read before the
  profile is locked: when the second finalisation reads it before the first one commits, both gain
  the whole value of their score and both count a solved question, although it is one question
  version with one best score.\<close>

theorem concurrent_finalisations_count_twice:
  assumes "finalize_arena_submission e nid1 gid1 sid1 d s s = Inr (view1, s1)" "s1 \<noteq> s"
    and "finalize_arena_submission e nid2 gid2 sid2 d s s1 = Inr (view2, s2)" "s2 \<noteq> s1"
    and "row_with ag_id gid1 (arena_generations s) = Some g1" "row_with ag_id gid2 (arena_generations s) = Some g2"
    and "ag_question_version g1 = vid" "ag_question_version g2 = vid" "user_id e = Some u"
    and "previous_best u vid s = None" "row_with qv_id vid (question_versions d) = Some v"
    and "70 \<le> as_total (rv_arena_score view1)" "70 \<le> as_total (rv_arena_score view2)"
  shows "pf_rating (arena_profile e name s2) = pf_rating (arena_profile e name s) +
      best_value (version_difficulty v) (Some (as_total (rv_arena_score view1))) +
      best_value (version_difficulty v) (Some (as_total (rv_arena_score view2))) \<and>
    pf_solved_count (arena_profile e name s2) = pf_solved_count (arena_profile e name s) + 2 \<and>
    previous_best u vid s2 = Some (max (as_total (rv_arena_score view1)) (as_total (rv_arena_score view2)))"
proof -
  have first: "\<exists>pair. arena_pair_of e gid1 sid1 d s = Some pair \<and>
      rate_submission e nid1 (ag_user (pa_generation pair)) gid1 sid1 pair
       (previous_best (ag_user (pa_generation pair)) (ag_question_version (pa_generation pair)) s) s = Inr (view1, s1)"
    using assms(1) by (rule finalize_cases) (use assms(2) in auto)
  have second: "\<exists>pair. arena_pair_of e gid2 sid2 d s1 = Some pair \<and>
      rate_submission e nid2 (ag_user (pa_generation pair)) gid2 sid2 pair
       (previous_best (ag_user (pa_generation pair)) (ag_question_version (pa_generation pair)) s) s1 = Inr (view2, s2)"
    using assms(3) by (rule finalize_cases) (use assms(4) in auto)
  obtain pair1 where p1: "arena_pair_of e gid1 sid1 d s = Some pair1"
    "rate_submission e nid1 (ag_user (pa_generation pair1)) gid1 sid1 pair1
       (previous_best (ag_user (pa_generation pair1)) (ag_question_version (pa_generation pair1)) s) s = Inr (view1, s1)"
    using first by blast
  obtain pair2 where p2: "arena_pair_of e gid2 sid2 d s1 = Some pair2"
    "rate_submission e nid2 (ag_user (pa_generation pair2)) gid2 sid2 pair2
       (previous_best (ag_user (pa_generation pair2)) (ag_question_version (pa_generation pair2)) s) s1 = Inr (view2, s2)"
    using second by blast
  have u1: "ag_user (pa_generation pair1) = u" "ag_question_version (pa_generation pair1) = vid" "pa_generation pair1 = g1"
    using arena_pair_facts [OF p1(1)] assms(5,7,9) by simp_all
  note run1 = p1(2) [unfolded u1(1,2) assms(10)]
  note change1 = rate_profile [OF run1 assms(9)]
  have u2: "ag_user (pa_generation pair2) = u" "ag_question_version (pa_generation pair2) = vid" "pa_generation pair2 = g2"
    using arena_pair_facts [OF p2(1)] assms(6,8,9) change1(5) by simp_all
  note run2 = p2(2) [unfolded u2(1,2) assms(10)]
  note change2 = rate_profile [OF run2 assms(9)]
  have v: "pa_version pair1 = v" "pa_version pair2 = v"
    using p1(1) p2(1) u1(2) u2(2) assms(11) by (auto simp: arena_pair_of_def bind_eq_Some_conv split: if_splits)
  obtain r1 where r1: "arena_results s1 = arena_results s @ [r1]" "ar_user r1 = u" "ar_generation r1 = gid1"
    "ar_total r1 = as_total (pair_score pair1)" using change1(6) by blast
  obtain r2 where r2: "arena_results s2 = arena_results s1 @ [r2]" "ar_user r2 = u" "ar_generation r2 = gid2"
    "ar_total r2 = as_total (pair_score pair2)" using change2(6) by blast
  have "generation_of s r1 = Some g1" "generation_of s1 r2 = Some g2"
    using assms(5,6) r1(3) r2(3) change1(5) by (simp_all add: generation_of_def)
  then have "previous_best u vid s2 = Some (max (as_total (pair_score pair1)) (as_total (pair_score pair2)))"
    using best_after [OF change1(5) r1(1), of g1 u vid] best_after [OF change2(5) r2(1), of g2 u vid] assms(7,8,10) r1(2,4) r2(2,4)
    by (simp add: better_def)
  then show ?thesis
    using change1(1-4) change2(1-4) assms(12,13)
    by (simp add: v better_def best_value_def solves_first_def)
qed

theorem concurrent_finalisations_count_twice_witness:
  "\<exists>s2. pf_rating (arena_profile (sample_env 20) ''n'' s2) = 1046 \<and>
     pf_solved_count (arena_profile (sample_env 20) ''n'' s2) = 2 \<and> previous_best 7 40 s2 = Some 100"
proof -
  obtain view1 s1 row where one: "finalize_arena_submission (sample_env 20) 31 1 21 arena_db two_generations two_generations =
      Inr (view1, s1)" "as_total (rv_arena_score view1) = 100" "arena_reachable easy s1"
      "arena_generations s1 = arena_generations two_generations" "arena_results s1 = [row]" "ar_id row = 31"
      "ar_generation row = 1" "ar_submission row = 21"
    using first_finalisation by auto
  obtain view2 s2 where two: "finalize_arena_submission (sample_env 20) 32 2 22 arena_db two_generations s1 = Inr (view2, s2)"
      "s2 \<noteq> s1" "as_total (rv_arena_score view2) = 100"
    using second_finalisation [OF one(3-8)] by blast
  have changed: "s1 \<noteq> two_generations" using one(5) by auto
  have gens: "row_with ag_id 1 (arena_generations two_generations) = Some (sample_generation 1 ''k1'')"
    "row_with ag_id 2 (arena_generations two_generations) = Some (sample_generation 2 ''k2'')" by simp_all
  have version: "row_with qv_id 40 (question_versions arena_db) = Some sample_version"
    by (simp add: arena_tables sample_version_def)
  have "ag_question_version (sample_generation 1 ''k1'') = 40" "ag_question_version (sample_generation 2 ''k2'') = 40" by simp_all
  from concurrent_finalisations_count_twice [OF one(1) changed two(1,2) gens this sample_user sample_unplayed version, where name = "''n''"]
  show ?thesis using one(2) two(3) sample_worth by (auto simp: sample_difficulty arena_profile_def)
qed

end
