(* ===== verification/Mock_Interview.thy ===== *)
theory Mock_Interview imports Practice_Sessions Py_Float begin

text \<open>
  Mock interviews: the templates, the rubric and the report (\<open>mock_interview_domain.py\<close>). A
  response is scored by the concept groups of its phase that it mentions and by its length.
\<close>

section \<open>Templates\<close>

record interview_phase_spec =
  ip_slug :: string
  ip_label :: string
  ip_prompt :: string
  ip_concept_groups :: "string list list"

record interview_template =
  it_slug :: string
  it_label :: string
  it_description :: string
  it_competencies :: "string list"
  it_phases :: "interview_phase_spec list"

definition interview_phase :: "string \<Rightarrow> string \<Rightarrow> string \<Rightarrow> string list list \<Rightarrow> interview_phase_spec" where
  "interview_phase slug label prompt groups =
     \<lparr>ip_slug = slug, ip_label = label, ip_prompt = prompt, ip_concept_groups = groups\<rparr>"

definition template_data_engineering :: interview_template where
  \<open>template_data_engineering = \<lparr>it_slug = ''data-engineering'', it_label = ''Data engineering'',
     it_description = ''Design a production data platform while explaining requirements, data flow, reliability, scale, and trade-offs.'',
     it_competencies = [''data-architecture'', ''data-modeling'', ''distributed-systems'', ''reliability'', ''sql''],
     it_phases =
     [interview_phase ''problem-framing'' ''Problem framing''
       ''You need to design a platform that ingests operational events and serves analytics within minutes. Clarify the requirements and the questions you would ask before choosing an architecture.''
       [[''volume'', ''throughput'', ''events per'', ''scale''],
        [''latency'', ''sla'', ''freshness'', ''minutes''],
        [''source'', ''producer'', ''consumer'', ''downstream''],
        [''quality'', ''schema'', ''contract'', ''accuracy'']],
      interview_phase ''pipeline-storage'' ''Pipeline & storage''
       ''Propose the end-to-end ingestion, processing, storage, and serving architecture. Explain how data moves and where contracts are enforced.''
       [[''batch'', ''stream'', ''streaming'', ''kafka'', ''queue''],
        [''warehouse'', ''lakehouse'', ''object storage'', ''table format''],
        [''partition'', ''cluster'', ''distribution'', ''sort key''],
        [''schema'', ''contract'', ''validation'', ''evolution''],
        [''idempot'', ''dedup'', ''exactly once'', ''replay'']],
      interview_phase ''reliability-scale'' ''Reliability & scale''
       ''Traffic doubles and one downstream warehouse becomes intermittent. Explain how the platform stays correct, observable, and recoverable.''
       [[''retry'', ''backoff'', ''dead letter'', ''dlq''],
        [''checkpoint'', ''offset'', ''replay'', ''recovery''],
        [''backpressure'', ''buffer'', ''queue'', ''throttle''],
        [''monitor'', ''metric'', ''alert'', ''observability''],
        [''failure'', ''degrade'', ''fallback'', ''isolate'']],
      interview_phase ''trade-offs'' ''Trade-offs''
       ''Close the design by explaining the most important trade-offs, the cost controls you would add, and what you would intentionally defer.''
       [[''cost'', ''budget'', ''compute'', ''storage''],
        [''latency'', ''freshness'', ''throughput''],
        [''consistency'', ''correctness'', ''availability''],
        [''complexity'', ''operational'', ''maintain''],
        [''defer'', ''phase'', ''later'', ''incremental'']]]\<rparr>\<close>

definition template_python :: interview_template where
  \<open>template_python = \<lparr>it_slug = ''python'', it_label = ''Python engineering'',
     it_description = ''Work through a production Python problem from clarification through implementation strategy, testing, and operational follow-up.'',
     it_competencies = [''python-engineering'', ''algorithms'', ''data-structures'', ''reliability''],
     it_phases =
     [interview_phase ''clarify'' ''Clarify''
       ''You are asked to implement a bounded in-memory work queue used by multiple producers. What do you clarify before writing code?''
       [[''capacity'', ''bounded'', ''limit''],
        [''concurrency'', ''thread'', ''async'', ''producer''],
        [''ordering'', ''fifo'', ''priority''],
        [''failure'', ''timeout'', ''blocking'', ''backpressure'']],
      interview_phase ''implement'' ''Implement''
       ''Describe the data structures, public API, synchronization strategy, and complexity of your implementation.''
       [[''deque'', ''queue'', ''heap'', ''data structure''],
        [''lock'', ''condition'', ''asyncio'', ''synchron''],
        [''enqueue'', ''dequeue'', ''put'', ''get''],
        [''o(1)'', ''complexity'', ''amortized'']],
      interview_phase ''test'' ''Test''
       ''Explain the tests that would give you confidence in correctness, including concurrency and failure behavior.''
       [[''unit'', ''test case'', ''property'', ''invariant''],
        [''concurr'', ''race'', ''thread'', ''parallel''],
        [''boundary'', ''empty'', ''full'', ''capacity''],
        [''timeout'', ''failure'', ''cancel'', ''error'']],
      interview_phase ''production-follow-up'' ''Production follow-up''
       ''The queue works locally but latency spikes under load. Explain how you would diagnose and harden it for production.''
       [[''profile'', ''latency'', ''benchmark'', ''measure''],
        [''metric'', ''trace'', ''log'', ''observability''],
        [''contention'', ''lock'', ''hotspot'', ''backpressure''],
        [''limit'', ''load'', ''capacity'', ''shed'']]]\<rparr>\<close>

definition template_sql :: interview_template where
  \<open>template_sql = \<lparr>it_slug = ''sql'', it_label = ''SQL reasoning'',
     it_description = ''Reason from schema and business grain to a correct query, edge-case validation, and an execution-plan optimization strategy.'',
     it_competencies = [''sql'', ''databases'', ''data-modeling''],
     it_phases =
     [interview_phase ''inspect-schema'' ''Inspect schema''
       ''A fact table contains orders and a dimension contains customer history. Explain the grain, keys, and assumptions you verify first.''
       [[''grain'', ''one row'', ''level''],
        [''primary key'', ''foreign key'', ''key''],
        [''duplicate'', ''uniqu'', ''cardinality''],
        [''null'', ''missing'', ''history'', ''scd'']],
      interview_phase ''write-query'' ''Write query''
       ''You need monthly revenue and active customers by current segment. Describe the SQL shape and how you avoid double counting.''
       [[''group by'', ''aggregate'', ''sum''],
        [''join'', ''dimension'', ''fact''],
        [''distinct'', ''dedup'', ''double count''],
        [''date_trunc'', ''month'', ''date'']],
      interview_phase ''edge-cases'' ''Validate edge cases''
       ''What data conditions could make the result wrong even if the query runs successfully, and how would you test them?''
       [[''null'', ''missing''],
        [''duplicate'', ''many-to-many'', ''cardinality''],
        [''timezone'', ''date boundary'', ''late''],
        [''zero'', ''negative'', ''refund'', ''cancel'']],
      interview_phase ''optimize'' ''Optimize''
       ''The query now scans billions of rows. Explain how you would inspect the plan and reduce work without changing the business result.''
       [[''explain'', ''plan'', ''profile''],
        [''index'', ''partition'', ''cluster'', ''pruning''],
        [''predicate'', ''filter'', ''pushdown''],
        [''material'', ''pre-aggregate'', ''incremental'', ''cache'']]]\<rparr>\<close>

definition template_system_design :: interview_template where
  \<open>template_system_design = \<lparr>it_slug = ''system-design'', it_label = ''System design'',
     it_description = ''Run a senior system-design interview from requirements and capacity through architecture, failure handling, and operational trade-offs.'',
     it_competencies = [''system-design'', ''distributed-systems'', ''backend-engineering'', ''reliability'', ''observability''],
     it_phases =
     [interview_phase ''requirements'' ''Requirements''
       ''Design a globally available notification service. Start by defining functional requirements, non-functional requirements, and scope.''
       [[''functional'', ''send'', ''delivery'', ''notification''],
        [''latency'', ''availability'', ''sla''],
        [''scale'', ''throughput'', ''users'', ''requests''],
        [''scope'', ''assumption'', ''out of scope'']],
      interview_phase ''capacity'' ''Capacity''
       ''Estimate the traffic, storage, and burst capacity that materially affect the design. State assumptions rather than chasing precision.''
       [[''qps'', ''rps'', ''throughput'', ''per second''],
        [''burst'', ''peak'', ''headroom''],
        [''storage'', ''retention'', ''bytes'', ''gb'', ''tb''],
        [''assumption'', ''estimate'', ''order of magnitude'']],
      interview_phase ''architecture'' ''Architecture''
       ''Walk through the main services, queues, stores, APIs, and data flow from request acceptance to provider delivery.''
       [[''api'', ''gateway'', ''service''],
        [''queue'', ''broker'', ''kafka'', ''sqs''],
        [''database'', ''store'', ''cache''],
        [''worker'', ''consumer'', ''provider''],
        [''idempot'', ''dedup'', ''delivery'']],
      interview_phase ''deep-dive'' ''Deep dive''
       ''A provider is slow and retries cause duplicate notifications. Deep dive into correctness, backpressure, retry, and isolation.''
       [[''retry'', ''backoff'', ''jitter''],
        [''idempot'', ''dedup'', ''exactly once''],
        [''backpressure'', ''queue'', ''throttle''],
        [''circuit breaker'', ''isolate'', ''bulkhead'', ''dead letter'']],
      interview_phase ''operations'' ''Operations''
       ''Close with observability, deployment, incident response, and the trade-offs you would monitor after launch.''
       [[''metric'', ''trace'', ''log'', ''observability''],
        [''alert'', ''slo'', ''error budget''],
        [''deploy'', ''canary'', ''rollback''],
        [''incident'', ''runbook'', ''on-call'']]]\<rparr>\<close>

definition template_ai_architecture :: interview_template where
  \<open>template_ai_architecture = \<lparr>it_slug = ''ai-architecture'', it_label = ''AI architecture'',
     it_description = ''Design a production LLM feature with explicit evaluation, retrieval, safety, observability, latency, and cost boundaries.'',
     it_competencies = [''generative-ai'', ''ai-infrastructure'', ''ai-evaluation'', ''ai-safety'', ''system-design''],
     it_phases =
     [interview_phase ''use-case'' ''Use case''
       ''Design an assistant that answers questions over a company's private technical documentation. Define the product and model boundaries.''
       [[''user'', ''use case'', ''task''],
        [''private'', ''permission'', ''tenant'', ''access''],
        [''latency'', ''availability'', ''sla''],
        [''ground'', ''citation'', ''source'', ''retrieval'']],
      interview_phase ''evaluation'' ''Evaluation''
       ''Explain how you would measure answer quality before launch and continuously after launch.''
       [[''dataset'', ''golden'', ''benchmark'', ''test set''],
        [''precision'', ''recall'', ''faithful'', ''correct''],
        [''human'', ''review'', ''label''],
        [''online'', ''monitor'', ''drift'', ''feedback'']],
      interview_phase ''architecture'' ''Architecture''
       ''Walk through ingestion, chunking, retrieval, model calls, caching, and how permissions flow through the system.''
       [[''chunk'', ''embed'', ''index''],
        [''retrieve'', ''rerank'', ''vector'', ''hybrid''],
        [''model'', ''llm'', ''gateway''],
        [''permission'', ''filter'', ''tenant'', ''acl''],
        [''cache'', ''context'', ''prompt'']],
      interview_phase ''safety'' ''Safety''
       ''Describe how the system handles prompt injection, sensitive data, unsafe tool use, and unsupported claims.''
       [[''prompt injection'', ''untrusted'', ''instruction''],
        [''pii'', ''sensitive'', ''redact'', ''secret''],
        [''tool'', ''permission'', ''allowlist'', ''sandbox''],
        [''citation'', ''ground'', ''abstain'', ''hallucination'']],
      interview_phase ''cost'' ''Cost & operations''
       ''The product succeeds and model spend grows rapidly. Explain how you would control cost while preserving quality and reliability.''
       [[''token'', ''cost'', ''budget''],
        [''cache'', ''batch'', ''smaller model'', ''route''],
        [''latency'', ''stream'', ''timeout''],
        [''metric'', ''trace'', ''observability'', ''usage'']]]\<rparr>\<close>

definition template_staff_leadership :: interview_template where
  \<open>template_staff_leadership = \<lparr>it_slug = ''staff-leadership'', it_label = ''Staff leadership'',
     it_description = ''Practice senior technical leadership through context, decision quality, influence, execution outcomes, and reflection.'',
     it_competencies = [''technical-leadership'', ''staff-engineering'', ''behavioral-competencies'', ''engineering-management''],
     it_phases =
     [interview_phase ''context'' ''Context''
       ''Describe a technically important program where teams disagreed on architecture. Establish the context, constraints, and your role.''
       [[''context'', ''constraint'', ''goal'', ''problem''],
        [''team'', ''stakeholder'', ''organization''],
        [''role'', ''responsibility'', ''ownership''],
        [''risk'', ''deadline'', ''dependency'']],
      interview_phase ''decisions'' ''Decisions''
       ''Explain the hardest technical decision, the alternatives considered, the evidence used, and why you chose the final direction.''
       [[''alternative'', ''option'', ''trade-off''],
        [''evidence'', ''data'', ''prototype'', ''benchmark''],
        [''decision'', ''choose'', ''recommend''],
        [''risk'', ''cost'', ''impact'']],
      interview_phase ''influence'' ''Influence''
       ''How did you create alignment without relying on authority, and how did you handle strong disagreement?''
       [[''listen'', ''understand'', ''disagree''],
        [''align'', ''stakeholder'', ''buy-in''],
        [''document'', ''rfc'', ''proposal''],
        [''facilitate'', ''mentor'', ''influence'']],
      interview_phase ''outcomes'' ''Outcomes''
       ''What measurable outcomes followed, what changed for customers or engineering teams, and how did you know the decision worked?''
       [[''metric'', ''measure'', ''result''],
        [''customer'', ''user'', ''business''],
        [''reliability'', ''latency'', ''cost'', ''delivery''],
        [''adoption'', ''team'', ''productivity'']],
      interview_phase ''reflection'' ''Reflection''
       ''What would you do differently now, and what principle from the experience changed how you operate as a staff-level engineer?''
       [[''different'', ''learn'', ''lesson''],
        [''feedback'', ''mistake'', ''improve''],
        [''principle'', ''framework'', ''approach''],
        [''next time'', ''future'', ''change'']]]\<rparr>\<close>

definition interview_templates :: "interview_template list" where
  "interview_templates = [template_data_engineering, template_python, template_sql, template_system_design,
     template_ai_architecture, template_staff_leadership]"

definition template_for :: "string \<Rightarrow> interview_template option" where
  "template_for slug = map_of (map (\<lambda>t. (it_slug t, t)) interview_templates) slug"

section \<open>The rubric\<close>

record phase_evidence =
  pe_phase :: string
  pe_label :: string
  pe_score :: rat
  pe_concept_coverage :: rat
  pe_depth_score :: rat
  pe_matched_concepts :: "string list"
  pe_missing_concepts :: "string list"
  pe_word_count :: int

text \<open>\<open>s.split(sep)\<close> for a separator of one character.\<close>

fun split_on :: "char \<Rightarrow> string \<Rightarrow> string list" where
  "split_on sep [] = [[]]"
| "split_on sep (c # cs) = (if c = sep then [] # split_on sep cs
     else case split_on sep cs of [] \<Rightarrow> [[c]] | w # ws \<Rightarrow> (c # w) # ws)"

definition evaluate_response :: "interview_phase_spec \<Rightarrow> string \<Rightarrow> phase_evidence" where
  "evaluate_response phase response =
     (let normalized = normalize_spaces (casefold response);
          words = filter (\<lambda>w. w \<noteq> []) (split_on (CHR 0x20) normalized);
          covered = (\<lambda>group. list_ex (\<lambda>term. contains (casefold term) normalized) group);
          matched = map hd (filter covered (ip_concept_groups phase));
          missing = map hd (filter (\<lambda>g. \<not> covered g) (ip_concept_groups phase));
          concept_coverage = int_div (int (length matched)) (max 1 (int (length (ip_concept_groups phase))));
          depth_score = min 1 (int_div (int (length words)) 140)
      in \<lparr>pe_phase = ip_slug phase, pe_label = ip_label phase,
          pe_score = py_round_nd 4 (fadd (fmul (lit 3 4) concept_coverage) (fmul (lit 1 4) depth_score)),
          pe_concept_coverage = py_round_nd 4 concept_coverage, pe_depth_score = py_round_nd 4 depth_score,
          pe_matched_concepts = matched, pe_missing_concepts = missing, pe_word_count = int (length words)\<rparr>)"

section \<open>The report\<close>

record interview_report =
  ir_overall_score :: rat
  ir_rubric_evidence :: "phase_evidence list"
  ir_strengths :: "string list"
  ir_growth_areas :: "string list"
  ir_next_steps :: "string list"

text \<open>\<open>statistics.mean\<close> of floats: the exact mean, rounded once.\<close>

definition py_mean :: "rat list \<Rightarrow> rat" where
  "py_mean xs = fl (sum_list xs / of_nat (length xs))"

definition first_missing :: "phase_evidence \<Rightarrow> string \<Rightarrow> string" where
  "first_missing ev fallback =
     (let joined = join '', '' (take 3 (pe_missing_concepts ev)) in if joined = [] then fallback else joined)"

definition build_report :: "phase_evidence list \<Rightarrow> interview_report" where
  "build_report evidence =
     (if evidence = []
      then \<lparr>ir_overall_score = 0, ir_rubric_evidence = [], ir_strengths = [],
        ir_growth_areas = [''No interview evidence was recorded.''],
        ir_next_steps = [''Complete a full mock interview.'']\<rparr>
      else
        let strengths = map (\<lambda>ev. pe_label ev @ '': covered '' @ int_str (int (length (pe_matched_concepts ev))) @
              '' rubric concepts with useful depth.'') (filter (\<lambda>ev. lit 65 100 \<le> pe_score ev) evidence);
            growth = map (\<lambda>ev. pe_label ev @ '': strengthen '' @ first_missing ev ''response depth'' @ ''.'')
              (filter (\<lambda>ev. pe_score ev < lit 65 100) evidence);
            weakest = take 2 (sort_key pe_score evidence);
            next_steps = map (\<lambda>ev. ''Rehearse '' @ casefold (pe_label ev) @ '' and explicitly address '' @
              first_missing ev ''the decision rationale'' @ ''.'') weakest
        in \<lparr>ir_overall_score = py_round_nd 4 (py_mean (map pe_score evidence)), ir_rubric_evidence = evidence,
          ir_strengths = (if strengths = [] then [''Consistent completion across the interview phases.''] else strengths),
          ir_growth_areas = (if growth = [] then [''Increase specificity with measurable evidence and trade-offs.'']
            else growth),
          ir_next_steps = next_steps\<rparr>)"

end
