(* ===== verification/Interview_Sessions.thy ===== *)
theory Interview_Sessions imports Mock_Interview begin

text \<open>
  The candidate's mock interviews (\<open>mock_interview_routes.py\<close>): opening an interview, answering its
  phases, pausing, resuming and cancelling it, and the report and competency evidence a completed
  one leaves. A route that writes locks the session's row (the creation an advisory key), so each
  runs alone on its session. The values PostgreSQL computes with \<open>numeric\<close> columns come from \<open>pg\<close>.
\<close>

section \<open>Tables\<close>

datatype interview_state = I_Created | I_Ready | I_In_Progress | I_Paused | I_Completed | I_Cancelled

record interview_row =
  mi_id :: uuid
  mi_organization :: "uuid option"
  mi_candidate :: uuid
  mi_interview_type :: string
  mi_target_role :: string
  mi_source_type :: string
  mi_source_id :: string
  mi_status :: interview_state
  mi_current_phase :: string
  mi_started_at :: "timestamp option"
  mi_completed_at :: "timestamp option"
  mi_created_at :: timestamp
  mi_updated_at :: timestamp

text \<open>The generated id of a message is read nowhere.\<close>

record interview_message_row =
  mm_session :: uuid
  mm_sequence :: int
  mm_role :: string
  mm_phase :: string
  mm_content :: string
  mm_evidence :: json
  mm_created_at :: timestamp

record interview_report_row =
  mr_session :: uuid
  mr_overall_score :: rat
  mr_rubric_evidence :: "json list"
  mr_strengths :: "string list"
  mr_growth_areas :: "string list"
  mr_next_steps :: "string list"

record competency_evidence_row =
  ce_organization :: "uuid option"
  ce_candidate :: uuid
  ce_competency :: uuid
  ce_source_type :: string
  ce_source_id :: string
  ce_score :: rat
  ce_confidence :: rat
  ce_weight :: rat
  ce_evaluator_version :: string
  ce_observed_at :: timestamp
  ce_evidence :: json

record mastery_row =
  cm_organization :: "uuid option"
  cm_candidate :: uuid
  cm_competency :: uuid
  cm_mastery :: rat
  cm_confidence :: rat
  cm_evidence_count :: int
  cm_last_evidence_at :: "timestamp option"
  cm_calculation_version :: string
  cm_updated_at :: timestamp

record interviews =
  interview_sessions :: "interview_row list"
  interview_messages :: "interview_message_row list"
  interview_reports :: "interview_report_row list"
  competency_evidence :: "competency_evidence_row list"
  mastery_rows :: "mastery_row list"
  competency_ids :: "(string \<times> uuid) list"

text \<open>
  PostgreSQL's arithmetic: the value a float has after it was stored in a \<open>numeric(6,5)\<close> column; the
  weighted mean of (score, confidence, weight) rows, \<open>NULL\<close> when the weights sum to zero; and
  \<open>1 - exp(-sum / 3)\<close> over (confidence, weight) rows, both as stored.
\<close>

record pg_numeric =
  pg_column :: "rat \<Rightarrow> rat"
  pg_mean :: "(rat \<times> rat \<times> rat) list \<Rightarrow> rat option"
  pg_saturation :: "(rat \<times> rat) list \<Rightarrow> rat"

section \<open>Views\<close>

abbreviation interview_error :: "nat \<Rightarrow> string \<Rightarrow> 'a result" where
  "interview_error code msg \<equiv> Inl (Exn (HttpErr code) msg)"

definition evaluator_version :: string where
  "evaluator_version = ''mock-interview-rubric-v1''"

definition readiness_version :: string where
  "readiness_version = ''weighted-evidence-v2-mock-interview''"

record template_view =
  tv_slug :: string
  tv_label :: string
  tv_description :: string
  tv_competencies :: "string list"
  tv_phases :: "(string \<times> string) list"

definition view_template :: "string \<Rightarrow> template_view result" where
  "view_template slug = (case template_for slug of
     None \<Rightarrow> interview_error 404 ''Mock interview template not found''
   | Some t \<Rightarrow> Inr \<lparr>tv_slug = it_slug t, tv_label = it_label t, tv_description = it_description t,
       tv_competencies = it_competencies t, tv_phases = map (\<lambda>p. (ip_slug p, ip_label p)) (it_phases t)\<rparr>)"

definition list_mock_interview_templates :: "template_view list result" where
  "list_mock_interview_templates = res_map (\<lambda>t. view_template (it_slug t)) interview_templates"

record interview_summary =
  is_row :: interview_row
  is_focus_label :: string

definition interview_summary_of :: "interview_row \<Rightarrow> interview_summary" where
  "interview_summary_of r = \<lparr>is_row = r, is_focus_label = (case template_for (mi_source_id r) of
     Some t \<Rightarrow> it_label t | None \<Rightarrow> mi_source_id r)\<rparr>"

definition own_interview :: "env \<Rightarrow> uuid \<Rightarrow> interview_row \<Rightarrow> bool" where
  "own_interview e sid r \<longleftrightarrow> mi_id r = sid \<and> user_id e = Some (mi_candidate r)"

definition interview_session :: "env \<Rightarrow> uuid \<Rightarrow> interviews \<Rightarrow> interview_row result" where
  "interview_session e sid s = (case find (own_interview e sid) (interview_sessions s) of
     None \<Rightarrow> interview_error 404 ''Mock interview session not found'' | Some r \<Rightarrow> Inr r)"

definition messages_of :: "uuid \<Rightarrow> interviews \<Rightarrow> interview_message_row list" where
  "messages_of sid s = sort_key mm_sequence (filter (\<lambda>m. mm_session m = sid) (interview_messages s))"

text \<open>\<open>InterviewMessage.model_validate(row)\<close>.\<close>

definition message_view :: "interview_message_row \<Rightarrow> interview_message_row result" where
  "message_view m =
     (if length (mm_role m) < 2 \<or> 30 < length (mm_role m) \<or> length (mm_phase m) < 2 \<or> 60 < length (mm_phase m) \<or>
         mm_content m = [] \<or> 50000 < length (mm_content m) \<or> as_obj (mm_evidence m) = None \<or> mm_sequence m < 0
      then Inl (Exn ValidationErr ''InterviewMessage'') else Inr m)"

definition report_view :: "uuid \<Rightarrow> interviews \<Rightarrow> interview_report_row option result" where
  "report_view sid s = (case row_with mr_session sid (interview_reports s) of
     None \<Rightarrow> Inr None
   | Some r \<Rightarrow> if mr_overall_score r < 0 \<or> 1 < mr_overall_score r
       then Inl (Exn ValidationErr ''MockInterviewReportView'') else Inr (Some r))"

record interview_view =
  iv_summary :: interview_summary
  iv_messages :: "interview_message_row list"
  iv_report :: "interview_report_row option"

definition interview_detail :: "env \<Rightarrow> uuid \<Rightarrow> interviews \<Rightarrow> interview_view result" where
  "interview_detail e sid s =
     res_bind (interview_session e sid s) (\<lambda>r.
     res_bind (res_map message_view (messages_of sid s)) (\<lambda>ms.
     res_bind (report_view sid s) (\<lambda>report.
     Inr \<lparr>iv_summary = interview_summary_of r, iv_messages = ms, iv_report = report\<rparr>)))"

definition list_mock_interviews :: "env \<Rightarrow> interviews \<Rightarrow> interview_summary list" where
  "list_mock_interviews e s = map interview_summary_of (take 50 (sort_key (\<lambda>r. - mi_updated_at r)
     (filter (\<lambda>r. user_id e = Some (mi_candidate r)) (interview_sessions s))))"

section \<open>Messages and their evidence\<close>

definition insert_message ::
  "env \<Rightarrow> uuid \<Rightarrow> string \<Rightarrow> string \<Rightarrow> string \<Rightarrow> jobj \<Rightarrow> interviews \<Rightarrow> interviews" where
  "insert_message e sid role phase content evidence s =
     s\<lparr>interview_messages := interview_messages s @
       [\<lparr>mm_session = sid, mm_sequence = next_sequence (-1) (map mm_sequence (messages_of sid s)), mm_role = role,
         mm_phase = phase, mm_content = content, mm_evidence = JObj evidence, mm_created_at = db_now e\<rparr>]\<rparr>"

definition json_strs :: "string list \<Rightarrow> json" where
  "json_strs xs = JList (map JStr xs)"

definition evidence_payload :: "phase_evidence \<Rightarrow> jobj" where
  "evidence_payload ev =
     [(''label'', JStr (pe_label ev)), (''score'', JFloat (Fin (pe_score ev))),
      (''concept_coverage'', JFloat (Fin (pe_concept_coverage ev))), (''depth_score'', JFloat (Fin (pe_depth_score ev))),
      (''matched_concepts'', json_strs (pe_matched_concepts ev)), (''missing_concepts'', json_strs (pe_missing_concepts ev)),
      (''word_count'', JInt (pe_word_count ev))]"

definition evidence_float :: "json \<Rightarrow> rat" where
  "evidence_float v = (case v of JInt i \<Rightarrow> fl (of_int i) | JFloat (Fin x) \<Rightarrow> x | _ \<Rightarrow> 0)"

definition evidence_int :: "json \<Rightarrow> int" where
  "evidence_int v = (case v of JInt i \<Rightarrow> i | JFloat (Fin x) \<Rightarrow> truncate_rat x | _ \<Rightarrow> 0)"

text \<open>\<open>[str(item) for item in value or []]\<close>: iterating over anything but a container raises.\<close>

definition evidence_strings :: "pylib \<Rightarrow> json \<Rightarrow> string list result" where
  "evidence_strings l v = (case py_or v (JList []) of
     JList xs \<Rightarrow> Inr (map (py_str l) xs)
   | JStr t \<Rightarrow> Inr (map (\<lambda>c. [c]) t)
   | JObj d \<Rightarrow> Inr (map fst d)
   | _ \<Rightarrow> Inl (Exn TypeErr ''object is not iterable''))"

definition phase_evidence_of :: "pylib \<Rightarrow> interview_message_row \<Rightarrow> phase_evidence result" where
  "phase_evidence_of l m =
     (let payload = optional_object_dict (mm_evidence m) in
      res_bind (evidence_strings l (jget payload ''matched_concepts'')) (\<lambda>matched.
      res_bind (evidence_strings l (jget payload ''missing_concepts'')) (\<lambda>missing.
      Inr \<lparr>pe_phase = mm_phase m, pe_label = py_str l (py_or (jget payload ''label'') (JStr (mm_phase m))),
        pe_score = evidence_float (jget payload ''score''),
        pe_concept_coverage = evidence_float (jget payload ''concept_coverage''),
        pe_depth_score = evidence_float (jget payload ''depth_score''), pe_matched_concepts = matched,
        pe_missing_concepts = missing, pe_word_count = evidence_int (jget payload ''word_count'')\<rparr>)))"

definition evidence_from_messages :: "pylib \<Rightarrow> uuid \<Rightarrow> interviews \<Rightarrow> phase_evidence list result" where
  "evidence_from_messages l sid s =
     res_map (phase_evidence_of l) (filter (\<lambda>m. mm_role m = ''candidate'') (messages_of sid s))"

section \<open>Completion\<close>

definition evidence_confidence :: "nat \<Rightarrow> rat" where
  "evidence_confidence phases = min (lit 9 10) (fadd (lit 55 100) (fmul (lit 5 100) (of_nat phases)))"

definition unit_value :: "rat \<Rightarrow> bool" where
  "unit_value x \<longleftrightarrow> 0 \<le> x \<and> x \<le> 1"

definition interview_evidence ::
  "env \<Rightarrow> pg_numeric \<Rightarrow> uuid \<Rightarrow> uuid \<Rightarrow> uuid \<Rightarrow> rat \<Rightarrow> nat \<Rightarrow> competency_evidence_row" where
  "interview_evidence e pg u sid cid score phases =
     \<lparr>ce_organization = organization_id e, ce_candidate = u, ce_competency = cid, ce_source_type = ''MOCK_INTERVIEW'',
      ce_source_id = uuid_str sid, ce_score = pg_column pg score,
      ce_confidence = pg_column pg (evidence_confidence phases), ce_weight = pg_column pg (lit 3 4),
      ce_evaluator_version = evaluator_version, ce_observed_at = db_now e,
      ce_evidence = JObj [(''session_id'', JStr (uuid_str sid)), (''phase_count'', JInt (int phases)),
        (''rubric'', JStr evaluator_version)]\<rparr>"

text \<open>The upsert of the projection; \<open>updated_at\<close> of a new row is its default.\<close>

definition upsert_mastery :: "env \<Rightarrow> uuid \<Rightarrow> uuid \<Rightarrow> rat \<Rightarrow> rat \<Rightarrow> int \<Rightarrow> timestamp option \<Rightarrow> interviews \<Rightarrow> interviews" where
  "upsert_mastery e u cid mastery confidence n newest s =
     (let hit = (\<lambda>r. cm_candidate r = u \<and> cm_competency r = cid) in
      s\<lparr>mastery_rows := (if list_ex hit (mastery_rows s)
        then update_where hit (\<lambda>r. r\<lparr>cm_mastery := mastery, cm_confidence := confidence, cm_evidence_count := n,
            cm_last_evidence_at := newest, cm_calculation_version := readiness_version, cm_updated_at := db_now e\<rparr>)
          (mastery_rows s)
        else mastery_rows s @ [\<lparr>cm_organization = organization_id e, cm_candidate = u, cm_competency = cid,
          cm_mastery = mastery, cm_confidence = confidence, cm_evidence_count = n, cm_last_evidence_at = newest,
          cm_calculation_version = readiness_version, cm_updated_at = db_now e\<rparr>])\<rparr>)"

definition write_mastery ::
  "env \<Rightarrow> pg_numeric \<Rightarrow> uuid \<Rightarrow> rat \<Rightarrow> nat \<Rightarrow> string \<Rightarrow> interviews \<Rightarrow> interviews result" where
  "write_mastery e pg sid score phases slug s =
     (case map_of (competency_ids s) slug of None \<Rightarrow> Inr s
      | Some cid \<Rightarrow>
        (case user_id e of None \<Rightarrow> Inl (Exn IntegrityErr ''candidate_id'')
         | Some u \<Rightarrow>
           let row = interview_evidence e pg u sid cid score phases;
               same = (\<lambda>r. ce_candidate r = u \<and> ce_source_type r = ''MOCK_INTERVIEW'' \<and> ce_source_id r = uuid_str sid \<and>
                 ce_competency r = cid);
               s1 = (if list_ex same (competency_evidence s) then s
                     else s\<lparr>competency_evidence := competency_evidence s @ [row]\<rparr>);
               rows = filter (\<lambda>r. ce_candidate r = u \<and> ce_competency r = cid) (competency_evidence s1)
           in if \<not> list_ex same (competency_evidence s) \<and>
                (\<not> unit_value (ce_score row) \<or> \<not> unit_value (ce_confidence row) \<or> ce_weight row \<le> 0 \<or> 1 < ce_weight row)
           then Inl (Exn IntegrityErr ''ck_competency_evidence'')
           else (case pg_mean pg (map (\<lambda>r. (ce_score r, ce_confidence r, ce_weight r)) rows) of
               None \<Rightarrow> Inl (Exn IntegrityErr ''mastery'')
             | Some mastery \<Rightarrow>
               let confidence = pg_saturation pg (map (\<lambda>r. (ce_confidence r, ce_weight r)) rows) in
               if \<not> unit_value mastery \<or> \<not> unit_value confidence then Inl (Exn IntegrityErr ''ck_candidate_mastery'')
               else Inr (upsert_mastery e u cid mastery confidence (int (length rows))
                 (Some (Max (set (map ce_observed_at rows)))) s1))))"

fun write_all_mastery ::
  "env \<Rightarrow> pg_numeric \<Rightarrow> uuid \<Rightarrow> rat \<Rightarrow> nat \<Rightarrow> string list \<Rightarrow> interviews \<Rightarrow> interviews result" where
  "write_all_mastery e pg sid score phases [] s = Inr s"
| "write_all_mastery e pg sid score phases (slug # slugs) s =
     res_bind (write_mastery e pg sid score phases slug s) (write_all_mastery e pg sid score phases slugs)"

definition report_row :: "pg_numeric \<Rightarrow> uuid \<Rightarrow> interview_report \<Rightarrow> interview_report_row" where
  "report_row pg sid report =
     \<lparr>mr_session = sid, mr_overall_score = pg_column pg (ir_overall_score report),
      mr_rubric_evidence = map (\<lambda>ev. JObj ((''phase'', JStr (pe_phase ev)) # evidence_payload ev)) (ir_rubric_evidence report),
      mr_strengths = ir_strengths report, mr_growth_areas = ir_growth_areas report, mr_next_steps = ir_next_steps report\<rparr>"

definition completed_row :: "env \<Rightarrow> interview_row \<Rightarrow> interview_row" where
  "completed_row e r = r\<lparr>mi_status := I_Completed, mi_current_phase := ''COMPLETE'', mi_completed_at := Some (db_now e),
     mi_updated_at := db_now e\<rparr>"

definition complete_interview :: "env \<Rightarrow> pg_numeric \<Rightarrow> uuid \<Rightarrow> string \<Rightarrow> interviews \<Rightarrow> interviews result" where
  "complete_interview e pg sid focus s =
     (case template_for focus of None \<Rightarrow> interview_error 409 ''Interview template is unavailable''
      | Some t \<Rightarrow> res_bind (evidence_from_messages (lib e) sid s) (\<lambda>evidence.
        let report = build_report evidence; row = report_row pg sid report;
            known = list_ex (\<lambda>r. mr_session r = sid) (interview_reports s) in
        if \<not> known \<and> \<not> unit_value (mr_overall_score row) then Inl (Exn IntegrityErr ''ck_mock_report_score'')
        else let s1 = s\<lparr>interview_reports := (if known then interview_reports s else interview_reports s @ [row]),
                interview_sessions := update_where (own_interview e sid) (completed_row e) (interview_sessions s)\<rparr>
        in write_all_mastery e pg sid (ir_overall_score report) (length (ir_rubric_evidence report)) (it_competencies t) s1))"

section \<open>The routes\<close>

definition new_interview_row :: "env \<Rightarrow> uuid \<Rightarrow> uuid \<Rightarrow> interview_template \<Rightarrow> string \<Rightarrow> interview_row" where
  "new_interview_row e u sid t target_role =
     \<lparr>mi_id = sid, mi_organization = organization_id e, mi_candidate = u, mi_interview_type = ''TECHNICAL_MOCK'',
      mi_target_role = target_role, mi_source_type = ''skillforge_template'', mi_source_id = it_slug t,
      mi_status = I_In_Progress, mi_current_phase = ip_slug (hd (it_phases t)), mi_started_at = Some (db_now e),
      mi_completed_at = None, mi_created_at = db_now e, mi_updated_at = db_now e\<rparr>"

definition question_evidence :: "interview_template \<Rightarrow> interview_phase_spec \<Rightarrow> jobj" where
  "question_evidence t p = [(''template'', JStr (it_slug t)), (''label'', JStr (ip_label p)),
     (''rubric'', JStr evaluator_version)]"

text \<open>The candidate's interviews whose opening message carries the key, the newest first.\<close>

definition opened_with_key :: "env \<Rightarrow> string \<Rightarrow> interviews \<Rightarrow> interview_row list" where
  "opened_with_key e key s = sort_key (\<lambda>r. - mi_created_at r)
     (filter (\<lambda>r. user_id e = Some (mi_candidate r) \<and> list_ex (\<lambda>m. mm_session m = mi_id r \<and> mm_role m = ''interviewer'' \<and>
        mm_sequence m = 0 \<and> jget (optional_object_dict (mm_evidence m)) ''idempotency_key'' = JStr key)
        (interview_messages s)) (interview_sessions s))"

definition create_mock_interview ::
  "env \<Rightarrow> uuid \<Rightarrow> string \<Rightarrow> string \<Rightarrow> string \<Rightarrow> interviews \<Rightarrow> (interview_view \<times> interviews) result" where
  "create_mock_interview e nid key requested_focus requested_role s =
     (let focus = strip requested_focus; target_role = strip requested_role in
      if focus = [] \<or> target_role = []
      then interview_error 422 ''Focus and target role must contain non-whitespace text.''
      else case template_for focus of
        None \<Rightarrow> interview_error 404 ''Mock interview template not found''
      | Some t \<Rightarrow>
        (case opened_with_key e key s of
           existing # _ \<Rightarrow>
             if mi_source_id existing \<noteq> it_slug t \<or> mi_target_role existing \<noteq> target_role
             then interview_error 409 ''Idempotency-Key was already used for a different mock interview request.''
             else res_bind (interview_detail e (mi_id existing) s) (\<lambda>v. Inr (v, s))
         | [] \<Rightarrow>
           (case user_id e of None \<Rightarrow> Inl (Exn IntegrityErr ''candidate_id'')
            | Some u \<Rightarrow>
              if nid \<in> mi_id ` set (interview_sessions s) then Inl (Exn IntegrityErr ''mock_interview_sessions_pkey'')
              else
                let p = hd (it_phases t);
                    s1 = s\<lparr>interview_sessions := interview_sessions s @ [new_interview_row e u nid t target_role]\<rparr>;
                    s2 = insert_message e nid ''interviewer'' (ip_slug p) (ip_prompt p)
                      (question_evidence t p @ [(''idempotency_key'', JStr key)]) s1
                in res_bind (interview_detail e nid s2) (\<lambda>v. Inr (v, s2)))))"

definition get_mock_interview :: "env \<Rightarrow> uuid \<Rightarrow> interviews \<Rightarrow> interview_view result" where
  "get_mock_interview e sid s = interview_detail e sid s"

definition answered_with_key :: "uuid \<Rightarrow> string \<Rightarrow> interviews \<Rightarrow> bool" where
  "answered_with_key sid key s = list_ex (\<lambda>m. mm_session m = sid \<and> mm_role m = ''candidate'' \<and>
     jget (optional_object_dict (mm_evidence m)) ''idempotency_key'' = JStr key) (interview_messages s)"

definition answer_evidence :: "string \<Rightarrow> phase_evidence \<Rightarrow> jobj" where
  "answer_evidence key ev = (''idempotency_key'', JStr key) # evidence_payload ev @ [(''rubric'', JStr evaluator_version)]"

text \<open>What is written for a response to the phase at \<open>index\<close>.\<close>

definition record_answer ::
  "env \<Rightarrow> pg_numeric \<Rightarrow> uuid \<Rightarrow> string \<Rightarrow> string \<Rightarrow> string \<Rightarrow> interview_template \<Rightarrow> nat \<Rightarrow> interviews \<Rightarrow> interviews result" where
  "record_answer e pg sid key content focus t index s =
     (let phase = it_phases t ! index;
          s1 = insert_message e sid ''candidate'' (ip_slug phase) content
            (answer_evidence key (evaluate_response phase content)) s
      in if index + 1 < length (it_phases t)
         then let next = it_phases t ! (index + 1);
                  s2 = s1\<lparr>interview_sessions := update_where (\<lambda>r. mi_id r = sid)
                    (\<lambda>r. r\<lparr>mi_current_phase := ip_slug next, mi_updated_at := db_now e\<rparr>) (interview_sessions s1)\<rparr>
              in Inr (insert_message e sid ''interviewer'' (ip_slug next) (ip_prompt next) (question_evidence t next) s2)
         else complete_interview e pg sid focus s1)"

text \<open>The index of the first phase with the slug.\<close>

definition phase_index :: "interview_template \<Rightarrow> string \<Rightarrow> nat option" where
  "phase_index t slug = map_option fst (find (\<lambda>(i, p). ip_slug p = slug) (enumerate 0 (it_phases t)))"

definition answer_mock_interview ::
  "env \<Rightarrow> pg_numeric \<Rightarrow> uuid \<Rightarrow> string \<Rightarrow> string \<Rightarrow> interviews \<Rightarrow> (interview_view \<times> interviews) result" where
  "answer_mock_interview e pg sid key response s =
     (let content = strip response in
      if content = [] then interview_error 422 ''Interview response must contain non-whitespace text.''
      else res_bind (interview_session e sid s) (\<lambda>r.
        if answered_with_key sid key s then res_bind (interview_detail e sid s) (\<lambda>v. Inr (v, s))
        else if mi_status r \<noteq> I_In_Progress
        then interview_error 409 ''Only an in-progress mock interview accepts responses.''
        else case template_for (mi_source_id r) of
          None \<Rightarrow> interview_error 409 ''Interview template is unavailable.''
        | Some t \<Rightarrow> (case phase_index t (mi_current_phase r) of
            None \<Rightarrow> interview_error 409 ''Interview phase is not recognized.''
          | Some index \<Rightarrow>
            res_bind (record_answer e pg sid key content (mi_source_id r) t index s) (\<lambda>s1.
            res_bind (interview_detail e sid s1) (\<lambda>v. Inr (v, s1))))))"

datatype interview_action = Pause | Resume | Cancel

fun interview_transition :: "interview_action \<Rightarrow> interview_state \<Rightarrow> interview_state option" where
  "interview_transition Pause I_In_Progress = Some I_Paused"
| "interview_transition Resume I_Paused = Some I_In_Progress"
| "interview_transition Cancel I_In_Progress = Some I_Cancelled"
| "interview_transition Cancel I_Paused = Some I_Cancelled"
| "interview_transition _ _ = None"

definition update_mock_interview_state ::
  "env \<Rightarrow> uuid \<Rightarrow> interview_action \<Rightarrow> interviews \<Rightarrow> (interview_view \<times> interviews) result" where
  "update_mock_interview_state e sid action s =
     res_bind (interview_session e sid s) (\<lambda>r. case interview_transition action (mi_status r) of
       None \<Rightarrow> interview_error 409 ''Requested mock interview state transition is invalid.''
     | Some target \<Rightarrow>
       let s1 = s\<lparr>interview_sessions := update_where (own_interview e sid)
             (\<lambda>r. r\<lparr>mi_status := target, mi_updated_at := db_now e\<rparr>) (interview_sessions s)\<rparr>
       in res_bind (interview_detail e sid s1) (\<lambda>v. Inr (v, s1)))"

end
