(* ===== verification/Interview_Guarantees.thy ===== *)
theory Interview_Guarantees imports Interview_Sessions Execution_Sample begin

text \<open>
  What the interview routes guarantee: a session is its template played with the candidate's
  answers, nothing else; and an answer to an interview in progress is never refused or lost.
\<close>

section \<open>The templates\<close>

definition phase_ok :: "interview_phase_spec \<Rightarrow> bool" where
  "phase_ok p \<longleftrightarrow> 2 \<le> length (ip_slug p) \<and> length (ip_slug p) \<le> 60 \<and> ip_label p \<noteq> [] \<and> ip_prompt p \<noteq> [] \<and>
     length (ip_prompt p) \<le> 1000"

definition template_ok :: "interview_template \<Rightarrow> bool" where
  "template_ok t \<longleftrightarrow> it_phases t \<noteq> [] \<and> distinct (map ip_slug (it_phases t)) \<and> list_all phase_ok (it_phases t)"

lemma templates_ok: "list_all template_ok interview_templates"
  by code_simp

lemma template_for_ok:
  assumes "template_for slug = Some t"
  shows "it_slug t = slug" "it_phases t \<noteq> []" "distinct (map ip_slug (it_phases t))" "\<And>p. p \<in> set (it_phases t) \<Longrightarrow> phase_ok p"
proof -
  have "(slug, t) \<in> set (map (\<lambda>t. (it_slug t, t)) interview_templates)"
    using assms unfolding template_for_def by (rule map_of_SomeD)
  then have t: "t \<in> set interview_templates" "it_slug t = slug" by auto
  show "it_slug t = slug" by (rule t(2))
  show "it_phases t \<noteq> []" "distinct (map ip_slug (it_phases t))" "\<And>p. p \<in> set (it_phases t) \<Longrightarrow> phase_ok p"
    using templates_ok t(1) by (auto simp: list_all_iff template_ok_def)
qed

section \<open>The script of an interview\<close>

text \<open>A message as role, phase, content and evidence.\<close>

type_synonym script_line = "string \<times> string \<times> string \<times> json"

definition line_of :: "interview_message_row \<Rightarrow> script_line" where
  "line_of m = (mm_role m, mm_phase m, mm_content m, mm_evidence m)"

definition question_line :: "interview_template \<Rightarrow> interview_phase_spec \<Rightarrow> script_line" where
  "question_line t p = (''interviewer'', ip_slug p, ip_prompt p, JObj (question_evidence t p))"

definition answer_line :: "interview_phase_spec \<Rightarrow> string \<times> string \<Rightarrow> script_line" where
  "answer_line p a = (''candidate'', ip_slug p, snd a, JObj (answer_evidence (fst a) (evaluate_response p (snd a))))"

text \<open>Question and answer of every answered phase, and the question of the next one.\<close>

fun script :: "interview_template \<Rightarrow> interview_phase_spec list \<Rightarrow> (string \<times> string) list \<Rightarrow> script_line list" where
  "script t [] as = []"
| "script t (p # ps) [] = [question_line t p]"
| "script t (p # ps) (a # as) = question_line t p # answer_line p a # script t ps as"

definition opening_line :: "interview_template \<Rightarrow> string \<Rightarrow> script_line" where
  "opening_line t key = (''interviewer'', ip_slug (hd (it_phases t)), ip_prompt (hd (it_phases t)),
     JObj (question_evidence t (hd (it_phases t)) @ [(''idempotency_key'', JStr key)]))"

definition transcript :: "interview_template \<Rightarrow> string \<Rightarrow> (string \<times> string) list \<Rightarrow> script_line list" where
  "transcript t key as = opening_line t key # tl (script t (it_phases t) as)"

definition evaluations :: "interview_template \<Rightarrow> (string \<times> string) list \<Rightarrow> phase_evidence list" where
  "evaluations t as = map2 (\<lambda>p a. evaluate_response p (snd a)) (it_phases t) as"

lemma script_snoc:
  assumes "length as < length ps"
  shows "script t ps (as @ [a]) = script t ps as @ answer_line (ps ! length as) a #
    (if Suc (length as) < length ps then [question_line t (ps ! Suc (length as))] else [])"
  using assms
proof (induction t ps as rule: script.induct)
  case (2 t p ps)
  then show ?case by (cases ps) simp_all
qed simp_all

lemma script_nonempty: "ps \<noteq> [] \<Longrightarrow> script t ps as \<noteq> []"
  by (cases "(t, ps, as)" rule: script.cases) auto

lemma transcript_snoc:
  assumes "length as < length (it_phases t)"
  shows "transcript t key (as @ [a]) = transcript t key as @ answer_line (it_phases t ! length as) a #
    (if Suc (length as) < length (it_phases t) then [question_line t (it_phases t ! Suc (length as))] else [])"
proof -
  have "it_phases t \<noteq> []" using assms by auto
  then show ?thesis
    using script_snoc [OF assms, of t a] script_nonempty [of "it_phases t" t as]
    by (cases "script t (it_phases t) as") (simp_all add: transcript_def)
qed

lemma script_answers:
  "length as \<le> length ps \<Longrightarrow> filter (\<lambda>x. fst x = ''candidate'') (script t ps as) = map2 answer_line ps as"
  by (induction t ps as rule: script.induct) (simp_all add: question_line_def answer_line_def)

lemma transcript_answers:
  assumes "length as \<le> length (it_phases t)"
  shows "filter (\<lambda>x. fst x = ''candidate'') (transcript t key as) = map2 answer_line (it_phases t) as"
proof -
  have "filter (\<lambda>x. fst x = ''candidate'') (tl (script t (it_phases t) as)) =
      filter (\<lambda>x. fst x = ''candidate'') (script t (it_phases t) as)"
    by (cases "(t, it_phases t, as)" rule: script.cases) (simp_all add: question_line_def)
  then show ?thesis using script_answers [OF assms, of t] by (simp add: transcript_def opening_line_def)
qed

text \<open>Reading the evidence of an answer back gives the evaluation that was stored.\<close>

lemma evidence_round_trip:
  assumes "line_of m = answer_line p a" "ip_label p \<noteq> []"
  shows "phase_evidence_of l m = Inr (evaluate_response p (snd a))"
proof -
  have fields: "mm_phase m = ip_slug p" "mm_evidence m = JObj (answer_evidence (fst a) (evaluate_response p (snd a)))"
    using assms(1) by (simp_all add: line_of_def answer_line_def)
  have labels: "pe_phase (evaluate_response p c) = ip_slug p" "pe_label (evaluate_response p c) = ip_label p" for c
    by (simp_all add: evaluate_response_def Let_def)
  have strings: "evidence_strings l (json_strs xs) = Inr xs" for xs
    by (auto simp: evidence_strings_def json_strs_def py_or_def comp_def)
  show ?thesis
    using assms(2)
    by (simp add: phase_evidence_of_def fields optional_object_dict_def answer_evidence_def evidence_payload_def jget_Cons
        strings evidence_float_def evidence_int_def py_or_def labels)
qed

section \<open>Sessions that follow their script\<close>

definition own_lines :: "uuid \<Rightarrow> interviews \<Rightarrow> interview_message_row list" where
  "own_lines sid s = filter (\<lambda>m. mm_session m = sid) (interview_messages s)"

definition numbered :: "interview_message_row list \<Rightarrow> bool" where
  "numbered ms \<longleftrightarrow> map mm_sequence ms = map int [0..<length ms]"

definition session_follows ::
  "pg_numeric \<Rightarrow> interviews \<Rightarrow> interview_row \<Rightarrow> interview_template \<Rightarrow> string \<Rightarrow> (string \<times> string) list \<Rightarrow> bool" where
  "session_follows pg s r t key as \<longleftrightarrow> template_for (mi_source_id r) = Some t \<and> length as \<le> length (it_phases t) \<and>
     distinct (map fst as) \<and> (\<forall>a\<in>set as. snd a \<noteq> [] \<and> length (snd a) \<le> 50000) \<and>
     numbered (own_lines (mi_id r) s) \<and> map line_of (own_lines (mi_id r) s) = transcript t key as \<and>
     (if length as = length (it_phases t)
      then mi_status r = I_Completed \<and> mi_current_phase r = ''COMPLETE'' \<and> mi_completed_at r \<noteq> None \<and>
        row_with mr_session (mi_id r) (interview_reports s) =
          Some (report_row pg (mi_id r) (build_report (evaluations t as)))
      else mi_status r \<in> {I_In_Progress, I_Paused, I_Cancelled} \<and>
        mi_current_phase r = ip_slug (it_phases t ! length as) \<and> mi_completed_at r = None \<and>
        row_with mr_session (mi_id r) (interview_reports s) = None)"

definition interviews_inv :: "pg_numeric \<Rightarrow> interviews \<Rightarrow> bool" where
  "interviews_inv pg s \<longleftrightarrow> distinct (map mi_id (interview_sessions s)) \<and>
     mm_session ` set (interview_messages s) \<subseteq> mi_id ` set (interview_sessions s) \<and>
     mr_session ` set (interview_reports s) \<subseteq> mi_id ` set (interview_sessions s) \<and>
     (\<forall>r\<in>set (interview_sessions s). \<exists>t key as. session_follows pg s r t key as)"

lemma follows_cong:
  assumes "own_lines (mi_id r) s2 = own_lines (mi_id r) s"
    and "row_with mr_session (mi_id r) (interview_reports s2) = row_with mr_session (mi_id r) (interview_reports s)"
  shows "session_follows pg s2 r t key as = session_follows pg s r t key as"
  by (simp add: session_follows_def assms)

lemma messages_numbered: "numbered (own_lines sid s) \<Longrightarrow> messages_of sid s = own_lines sid s"
  unfolding messages_of_def own_lines_def [symmetric] numbered_def
  by (intro sort_key_id_if_sorted) (simp add: sorted_map sorted_wrt_upt sorted_wrt_map)

lemma insert_lines:
  assumes "numbered (own_lines sid s)" "s2 = insert_message e sid role phase content evidence s"
  shows "numbered (own_lines sid s2)"
    "map line_of (own_lines sid s2) = map line_of (own_lines sid s) @ [(role, phase, content, JObj evidence)]"
    "other \<noteq> sid \<Longrightarrow> own_lines other s2 = own_lines other s"
    "interview_sessions s2 = interview_sessions s" "interview_reports s2 = interview_reports s"
    "mm_session ` set (interview_messages s2) = insert sid (mm_session ` set (interview_messages s))"
proof -
  have seq: "next_sequence (- 1) (map mm_sequence (messages_of sid s)) = int (length (own_lines sid s))"
    using assms(1) by (simp add: messages_numbered numbered_def next_sequence_upt)
  have lines: "own_lines sid s2 = own_lines sid s @ [\<lparr>mm_session = sid, mm_sequence = int (length (own_lines sid s)),
      mm_role = role, mm_phase = phase, mm_content = content, mm_evidence = JObj evidence, mm_created_at = db_now e\<rparr>]"
    unfolding assms(2) insert_message_def seq by (simp add: own_lines_def)
  show "numbered (own_lines sid s2)" using assms(1) by (simp add: lines numbered_def)
  show "map line_of (own_lines sid s2) = map line_of (own_lines sid s) @ [(role, phase, content, JObj evidence)]"
    by (simp add: lines line_of_def)
  show "other \<noteq> sid \<Longrightarrow> own_lines other s2 = own_lines other s"
    by (simp add: assms(2) insert_message_def own_lines_def)
  show "interview_sessions s2 = interview_sessions s" "interview_reports s2 = interview_reports s"
    "mm_session ` set (interview_messages s2) = insert sid (mm_session ` set (interview_messages s))"
    by (simp_all add: assms(2) insert_message_def)
qed

lemma mastery_frame:
  "write_all_mastery e pg sid score n slugs s = Inr s' \<Longrightarrow>
     interview_sessions s' = interview_sessions s \<and> interview_messages s' = interview_messages s \<and>
     interview_reports s' = interview_reports s"
proof (induction slugs arbitrary: s)
  case (Cons slug slugs)
  obtain s1 where s1: "write_mastery e pg sid score n slug s = Inr s1" "write_all_mastery e pg sid score n slugs s1 = Inr s'"
    using Cons.prems by (auto simp: res_bind_Inr_iff)
  have "interview_sessions s1 = interview_sessions s \<and> interview_messages s1 = interview_messages s \<and>
      interview_reports s1 = interview_reports s"
    using s1(1) by (auto simp: write_mastery_def Let_def upsert_mastery_def split: option.splits if_splits)
  then show ?case using Cons.IH [OF s1(2)] by simp
qed simp

lemma own_find: "interview_session e sid s = Inr r \<Longrightarrow> find (own_interview e sid) (interview_sessions s) = Some r"
  by (simp add: interview_session_def split: option.splits)

lemma own_found:
  assumes "interview_session e sid s = Inr r"
  shows "r \<in> set (interview_sessions s)" "mi_id r = sid" "user_id e = Some (mi_candidate r)"
  using assms by (auto simp: interview_session_def own_interview_def find_Some_iff in_set_conv_nth split: option.splits)

text \<open>An update of the session that was found leaves the other sessions alone.\<close>

lemma replaced_sessions:
  assumes "distinct (map mi_id ts)" "r \<in> set ts" "mi_id r = sid" "P r" "\<And>x. P x \<Longrightarrow> mi_id x = sid"
    and "\<And>x. mi_id (f x) = mi_id x"
  shows "map mi_id (update_where P f ts) = map mi_id ts" "f r \<in> set (update_where P f ts)"
    "x \<in> set (update_where P f ts) \<Longrightarrow> x = f r \<or> x \<in> set ts \<and> mi_id x \<noteq> sid"
proof -
  show "map mi_id (update_where P f ts) = map mi_id ts" by (rule map_update_where_same) (rule assms(6))
  show "f r \<in> set (update_where P f ts)" using assms(2,4) by (force simp: set_update_where)
  have only: "y = r" if "y \<in> set ts" "mi_id y = sid" for y
    using that assms(1-3) row_with_distinct [of mi_id ts] by (metis option.inject)
  show "x = f r \<or> x \<in> set ts \<and> mi_id x \<noteq> sid" if x: "x \<in> set (update_where P f ts)"
  proof -
    obtain y where y: "y \<in> set ts" "x = (if P y then f y else y)" using x by (rule in_update_whereE)
    show ?thesis
    proof (cases "P y")
      case True
      then show ?thesis using y only [OF y(1) assms(5) [OF True]] by simp
    next
      case False
      then have "mi_id y \<noteq> sid" using only [OF y(1)] assms(4) by auto
      then show ?thesis using y False by simp
    qed
  qed
qed

lemma find_update_own:
  assumes "\<And>x. own_interview e sid (f x) = own_interview e sid x" "\<And>x. own_interview e sid x \<Longrightarrow> P x"
  shows "find (own_interview e sid) (update_where P f ts) =
    map_option f (find (own_interview e sid) ts)"
  using assms by (induction ts) auto

text \<open>What every step shows: one session changes and follows, the others keep lines and report.\<close>

lemma inv_one_session:
  assumes inv: "interviews_inv pg s" and r: "r \<in> set (interview_sessions s)" "mi_id r = sid"
    and sessions: "map mi_id (interview_sessions s2) = map mi_id (interview_sessions s)"
      "\<forall>x\<in>set (interview_sessions s2). x = r2 \<or> x \<in> set (interview_sessions s) \<and> mi_id x \<noteq> sid"
    and frame: "\<forall>other. other \<noteq> sid \<longrightarrow> own_lines other s2 = own_lines other s \<and>
        row_with mr_session other (interview_reports s2) = row_with mr_session other (interview_reports s)"
    and messages: "mm_session ` set (interview_messages s2) \<subseteq> insert sid (mm_session ` set (interview_messages s))"
    and reports: "mr_session ` set (interview_reports s2) \<subseteq> insert sid (mr_session ` set (interview_reports s))"
    and follows: "session_follows pg s2 r2 t key as"
  shows "interviews_inv pg s2"
proof -
  have ids: "mi_id ` set (interview_sessions s2) = mi_id ` set (interview_sessions s)"
    using sessions(1) by (metis set_map)
  have "\<exists>t key as. session_follows pg s2 x t key as" if "x \<in> set (interview_sessions s2)" for x
  proof (cases "x = r2")
    case False
    then have x: "x \<in> set (interview_sessions s)" "mi_id x \<noteq> sid" using that sessions(2) by auto
    then obtain t' key' as' where "session_follows pg s x t' key' as'" using inv by (auto simp: interviews_inv_def)
    then have "session_follows pg s2 x t' key' as'" using follows_cong [of x s2 s] frame x(2) by simp
    then show ?thesis by blast
  qed (use follows in blast)
  moreover have sid: "sid \<in> mi_id ` set (interview_sessions s)" using r by blast
  moreover have "mm_session ` set (interview_messages s2) \<subseteq> mi_id ` set (interview_sessions s)"
    "mr_session ` set (interview_reports s2) \<subseteq> mi_id ` set (interview_sessions s)"
    using inv sid unfolding interviews_inv_def by (auto dest!: subsetD [OF messages] subsetD [OF reports])
  moreover have "distinct (map mi_id (interview_sessions s))" using inv by (simp add: interviews_inv_def)
  ultimately show ?thesis
    unfolding interviews_inv_def ids sessions(1) by simp
qed

section \<open>Operations keep the script\<close>

lemma phase_index_unique:
  assumes "distinct (map ip_slug (it_phases t))" "k < length (it_phases t)"
  shows "phase_index t (ip_slug (it_phases t ! k)) = Some k"
proof -
  have "find (\<lambda>(i, p). ip_slug p = ip_slug (ps ! k)) (enumerate n ps) = Some (n + k, ps ! k)"
    if "distinct (map ip_slug ps)" "k < length ps" for n k and ps :: "interview_phase_spec list"
    using that
  proof (induction ps arbitrary: n k)
    case (Cons p ps)
    show ?case
    proof (cases k)
      case (Suc j)
      then have "ip_slug (ps ! j) \<in> ip_slug ` set ps" using Cons.prems(2) by simp
      then have "ip_slug p \<noteq> ip_slug (ps ! j)" using Cons.prems(1) by auto
      then show ?thesis using Cons.IH [of j "Suc n"] Cons.prems Suc by simp
    qed simp
  qed simp
  from this [OF assms, of 0] show ?thesis by (simp add: phase_index_def)
qed

lemma candidate_evidence:
  assumes "numbered (own_lines sid s)" "map line_of (own_lines sid s) = transcript t key as"
    and "template_for focus = Some t" "length as \<le> length (it_phases t)"
  shows "evidence_from_messages l sid s = Inr (evaluations t as)"
proof -
  let ?ms = "filter (\<lambda>m. mm_role m = ''candidate'') (own_lines sid s)"
  have "map line_of ?ms = filter (\<lambda>x. fst x = ''candidate'') (map line_of (own_lines sid s))"
    by (simp add: filter_map comp_def line_of_def)
  then have lines: "map line_of ?ms = map2 answer_line (it_phases t) as"
    using transcript_answers [OF assms(4)] assms(2) by simp
  have "\<forall>p\<in>set ps. ip_label p \<noteq> [] \<Longrightarrow> map line_of ms = map2 answer_line ps bs \<Longrightarrow>
      res_map (phase_evidence_of l) ms = Inr (map2 (\<lambda>p a. evaluate_response p (snd a)) ps bs)" for ms ps bs
  proof (induction ps bs arbitrary: ms rule: list_induct2')
    case (4 p ps b bs)
    then obtain m ms' where "ms = m # ms'" "line_of m = answer_line p b" "map line_of ms' = map2 answer_line ps bs"
      by (cases ms) auto
    then show ?case using 4 evidence_round_trip [of m p b l] by simp
  qed simp_all
  from this [OF _ lines] show ?thesis
    using template_for_ok(4) [OF assms(3)]
    by (simp add: evidence_from_messages_def messages_numbered [OF assms(1)] evaluations_def phase_ok_def)
qed

lemma answer_line_keys:
  "list_ex (\<lambda>x :: script_line. fst x = ''candidate'' \<and>
      jget (optional_object_dict (snd (snd (snd x)))) ''idempotency_key'' = JStr k) (map2 answer_line ps bs) \<longleftrightarrow>
    k \<in> fst ` set (take (length ps) bs)"
  by (induction ps bs rule: list_induct2')
    (auto simp: answer_line_def answer_evidence_def optional_object_dict_def jget_Cons)

lemma answer_keys:
  assumes "session_follows pg s r t key as"
  shows "answered_with_key (mi_id r) k s \<longleftrightarrow> k \<in> fst ` set as"
proof -
  let ?P = "\<lambda>x :: script_line. fst x = ''candidate'' \<and> jget (optional_object_dict (snd (snd (snd x)))) ''idempotency_key'' = JStr k"
  have "answered_with_key (mi_id r) k s = list_ex ?P (map line_of (own_lines (mi_id r) s))"
    by (auto simp: answered_with_key_def own_lines_def line_of_def list_ex_iff)
  also have "\<dots> = list_ex ?P (filter (\<lambda>x. fst x = ''candidate'') (map line_of (own_lines (mi_id r) s)))"
    by (auto simp: list_ex_iff)
  also have "\<dots> = list_ex ?P (map2 answer_line (it_phases t) as)"
    using assms transcript_answers [of as t key] by (simp add: session_follows_def)
  also have "\<dots> = (k \<in> fst ` set (take (length (it_phases t)) as))" by (rule answer_line_keys)
  finally show ?thesis using assms by (simp add: session_follows_def)
qed

lemma evaluations_length: "length (evaluations t as) = min (length (it_phases t)) (length as)"
  by (simp add: evaluations_def)

text \<open>One answer moves the session one phase on, the last one completes it.\<close>

lemma record_answer_follows:
  assumes inv: "interviews_inv pg s" and found: "interview_session e sid s = Inr r"
    and follows: "session_follows pg s r t key as" and progress: "mi_status r = I_In_Progress"
    and fresh: "k \<notin> fst ` set as" and content: "c \<noteq> []" "length c \<le> 50000"
    and run: "record_answer e pg sid k c (mi_source_id r) t (length as) s = Inr s'"
  shows "interviews_inv pg s' \<and> (\<exists>r'. interview_session e sid s' = Inr r' \<and> session_follows pg s' r' t key (as @ [(k, c)]) \<and>
    mi_source_id r' = mi_source_id r \<and>
    mi_status r' = (if Suc (length as) = length (it_phases t) then I_Completed else I_In_Progress))"
proof -
  note r = own_found [OF found]
  have t: "template_for (mi_source_id r) = Some t" and open_phase: "length as < length (it_phases t)"
    and old: "numbered (own_lines sid s)" "map line_of (own_lines sid s) = transcript t key as"
      "distinct (map fst as)" "\<forall>a\<in>set as. snd a \<noteq> [] \<and> length (snd a) \<le> 50000"
      "mi_completed_at r = None" "row_with mr_session sid (interview_reports s) = None"
    using follows progress r(2) by (auto simp: session_follows_def split: if_splits)
  have answers: "distinct (map fst (as @ [(k, c)]))" "\<forall>a\<in>set (as @ [(k, c)]). snd a \<noteq> [] \<and> length (snd a) \<le> 50000"
    using old(3,4) fresh content by auto
  let ?p = "it_phases t ! length as"
  define s1 where "s1 = insert_message e sid ''candidate'' (ip_slug ?p) c (answer_evidence k (evaluate_response ?p c)) s"
  note lines1 = insert_lines [OF old(1) s1_def]
  have line: "(''candidate'', ip_slug ?p, c, JObj (answer_evidence k (evaluate_response ?p c))) = answer_line ?p (k, c)"
    by (simp add: answer_line_def)
  have ids: "distinct (map mi_id (interview_sessions s))" using inv by (simp add: interviews_inv_def)
  show ?thesis
  proof (cases "Suc (length as) < length (it_phases t)")
    case True
    let ?n = "it_phases t ! Suc (length as)"
    let ?f = "\<lambda>r :: interview_row. r\<lparr>mi_current_phase := ip_slug ?n, mi_updated_at := db_now e\<rparr>"
    define s2 where "s2 = s1\<lparr>interview_sessions := update_where (\<lambda>r. mi_id r = sid) ?f (interview_sessions s1)\<rparr>"
    have tables2: "own_lines x s2 = own_lines x s1" "interview_reports s2 = interview_reports s1"
      "interview_messages s2 = interview_messages s1" for x
      by (simp_all add: s2_def own_lines_def)
    have s': "s' = insert_message e sid ''interviewer'' (ip_slug ?n) (ip_prompt ?n) (question_evidence t ?n) s2"
      using run True unfolding record_answer_def s2_def s1_def by (simp add: Let_def)
    note lines2 = insert_lines [OF lines1(1) [folded tables2(1)] s']
    have sessions: "interview_sessions s' = update_where (\<lambda>r. mi_id r = sid) ?f (interview_sessions s)"
      by (simp add: lines2(4) s2_def lines1(4))
    have replaced: "map mi_id (interview_sessions s') = map mi_id (interview_sessions s)" "?f r \<in> set (interview_sessions s')"
      "x \<in> set (interview_sessions s') \<Longrightarrow> x = ?f r \<or> x \<in> set (interview_sessions s) \<and> mi_id x \<noteq> sid" for x
      unfolding sessions by (rule replaced_sessions [OF ids r(1,2)]; simp add: r(2))+
    have follows': "session_follows pg s' (?f r) t key (as @ [(k, c)])"
      using True t answers lines2(1,2) lines1(2) old(2,5,6) progress r(2) transcript_snoc [OF open_phase, of key "(k, c)"]
      by (simp add: session_follows_def tables2 lines1(5) lines2(5) line question_line_def)
    have "interviews_inv pg s'"
      by (rule inv_one_session [OF inv r(1,2) replaced(1) _ _ _ _ follows'])
        (use replaced(3) lines1 lines2 in \<open>simp_all add: tables2 subset_insertI\<close>)
    moreover have "find (own_interview e sid) (update_where (\<lambda>r. mi_id r = sid) ?f (interview_sessions s)) =
        map_option ?f (find (own_interview e sid) (interview_sessions s))"
      by (rule find_update_own) (simp_all add: own_interview_def)
    then have "interview_session e sid s' = Inr (?f r)" by (simp add: interview_session_def sessions own_find [OF found])
    ultimately show ?thesis using follows' progress True by auto
  next
    case False
    then have last_phase: "Suc (length as) = length (it_phases t)" using open_phase by simp
    let ?as = "as @ [(k, c)]"
    have lines: "map line_of (own_lines sid s1) = transcript t key ?as"
      using lines1(2) old(2) transcript_snoc [OF open_phase, of key "(k, c)"] False by (simp add: line)
    have ev: "evidence_from_messages (lib e) sid s1 = Inr (evaluations t ?as)"
      by (rule candidate_evidence [OF lines1(1) lines t]) (use open_phase in simp)
    let ?row = "report_row pg sid (build_report (evaluations t ?as))"
    define s2 where "s2 = s1\<lparr>interview_reports := interview_reports s1 @ [?row],
        interview_sessions := update_where (own_interview e sid) (completed_row e) (interview_sessions s1)\<rparr>"
    have no_report: "\<not> list_ex (\<lambda>r. mr_session r = sid) (interview_reports s1)"
      using old(6) by (auto simp: lines1(5) row_with_None_iff list_ex_iff)
    have complete: "complete_interview e pg sid (mi_source_id r) s1 = Inr s'"
      using run False by (simp add: record_answer_def s1_def Let_def)
    then obtain n sc slugs where rest: "write_all_mastery e pg sid sc n slugs s2 = Inr s'"
      by (simp add: complete_interview_def t ev no_report Let_def s2_def split: if_splits)
    note frame = mastery_frame [OF rest]
    have own: "own_lines x s' = own_lines x s1" for x using frame by (simp add: own_lines_def s2_def)
    have sessions: "interview_sessions s' = update_where (own_interview e sid) (completed_row e) (interview_sessions s)"
      using frame by (simp add: s2_def lines1(4))
    have reports: "interview_reports s' = interview_reports s @ [?row]" using frame by (simp add: s2_def lines1(5))
    have row_session: "mr_session ?row = sid" by (simp add: report_row_def)
    have replaced: "map mi_id (interview_sessions s') = map mi_id (interview_sessions s)"
      "completed_row e r \<in> set (interview_sessions s')"
      "x \<in> set (interview_sessions s') \<Longrightarrow> x = completed_row e r \<or> x \<in> set (interview_sessions s) \<and> mi_id x \<noteq> sid" for x
      unfolding sessions
      by (rule replaced_sessions [OF ids r(1,2), where P = "own_interview e sid" and f = "completed_row e"];
        simp add: own_interview_def r(2,3) completed_row_def)+
    have report: "row_with mr_session sid (interview_reports s') = Some ?row"
      by (simp add: reports row_with_append old(6) row_session)
    have follows': "session_follows pg s' (completed_row e r) t key ?as"
      using t answers lines lines1(1) last_phase report r(2)
      by (simp add: session_follows_def own completed_row_def)
    have "interviews_inv pg s'"
      by (rule inv_one_session [OF inv r(1,2) replaced(1) _ _ _ _ follows'])
        (use replaced(3) lines1 frame in \<open>simp_all add: own reports row_with_append row_session s2_def subset_insertI split: option.split\<close>)
    moreover have "find (own_interview e sid) (update_where (own_interview e sid) (completed_row e) (interview_sessions s)) =
        map_option (completed_row e) (find (own_interview e sid) (interview_sessions s))"
      by (rule find_update_own) (simp_all add: own_interview_def completed_row_def)
    then have "interview_session e sid s' = Inr (completed_row e r)"
      by (simp add: interview_session_def sessions own_find [OF found])
    ultimately show ?thesis using follows' last_phase by (auto simp: completed_row_def)
  qed
qed

lemma answer_cases:
  assumes "answer_mock_interview e pg sid k response s = Inr (view, s')"
  obtains "s' = s"
  | r t index where "interview_session e sid s = Inr r" "\<not> answered_with_key sid k s" "mi_status r = I_In_Progress"
    "template_for (mi_source_id r) = Some t" "phase_index t (mi_current_phase r) = Some index" "strip response \<noteq> []"
    "record_answer e pg sid k (strip response) (mi_source_id r) t index s = Inr s'"
proof -
  have nonempty: "strip response \<noteq> []" using assms by (auto simp: answer_mock_interview_def)
  obtain r where r: "interview_session e sid s = Inr r"
    using assms nonempty by (auto simp: answer_mock_interview_def Let_def res_bind_Inr_iff)
  show ?thesis
  proof (cases "answered_with_key sid k s")
    case True
    then show ?thesis using assms nonempty r that(1) by (auto simp: answer_mock_interview_def Let_def res_bind_Inr_iff)
  next
    case False
    then show ?thesis using assms nonempty r that(2)
      by (auto simp: answer_mock_interview_def Let_def res_bind_Inr_iff split: if_splits option.splits)
  qed
qed

lemma current_index:
  assumes "session_follows pg s r t key as" "mi_status r = I_In_Progress" "template_for (mi_source_id r) = Some t'"
  shows "t' = t" "phase_index t (mi_current_phase r) = Some (length as)" "length as < length (it_phases t)"
proof -
  show "t' = t" using assms(1,3) by (simp add: session_follows_def)
  show "length as < length (it_phases t)" using assms(1,2) by (auto simp: session_follows_def split: if_splits)
  then show "phase_index t (mi_current_phase r) = Some (length as)"
    using assms(1,2) template_for_ok(3) [of "mi_source_id r" t]
    by (simp add: session_follows_def phase_index_unique)
qed

lemma length_strip_le: "length (strip s) \<le> length s"
  using length_dropWhile_le [of is_space s] length_dropWhile_le [of is_space "rev (dropWhile is_space s)"]
  by (simp add: strip_def)

lemma answer_inv:
  assumes "interviews_inv pg s" "answer_mock_interview e pg sid k response s = Inr (view, s')" "length response \<le> 50000"
  shows "interviews_inv pg s'"
  using assms(2)
proof (cases rule: answer_cases)
  case 1
  then show ?thesis using assms(1) by simp
next
  case (2 r t index)
  obtain t' key as where f: "session_follows pg s r t' key as"
    using assms(1) own_found(1) [OF 2(1)] by (auto simp: interviews_inv_def)
  note at = current_index [OF f 2(3,4)]
  have "index = length as" using at 2(5) by simp
  moreover have "k \<notin> fst ` set as" using answer_keys [OF f] 2(2) own_found(2) [OF 2(1)] by simp
  moreover have "length (strip response) \<le> 50000" using length_strip_le [of response] assms(3) by simp
  ultimately show ?thesis
    using record_answer_follows [OF assms(1) 2(1) f 2(3) _ 2(6)] 2(7) at(1) by simp
qed

lemma create_inv:
  assumes inv: "interviews_inv pg s" and run: "create_mock_interview e nid key focus role s = Inr (view, s')"
  shows "interviews_inv pg s'"
proof -
  obtain t where t: "template_for (strip focus) = Some t" "strip focus \<noteq> []" "strip role \<noteq> []"
    using run by (auto simp: create_mock_interview_def Let_def split: if_splits option.splits)
  show ?thesis
  proof (cases "opened_with_key e key s")
    case (Cons x xs)
    then show ?thesis using run inv t by (auto simp: create_mock_interview_def Let_def res_bind_Inr_iff split: if_splits)
  next
    case Nil
    then obtain u where u: "user_id e = Some u" using run t by (auto simp: create_mock_interview_def Let_def split: option.splits)
    let ?r = "new_interview_row e u nid t (strip role)" and ?p = "hd (it_phases t)"
    define s1 where "s1 = s\<lparr>interview_sessions := interview_sessions s @ [?r]\<rparr>"
    have fresh: "nid \<notin> mi_id ` set (interview_sessions s)" using run t u Nil
      by (auto simp: create_mock_interview_def Let_def split: if_splits)
    have s': "s' = insert_message e nid ''interviewer'' (ip_slug ?p) (ip_prompt ?p)
        (question_evidence t ?p @ [(''idempotency_key'', JStr key)]) s1"
      using run t u Nil fresh by (auto simp: create_mock_interview_def Let_def res_bind_Inr_iff s1_def)
    have none: "own_lines nid s1 = []" "row_with mr_session nid (interview_reports s) = None"
      using inv fresh by (auto simp: interviews_inv_def s1_def own_lines_def filter_empty_conv row_with_None_iff)
    have empty: "numbered (own_lines nid s1)" by (simp add: none numbered_def)
    note lines = insert_lines [OF empty s']
    have ids: "mi_id ?r = nid" "mi_source_id ?r = strip focus"
      using template_for_ok(1) [OF t(1)] by (simp_all add: new_interview_row_def)
    have phases: "it_phases t \<noteq> []" by (rule template_for_ok(2) [OF t(1)])
    have "tl (script t (it_phases t) []) = []" using phases by (cases "it_phases t") simp_all
    then have "session_follows pg s' ?r t key []"
      using lines(1,2) t(1) phases none
      by (simp add: session_follows_def ids transcript_def opening_line_def hd_conv_nth lines(5) s1_def)
        (simp add: new_interview_row_def hd_conv_nth)
    then have new: "\<exists>t key as. session_follows pg s' ?r t key as" by blast
    have same: "session_follows pg s' x t' k' as' = session_follows pg s x t' k' as'"
      if "x \<in> set (interview_sessions s)" for x t' k' as'
    proof (rule follows_cong)
      have "mi_id x \<noteq> nid" using that fresh by auto
      then have "own_lines (mi_id x) s' = own_lines (mi_id x) s1" by (rule lines(3))
      then show "own_lines (mi_id x) s' = own_lines (mi_id x) s" by (simp add: s1_def own_lines_def)
    qed (simp add: lines(5) s1_def)
    have sessions: "interview_sessions s' = interview_sessions s @ [?r]" by (simp add: lines(4) s1_def)
    have "\<exists>t key as. session_follows pg s' x t key as" if "x \<in> set (interview_sessions s')" for x
    proof (cases "x = ?r")
      case False
      then have x: "x \<in> set (interview_sessions s)" using that by (simp add: sessions)
      then show ?thesis using inv same [OF x] by (simp add: interviews_inv_def)
    qed (use new in simp)
    moreover have "mm_session ` set (interview_messages s') \<subseteq> insert nid (mi_id ` set (interview_sessions s))"
      "mr_session ` set (interview_reports s') \<subseteq> mi_id ` set (interview_sessions s)"
      using inv unfolding interviews_inv_def lines(5,6) by (auto simp: s1_def)
    moreover have "distinct (map mi_id (interview_sessions s'))"
      using inv fresh by (simp add: sessions ids interviews_inv_def)
    ultimately show ?thesis
      by (simp add: interviews_inv_def sessions ids subset_insertI2)
  qed
qed

lemma action_inv:
  assumes inv: "interviews_inv pg s" and run: "update_mock_interview_state e sid action s = Inr (view, s')"
  shows "interviews_inv pg s'"
proof -
  obtain r where r: "interview_session e sid s = Inr r"
    using run by (auto simp: update_mock_interview_state_def res_bind_Inr_iff)
  obtain target where target: "interview_transition action (mi_status r) = Some target"
    using run r by (auto simp: update_mock_interview_state_def split: option.splits)
  let ?f = "\<lambda>r :: interview_row. r\<lparr>mi_status := target, mi_updated_at := db_now e\<rparr>"
  have s': "s' = s\<lparr>interview_sessions := update_where (own_interview e sid) ?f (interview_sessions s)\<rparr>"
    using run r target by (auto simp: update_mock_interview_state_def Let_def res_bind_Inr_iff)
  obtain t key as where f: "session_follows pg s r t key as"
    using inv own_found(1) [OF r] by (auto simp: interviews_inv_def)
  have states: "mi_status r \<in> {I_In_Progress, I_Paused}" "target \<in> {I_In_Progress, I_Paused, I_Cancelled}"
    using target by (cases "(action, mi_status r)" rule: interview_transition.cases; simp)+
  have "session_follows pg s (?f r) t key as"
    using f states by (auto simp: session_follows_def split: if_splits)
  then have follows: "session_follows pg s' (?f r) t key as"
    by (subst follows_cong [of _ s' s]) (simp_all add: s' own_lines_def)
  have ids: "distinct (map mi_id (interview_sessions s))" using inv by (simp add: interviews_inv_def)
  have sessions: "interview_sessions s' = update_where (own_interview e sid) ?f (interview_sessions s)" by (simp add: s')
  have replaced: "map mi_id (interview_sessions s') = map mi_id (interview_sessions s)" "?f r \<in> set (interview_sessions s')"
    "x \<in> set (interview_sessions s') \<Longrightarrow> x = ?f r \<or> x \<in> set (interview_sessions s) \<and> mi_id x \<noteq> sid" for x
    unfolding sessions
    by (rule replaced_sessions [OF ids own_found(1,2) [OF r], where P = "own_interview e sid" and f = ?f];
      simp add: own_interview_def own_found [OF r])+
  show ?thesis
    by (rule inv_one_session [OF inv own_found(1,2) [OF r] replaced(1) _ _ _ _ follows])
      (use replaced(3) in \<open>simp_all add: s' own_lines_def subset_insertI\<close>)
qed

section \<open>Competency evidence\<close>

definition competency_row_ok :: "competency_evidence_row \<Rightarrow> bool" where
  "competency_row_ok c \<longleftrightarrow> unit_value (ce_score c) \<and> unit_value (ce_confidence c) \<and> 0 < ce_weight c \<and> ce_weight c \<le> 1 \<and>
     (ce_source_type c = ''MOCK_INTERVIEW'' \<longrightarrow> 0 < ce_confidence c)"

text \<open>What PostgreSQL's numeric columns and aggregates do: storing keeps five decimals, a weighted mean
  of unit values with a positive weight is a unit value, and so is the saturation.\<close>

definition pg_ok :: "pg_numeric \<Rightarrow> bool" where
  "pg_ok pg \<longleftrightarrow> (\<forall>x. unit_value x \<longrightarrow> unit_value (pg_column pg x) \<and> \<bar>pg_column pg x - x\<bar> \<le> 1 / 100000) \<and>
     (\<forall>rows. (\<forall>(s, c, w)\<in>set rows. unit_value s \<and> unit_value c \<and> 0 < w \<and> w \<le> 1) \<and> (\<exists>(s, c, w)\<in>set rows. 0 < c) \<longrightarrow>
        (\<exists>m. pg_mean pg rows = Some m \<and> unit_value m)) \<and>
     (\<forall>rows. (\<forall>(c, w)\<in>set rows. unit_value c \<and> 0 < w \<and> w \<le> 1) \<longrightarrow> unit_value (pg_saturation pg rows))"

inductive interview_step :: "pg_numeric \<Rightarrow> interviews \<Rightarrow> interviews \<Rightarrow> bool" for pg where
  interview_opened: "create_mock_interview e nid key focus role s = Inr (view, s') \<Longrightarrow> interview_step pg s s'"
| interview_answered: "answer_mock_interview e pg sid key response s = Inr (view, s') \<Longrightarrow> length response \<le> 50000 \<Longrightarrow>
    interview_step pg s s'"
| interview_acted: "update_mock_interview_state e sid action s = Inr (view, s') \<Longrightarrow> interview_step pg s s'"
| competencies_changed: "\<forall>c\<in>set ces. competency_row_ok c \<Longrightarrow>
    interview_step pg s (s\<lparr>competency_evidence := ces, mastery_rows := ms, competency_ids := cs\<rparr>)"

inductive interviews_reachable :: "pg_numeric \<Rightarrow> interviews \<Rightarrow> bool" for pg where
  no_interviews: "interviews_reachable pg \<lparr>interview_sessions = [], interview_messages = [], interview_reports = [],
    competency_evidence = [], mastery_rows = [], competency_ids = cs\<rparr>"
| after_interview_step: "interviews_reachable pg s \<Longrightarrow> interview_step pg s s' \<Longrightarrow> interviews_reachable pg s'"

lemma interviews_reachable_inv: "interviews_reachable pg s \<Longrightarrow> interviews_inv pg s"
proof (induction rule: interviews_reachable.induct)
  case (no_interviews cs)
  then show ?case by (simp add: interviews_inv_def)
next
  case (after_interview_step s s')
  from after_interview_step(2) show ?case
  proof cases
    case (competencies_changed ces ms cs)
    have "session_follows pg s' r t key as = session_follows pg s r t key as" for r t key as
      by (rule follows_cong) (simp_all add: competencies_changed(1) own_lines_def)
    then show ?thesis using after_interview_step.IH by (simp add: interviews_inv_def competencies_changed(1))
  next
    case (interview_opened e nid key focus role view)
    then show ?thesis by (rule create_inv [OF after_interview_step.IH])
  next
    case (interview_answered e sid key response view)
    then show ?thesis by (rule answer_inv [OF after_interview_step.IH])
  next
    case (interview_acted e sid action view)
    then show ?thesis by (rule action_inv [OF after_interview_step.IH])
  qed
qed

section \<open>Scores are shares\<close>

lemma lit_quarters: "lit 3 4 = 3 / 4" "lit 1 4 = 1 / 4"
proof -
  have "fl 3 = 3" "fl 1 = 1" using fl_of_int [of 3] binary64.rnd_1 by simp_all
  then show "lit 3 4 = 3 / 4" "lit 1 4 = 1 / 4"
    using fl_half [of "3 / 2"] fl_half [of 3] fl_half [of "1 / 2"] fl_half [of 1] by (simp_all add: lit_def)
qed

lemma weighted_share:
  assumes "unit_value x" "0 \<le> p" "p \<le> q" "0 < q"
  shows "0 \<le> fmul (lit p q) x \<and> fmul (lit p q) x \<le> lit p q"
proof -
  have l: "0 \<le> lit p q" unfolding lit_def using assms binary64.rnd_share [of p q] by simp
  then have "lit p q * x \<le> lit p q" using assms(1) by (simp add: unit_value_def mult_left_le)
  then have "fl (lit p q * x) \<le> fl (lit p q)" by (rule fl_mono)
  moreover have "0 \<le> fl (lit p q * x)" using l assms(1) by (intro binary64.rnd_nonneg) (simp add: unit_value_def)
  ultimately show ?thesis by (simp add: fmul_def lit_def)
qed

lemma int_div_unit: "0 \<le> p \<Longrightarrow> p \<le> q \<Longrightarrow> 0 < q \<Longrightarrow> unit_value (int_div p q)"
  unfolding unit_value_def int_div_def by (rule binary64.rnd_share)

lemma phase_score_unit: "unit_value (pe_score (evaluate_response p c))"
proof -
  let ?n = "normalize_spaces (casefold c)"
  let ?cc = "int_div (int (length (filter (\<lambda>g. list_ex (\<lambda>term. contains (casefold term) ?n) g) (ip_concept_groups p))))
    (max 1 (int (length (ip_concept_groups p))))"
  let ?ds = "min 1 (int_div (int (length (filter (\<lambda>w. w \<noteq> []) (split_on (CHR 0x20) ?n)))) 140)"
  have "int (length (filter (\<lambda>g. list_ex (\<lambda>term. contains (casefold term) ?n) g) (ip_concept_groups p))) \<le>
      int (length (ip_concept_groups p))" by simp
  then have cc: "unit_value ?cc" by (intro int_div_unit) (simp_all add: max.coboundedI2)
  have ds: "unit_value ?ds" using binary64.rnd_nonneg by (simp add: unit_value_def int_div_def)
  have "0 \<le> fadd (fmul (lit 3 4) ?cc) (fmul (lit 1 4) ?ds)" "fadd (fmul (lit 3 4) ?cc) (fmul (lit 1 4) ?ds) \<le> 1"
    using weighted_share [OF cc, of 3 4] weighted_share [OF ds, of 1 4] binary64.rnd_nonneg binary64.rnd_le_1
    by (simp_all add: fadd_def lit_quarters)
  then show ?thesis using py_round_nd_unit by (simp add: unit_value_def evaluate_response_def Let_def)
qed

lemma mean_unit:
  assumes "\<forall>x\<in>set xs. unit_value x" "xs \<noteq> []"
  shows "unit_value (py_mean xs)"
proof -
  have "0 \<le> sum_list xs \<and> sum_list xs \<le> of_nat (length xs)"
    using assms(1) by (induction xs) (auto simp: unit_value_def)
  then have "0 \<le> sum_list xs / of_nat (length xs)" "sum_list xs / of_nat (length xs) \<le> 1"
    using assms(2) by (simp_all add: divide_le_eq)
  then show ?thesis using binary64.rnd_nonneg binary64.rnd_le_1 by (simp add: unit_value_def py_mean_def)
qed

lemma report_unit: "\<forall>ev\<in>set evs. unit_value (pe_score ev) \<Longrightarrow> unit_value (ir_overall_score (build_report evs))"
proof (cases "evs = []")
  case False
  moreover assume "\<forall>ev\<in>set evs. unit_value (pe_score ev)"
  ultimately have "unit_value (py_mean (map pe_score evs))" by (intro mean_unit) simp_all
  then show ?thesis using False py_round_nd_unit by (simp add: build_report_def unit_value_def Let_def)
qed (simp add: build_report_def unit_value_def)

lemma evaluations_unit: "\<forall>ev\<in>set (evaluations t as). unit_value (pe_score ev)"
  by (auto simp: evaluations_def phase_score_unit)

lemma confidence_bounds: "1 / 2 \<le> evidence_confidence n \<and> unit_value (evidence_confidence n)"
proof -
  have half: "fl (1 / 2) = 1 / 2" using fl_half [of 1] binary64.rnd_1 by simp
  have a: "1 / 2 \<le> lit 55 100" "1 / 2 \<le> lit 9 10" "lit 9 10 \<le> 1"
    using fl_mono [of "1 / 2" "55 / 100"] fl_mono [of "1 / 2" "9 / 10"] binary64.rnd_le_1 [of "9 / 10"]
    by (simp_all add: lit_def half)
  have "0 \<le> lit 5 100" using binary64.rnd_nonneg by (simp add: lit_def)
  then have "0 \<le> fmul (lit 5 100) (of_nat n)" unfolding fmul_def by (intro binary64.rnd_nonneg) simp
  then have "fl (1 / 2) \<le> fl (lit 55 100 + fmul (lit 5 100) (of_nat n))" using a(1) by (intro fl_mono) simp
  then show ?thesis using a(2,3) by (auto simp: evidence_confidence_def unit_value_def fadd_def half min_def)
qed

section \<open>An answer is never refused or lost\<close>

lemma write_mastery_total:
  assumes pg: "pg_ok pg" and user: "user_id e = Some u" and rows: "\<forall>c\<in>set (competency_evidence s). competency_row_ok c"
    and score: "unit_value score"
  shows "\<exists>s'. write_mastery e pg sid score n slug s = Inr s' \<and> (\<forall>c\<in>set (competency_evidence s'). competency_row_ok c)"
proof (cases "map_of (competency_ids s) slug")
  case None
  then show ?thesis using rows by (simp add: write_mastery_def)
next
  case (Some cid)
  let ?row = "interview_evidence e pg u sid cid score n"
  let ?same = "\<lambda>r. ce_candidate r = u \<and> ce_source_type r = ''MOCK_INTERVIEW'' \<and> ce_source_id r = uuid_str sid \<and> ce_competency r = cid"
  have column: "unit_value (pg_column pg x) \<and> \<bar>pg_column pg x - x\<bar> \<le> 1 / 100000" if "unit_value x" for x
    using pg that by (simp add: pg_ok_def)
  have conf: "unit_value (pg_column pg (evidence_confidence n))" "0 < pg_column pg (evidence_confidence n)"
    using column [of "evidence_confidence n"] confidence_bounds [of n] by (auto simp: abs_if split: if_splits)
  have weight: "unit_value (pg_column pg (lit 3 4))" "0 < pg_column pg (lit 3 4)"
    using column [of "lit 3 4"] by (auto simp: lit_quarters unit_value_def abs_if split: if_splits)
  have row: "competency_row_ok ?row" "?same ?row"
    using column [OF score] conf weight by (simp_all add: competency_row_ok_def interview_evidence_def unit_value_def)
  define s1 where "s1 = (if list_ex ?same (competency_evidence s) then s
      else s\<lparr>competency_evidence := competency_evidence s @ [?row]\<rparr>)"
  have ok1: "\<forall>c\<in>set (competency_evidence s1). competency_row_ok c" using rows row(1) by (simp add: s1_def)
  have same1: "list_ex ?same (competency_evidence s1)" using row(2) by (simp add: s1_def)
  define own where "own = filter (\<lambda>r. ce_candidate r = u \<and> ce_competency r = cid) (competency_evidence s1)"
  have "\<exists>c\<in>set own. competency_row_ok c \<and> ce_source_type c = ''MOCK_INTERVIEW''"
    using same1 ok1 by (auto simp: own_def list_ex_iff)
  then obtain c where c: "c \<in> set own" "0 < ce_confidence c" by (auto simp: competency_row_ok_def)
  have own_ok: "\<forall>r\<in>set own. unit_value (ce_score r) \<and> unit_value (ce_confidence r) \<and> 0 < ce_weight r \<and> ce_weight r \<le> 1"
    using ok1 by (auto simp: own_def competency_row_ok_def)
  let ?triples = "map (\<lambda>r. (ce_score r, ce_confidence r, ce_weight r)) own"
  have "(\<forall>(s, c, w)\<in>set ?triples. unit_value s \<and> unit_value c \<and> 0 < w \<and> w \<le> 1) \<and> (\<exists>(s, c, w)\<in>set ?triples. 0 < c)"
    using own_ok c by auto
  then have "\<exists>m. pg_mean pg ?triples = Some m \<and> unit_value m" using pg unfolding pg_ok_def by blast
  then obtain m where m: "pg_mean pg (map (\<lambda>r. (ce_score r, ce_confidence r, ce_weight r)) own) = Some m" "unit_value m" by blast
  have sat: "unit_value (pg_saturation pg (map (\<lambda>r. (ce_confidence r, ce_weight r)) own))"
    using pg [unfolded pg_ok_def] own_ok by auto
  have checks: "unit_value (ce_score ?row)" "unit_value (ce_confidence ?row)" "0 < ce_weight ?row" "ce_weight ?row \<le> 1"
    using row(1) by (simp_all add: competency_row_ok_def)
  have "write_mastery e pg sid score n slug s = Inr (upsert_mastery e u cid m
      (pg_saturation pg (map (\<lambda>r. (ce_confidence r, ce_weight r)) own)) (int (length own))
      (Some (Max (set (map ce_observed_at own)))) s1)"
    using checks m sat unfolding own_def s1_def
    by (simp add: write_mastery_def Some user Let_def not_less not_le split del: if_split)
  then show ?thesis using ok1 by (simp add: upsert_mastery_def Let_def)
qed

lemma write_all_mastery_total:
  assumes "pg_ok pg" "user_id e = Some u" "unit_value score" "\<forall>c\<in>set (competency_evidence s). competency_row_ok c"
  shows "\<exists>s'. write_all_mastery e pg sid score n slugs s = Inr s' \<and> (\<forall>c\<in>set (competency_evidence s'). competency_row_ok c)"
  using assms(4)
proof (induction slugs arbitrary: s)
  case (Cons slug slugs)
  obtain s1 where s1: "write_mastery e pg sid score n slug s = Inr s1" "\<forall>c\<in>set (competency_evidence s1). competency_row_ok c"
    using write_mastery_total [OF assms(1,2) Cons.prems assms(3)] by blast
  show ?case using Cons.IH [OF s1(2)] s1(1) by simp
qed simp

definition rows_ok :: "interviews \<Rightarrow> bool" where
  "rows_ok s \<longleftrightarrow> (\<forall>c\<in>set (competency_evidence s). competency_row_ok c)"

lemma record_answer_total:
  assumes follows: "session_follows pg s r t key as" and progress: "mi_status r = I_In_Progress"
    and pg: "pg_ok pg" and user: "user_id e = Some u" and rows: "rows_ok s"
  shows "\<exists>s'. record_answer e pg (mi_id r) k c (mi_source_id r) t (length as) s = Inr s' \<and> rows_ok s'"
proof -
  have t: "template_for (mi_source_id r) = Some t" and old: "numbered (own_lines (mi_id r) s)"
      "map line_of (own_lines (mi_id r) s) = transcript t key as"
      "row_with mr_session (mi_id r) (interview_reports s) = None"
    and open_phase: "length as < length (it_phases t)"
    using follows progress by (auto simp: session_follows_def split: if_splits)
  let ?p = "it_phases t ! length as"
  define s1 where "s1 = insert_message e (mi_id r) ''candidate'' (ip_slug ?p) c (answer_evidence k (evaluate_response ?p c)) s"
  note lines1 = insert_lines [OF old(1) s1_def]
  have rows1: "rows_ok s1" using rows by (simp add: rows_ok_def s1_def insert_message_def)
  show ?thesis
  proof (cases "Suc (length as) < length (it_phases t)")
    case True
    then show ?thesis using rows by (simp add: record_answer_def Let_def rows_ok_def insert_message_def)
  next
    case False
    let ?as = "as @ [(k, c)]"
    have lines: "map line_of (own_lines (mi_id r) s1) = transcript t key ?as"
      using lines1(2) old(2) transcript_snoc [OF open_phase, of key "(k, c)"] False by (simp add: answer_line_def)
    have ev: "evidence_from_messages (lib e) (mi_id r) s1 = Inr (evaluations t ?as)"
      by (rule candidate_evidence [OF lines1(1) lines t]) (use open_phase in simp)
    let ?report = "build_report (evaluations t ?as)"
    have unit: "unit_value (ir_overall_score ?report)" by (rule report_unit) (rule evaluations_unit)
    then have stored: "unit_value (mr_overall_score (report_row pg (mi_id r) ?report))"
      using pg by (simp add: pg_ok_def report_row_def)
    define s2 where "s2 = s1\<lparr>interview_reports := interview_reports s1 @ [report_row pg (mi_id r) ?report],
        interview_sessions := update_where (own_interview e (mi_id r)) (completed_row e) (interview_sessions s1)\<rparr>"
    have no_report: "\<not> list_ex (\<lambda>x. mr_session x = mi_id r) (interview_reports s1)"
      using old(3) by (force simp: lines1(5) row_with_None_iff list_ex_iff)
    have "\<forall>c\<in>set (competency_evidence s2). competency_row_ok c" using rows1 by (simp add: s2_def rows_ok_def)
    then obtain s' where "write_all_mastery e pg (mi_id r) (ir_overall_score ?report) (length (ir_rubric_evidence ?report))
        (it_competencies t) s2 = Inr s'" "rows_ok s'"
      using write_all_mastery_total [OF pg user unit] unfolding rows_ok_def by blast
    moreover have "record_answer e pg (mi_id r) k c (mi_source_id r) t (length as) s =
        complete_interview e pg (mi_id r) (mi_source_id r) s1"
      using False by (simp add: record_answer_def s1_def Let_def)
    ultimately show ?thesis
      by (simp add: complete_interview_def t ev no_report Let_def stored s2_def)
  qed
qed

lemma script_line_ok:
  assumes "x \<in> set (script t ps as)" "\<forall>p\<in>set ps. phase_ok p" "\<forall>a\<in>set as. snd a \<noteq> [] \<and> length (snd a) \<le> 50000"
  shows "case x of (role, phase, content, evidence) \<Rightarrow> role \<in> {''interviewer'', ''candidate''} \<and> 2 \<le> length phase \<and>
    length phase \<le> 60 \<and> content \<noteq> [] \<and> length content \<le> 50000 \<and> as_obj evidence \<noteq> None"
  using assms by (induction t ps as rule: script.induct) (auto simp: question_line_def answer_line_def phase_ok_def)

lemma transcript_line_ok:
  assumes "x \<in> set (transcript t key as)" "\<forall>p\<in>set (it_phases t). phase_ok p" "it_phases t \<noteq> []"
    and "\<forall>a\<in>set as. snd a \<noteq> [] \<and> length (snd a) \<le> 50000"
  shows "case x of (role, phase, content, evidence) \<Rightarrow> role \<in> {''interviewer'', ''candidate''} \<and> 2 \<le> length phase \<and>
    length phase \<le> 60 \<and> content \<noteq> [] \<and> length content \<le> 50000 \<and> as_obj evidence \<noteq> None"
proof (cases "x = opening_line t key")
  case True
  have "phase_ok (hd (it_phases t))" using assms(2,3) by simp
  then show ?thesis using True by (simp add: opening_line_def phase_ok_def)
next
  case False
  then have "x \<in> set (tl (script t (it_phases t) as))" using assms(1) by (simp add: transcript_def)
  then have "x \<in> set (script t (it_phases t) as)" by (cases "script t (it_phases t) as") auto
  then show ?thesis by (rule script_line_ok [OF _ assms(2,4)])
qed

lemma res_map_same: "\<forall>x\<in>set xs. f x = Inr x \<Longrightarrow> res_map f xs = Inr xs"
  by (induction xs) auto

lemma detail_total:
  assumes inv: "interviews_inv pg s" and pg: "pg_ok pg" and found: "interview_session e sid s = Inr r"
  shows "\<exists>v. interview_detail e sid s = Inr v"
proof -
  note r = own_found [OF found]
  obtain t key as where f: "session_follows pg s r t key as" using inv r(1) by (auto simp: interviews_inv_def)
  then have own: "numbered (own_lines sid s)" "map line_of (own_lines sid s) = transcript t key as"
    and t: "template_for (mi_source_id r) = Some t"
    and answers: "\<forall>a\<in>set as. snd a \<noteq> [] \<and> length (snd a) \<le> 50000"
    using r(2) by (auto simp: session_follows_def)
  have "message_view m = Inr m" if m: "m \<in> set (own_lines sid s)" for m
  proof -
    have "line_of m \<in> set (transcript t key as)" unfolding own(2) [symmetric] using m by simp
    then have "case line_of m of (role, phase, content, evidence) \<Rightarrow> role \<in> {''interviewer'', ''candidate''} \<and>
        2 \<le> length phase \<and> length phase \<le> 60 \<and> content \<noteq> [] \<and> length content \<le> 50000 \<and> as_obj evidence \<noteq> None"
      using template_for_ok(2,4) [OF t] answers by (intro transcript_line_ok) auto
    moreover have "mm_sequence m \<in> set (map mm_sequence (own_lines sid s))" using m by simp
    then have "0 \<le> mm_sequence m" using own(1) unfolding numbered_def by auto
    ultimately show ?thesis by (auto simp: message_view_def line_of_def)
  qed
  then have "res_map message_view (messages_of sid s) = Inr (messages_of sid s)"
    unfolding messages_numbered [OF own(1)] by (intro res_map_same) simp
  moreover have "\<exists>report. report_view sid s = Inr report"
  proof (cases "row_with mr_session sid (interview_reports s)")
    case (Some row)
    then have row: "row = report_row pg sid (build_report (evaluations t as))"
      using f r(2) by (auto simp: session_follows_def split: if_splits)
    have "unit_value (ir_overall_score (build_report (evaluations t as)))" by (rule report_unit) (rule evaluations_unit)
    then have "unit_value (mr_overall_score row)" using pg by (simp add: row report_row_def pg_ok_def)
    then show ?thesis using Some by (simp add: report_view_def unit_value_def)
  qed (simp add: report_view_def)
  ultimately show ?thesis using found by (auto simp: interview_detail_def)
qed

lemma rows_ok_step:
  assumes "interview_step pg s s'" "rows_ok s" "interviews_inv pg s" "pg_ok pg"
  shows "rows_ok s'"
  using assms(1)
proof cases
  case (interview_opened e nid key focus role view)
  then show ?thesis using assms(2)
    by (auto simp: create_mock_interview_def Let_def res_bind_Inr_iff rows_ok_def insert_message_def
        split: if_splits option.splits list.splits)
next
  case (interview_answered e sid k response view)
  from interview_answered(1) show ?thesis
  proof (cases rule: answer_cases)
    case (2 r t index)
    note r = own_found [OF 2(1)]
    obtain t' key as where f: "session_follows pg s r t' key as" using assms(3) r(1) by (auto simp: interviews_inv_def)
    note at = current_index [OF f 2(3,4)]
    have "index = length as" using at 2(5) by simp
    then show ?thesis
      using record_answer_total [OF f 2(3) assms(4) r(3) assms(2), of k "strip response"] 2(7) at(1) r(2) by auto
  qed (use assms(2) in simp)
next
  case (interview_acted e sid action view)
  then show ?thesis using assms(2)
    by (auto simp: update_mock_interview_state_def Let_def res_bind_Inr_iff rows_ok_def split: option.splits)
next
  case (competencies_changed ces ms cs)
  then show ?thesis by (simp add: rows_ok_def)
qed

lemma reachable_rows_ok: "interviews_reachable pg s \<Longrightarrow> pg_ok pg \<Longrightarrow> rows_ok s"
proof (induction rule: interviews_reachable.induct)
  case (no_interviews cs)
  then show ?case by (simp add: rows_ok_def)
next
  case (after_interview_step s s')
  then show ?case using rows_ok_step interviews_reachable_inv by blast
qed

section \<open>A sample interview\<close>

definition no_interviews_yet :: interviews where
  "no_interviews_yet = \<lparr>interview_sessions = [], interview_messages = [], interview_reports = [],
     competency_evidence = [], mastery_rows = [], competency_ids = [(''sql'', 4)]\<rparr>"

definition opened_interview :: interviews where
  "opened_interview = (let p = hd (it_phases template_sql) in
     insert_message (sample_env 10) 1 ''interviewer'' (ip_slug p) (ip_prompt p)
       (question_evidence template_sql p @ [(''idempotency_key'', JStr ''a'')])
       (no_interviews_yet\<lparr>interview_sessions := [new_interview_row (sample_env 10) 7 1 template_sql ''dev'']\<rparr>))"

text \<open>Numeric columns that lose nothing, and a flat mean.\<close>

definition exact_numeric :: pg_numeric where
  "exact_numeric = \<lparr>pg_column = (\<lambda>x. x), pg_mean = (\<lambda>rows. Some 1), pg_saturation = (\<lambda>rows. 1)\<rparr>"

lemma exact_numeric_ok: "pg_ok exact_numeric"
  by (simp add: pg_ok_def exact_numeric_def unit_value_def)

lemma template_sql_found: "template_for ''sql'' = Some template_sql"
  by (simp add: template_for_def interview_templates_def template_sql_def template_data_engineering_def template_python_def)

lemma opened_interview_session:
  "interview_session (sample_env 10) 1 opened_interview = Inr (new_interview_row (sample_env 10) 7 1 template_sql ''dev'')"
  by (simp add: interview_session_def opened_interview_def insert_message_def Let_def own_interview_def
      new_interview_row_def sample_env_def)

lemma sample_opening:
  "\<exists>view. create_mock_interview (sample_env 10) 1 ''a'' '' sql'' ''dev'' no_interviews_yet = Inr (view, opened_interview)"
proof -
  have texts: "strip '' sql'' = ''sql''" "strip ''dev'' = ''dev''" by code_simp+
  have "\<exists>view. interview_detail (sample_env 10) 1 opened_interview = Inr view"
    unfolding interview_detail_def opened_interview_session
    by (simp add: opened_interview_def no_interviews_yet_def insert_message_def messages_of_def message_view_def report_view_def
        template_sql_def interview_phase_def question_evidence_def Let_def next_sequence_def)
  then show ?thesis
    by (auto simp: create_mock_interview_def texts template_sql_found opened_with_key_def opened_interview_def
        no_interviews_yet_def sample_env_def Let_def)
qed

lemma opened_interview_reachable: "interviews_reachable pg opened_interview"
proof -
  have "interviews_reachable pg no_interviews_yet" unfolding no_interviews_yet_def by (rule no_interviews)
  moreover obtain view where
    "create_mock_interview (sample_env 10) 1 ''a'' '' sql'' ''dev'' no_interviews_yet = Inr (view, opened_interview)"
    using sample_opening ..
  ultimately show ?thesis by (rule after_interview_step [OF _ interview_opened])
qed

section \<open>The guarantees\<close>

text \<open>C31: Every mock interview is its template played with the candidate's answers. In every state
  the routes reach, there are a template and answers such that the messages of the session, numbered
  from zero without a gap, are exactly the questions of the phases reached and the answers with
  their evaluations; the current phase is the one asked last; no Idempotency-Key has answered twice;
  and the session is completed, with the report built from the evaluations of all its answers,
  exactly when every phase is answered.\<close>

theorem interview_refines_script:
  assumes "interviews_reachable pg s" "r \<in> set (interview_sessions s)"
  shows "\<exists>t key as. template_for (mi_source_id r) = Some t \<and> length as \<le> length (it_phases t) \<and> distinct (map fst as) \<and>
    messages_of (mi_id r) s = own_lines (mi_id r) s \<and>
    map mm_sequence (messages_of (mi_id r) s) = map int [0..<length (messages_of (mi_id r) s)] \<and>
    map line_of (messages_of (mi_id r) s) = transcript t key as \<and>
    (mi_status r = I_Completed \<longleftrightarrow> length as = length (it_phases t)) \<and>
    mi_current_phase r = (if length as = length (it_phases t) then ''COMPLETE'' else ip_slug (it_phases t ! length as)) \<and>
    row_with mr_session (mi_id r) (interview_reports s) = (if length as = length (it_phases t)
      then Some (report_row pg (mi_id r) (build_report (evaluations t as))) else None)"
proof -
  obtain t key as where f: "session_follows pg s r t key as"
    using interviews_reachable_inv [OF assms(1)] assms(2) by (auto simp: interviews_inv_def)
  then have own: "messages_of (mi_id r) s = own_lines (mi_id r) s" by (simp add: messages_numbered session_follows_def)
  show ?thesis
    by (intro exI [of _ t] exI [of _ key] exI [of _ as])
      (use f in \<open>auto simp: own session_follows_def numbered_def split: if_splits\<close>)
qed

theorem interview_refines_script_witness:
  "\<exists>t key as. template_for ''sql'' = Some t \<and> length as < length (it_phases t) \<and>
    map line_of (messages_of 1 opened_interview) = transcript t key as"
proof -
  have r: "new_interview_row (sample_env 10) 7 1 template_sql ''dev'' \<in> set (interview_sessions opened_interview)"
    by (simp add: opened_interview_def insert_message_def Let_def)
  have row: "mi_id (new_interview_row (sample_env 10) 7 1 template_sql ''dev'') = 1"
    "mi_source_id (new_interview_row (sample_env 10) 7 1 template_sql ''dev'') = ''sql''"
    "mi_status (new_interview_row (sample_env 10) 7 1 template_sql ''dev'') = I_In_Progress"
    by (simp_all add: new_interview_row_def template_sql_def)
  show ?thesis
    using interview_refines_script [OF opened_interview_reachable [of exact_numeric] r] unfolding row
    by (auto simp: le_less)
qed

text \<open>C32: An answer to an own interview in progress always succeeds: a text that is not blank and has
  at most 50000 characters, under a new Idempotency-Key, is appended to the script; the session
  completes with the last phase and stays in progress otherwise; and sending the request again,
  with any text, returns the same view and changes nothing. (The numeric columns of PostgreSQL keep
  five decimals and average unit values to unit values.)\<close>

theorem interview_answer_succeeds:
  assumes "interviews_reachable pg s" "pg_ok pg" "interview_session e sid s = Inr r" "mi_status r = I_In_Progress"
    and "\<not> answered_with_key sid k s" "strip response \<noteq> []" "length response \<le> 50000"
  shows "\<exists>view s' r' t key as. answer_mock_interview e pg sid k response s = Inr (view, s') \<and>
    session_follows pg s r t key as \<and> interview_session e sid s' = Inr r' \<and>
    session_follows pg s' r' t key (as @ [(k, strip response)]) \<and>
    mi_status r' = (if Suc (length as) = length (it_phases t) then I_Completed else I_In_Progress) \<and>
    (\<forall>again. strip again \<noteq> [] \<longrightarrow> answer_mock_interview e pg sid k again s' = Inr (view, s'))"
proof -
  have inv: "interviews_inv pg s" by (rule interviews_reachable_inv [OF assms(1)])
  note r = own_found [OF assms(3)]
  obtain t key as where f: "session_follows pg s r t key as" using inv r(1) by (auto simp: interviews_inv_def)
  then have t: "template_for (mi_source_id r) = Some t" by (simp add: session_follows_def)
  note at = current_index [OF f assms(4) t]
  have fresh: "k \<notin> fst ` set as" using answer_keys [OF f] assms(5) r(2) by simp
  have len: "length (strip response) \<le> 50000" using length_strip_le [of response] assms(7) by simp
  obtain s' where run: "record_answer e pg sid k (strip response) (mi_source_id r) t (length as) s = Inr s'"
    using record_answer_total [OF f assms(4,2) r(3) reachable_rows_ok [OF assms(1,2)]] r(2) by blast
  obtain r' where r': "interviews_inv pg s'" "interview_session e sid s' = Inr r'"
      "session_follows pg s' r' t key (as @ [(k, strip response)])"
      "mi_status r' = (if Suc (length as) = length (it_phases t) then I_Completed else I_In_Progress)"
    using record_answer_follows [OF inv assms(3) f assms(4) fresh assms(6) len run] by blast
  obtain view where view: "interview_detail e sid s' = Inr view" using detail_total [OF r'(1) assms(2) r'(2)] by blast
  have "answer_mock_interview e pg sid k response s = Inr (view, s')"
    using assms(3-6) t at(2) run view by (simp add: answer_mock_interview_def)
  moreover have "answered_with_key sid k s'" using answer_keys [OF r'(3)] own_found(2) [OF r'(2)] by simp
  then have "answer_mock_interview e pg sid k again s' = Inr (view, s')" if "strip again \<noteq> []" for again
    using that r'(2) view by (simp add: answer_mock_interview_def)
  ultimately show ?thesis using f r' by blast
qed

theorem interview_answer_succeeds_witness:
  "\<exists>view s'. answer_mock_interview (sample_env 10) exact_numeric 1 ''k'' '' one row per order'' opened_interview = Inr (view, s') \<and>
     answer_mock_interview (sample_env 10) exact_numeric 1 ''k'' ''again'' s' = Inr (view, s')"
proof -
  have progress: "mi_status (new_interview_row (sample_env 10) 7 1 template_sql ''dev'') = I_In_Progress"
    by (simp add: new_interview_row_def)
  have new: "\<not> answered_with_key 1 ''k'' opened_interview"
    by (simp add: answered_with_key_def opened_interview_def insert_message_def no_interviews_yet_def Let_def)
  have said: "strip '' one row per order'' \<noteq> []" "length '' one row per order'' \<le> 50000" "strip ''again'' \<noteq> []"
    by code_simp+
  show ?thesis
    using interview_answer_succeeds [OF opened_interview_reachable exact_numeric_ok opened_interview_session progress new said(1,2)]
      said(3) by blast
qed

end
