(* ===== verification/Python_Runner.thy ===== *)
theory Python_Runner imports Execution_Api begin

text \<open>
  The runner inside a Python sandbox (\<open>services/python-runner/runner.py\<close>): the checks of its input,
  the loop over the tests with its deadline, the program of the child process and the line with the
  result. What the candidate's code does, the child process, the clock and the decoding of bytes
  are arguments.
\<close>

section \<open>The input\<close>

definition runner_source_bytes :: nat where "runner_source_bytes = 100000"
definition runner_max_tests :: nat where "runner_max_tests = 200"
definition runner_stream_bytes :: nat where "runner_stream_bytes = 64 * 1024"

abbreviation runner_err :: "string \<Rightarrow> 'a result" where
  "runner_err msg \<equiv> Inl (Exn RunnerInputErr msg)"

record runner_test =
  rt_id :: string
  rt_visibility :: string
  rt_input :: json

record runner_request =
  rn_attempt :: int
  rn_source_code :: string
  rn_entrypoint :: string
  rn_invocation_mode :: string
  rn_tests :: "runner_test list"

text \<open>Membership of a list or a dictionary in a set raises \<open>TypeError\<close>.\<close>

definition member_of :: "json \<Rightarrow> string list \<Rightarrow> bool result" where
  "member_of v names =
     (if \<not> hashable v then Inl (Exn TypeErr ''unhashable type'')
      else Inr (case v of JStr s \<Rightarrow> s \<in> set names | _ \<Rightarrow> False))"

fun runner_tests :: "pylib \<Rightarrow> nat \<Rightarrow> json list \<Rightarrow> string list \<Rightarrow> runner_test list result" where
  "runner_tests l index [] seen = Inr []"
| "runner_tests l index (raw # raws) seen =
     (case raw of
        JObj item \<Rightarrow>
          (case jget item ''id'' of
             JStr test_id \<Rightarrow>
               if test_id = [] then runner_err (''Test input '' @ nat_str index @ '' has no identifier.'')
               else if test_id \<in> set seen then runner_err (''Duplicate test identifier '' @ str_repr l test_id @ ''.'')
               else (let visibility = jget_default item ''visibility'' (JStr ''hidden'') in
                 res_bind (member_of visibility [''public'', ''hidden'']) (\<lambda>known.
                 if \<not> known then runner_err (''Test input '' @ test_id @ '' has invalid visibility.'')
                 else if has_key item ''expected_output'' \<or> has_key item ''expected''
                 then runner_err ''Expected outputs must never enter the candidate sandbox.''
                 else res_bind (runner_tests l (index + 1) raws (test_id # seen)) (\<lambda>tests.
                   Inr (\<lparr>rt_id = test_id, rt_visibility = the (as_str visibility), rt_input = jget item ''input''\<rparr>
                     # tests))))
           | _ \<Rightarrow> runner_err (''Test input '' @ nat_str index @ '' has no identifier.''))
      | _ \<Rightarrow> runner_err ''Each test input must be an object.'')"

definition parse_test_list :: "pylib \<Rightarrow> jobj \<Rightarrow> runner_test list result" where
  "parse_test_list l payload =
     (case jget payload ''tests'' of
        JList tests \<Rightarrow>
          if tests = [] then runner_err ''At least one test input is required.''
          else if runner_max_tests < length tests then runner_err ''Execution contains too many test inputs.''
          else runner_tests l 0 tests []
      | _ \<Rightarrow> runner_err ''At least one test input is required.'')"

definition request_of_payload :: "pylib \<Rightarrow> jobj \<Rightarrow> int \<Rightarrow> string \<Rightarrow> runner_request result" where
  "request_of_payload l payload attempt source =
     (if runner_source_bytes < utf8_len source
      then runner_err ''Candidate source exceeds the execution limit.''
      else case jget_default payload ''entrypoint'' (JStr ''solve'') of
        JStr entry \<Rightarrow>
          if \<not> is_identifier entry then runner_err ''Candidate entrypoint is invalid.''
          else (let mode = jget_default payload ''invocation_mode'' (JStr ''auto'') in
            res_bind (member_of mode invocation_modes) (\<lambda>known.
            if \<not> known then runner_err ''Candidate invocation mode is invalid.''
            else res_bind (parse_test_list l payload) (\<lambda>tests.
              Inr \<lparr>rn_attempt = attempt, rn_source_code = source, rn_entrypoint = entry,
                rn_invocation_mode = the (as_str mode), rn_tests = tests\<rparr>)))
      | _ \<Rightarrow> runner_err ''Candidate entrypoint is invalid.'')"

text \<open>\<open>None\<close> is a file that cannot be read or decoded.\<close>

definition parse_request :: "pylib \<Rightarrow> string option \<Rightarrow> uuid \<Rightarrow> runner_request result" where
  "parse_request l raw eid =
     (case Option.bind raw (json_loads l) of
        None \<Rightarrow> runner_err ''Execution input is unavailable or invalid JSON.''
      | Some (JObj payload) \<Rightarrow>
          if \<not> py_eq (jget payload ''schema_version'') (JInt 1)
          then runner_err ''Unsupported execution input schema version.''
          else if \<not> py_eq (jget payload ''execution_id'') (JStr (uuid_str eid))
          then runner_err ''Execution input identifier mismatch.''
          else (case jget payload ''attempt'' of
              JInt attempt \<Rightarrow>
                if attempt < 1 then runner_err ''Execution attempt is missing or invalid.''
                else (case jget payload ''source_code'' of
                    JStr source \<Rightarrow>
                      if source = [] then runner_err ''Candidate source is required.''
                      else request_of_payload l payload attempt source
                  | _ \<Rightarrow> runner_err ''Candidate source is required.'')
            | _ \<Rightarrow> runner_err ''Execution attempt is missing or invalid.'')
      | Some _ \<Rightarrow> runner_err ''Execution input must be a JSON object.'')"

section \<open>The child process\<close>

text \<open>How the entrypoint is called. \<open>f(**v)\<close> raises for anything but a mapping.\<close>

datatype invocation = Keywords jobj | Positional "json list" | No_Arguments | Single json

definition child_invocation :: "json \<Rightarrow> json \<Rightarrow> invocation result" where
  "child_invocation mode test_input =
     (let auto = py_eq mode (JStr ''auto'') in
      if py_eq mode (JStr ''keyword_arguments'') \<or> auto \<and> as_obj test_input \<noteq> None
      then (case test_input of JObj d \<Rightarrow> Inr (Keywords d)
        | _ \<Rightarrow> Inl (Exn TypeErr ''argument after ** must be a mapping''))
      else if py_eq mode (JStr ''positional_arguments'') \<or> auto \<and> as_list test_input \<noteq> None
      then (case test_input of JList xs \<Rightarrow> Inr (Positional xs)
        | _ \<Rightarrow> Inl (Exn TypeErr ''positional_arguments input must be a list''))
      else if py_eq mode (JStr ''no_arguments'') then Inr No_Arguments
      else Inr (Single test_input))"

text \<open>
  The candidate's module: the exception its execution raises, if any; whether the namespace then
  holds a callable entrypoint; what a call ends with (the value as JSON encodes it, a value it
  cannot encode, with the exception encoding raises, or an exception); the texts written to the two streams until then.
\<close>

datatype completion = Returned json | Unserializable string | Raised string

record candidate_module =
  cm_exec :: "string \<Rightarrow> string option"
  cm_callable :: "string \<Rightarrow> json \<Rightarrow> bool"
  cm_call :: "string \<Rightarrow> json \<Rightarrow> invocation \<Rightarrow> completion"
  cm_stdout :: "string \<Rightarrow> json \<Rightarrow> invocation option \<Rightarrow> string list"
  cm_stderr :: "string \<Rightarrow> json \<Rightarrow> invocation option \<Rightarrow> string list"

text \<open>\<open>BoundedText\<close>: the text kept, and whether some was dropped.\<close>

definition bounded_write :: "nat \<Rightarrow> string \<times> bool \<Rightarrow> string \<Rightarrow> string \<times> bool" where
  "bounded_write limit = (\<lambda>(kept, truncated) text.
     let remaining = limit - length kept in
     (kept @ take remaining text, truncated \<or> remaining < length text))"

definition bounded_text :: "nat \<Rightarrow> string list \<Rightarrow> string \<times> bool" where
  "bounded_text limit writes = foldl (bounded_write limit) ([], False) writes"

definition child_outcome :: "candidate_module \<Rightarrow> string \<Rightarrow> json \<Rightarrow> invocation result \<Rightarrow> completion" where
  "child_outcome m source entry invocation =
     (case cm_exec m source of
        Some name \<Rightarrow> Raised name
      | None \<Rightarrow> if \<not> cm_callable m source entry then Raised ''TypeError''
          else case invocation of Inl x \<Rightarrow> Raised (exn_name (exn_class x)) | Inr i \<Rightarrow> cm_call m source entry i)"

definition child_protocol :: "candidate_module \<Rightarrow> jobj \<Rightarrow> jobj" where
  "child_protocol m payload =
     (let source = (case jget payload ''source_code'' of JStr s \<Rightarrow> s | _ \<Rightarrow> []);
          entry = jget payload ''entrypoint'';
          invocation = child_invocation (jget_default payload ''invocation_mode'' (JStr ''auto'')) (jget payload ''input'');
          outcome = child_outcome m source entry invocation;
          called = (if cm_exec m source = None \<and> cm_callable m source entry
            then (case invocation of Inl x \<Rightarrow> None | Inr i \<Rightarrow> Some i) else None);
          out = bounded_text 65536 (cm_stdout m source entry called);
          err = bounded_text 65536 (cm_stderr m source entry called)
      in [(''ok'', JBool (case outcome of Returned v \<Rightarrow> True | _ \<Rightarrow> False)),
          (''actual'', case outcome of Returned v \<Rightarrow> v | _ \<Rightarrow> JNull),
          (''error_category'', case outcome of Returned v \<Rightarrow> JNull
             | Unserializable name \<Rightarrow> JStr ''output_not_json_serializable'' | Raised name \<Rightarrow> JStr name),
          (''stdout'', JStr (fst out)), (''stderr'', JStr (fst err)),
          (''stdout_truncated'', JBool (snd out)), (''stderr_truncated'', JBool (snd err))])"

definition child_prefix :: string where "child_prefix = ''RIGOR_RESULT:''"

definition child_print :: "pylib \<Rightarrow> candidate_module \<Rightarrow> jobj \<Rightarrow> string" where
  "child_print l m payload =
     child_prefix @ json_dumps l False False (JObj (child_protocol m payload)) @ [CHR 0x0A]"

section \<open>One test\<close>

text \<open>
  The runner's surroundings: how the process of the \<open>n\<close>-th test ends on its input within a timeout
  (with the bytes of its streams and the return code), the decoding of bytes with replacement, and
  the readings of \<open>time.monotonic()\<close>.
\<close>

datatype process_end = Timed_Out int | Exited string string int

record runner_host =
  rh_process :: "nat \<Rightarrow> jobj \<Rightarrow> int \<Rightarrow> process_end"
  rh_decode :: "string \<Rightarrow> string"
  rh_clock :: "nat \<Rightarrow> rat"

definition read_bounded :: "runner_host \<Rightarrow> string \<Rightarrow> string" where
  "read_bounded h bytes = rh_decode h (take runner_stream_bytes bytes)"

definition parse_child_protocol :: "pylib \<Rightarrow> string \<Rightarrow> jobj option" where
  "parse_child_protocol l content =
     Option.bind (find (starts_with child_prefix) (rev (splitlines content))) (\<lambda>line.
     Option.bind (json_loads l (drop (length child_prefix) line)) as_obj)"

definition failed_protocol :: "string \<Rightarrow> jobj" where
  "failed_protocol category =
     [(''ok'', JBool False), (''actual'', JNull), (''error_category'', JStr category), (''stdout'', JStr []),
      (''stderr'', JStr []), (''stdout_truncated'', JBool False), (''stderr_truncated'', JBool False)]"

definition child_input :: "runner_request \<Rightarrow> json \<Rightarrow> jobj" where
  "child_input r test_input =
     [(''source_code'', JStr (rn_source_code r)), (''entrypoint'', JStr (rn_entrypoint r)),
      (''invocation_mode'', JStr (rn_invocation_mode r)), (''input'', test_input)]"

text \<open>The protocol, the raw error stream and the exit code; the raw output is not used.\<close>

definition execute_test ::
  "pylib \<Rightarrow> runner_host \<Rightarrow> nat \<Rightarrow> runner_request \<Rightarrow> json \<Rightarrow> int \<Rightarrow> jobj \<times> string \<times> int" where
  "execute_test l h n r test_input timeout_seconds =
     (case rh_process h n (child_input r test_input) timeout_seconds of
        Timed_Out code \<Rightarrow> (failed_protocol ''timeout'', [], if code = 0 then 124 else code)
      | Exited out err code \<Rightarrow>
          ((case parse_child_protocol l (read_bounded h out) of
              None \<Rightarrow> failed_protocol ''runner_protocol_error'' | Some p \<Rightarrow> p),
           read_bounded h err, code))"

section \<open>The run\<close>

record runner_state =
  rs_results :: "jobj list"
  rs_stdout :: "string list"
  rs_stderr :: "string list"
  rs_status :: string
  rs_exit_code :: int
  rs_ticks :: nat

definition test_result :: "pylib \<Rightarrow> runner_test \<Rightarrow> jobj \<Rightarrow> jobj" where
  "test_result l t protocol =
     (let category = jget protocol ''error_category'' in
      [(''id'', JStr (rt_id t)), (''visibility'', JStr (rt_visibility t)), (''ok'', JBool (truthy (jget protocol ''ok''))),
       (''actual'', jget protocol ''actual''),
       (''error_category'', if truthy category then JStr (py_str l category) else JNull)])"

definition after_test :: "pylib \<Rightarrow> runner_test \<Rightarrow> jobj \<times> string \<times> int \<Rightarrow> runner_state \<Rightarrow> runner_state" where
  "after_test l t = (\<lambda>(protocol, raw_stderr, code) s.
     let shown = rt_visibility t = ''public'' in
     s\<lparr>rs_results := rs_results s @ [test_result l t protocol],
       rs_stdout := rs_stdout s @ (if shown then [py_str l (jget_default protocol ''stdout'' (JStr []))] else []),
       rs_stderr := rs_stderr s @ (if shown then py_str l (jget_default protocol ''stderr'' (JStr []))
           # (if raw_stderr = [] then [] else [raw_stderr]) else []),
       rs_status := (if py_eq (jget protocol ''error_category'') (JStr ''timeout'') then ''TIMEOUT'' else rs_status s),
       rs_exit_code := code, rs_ticks := rs_ticks s + 1\<rparr>)"

fun run_tests ::
  "pylib \<Rightarrow> runner_host \<Rightarrow> runner_request \<Rightarrow> int \<Rightarrow> rat \<Rightarrow> runner_test list \<Rightarrow> runner_state \<Rightarrow> runner_state" where
  "run_tests l h r timeout deadline [] s = s"
| "run_tests l h r timeout deadline (t # ts) s =
     (let remaining = fadd deadline (- rh_clock h (rs_ticks s)) in
      if remaining \<le> 0 then s\<lparr>rs_status := ''TIMEOUT'', rs_ticks := rs_ticks s + 1\<rparr>
      else let s' = after_test l t (execute_test l h (rs_ticks s) r (rt_input t) (max 1 (min \<lceil>remaining\<rceil> timeout))) s in
        if rs_status s' = ''TIMEOUT'' then s' else run_tests l h r timeout deadline ts s')"

definition python_run_request :: "pylib \<Rightarrow> runner_host \<Rightarrow> int \<Rightarrow> runner_request \<Rightarrow> jobj" where
  "python_run_request l h timeout r =
     (let started = rh_clock h 0; deadline = fadd started (of_int timeout);
          s = run_tests l h r timeout deadline (rn_tests r)
            \<lparr>rs_results = [], rs_stdout = [], rs_stderr = [], rs_status = ''COMPLETED'', rs_exit_code = 0, rs_ticks = 1\<rparr>;
          joined = (\<lambda>parts. take runner_stream_bytes (concat parts));
          over = (\<lambda>parts. runner_stream_bytes < sum_list (map length parts))
      in [(''schema_version'', JInt 1), (''attempt'', JInt (rn_attempt r)), (''status'', JStr (rs_status s)),
          (''runtime_ms'', JInt (round_half_even (fmul (fadd (rh_clock h (rs_ticks s)) (- started)) 1000))),
          (''exit_code'', JInt (rs_exit_code s)), (''tests'', JList (map JObj (rs_results s))),
          (''stdout'', JStr (joined (rs_stdout s))), (''stderr'', JStr (joined (rs_stderr s))),
          (''stdout_truncated'', JBool (over (rs_stdout s))), (''stderr_truncated'', JBool (over (rs_stderr s)))])"

definition refused_result :: "int \<Rightarrow> int \<Rightarrow> string \<Rightarrow> jobj" where
  "refused_result attempt code category =
     [(''schema_version'', JInt 1), (''attempt'', JInt attempt), (''status'', JStr ''FAILED''), (''runtime_ms'', JInt 0),
      (''exit_code'', JInt code), (''tests'', JList []), (''stdout'', JStr []), (''stderr'', JStr []),
      (''error_category'', JStr category)]"

definition result_line :: "pylib \<Rightarrow> string \<Rightarrow> jobj \<Rightarrow> string" where
  "result_line l execution_id result =
     result_prefix @ json_dumps l False False (JObj (result @ [(''execution_id'', JStr execution_id)])) @ [CHR 0x0A]"

record runner_args =
  ra_execution_id :: string
  ra_input :: "string option"
  ra_timeout_seconds :: int

text \<open>
  \<open>main\<close>: the printed line and the exit status; an exception it does not catch leaves no line. The
  attempt of a refused input is 0: \<open>attempt\<close> is assigned after \<open>parse_request\<close>. \<open>uuid_of\<close> is \<open>UUID(text)\<close>.
\<close>

definition python_runner_main ::
  "pylib \<Rightarrow> (string \<Rightarrow> uuid option) \<Rightarrow> runner_host \<Rightarrow> runner_args \<Rightarrow> (string \<times> int) result" where
  "python_runner_main l uuid_of h a =
     (let accepted = (case uuid_of (ra_execution_id a) of
            None \<Rightarrow> Inl (Exn ValueErr ''badly formed hexadecimal UUID string'')
          | Some eid \<Rightarrow>
              if ra_timeout_seconds a < 1 \<or> 30 < ra_timeout_seconds a
              then runner_err ''Execution timeout is outside the server policy.''
              else parse_request l (ra_input a) eid)
      in case accepted of
           Inr r \<Rightarrow> let result = python_run_request l h (ra_timeout_seconds a) r in
             Inr (result_line l (ra_execution_id a) result,
               if jget result ''status'' = JStr ''COMPLETED'' then 0 else 1)
         | Inl x \<Rightarrow> if is_value_error (exn_class x)
             then Inr (result_line l (ra_execution_id a) (refused_result 0 2 (exn_name (exn_class x))), 1)
             else Inl x)"

end
