(* ===== verification/Sql_Runner.thy ===== *)
theory Sql_Runner imports Python_Runner begin

text \<open>
  The runner of SQL questions (\<open>services/sql-runner/runner.py\<close>): the checks of its input, the
  fixtures of the tests, the candidate's query with its limits, and the line with the result. The
  database server inside the sandbox is an argument with a state of its own.
\<close>

section \<open>The input\<close>

definition sql_request_bytes :: nat where "sql_request_bytes = 2 * 1024 * 1024"
definition sql_source_bytes :: nat where "sql_source_bytes = 100000"
definition sql_setup_bytes :: nat where "sql_setup_bytes = 1024 * 1024"
definition sql_max_tests :: nat where "sql_max_tests = 100"
definition sql_max_rows :: nat where "sql_max_rows = 10000"
definition sql_result_bytes :: nat where "sql_result_bytes = 256 * 1024"

definition sql_required_string :: "json \<Rightarrow> string \<Rightarrow> nat \<Rightarrow> string result" where
  "sql_required_string v label max_bytes = (case v of
     JStr s \<Rightarrow> if strip s = [] then runner_err (label @ '' is required.'')
       else if max_bytes < utf8_len s then runner_err (label @ '' exceeds the execution limit.'') else Inr s
   | _ \<Rightarrow> runner_err (label @ '' is required.''))"

definition sql_optional_string :: "json \<Rightarrow> string \<Rightarrow> nat \<Rightarrow> string result" where
  "sql_optional_string v label max_bytes = (case v of
     JNull \<Rightarrow> Inr []
   | JStr s \<Rightarrow> if max_bytes < utf8_len s then runner_err (label @ '' exceeds the execution limit.'') else Inr s
   | _ \<Rightarrow> runner_err (label @ '' must be a string.''))"

definition sql_positive_int :: "json \<Rightarrow> string \<Rightarrow> int \<Rightarrow> int result" where
  "sql_positive_int v label maximum = (case v of
     JInt i \<Rightarrow> if i < 1 \<or> maximum < i then runner_err (label @ '' is invalid.'') else Inr i
   | _ \<Rightarrow> runner_err (label @ '' is invalid.''))"

record sql_fixture =
  sf_schema_sql :: "string option"
  sf_seed_sql :: "string option"
  sf_setup_sql :: string

definition some_result :: "'a result \<Rightarrow> 'a option result" where
  "some_result r = res_bind r (\<lambda>x. Inr (Some x))"

definition test_fixture :: "json \<Rightarrow> sql_fixture result" where
  "test_fixture v = (case v of
     JNull \<Rightarrow> Inr \<lparr>sf_schema_sql = None, sf_seed_sql = None, sf_setup_sql = []\<rparr>
   | JStr s \<Rightarrow> res_bind (sql_optional_string v ''Test setup SQL'' sql_setup_bytes) (\<lambda>setup.
       Inr \<lparr>sf_schema_sql = None, sf_seed_sql = None, sf_setup_sql = setup\<rparr>)
   | JObj d \<Rightarrow>
       (let schema_value = jget_default d ''schema_sql'' (jget d ''ddl'');
            seed_present = has_key d ''seed_sql'' \<or> has_key d ''seed'';
            seed_value = jget_default d ''seed_sql'' (jget d ''seed'') in
        res_bind (if schema_value = JNull then Inr None
          else some_result (sql_optional_string schema_value ''Test schema SQL'' sql_setup_bytes)) (\<lambda>schema_sql.
        res_bind (if \<not> seed_present then Inr None
          else some_result (sql_optional_string seed_value ''Test seed SQL'' sql_setup_bytes)) (\<lambda>seed_sql.
        res_bind (sql_optional_string (jget_default d ''setup_sql'' (JStr [])) ''Test setup SQL'' sql_setup_bytes) (\<lambda>setup_sql.
        Inr \<lparr>sf_schema_sql = schema_sql, sf_seed_sql = seed_sql, sf_setup_sql = setup_sql\<rparr>))))
   | _ \<Rightarrow> runner_err ''SQL test input must be null, SQL text, or an object containing ddl/seed/setup_sql.'')"

record sql_test =
  sq_id :: string
  sq_visibility :: string
  sq_fixture :: sql_fixture

record sql_request =
  sy_attempt :: int
  sy_source_code :: string
  sy_schema_sql :: string
  sy_seed_sql :: string
  sy_statement_timeout_ms :: int
  sy_lock_timeout_ms :: int
  sy_idle_timeout_ms :: int
  sy_tests :: "sql_test list"

fun sql_tests :: "json list \<Rightarrow> string list \<Rightarrow> sql_test list result" where
  "sql_tests [] seen = Inr []"
| "sql_tests (raw # raws) seen =
     (case raw of
        JObj item \<Rightarrow>
          (case jget item ''id'' of
             JStr test_id \<Rightarrow>
               if test_id = [] \<or> test_id \<in> set seen
               then runner_err ''SQL test identifiers must be non-empty and unique.''
               else (let visibility = jget_default item ''visibility'' (JStr ''hidden'') in
                 res_bind (member_of visibility [''public'', ''hidden'']) (\<lambda>known.
                 if \<not> known then runner_err ''SQL test visibility is invalid.''
                 else if has_key item ''expected_output'' \<or> has_key item ''expected''
                 then runner_err ''Expected outputs must never enter the SQL sandbox.''
                 else res_bind (test_fixture (jget item ''input'')) (\<lambda>fixture.
                   res_bind (sql_tests raws (test_id # seen)) (\<lambda>tests.
                   Inr (\<lparr>sq_id = test_id, sq_visibility = the (as_str visibility), sq_fixture = fixture\<rparr> # tests)))))
           | _ \<Rightarrow> runner_err ''SQL test identifiers must be non-empty and unique.'')
      | _ \<Rightarrow> runner_err ''Each SQL test must be an object.'')"

definition sql_request_of_payload :: "jobj \<Rightarrow> sql_request result" where
  "sql_request_of_payload payload =
     res_bind (sql_positive_int (jget payload ''attempt'') ''Execution attempt'' 100) (\<lambda>attempt.
     res_bind (sql_required_string (jget payload ''source_code'') ''Candidate SQL'' sql_source_bytes) (\<lambda>source.
     res_bind (sql_required_string (jget payload ''schema_sql'') ''Trusted schema SQL'' sql_setup_bytes) (\<lambda>schema_sql.
     res_bind (sql_optional_string (jget payload ''seed_sql'') ''Trusted seed SQL'' sql_setup_bytes) (\<lambda>seed_sql.
     res_bind (sql_positive_int (jget payload ''statement_timeout_ms'') ''Statement timeout'' 30000) (\<lambda>timeout.
     if timeout < 100 then runner_err ''Statement timeout is below the server minimum.''
     else case jget payload ''tests'' of
       JList raws \<Rightarrow>
         if raws = [] \<or> sql_max_tests < length raws
         then runner_err ''SQL execution requires a bounded non-empty test list.''
         else res_bind (sql_tests raws []) (\<lambda>tests.
           Inr \<lparr>sy_attempt = attempt, sy_source_code = source, sy_schema_sql = schema_sql, sy_seed_sql = seed_sql,
             sy_statement_timeout_ms = timeout, sy_lock_timeout_ms = min 1000 timeout,
             sy_idle_timeout_ms = max 2000 timeout, sy_tests = tests\<rparr>)
     | _ \<Rightarrow> runner_err ''SQL execution requires a bounded non-empty test list.'')))))"

text \<open>The file as UTF-8 text; \<open>None\<close> where it cannot be read.\<close>

definition sql_parse_request :: "pylib \<Rightarrow> string option \<Rightarrow> uuid \<Rightarrow> sql_request result" where
  "sql_parse_request l raw eid = (case raw of
     None \<Rightarrow> runner_err ''Execution input is unavailable.''
   | Some text \<Rightarrow>
       if sql_request_bytes < utf8_len text then runner_err ''Execution input exceeds the transport limit.''
       else (case json_loads l text of
         None \<Rightarrow> runner_err ''Execution input is invalid JSON.''
       | Some (JObj payload) \<Rightarrow>
           if \<not> py_eq (jget payload ''schema_version'') (JInt 1)
           then runner_err ''Unsupported execution input schema version.''
           else if \<not> py_eq (jget payload ''execution_id'') (JStr (uuid_str eid))
           then runner_err ''Execution input identifier mismatch.''
           else sql_request_of_payload payload
       | Some _ \<Rightarrow> runner_err ''Execution input must be a JSON object.''))"

section \<open>Values of a row\<close>

datatype decimal = Decimal rat | Decimal_Inf bool | Decimal_NaN

text \<open>What psycopg returns for a column: \<open>S_Iso\<close> is a date or time by its ISO text, \<open>S_Other\<close> any other
  object by its \<open>str\<close>; a tuple is a list.\<close>

datatype sql_value = S_Null | S_Bool bool | S_Int int | S_Text string | S_Float pyfloat | S_Decimal decimal
  | S_Iso string | S_Uuid uuid | S_Bytes string | S_List "sql_value list" | S_Dict "(string \<times> sql_value) list"
  | S_Other string

definition infinity_text :: "bool \<Rightarrow> string" where
  "infinity_text positive = (if positive then ''Infinity'' else ''-Infinity'')"

text \<open>\<open>float(d)\<close> of a decimal rounds to infinity where an integer would overflow.\<close>

definition float_of_rat :: "rat \<Rightarrow> pyfloat" where
  "float_of_rat r = (if of_int (2 ^ 1024 - 2 ^ 970) \<le> \<bar>r\<bar> then (if 0 < r then PosInf else NegInf) else Fin (fl r))"

definition float_value :: "pyfloat \<Rightarrow> json" where
  "float_value f = (case f of PosInf \<Rightarrow> JStr (infinity_text True) | NegInf \<Rightarrow> JStr (infinity_text False)
     | NotANumber \<Rightarrow> JStr ''NaN'' | Fin r \<Rightarrow> JFloat (Fin r))"

definition decimal_value :: "decimal \<Rightarrow> json" where
  "decimal_value d = (case d of
     Decimal_NaN \<Rightarrow> JStr ''NaN''
   | Decimal_Inf positive \<Rightarrow> JStr (infinity_text positive)
   | Decimal r \<Rightarrow> if of_int (round_half_even r) = r then JInt (round_half_even r) else JFloat (float_of_rat r))"

definition bytes_hex :: "string \<Rightarrow> string" where
  "bytes_hex b = concat (map (\<lambda>c. [digit_char (of_char c div 16), digit_char (of_char c)]) b)"

fun json_value :: "sql_value \<Rightarrow> json" where
  "json_value S_Null = JNull"
| "json_value (S_Bool b) = JBool b"
| "json_value (S_Int i) = JInt i"
| "json_value (S_Text s) = JStr s"
| "json_value (S_Float f) = float_value f"
| "json_value (S_Decimal d) = decimal_value d"
| "json_value (S_Iso s) = JStr s"
| "json_value (S_Uuid u) = JStr (uuid_str u)"
| "json_value (S_Bytes b) = JStr (bytes_hex b)"
| "json_value (S_List vs) = JList (map json_value vs)"
| "json_value (S_Dict d) = JObj (map (\<lambda>(k, v). (k, json_value v)) d)"
| "json_value (S_Other s) = JStr s"

section \<open>The database\<close>

text \<open>How a query ends: an error by whether it is \<open>QueryCanceled\<close> and its SQLSTATE, no description, or rows.\<close>

datatype query_end = Query_Error bool string | No_Rows | Rows "string list" "sql_value list list"

record sql_config =
  sc_owner_password :: string
  sc_candidate_password :: string
  sc_candidate_user :: string
  sc_database :: string

text \<open>
  The server: waiting for it, whether the candidate's role exists, a statement of the owner, and a
  query of the candidate in a connection of its own with the three timeouts. \<open>sv_literal\<close> quotes a
  string literal.
\<close>

record 's sql_server =
  sv_wait :: "'s \<Rightarrow> unit result \<times> 's"
  sv_role_exists :: "string \<Rightarrow> 's \<Rightarrow> bool result"
  sv_execute :: "string \<Rightarrow> 's \<Rightarrow> unit result \<times> 's"
  sv_query :: "int \<Rightarrow> int \<Rightarrow> int \<Rightarrow> string \<Rightarrow> 's \<Rightarrow> query_end \<times> 's"
  sv_literal :: "string \<Rightarrow> string"

definition quoted_identifier :: "string \<Rightarrow> string" where
  "quoted_identifier name =
     [CHR 0x22] @ concat (map (\<lambda>c. if c = CHR 0x22 then [c, c] else [c]) name) @ [CHR 0x22]"

fun execute_all :: "'s sql_server \<Rightarrow> string list \<Rightarrow> 's \<Rightarrow> unit result \<times> 's" where
  "execute_all sv [] s = (Inr (), s)"
| "execute_all sv (stmt # stmts) s = (case sv_execute sv stmt s of
     (Inl x, s') \<Rightarrow> (Inl x, s') | (Inr _, s') \<Rightarrow> execute_all sv stmts s')"

definition ensure_candidate_role :: "'s sql_server \<Rightarrow> sql_config \<Rightarrow> 's \<Rightarrow> unit result \<times> 's" where
  "ensure_candidate_role sv c s =
     (if sc_candidate_password c = []
      then (Inl (Exn RunnerInfrastructureErr ''RIGOR_SQL_CANDIDATE_PASSWORD is required.''), s)
      else let candidate = quoted_identifier (sc_candidate_user c) in
        case sv_role_exists sv (sc_candidate_user c) s of
          Inl x \<Rightarrow> (Inl x, s)
        | Inr present \<Rightarrow> execute_all sv
            ((if present then [''DROP OWNED BY '' @ candidate @ '' CASCADE'', ''DROP ROLE '' @ candidate] else []) @
             [''CREATE ROLE '' @ candidate @ '' LOGIN PASSWORD '' @ sv_literal sv (sc_candidate_password c) @
              '' NOSUPERUSER NOCREATEDB NOCREATEROLE NOINHERIT NOREPLICATION NOBYPASSRLS'']) s)"

definition fixture_statements :: "sql_config \<Rightarrow> string \<Rightarrow> string \<Rightarrow> string \<Rightarrow> string list" where
  "fixture_statements c schema_sql seed_sql setup_sql =
     (let candidate = quoted_identifier (sc_candidate_user c); database = quoted_identifier (sc_database c) in
      [''DROP SCHEMA IF EXISTS public CASCADE'', ''CREATE SCHEMA public'', ''REVOKE ALL ON SCHEMA public FROM PUBLIC'',
       ''REVOKE ALL ON DATABASE '' @ database @ '' FROM PUBLIC'',
       ''GRANT CONNECT ON DATABASE '' @ database @ '' TO '' @ candidate,
       ''GRANT USAGE ON SCHEMA public TO '' @ candidate, schema_sql] @
      (if strip seed_sql \<noteq> [] then [seed_sql] else []) @ (if strip setup_sql \<noteq> [] then [setup_sql] else []) @
      [''GRANT SELECT ON ALL TABLES IN SCHEMA public TO '' @ candidate,
       ''GRANT USAGE, SELECT ON ALL SEQUENCES IN SCHEMA public TO '' @ candidate])"

definition reset_fixture :: "'s sql_server \<Rightarrow> sql_config \<Rightarrow> string \<Rightarrow> string \<Rightarrow> string \<Rightarrow> 's \<Rightarrow> unit result \<times> 's" where
  "reset_fixture sv c schema_sql seed_sql setup_sql s =
     (if sc_database c = []
      then (Inl (Exn RunnerInfrastructureErr ''Disposable PostgreSQL database name is unavailable.''), s)
      else execute_all sv (fixture_statements c schema_sql seed_sql setup_sql) s)"

record query_outcome =
  qo_ok :: bool
  qo_actual :: json
  qo_category :: "string option"

abbreviation query_failed :: "string \<Rightarrow> query_outcome" where
  "query_failed category \<equiv> \<lparr>qo_ok = False, qo_actual = JNull, qo_category = Some category\<rparr>"

definition candidate_error_category :: "bool \<Rightarrow> string \<Rightarrow> string" where
  "candidate_error_category cancelled sqlstate =
     (if cancelled \<or> sqlstate = ''57014'' then ''timeout'' else if sqlstate = ''42501'' then ''sql_permission_denied''
      else if sqlstate = ''42601'' then ''sql_syntax_error'' else ''sql_error'')"

definition bounded_rows :: "pylib \<Rightarrow> json \<Rightarrow> query_outcome" where
  "bounded_rows l actual =
     (if sql_result_bytes < utf8_len (json_dumps l False False actual) then query_failed ''result_size_limit''
      else \<lparr>qo_ok = True, qo_actual = actual, qo_category = None\<rparr>)"

definition query_outcome_of :: "pylib \<Rightarrow> query_end \<Rightarrow> query_outcome" where
  "query_outcome_of l q = (case q of
     Query_Error cancelled sqlstate \<Rightarrow> query_failed (candidate_error_category cancelled sqlstate)
   | No_Rows \<Rightarrow> bounded_rows l (JObj [(''columns'', JList []), (''rows'', JList [])])
   | Rows columns rows \<Rightarrow>
       if sql_max_rows < length (take (sql_max_rows + 1) rows) then query_failed ''result_row_limit''
       else bounded_rows l (JObj [(''columns'', JList (map JStr columns)),
         (''rows'', JList (map (\<lambda>row. JList (map json_value row)) (take (sql_max_rows + 1) rows)))]))"

definition execute_candidate_query ::
  "pylib \<Rightarrow> 's sql_server \<Rightarrow> sql_config \<Rightarrow> string \<Rightarrow> int \<Rightarrow> 's \<Rightarrow> query_outcome result \<times> 's" where
  "execute_candidate_query l sv c source timeout_ms s =
     (if sc_candidate_password c = []
      then (Inl (Exn RunnerInfrastructureErr ''RIGOR_SQL_CANDIDATE_PASSWORD is required.''), s)
      else case sv_query sv timeout_ms (min 1000 timeout_ms) (max 2000 timeout_ms) source s of
        (q, s') \<Rightarrow> (Inr (query_outcome_of l q), s'))"

section \<open>The run\<close>

definition sql_test_result :: "sql_test \<Rightarrow> query_outcome \<Rightarrow> jobj" where
  "sql_test_result t o1 =
     [(''id'', JStr (sq_id t)), (''visibility'', JStr (sq_visibility t)), (''ok'', JBool (qo_ok o1)),
      (''actual'', qo_actual o1), (''error_category'', string_json (qo_category o1))]"

definition test_schema_sql :: "sql_request \<Rightarrow> sql_test \<Rightarrow> string" where
  "test_schema_sql r t = (case sf_schema_sql (sq_fixture t) of
     Some schema \<Rightarrow> if strip schema \<noteq> [] then schema else sy_schema_sql r | None \<Rightarrow> sy_schema_sql r)"

definition test_seed_sql :: "sql_request \<Rightarrow> sql_test \<Rightarrow> string" where
  "test_seed_sql r t = (case sf_seed_sql (sq_fixture t) of Some seed \<Rightarrow> seed | None \<Rightarrow> sy_seed_sql r)"

text \<open>The loop over the tests: the results so far, and whether the last one timed out.\<close>

fun run_sql_tests ::
  "pylib \<Rightarrow> 's sql_server \<Rightarrow> sql_config \<Rightarrow> sql_request \<Rightarrow> sql_test list \<Rightarrow> jobj list \<Rightarrow> 's \<Rightarrow>
     (jobj list \<times> bool) result \<times> 's" where
  "run_sql_tests l sv c r [] results s = (Inr (results, False), s)"
| "run_sql_tests l sv c r (t # ts) results s =
     (case reset_fixture sv c (test_schema_sql r t) (test_seed_sql r t) (sf_setup_sql (sq_fixture t)) s of
        (Inl x, s1) \<Rightarrow> (Inl x, s1)
      | (Inr _, s1) \<Rightarrow> (case execute_candidate_query l sv c (sy_source_code r) (sy_statement_timeout_ms r) s1 of
          (Inl x, s2) \<Rightarrow> (Inl x, s2)
        | (Inr o1, s2) \<Rightarrow>
            let results' = results @ [sql_test_result t o1] in
            if qo_category o1 = Some ''timeout'' then (Inr (results', True), s2)
            else run_sql_tests l sv c r ts results' s2))"

definition sql_result :: "sql_request \<Rightarrow> rat \<Rightarrow> rat \<Rightarrow> jobj list \<times> bool \<Rightarrow> jobj" where
  "sql_result r started ended = (\<lambda>(results, timed_out).
     [(''schema_version'', JInt 1), (''attempt'', JInt (sy_attempt r)),
      (''status'', JStr (if timed_out then ''TIMEOUT'' else ''COMPLETED'')),
      (''runtime_ms'', JInt (round_half_even (fmul (fadd ended (- started)) 1000))),
      (''exit_code'', JInt (if timed_out then 124 else 0)), (''tests'', JList (map JObj results)),
      (''stdout'', JStr []), (''stderr'', JStr []),
      (''error_category'', if timed_out then JStr ''timeout'' else JNull)])"

definition sql_run_request ::
  "pylib \<Rightarrow> 's sql_server \<Rightarrow> sql_config \<Rightarrow> rat \<Rightarrow> rat \<Rightarrow> sql_request \<Rightarrow> 's \<Rightarrow> jobj result \<times> 's" where
  "sql_run_request l sv c started ended r s =
     (if sc_owner_password c = []
      then (Inl (Exn RunnerInfrastructureErr ''RIGOR_SQL_OWNER_PASSWORD is required.''), s)
      else case sv_wait sv s of
        (Inl x, s1) \<Rightarrow> (Inl x, s1)
      | (Inr _, s1) \<Rightarrow> (case ensure_candidate_role sv c s1 of
          (Inl x, s2) \<Rightarrow> (Inl x, s2)
        | (Inr _, s2) \<Rightarrow> (case run_sql_tests l sv c r (sy_tests r) [] s2 of
            (Inl x, s3) \<Rightarrow> (Inl x, s3)
          | (Inr done, s3) \<Rightarrow> (Inr (sql_result r started ended done), s3))))"

text \<open>
  \<open>main\<close>: a refused input leaves attempt 0, a failure of the infrastructure the attempt that was
  parsed. An execution id that is no UUID raises a \<open>ValueError\<close> that is not caught.
\<close>

definition sql_runner_main ::
  "pylib \<Rightarrow> (string \<Rightarrow> uuid option) \<Rightarrow> 's sql_server \<Rightarrow> sql_config \<Rightarrow> rat \<Rightarrow> rat \<Rightarrow> string \<Rightarrow> string option \<Rightarrow> 's \<Rightarrow>
     (string \<times> int) result \<times> 's" where
  "sql_runner_main l uuid_of sv c started ended execution_id raw s =
     (case uuid_of execution_id of
        None \<Rightarrow> (Inl (Exn ValueErr ''badly formed hexadecimal UUID string''), s)
      | Some eid \<Rightarrow> (case sql_parse_request l raw eid of
          Inl x \<Rightarrow> (if exn_class x = RunnerInputErr
            then (Inr (result_line l execution_id (refused_result 0 2 ''RunnerInputError''), 1), s) else (Inl x, s))
        | Inr r \<Rightarrow> (case sql_run_request l sv c started ended r s of
            (Inl x, s') \<Rightarrow> (if exn_class x \<in> {RunnerInfrastructureErr, DatabaseErr}
              then (Inr (result_line l execution_id
                (refused_result (sy_attempt r) 3 ''runner_infrastructure_error''), 1), s') else (Inl x, s'))
          | (Inr result, s') \<Rightarrow>
              (Inr (result_line l execution_id result, if jget result ''status'' = JStr ''COMPLETED'' then 0 else 1), s'))))"

end
