(* ===== verification/Vercel_Dispatch.thy ===== *)
theory Vercel_Dispatch imports Sql_Runner Execution_Steps begin

text \<open>
  The hosted executor: the two runner programs it uploads to a microVM (\<open>vercel_sandbox_execution.py\<close>),
  and \<open>dispatch_vercel_execution\<close>, which claims a request, runs it there, and stores the outcome, all
  in the process of the API. The dispatch the routes call is the one of \<open>vercel_sandbox_runtime.py\<close>;
  the one of \<open>vercel_sandbox_execution.py\<close> is the same but for its client. That client (HTTP, and the
  script that installs the database) is an argument, except for how it reads the exit code of a command.
\<close>

section \<open>The uploaded Python runner\<close>

text \<open>The child is that of the other runner, except that a value JSON cannot encode is reported by
  the exception.\<close>

definition vercel_child :: "candidate_module \<Rightarrow> jobj \<Rightarrow> jobj" where
  "vercel_child m payload =
     child_protocol (m\<lparr>cm_call := (\<lambda>source entry i. case cm_call m source entry i of
       Unserializable name \<Rightarrow> Raised name | c \<Rightarrow> c)\<rparr>) payload"

text \<open>The decoded output of the process and its code; the streams are text.\<close>

definition run_child :: "pylib \<Rightarrow> process_end \<Rightarrow> json \<times> int" where
  "run_child l ended = (case ended of
     Timed_Out code \<Rightarrow> (JObj [(''ok'', JBool False), (''actual'', JNull), (''error_category'', JStr ''timeout''),
       (''stdout'', JStr []), (''stderr'', JStr [])], 124)
   | Exited out err code \<Rightarrow> ((case json_loads l (strip out) of
         Some v \<Rightarrow> v
       | None \<Rightarrow> JObj [(''ok'', JBool False), (''actual'', JNull), (''error_category'', JStr ''runner_protocol_error''),
           (''stdout'', JStr []), (''stderr'', JStr (take 65536 err))]), code))"

definition required_key :: "jobj \<Rightarrow> string \<Rightarrow> json result" where
  "required_key d key = (case map_of d key of None \<Rightarrow> Inl (Exn KeyErr key) | Some v \<Rightarrow> Inr v)"

definition required_object :: "json \<Rightarrow> jobj result" where
  "required_object v = (case v of JObj d \<Rightarrow> Inr d | _ \<Rightarrow> Inl (Exn AttributeErr ''get''))"

definition vercel_test_result :: "pylib \<Rightarrow> json \<Rightarrow> jobj \<Rightarrow> bool \<Rightarrow> json \<Rightarrow> json \<Rightarrow> jobj" where
  "vercel_test_result l test_id test ok actual category =
     [(''id'', JStr (py_str l test_id)),
      (''visibility'', JStr (py_str l (jget_default test ''visibility'' (JStr ''hidden'')))),
      (''ok'', JBool ok), (''actual'', actual), (''error_category'', category)]"

definition vercel_timeout :: "int \<Rightarrow> rat \<Rightarrow> int" where
  "vercel_timeout timeout remaining = max 1 (min timeout (truncate_rat (fadd remaining (lit 999 1000))))"

definition vercel_after ::
  "pylib \<Rightarrow> json \<Rightarrow> jobj \<Rightarrow> jobj \<times> int \<Rightarrow> runner_state \<Rightarrow> runner_state" where
  "vercel_after l test_id test = (\<lambda>(child, code) s.
     let category = jget child ''error_category''; shown = py_eq (jget test ''visibility'') (JStr ''public'');
         part = (\<lambda>key. if shown then [py_str l (py_or (jget child key) (JStr []))] else [])
     in s\<lparr>rs_results := rs_results s @ [vercel_test_result l test_id test (truthy (jget child ''ok'')) (jget child ''actual'')
           (if truthy category then JStr (py_str l category) else JNull)],
         rs_stdout := rs_stdout s @ part ''stdout'', rs_stderr := rs_stderr s @ part ''stderr'',
         rs_status := (if py_eq category (JStr ''timeout'') then ''TIMEOUT'' else rs_status s),
         rs_exit_code := code, rs_ticks := rs_ticks s + 1\<rparr>)"

definition vercel_child_input :: "jobj \<Rightarrow> json \<Rightarrow> jobj \<Rightarrow> jobj" where
  "vercel_child_input request source test =
     [(''source_code'', source), (''entrypoint'', jget_default request ''entrypoint'' (JStr ''solve'')),
      (''invocation_mode'', jget_default request ''invocation_mode'' (JStr ''auto'')), (''input'', jget test ''input'')]"

fun vercel_tests ::
  "pylib \<Rightarrow> runner_host \<Rightarrow> jobj \<Rightarrow> int \<Rightarrow> rat \<Rightarrow> json list \<Rightarrow> runner_state \<Rightarrow> runner_state result" where
  "vercel_tests l h request timeout deadline [] s = Inr s"
| "vercel_tests l h request timeout deadline (raw # raws) s =
     (let remaining = fadd deadline (- rh_clock h (rs_ticks s)) in
      if remaining \<le> 0 then Inr (s\<lparr>rs_status := ''TIMEOUT'', rs_exit_code := 124, rs_ticks := rs_ticks s + 1\<rparr>)
      else
        res_bind (required_key request ''source_code'') (\<lambda>source.
        res_bind (required_object raw) (\<lambda>test.
        case run_child l (rh_process h (rs_ticks s) (vercel_child_input request source test) (vercel_timeout timeout remaining)) of
          (value, code) \<Rightarrow>
        res_bind (required_object value) (\<lambda>child.
        res_bind (required_key test ''id'') (\<lambda>test_id.
        let s' = vercel_after l test_id test (child, code) s in
        if rs_status s' = ''TIMEOUT'' then Inr s' else vercel_tests l h request timeout deadline raws s')))))"

definition vercel_result :: "json \<Rightarrow> int \<Rightarrow> rat \<Rightarrow> rat \<Rightarrow> pylib \<Rightarrow> runner_state \<Rightarrow> jobj" where
  "vercel_result execution_id attempt started ended l s =
     [(''schema_version'', JInt 1), (''execution_id'', JStr (py_str l execution_id)), (''attempt'', JInt attempt),
      (''status'', JStr (rs_status s)),
      (''runtime_ms'', JInt (round_half_even (fmul (fadd ended (- started)) 1000))),
      (''exit_code'', JInt (rs_exit_code s)), (''tests'', JList (map JObj (rs_results s))),
      (''stdout'', JStr (take 65536 (concat (rs_stdout s)))), (''stderr'', JStr (take 65536 (concat (rs_stderr s))))]"

text \<open>\<open>int(v)\<close> of a number of the request, which is an integer wherever it is present.\<close>

definition int_key :: "jobj \<Rightarrow> string \<Rightarrow> int result" where
  "int_key request key = res_bind (required_key request key) (\<lambda>v. case v of
     JInt i \<Rightarrow> Inr i | _ \<Rightarrow> Inl (Exn TypeErr ''int() argument''))"

definition tests_of :: "jobj \<Rightarrow> json list result" where
  "tests_of request = res_bind (required_key request ''tests'') (\<lambda>v. case v of
     JList ts \<Rightarrow> Inr ts | _ \<Rightarrow> Inl (Exn TypeErr ''not iterable''))"

text \<open>The text of the result file; the second argument of the program is \<open>timeout_argument\<close>.\<close>

definition vercel_python_main :: "pylib \<Rightarrow> runner_host \<Rightarrow> int \<Rightarrow> jobj \<Rightarrow> string result" where
  "vercel_python_main l h timeout_argument request =
     (let timeout = max 1 (min 30 timeout_argument); started = rh_clock h 0 in
      res_bind (tests_of request) (\<lambda>tests.
      res_bind (vercel_tests l h request timeout (fadd started (of_int timeout)) tests
        \<lparr>rs_results = [], rs_stdout = [], rs_stderr = [], rs_status = ''COMPLETED'', rs_exit_code = 0, rs_ticks = 1\<rparr>) (\<lambda>s.
      res_bind (required_key request ''execution_id'') (\<lambda>execution_id.
      res_bind (int_key request ''attempt'') (\<lambda>attempt.
      Inr (result_prefix @ json_dumps l False False
        (JObj (vercel_result execution_id attempt started (rh_clock h (rs_ticks s)) l s))))))))"

section \<open>The uploaded SQL runner\<close>

definition vercel_fixture :: "pylib \<Rightarrow> jobj \<Rightarrow> jobj \<Rightarrow> string list result" where
  "vercel_fixture l request test =
     (let v = jget test ''input'';
          fields = optional_object_dict v;
          test_schema = jget_default fields ''schema_sql'' (jget fields ''ddl'');
          test_seed = (if has_key fields ''seed_sql'' \<or> has_key fields ''seed''
            then jget_default fields ''seed_sql'' (jget fields ''seed'') else JNull);
          setup = (case v of JStr s \<Rightarrow> JStr s | _ \<Rightarrow> py_or (jget fields ''setup_sql'') (JStr []));
          seed = (if test_seed = JNull then jget_default request ''seed_sql'' (JStr []) else test_seed)
      in res_bind (if truthy test_schema then Inr test_schema else required_key request ''schema_sql'') (\<lambda>schema_sql.
        Inr ([''DROP SCHEMA IF EXISTS public CASCADE'', ''CREATE SCHEMA public'', ''REVOKE ALL ON SCHEMA public FROM PUBLIC'',
          py_str l schema_sql] @
         (if truthy seed then [py_str l seed] else []) @ (if truthy setup then [py_str l setup] else []) @
         [''GRANT USAGE ON SCHEMA public TO rigor_sql_candidate'',
          ''GRANT SELECT ON ALL TABLES IN SCHEMA public TO rigor_sql_candidate'',
          ''GRANT USAGE, SELECT ON ALL SEQUENCES IN SCHEMA public TO rigor_sql_candidate''])))"

text \<open>One test: the fixture, then the query with the statement's timeout and one second for locks (no
  idle timeout is set). A missing key ends the program, so the state it leaves is not looked at.\<close>

definition vercel_sql_test ::
  "pylib \<Rightarrow> 's sql_server \<Rightarrow> jobj \<Rightarrow> json \<Rightarrow> 's \<Rightarrow> (jobj \<times> bool) result \<times> 's" where
  "vercel_sql_test l sv request raw s =
     (case res_bind (required_object raw) (\<lambda>test. res_bind (vercel_fixture l request test) (\<lambda>stmts. Inr (test, stmts))) of
        Inl x \<Rightarrow> (Inl x, s)
      | Inr (test, stmts) \<Rightarrow> (case execute_all sv stmts s of
          (Inl x, s1) \<Rightarrow> (Inl x, s1)
        | (Inr _, s1) \<Rightarrow> (case res_bind (required_key request ''source_code'') (\<lambda>source.
              res_bind (int_key request ''statement_timeout_ms'') (\<lambda>timeout. Inr (source, timeout))) of
            Inl x \<Rightarrow> (Inl x, s1)
          | Inr (source, timeout) \<Rightarrow> (case sv_query sv timeout 1000 0 (py_str l source) s1 of
              (q, s2) \<Rightarrow> let o1 = query_outcome_of l q in
                (res_bind (required_key test ''id'') (\<lambda>test_id. Inr
                   (vercel_test_result l test_id test (qo_ok o1) (qo_actual o1) (string_json (qo_category o1)),
                    qo_category o1 = Some ''timeout'')), s2)))))"

fun vercel_sql_tests ::
  "pylib \<Rightarrow> 's sql_server \<Rightarrow> jobj \<Rightarrow> json list \<Rightarrow> jobj list \<Rightarrow> 's \<Rightarrow> (jobj list \<times> bool) result \<times> 's" where
  "vercel_sql_tests l sv request [] results s = (Inr (results, False), s)"
| "vercel_sql_tests l sv request (raw # raws) results s =
     (case vercel_sql_test l sv request raw s of
        (Inl x, s') \<Rightarrow> (Inl x, s')
      | (Inr (result, timed_out), s') \<Rightarrow>
          if timed_out then (Inr (results @ [result], True), s')
          else vercel_sql_tests l sv request raws (results @ [result]) s')"

definition vercel_sql_main ::
  "pylib \<Rightarrow> 's sql_server \<Rightarrow> rat \<Rightarrow> rat \<Rightarrow> jobj \<Rightarrow> 's \<Rightarrow> string result \<times> 's" where
  "vercel_sql_main l sv started ended request s =
     (case tests_of request of Inl x \<Rightarrow> (Inl x, s)
      | Inr tests \<Rightarrow> (case vercel_sql_tests l sv request tests [] s of
          (Inl x, s') \<Rightarrow> (Inl x, s')
        | (Inr (results, timed_out), s') \<Rightarrow>
            (res_bind (required_key request ''execution_id'') (\<lambda>execution_id.
             res_bind (int_key request ''attempt'') (\<lambda>attempt.
             Inr (result_prefix @ json_dumps l False False (JObj
               (vercel_result execution_id attempt started ended l
                 \<lparr>rs_results = results, rs_stdout = [], rs_stderr = [],
                  rs_status = (if timed_out then ''TIMEOUT'' else ''COMPLETED''),
                  rs_exit_code = (if timed_out then 124 else 0), rs_ticks = 0\<rparr>))))), s')))"

section \<open>The exit code of a command\<close>

text \<open>The service answers a command with JSON or with a JSON value on each line; the last exit code
  in it counts, and an answer without one is an error.\<close>

definition frame_exit :: "json \<Rightarrow> int option" where
  "frame_exit frame = (case frame of
     JObj d \<Rightarrow> (case jget d ''command'' of
         JObj command \<Rightarrow> (case jget command ''exitCode'' of
             JInt code \<Rightarrow> Some code | JStr s \<Rightarrow> py_int_of_str s | _ \<Rightarrow> None)
       | _ \<Rightarrow> None)
   | _ \<Rightarrow> None)"

definition frame_code :: "int option \<Rightarrow> json \<Rightarrow> int option" where
  "frame_code final frame = (case frame_exit frame of None \<Rightarrow> final | Some code \<Rightarrow> Some code)"

definition command_frames :: "pylib \<Rightarrow> string \<Rightarrow> json list result" where
  "command_frames l answer =
     (if strip answer = [] then Inl (Exn VercelSandboxErr ''Vercel Sandbox command returned no completion status.'')
      else case List.map_filter (json_loads l) (splitlines (strip answer)) of
        [] \<Rightarrow> (case json_loads l (strip answer) of
            None \<Rightarrow> Inl (Exn VercelSandboxErr ''Vercel Sandbox command returned invalid completion data.'')
          | Some v \<Rightarrow> Inr [v])
      | frames \<Rightarrow> Inr frames)"

definition command_exit_code :: "pylib \<Rightarrow> string \<Rightarrow> int result" where
  "command_exit_code l answer = res_bind (command_frames l answer) (\<lambda>frames.
     case foldl frame_code None frames of
       None \<Rightarrow> Inl (Exn VercelSandboxErr ''Vercel Sandbox command did not expose a terminal exit code.'')
     | Some code \<Rightarrow> Inr code)"

definition checked_command :: "pylib \<Rightarrow> string \<Rightarrow> unit result" where
  "checked_command l answer = res_bind (command_exit_code l answer) (\<lambda>code.
     if code \<noteq> 0 then Inl (Exn VercelSandboxErr (''Vercel Sandbox command failed with exit code '' @ int_str code @ ''.''))
     else Inr ())"

lemma frame_code_simps:
  "frame_exit frame = None \<Longrightarrow> frame_code c frame = c" "frame_exit frame = Some n \<Longrightarrow> frame_code c frame = Some n"
  by (simp_all add: frame_code_def)

lemma frame_code_last:
  "foldl frame_code start frames = Some code \<Longrightarrow> start = Some code \<and> (\<forall>x\<in>set frames. frame_exit x = None) \<or>
    (\<exists>before frame later. frames = before @ frame # later \<and> frame_exit frame = Some code \<and>
       (\<forall>x\<in>set later. frame_exit x = None))"
proof (induction frames rule: rev_induct)
  case (snoc frame frames)
  show ?case
  proof (cases "frame_exit frame")
    case None
    then have "foldl frame_code start frames = Some code" using snoc.prems by (simp add: frame_code_simps)
    from snoc.IH [OF this] show ?thesis
    proof (elim disjE exE conjE)
      fix before x later
      assume "frames = before @ x # later" "frame_exit x = Some code" "\<forall>y\<in>set later. frame_exit y = None"
      then show ?thesis
        using None by (intro disjI2 exI [of _ before] exI [of _ x] exI [of _ "later @ [frame]"]) simp
    qed (use None in simp)
  next
    case (Some n)
    then have "n = code" using snoc.prems by (simp add: frame_code_simps)
    then show ?thesis using Some by (intro disjI2 exI [of _ frames] exI [of _ frame] exI [of _ "[]"]) simp
  qed
qed simp

text \<open>A command counts as done only where the service says that it ended with status zero.\<close>

theorem checked_command_ended:
  assumes "checked_command l answer = Inr ()"
  shows "\<exists>before frame later. command_frames l answer = Inr (before @ frame # later) \<and> frame_exit frame = Some 0 \<and>
    (\<forall>x\<in>set later. frame_exit x = None)"
proof -
  obtain frames where frames: "command_frames l answer = Inr frames" "foldl frame_code None frames = Some 0"
    using assms
    by (cases "command_frames l answer")
      (auto simp: checked_command_def command_exit_code_def split: option.splits if_splits)
  then show ?thesis using frame_code_last [OF frames(2)] by auto
qed

section \<open>Dispatch\<close>

text \<open>
  The site: the worker's name, the lease, environment and commits of other sessions before each
  transaction, and the VM. \<open>vs_python\<close> uploads the runner with an input, runs it with a timeout
  and reads the result file, \<open>vs_sql\<close> likewise; both raise \<open>VercelSandboxError\<close>.
  \<open>vs_evidence_fails\<close> tells whether the competency evidence that the finalisation of this process
  writes as well (\<open>Execution_Progress\<close>) violates a constraint of its tables.
\<close>

record vercel_site =
  vs_enabled :: bool
  vs_deployment :: string
  vs_lease_seconds :: int
  vs_env :: "nat \<Rightarrow> env"
  vs_others :: "nat \<Rightarrow> db \<Rightarrow> db"
  vs_python :: "jobj \<Rightarrow> int \<Rightarrow> string result"
  vs_sql :: "jobj \<Rightarrow> int \<Rightarrow> string result"
  vs_ast :: ast_counts
  vs_evidence_fails :: "dispatch_package \<Rightarrow> projection \<Rightarrow> env \<Rightarrow> db \<Rightarrow> bool"

definition vercel_worker :: "vercel_site \<Rightarrow> string" where
  "vercel_worker v = take 255 (''vercel-sandbox:'' @ vs_deployment v)"

definition vercel_lease :: "vercel_site \<Rightarrow> timestamp" where
  "vercel_lease v = app_now (vs_env v 0) + max 180 (vs_lease_seconds v) * 10 ^ 6"

definition vercel_commit :: "vercel_site \<Rightarrow> nat \<Rightarrow> (env \<Rightarrow> db \<Rightarrow> ('a \<times> db) result) \<Rightarrow> db \<Rightarrow> 'a result \<times> db" where
  "vercel_commit v n body d =
     (let d1 = vs_others v n d in
      case body (vs_env v n) d1 of Inl x \<Rightarrow> (Inl x, d1) | Inr (a, d2) \<Rightarrow> (Inr a, d2))"

definition python_request :: "pylib \<Rightarrow> dispatch_package \<Rightarrow> jobj \<Rightarrow> jobj" where
  "python_request l pkg payload =
     jput payload ''invocation_mode'' (JStr (py_str l (py_or (jget (dp_input_payload pkg) ''invocation_mode'') (JStr ''auto''))))"

text \<open>\<open>run_python\<close> and \<open>run_sql\<close>, with the timeout of the command.\<close>

definition run_in_vm :: "vercel_site \<Rightarrow> pylib \<Rightarrow> dispatch_package \<Rightarrow> jobj \<Rightarrow> string result" where
  "run_in_vm v l pkg payload =
     (if dp_language pkg = ''python''
      then vs_python v (python_request l pkg payload) (positive_limit (dp_limits pkg) ''execution_timeout_seconds'' 10)
      else if dp_language pkg = ''sql''
      then (case jget payload ''statement_timeout_ms'' of
          JInt ms \<Rightarrow> vs_sql v payload (min 45000 (max 10000 (ms * 2 + 5000)))
        | _ \<Rightarrow> Inl (Exn VercelSandboxErr ''SQL statement timeout is unavailable.''))
      else Inl (Exn VercelSandboxErr ''Execution language is unsupported by Vercel Sandbox.''))"

definition vercel_claim :: "vercel_site \<Rightarrow> uuid \<Rightarrow> env \<Rightarrow> db \<Rightarrow> (dispatch_package option \<times> db) result" where
  "vercel_claim v eid e d =
     res_bind (claim_for_dispatch e eid (vercel_worker v) (vercel_lease v) d) (\<lambda>(claim, d1). case claim of
       None \<Rightarrow> Inr (None, d1)
     | Some c \<Rightarrow> res_bind (load_dispatch_package eid d1) (\<lambda>pkg. Inr (Some pkg, d1)))"

definition vercel_persist :: "vercel_site \<Rightarrow> dispatch_package \<Rightarrow> projection \<Rightarrow> env \<Rightarrow> db \<Rightarrow> (unit \<times> db) result" where
  "vercel_persist v pkg p e d =
     (if \<not> lock_owned_attempt e (dp_execution_id pkg) (vercel_worker v) (dp_attempt_count pkg) d then Inr ((), d)
      else res_bind (store_projection (vs_ast v) pkg p e d) (\<lambda>(_, d').
        if vs_evidence_fails v pkg p e d' then Inl (Exn IntegrityErr ''candidate_competency_evidence'') else Inr ((), d')))"

definition infrastructure_projection :: projection where
  "infrastructure_projection = failure_projection ''vercel_sandbox_infrastructure_error''
     ''The isolated execution service could not complete this run. Please retry.''"

definition vercel_store :: "vercel_site \<Rightarrow> dispatch_package \<Rightarrow> string \<Rightarrow> db \<Rightarrow> unit result \<times> db" where
  "vercel_store v pkg logs d =
     (case parse_runner_result (lib (vs_env v 2)) logs (dp_execution_id pkg) (Some (dp_attempt_count pkg)) of
        Inl x \<Rightarrow> (Inl x, d)
      | Inr sandbox_result \<Rightarrow>
          (case vercel_commit v 2 (\<lambda>e d. res_bind (load_expected_tests (lib e) (dp_question_version_id pkg) d)
                 (\<lambda>expected. Inr (expected, d))) d of
             (Inl x, d1) \<Rightarrow> (Inl x, d1)
           | (Inr expected, d1) \<Rightarrow> (case trusted_compare (lib (vs_env v 2)) sandbox_result expected of
               Inl x \<Rightarrow> (Inl x, d1)
             | Inr p \<Rightarrow> vercel_commit v 3 (vercel_persist v pkg p) d1)))"

text \<open>The body of the \<open>try\<close>.\<close>

definition vercel_execute :: "vercel_site \<Rightarrow> dispatch_package \<Rightarrow> db \<Rightarrow> unit result \<times> db" where
  "vercel_execute v pkg d =
     (case res_bind (sandbox_request (lib (vs_env v 1)) pkg) (run_in_vm v (lib (vs_env v 1)) pkg) of
        Inl x \<Rightarrow> (Inl x, d)
      | Inr logs \<Rightarrow>
          (case vercel_commit v 1 (\<lambda>e d. Inr (mark_running e (dp_execution_id pkg) (vercel_worker v) ''vercel-sandbox''
                 (''vercel-'' @ uuid_str (dp_execution_id pkg)) d)) d of
             (Inl x, d1) \<Rightarrow> (Inl x, d1)
           | (Inr marked, d1) \<Rightarrow> if \<not> marked then (Inr (), d1) else vercel_store v pkg logs d1))"

definition vercel_handled :: "exn \<Rightarrow> bool" where
  "vercel_handled x \<longleftrightarrow> exn_class x = VercelSandboxErr \<or> exn_class x = TrustedResultErr \<or> is_value_error (exn_class x)"

definition dispatch_vercel_execution :: "vercel_site \<Rightarrow> uuid \<Rightarrow> db \<Rightarrow> unit result \<times> db" where
  "dispatch_vercel_execution v eid d =
     (if \<not> vs_enabled v then (Inr (), d)
      else case vercel_commit v 0 (vercel_claim v eid) d of
        (Inl x, d1) \<Rightarrow> (Inl x, d1)
      | (Inr None, d1) \<Rightarrow> (Inr (), d1)
      | (Inr (Some pkg), d1) \<Rightarrow> (case vercel_execute v pkg d1 of
          (Inr u, d2) \<Rightarrow> (Inr u, d2)
        | (Inl x, d2) \<Rightarrow> if vercel_handled x
            then vercel_commit v 4 (vercel_persist v pkg infrastructure_projection) d2 else (Inl x, d2)))"

end
