(* ===== verification/Runner_Contract.thy ===== *)
theory Runner_Contract imports Vercel_Dispatch Api_Guarantees begin

text \<open>
  What the runners promise the trusted side: the line they print is one line, the parser of the
  results finds and accepts it, and it reports the tests of the request in their order. The locale
  \<open>runner\<close> states the shape of a result; the four runner programs are its interpretations.
\<close>

section \<open>A printed value is one line\<close>

text \<open>\<open>json.dumps\<close> escapes the control characters, but with \<open>ensure_ascii=False\<close> not U+0085.\<close>

definition no_break :: "char \<Rightarrow> bool" where
  "no_break c \<longleftrightarrow> is_line_break c \<longrightarrow> c = CHR 0x85"

definition plain_floats :: "pylib \<Rightarrow> bool" where
  "plain_floats l \<longleftrightarrow> (\<forall>f. list_all no_break (float_repr l f))"

lemma char_of_85: "(of_char c :: nat) = 133 \<longleftrightarrow> c = CHR 0x85"
proof -
  have "(of_char (CHR 0x85) :: nat) = 133" by simp
  then show ?thesis by (metis char_of_char)
qed

lemma no_break_high: "(32::nat) \<le> of_char c \<Longrightarrow> no_break c"
  by (auto simp: no_break_def is_line_break_def char_of_85)

lemma no_break_ascii [simp]:
  "no_break (CHR 0x22)" "no_break (CHR 0x5C)" "no_break (CHR ''n'')" "no_break (CHR ''r'')" "no_break (CHR ''t'')"
  "no_break (CHR ''f'')" "no_break (CHR ''b'')" "no_break (CHR ''u'')" "no_break (CHR '','')" "no_break (CHR '':'')"
  "no_break (CHR ''['')" "no_break (CHR '']'')" "no_break (CHR ''{'')" "no_break (CHR ''}'')" "no_break (CHR ''-'')"
  by (simp_all add: no_break_high)

lemma digit_no_break [simp]: "no_break (digit_char n)"
proof -
  have "list_all no_break ''0123456789abcdef''" by (simp add: no_break_high)
  then show ?thesis unfolding digit_char_def by (simp add: list_all_length)
qed

lemma nat_str_no_break: "list_all no_break (nat_str n)"
  by (induction n rule: nat_str.induct) (subst nat_str.simps, simp)

lemma json_str_no_break: "list_all no_break (json_str False s)"
proof -
  have "list_all no_break (esc_char False c)" for c
    by (auto simp: esc_char_def hex4_def not_less intro: no_break_high)
  then show ?thesis by (simp add: json_str_def list_all_iff)
qed

lemma join_no_break: "list_all no_break sep \<Longrightarrow> \<forall>x\<in>set xs. list_all no_break x \<Longrightarrow> list_all no_break (join sep xs)"
  by (cases xs) (auto simp: join_def list_all_iff)

lemma dumps_no_break: "plain_floats l \<Longrightarrow> list_all no_break (json_dumps l False False v)"
proof (induction v)
  case (JBool b)
  then show ?case by (simp add: no_break_high)
next
  case (JInt i)
  then show ?case by (simp add: int_str_def nat_str_no_break)
next
  case (JFloat f)
  then show ?case by (cases f) (simp_all add: plain_floats_def no_break_high)
next
  case (JStr s)
  show ?case by (simp add: json_str_no_break)
next
  case (JList xs)
  then have "list_all no_break (join '','' (map (json_dumps l False False) xs))"
    by (intro join_no_break) auto
  then show ?case by simp
next
  case (JObj d)
  then have "list_all no_break (join '','' (map (\<lambda>(k, t). json_str False k @ '':'' @ t)
      (map (map_prod id (json_dumps l False False)) d)))"
    by (intro join_no_break) (auto simp: json_str_no_break)
  then show ?case by (simp add: Let_def)
qed (simp add: no_break_high)

lemma last_line:
  assumes "list_all (\<lambda>c. \<not> is_line_break c) line" "line \<noteq> []" "ending \<in> {[], [CHR 0x0A]}"
    and "before = [] \<and> acc = [] \<or> before \<noteq> [] \<and> last before = CHR 0x0A"
  shows "\<exists>ls. lines_acc acc (before @ line @ ending) = ls @ [line]"
  using assms(4)
proof (induction acc before rule: lines_acc.induct)
  case (1 acc)
  have "lines_acc acc' (line' @ ending) = [rev acc' @ line']" if "list_all (\<lambda>c. \<not> is_line_break c) line'" "rev acc' @ line' \<noteq> []" for acc' line'
    using that
  proof (induction line' arbitrary: acc')
    case Nil
    then show ?case using assms(3) by (auto simp: is_line_break_def)
  next
    case (Cons c cs)
    have "c \<noteq> CHR 0x0D" using Cons.prems(1) by (auto simp: is_line_break_def)
    then show ?case using Cons.IH [of "c # acc'"] Cons.prems by simp
  qed
  then have "lines_acc [] (line @ ending) = [line]" using assms(1,2) by fastforce
  then show ?case using "1.prems" by simp
next
  case (2 acc c cs)
  have tail: "cs = [] \<and> c = CHR 0x0A \<or> cs \<noteq> [] \<and> last cs = CHR 0x0A" using "2.prems" by (auto split: if_splits)
  have break: "is_line_break (CHR 0x0A)" by (simp add: is_line_break_def)
  have line_hd: "hd line \<noteq> CHR 0x0A" using assms(1,2) break by (cases line) auto
  consider (pair) "c = CHR 0x0D" "cs \<noteq> []" "hd cs = CHR 0x0A" | (single) "\<not> (c = CHR 0x0D \<and> cs \<noteq> [] \<and> hd cs = CHR 0x0A)" "is_line_break c"
    | (plain) "\<not> is_line_break c" by blast
  then show ?case
  proof cases
    case pair
    have "tl cs = [] \<or> tl cs \<noteq> [] \<and> last (tl cs) = CHR 0x0A" using tail pair(2) by (cases cs) auto
    then show ?thesis using "2.IH"(1) [OF _] pair by auto
  next
    case single
    have "\<not> (c = CHR 0x0D \<and> cs @ line @ ending \<noteq> [] \<and> hd (cs @ line @ ending) = CHR 0x0A)"
      using single(1) tail line_hd assms(2) by (cases cs) auto
    then show ?thesis using "2.IH"(2) single tail by auto
  next
    case plain
    then have "cs \<noteq> []" using tail break by auto
    moreover have "c \<noteq> CHR 0x0D" using plain by (auto simp: is_line_break_def)
    ultimately show ?thesis using "2.IH"(3) plain tail by auto
  qed
qed

section \<open>The result object and its log\<close>

text \<open>A log: what was printed before, and the line with the result at its end.\<close>

definition result_log :: "pylib \<Rightarrow> string \<Rightarrow> jobj \<Rightarrow> string \<Rightarrow> string" where
  "result_log l before obj ending = before @ (result_prefix @ json_dumps l False False (JObj obj)) @ ending"

definition log_readable :: "pylib \<Rightarrow> string \<Rightarrow> jobj \<Rightarrow> string \<Rightarrow> bool" where
  "log_readable l before obj ending \<longleftrightarrow> plain_floats l \<and> (before = [] \<or> last before = CHR 0x0A) \<and> ending \<in> {[], [CHR 0x0A]} \<and>
     CHR 0x85 \<notin> set (json_dumps l False False (JObj obj)) \<and>
     json_loads l (json_dumps l False False (JObj obj)) = Some (JObj obj) \<and>
     utf8_len (result_log l before obj ending) \<le> max_result_log_bytes"

text \<open>
  What both depend on apart from the size: \<open>float.__repr__\<close> prints no line break, what was printed
  before the line ended with a newline, the JSON has no U+0085, and \<open>json.loads\<close> inverts \<open>json.dumps\<close>
  on the object.
\<close>

definition line_readable :: "pylib \<Rightarrow> string \<Rightarrow> jobj \<Rightarrow> bool" where
  "line_readable l before obj \<longleftrightarrow> plain_floats l \<and> (before = [] \<or> last before = CHR 0x0A) \<and>
     CHR 0x85 \<notin> set (json_dumps l False False (JObj obj)) \<and>
     json_loads l (json_dumps l False False (JObj obj)) = Some (JObj obj)"

lemma log_readable_iff: "log_readable l before obj [CHR 0x0A] \<longleftrightarrow>
    line_readable l before obj \<and> utf8_len (result_log l before obj [CHR 0x0A]) \<le> max_result_log_bytes"
  by (auto simp: log_readable_def line_readable_def)

lemma oversized_log_refused:
  "max_result_log_bytes < utf8_len t \<Longrightarrow> \<exists>msg. parse_runner_result l t eid attempt = Inl (Exn TrustedResultErr msg)"
  by (simp add: parse_runner_result_def)

lemma result_line_log: "result_line l execution_id result =
  result_log l [] (result @ [(''execution_id'', JStr execution_id)]) [CHR 0x0A]"
  by (simp add: result_line_def result_log_def)

lemma find_result_in_log:
  assumes "log_readable l before obj ending"
  shows "find_result_payload l (result_log l before obj ending) = Inr obj"
proof -
  let ?dump = "json_dumps l False False (JObj obj)" and ?line = "result_prefix @ json_dumps l False False (JObj obj)"
  have plain: "\<not> is_line_break c" if "c \<in> set ?dump" for c
    using that assms dumps_no_break [of l "JObj obj"] by (auto simp: log_readable_def list_all_iff no_break_def)
  have "list_all (\<lambda>c. \<not> is_line_break c) result_prefix" by (simp add: result_prefix_def is_line_break_def)
  then have "list_all (\<lambda>c. \<not> is_line_break c) ?line" using plain by (auto simp: list_all_iff)
  moreover have "?line \<noteq> []" by (simp add: result_prefix_def)
  ultimately obtain ls where "splitlines (result_log l before obj ending) = ls @ [?line]"
    using last_line [of ?line ending before "[]"] assms unfolding splitlines_def result_log_def log_readable_def by blast
  then show ?thesis
    using assms by (simp add: find_result_payload_def starts_with_def log_readable_def object_dict_def)
qed

section \<open>The contract of a runner\<close>

text \<open>The results are those of the first tests of the request, in order.\<close>

definition reports :: "(string \<times> string) list \<Rightarrow> jobj list \<Rightarrow> bool" where
  "reports ts rs \<longleftrightarrow> length rs \<le> length ts \<and> list_all2 (\<lambda>(i, v) r. jget r ''id'' = JStr i \<and> jget r ''visibility'' = JStr v)
     (take (length rs) ts) rs"

definition tests_sound :: "(string \<times> string) list \<Rightarrow> bool" where
  "tests_sound ts \<longleftrightarrow> distinct (map fst ts) \<and> (\<forall>(i, v)\<in>set ts. i \<noteq> [] \<and> v \<in> {''public'', ''hidden''}) \<and> length ts \<le> max_result_tests"

text \<open>A result as the parser of the trusted side stores it.\<close>

definition parsed_test :: "jobj \<Rightarrow> jobj" where
  "parsed_test r = [(''id'', jget r ''id''), (''visibility'', jget r ''visibility''), (''ok'', JBool (truthy (jget r ''ok''))),
     (''actual'', jget r ''actual''), (''error_category'', string_json (optional_string (jget r ''error_category'')))]"

lemma parse_reported:
  assumes "list_all2 (\<lambda>(i, v) r. jget r ''id'' = JStr i \<and> jget r ''visibility'' = JStr v) ts rs"
    "distinct (map fst ts)" "\<forall>(i, v)\<in>set ts. i \<noteq> [] \<and> v \<in> {''public'', ''hidden''}" "fst ` set ts \<inter> set seen = {}"
  shows "parse_tests (map JObj rs) seen = Inr (map parsed_test rs)"
  using assms
proof (induction arbitrary: seen rule: list_all2_induct)
  case (Cons t ts r rs)
  obtain i v where t: "t = (i, v)" by (cases t)
  have "parse_tests (map JObj rs) (i # seen) = Inr (map parsed_test rs)"
    using Cons.prems t by (intro Cons.IH) auto
  moreover have "i \<noteq> []" "v \<noteq> []" "v \<in> {''public'', ''hidden''}" "i \<notin> set seen" using Cons.prems t by auto
  ultimately show ?case
    using Cons.hyps(1) t by (simp add: object_dict_def required_string_def parsed_test_def)
qed simp

locale runner =
  fixes legal :: "'w \<Rightarrow> bool" and result :: "'w \<Rightarrow> jobj" and execution :: "'w \<Rightarrow> uuid" and attempt :: "'w \<Rightarrow> int"
    and tests :: "'w \<Rightarrow> (string \<times> string) list" and rows :: "'w \<Rightarrow> jobj list" and complete :: "'w \<Rightarrow> bool"
  assumes identity: "legal w \<Longrightarrow> jget (result w) ''schema_version'' = JInt 1 \<and>
      jget (result w) ''execution_id'' = JStr (uuid_str (execution w)) \<and> jget (result w) ''attempt'' = JInt (attempt w) \<and> 1 \<le> attempt w"
    and status: "legal w \<Longrightarrow> jget (result w) ''status'' = JStr (if complete w then ''COMPLETED'' else ''TIMEOUT'')"
    and results: "legal w \<Longrightarrow> jget (result w) ''tests'' = JList (map JObj (rows w)) \<and> tests_sound (tests w) \<and>
      reports (tests w) (rows w) \<and> (complete w \<longrightarrow> length (rows w) = length (tests w))"
    and numbers: "legal w \<Longrightarrow> \<exists>ms code. jget (result w) ''runtime_ms'' = JInt ms \<and> 0 \<le> ms \<and> jget (result w) ''exit_code'' = JInt code"
begin

lemma accepted_by_parser:
  assumes "legal w" "log_readable l before (result w) ending"
  shows "\<exists>s. parse_runner_result l (result_log l before (result w) ending) (execution w) (Some (attempt w)) = Inr s \<and>
    sx_status s = (if complete w then ''COMPLETED'' else ''TIMEOUT'') \<and> sx_tests s = map parsed_test (rows w) \<and>
    sx_stdout s = stream_text l (jget (result w) ''stdout'') \<and> sx_stderr s = stream_text l (jget (result w) ''stderr'') \<and>
    reports (tests w) (rows w) \<and> (complete w \<longrightarrow> length (rows w) = length (tests w))"
proof -
  note id = identity [OF assms(1)] and res = results [OF assms(1)]
  obtain ms code where n: "jget (result w) ''runtime_ms'' = JInt ms" "0 \<le> ms" "jget (result w) ''exit_code'' = JInt code"
    using numbers [OF assms(1)] by blast
  let ?k = "take (length (rows w)) (tests w)"
  have rep: "list_all2 (\<lambda>(i, v) r. jget r ''id'' = JStr i \<and> jget r ''visibility'' = JStr v) ?k (rows w)"
    "length (rows w) \<le> length (tests w)" using res by (simp_all add: reports_def)
  have sound: "distinct (map fst (tests w))" "\<forall>(i, v)\<in>set (tests w). i \<noteq> [] \<and> v \<in> {''public'', ''hidden''}"
    "length (tests w) \<le> max_result_tests" using res by (simp_all add: tests_sound_def)
  have "distinct (map fst ?k)" using sound(1) by (simp add: take_map [symmetric] distinct_take)
  moreover have "\<forall>(i, v)\<in>set ?k. i \<noteq> [] \<and> v \<in> {''public'', ''hidden''}"
    by (intro ballI) (drule in_set_takeD, rule bspec [OF sound(2)])
  ultimately have parsed: "parse_tests (map JObj (rows w)) [] = Inr (map parsed_test (rows w))"
    by (intro parse_reported [OF rep(1)]) simp_all
  have small: "utf8_len (result_log l before (result w) ending) \<le> max_result_log_bytes" "length (rows w) \<le> max_result_tests"
    using assms(2) rep(2) sound(3) by (simp_all add: log_readable_def)
  show ?thesis
    using small id res n(2) status [OF assms(1)] parsed
    by (cases "complete w") (simp_all add: parse_runner_result_def find_result_in_log [OF assms(2)] n(1,3) positive_int_def
        nonnegative_int_def object_list_def required_string_def number_eq_def)
qed

end

section \<open>The runners keep it\<close>

lemma runtime_nonneg: "a \<le> b \<Longrightarrow> 0 \<le> round_half_even (fmul (fadd b (- a)) 1000)"
proof -
  assume "a \<le> b"
  then have "0 \<le> fmul (fadd b (- a)) 1000" by (intro fmul_nonneg) (simp_all add: fadd_def fl_nonneg)
  from round_half_even_mono [OF this] show ?thesis by simp
qed

lemma reports_snoc:
  assumes "reports ts rs" "length rs < length ts" "ts ! length rs = (i, v)" "jget r ''id'' = JStr i" "jget r ''visibility'' = JStr v"
  shows "reports ts (rs @ [r])"
  using assms by (simp add: reports_def take_Suc_conv_app_nth list_all2_append)

lemma reports_Nil [simp]: "reports ts []"
  by (simp add: reports_def)

subsection \<open>The Python runner\<close>

abbreviation requested :: "runner_test list \<Rightarrow> (string \<times> string) list" where
  "requested ts \<equiv> map (\<lambda>t. (rt_id t, rt_visibility t)) ts"

lemma run_tests_reports:
  assumes "reports (requested all) (rs_results s)" "drop (length (rs_results s)) all = ts" "rs_status s = ''COMPLETED''"
    and "s' = run_tests l h r timeout deadline ts s"
  shows "reports (requested all) (rs_results s') \<and> rs_status s' \<in> {''COMPLETED'', ''TIMEOUT''} \<and>
    (rs_status s' = ''COMPLETED'' \<longrightarrow> length (rs_results s') = length all)"
  using assms
proof (induction ts arbitrary: s)
  case Nil
  then show ?case by (simp add: reports_def)
next
  case (Cons t ts)
  show ?case
  proof (cases "fadd deadline (- rh_clock h (rs_ticks s)) \<le> 0")
    case True
    then show ?thesis using Cons.prems by simp
  next
    case False
    define one where "one = after_test l t (execute_test l h (rs_ticks s) r (rt_input t)
      (max 1 (min \<lceil>fadd deadline (- rh_clock h (rs_ticks s))\<rceil> timeout))) s"
    have at: "length (rs_results s) < length all" "all ! length (rs_results s) = t" "drop (Suc (length (rs_results s))) all = ts"
      using Cons.prems(2) by (auto simp: drop_Suc tl_drop [symmetric] intro: nth_via_drop) (metis drop_eq_Nil leI list.distinct(1))
    obtain protocol raw code where "execute_test l h (rs_ticks s) r (rt_input t)
        (max 1 (min \<lceil>fadd deadline (- rh_clock h (rs_ticks s))\<rceil> timeout)) = (protocol, raw, code)"
      by (rule prod_cases3)
    then have rows: "rs_results one = rs_results s @ [test_result l t protocol]"
      "rs_status one = ''TIMEOUT'' \<or> rs_status one = ''COMPLETED''"
      using Cons.prems(3) by (simp_all add: one_def after_test_def Let_def)
    have rep: "reports (requested all) (rs_results one)"
      unfolding rows(1) using Cons.prems(1) at
      by (intro reports_snoc [where i = "rt_id t" and v = "rt_visibility t"]) (simp_all add: test_result_def Let_def jget_Cons)
    have s': "s' = (if rs_status one = ''TIMEOUT'' then one else run_tests l h r timeout deadline ts one)"
      using Cons.prems(4) False by (simp add: one_def Let_def)
    show ?thesis
    proof (cases "rs_status one = ''TIMEOUT''")
      case True
      then show ?thesis using rep by (simp add: s')
    next
      case False
      then show ?thesis using Cons.IH [OF rep] at(3) rows s' by simp
    qed
  qed
qed

definition python_end :: "pylib \<Rightarrow> runner_host \<Rightarrow> int \<Rightarrow> runner_request \<Rightarrow> runner_state" where
  "python_end l h timeout r = run_tests l h r timeout (fadd (rh_clock h 0) (of_int timeout)) (rn_tests r)
     \<lparr>rs_results = [], rs_stdout = [], rs_stderr = [], rs_status = ''COMPLETED'', rs_exit_code = 0, rs_ticks = 1\<rparr>"

lemma python_end_reports:
  "reports (requested (rn_tests r)) (rs_results (python_end l h timeout r)) \<and>
   rs_status (python_end l h timeout r) \<in> {''COMPLETED'', ''TIMEOUT''} \<and>
   (rs_status (python_end l h timeout r) = ''COMPLETED'' \<longrightarrow> length (rs_results (python_end l h timeout r)) = length (rn_tests r))"
  by (rule run_tests_reports [OF _ _ _ python_end_def]) simp_all

record python_run =
  py_lib :: pylib
  py_host :: runner_host
  py_timeout :: int
  py_request :: runner_request
  py_execution :: uuid

definition python_legal :: "python_run \<Rightarrow> bool" where
  "python_legal w \<longleftrightarrow> tests_sound (requested (rn_tests (py_request w))) \<and> 1 \<le> rn_attempt (py_request w) \<and>
     (\<forall>n. rh_clock (py_host w) 0 \<le> rh_clock (py_host w) n)"

definition python_result :: "python_run \<Rightarrow> jobj" where
  "python_result w = python_run_request (py_lib w) (py_host w) (py_timeout w) (py_request w) @
     [(''execution_id'', JStr (uuid_str (py_execution w)))]"

abbreviation python_final :: "python_run \<Rightarrow> runner_state" where
  "python_final w \<equiv> python_end (py_lib w) (py_host w) (py_timeout w) (py_request w)"

lemma python_fields:
  "jget (python_result w) ''schema_version'' = JInt 1"
  "jget (python_result w) ''execution_id'' = JStr (uuid_str (py_execution w))"
  "jget (python_result w) ''attempt'' = JInt (rn_attempt (py_request w))"
  "jget (python_result w) ''status'' = JStr (rs_status (python_final w))"
  "jget (python_result w) ''tests'' = JList (map JObj (rs_results (python_final w)))"
  "jget (python_result w) ''exit_code'' = JInt (rs_exit_code (python_final w))"
  "jget (python_result w) ''runtime_ms'' = JInt (round_half_even
     (fmul (fadd (rh_clock (py_host w) (rs_ticks (python_final w))) (- rh_clock (py_host w) 0)) 1000))"
  by (simp_all add: python_result_def python_run_request_def Let_def jget_Cons python_end_def)

interpretation python: runner python_legal python_result py_execution "\<lambda>w. rn_attempt (py_request w)"
  "\<lambda>w. requested (rn_tests (py_request w))" "\<lambda>w. rs_results (python_final w)" "\<lambda>w. rs_status (python_final w) = ''COMPLETED''"
proof
  fix w assume legal: "python_legal w"
  note ended = python_end_reports [of "py_request w" "py_lib w" "py_host w" "py_timeout w"]
  show "\<exists>ms code. jget (python_result w) ''runtime_ms'' = JInt ms \<and> 0 \<le> ms \<and> jget (python_result w) ''exit_code'' = JInt code"
    using legal by (simp add: python_fields python_legal_def runtime_nonneg)
qed (use python_end_reports in \<open>auto simp: python_fields python_legal_def\<close>)

subsection \<open>The SQL runner\<close>

abbreviation sql_requested :: "sql_test list \<Rightarrow> (string \<times> string) list" where
  "sql_requested ts \<equiv> map (\<lambda>t. (sq_id t, sq_visibility t)) ts"

lemma next_test:
  assumes "drop (length rs) all = t # ts"
  shows "length rs < length all" "all ! length rs = t" "drop (Suc (length rs)) all = ts"
proof -
  show "length rs < length all" using assms by (metis drop_eq_Nil leI list.distinct(1))
  show "all ! length rs = t" using assms by (rule nth_via_drop)
  show "drop (Suc (length rs)) all = ts" using assms by (simp add: drop_Suc tl_drop [symmetric])
qed

lemma run_sql_tests_reports:
  assumes "run_sql_tests l sv c r ts rs s = (Inr (rs', timed_out), s')"
    "reports (sql_requested all) rs" "drop (length rs) all = ts"
  shows "reports (sql_requested all) rs' \<and> (\<not> timed_out \<longrightarrow> length rs' = length all)"
  using assms
proof (induction ts arbitrary: rs s)
  case Nil
  then show ?case by (simp add: reports_def)
next
  case (Cons t ts)
  note at = next_test [OF Cons.prems(3)]
  obtain o1 s2 where one: "(if qo_category o1 = Some ''timeout'' then (Inr (rs @ [sql_test_result t o1], True), s2)
       else run_sql_tests l sv c r ts (rs @ [sql_test_result t o1]) s2) = (Inr (rs', timed_out), s')"
    using Cons.prems(1) by (simp add: Let_def split: prod.splits sum.splits)
  have rep: "reports (sql_requested all) (rs @ [sql_test_result t o1])"
    using Cons.prems(2) at
    by (intro reports_snoc [where i = "sq_id t" and v = "sq_visibility t"]) (simp_all add: sql_test_result_def jget_Cons)
  show ?case
  proof (cases "qo_category o1 = Some ''timeout''")
    case True
    then show ?thesis using one rep by auto
  next
    case False
    then show ?thesis using one at(3) by (intro Cons.IH [OF _ rep]) simp_all
  qed
qed

record 's sql_run =
  ss_lib :: pylib
  ss_server :: "'s sql_server"
  ss_config :: sql_config
  ss_state :: 's
  ss_started :: rat
  ss_ended :: rat
  ss_request :: sql_request
  ss_execution :: uuid

definition sql_final :: "'s sql_run \<Rightarrow> (jobj list \<times> bool) result" where
  "sql_final w = fst (run_sql_tests (ss_lib w) (ss_server w) (ss_config w) (ss_request w) (sy_tests (ss_request w)) [] (ss_state w))"

definition sql_done :: "'s sql_run \<Rightarrow> jobj list \<times> bool" where
  "sql_done w = (case sql_final w of Inr final \<Rightarrow> final | Inl x \<Rightarrow> ([], True))"

definition sql_legal :: "'s sql_run \<Rightarrow> bool" where
  "sql_legal w \<longleftrightarrow> sql_final w = Inr (sql_done w) \<and> tests_sound (sql_requested (sy_tests (ss_request w))) \<and>
     1 \<le> sy_attempt (ss_request w) \<and> ss_started w \<le> ss_ended w"

definition sql_output :: "'s sql_run \<Rightarrow> jobj" where
  "sql_output w = sql_result (ss_request w) (ss_started w) (ss_ended w) (sql_done w) @
     [(''execution_id'', JStr (uuid_str (ss_execution w)))]"

lemma sql_final_reports:
  assumes "sql_legal w"
  shows "reports (sql_requested (sy_tests (ss_request w))) (fst (sql_done w)) \<and>
    (\<not> snd (sql_done w) \<longrightarrow> length (fst (sql_done w)) = length (sy_tests (ss_request w)))"
proof -
  obtain s' where "run_sql_tests (ss_lib w) (ss_server w) (ss_config w) (ss_request w) (sy_tests (ss_request w)) [] (ss_state w) =
      (Inr (fst (sql_done w), snd (sql_done w)), s')"
    using assms unfolding sql_legal_def sql_final_def by (metis prod.collapse)
  then show ?thesis by (rule run_sql_tests_reports) simp_all
qed

lemma sql_fields:
  "jget (sql_output w) ''schema_version'' = JInt 1"
  "jget (sql_output w) ''execution_id'' = JStr (uuid_str (ss_execution w))"
  "jget (sql_output w) ''attempt'' = JInt (sy_attempt (ss_request w))"
  "jget (sql_output w) ''status'' = JStr (if snd (sql_done w) then ''TIMEOUT'' else ''COMPLETED'')"
  "jget (sql_output w) ''tests'' = JList (map JObj (fst (sql_done w)))"
  "jget (sql_output w) ''exit_code'' = JInt (if snd (sql_done w) then 124 else 0)"
  "jget (sql_output w) ''runtime_ms'' = JInt (round_half_even (fmul (fadd (ss_ended w) (- ss_started w)) 1000))"
  by (simp_all add: sql_output_def sql_result_def jget_Cons split_beta)

interpretation sql: runner sql_legal sql_output ss_execution "\<lambda>w. sy_attempt (ss_request w)"
  "\<lambda>w. sql_requested (sy_tests (ss_request w))" "\<lambda>w. fst (sql_done w)" "\<lambda>w. \<not> snd (sql_done w)"
proof
  fix w :: "'a sql_run" assume legal: "sql_legal w"
  show "\<exists>ms code. jget (sql_output w) ''runtime_ms'' = JInt ms \<and> 0 \<le> ms \<and> jget (sql_output w) ''exit_code'' = JInt code"
    using legal by (simp add: sql_fields sql_legal_def runtime_nonneg)
  show "jget (sql_output w) ''tests'' = JList (map JObj (fst (sql_done w))) \<and>
      tests_sound (sql_requested (sy_tests (ss_request w))) \<and>
      reports (sql_requested (sy_tests (ss_request w))) (fst (sql_done w)) \<and>
      (\<not> snd (sql_done w) \<longrightarrow> length (fst (sql_done w)) = length (sql_requested (sy_tests (ss_request w))))"
    using legal sql_final_reports [OF legal] by (simp add: sql_fields sql_legal_def)
qed (auto simp: sql_fields sql_legal_def)

subsection \<open>The uploaded Python runner\<close>

text \<open>The tests of a request: objects with an id and a visibility.\<close>

definition raw_test :: "json \<Rightarrow> (string \<times> string) option" where
  "raw_test v = (case v of JObj d \<Rightarrow> (case (jget d ''id'', jget d ''visibility'') of
     (JStr i, JStr vis) \<Rightarrow> Some (i, vis) | _ \<Rightarrow> None) | _ \<Rightarrow> None)"

definition raw_tests :: "json list \<Rightarrow> (string \<times> string) list" where
  "raw_tests raws = map (\<lambda>v. the (raw_test v)) raws"

lemma raw_testD:
  assumes "raw_test v = Some (i, vis)"
  obtains d where "v = JObj d" "required_key d ''id'' = Inr (JStr i)" "jget d ''visibility'' = JStr vis"
    "jget_default d ''visibility'' x = JStr vis"
  using assms that
  by (auto simp: raw_test_def required_key_def jget_def jget_default_def split: json.splits option.splits)

lemma vercel_tests_report:
  assumes "vercel_tests l h request timeout deadline raws s = Inr s'"
    "reports (raw_tests all) (rs_results s)" "drop (length (rs_results s)) all = raws" "rs_status s = ''COMPLETED''"
    "\<forall>v\<in>set all. raw_test v \<noteq> None"
  shows "reports (raw_tests all) (rs_results s') \<and> rs_status s' \<in> {''COMPLETED'', ''TIMEOUT''} \<and>
    (rs_status s' = ''COMPLETED'' \<longrightarrow> length (rs_results s') = length all)"
  using assms
proof (induction raws arbitrary: s)
  case Nil
  then show ?case by (simp add: reports_def raw_tests_def)
next
  case (Cons raw raws)
  note at = next_test [OF Cons.prems(3)]
  show ?case
  proof (cases "fadd deadline (- rh_clock h (rs_ticks s)) \<le> 0")
    case True
    then show ?thesis using Cons.prems by auto
  next
    case False
    have "raw \<in> set all" using at(1,2) by auto
    then obtain i vis where iv: "raw_test raw = Some (i, vis)" using Cons.prems(5) by (metis option.exhaust surj_pair)
    obtain d where d: "raw = JObj d" "required_key d ''id'' = Inr (JStr i)" "jget d ''visibility'' = JStr vis"
      "jget_default d ''visibility'' (JStr ''hidden'') = JStr vis" using raw_testD [OF iv] .
    obtain source where source: "required_key request ''source_code'' = Inr source"
      using Cons.prems(1) False by (cases "required_key request ''source_code''") (simp_all add: Let_def)
    obtain v code where ended: "run_child l (rh_process h (rs_ticks s) (vercel_child_input request source d)
        (vercel_timeout timeout (fadd deadline (- rh_clock h (rs_ticks s))))) = (v, code)" by (rule prod.exhaust)
    obtain child where "v = JObj child"
      using Cons.prems(1) False d(1) source ended by (cases v) (simp_all add: Let_def required_object_def)
    then have one: "(if rs_status (vercel_after l (JStr i) d (child, code) s) = ''TIMEOUT''
         then Inr (vercel_after l (JStr i) d (child, code) s)
         else vercel_tests l h request timeout deadline raws (vercel_after l (JStr i) d (child, code) s)) = Inr s'"
      using Cons.prems(1) False d(1,2) source ended by (simp add: Let_def required_object_def)
    define s1 where "s1 = vercel_after l (JStr i) d (child, code) s"
    have rows: "rs_results s1 = rs_results s @ [vercel_test_result l (JStr i) d (truthy (jget child ''ok'')) (jget child ''actual'')
        (if truthy (jget child ''error_category'') then JStr (py_str l (jget child ''error_category'')) else JNull)]"
      "rs_status s1 = ''TIMEOUT'' \<or> rs_status s1 = ''COMPLETED''"
      using Cons.prems(4) by (simp_all add: s1_def vercel_after_def Let_def)
    have rep: "reports (raw_tests all) (rs_results s1)"
      unfolding rows(1) using Cons.prems(2) at iv d(4)
      by (intro reports_snoc [where i = i and v = vis]) (simp_all add: raw_tests_def vercel_test_result_def jget_Cons)
    show ?thesis
    proof (cases "rs_status s1 = ''TIMEOUT''")
      case True
      then show ?thesis using one rep by (simp flip: s1_def)
    next
      case False
      then show ?thesis
        using one Cons.prems(5) at(3) rows by (intro Cons.IH [OF _ rep]) (simp_all flip: s1_def)
    qed
  qed
qed

record vercel_run =
  vr_lib :: pylib
  vr_host :: runner_host
  vr_timeout :: int
  vr_request :: jobj
  vr_tests :: "json list"
  vr_execution :: uuid
  vr_attempt :: int

definition vercel_run_end :: "vercel_run \<Rightarrow> runner_state result" where
  "vercel_run_end w = vercel_tests (vr_lib w) (vr_host w) (vr_request w) (vr_timeout w)
     (fadd (rh_clock (vr_host w) 0) (of_int (vr_timeout w))) (vr_tests w)
     \<lparr>rs_results = [], rs_stdout = [], rs_stderr = [], rs_status = ''COMPLETED'', rs_exit_code = 0, rs_ticks = 1\<rparr>"

definition vercel_final :: "vercel_run \<Rightarrow> runner_state" where
  "vercel_final w = (case vercel_run_end w of Inr s \<Rightarrow> s | Inl x \<Rightarrow>
     \<lparr>rs_results = [], rs_stdout = [], rs_stderr = [], rs_status = ''TIMEOUT'', rs_exit_code = 0, rs_ticks = 1\<rparr>)"

definition vercel_legal :: "vercel_run \<Rightarrow> bool" where
  "vercel_legal w \<longleftrightarrow> vercel_run_end w = Inr (vercel_final w) \<and> (\<forall>v\<in>set (vr_tests w). raw_test v \<noteq> None) \<and>
     tests_sound (raw_tests (vr_tests w)) \<and> 1 \<le> vr_attempt w \<and> (\<forall>n. rh_clock (vr_host w) 0 \<le> rh_clock (vr_host w) n)"

definition vercel_output :: "vercel_run \<Rightarrow> jobj" where
  "vercel_output w = vercel_result (JStr (uuid_str (vr_execution w))) (vr_attempt w) (rh_clock (vr_host w) 0)
     (rh_clock (vr_host w) (rs_ticks (vercel_final w))) (vr_lib w) (vercel_final w)"

lemma vercel_final_reports:
  assumes "vercel_legal w"
  shows "reports (raw_tests (vr_tests w)) (rs_results (vercel_final w)) \<and> rs_status (vercel_final w) \<in> {''COMPLETED'', ''TIMEOUT''} \<and>
    (rs_status (vercel_final w) = ''COMPLETED'' \<longrightarrow> length (rs_results (vercel_final w)) = length (vr_tests w))"
  using assms by (intro vercel_tests_report [of _ _ _ _ _ "vr_tests w"]) (auto simp: vercel_legal_def vercel_run_end_def)

lemma vercel_fields:
  "jget (vercel_result (JStr i) a t0 t1 l s) ''schema_version'' = JInt 1"
  "jget (vercel_result (JStr i) a t0 t1 l s) ''execution_id'' = JStr i"
  "jget (vercel_result (JStr i) a t0 t1 l s) ''attempt'' = JInt a"
  "jget (vercel_result (JStr i) a t0 t1 l s) ''status'' = JStr (rs_status s)"
  "jget (vercel_result (JStr i) a t0 t1 l s) ''tests'' = JList (map JObj (rs_results s))"
  "jget (vercel_result (JStr i) a t0 t1 l s) ''exit_code'' = JInt (rs_exit_code s)"
  "jget (vercel_result (JStr i) a t0 t1 l s) ''runtime_ms'' = JInt (round_half_even (fmul (fadd t1 (- t0)) 1000))"
  by (simp_all add: vercel_result_def jget_Cons)

interpretation vercel: runner vercel_legal vercel_output vr_execution vr_attempt
  "\<lambda>w. raw_tests (vr_tests w)" "\<lambda>w. rs_results (vercel_final w)" "\<lambda>w. rs_status (vercel_final w) = ''COMPLETED''"
proof
  fix w assume legal: "vercel_legal w"
  show "\<exists>ms code. jget (vercel_output w) ''runtime_ms'' = JInt ms \<and> 0 \<le> ms \<and> jget (vercel_output w) ''exit_code'' = JInt code"
    using legal by (simp add: vercel_output_def vercel_fields vercel_legal_def runtime_nonneg)
  show "jget (vercel_output w) ''tests'' = JList (map JObj (rs_results (vercel_final w))) \<and>
      tests_sound (raw_tests (vr_tests w)) \<and> reports (raw_tests (vr_tests w)) (rs_results (vercel_final w)) \<and>
      (rs_status (vercel_final w) = ''COMPLETED'' \<longrightarrow> length (rs_results (vercel_final w)) = length (raw_tests (vr_tests w)))"
    using legal vercel_final_reports [OF legal] by (simp add: vercel_output_def vercel_fields vercel_legal_def raw_tests_def)
qed (use vercel_final_reports in \<open>auto simp: vercel_output_def vercel_fields vercel_legal_def\<close>)

end
