(* ===== verification/Runner_Guarantees.thy ===== *)
theory Runner_Guarantees imports Runner_Contract begin

text \<open>
  The properties of the sandbox runners together with the trusted side: what a runner prints is
  accepted, which requests it accepts, and where the two executors differ.
\<close>

section \<open>Accepted requests\<close>

lemma runner_tests_sound:
  assumes "runner_tests l n raws seen = Inr ts"
  shows "distinct (map rt_id ts) \<and> rt_id ` set ts \<inter> set seen = {} \<and>
    (\<forall>t\<in>set ts. rt_id t \<noteq> [] \<and> rt_visibility t \<in> {''public'', ''hidden''}) \<and> length ts = length raws"
  using assms
proof (induction l n raws seen arbitrary: ts rule: runner_tests.induct)
  case (2 l n raw raws seen)
  obtain item i vis known rest where t: "raw = JObj item" "jget item ''id'' = JStr i" "i \<noteq> []" "i \<notin> set seen"
    "jget_default item ''visibility'' (JStr ''hidden'') = vis" "member_of vis [''public'', ''hidden''] = Inr True"
    "\<not> (has_key item ''expected_output'' \<or> has_key item ''expected'')"
    "runner_tests l (n + 1) raws (i # seen) = Inr rest"
    "ts = \<lparr>rt_id = i, rt_visibility = the (as_str vis), rt_input = jget item ''input''\<rparr> # rest"
    using "2.prems" by (auto simp: Let_def res_bind_Inr_iff split: json.splits if_splits)
  have "the (as_str vis) \<in> {''public'', ''hidden''}"
    using t(6) by (auto simp: member_of_def split: json.splits if_splits)
  then show ?case using "2.IH" [OF t(1,2,3,4) refl _ t(7,8), of True] t by auto
qed simp

lemma parse_request_sound:
  assumes "parse_request l raw eid = Inr r"
  shows "tests_sound (requested (rn_tests r))" "1 \<le> rn_attempt r" "rn_tests r \<noteq> []"
proof -
  obtain payload attempt source where p: "request_of_payload l payload attempt source = Inr r" "1 \<le> attempt"
    using assms by (auto simp: parse_request_def not_less split: option.splits json.splits if_splits)
  then obtain tests where t: "parse_test_list l payload = Inr tests" "rn_tests r = tests" "rn_attempt r = attempt"
    by (auto simp: request_of_payload_def Let_def res_bind_Inr_iff split: json.splits if_splits)
  then obtain raws where raws: "runner_tests l 0 raws [] = Inr tests" "raws \<noteq> []" "length raws \<le> runner_max_tests"
    by (auto simp: parse_test_list_def split: json.splits if_splits)
  show "1 \<le> rn_attempt r" using p(2) t(3) by simp
  show "rn_tests r \<noteq> []" using runner_tests_sound [OF raws(1)] raws(2) t(2) by auto
  show "tests_sound (requested (rn_tests r))"
    using runner_tests_sound [OF raws(1)] raws(3) t(2)
    by (auto simp: tests_sound_def runner_max_tests_def max_result_tests_def comp_def)
qed

section \<open>What a runner prints is accepted\<close>

abbreviation final_object :: "pylib \<Rightarrow> runner_host \<Rightarrow> int \<Rightarrow> runner_request \<Rightarrow> uuid \<Rightarrow> jobj" where
  "final_object l h timeout r eid \<equiv> python_run_request l h timeout r @ [(''execution_id'', JStr (uuid_str eid))]"

abbreviation identified :: "jobj \<Rightarrow> json \<times> json" where
  "identified t \<equiv> (jget t ''id'', jget t ''visibility'')"

lemma reports_identified:
  assumes "reports ts rs"
  shows "map identified (map parsed_test rs) = map (\<lambda>(i, v). (JStr i, JStr v)) (take (length rs) ts)"
proof -
  have "list_all2 (\<lambda>(i, v) r. jget r ''id'' = JStr i \<and> jget r ''visibility'' = JStr v) (take (length rs) ts) rs"
    using assms by (simp add: reports_def)
  then show ?thesis
    by (induction rule: list_all2_induct) (auto simp: parsed_test_def jget_Cons)
qed

text \<open>C33: The Python runner and the trusted side agree on a result whose log fits: for every request
  the runner accepts it prints one line, and where the log up to that line is at most 256 KiB,
  parse_runner_result recovers from it a result for this execution and attempt that lists the first
  tests of the request in their order with their visibility, all of them when the run completed
  (exit status 0); otherwise it is a timeout. Where the log is longer, which the limits of the runner
  allow, the run is refused as untrusted. This holds under four conditions: json.loads inverts
  json.dumps on the result, the text of a float has no line break, whatever was printed before the
  line is empty or ends in a newline, and the printed JSON contains no U+0085 (it is refused then).
\<close>

theorem python_result_is_accepted:
  assumes "uuid_of (ra_execution_id a) = Some eid" "ra_execution_id a = uuid_str eid"
    "1 \<le> ra_timeout_seconds a" "ra_timeout_seconds a \<le> 30" "parse_request l (ra_input a) eid = Inr r"
    "\<forall>n. rh_clock h 0 \<le> rh_clock h n"
    "line_readable l before (final_object l h (ra_timeout_seconds a) r eid)"
  shows "\<exists>line code. python_runner_main l uuid_of h a = Inr (line, code) \<and>
    (if utf8_len (before @ line) \<le> 256 * 1024
     then \<exists>s. parse_runner_result l (before @ line) eid (Some (rn_attempt r)) = Inr s \<and>
       map identified (sx_tests s) = map (\<lambda>t. (JStr (rt_id t), JStr (rt_visibility t))) (take (length (sx_tests s)) (rn_tests r)) \<and>
       sx_status s = (if code = 0 then ''COMPLETED'' else ''TIMEOUT'') \<and> (code = 0 \<longrightarrow> length (sx_tests s) = length (rn_tests r))
     else \<exists>msg. parse_runner_result l (before @ line) eid (Some (rn_attempt r)) = Inl (Exn TrustedResultErr msg))"
proof -
  define w where "w = \<lparr>py_lib = l, py_host = h, py_timeout = ra_timeout_seconds a, py_request = r, py_execution = eid\<rparr>"
  have legal: "python_legal w" using parse_request_sound [OF assms(5)] assms(6) by (simp add: python_legal_def w_def)
  have result: "python_result w = final_object l h (ra_timeout_seconds a) r eid" by (simp add: python_result_def w_def)
  let ?line = "result_line l (ra_execution_id a) (python_run_request l h (ra_timeout_seconds a) r)"
  let ?code = "if rs_status (python_final w) = ''COMPLETED'' then 0 else (1::int)"
  have line: "before @ ?line = result_log l before (python_result w) [CHR 0x0A]"
    by (simp add: result_line_def result_log_def result assms(2))
  have "jget (python_run_request l h (ra_timeout_seconds a) r) ''status'' = JStr (rs_status (python_final w))"
    by (simp add: python_run_request_def Let_def jget_Cons python_end_def w_def)
  then have main: "python_runner_main l uuid_of h a = Inr (?line, ?code)"
    using assms(1,3-5) by (simp add: python_runner_main_def Let_def)
  have accepted: "\<exists>s. parse_runner_result l (before @ ?line) eid (Some (rn_attempt r)) = Inr s \<and>
      map identified (sx_tests s) = map (\<lambda>t. (JStr (rt_id t), JStr (rt_visibility t))) (take (length (sx_tests s)) (rn_tests r)) \<and>
      sx_status s = (if ?code = 0 then ''COMPLETED'' else ''TIMEOUT'') \<and> (?code = 0 \<longrightarrow> length (sx_tests s) = length (rn_tests r))"
    if "utf8_len (before @ ?line) \<le> 256 * 1024"
  proof -
    have "log_readable l before (python_result w) [CHR 0x0A]"
      using that assms(7) by (simp add: log_readable_iff line result max_result_log_bytes_def)
    from python.accepted_by_parser [OF legal this]
    obtain s where s: "parse_runner_result l (result_log l before (python_result w) [CHR 0x0A]) eid (Some (rn_attempt r)) = Inr s"
      "sx_status s = (if rs_status (python_final w) = ''COMPLETED'' then ''COMPLETED'' else ''TIMEOUT'')"
      "sx_tests s = map parsed_test (rs_results (python_final w))" "reports (requested (rn_tests r)) (rs_results (python_final w))"
      "rs_status (python_final w) = ''COMPLETED'' \<longrightarrow> length (rs_results (python_final w)) = length (rn_tests r)"
      by (auto simp: w_def)
    have "map identified (sx_tests s) = map (\<lambda>t. (JStr (rt_id t), JStr (rt_visibility t))) (take (length (sx_tests s)) (rn_tests r))"
      using reports_identified [OF s(4)] by (simp add: s(3) take_map comp_def)
    moreover have "length (sx_tests s) = length (rs_results (python_final w))" by (simp add: s(3))
    ultimately show ?thesis using s(2,5) by (intro exI [of _ s]) (simp add: line s(1))
  qed
  have refused: "\<exists>msg. parse_runner_result l (before @ ?line) eid (Some (rn_attempt r)) = Inl (Exn TrustedResultErr msg)"
    if "\<not> utf8_len (before @ ?line) \<le> 256 * 1024"
    using that by (intro oversized_log_refused) (simp add: max_result_log_bytes_def)
  show ?thesis
    using main accepted refused by (intro exI [of _ ?line] exI [of _ ?code]) auto
qed

lemma sql_tests_sound:
  assumes "sql_tests raws seen = Inr ts"
  shows "distinct (map sq_id ts) \<and> sq_id ` set ts \<inter> set seen = {} \<and>
    (\<forall>t\<in>set ts. sq_id t \<noteq> [] \<and> sq_visibility t \<in> {''public'', ''hidden''}) \<and> length ts = length raws"
  using assms
proof (induction raws seen arbitrary: ts rule: sql_tests.induct)
  case (2 raw raws seen)
  obtain item i vis fixture rest where t: "raw = JObj item" "jget item ''id'' = JStr i" "\<not> (i = [] \<or> i \<in> set seen)"
    "jget_default item ''visibility'' (JStr ''hidden'') = vis" "member_of vis [''public'', ''hidden''] = Inr True"
    "\<not> (has_key item ''expected_output'' \<or> has_key item ''expected'')"
    "sql_tests raws (i # seen) = Inr rest"
    "ts = \<lparr>sq_id = i, sq_visibility = the (as_str vis), sq_fixture = fixture\<rparr> # rest"
    using "2.prems" by (auto simp: Let_def res_bind_Inr_iff split: json.splits if_splits)
  have "the (as_str vis) \<in> {''public'', ''hidden''}"
    using t(5) by (auto simp: member_of_def split: json.splits if_splits)
  then show ?case using "2.IH" [OF t(1,2,3) refl _ t(6,7), of True] t by auto
qed simp

lemma sql_parse_request_sound:
  assumes "sql_parse_request l raw eid = Inr r"
  shows "tests_sound (sql_requested (sy_tests r)) \<and> 1 \<le> sy_attempt r"
proof -
  obtain payload where payload: "sql_request_of_payload payload = Inr r"
    using assms by (auto simp: sql_parse_request_def split: option.splits json.splits if_splits)
  obtain raws where raws: "jget payload ''tests'' = JList raws"
    using payload
    by (cases "jget payload ''tests''") (auto simp: sql_request_of_payload_def res_bind_Inr_iff split: if_splits)
  obtain attempt tests where t: "sql_positive_int (jget payload ''attempt'') ''Execution attempt'' 100 = Inr attempt"
    "sql_tests raws [] = Inr tests" "length raws \<le> sql_max_tests" "sy_tests r = tests" "sy_attempt r = attempt"
    using payload by (auto simp: raws sql_request_of_payload_def res_bind_Inr_iff split: if_splits)
  have "1 \<le> attempt" using t(1) by (auto simp: sql_positive_int_def split: json.splits if_splits)
  then show ?thesis
    using sql_tests_sound [OF t(2)] t(3-5)
    by (auto simp: tests_sound_def sql_max_tests_def max_result_tests_def comp_def)
qed

text \<open>C35: The same agreement for the SQL runner, unless the server fails: it prints one line, and
  where the log up to that line is at most 256 KiB, it is accepted for this execution and attempt and
  lists the first tests of the request in order, all of them when no query timed out. Where the log
  is longer (the rows of each single query may take 256 KiB) the run is refused as untrusted. As for
  the Python runner, json.loads inverts json.dumps on the result, the text of a float has no line
  break, what was printed before is empty or ends in a newline, and the JSON contains no U+0085.
\<close>

theorem sql_result_is_accepted:
  assumes "uuid_of execution_id = Some eid" "execution_id = uuid_str eid" "sql_parse_request l raw eid = Inr r"
    "sql_run_request l sv c started ended r s = (Inr result, s')" "started \<le> ended"
    "line_readable l before (result @ [(''execution_id'', JStr (uuid_str eid))])"
  shows "\<exists>line code. sql_runner_main l uuid_of sv c started ended execution_id raw s = (Inr (line, code), s') \<and>
    (if utf8_len (before @ line) \<le> 256 * 1024
     then \<exists>x. parse_runner_result l (before @ line) eid (Some (sy_attempt r)) = Inr x \<and>
       map identified (sx_tests x) = map (\<lambda>t. (JStr (sq_id t), JStr (sq_visibility t))) (take (length (sx_tests x)) (sy_tests r)) \<and>
       sx_status x = (if code = 0 then ''COMPLETED'' else ''TIMEOUT'') \<and> (code = 0 \<longrightarrow> length (sx_tests x) = length (sy_tests r))
     else \<exists>msg. parse_runner_result l (before @ line) eid (Some (sy_attempt r)) = Inl (Exn TrustedResultErr msg))"
proof -
  obtain s2 final where ran: "run_sql_tests l sv c r (sy_tests r) [] s2 = (Inr final, s')" "result = sql_result r started ended final"
    using assms(4) by (auto simp: sql_run_request_def split: if_splits prod.splits sum.splits)
  define w where "w = \<lparr>ss_lib = l, ss_server = sv, ss_config = c, ss_state = s2, ss_started = started, ss_ended = ended,
    ss_request = r, ss_execution = eid\<rparr>"
  have final: "sql_done w = final" "sql_final w = Inr final" by (simp_all add: sql_done_def sql_final_def w_def ran(1))
  have legal: "sql_legal w" using sql_parse_request_sound [OF assms(3)] assms(5) by (simp add: sql_legal_def final) (simp add: w_def)
  have result: "sql_output w = result @ [(''execution_id'', JStr (uuid_str eid))]"
    by (simp add: sql_output_def final ran(2)) (simp add: w_def)
  let ?line = "result_line l execution_id result" and ?code = "if snd final then 1 else (0::int)"
  have line: "before @ ?line = result_log l before (sql_output w) [CHR 0x0A]"
    by (simp add: result_line_def result_log_def result assms(2))
  have "jget result ''status'' = JStr (if snd final then ''TIMEOUT'' else ''COMPLETED'')"
    by (simp add: ran(2) sql_result_def jget_Cons split_beta)
  then have main: "sql_runner_main l uuid_of sv c started ended execution_id raw s = (Inr (?line, ?code), s')"
    using assms(1,3,4) by (simp add: sql_runner_main_def)
  have accepted: "\<exists>x. parse_runner_result l (before @ ?line) eid (Some (sy_attempt r)) = Inr x \<and>
      map identified (sx_tests x) = map (\<lambda>t. (JStr (sq_id t), JStr (sq_visibility t))) (take (length (sx_tests x)) (sy_tests r)) \<and>
      sx_status x = (if ?code = 0 then ''COMPLETED'' else ''TIMEOUT'') \<and> (?code = 0 \<longrightarrow> length (sx_tests x) = length (sy_tests r))"
    if "utf8_len (before @ ?line) \<le> 256 * 1024"
  proof -
    have "log_readable l before (sql_output w) [CHR 0x0A]"
      using that assms(6) by (simp add: log_readable_iff line result max_result_log_bytes_def)
    from sql.accepted_by_parser [OF legal this]
    obtain x where x: "parse_runner_result l (result_log l before (sql_output w) [CHR 0x0A]) eid (Some (sy_attempt r)) = Inr x"
      "sx_status x = (if \<not> snd final then ''COMPLETED'' else ''TIMEOUT'')" "sx_tests x = map parsed_test (fst final)"
      "reports (sql_requested (sy_tests r)) (fst final)" "\<not> snd final \<longrightarrow> length (fst final) = length (sy_tests r)"
      unfolding final by (auto simp: w_def)
    have "map identified (sx_tests x) = map (\<lambda>t. (JStr (sq_id t), JStr (sq_visibility t))) (take (length (sx_tests x)) (sy_tests r))"
      using reports_identified [OF x(4)] by (simp add: x(3) take_map comp_def)
    moreover have "length (sx_tests x) = length (fst final)" by (simp add: x(3))
    ultimately show ?thesis using x(2,5) by (intro exI [of _ x]) (simp add: line x(1))
  qed
  have refused: "\<exists>msg. parse_runner_result l (before @ ?line) eid (Some (sy_attempt r)) = Inl (Exn TrustedResultErr msg)"
    if "\<not> utf8_len (before @ ?line) \<le> 256 * 1024"
    using that by (intro oversized_log_refused) (simp add: max_result_log_bytes_def)
  show ?thesis
    using main accepted refused by (intro exI [of _ ?line] exI [of _ ?code]) auto
qed

section \<open>What a runner prints is refused\<close>

text \<open>C37: What the runner answers when it refuses its input cannot reach the candidate as such: it
  reports attempt 0, which parse_runner_result never accepts, so the worker sees a malformed result
  and not the category RunnerInputError.
\<close>

theorem refused_input_is_untrusted:
  assumes "uuid_of (ra_execution_id a) = Some eid" "ra_execution_id a = uuid_str eid"
    "ra_timeout_seconds a < 1 \<or> 30 < ra_timeout_seconds a \<or>
       (\<exists>msg. parse_request l (ra_input a) eid = Inl (Exn RunnerInputErr msg))"
    "log_readable l before (refused_result 0 2 ''RunnerInputError'' @ [(''execution_id'', JStr (uuid_str eid))]) [CHR 0x0A]"
  shows "\<exists>line msg. python_runner_main l uuid_of h a = Inr (line, 1) \<and>
    parse_runner_result l (before @ line) eid (Some attempt) = Inl (Exn TrustedResultErr msg)"
proof -
  let ?obj = "refused_result 0 2 ''RunnerInputError'' @ [(''execution_id'', JStr (uuid_str eid))]"
  have main: "python_runner_main l uuid_of h a =
      Inr (result_line l (ra_execution_id a) (refused_result 0 2 ''RunnerInputError''), 1)"
    using assms(1,3) by (auto simp: python_runner_main_def Let_def)
  have line: "before @ result_line l (ra_execution_id a) (refused_result 0 2 ''RunnerInputError'') =
      result_log l before ?obj [CHR 0x0A]"
    by (simp add: result_line_def result_log_def assms(2))
  have fields: "jget ?obj ''schema_version'' = JInt 1" "jget ?obj ''execution_id'' = JStr (uuid_str eid)"
    "jget ?obj ''attempt'' = JInt 0" by (simp_all add: refused_result_def jget_Cons)
  have "utf8_len (result_log l before ?obj [CHR 0x0A]) \<le> max_result_log_bytes"
    using assms(4) by (simp add: log_readable_def)
  then have "\<exists>msg. parse_runner_result l (result_log l before ?obj [CHR 0x0A]) eid (Some attempt) = Inl (Exn TrustedResultErr msg)"
    by (simp add: parse_runner_result_def find_result_in_log [OF assms(4)] fields positive_int_def nonnegative_int_def number_eq_def)
  then show ?thesis using main line by auto
qed

text \<open>The first line of a text.\<close>

lemma first_line:
  assumes "list_all (\<lambda>c. \<not> is_line_break c) line" "is_line_break c" "c \<noteq> CHR 0x0D"
  shows "lines_acc acc (line @ c # rest) = (rev acc @ line) # splitlines rest"
  using assms(1)
proof (induction line arbitrary: acc)
  case Nil
  then show ?case using assms(2,3) by (simp add: splitlines_def)
next
  case (Cons x line)
  then have "x \<noteq> CHR 0x0D" by (auto simp: is_line_break_def)
  then show ?case using Cons by simp
qed

text \<open>C38: A result whose JSON contains U+0085, for instance in an answer or in the output of the
  candidate, is cut there by the line splitting of the trusted side and refused as malformed,
  although the runner printed a valid line.
\<close>

theorem broken_result_line_is_refused:
  assumes "json_dumps l False False (JObj obj) = shown @ CHR 0x85 # rest" "CHR 0x85 \<notin> set shown" "plain_floats l"
    "json_loads l shown = None" "find (starts_with result_prefix) (rev (splitlines (rest @ ending))) = None"
  shows "\<exists>msg. parse_runner_result l (result_log l [] obj ending) eid attempt = Inl (Exn TrustedResultErr msg)"
proof -
  have "\<not> is_line_break c" if "c \<in> set shown" for c
    using that assms(1,2) dumps_no_break [OF assms(3), of "JObj obj"] by (auto simp: list_all_iff no_break_def)
  then have "list_all (\<lambda>c. \<not> is_line_break c) (result_prefix @ shown)"
    by (auto simp: list_all_iff result_prefix_def is_line_break_def)
  then have "lines_acc [] ((result_prefix @ shown) @ CHR 0x85 # rest @ ending) = (result_prefix @ shown) # splitlines (rest @ ending)"
    by (subst first_line) (simp_all add: is_line_break_def)
  then have "splitlines (result_log l [] obj ending) = (result_prefix @ shown) # splitlines (rest @ ending)"
    unfolding splitlines_def result_log_def assms(1) by simp
  moreover have "starts_with result_prefix (result_prefix @ shown)" by (simp add: starts_with_def)
  ultimately have "find (starts_with result_prefix) (rev (splitlines (result_log l [] obj ending))) = Some (result_prefix @ shown)"
    using assms(5) by (simp add: find_append)
  then show ?thesis by (simp add: parse_runner_result_def find_result_payload_def assms(4))
qed

theorem broken_result_line_is_refused_witness:
  "\<exists>msg. parse_runner_result sample_lib (result_log sample_lib [] [(''stdout'', JStr [CHR 0x85])] [CHR 0x0A]) 1 (Some 1) =
     Inl (Exn TrustedResultErr msg)"
proof (rule broken_result_line_is_refused)
  show "json_dumps sample_lib False False (JObj [(''stdout'', JStr [CHR 0x85])]) =
      ([CHR ''{'', CHR 0x22] @ ''stdout'' @ [CHR 0x22, CHR '':'', CHR 0x22]) @ CHR 0x85 # [CHR 0x22, CHR ''}'']"
    by (simp add: json_str_def esc_char_def join_def Let_def)
  show "plain_floats sample_lib" by (simp add: plain_floats_def sample_lib_def no_break_high)
qed (simp_all add: sample_lib_def splitlines_def is_line_break_def starts_with_def result_prefix_def)

section \<open>Which queued requests a runner accepts\<close>

definition sent_test :: "pylib \<Rightarrow> nat \<times> jobj \<Rightarrow> runner_test" where
  "sent_test l = (\<lambda>(i, t). \<lparr>rt_id = py_str l (py_or (jget t ''id'') (JStr (''test-'' @ nat_str (i + 1)))),
     rt_visibility = (if is_public_test t then ''public'' else ''hidden''), rt_input = jget t ''input''\<rparr>)"

abbreviation runner_refuses :: "'a result \<Rightarrow> bool" where
  "runner_refuses r \<equiv> \<exists>msg. r = runner_err msg"

lemma runner_tests_sent:
  "if distinct (map (rt_id \<circ> sent_test l) xs) \<and> [] \<notin> (rt_id \<circ> sent_test l) ` set xs \<and> (rt_id \<circ> sent_test l) ` set xs \<inter> set seen = {}
   then runner_tests l' n (map (\<lambda>(i, t). candidate_test l i t) xs) seen = Inr (map (sent_test l) xs)
   else runner_refuses (runner_tests l' n (map (\<lambda>(i, t). candidate_test l i t) xs) seen)"
proof (induction xs arbitrary: n seen)
  case (Cons x xs)
  obtain i vis inp where sent: "sent_test l x = \<lparr>rt_id = i, rt_visibility = vis, rt_input = inp\<rparr>" "vis \<in> {''public'', ''hidden''}"
    "(\<lambda>(i, t). candidate_test l i t) x = JObj [(''id'', JStr i), (''visibility'', JStr vis), (''input'', inp)]"
    by (cases x) (simp add: sent_test_def candidate_test_def)
  have "member_of (JStr vis) [''public'', ''hidden''] = Inr True" using sent(2) by (auto simp: member_of_def)
  then have step: "runner_tests l' n (map (\<lambda>(i, t). candidate_test l i t) (x # xs)) seen =
      (if i = [] then runner_err (''Test input '' @ nat_str n @ '' has no identifier.'') else if i \<in> set seen then runner_err (''Duplicate test identifier '' @ str_repr l' i @ ''.'')
       else res_bind (runner_tests l' (n + 1) (map (\<lambda>(i, t). candidate_test l i t) xs) (i # seen))
         (\<lambda>tests. Inr (sent_test l x # tests)))"
    by (simp add: sent(1,3) jget_Cons jget_default_def has_key_def)
  show ?case
  proof (cases "i = [] \<or> i \<in> set seen")
    case True
    then show ?thesis unfolding step by (auto simp: sent(1))
  next
    case False
    then show ?thesis
      using Cons.IH [of "i # seen" "n + 1"] unfolding step by (auto simp: sent(1) split: if_splits)
  qed
qed simp

lemma parse_sent_request:
  assumes "json_loads l' text = Some (JObj
      ([(''schema_version'', JInt 1), (''execution_id'', JStr (uuid_str eid)), (''attempt'', JInt 1),
        (''source_code'', JStr source), (''tests'', JList (map (\<lambda>(i, t). candidate_test l i t) xs))] @
       [(''entrypoint'', JStr name)]))"
    "is_identifier name" "xs \<noteq> []"
  shows "if source \<noteq> [] \<and> utf8_len source \<le> runner_source_bytes \<and> length xs \<le> runner_max_tests \<and>
       distinct (map (rt_id \<circ> sent_test l) xs) \<and> [] \<notin> (rt_id \<circ> sent_test l) ` set xs
     then parse_request l' (Some text) eid = Inr \<lparr>rn_attempt = 1, rn_source_code = source, rn_entrypoint = name,
       rn_invocation_mode = ''auto'', rn_tests = map (sent_test l) xs\<rparr>
     else runner_refuses (parse_request l' (Some text) eid)"
proof -
  have auto: "member_of (JStr ''auto'') invocation_modes = Inr True"
    by (simp add: member_of_def invocation_modes_def)
  note tests = runner_tests_sent [of l xs "[]" l' 0]
  show ?thesis
  proof (cases "source \<noteq> [] \<and> utf8_len source \<le> runner_source_bytes \<and> length xs \<le> runner_max_tests")
    case True
    then show ?thesis
      using tests assms(2,3)
      by (auto simp: parse_request_def assms(1) jget_Cons jget_default_def request_of_payload_def auto parse_test_list_def
          Let_def number_eq_def split: if_splits)
  next
    case False
    then show ?thesis
      using assms(2,3)
      by (auto simp: parse_request_def assms(1) jget_Cons jget_default_def request_of_payload_def auto parse_test_list_def
          Let_def number_eq_def)
  qed
qed

lemma identifier_truthy: "is_identifier name \<Longrightarrow> py_str l (py_or (JStr name) v) = name"
  by (cases name) (simp_all add: is_identifier_def py_or_def)

lemma entrypoint_identifier: "entrypoint l parse question = Inr name \<Longrightarrow> is_identifier name"
  by (auto simp: entrypoint_def Let_def res_bind_Inr_iff split: if_splits)

lemma python_config:
  assumes "runtime_execution_config l parse question runtime b = Inr (''python'', profile, JObj obj)"
  obtains name mode where "entrypoint l parse question = Inr name" "invocation_mode l question = Inr mode"
    "candidate_tests l question b = Inr (map (\<lambda>(i, t). candidate_test l i t) (List.enumerate 0 (question_tests question b)))"
    "List.enumerate 0 (question_tests question b) \<noteq> []"
    "jget obj ''entrypoint'' = JStr name" "jget obj ''invocation_mode'' = JStr mode"
    "jget obj ''tests'' = JList (map (\<lambda>(i, t). candidate_test l i t) (List.enumerate 0 (question_tests question b)))"
proof (cases runtime)
  case Python313
  then show ?thesis
    using assms that
    by (auto simp: runtime_execution_config_def res_bind_Inr_iff candidate_tests_def Let_def jget_Cons split: if_splits)
next
  case Postgresql18
  then show ?thesis using assms by (auto simp: runtime_execution_config_def res_bind_Inr_iff)
qed

abbreviation sent_tests :: "pylib \<Rightarrow> question_payload \<Rightarrow> bool \<Rightarrow> runner_test list" where
  "sent_tests l question b \<equiv> map (sent_test l) (List.enumerate 0 (question_tests question b))"

text \<open>C34: Which queued Python requests the runner accepts: once a worker has claimed and sent what
  the API queued, the runner refuses it exactly when the source is empty or longer than 100000 bytes,
  or the question has more than 200 tests or an empty or repeated test identifier. What it accepts is
  the candidate's source with the question's entrypoint and tests, and always the invocation mode
  auto, whatever mode the question configures.
\<close>

theorem runner_accepts_queued_request:
  assumes "queue_typed typ e parse ids rr seen d = Inr (acc, d')" "\<not> ea_duplicate acc" "exec_inv d"
    "claim_for_dispatch e2 (ea_execution_id acc) worker expires d' = Inr (claim, d2)"
    "load_dispatch_package (ea_execution_id acc) d2 = Inr pkg" "dp_language pkg = ''python''"
    "sandbox_request (lib e) pkg = Inr req" "json_loads l text = Some (JObj req)"
  shows "\<exists>question name. published_question_payload (rr_slug rr) d = Inr question \<and> entrypoint (lib e) parse question = Inr name \<and>
    (let ts = sent_tests (lib e) question (typ = Run) in
     if rr_source_code rr \<noteq> [] \<and> utf8_len (rr_source_code rr) \<le> runner_source_bytes \<and> length ts \<le> runner_max_tests \<and>
       distinct (map rt_id ts) \<and> [] \<notin> set (map rt_id ts)
     then parse_request l (Some text) (ea_execution_id acc) = Inr \<lparr>rn_attempt = 1, rn_source_code = rr_source_code rr,
       rn_entrypoint = name, rn_invocation_mode = ''auto'', rn_tests = ts\<rparr>
     else \<exists>msg. parse_request l (Some text) (ea_execution_id acc) = Inl (Exn RunnerInputErr msg))"
proof -
  obtain question runtime language profile obj where q:
    "session_question e (rr_session rr) (rr_slug rr) d = Inr (question, runtime)"
    "runtime_execution_config (lib e) parse question runtime (typ = Run) = Inr (language, profile, JObj obj)"
    "dp_execution_id pkg = ea_execution_id acc" "dp_source_code pkg = rr_source_code rr" "dp_language pkg = language"
    "dp_input_payload pkg = obj" "dp_attempt_count pkg = 1"
    using queued_package [OF assms(1-4)] assms(5) by (metis sum.inject(2))
  have language: "language = ''python''" using q(5) assms(6) by simp
  let ?raw = "List.enumerate 0 (question_tests question (typ = Run))"
  obtain name where name: "entrypoint (lib e) parse question = Inr name" "?raw \<noteq> []"
    "candidate_tests (lib e) question (typ = Run) = Inr (map (\<lambda>(i, t). candidate_test (lib e) i t) ?raw)"
    "jget obj ''entrypoint'' = JStr name" "jget obj ''tests'' = JList (map (\<lambda>(i, t). candidate_test (lib e) i t) ?raw)"
    using python_config [OF q(2) [unfolded language]] by metis
  have id: "is_identifier name" using name(1) by (rule entrypoint_identifier)
  have "res_map sanitize_test (map (\<lambda>(i, t). candidate_test (lib e) i t) ?raw) = Inr (map (\<lambda>(i, t). candidate_test (lib e) i t) ?raw)"
    using sanitize_candidate_tests candidate_tests_Inr [OF name(3)] by metis
  then have req: "req = [(''schema_version'', JInt 1), (''execution_id'', JStr (uuid_str (ea_execution_id acc))), (''attempt'', JInt 1),
      (''source_code'', JStr (rr_source_code rr)), (''tests'', JList (map (\<lambda>(i, t). candidate_test (lib e) i t) ?raw))] @
     [(''entrypoint'', JStr name)]"
    using assms(6,7) by (simp add: sandbox_request_def q name object_list_def Let_def identifier_truthy [OF id])
  have "published_question_payload (rr_slug rr) d = Inr question" using session_question_Inr [OF q(1)] by metis
  then show ?thesis
    using parse_sent_request [OF assms(8) [unfolded req] id name(2)] name(1) by (auto simp: Let_def comp_def image_image)
qed

text \<open>How the child calls the candidate on an input.\<close>

abbreviation called_with :: "jobj \<Rightarrow> invocation result" where
  "called_with payload \<equiv> child_invocation (jget_default payload ''invocation_mode'' (JStr ''auto'')) (jget payload ''input'')"

text \<open>C36: The two executors call a candidate differently: for a question with the invocation mode
  single_payload and a list as input, the Kubernetes runner, whose request lacks the mode, spreads the
  list over positional arguments, while the hosted runner passes it as one argument.
\<close>

theorem executors_disagree_on_invocation:
  assumes "dp_language pkg = ''python''" "jget (dp_input_payload pkg) ''invocation_mode'' = JStr ''single_payload''"
    "sandbox_request l pkg = Inr req" "json_loads l' text = Some (JObj req)" "parse_request l' (Some text) eid = Inr r"
    "jget test ''input'' = JList xs"
  shows "called_with (child_input r (JList xs)) = Inr (Positional xs) \<and>
    called_with (vercel_child_input (python_request l pkg req) source test) = Inr (Single (JList xs))"
proof -
  obtain tests name where req: "req = [(''schema_version'', JInt 1), (''execution_id'', JStr (uuid_str (dp_execution_id pkg))),
      (''attempt'', JInt (dp_attempt_count pkg)), (''source_code'', JStr (dp_source_code pkg)), (''tests'', JList tests),
      (''entrypoint'', JStr name)]"
    using assms(1,3) by (auto simp: sandbox_request_def Let_def res_bind_Inr_iff split: if_splits)
  have "rn_invocation_mode r = ''auto''"
    using assms(4,5) by (auto simp: req parse_request_def request_of_payload_def jget_Cons jget_default_def Let_def
        res_bind_Inr_iff split: if_splits)
  moreover have "jget_default (python_request l pkg req) ''invocation_mode'' v = JStr ''single_payload''" for v
    using assms(2) by (simp add: python_request_def py_or_def req jget_default_def)
  ultimately show ?thesis
    using assms(6) by (simp add: child_input_def vercel_child_input_def child_invocation_def jget_Cons jget_default_def
        Let_def)
qed

section \<open>Samples\<close>

text \<open>The queued submission of the sample session, claimed and sent.\<close>

lemma sample_sent:
  obtains a claim d2 pkg req where
    "queue_typed Submit (sample_env 200) sample_parse sample_ids sample_rr session_db session_db = Inr (a, submitted_db)" "\<not> ea_duplicate a"
    "claim_for_dispatch (sample_env 300) (ea_execution_id a) ''w1'' 60000 submitted_db = Inr (claim, d2)"
    "load_dispatch_package (ea_execution_id a) d2 = Inr pkg" "dp_language pkg = ''python''"
    "sandbox_request (lib (sample_env 200)) pkg = Inr req"
proof -
  obtain a where q: "queue_typed Submit (sample_env 200) sample_parse sample_ids sample_rr session_db session_db = Inr (a, submitted_db)"
    "\<not> ea_duplicate a"
    using submit_sample by (auto simp: queue_typed_def)
  have "\<exists>claim d2. claim_for_dispatch (sample_env 300) (ea_execution_id a) ''w1'' 60000 submitted_db = Inr (claim, d2)"
    by (simp add: claim_for_dispatch_def validate_lease_deadline_def sample_env_def Let_def split: option.split)
  then obtain claim d2 where c: "claim_for_dispatch (sample_env 300) (ea_execution_id a) ''w1'' 60000 submitted_db = Inr (claim, d2)"
    by blast
  obtain question runtime language profile obj pkg where p:
    "session_question (sample_env 200) (rr_session sample_rr) (rr_slug sample_rr) session_db = Inr (question, runtime)"
    "runtime_execution_config (lib (sample_env 200)) sample_parse question runtime (Submit = Run) = Inr (language, profile, JObj obj)"
    "load_dispatch_package (ea_execution_id a) d2 = Inr pkg" "dp_language pkg = language" "dp_input_payload pkg = obj"
    "dp_attempt_count pkg = 1"
    using queued_package [OF q session_db_exec_inv c] by metis
  have language: "dp_language pkg = ''python''" using p(2) config_sample [of 200 False] p(1) session_sample [of 200] p(4) by auto
  obtain tests where "dispatchable (lib (sample_env 200)) language (JObj obj) tests" using config_dispatchable [OF p(2)] .
  then obtain req where "sandbox_request (lib (sample_env 200)) pkg = Inr req"
    using dispatchable_request [of "lib (sample_env 200)" pkg tests] p(4-6) by auto
  then show thesis using that q c p(3) language by blast
qed

theorem runner_accepts_queued_request_witness:
  "\<exists>l text pkg req eid r. sandbox_request sample_lib pkg = Inr req \<and> json_loads l text = Some (JObj req) \<and>
     parse_request l (Some text) eid = Inr r \<and> rn_source_code r = ''s'' \<and> rn_invocation_mode r = ''auto'' \<and> length (rn_tests r) = 2"
proof -
  obtain a claim d2 pkg req where s:
    "queue_typed Submit (sample_env 200) sample_parse sample_ids sample_rr session_db session_db = Inr (a, submitted_db)" "\<not> ea_duplicate a"
    "claim_for_dispatch (sample_env 300) (ea_execution_id a) ''w1'' 60000 submitted_db = Inr (claim, d2)"
    "load_dispatch_package (ea_execution_id a) d2 = Inr pkg" "dp_language pkg = ''python''"
    "sandbox_request (lib (sample_env 200)) pkg = Inr req"
    by (rule sample_sent)
  let ?l = "sample_lib\<lparr>json_loads := (\<lambda>t. Some (JObj req))\<rparr>"
  have loads: "json_loads ?l ''in'' = Some (JObj req)" by simp
  obtain question name where question: "published_question_payload (rr_slug sample_rr) session_db = Inr question"
    and r: "let ts = sent_tests (lib (sample_env 200)) question (Submit = Run) in
     if rr_source_code sample_rr \<noteq> [] \<and> utf8_len (rr_source_code sample_rr) \<le> runner_source_bytes \<and> length ts \<le> runner_max_tests \<and>
       distinct (map rt_id ts) \<and> [] \<notin> set (map rt_id ts)
     then parse_request ?l (Some ''in'') (ea_execution_id a) = Inr \<lparr>rn_attempt = 1, rn_source_code = rr_source_code sample_rr,
       rn_entrypoint = name, rn_invocation_mode = ''auto'', rn_tests = ts\<rparr>
     else \<exists>msg. parse_request ?l (Some ''in'') (ea_execution_id a) = Inl (Exn RunnerInputErr msg)"
    using runner_accepts_queued_request [OF s(1,2) session_db_exec_inv s(3-6) loads] by metis
  have "question = sample_payload"
    using question session_question_Inr [OF session_sample [of 200]] by (metis sum.inject(2))
  then have "\<exists>r. parse_request ?l (Some ''in'') (ea_execution_id a) = Inr r \<and> rn_source_code r = ''s'' \<and>
      rn_invocation_mode r = ''auto'' \<and> length (rn_tests r) = 2"
    using r by (simp add: question_tests_sample Let_def sent_test_def sample_rr_def jget_Cons py_or_def runner_source_bytes_def
        runner_max_tests_def List.enumerate_eq_zip utf8_len_def)
  moreover have "lib (sample_env 200) = sample_lib" by (simp add: sample_env_def)
  ultimately show ?thesis using s(6) loads by metis
qed

definition sample_mode_package :: dispatch_package where
  "sample_mode_package = (sample_package 1)\<lparr>dp_input_payload := [(''invocation_mode'', JStr ''single_payload''),
     (''tests'', JList [JObj [(''id'', JStr ''a''), (''input'', JList [JInt 1])]])]\<rparr>"

theorem executors_disagree_on_invocation_witness:
  "\<exists>req r. sandbox_request sample_lib sample_mode_package = Inr req \<and>
     called_with (child_input r (JList [JInt 1])) = Inr (Positional [JInt 1]) \<and>
     called_with (vercel_child_input (python_request sample_lib sample_mode_package req) (JStr ''s'')
       [(''input'', JList [JInt 1])]) = Inr (Single (JList [JInt 1]))"
proof -
  obtain req where req: "sandbox_request sample_lib sample_mode_package = Inr req"
    and req': "req = [(''schema_version'', JInt 1), (''execution_id'', JStr (uuid_str 1)), (''attempt'', JInt 1),
      (''source_code'', JStr ''s''), (''tests'', JList [JObj [(''id'', JStr ''a''), (''input'', JList [JInt 1])]]),
      (''entrypoint'', JStr ''solve'')]"
    by (simp add: sandbox_request_def sample_mode_package_def sample_package_def object_list_def sanitize_test_def object_dict_def
        jget_def has_key_def py_or_def Let_def)
  let ?l = "sample_lib\<lparr>json_loads := (\<lambda>t. Some (JObj req))\<rparr>"
  have loads: "json_loads ?l ''in'' = Some (JObj req)" by simp
  have "\<exists>r. parse_request ?l (Some ''in'') 1 = Inr r"
    by (simp add: parse_request_def req' jget_Cons jget_default_def request_of_payload_def runner_source_bytes_def utf8_len_def
        is_identifier_def identifier_start_def member_of_def invocation_modes_def parse_test_list_def runner_max_tests_def
        has_key_def Let_def number_eq_def)
  then obtain r where r: "parse_request ?l (Some ''in'') 1 = Inr r" by blast
  have pkg: "dp_language sample_mode_package = ''python''"
    "jget (dp_input_payload sample_mode_package) ''invocation_mode'' = JStr ''single_payload''"
    by (simp_all add: sample_mode_package_def sample_package_def jget_Cons)
  have "jget [(''input'', JList [JInt 1])] ''input'' = JList [JInt 1]" by (simp add: jget_Cons)
  from executors_disagree_on_invocation [OF pkg req loads r this] req show ?thesis by blast
qed

text \<open>A request with one test, a child that answers 3, and the objects they lead to.\<close>

definition sample_run_payload :: jobj where
  "sample_run_payload = [(''schema_version'', JInt 1), (''execution_id'', JStr (uuid_str 1)), (''attempt'', JInt 1),
     (''source_code'', JStr ''s''), (''tests'', JList [JObj [(''id'', JStr ''a''), (''input'', JInt 1)]])]"

definition sample_run_result :: jobj where
  "sample_run_result = [(''schema_version'', JInt 1), (''attempt'', JInt 1), (''status'', JStr ''COMPLETED''), (''runtime_ms'', JInt 0),
     (''exit_code'', JInt 0),
     (''tests'', JList [JObj [(''id'', JStr ''a''), (''visibility'', JStr ''hidden''), (''ok'', JBool True), (''actual'', JInt 3),
       (''error_category'', JNull)]]), (''stdout'', JStr []), (''stderr'', JStr []),
     (''stdout_truncated'', JBool False), (''stderr_truncated'', JBool False)]"

definition sample_run_object :: jobj where
  "sample_run_object = sample_run_result @ [(''execution_id'', JStr (uuid_str 1))]"

definition sample_refused_object :: jobj where
  "sample_refused_object = refused_result 0 2 ''RunnerInputError'' @ [(''execution_id'', JStr (uuid_str 1))]"

definition sample_run_lib :: pylib where
  "sample_run_lib = sample_lib\<lparr>json_loads := (\<lambda>t. if t = ''in'' then Some (JObj sample_run_payload)
     else if t = ''ok'' then Some (JObj [(''ok'', JBool True), (''actual'', JInt 3)])
     else if t = json_dumps sample_lib False False (JObj sample_run_object) then Some (JObj sample_run_object)
     else if t = json_dumps sample_lib False False (JObj sample_refused_object) then Some (JObj sample_refused_object) else None)\<rparr>"

definition sample_host :: runner_host where
  "sample_host = \<lparr>rh_process = (\<lambda>n p t. Exited ''RIGOR_RESULT:ok'' [] 0), rh_decode = (\<lambda>b. b), rh_clock = (\<lambda>n. 0)\<rparr>"

definition sample_runner_args :: "string \<Rightarrow> runner_args" where
  "sample_runner_args input = \<lparr>ra_execution_id = uuid_str 1, ra_input = Some input, ra_timeout_seconds = 1\<rparr>"

lemma json_dumps_lib: "json_dumps (l\<lparr>json_loads := f\<rparr>) ascii by_key v = json_dumps l ascii by_key v"
proof (induction v)
  case (JFloat f)
  then show ?case by (cases f) simp_all
next
  case (JList xs)
  then show ?case by (simp cong: map_cong)
next
  case (JObj d)
  then have eq: "map (map_prod id (json_dumps (l\<lparr>json_loads := f\<rparr>) ascii by_key)) d = map (map_prod id (json_dumps l ascii by_key)) d"
    by (auto intro!: map_cong)
  show ?case by (simp only: json_dumps.simps eq)
qed simp_all

lemma sample_uuid: "uuid_str 1 = ''00000000-0000-0000-0000-000000000001''"
proof -
  have digits: "[0..<32] = [0, 1, 2, 3, 4, 5, 6, 7, 8, 9, 10, 11, 12, 13, 14, 15, 16, 17, 18, 19, 20, 21, 22, 23, 24, 25, 26,
      27, 28, 29, 30, 31::nat]"
    by (simp add: upt_conv_Cons)
  have "uuid_hex 1 = ''00000000000000000000000000000001''"
    unfolding uuid_hex_def digits by (simp add: digit_char_def)
  then show ?thesis by (simp add: uuid_str_def Let_def)
qed

lemma small_numbers: "int_str 0 = ''0''" "int_str 1 = ''1''" "int_str 2 = ''2''" "int_str 3 = ''3''"
  by (simp_all add: int_str_def nat_str.simps digit_char_def)

lemma sample_readable:
  "log_readable sample_run_lib [] sample_run_object [CHR 0x0A]"
  "log_readable sample_run_lib [] sample_refused_object [CHR 0x0A]"
proof -
  have plain: "plain_floats sample_run_lib" by (simp add: plain_floats_def sample_run_lib_def sample_lib_def no_break_high)
  have dumps: "json_dumps sample_run_lib False False v = json_dumps sample_lib False False v" for v
    by (simp add: sample_run_lib_def json_dumps_lib)
  have parts: "CHR 0x85 \<notin> set (json_dumps sample_lib False False (JObj sample_run_object))"
    "CHR 0x85 \<notin> set (json_dumps sample_lib False False (JObj sample_refused_object))"
    "utf8_len (result_log sample_lib [] sample_run_object [CHR 0x0A]) \<le> max_result_log_bytes"
    "utf8_len (result_log sample_lib [] sample_refused_object [CHR 0x0A]) \<le> max_result_log_bytes"
    "json_dumps sample_lib False False (JObj sample_refused_object) \<noteq> json_dumps sample_lib False False (JObj sample_run_object)"
    by (simp_all add: sample_run_object_def sample_run_result_def sample_refused_object_def refused_result_def result_log_def result_prefix_def
        json_str_def esc_char_def join_def Let_def sample_uuid small_numbers utf8_len_def max_result_log_bytes_def)
  have log: "result_log sample_run_lib [] v e = result_log sample_lib [] v e" for v e
    by (simp only: result_log_def dumps)
  show "log_readable sample_run_lib [] sample_run_object [CHR 0x0A]" "log_readable sample_run_lib [] sample_refused_object [CHR 0x0A]"
    using plain parts unfolding log_readable_def dumps log by (simp_all add: sample_run_lib_def)
qed

lemma sample_run_request:
  "parse_request sample_run_lib (Some ''in'') 1 = Inr \<lparr>rn_attempt = 1, rn_source_code = ''s'', rn_entrypoint = ''solve'',
     rn_invocation_mode = ''auto'', rn_tests = [\<lparr>rt_id = ''a'', rt_visibility = ''hidden'', rt_input = JInt 1\<rparr>]\<rparr>"
  by (simp add: parse_request_def sample_run_payload_def sample_run_lib_def jget_Cons jget_default_def request_of_payload_def
      runner_source_bytes_def utf8_len_def is_identifier_def identifier_start_def member_of_def invocation_modes_def
      parse_test_list_def runner_max_tests_def has_key_def Let_def number_eq_def)

lemma sample_run_final:
  "python_run_request sample_run_lib sample_host 1 \<lparr>rn_attempt = 1, rn_source_code = ''s'', rn_entrypoint = ''solve'',
     rn_invocation_mode = ''auto'', rn_tests = [\<lparr>rt_id = ''a'', rt_visibility = ''hidden'', rt_input = JInt 1\<rparr>]\<rparr> = sample_run_result"
proof -
  have protocol: "parse_child_protocol sample_run_lib (read_bounded sample_host ''RIGOR_RESULT:ok'') =
      Some [(''ok'', JBool True), (''actual'', JInt 3)]"
    by (simp add: parse_child_protocol_def read_bounded_def sample_host_def runner_stream_bytes_def splitlines_def is_line_break_def
        starts_with_def child_prefix_def sample_run_lib_def)
  have "fl 1 = 1" using fl_of_int [of 1] by simp
  then show ?thesis
    by (simp add: python_run_request_def Let_def sample_host_def sample_run_result_def execute_test_def after_test_def test_result_def
        jget_def fadd_def fmul_def protocol [unfolded sample_host_def])
qed

theorem python_result_is_accepted_witness:
  "\<exists>line s. python_runner_main sample_run_lib (\<lambda>t. Some 1) sample_host (sample_runner_args ''in'') = Inr (line, 0) \<and>
     parse_runner_result sample_run_lib line 1 (Some 1) = Inr s \<and> sx_status s = ''COMPLETED'' \<and> length (sx_tests s) = 1"
proof -
  let ?line = "result_line sample_run_lib (uuid_str 1) sample_run_result"
  have main: "python_runner_main sample_run_lib (\<lambda>t. Some 1) sample_host (sample_runner_args ''in'') = Inr (?line, 0)"
    using sample_run_request sample_run_final
    by (simp add: python_runner_main_def sample_runner_args_def Let_def sample_run_result_def jget_Cons)
  have readable: "line_readable sample_run_lib [] sample_run_object" "utf8_len ?line \<le> 256 * 1024"
    using sample_readable(1)
    by (simp_all add: log_readable_iff result_line_log sample_run_object_def max_result_log_bytes_def)
  show ?thesis
    using python_result_is_accepted [of "\<lambda>t. Some 1" "sample_runner_args ''in''" 1 sample_run_lib _ sample_host "[]"]
      sample_run_request sample_run_final main readable
    by (fastforce simp: sample_runner_args_def sample_host_def sample_run_object_def)
qed

definition sample_sql_payload :: jobj where
  "sample_sql_payload = [(''schema_version'', JInt 1), (''execution_id'', JStr (uuid_str 1)), (''attempt'', JInt 1),
     (''source_code'', JStr ''q''), (''schema_sql'', JStr ''d''), (''statement_timeout_ms'', JInt 1000),
     (''tests'', JList [JObj [(''id'', JStr ''a''), (''visibility'', JStr ''public'')]])]"

definition sample_sql_result :: jobj where
  "sample_sql_result = [(''schema_version'', JInt 1), (''attempt'', JInt 1), (''status'', JStr ''COMPLETED''), (''runtime_ms'', JInt 0),
     (''exit_code'', JInt 0),
     (''tests'', JList [JObj [(''id'', JStr ''a''), (''visibility'', JStr ''public''), (''ok'', JBool True),
       (''actual'', JObj [(''columns'', JList [JStr ''n'']), (''rows'', JList [JList [JInt 1]])]), (''error_category'', JNull)]]),
     (''stdout'', JStr []), (''stderr'', JStr []), (''error_category'', JNull)]"

abbreviation sample_sql_object :: jobj where
  "sample_sql_object \<equiv> sample_sql_result @ [(''execution_id'', JStr (uuid_str 1))]"

definition sample_sql_lib :: pylib where
  "sample_sql_lib = sample_lib\<lparr>json_loads := (\<lambda>t. if t = ''in'' then Some (JObj sample_sql_payload)
     else Some (JObj sample_sql_object))\<rparr>"

definition sample_server :: "unit sql_server" where
  "sample_server = \<lparr>sv_wait = (\<lambda>s. (Inr (), s)), sv_role_exists = (\<lambda>n s. Inr False), sv_execute = (\<lambda>t s. (Inr (), s)),
     sv_query = (\<lambda>a b c t s. (Rows [''n''] [[S_Int 1]], s)), sv_literal = (\<lambda>t. t)\<rparr>"

definition sample_sql_config :: sql_config where
  "sample_sql_config = \<lparr>sc_owner_password = ''o'', sc_candidate_password = ''c'', sc_candidate_user = ''u'', sc_database = ''p''\<rparr>"

definition sample_sql_request :: sql_request where
  "sample_sql_request = \<lparr>sy_attempt = 1, sy_source_code = ''q'', sy_schema_sql = ''d'', sy_seed_sql = [],
     sy_statement_timeout_ms = 1000, sy_lock_timeout_ms = 1000, sy_idle_timeout_ms = 2000,
     sy_tests = [\<lparr>sq_id = ''a'', sq_visibility = ''public'', sq_fixture = \<lparr>sf_schema_sql = None, sf_seed_sql = None,
       sf_setup_sql = []\<rparr>\<rparr>]\<rparr>"

lemma sample_sql_parsed: "sql_parse_request sample_sql_lib (Some ''in'') 1 = Inr sample_sql_request"
  by (simp add: sql_parse_request_def sql_request_bytes_def utf8_len_def sample_sql_lib_def sample_sql_payload_def jget_def
      number_eq_def sql_request_of_payload_def sql_positive_int_def sql_required_string_def strip_def is_space_def
      sql_source_bytes_def sql_setup_bytes_def sql_optional_string_def sql_max_tests_def jget_default_def member_of_def
      has_key_def test_fixture_def sample_sql_request_def Let_def)

lemma execute_all_sample: "execute_all sample_server stmts s = (Inr (), s)"
  by (induction stmts) (simp_all add: sample_server_def)

lemma sample_sql_ran:
  "sql_run_request sample_sql_lib sample_server sample_sql_config 0 0 sample_sql_request () = (Inr sample_sql_result, ())"
proof -
  have rows: "utf8_len (json_dumps sample_sql_lib False False (JObj [(''columns'', JList [JStr ''n'']), (''rows'', JList [JList [JInt 1]])]))
      \<le> sql_result_bytes"
    by (simp add: json_str_def esc_char_def join_def Let_def small_numbers utf8_len_def sql_result_bytes_def)
  then have outcome: "query_outcome_of sample_sql_lib (Rows [''n''] [[S_Int 1]]) = \<lparr>qo_ok = True,
      qo_actual = JObj [(''columns'', JList [JStr ''n'']), (''rows'', JList [JList [JInt 1]])], qo_category = None\<rparr>"
    unfolding query_outcome_of_def bounded_rows_def by (simp add: sql_max_rows_def)
  have fixture: "reset_fixture sample_server sample_sql_config a b c () = (Inr (), ())" for a b c
    by (simp add: reset_fixture_def execute_all_sample) (simp add: sample_sql_config_def)
  have role: "ensure_candidate_role sample_server sample_sql_config () = (Inr (), ())"
    by (simp add: ensure_candidate_role_def execute_all_sample Let_def) (simp add: sample_sql_config_def sample_server_def)
  have query: "execute_candidate_query sample_sql_lib sample_server sample_sql_config t ms () =
      (Inr (query_outcome_of sample_sql_lib (Rows [''n''] [[S_Int 1]])), ())" for t ms
    by (simp add: execute_candidate_query_def sample_server_def sample_sql_config_def)
  have "sc_owner_password sample_sql_config \<noteq> []" "sv_wait sample_server () = (Inr (), ())"
    by (simp_all add: sample_sql_config_def sample_server_def)
  then show ?thesis
    by (simp add: sql_run_request_def role sample_sql_request_def fixture query outcome sql_test_result_def sql_result_def
        sample_sql_result_def fadd_def fmul_def string_json_def)
qed

lemma sample_sql_readable: "log_readable sample_sql_lib [] sample_sql_object [CHR 0x0A]"
proof -
  have parts: "CHR 0x85 \<notin> set (json_dumps sample_lib False False (JObj sample_sql_object))"
    "utf8_len (result_log sample_lib [] sample_sql_object [CHR 0x0A]) \<le> max_result_log_bytes"
    "json_dumps sample_lib False False (JObj sample_sql_object) \<noteq> ''in''"
    by (simp_all add: sample_sql_result_def result_log_def result_prefix_def
        json_str_def esc_char_def join_def Let_def sample_uuid small_numbers utf8_len_def max_result_log_bytes_def)
  have dumps: "json_dumps sample_sql_lib False False v = json_dumps sample_lib False False v" for v
    by (simp add: sample_sql_lib_def json_dumps_lib)
  have log: "result_log sample_sql_lib [] v e = result_log sample_lib [] v e" for v e
    by (simp only: result_log_def dumps)
  have "plain_floats sample_sql_lib" by (simp add: plain_floats_def sample_sql_lib_def sample_lib_def no_break_high)
  then show ?thesis using parts unfolding log_readable_def dumps log by (simp add: sample_sql_lib_def)
qed

theorem sql_result_is_accepted_witness:
  "\<exists>line x. sql_runner_main sample_sql_lib (\<lambda>t. Some 1) sample_server sample_sql_config 0 0 (uuid_str 1) (Some ''in'') () =
       (Inr (line, 0), ()) \<and>
     parse_runner_result sample_sql_lib line 1 (Some 1) = Inr x \<and> sx_status x = ''COMPLETED'' \<and> length (sx_tests x) = 1"
proof -
  let ?line = "result_line sample_sql_lib (uuid_str 1) sample_sql_result"
  have main: "sql_runner_main sample_sql_lib (\<lambda>t. Some 1) sample_server sample_sql_config 0 0 (uuid_str 1) (Some ''in'') () =
      (Inr (?line, 0), ())"
    by (simp add: sql_runner_main_def sample_sql_parsed sample_sql_ran) (simp add: sample_sql_result_def jget_Cons)
  have readable: "line_readable sample_sql_lib [] sample_sql_object" "utf8_len ?line \<le> 256 * 1024"
    using sample_sql_readable by (simp_all add: log_readable_iff result_line_log max_result_log_bytes_def)
  show ?thesis
    using sql_result_is_accepted [of "\<lambda>t. Some 1" "uuid_str 1" 1, OF refl refl sample_sql_parsed sample_sql_ran order_refl readable(1)]
      main readable(2) by (fastforce simp: sample_sql_request_def)
qed

theorem refused_input_is_untrusted_witness:
  "\<exists>line msg. python_runner_main sample_run_lib (\<lambda>t. Some 1) sample_host (sample_runner_args ''other'') = Inr (line, 1) \<and>
     parse_runner_result sample_run_lib line 1 (Some 1) = Inl (Exn TrustedResultErr msg)"
proof -
  have refused: "parse_request sample_run_lib (Some ''other'') 1 = runner_err ''Execution input is unavailable or invalid JSON.''"
    by (simp add: parse_request_def sample_run_lib_def)
  show ?thesis
    using refused_input_is_untrusted [of "\<lambda>t. Some 1" "sample_runner_args ''other''" 1 sample_run_lib "[]" sample_host 1]
      refused sample_readable(2) by (simp add: sample_runner_args_def sample_refused_object_def)
qed

end
