(* ===== verification/Vercel_Guarantees.thy ===== *)
theory Vercel_Guarantees imports Runner_Guarantees begin

text \<open>
  The hosted executor: a dispatch moves the execution plane only by its own steps, and a request it
  has claimed does not stay behind.
\<close>

section \<open>Steps of the plane\<close>

abbreviation others_are_steps :: "vercel_site \<Rightarrow> bool" where
  "others_are_steps v \<equiv> \<forall>n d. exec_step\<^sup>*\<^sup>* d (vs_others v n d)"

lemma vercel_commit_steps:
  assumes "others_are_steps v" "vercel_commit v n body d = (r, d')"
    "\<And>e d a d'. body e d = Inr (a, d') \<Longrightarrow> exec_step\<^sup>*\<^sup>* d d'"
  shows "exec_step\<^sup>*\<^sup>* d d'"
proof -
  have o: "exec_step\<^sup>*\<^sup>* d (vs_others v n d)" using assms(1) by blast
  show ?thesis
    using assms(2) o rtranclp_trans [OF o assms(3)]
    by (auto simp: vercel_commit_def Let_def split: sum.splits)
qed

lemma vercel_claim_steps: "vercel_claim v eid e d = Inr (x, d') \<Longrightarrow> exec_step\<^sup>*\<^sup>* d d'"
  by (auto simp: vercel_claim_def res_bind_Inr_iff split: option.splits intro: step_claim)

lemma vercel_persist_steps:
  assumes "is_terminal (tp_execution_status p)" "vercel_persist v pkg p e d = Inr (x, d')"
  shows "exec_step\<^sup>*\<^sup>* d d'"
  using assms(2) by (auto simp: vercel_persist_def res_bind_Inr_iff split: if_splits intro: store_projection_steps [OF assms(1)])

lemma vercel_store_steps:
  assumes o: "others_are_steps v" and run: "vercel_store v pkg logs d = (r, d')"
  shows "exec_step\<^sup>*\<^sup>* d d'"
proof (cases "parse_runner_result (lib (vs_env v 2)) logs (dp_execution_id pkg) (Some (dp_attempt_count pkg))")
  case (Inl x)
  then show ?thesis using run by (simp add: vercel_store_def)
next
  case (Inr result)
  obtain c d1 where c: "vercel_commit v 2 (\<lambda>e d. res_bind (load_expected_tests (lib e) (dp_question_version_id pkg) d)
      (\<lambda>expected. Inr (expected, d))) d = (c, d1)" by (rule prod.exhaust)
  have first: "exec_step\<^sup>*\<^sup>* d d1" by (rule vercel_commit_steps [OF o c]) (auto simp: res_bind_Inr_iff)
  have "exec_step\<^sup>*\<^sup>* d1 d'"
    using run Inr c
    by (auto simp: vercel_store_def split: sum.splits
        intro: vercel_commit_steps [OF o _ vercel_persist_steps [OF trusted_compare_terminal]])
  with first show ?thesis by (rule rtranclp_trans)
qed

lemma vercel_execute_steps:
  assumes o: "others_are_steps v" and run: "vercel_execute v pkg d = (r, d')"
  shows "exec_step\<^sup>*\<^sup>* d d'"
proof (cases "res_bind (sandbox_request (lib (vs_env v 1)) pkg) (run_in_vm v (lib (vs_env v 1)) pkg)")
  case (Inl x)
  then show ?thesis using run by (simp add: vercel_execute_def)
next
  case (Inr logs)
  obtain c d1 where c: "vercel_commit v 1 (\<lambda>e d. Inr (mark_running e (dp_execution_id pkg) (vercel_worker v) ''vercel-sandbox''
      (''vercel-'' @ uuid_str (dp_execution_id pkg)) d)) d = (c, d1)" by (rule prod.exhaust)
  have first: "exec_step\<^sup>*\<^sup>* d d1" by (rule vercel_commit_steps [OF o c]) (auto intro: step_running)
  have "exec_step\<^sup>*\<^sup>* d1 d'"
    using run Inr c vercel_store_steps [OF o] by (auto simp: vercel_execute_def split: sum.splits if_splits)
  with first show ?thesis by (rule rtranclp_trans)
qed

lemma dispatch_steps:
  assumes o: "others_are_steps v" and run: "dispatch_vercel_execution v eid d = (r, d')"
  shows "exec_step\<^sup>*\<^sup>* d d'"
proof (cases "vs_enabled v")
  case False
  then show ?thesis using run by (simp add: dispatch_vercel_execution_def)
next
  case True
  obtain c d1 where c: "vercel_commit v 0 (vercel_claim v eid) d = (c, d1)" by (rule prod.exhaust)
  have first: "exec_step\<^sup>*\<^sup>* d d1" by (rule vercel_commit_steps [OF o c]) (rule vercel_claim_steps)
  show ?thesis
  proof (cases "\<exists>pkg. c = Inr (Some pkg)")
    case False
    then show ?thesis using run c True first by (auto simp: dispatch_vercel_execution_def split: sum.splits option.splits)
  next
    case 2: True
    then obtain pkg where pkg: "c = Inr (Some pkg)" by blast
    obtain x d2 where x: "vercel_execute v pkg d1 = (x, d2)" by (rule prod.exhaust)
    have infra: "is_terminal (tp_execution_status infrastructure_projection)" by (simp add: infrastructure_projection_def)
    have "exec_step\<^sup>*\<^sup>* d2 d'"
      using run c pkg x True
      by (auto simp: dispatch_vercel_execution_def split: sum.splits if_splits
          intro: vercel_commit_steps [OF o _ vercel_persist_steps [OF infra]])
    then show ?thesis using first vercel_execute_steps [OF o x] by (meson rtranclp_trans)
  qed
qed

section \<open>A claimed request settles\<close>

text \<open>The request of a package in a status, under the lease of its claim.\<close>

definition held :: "vercel_site \<Rightarrow> dispatch_package \<Rightarrow> execution_status \<Rightarrow> db \<Rightarrow> bool" where
  "held v pkg s d \<longleftrightarrow> exec_inv d \<and> 1 \<le> dp_attempt_count pkg \<and> (\<exists>r. request_of (dp_execution_id pkg) d = Some r \<and>
     rq_state r = pg_state s \<and> rq_lease_owner r = Some (vercel_worker v) \<and>
     rq_lease_expires_at r = Some (vercel_lease v) \<and> rq_attempt_count r = dp_attempt_count pkg)"

definition settled :: "uuid \<Rightarrow> db \<Rightarrow> bool" where
  "settled eid d \<longleftrightarrow> (\<exists>r. request_of eid d = Some r \<and> terminal_state (rq_state r))"

lemma claim_holds:
  assumes "exec_inv d" "vercel_claim v eid (vs_env v 0) d = Inr (Some pkg, d')"
  shows "held v pkg Dispatching d' \<and> dp_execution_id pkg = eid"
proof -
  obtain c where c: "claim_for_dispatch (vs_env v 0) eid (vercel_worker v) (vercel_lease v) d = Inr (Some c, d')"
    and pkg: "load_dispatch_package eid d' = Inr pkg"
    using assms(2) by (auto simp: vercel_claim_def res_bind_Inr_iff split: option.splits)
  obtain r where r: "request_of eid d = Some r" "request_of eid d' = Some (claim_row (vs_env v 0) (vercel_worker v) (vercel_lease v) r)"
    using claimed_row [OF assms(1) c] by metis
  have "0 \<le> rq_attempt_count r" using exec_inv_request(2) [OF assms(1) r(1)] by (simp add: row_ok_def)
  moreover have "dp_execution_id pkg = eid" "dp_attempt_count pkg = rq_attempt_count r + 1"
    using pkg r(2) row_with_SomeD [OF r(1)]
    by (auto simp: load_dispatch_package_def split: option.splits)
  ultimately show ?thesis using r(2) claim_inv [OF assms(1) c] by (simp add: held_def)
qed

lemma running_holds:
  assumes "held v pkg Dispatching d" "db_now e < vercel_lease v"
    "mark_running e (dp_execution_id pkg) (vercel_worker v) ns job d = (marked, d')"
  shows "marked \<and> held v pkg Running d'"
proof -
  have inv: "exec_inv d" using assms(1) by (simp add: held_def)
  obtain r where r: "request_of (dp_execution_id pkg) d = Some r" "running_guard e (dp_execution_id pkg) (vercel_worker v) r"
    "rq_attempt_count r = dp_attempt_count pkg" "rq_lease_expires_at r = Some (vercel_lease v)"
    using assms(1,2) row_with_SomeD [of rq_id] by (auto simp: held_def running_guard_def sql_gt_def)
  have found: "find (running_guard e (dp_execution_id pkg) (vercel_worker v)) (requests d) = Some r"
    using find_guarded_request [OF inv, of "running_guard e (dp_execution_id pkg) (vercel_worker v)"] r(1,2)
    by (auto simp: running_guard_def)
  show ?thesis
    using inv assms(3)
  proof (cases rule: mark_running_cases)
    case lost
    then show ?thesis using assms(3) found by (simp add: mark_running_def Let_def)
  next
    case (running r' det)
    have "request_of (dp_execution_id pkg) d' = Some (running_row e ns job r)"
      using running(4) r(1,2) by (simp add: row_with_update_where running_row_def)
    then show ?thesis
      using running(1) mark_running_inv [OF inv assms(3)] assms(1) r by (simp add: held_def running_row_def running_guard_def)
  qed
qed

lemma persist_settles:
  assumes "held v pkg s d" "s \<in> {Dispatching, Running}" "tp_execution_status p \<in> set (legal_execution_transitions s)"
    "is_terminal (tp_execution_status p)" "db_now e < vercel_lease v"
  shows "\<exists>d'. vercel_persist v pkg p e d = (if vs_evidence_fails v pkg p e d'
      then Inl (Exn IntegrityErr ''candidate_competency_evidence'') else Inr ((), d')) \<and> settled (dp_execution_id pkg) d'"
proof -
  let ?eid = "dp_execution_id pkg"
  have inv: "exec_inv d" and attempt: "1 \<le> dp_attempt_count pkg" using assms(1) by (simp_all add: held_def)
  obtain r where r: "request_of ?eid d = Some r" "rq_state r = pg_state s" "rq_lease_owner r = Some (vercel_worker v)"
    "rq_lease_expires_at r = Some (vercel_lease v)" "rq_attempt_count r = dp_attempt_count pkg"
    using assms(1) by (auto simp: held_def)
  then have owned: "owned_guard e ?eid (vercel_worker v) r"
    using row_with_SomeD [OF r(1)] assms(2,5) by (auto simp: owned_guard_def)
  have locked: "lock_owned_attempt e ?eid (vercel_worker v) (dp_attempt_count pkg) d"
    using find_guarded_request [OF inv, of "\<lambda>x. owned_guard e ?eid (vercel_worker v) x \<and> rq_attempt_count x = dp_attempt_count pkg" ?eid r]
      r(1,5) owned attempt by (auto simp: lock_owned_attempt_def owned_guard_def)
  obtain snap where snap: "get_execution ?eid d = Inr snap" "es_status snap = s"
    using get_execution_status [OF inv r(1,2)] .
  have "\<not> is_terminal s" using assms(2) by (auto simp: terminal_execution_statuses_def)
  moreover obtain snap' d1 where "transition e ?eid (tp_execution_status p) (projection_details p) None None d = Inr (snap', d1)"
    using transition_succeeds_iff [OF inv] r(1,2) assms(3) by metis
  ultimately obtain st d2 where stored: "persist_terminal_result e ?eid p d d = Inr (st, d2)"
    using snap by (auto simp: persist_terminal_result_def)
  obtain r' where r': "request_of ?eid d2 = Some r'" "rq_state r' = pg_state st" "is_terminal st"
    using persist_terminal_result_state [OF inv assms(4) stored] .
  then have settled: "settled ?eid d2" using terminal_pg_state [of st] by (simp add: settled_def)
  let ?d3 = "if st = tp_execution_status p then finalize_submission e (vs_ast v) pkg p d2 else d2"
  have "settled ?eid ?d3" using settled by (simp add: settled_def)
  moreover have "store_projection (vs_ast v) pkg p e d = Inr (True, ?d3)" using stored by (simp add: store_projection_def)
  ultimately show ?thesis
    using locked by (intro exI [of _ ?d3]) (simp add: vercel_persist_def)
qed

lemma outcome_reachable: "is_terminal t \<Longrightarrow> t \<noteq> Cancelled \<Longrightarrow> t \<in> set (legal_execution_transitions Running)"
  by (cases t) (simp_all add: terminal_execution_statuses_def)

lemma trusted_not_cancelled: "trusted_compare l s E = Inr p \<Longrightarrow> tp_execution_status p \<noteq> Cancelled"
  using trusted_compare_InrD(1) [of l s E p] by simp

abbreviation undisturbed :: "vercel_site \<Rightarrow> bool" where
  "undisturbed v \<equiv> (\<forall>n d. vs_others v n d = d) \<and> (\<forall>n. db_now (vs_env v n) < vercel_lease v)"

lemma store_settles:
  assumes "undisturbed v" "held v pkg Running d" "vercel_store v pkg logs d = (r, d')"
  shows "if isl r then held v pkg Running d' else settled (dp_execution_id pkg) d'"
proof (cases "parse_runner_result (lib (vs_env v 2)) logs (dp_execution_id pkg) (Some (dp_attempt_count pkg))")
  case (Inl x)
  then show ?thesis using assms(2,3) by (auto simp: vercel_store_def)
next
  case (Inr result)
  show ?thesis
  proof (cases "res_bind (load_expected_tests (lib (vs_env v 2)) (dp_question_version_id pkg) d)
      (trusted_compare (lib (vs_env v 2)) result)")
    case (Inl x)
    then show ?thesis
      using assms Inr by (auto simp: vercel_store_def vercel_commit_def Let_def res_bind_def split: sum.splits)
  next
    case p: (Inr p)
    then obtain expected where p': "trusted_compare (lib (vs_env v 2)) result expected = Inr p" by (auto simp: res_bind_Inr_iff)
    note t = trusted_compare_terminal [OF p'] outcome_reachable [OF trusted_compare_terminal [OF p'] trusted_not_cancelled [OF p']]
    obtain d2 where "vercel_persist v pkg p (vs_env v 3) d = (if vs_evidence_fails v pkg p (vs_env v 3) d2
        then Inl (Exn IntegrityErr ''candidate_competency_evidence'') else Inr ((), d2))" "settled (dp_execution_id pkg) d2"
      using persist_settles [OF assms(2) _ t(2,1), of "vs_env v 3"] assms(1) by auto
    then show ?thesis
      using assms Inr p by (auto simp: vercel_store_def vercel_commit_def Let_def res_bind_Inr_iff split: if_splits)
  qed
qed

lemma execute_settles:
  assumes "undisturbed v" "held v pkg Dispatching d" "vercel_execute v pkg d = (r, d')"
  shows "if isl r then \<exists>s\<in>{Dispatching, Running}. held v pkg s d' else settled (dp_execution_id pkg) d'"
proof (cases "res_bind (sandbox_request (lib (vs_env v 1)) pkg) (run_in_vm v (lib (vs_env v 1)) pkg)")
  case (Inl x)
  then show ?thesis using assms(2,3) by (auto simp: vercel_execute_def)
next
  case (Inr logs)
  obtain marked d1 where m: "mark_running (vs_env v 1) (dp_execution_id pkg) (vercel_worker v) ''vercel-sandbox''
      (''vercel-'' @ uuid_str (dp_execution_id pkg)) d = (marked, d1)" by (rule prod.exhaust)
  have run: "marked" "held v pkg Running d1" using running_holds [OF assms(2) _ m] assms(1) by blast+
  have "vercel_execute v pkg d = vercel_store v pkg logs d1"
    using assms(1) Inr m run(1) by (simp add: vercel_execute_def vercel_commit_def Let_def)
  then have "vercel_store v pkg logs d1 = (r, d')" using assms(3) by simp
  from store_settles [OF assms(1) run(2) this] show ?thesis by (auto split: if_splits)
qed

lemma handled_failure_settles:
  assumes "undisturbed v" "vs_enabled v" "vercel_claim v eid (vs_env v 0) d = Inr (Some pkg, d1)" "dp_execution_id pkg = eid"
    "vercel_execute v pkg d1 = (Inl x, d2)" "vercel_handled x" "held v pkg s d2" "s \<in> {Dispatching, Running}"
  shows "\<exists>d3. dispatch_vercel_execution v eid d =
      (if vs_evidence_fails v pkg infrastructure_projection (vs_env v 4) d3
       then (Inl (Exn IntegrityErr ''candidate_competency_evidence''), d2) else (Inr (), d3)) \<and> settled eid d3"
proof -
  have "tp_execution_status infrastructure_projection \<in> set (legal_execution_transitions s)"
    "is_terminal (tp_execution_status infrastructure_projection)"
    using assms(8) by (auto simp: infrastructure_projection_def failure_projection_def terminal_execution_statuses_def)
  then obtain d3 where "vercel_persist v pkg infrastructure_projection (vs_env v 4) d2 =
      (if vs_evidence_fails v pkg infrastructure_projection (vs_env v 4) d3
       then Inl (Exn IntegrityErr ''candidate_competency_evidence'') else Inr ((), d3))" "settled eid d3"
    using persist_settles [OF assms(7,8)] assms(1,4) by blast
  then show ?thesis
    using assms(1-3,5,6) by (intro exI [of _ d3]) (simp add: dispatch_vercel_execution_def vercel_commit_def)
qed

text \<open>C39: A request claimed by the hosted executor does not stay behind: when no other session
  interferes and the lease has not run out, dispatch_vercel_execution leaves the execution terminal,
  whatever the VM and the runner do, except when an exception escapes that it does not handle (the
  violation of a constraint by the competency evidence it writes among them).
\<close>

theorem vercel_dispatch_settles:
  assumes "reachable d" "vs_enabled v" "\<forall>n d. vs_others v n d = d" "\<forall>n. db_now (vs_env v n) < vercel_lease v"
    "vercel_claim v eid (vs_env v 0) d = Inr (Some pkg, d1)" "dispatch_vercel_execution v eid d = (r, d')"
  shows "settled eid d' \<or> (\<exists>x. r = Inl x \<and> \<not> vercel_handled x)"
proof -
  note quiet = conjI [OF assms(3,4)]
  have held: "held v pkg Dispatching d1" "dp_execution_id pkg = eid"
    using claim_holds [OF _ assms(5)] reachable_inv [OF assms(1)] by simp_all
  have claim: "vercel_commit v 0 (vercel_claim v eid) d = (Inr (Some pkg), d1)"
    using assms(3,5) by (simp add: vercel_commit_def)
  obtain x d2 where x: "vercel_execute v pkg d1 = (x, d2)" by (rule prod.exhaust)
  show ?thesis
  proof (cases x)
    case (Inr u)
    then show ?thesis
      using execute_settles [OF quiet held(1) x] assms(2,6) claim x held(2) by (simp add: dispatch_vercel_execution_def)
  next
    case (Inl y)
    show ?thesis
    proof (cases "vercel_handled y")
      case False
      then show ?thesis using assms(2,6) claim x Inl by (auto simp: dispatch_vercel_execution_def)
    next
      case True
      obtain s where s: "s \<in> {Dispatching, Running}" "held v pkg s d2"
        using execute_settles [OF quiet held(1) x] Inl by auto
      obtain d3 where "dispatch_vercel_execution v eid d =
          (if vs_evidence_fails v pkg infrastructure_projection (vs_env v 4) d3
           then (Inl (Exn IntegrityErr ''candidate_competency_evidence''), d2) else (Inr (), d3))" "settled eid d3"
        using handled_failure_settles [OF quiet assms(2,5) held(2) x [unfolded Inl] True s(2,1)] by blast
      then show ?thesis using assms(6) by (auto simp: vercel_handled_def split: if_splits)
    qed
  qed
qed

text \<open>C40: When the lease has run out by the time the VM has answered, the dispatch returns without
  an error, drops the answer and leaves the execution DISPATCHING.
\<close>

theorem late_vercel_run_is_dropped:
  assumes "reachable d" "vs_enabled v" "\<forall>n d. vs_others v n d = d" "vercel_lease v \<le> db_now (vs_env v 1)"
    "vercel_claim v eid (vs_env v 0) d = Inr (Some pkg, d1)"
    "sandbox_request (lib (vs_env v 1)) pkg = Inr payload" "run_in_vm v (lib (vs_env v 1)) pkg payload = Inr logs"
  shows "dispatch_vercel_execution v eid d = (Inr (), d1) \<and> \<not> settled eid d1 \<and>
    (\<exists>r. request_of eid d1 = Some r \<and> rq_state r = PG_DISPATCHING)"
proof -
  have held: "held v pkg Dispatching d1" "dp_execution_id pkg = eid"
    using claim_holds [OF _ assms(5)] reachable_inv [OF assms(1)] by simp_all
  then have inv: "exec_inv d1" by (simp add: held_def)
  obtain r where r: "request_of eid d1 = Some r" "rq_state r = PG_DISPATCHING" "rq_lease_expires_at r = Some (vercel_lease v)"
    using held by (auto simp: held_def)
  obtain marked d2 where m: "mark_running (vs_env v 1) eid (vercel_worker v) ''vercel-sandbox'' (''vercel-'' @ uuid_str eid) d1 = (marked, d2)"
    by (rule prod.exhaust)
  have lost: "\<not> marked \<and> d2 = d1"
    using inv m
  proof (cases rule: mark_running_cases)
    case (running r' det)
    then show ?thesis using r assms(4) by (simp add: running_guard_def)
  qed simp
  have "vercel_commit v 0 (vercel_claim v eid) d = (Inr (Some pkg), d1)"
    using assms(3,5) by (simp add: vercel_commit_def)
  moreover have "vercel_execute v pkg d1 = (Inr (), d1)"
    using assms(3,6,7) m lost held(2) by (simp add: vercel_execute_def vercel_commit_def Let_def)
  ultimately show ?thesis
    using assms(2) r(1,2) by (auto simp: dispatch_vercel_execution_def settled_def terminal_execution_statuses_def)
qed

theorem vercel_dispatch_keeps_plane:
  assumes "reachable d" "\<forall>n d. exec_step\<^sup>*\<^sup>* d (vs_others v n d)" "dispatch_vercel_execution v eid d = (r, d')"
  shows "reachable d' \<and> exec_inv d' \<and> attempts_logged d'"
proof -
  have "reachable d'"
    using assms(1) dispatch_steps [OF assms(2,3)] unfolding reachable_def by (rule rtranclp_trans)
  then show ?thesis using reachable_inv by blast
qed

section \<open>Samples\<close>

text \<open>A site whose VM prints a text, with a clock that stands still after the claim.\<close>

definition sample_site :: "timestamp \<Rightarrow> string result \<Rightarrow> vercel_site" where
  "sample_site t printed = \<lparr>vs_enabled = True, vs_deployment = ''d'', vs_lease_seconds = 0,
     vs_env = (\<lambda>n. sample_env (if n = 0 then 2000 else t)), vs_others = (\<lambda>n d. d),
     vs_python = (\<lambda>payload timeout. printed), vs_sql = (\<lambda>payload timeout. printed), vs_ast = (\<lambda>t. None),
     vs_evidence_fails = (\<lambda>pkg p e d. False)\<rparr>"

lemma sample_site_claim:
  obtains pkg d1 payload where "vercel_claim (sample_site t printed) 1 (vs_env (sample_site t printed) 0) sample_queued = Inr (Some pkg, d1)"
    "dp_language pkg = ''python''" "sandbox_request sample_lib pkg = Inr payload"
proof -
  let ?v = "sample_site t printed"
  obtain claim d1 where c: "claim_for_dispatch (sample_env 2000) 1 (vercel_worker ?v) (vercel_lease ?v) sample_queued = Inr (Some claim, d1)"
    and rows: "requests d1 = [claim_row (sample_env 2000) (vercel_worker ?v) (vercel_lease ?v)
      (new_request_row (sample_env 1000) 7 1 sample_request)]" "payloads d1 = payloads sample_queued"
    by (simp add: claim_for_dispatch_def validate_lease_deadline_def Let_def sample_queued_requests claim_guard_def append_event_def
        update_where_def sample_site_def sample_env_def vercel_lease_def)
  obtain pkg where pkg: "load_dispatch_package 1 d1 = Inr pkg" "dp_language pkg = ''python''" "dp_attempt_count pkg = 1"
    "dp_input_payload pkg = [(''tests'', JList [])]"
    by (simp add: load_dispatch_package_def row_with_def rows sample_queued_payloads claim_row_def new_request_row_def
        sample_request_def optional_object_dict_def)
  have "vs_env ?v 0 = sample_env 2000" by (simp add: sample_site_def)
  moreover obtain payload where "sandbox_request sample_lib pkg = Inr payload"
    using pkg(2-4) by (simp add: sandbox_request_def object_list_def jget_Cons)
  ultimately show thesis using that c pkg(1,2) by (simp add: vercel_claim_def)
qed

lemma sample_undisturbed: "\<forall>n d. vs_others (sample_site t printed) n d = d" "vs_enabled (sample_site t printed)"
  by (simp_all add: sample_site_def)

theorem late_vercel_run_is_dropped_witness:
  "\<exists>d1. dispatch_vercel_execution (sample_site (200 * 10 ^ 6) (Inr ''log'')) 1 sample_queued = (Inr (), d1) \<and> \<not> settled 1 d1"
proof -
  let ?v = "sample_site (200 * 10 ^ 6) (Inr ''log'')"
  obtain pkg d1 payload where s: "vercel_claim ?v 1 (vs_env ?v 0) sample_queued = Inr (Some pkg, d1)" "dp_language pkg = ''python''"
    "sandbox_request sample_lib pkg = Inr payload" by (rule sample_site_claim)
  have l: "lib (vs_env ?v 1) = sample_lib" by (simp add: sample_site_def sample_env_def)
  have "vercel_lease ?v \<le> db_now (vs_env ?v 1)" by (simp add: sample_site_def sample_env_def vercel_lease_def)
  moreover have "run_in_vm ?v (lib (vs_env ?v 1)) pkg payload = Inr ''log''"
    by (simp add: run_in_vm_def s(2)) (simp add: sample_site_def)
  ultimately show ?thesis
    using late_vercel_run_is_dropped [OF sample_reachable(1) sample_undisturbed(2,1) _ s(1)] s(3) l by metis
qed

theorem vercel_dispatch_settles_witness:
  "\<exists>d'. dispatch_vercel_execution (sample_site 3000 (Inl (Exn VercelSandboxErr ''down''))) 1 sample_queued = (Inr (), d') \<and> settled 1 d'"
proof -
  let ?v = "sample_site 3000 (Inl (Exn VercelSandboxErr ''down''))"
  obtain pkg d1 payload where s: "vercel_claim ?v 1 (vs_env ?v 0) sample_queued = Inr (Some pkg, d1)" "dp_language pkg = ''python''"
    "sandbox_request sample_lib pkg = Inr payload" by (rule sample_site_claim)
  have quiet: "\<forall>n. db_now (vs_env ?v n) < vercel_lease ?v" by (simp add: sample_site_def sample_env_def vercel_lease_def)
  obtain r d' where run: "dispatch_vercel_execution ?v 1 sample_queued = (r, d')" by (rule prod.exhaust)
  have "settled 1 d' \<or> (\<exists>x. r = Inl x \<and> \<not> vercel_handled x)"
    by (rule vercel_dispatch_settles [OF sample_reachable(1) sample_undisturbed(2,1) quiet s(1) run])
  moreover have "r = Inr ()"
  proof -
    have held: "held ?v pkg Dispatching d1" "dp_execution_id pkg = 1"
      using claim_holds [OF _ s(1)] reachable_inv [OF sample_reachable(1)] by simp_all
    have "lib (vs_env ?v 1) = sample_lib" by (simp add: sample_site_def sample_env_def)
    then have "vercel_execute ?v pkg d1 = (Inl (Exn VercelSandboxErr ''down''), d1)"
      using s(2,3) by (simp add: vercel_execute_def run_in_vm_def) (simp add: sample_site_def)
    from handled_failure_settles [OF _ sample_undisturbed(2) s(1) held(2) this _ held(1)] show ?thesis
      using run sample_undisturbed(1) quiet by (auto simp: vercel_handled_def) (simp add: sample_site_def)
  qed
  ultimately show ?thesis using run by auto
qed

theorem vercel_dispatch_keeps_plane_witness:
  "\<exists>d'. reachable d' \<and> snd (dispatch_vercel_execution (sample_site 3000 (Inr ''log'')) 1 sample_queued) = d'"
proof -
  have "\<forall>n d. exec_step\<^sup>*\<^sup>* d (vs_others (sample_site 3000 (Inr ''log'')) n d)" by (simp add: sample_undisturbed)
  from vercel_dispatch_keeps_plane [OF sample_reachable(1) this] show ?thesis by (metis prod.collapse)
qed

end
