(* ===== verification/Execution_Progress.thy ===== *)
theory Execution_Progress imports Interview_Guarantees begin

text \<open>
  The competency evidence of a coding submission (\<open>attachment_progress_patch.py\<close>). Importing that
  module replaces \<open>finalize_submission\<close> by one that also writes evidence and mastery; only the process
  of the API (\<open>main.py\<close>) imports it, and with it the hosted executor, whereas the controller runs
  \<open>finalize_submission\<close> as it is. The two tables are those the mock interviews write to; none of the
  tables of \<open>db\<close> is changed here.
\<close>

section \<open>The evidence of one submission\<close>

text \<open>A row of \<open>question_competencies\<close>, and the two tables.\<close>

record question_competency =
  qk_question :: uuid
  qk_competency :: uuid
  qk_is_primary :: bool
  qk_confidence :: rat

record progress =
  evidence_rows :: "competency_evidence_row list"
  progress_mastery :: "mastery_row list"

definition async_readiness_version :: string where
  "async_readiness_version = ''weighted-evidence-v2-async''"

text \<open>\<open>int(signals.get(key) or 0)\<close>\<close>

definition signal_total :: "jobj \<Rightarrow> string \<Rightarrow> int result" where
  "signal_total signals key = py_int (py_or (jget signals key) (JInt 0))"

definition submission_confidence :: "int \<Rightarrow> int \<Rightarrow> rat" where
  "submission_confidence public_total hidden_total =
     min (lit 95 100) (fadd (fadd (lit 45 100) (fmul (lit 5 100) (of_int public_total))) (fmul (lit 7 100) (of_int hidden_total)))"

definition competency_weight :: "question_competency \<Rightarrow> rat" where
  "competency_weight k = fmul (fl (qk_confidence k)) (if qk_is_primary k then 1 else lit 75 100)"

definition coding_evidence ::
  "env \<Rightarrow> pg_numeric \<Rightarrow> dispatch_package \<Rightarrow> uuid \<Rightarrow> submission_evaluation_row \<Rightarrow> jobj \<Rightarrow> rat \<Rightarrow> question_competency \<Rightarrow>
     competency_evidence_row" where
  "coding_evidence e pg pkg sid ev signals confidence k =
     \<lparr>ce_organization = dp_organization_id pkg, ce_candidate = dp_candidate_id pkg, ce_competency = qk_competency k,
      ce_source_type = ''CODING_SUBMISSION'', ce_source_id = uuid_str sid, ce_score = pg_column pg (se_overall ev),
      ce_confidence = pg_column pg confidence, ce_weight = pg_column pg (competency_weight k),
      ce_evaluator_version = se_evaluator_version ev, ce_observed_at = db_now e,
      ce_evidence = JObj [(''submission_id'', JStr (uuid_str sid)), (''execution_id'', JStr (uuid_str (dp_execution_id pkg))),
        (''runtime'', JStr (dp_runtime pkg)), (''deterministic_signals'', JObj signals)]\<rparr>"

text \<open>The constraints of the evidence table: the ranges of its columns and one row per candidate,
  source and competency.\<close>

definition evidence_allowed :: "competency_evidence_row \<Rightarrow> competency_evidence_row list \<Rightarrow> bool" where
  "evidence_allowed row rows \<longleftrightarrow> unit_value (ce_score row) \<and> unit_value (ce_confidence row) \<and>
     0 < ce_weight row \<and> ce_weight row \<le> 1 \<and>
     \<not> list_ex (\<lambda>r. ce_candidate r = ce_candidate row \<and> ce_source_type r = ce_source_type row \<and>
        ce_source_id r = ce_source_id row \<and> ce_competency r = ce_competency row) rows"

definition store_mastery ::
  "env \<Rightarrow> dispatch_package \<Rightarrow> uuid \<Rightarrow> rat \<Rightarrow> rat \<Rightarrow> int \<Rightarrow> timestamp option \<Rightarrow> mastery_row list \<Rightarrow> mastery_row list" where
  "store_mastery e pkg cid mastery confidence n newest rows =
     (let hit = (\<lambda>r. cm_candidate r = dp_candidate_id pkg \<and> cm_competency r = cid) in
      if list_ex hit rows
      then update_where hit (\<lambda>r. r\<lparr>cm_mastery := mastery, cm_confidence := confidence, cm_evidence_count := n,
          cm_last_evidence_at := newest, cm_calculation_version := async_readiness_version, cm_updated_at := db_now e\<rparr>) rows
      else rows @ [\<lparr>cm_organization = dp_organization_id pkg, cm_candidate = dp_candidate_id pkg, cm_competency = cid,
          cm_mastery = mastery, cm_confidence = confidence, cm_evidence_count = n, cm_last_evidence_at = newest,
          cm_calculation_version = async_readiness_version, cm_updated_at = db_now e\<rparr>])"

definition write_competency ::
  "env \<Rightarrow> pg_numeric \<Rightarrow> dispatch_package \<Rightarrow> (question_competency \<Rightarrow> competency_evidence_row) \<Rightarrow> question_competency \<Rightarrow>
     progress \<Rightarrow> progress result" where
  "write_competency e pg pkg row k g =
     (if \<not> evidence_allowed (row k) (evidence_rows g) then Inl (Exn IntegrityErr ''candidate_competency_evidence'')
      else let rows = evidence_rows g @ [row k];
             own = filter (\<lambda>r. ce_candidate r = dp_candidate_id pkg \<and> ce_competency r = qk_competency k) rows;
             confidence = pg_saturation pg (map (\<lambda>r. (ce_confidence r, ce_weight r)) own)
        in case pg_mean pg (map (\<lambda>r. (ce_score r, ce_confidence r, ce_weight r)) own) of
          None \<Rightarrow> Inl (Exn IntegrityErr ''mastery'')
        | Some mastery \<Rightarrow>
            if \<not> unit_value mastery \<or> \<not> unit_value confidence then Inl (Exn IntegrityErr ''ck_candidate_mastery'')
            else Inr (g\<lparr>evidence_rows := rows, progress_mastery := store_mastery e pkg (qk_competency k) mastery confidence
              (int (length own)) (Some (Max (set (map ce_observed_at own)))) (progress_mastery g)\<rparr>))"

fun write_competencies ::
  "env \<Rightarrow> pg_numeric \<Rightarrow> dispatch_package \<Rightarrow> (question_competency \<Rightarrow> competency_evidence_row) \<Rightarrow> question_competency list \<Rightarrow>
     progress \<Rightarrow> progress result" where
  "write_competencies e pg pkg row [] g = Inr g"
| "write_competencies e pg pkg row (k # ks) g =
     res_bind (write_competency e pg pkg row k g) (write_competencies e pg pkg row ks)"

definition evidence_exists :: "dispatch_package \<Rightarrow> uuid \<Rightarrow> progress \<Rightarrow> bool" where
  "evidence_exists pkg sid g \<longleftrightarrow> list_ex (\<lambda>r. ce_candidate r = dp_candidate_id pkg \<and>
     ce_source_type r = ''CODING_SUBMISSION'' \<and> ce_source_id r = uuid_str sid) (evidence_rows g)"

definition competencies_of :: "question_competency list \<Rightarrow> uuid \<Rightarrow> db \<Rightarrow> question_competency list" where
  "competencies_of links vid d = (case row_with qv_id vid (question_versions d) of None \<Rightarrow> []
     | Some v \<Rightarrow> filter (\<lambda>k. qk_question k = qv_question v) links)"

text \<open>The evaluation stored last is the latest one.\<close>

definition write_progress ::
  "env \<Rightarrow> pg_numeric \<Rightarrow> question_competency list \<Rightarrow> dispatch_package \<Rightarrow> db \<Rightarrow> progress \<Rightarrow> progress result" where
  "write_progress e pg links pkg d g =
     (case dp_submission_id pkg of None \<Rightarrow> Inr g
      | Some sid \<Rightarrow>
        if dp_execution_type pkg \<noteq> ''SUBMIT'' then Inr g
        else if evidence_exists pkg sid g then Inr g
        else case find (\<lambda>r. se_submission r = sid) (rev (submission_evaluations d)) of None \<Rightarrow> Inr g
        | Some ev \<Rightarrow>
            let signals = optional_object_dict (se_deterministic_signals ev) in
            res_bind (signal_total signals ''public_total'') (\<lambda>public_total.
            res_bind (signal_total signals ''hidden_total'') (\<lambda>hidden_total.
            write_competencies e pg pkg
              (coding_evidence e pg pkg sid ev signals (submission_confidence public_total hidden_total))
              (competencies_of links (dp_question_version_id pkg) d) g)))"

text \<open>The replaced function.\<close>

definition patched_finalize ::
  "env \<Rightarrow> ast_counts \<Rightarrow> pg_numeric \<Rightarrow> question_competency list \<Rightarrow> dispatch_package \<Rightarrow> projection \<Rightarrow> db \<Rightarrow> progress \<Rightarrow>
     (db \<times> progress) result" where
  "patched_finalize e ast pg links pkg p d g =
     (let d1 = finalize_submission e ast pkg p d in
      res_bind (write_progress e pg links pkg d1 g) (\<lambda>g1. Inr (d1, g1)))"

text \<open>What the site of the hosted executor (\<open>vs_evidence_fails\<close>) takes from it.\<close>

definition evidence_fails ::
  "pg_numeric \<Rightarrow> question_competency list \<Rightarrow> progress \<Rightarrow> dispatch_package \<Rightarrow> projection \<Rightarrow> env \<Rightarrow> db \<Rightarrow> bool" where
  "evidence_fails pg links g pkg p e d \<longleftrightarrow> isl (write_progress e pg links pkg d g)"

section \<open>What it writes\<close>

lemma write_competency_Inr:
  "write_competency e pg pkg row k g = Inr g' \<Longrightarrow>
     evidence_rows g' = evidence_rows g @ [row k] \<and> evidence_allowed (row k) (evidence_rows g)"
  by (auto simp: write_competency_def Let_def split: if_splits option.splits)

lemma write_competencies_Inr:
  assumes "write_competencies e pg pkg row ks g = Inr g'"
  shows "evidence_rows g' = evidence_rows g @ map row ks \<and> (\<forall>k\<in>set ks. \<exists>rows. evidence_allowed (row k) rows)"
  using assms
proof (induction ks arbitrary: g)
  case (Cons k ks)
  then obtain g1 where g1: "write_competency e pg pkg row k g = Inr g1" "write_competencies e pg pkg row ks g1 = Inr g'"
    by (auto elim: res_bind_InrE)
  show ?case using write_competency_Inr [OF g1(1)] Cons.IH [OF g1(2)] by auto
qed simp

lemma write_progress_cases:
  assumes "write_progress e pg links pkg d g = Inr g'"
  obtains (unchanged) "g' = g" "\<And>e. write_progress e pg links pkg d g = Inr g"
  | (written) sid ev signals confidence where "dp_submission_id pkg = Some sid" "dp_execution_type pkg = ''SUBMIT''"
      "\<not> evidence_exists pkg sid g" "find (\<lambda>r. se_submission r = sid) (rev (submission_evaluations d)) = Some ev"
      "write_competencies e pg pkg (coding_evidence e pg pkg sid ev signals confidence)
         (competencies_of links (dp_question_version_id pkg) d) g = Inr g'"
proof (cases "\<exists>sid ev. dp_submission_id pkg = Some sid \<and> dp_execution_type pkg = ''SUBMIT'' \<and> \<not> evidence_exists pkg sid g \<and>
    find (\<lambda>r. se_submission r = sid) (rev (submission_evaluations d)) = Some ev")
  case True
  then obtain sid ev where go: "dp_submission_id pkg = Some sid" "dp_execution_type pkg = ''SUBMIT''" "\<not> evidence_exists pkg sid g"
    "find (\<lambda>r. se_submission r = sid) (rev (submission_evaluations d)) = Some ev" by blast
  then obtain public_total hidden_total where "write_competencies e pg pkg (coding_evidence e pg pkg sid ev
      (optional_object_dict (se_deterministic_signals ev)) (submission_confidence public_total hidden_total))
      (competencies_of links (dp_question_version_id pkg) d) g = Inr g'"
    using assms by (auto simp: write_progress_def Let_def elim!: res_bind_InrE)
  then show thesis by (rule written [OF go])
next
  case False
  then have skip: "write_progress e pg links pkg d g = Inr g" for e
    by (auto simp: write_progress_def split: option.split)
  then show thesis using assms by (intro unchanged) simp_all
qed

text \<open>New evidence is one well-formed row per competency of the question, none is changed or lost.\<close>

theorem coding_evidence_well_formed:
  assumes "write_progress e pg links pkg d g = Inr g'"
  shows "\<exists>new. evidence_rows g' = evidence_rows g @ new \<and> (\<forall>c\<in>set new. competency_row_ok c) \<and>
    (new \<noteq> [] \<longrightarrow> map ce_competency new = map qk_competency (competencies_of links (dp_question_version_id pkg) d))"
  using assms
proof (cases rule: write_progress_cases)
  case (written sid ev signals confidence)
  let ?row = "coding_evidence e pg pkg sid ev signals confidence" and ?ks = "competencies_of links (dp_question_version_id pkg) d"
  have "competency_row_ok (?row k)" if "\<exists>rows. evidence_allowed (?row k) rows" for k
    using that by (auto simp: evidence_allowed_def competency_row_ok_def) (simp add: coding_evidence_def)
  moreover have "map ce_competency (map ?row ?ks) = map qk_competency ?ks" by (simp add: coding_evidence_def)
  ultimately show ?thesis
    using write_competencies_Inr [OF written(5)] by (intro exI [of _ "map ?row ?ks"]) auto
qed simp

text \<open>Finalising again, as after a lost acknowledgement, changes neither the tables nor the evidence.\<close>

theorem patched_finalize_again:
  assumes "patched_finalize e ast pg links pkg p d g = Inr (d', g')"
  shows "d' = finalize_submission e ast pkg p d \<and> patched_finalize e2 ast2 pg links pkg p2 d' g' = Inr (d', g')"
proof -
  have d': "d' = finalize_submission e ast pkg p d" and w: "write_progress e pg links pkg d' g = Inr g'"
    using assms by (auto simp: patched_finalize_def Let_def elim!: res_bind_InrE)
  have same: "finalize_submission e2 ast2 pkg p2 d' = d'" unfolding d' by (rule finalize_submission_again) simp_all
  have "write_progress e2 pg links pkg d' g' = Inr g'"
    using w
  proof (cases rule: write_progress_cases)
    case unchanged
    then show ?thesis by simp
  next
    case (written sid ev signals confidence)
    let ?ks = "competencies_of links (dp_question_version_id pkg) d'"
    note rows = conjunct1 [OF write_competencies_Inr [OF written(5)]]
    show ?thesis
    proof (cases ?ks)
      case Nil
      then have "g' = g" using written(5) by simp
      then show ?thesis using w written(1-4) Nil
        by (auto simp: write_progress_def Let_def elim!: res_bind_InrE)
    next
      case (Cons k ks)
      then have "evidence_exists pkg sid g'"
        using rows by (simp add: evidence_exists_def coding_evidence_def)
      then show ?thesis using written(1) by (simp add: write_progress_def)
    qed
  qed
  then show ?thesis using d' same by (simp add: patched_finalize_def)
qed

text \<open>A competency of confidence zero, which the table of the questions allows, has weight zero, which
  the table of the evidence refuses: the exception takes the whole finalisation with it.\<close>

theorem zero_confidence_is_refused:
  assumes "qk_confidence k = 0" "pg_column pg 0 = 0"
  shows "write_competency e pg pkg (coding_evidence e pg pkg sid ev signals confidence) k g =
    Inl (Exn IntegrityErr ''candidate_competency_evidence'')"
proof -
  have "fl 0 = 0" using fl_of_int [of 0] by simp
  then have "ce_weight (coding_evidence e pg pkg sid ev signals confidence k) = 0"
    using assms by (simp add: coding_evidence_def competency_weight_def fmul_def)
  then show ?thesis by (simp add: write_competency_def evidence_allowed_def)
qed

theorem zero_confidence_is_refused_witness:
  "write_competency (sample_env 1) \<lparr>pg_column = (\<lambda>x. x), pg_mean = (\<lambda>rows. Some 0), pg_saturation = (\<lambda>rows. 0)\<rparr> pkg
     (coding_evidence (sample_env 1) \<lparr>pg_column = (\<lambda>x. x), pg_mean = (\<lambda>rows. Some 0), pg_saturation = (\<lambda>rows. 0)\<rparr> pkg 1
        (new_evaluation_row 1 (evaluation_of [] p)) [] 0)
     \<lparr>qk_question = 50, qk_competency = 60, qk_is_primary = True, qk_confidence = 0\<rparr>
     \<lparr>evidence_rows = [], progress_mastery = []\<rparr> = Inl (Exn IntegrityErr ''candidate_competency_evidence'')"
  by (rule zero_confidence_is_refused) simp_all

end
