(* ===== verification/Spec2Isabelle.thy ===== *)
theory Spec2Isabelle imports
  Content_Guarantees Execution_Capability Pr_Guarantees Arena_Guarantees Interview_Guarantees
  Vercel_Guarantees Execution_Progress
begin

text \<open>
  A model of the backend of the RIGOR practice platform (\<open>src/apps/api/src/rigor_api\<close>).

  \<^bold>\<open>The program.\<close> Candidates work on published questions in practice sessions and run or submit
  code. The API stores an execution request, the encrypted work package and an outbox row in one
  transaction; a publisher moves outbox rows to a queue; controllers claim executions under a lease,
  start sandboxes, watch them, compare the runner's answers with the trusted expected ones, store the
  outcome and finalise submission and session. The questions come from content packages that a
  synchroniser writes to the tables and that reviewers approve before they are published. Beside
  this, candidates review prepared pull requests and are graded by rule, answer scripted mock
  interviews that leave competency evidence, and let a language model write code for a published
  question whose evaluation moves their public rating.

  \<^bold>\<open>How the code is represented.\<close> A table is a list of records (one field per column the code
  reads or writes), the database a record of tables (\<open>db\<close>, extended to \<open>content_db\<close>). An operation
  takes an environment \<open>env\<close> (clock of the process, \<open>CURRENT_TIMESTAMP\<close> of the transaction, user and
  organisation of the session) and the tables, and returns \<open>exn + result\<close>: every raise of the
  source is a value \<open>Inl (Exn class message)\<close>. A transaction that raises has no effect. Ids of new
  rows are arguments. Standard library functions whose text the properties do not depend on
  (\<open>float.__repr__\<close>, SHA-256, \<open>json.loads\<close>, the AST of a candidate's module) are arguments:
  \<open>pylib\<close>, \<open>top_functions\<close>, and so are the provider call of the arena and the arithmetic of
  PostgreSQL's \<open>numeric\<close> columns (\<open>pg_numeric\<close>, with its laws in \<open>pg_ok\<close>). Timestamps count
  microseconds. Rows other sessions commit are explicit: \<open>seen\<close> parameters where a
  statement may read an earlier state (the creation of a request, the transitions of a session, and
  the count of the active executions, which the API takes without a lock), \<open>locked\<close> sets for \<open>SKIP LOCKED\<close>, and for the controller a
  \<open>world\<close> whose tables other sessions change between any two of its transactions.

  \<^bold>\<open>Theories.\<close>
  \<^item> \<open>Rigor_Prelude\<close>: exceptions, results, tables and SQL's three-valued comparisons.
    \<open>Py_Json\<close>: JSON values, dict access, canonical text, string methods. \<open>Py_Float\<close>: binary64
    rounding on rationals (locale \<open>rounding\<close>), \<open>round\<close>, \<open>int / int\<close>. \<open>Py_Sum\<close>: the compensated
    \<open>sum\<close> of floats and its error.
  \<^item> \<open>Execution_State\<close>: rows of the execution, practice and question tables
    (\<open>database/migrations\<close>). \<open>Execution_Domain\<close>, \<open>Execution_Repository\<close>, \<open>Execution_Log\<close>:
    \<open>execution_domain.py\<close>, its status machine, and the invariant that log, state, attempts and
    completion agree. \<open>Execution_Outbox\<close>: \<open>outbox.py\<close>, \<open>execution_publisher.py\<close> (a publisher locale).
    \<open>Execution_Claims\<close>: \<open>execution_claims.py\<close>. \<open>Execution_Trust\<close>, \<open>Execution_Results\<close>:
    \<open>execution_results.py\<close>. \<open>Execution_Submission\<close>: \<open>execution_submission.py\<close>. \<open>Execution_Contracts\<close>,
    \<open>Execution_Queue\<close>, \<open>Execution_Dlq\<close>: events, local queue, \<open>execution_dlq.py\<close>.
    \<open>Execution_Controller\<close>: \<open>execution_controller.py\<close> in the state \<open>world\<close>. \<open>Execution_Steps\<close>: every
    database operation of the plane as one step relation, its reachable states and their
    invariant. \<open>Execution_Safety\<close>, \<open>Execution_Guarantees\<close>: the properties that rest on it;
    \<open>Execution_Sample\<close>: a concrete execution for the witnesses.
  \<^item> \<open>Python_Runner\<close>, \<open>Sql_Runner\<close>: \<open>services/python-runner/runner.py\<close>,
    \<open>services/sql-runner/runner.py\<close>. \<open>Vercel_Dispatch\<close>: the hosted executor, with the two runners it
    uploads (\<open>vercel_sandbox_execution.py\<close>) and the dispatch the routes call
    (\<open>vercel_sandbox_runtime.py\<close>; the dispatch of the other module is the same with another client). \<open>Runner_Contract\<close>: the locale \<open>runner\<close>, what a runner promises
    the parser of its results, interpreted on the Python, the SQL and the uploaded Python runner.
    \<open>Runner_Guarantees\<close>, \<open>Vercel_Guarantees\<close>: their agreement with API and trusted side, and the
    dispatch of the hosted executor as steps of the plane. \<open>Execution_Progress\<close>:
    \<open>attachment_progress_patch.py\<close>, the competency evidence that the process of the API (not the
    controller) writes after \<open>finalize_submission\<close>; it changes no table of \<open>db\<close>, and to the hosted
    dispatch it is only a further transaction that may fail (\<open>vs_evidence_fails\<close>).
  \<^item> \<open>Practice_Sessions\<close>: \<open>practice.py\<close>. \<open>Execution_Api\<close>: \<open>execution_api.py\<close>. \<open>Practice_Lifecycle\<close>:
    session operations and execution API as a transition system, refining an abstract session
    machine (\<open>session_change\<close>). \<open>Practice_Guarantees\<close>, \<open>Api_Guarantees\<close>: what candidates get.
    \<open>Execution_Capability\<close>: \<open>execution_capability.py\<close> and its agreement with the API.
  \<^item> \<open>Content_Review\<close>: \<open>reviews.py\<close> and the identities and audit of \<open>persistence.py\<close>.
    \<open>Content_Sync\<close>: \<open>content_sync.py\<close>. \<open>Content_Lifecycle\<close>: their transition system with the
    abstract changes \<open>review_change\<close>, \<open>sync_change\<close>. \<open>Content_Guarantees\<close>: who has approved what
    candidates are served.
  \<^item> \<open>Pr_Review\<close>: \<open>pr_review_domain.py\<close>, \<open>pr_review_routes.py\<close>. \<open>Pr_Guarantees\<close>: its row types.
  \<^item> \<open>Arena\<close>: \<open>ai_arena_domain.py\<close>, \<open>ai_arena_provider.py\<close>, \<open>ai_arena_routes.py\<close>.
    \<open>Arena_Guarantees\<close>: its transition system and the ledger behind a rating.
  \<^item> \<open>Mock_Interview\<close>, \<open>Interview_Sessions\<close>: \<open>mock_interview_domain.py\<close>,
    \<open>mock_interview_routes.py\<close>. \<open>Interview_Guarantees\<close>: its transition system, which refines the
    template played with the candidate's answers (\<open>transcript\<close>).

  \<^bold>\<open>The properties.\<close> Executions: legal and final states, one successful claim, fencing of superseded
  workers, no acknowledged request left queued, recovery after a lost lease, termination of the
  monitor, delays of the publisher; as theorems beside them idempotent creation, cancellation and
  accounting of the publisher. Results: no answer reaches the sandbox or the candidate, bounded logs,
  counts that add up. Queues: replay without loss over any two queues with the laws of the
  interface (SQS is outside the repository; the local queue keeps them, with a fresh id for each
  send), round trip of the event. Runners: what they print is accepted with the tests in order where
  the log fits into 256 KiB and has no U+0085, and which requests they accept. Hosted executor: a claimed
  request settles within its lease.
  Sessions and API: consistent columns and history, refinement of the machine, requests that are
  replayed while their session is open, limits on active work as far as the count sees (with
  \<open>concurrent_runs_exceed_backpressure\<close>: six runs that all count none are all active), dispatchable
  requests, the capability. Content: two independent approvals
  behind every served version. Pull request review: well-formed rows and total grading.
  Arena: a rating is the sum of the improvements of the best scores. Mock interviews: the script,
  and answers that are never refused or lost. Some
  properties state what the code does where it is not what it means to do (a run with hidden tests,
  a stale pause, a rollback, concurrent finalisations, a refused runner input, a line break in an
  answer, invocation modes, a run that outlasts its lease).

  \<^bold>\<open>Bounds and fuel.\<close> \<open>monitor_loop\<close> runs on fuel; \<open>monitor_terminates\<close> shows that the polls that
  cover the deadline are enough. Loops over batches, tests and comments are structural recursion.
  \<open>2 ** n\<close> becomes a float below 1024 attempts only: both sides of this bound are properties. The
  compensated sum is proved to stay in range for up to \<open>2 ^ 20\<close> summands.

  \<^bold>\<open>Not modelled.\<close> Row-level security beyond the user filter of the queries, permission checks of the
  routes and the validation pydantic does before a handler runs; column lengths (where a request
  can exceed one it is a finding); code points above 255; logging, HTTP, SQS signing, Kubernetes
  manifests, the child processes of the runners with their resource limits and import filter, the
  database server of the SQL runner and the API of the VM service, which are arguments or input and output; concurrent transactions
  beyond the parameters named above. Outside the modelled parts: ingestion and knowledge
  base, source registry, contributor submissions, tutor, accounts and billing, scripts and the web frontend.
\<close>

end
